(* ===== verification/Rmpc_Prelude.thy ===== *)
theory Rmpc_Prelude
  imports Main "HOL-Library.Word" "HOL-Library.Sublist"
begin

text \<open>
  Shared vocabulary of the development: the machine-integer types of the Rust sources, the
  result and state-and-error types every component uses, decimal printing, and the lemma
  collections (\<open>io_simps\<close> for the sequencing of fallible effects, \<open>sat_simps\<close> for saturating
  arithmetic) that carry the component proofs.
\<close>

section \<open>Machine integers and byte strings\<close>

type_synonym byte = "8 word"
type_synonym bytes = "8 word list"
type_synonym u8 = "8 word"
type_synonym u16 = "16 word"
type_synonym u32 = "32 word"
type_synonym u64 = "64 word"
type_synonym u128 = "128 word"
type_synonym u256 = "256 word"
type_synonym b256 = "256 word"
type_synonym address = "160 word"

named_theorems sat_simps
named_theorems io_simps
named_theorems frame_intros

definition saturating_add :: "'a::len word \<Rightarrow> 'a word \<Rightarrow> 'a word" where
  "saturating_add a b = (if unat a + unat b < 2 ^ LENGTH('a) then a + b else - 1)"

definition saturating_mul :: "'a::len word \<Rightarrow> 'a word \<Rightarrow> 'a word" where
  "saturating_mul a b = (if unat a * unat b < 2 ^ LENGTH('a) then a * b else - 1)"

definition saturating_sub :: "'a::len word \<Rightarrow> 'a word \<Rightarrow> 'a word" where
  "saturating_sub a b = (if b \<le> a then a - b else 0)"

section \<open>Sequencing of fallible effects\<close>

text \<open>
  A Rust function that returns \<open>Result<T, E>\<close> and has effects is a function from the world
  to a result (\<open>Inl\<close> the error) and the new world; \<open>bindM\<close> is the \<open>?\<close> operator, \<open>handleM\<close> a
  \<open>match\<close> on the error, \<open>failM\<close> an early return.
\<close>

type_synonym ('s, 'e, 'a) io = "'s \<Rightarrow> ('e + 'a) \<times> 's"

definition retM :: "'a \<Rightarrow> ('s, 'e, 'a) io" where
  "retM x = (\<lambda>s. (Inr x, s))"

definition failM :: "'e \<Rightarrow> ('s, 'e, 'a) io" where
  "failM e = (\<lambda>s. (Inl e, s))"

definition bindM :: "('s, 'e, 'a) io \<Rightarrow> ('a \<Rightarrow> ('s, 'e, 'b) io) \<Rightarrow> ('s, 'e, 'b) io" where
  "bindM m f = (\<lambda>s. case m s of (Inl e, s') \<Rightarrow> (Inl e, s') | (Inr x, s') \<Rightarrow> f x s')"

definition handleM :: "('s, 'e, 'a) io \<Rightarrow> ('e \<Rightarrow> ('s, 'f, 'a) io) \<Rightarrow> ('s, 'f, 'a) io" where
  "handleM m h = (\<lambda>s. case m s of (Inl e, s') \<Rightarrow> h e s' | (Inr x, s') \<Rightarrow> (Inr x, s'))"

definition thenM :: "('s, 'e, unit) io \<Rightarrow> ('s, 'e, 'b) io \<Rightarrow> ('s, 'e, 'b) io" where
  "thenM m k = bindM m (\<lambda>_. k)"

definition liftR :: "'e + 'a \<Rightarrow> ('s, 'e, 'a) io" where
  "liftR r = (\<lambda>s. (r, s))"

definition modifyM :: "('s \<Rightarrow> 's) \<Rightarrow> ('s, 'e, unit) io" where
  "modifyM f = (\<lambda>s. (Inr (), f s))"

definition getM :: "('s \<Rightarrow> 'a) \<Rightarrow> ('s, 'e, 'a) io" where
  "getM f = (\<lambda>s. (Inr (f s), s))"

text \<open>\<open>if c { return Err(e) }\<close>\<close>

definition refuse_if :: "bool \<Rightarrow> 'e \<Rightarrow> ('s, 'e, unit) io" where
  "refuse_if c e = (if c then failM e else retM ())"

text \<open>\<open>r.map_err(f)\<close>\<close>

definition map_err :: "('e \<Rightarrow> 'f) \<Rightarrow> 'e + 'a \<Rightarrow> 'f + 'a" where
  "map_err f r = (case r of Inl e \<Rightarrow> Inl (f e) | Inr x \<Rightarrow> Inr x)"

text \<open>The \<open>?\<close> operator on plain results.\<close>

definition andThen :: "'e + 'a \<Rightarrow> ('a \<Rightarrow> 'e + 'b) \<Rightarrow> 'e + 'b" where
  "andThen r f = (case r of Inl e \<Rightarrow> Inl e | Inr x \<Rightarrow> f x)"

text \<open>Decimal printing of unsigned integers (\<open>to_string\<close>, \<open>format!("{}")\<close>).\<close>

definition digit_char :: "nat \<Rightarrow> char" where
  "digit_char d = char_of (48 + d)"

fun show_nat :: "nat \<Rightarrow> string" where
  "show_nat n = (if n < 10 then [digit_char n] else show_nat (n div 10) @ [digit_char (n mod 10)])"

declare show_nat.simps [simp del]

definition show_word :: "'a::len word \<Rightarrow> string" where
  "show_word w = show_nat (unat w)"

text \<open>\<open>s.strip_prefix(p).unwrap_or(s)\<close>\<close>

definition strip_prefix_or_self :: "string \<Rightarrow> string \<Rightarrow> string" where
  "strip_prefix_or_self p s = (if take (length p) s = p then drop (length p) s else s)"

text \<open>ASCII white space, \<open>str::trim\<close> and \<open>s.trim().is_empty()\<close>.\<close>

definition is_space :: "char \<Rightarrow> bool" where
  "is_space c \<longleftrightarrow> of_char c \<in> {9, 10, 11, 12, 13, 32 :: nat}"

definition trim :: "string \<Rightarrow> string" where
  "trim s = rev (dropWhile is_space (rev (dropWhile is_space s)))"

definition is_blank :: "string \<Rightarrow> bool" where
  "is_blank s = list_all is_space s"

text \<open>\<open>Path::join\<close>: an absolute component replaces the path, else one separator is inserted.\<close>

definition path_join :: "string \<Rightarrow> string \<Rightarrow> string" where
  "path_join base part =
     (if part \<noteq> [] \<and> hd part = CHR ''/'' then part
      else if base = [] \<or> last base = CHR ''/'' then base @ part
      else base @ ''/'' @ part)"

text \<open>\<open>u64::from_str_radix(s, 16)\<close>, with the standard library's error texts.\<close>

definition hex_digit :: "char \<Rightarrow> nat option" where
  "hex_digit c =
     (let n = of_char c :: nat in
      if 48 \<le> n \<and> n \<le> 57 then Some (n - 48)
      else if 97 \<le> n \<and> n \<le> 102 then Some (n - 87)
      else if 65 \<le> n \<and> n \<le> 70 then Some (n - 55)
      else None)"

fun hex_digits :: "string \<Rightarrow> nat \<Rightarrow> string + nat" where
  "hex_digits [] acc = Inr acc"
| "hex_digits (c # cs) acc =
     (case hex_digit c of
        None \<Rightarrow> Inl ''invalid digit found in string''
      | Some d \<Rightarrow>
          if 16 * acc + d < 2 ^ 64 then hex_digits cs (16 * acc + d)
          else Inl ''number too large to fit in target type'')"

definition u64_from_hex :: "string \<Rightarrow> string + u64" where
  "u64_from_hex s =
     (if s = [] then Inl ''cannot parse integer from empty string''
      else (case hex_digits (if hd s = CHR ''+'' \<and> tl s \<noteq> [] then tl s else s) 0 of
        Inl e \<Rightarrow> Inl e | Inr n \<Rightarrow> Inr (of_nat n)))"

section \<open>Laws of the sequencing operators\<close>

lemma bindM_Inr_iff [io_simps]:
  "bindM m f s = (Inr y, s') \<longleftrightarrow> (\<exists>x s1. m s = (Inr x, s1) \<and> f x s1 = (Inr y, s'))"
  by (auto simp: bindM_def split: prod.splits sum.splits)

lemma bindM_Inl_iff [io_simps]:
  "bindM m f s = (Inl e, s') \<longleftrightarrow>
     m s = (Inl e, s') \<or> (\<exists>x s1. m s = (Inr x, s1) \<and> f x s1 = (Inl e, s'))"
  by (auto simp: bindM_def split: prod.splits sum.splits)

lemma handleM_Inr_iff [io_simps]:
  "handleM m h s = (Inr y, s') \<longleftrightarrow>
     m s = (Inr y, s') \<or> (\<exists>e s1. m s = (Inl e, s1) \<and> h e s1 = (Inr y, s'))"
  by (auto simp: handleM_def split: prod.splits sum.splits)

lemma handleM_Inl_iff [io_simps]:
  "handleM m h s = (Inl e, s') \<longleftrightarrow> (\<exists>e' s1. m s = (Inl e', s1) \<and> h e' s1 = (Inl e, s'))"
  by (auto simp: handleM_def split: prod.splits sum.splits)

lemma retM_iff [io_simps]: "retM x s = (r, s') \<longleftrightarrow> Inr x = r \<and> s' = s"
  by (auto simp: retM_def)

lemma failM_iff [io_simps]: "failM e s = (r, s') \<longleftrightarrow> Inl e = r \<and> s' = s"
  by (auto simp: failM_def)

lemma liftR_iff [io_simps]: "liftR r s = (r', s') \<longleftrightarrow> r = r' \<and> s' = s"
  by (auto simp: liftR_def)

lemma getM_iff [io_simps]: "getM f s = (r, s') \<longleftrightarrow> Inr (f s) = r \<and> s' = s"
  by (auto simp: getM_def)

lemma modifyM_iff [io_simps]: "modifyM f s = (r, s') \<longleftrightarrow> r = Inr () \<and> s' = f s"
  by (auto simp: modifyM_def)

lemma refuse_if_Inr_iff [io_simps]: "refuse_if c e s = (Inr u, s') \<longleftrightarrow> \<not> c \<and> s' = s"
  by (auto simp: refuse_if_def io_simps)

lemma refuse_if_Inl_iff [io_simps]: "refuse_if c e s = (Inl e', s') \<longleftrightarrow> c \<and> e' = e \<and> s' = s"
  by (auto simp: refuse_if_def io_simps)

lemma thenM_Inr_iff [io_simps]:
  "thenM m k s = (Inr y, s') \<longleftrightarrow> (\<exists>s1. m s = (Inr (), s1) \<and> k s1 = (Inr y, s'))"
  by (auto simp: thenM_def io_simps)

lemma thenM_Inl_iff [io_simps]:
  "thenM m k s = (Inl e, s') \<longleftrightarrow>
     m s = (Inl e, s') \<or> (\<exists>s1. m s = (Inr (), s1) \<and> k s1 = (Inl e, s'))"
  by (auto simp: thenM_def io_simps)

lemma andThen_Inr_iff [io_simps]: "andThen r f = Inr y \<longleftrightarrow> (\<exists>x. r = Inr x \<and> f x = Inr y)"
  by (cases r) (auto simp: andThen_def)

lemma andThen_Inl_iff [io_simps]:
  "andThen r f = Inl e \<longleftrightarrow> r = Inl e \<or> (\<exists>x. r = Inr x \<and> f x = Inl e)"
  by (cases r) (auto simp: andThen_def)

lemma map_err_Inr_iff [io_simps]: "map_err f r = Inr y \<longleftrightarrow> r = Inr y"
  by (cases r) (auto simp: map_err_def)

lemma map_err_Inl_iff [io_simps]: "map_err f r = Inl e \<longleftrightarrow> (\<exists>e'. r = Inl e' \<and> e = f e')"
  by (cases r) (auto simp: map_err_def)

lemma bindM_assoc: "bindM (bindM m f) g = bindM m (\<lambda>x. bindM (f x) g)"
  by (rule ext) (auto simp: bindM_def split: prod.splits sum.splits)

lemma bindM_cases:
  assumes "bindM m f w = (r, w')"
  obtains (failed) e where "m w = (Inl e, w')" "r = Inl e"
  | (continued) x w1 where "m w = (Inr x, w1)" "f x w1 = (r, w')"
proof (cases "m w")
  case (Pair q w1)
  show thesis
  proof (cases q)
    case (Inl e)
    then show ?thesis using Pair assms failed by (simp add: bindM_def)
  next
    case (Inr x)
    then show ?thesis using Pair assms continued by (simp add: bindM_def)
  qed
qed

lemma case_sum_run_iff:
  "(case r of Inl e \<Rightarrow> f e | Inr x \<Rightarrow> g x) w = (q, w') \<longleftrightarrow>
     (\<exists>e. r = Inl e \<and> f e w = (q, w')) \<or> (\<exists>x. r = Inr x \<and> g x w = (q, w'))"
  by (cases r) auto

text \<open>Evaluation rules: one step of a run on a concrete state.\<close>

lemma bindM_eval: "bindM m f s = (case m s of (Inl e, s') \<Rightarrow> (Inl e, s') | (Inr x, s') \<Rightarrow> f x s')"
  by (simp add: bindM_def)

lemma handleM_eval: "handleM m h s = (case m s of (Inl e, s') \<Rightarrow> h e s' | (Inr x, s') \<Rightarrow> (Inr x, s'))"
  by (simp add: handleM_def)

lemmas io_eval = bindM_eval handleM_eval thenM_def retM_def failM_def liftR_def modifyM_def
  getM_def refuse_if_def map_err_def andThen_def

section \<open>Effect disciplines\<close>

text \<open>
  A preorder on worlds is an effect discipline: a computation obeys it when every run of it,
  successful or not, moves along the preorder. The operators preserve any discipline, so a
  component proves a discipline once for its primitive effects and gets it for every composed
  command.
\<close>

definition obeys :: "('s \<Rightarrow> 's \<Rightarrow> bool) \<Rightarrow> ('s, 'e, 'a) io \<Rightarrow> bool" where
  "obeys R m \<longleftrightarrow> (\<forall>s. R s (snd (m s)))"

locale effect_discipline =
  fixes R :: "'s \<Rightarrow> 's \<Rightarrow> bool"
  assumes discipline_refl: "R s s"
    and discipline_trans: "R s t \<Longrightarrow> R t u \<Longrightarrow> R s u"
begin

lemma obeys_retM [intro, simp]: "obeys R (retM x)"
  by (simp add: obeys_def retM_def discipline_refl)

lemma obeys_failM [intro, simp]: "obeys R (failM e)"
  by (simp add: obeys_def failM_def discipline_refl)

lemma obeys_liftR [intro, simp]: "obeys R (liftR r)"
  by (simp add: obeys_def liftR_def discipline_refl)

lemma obeys_getM [intro, simp]: "obeys R (getM f)"
  by (simp add: obeys_def getM_def discipline_refl)

lemma obeys_refuse_if [intro, simp]: "obeys R (refuse_if c e)"
  by (simp add: refuse_if_def)

lemma obeys_modifyM: "(\<And>s. R s (f s)) \<Longrightarrow> obeys R (modifyM f)"
  by (simp add: obeys_def modifyM_def)

lemma obeys_bindM [intro]:
  assumes "obeys R m" and "\<And>x. obeys R (f x)"
  shows "obeys R (bindM m f)"
proof -
  have "R s (snd (bindM m f s))" for s
  proof (cases "m s")
    case (Pair r s')
    have m: "R s s'" using assms(1) Pair by (metis obeys_def snd_conv)
    show ?thesis
    proof (cases r)
      case (Inl e)
      then show ?thesis using Pair m by (simp add: bindM_def)
    next
      case (Inr x)
      have "R s' (snd (f x s'))" using assms(2) by (simp add: obeys_def)
      then show ?thesis using Pair Inr m by (auto simp: bindM_def intro: discipline_trans)
    qed
  qed
  then show ?thesis by (simp add: obeys_def)
qed

lemma obeys_thenM [intro]: "obeys R m \<Longrightarrow> obeys R k \<Longrightarrow> obeys R (thenM m k)"
  unfolding thenM_def by (rule obeys_bindM)

lemma obeys_handleM [intro]:
  assumes "obeys R m" and "\<And>e. obeys R (h e)"
  shows "obeys R (handleM m h)"
proof -
  have "R s (snd (handleM m h s))" for s
  proof (cases "m s")
    case (Pair r s')
    have m: "R s s'" using assms(1) Pair by (metis obeys_def snd_conv)
    show ?thesis
    proof (cases r)
      case (Inl e)
      have "R s' (snd (h e s'))" using assms(2) by (simp add: obeys_def)
      then show ?thesis using Pair Inl m by (auto simp: handleM_def intro: discipline_trans)
    next
      case (Inr x)
      then show ?thesis using Pair m by (simp add: handleM_def)
    qed
  qed
  then show ?thesis by (simp add: obeys_def)
qed

lemma obeysD: "obeys R m \<Longrightarrow> m s = (r, s') \<Longrightarrow> R s s'"
  by (metis obeys_def snd_conv)

lemmas obeys_intros = obeys_retM obeys_failM obeys_liftR obeys_getM obeys_refuse_if
  obeys_bindM obeys_thenM obeys_handleM

end

section \<open>Saturating arithmetic\<close>

lemma unat_max: "unat (- 1 :: 'a::len word) = 2 ^ LENGTH('a) - 1"
  by (simp add: unsigned_minus_1_eq_mask mask_eq_exp_minus_1)

lemma unat_saturating_add [sat_simps]:
  fixes a b :: "'a::len word"
  shows "unat (saturating_add a b) = min (unat a + unat b) (2 ^ LENGTH('a) - 1)"
proof (cases "unat a + unat b < 2 ^ LENGTH('a)")
  case True
  then show ?thesis by (simp add: saturating_add_def unat_word_ariths)
next
  case False
  then show ?thesis by (simp add: saturating_add_def unat_max)
qed

lemma unat_saturating_mul [sat_simps]:
  fixes a b :: "'a::len word"
  shows "unat (saturating_mul a b) = min (unat a * unat b) (2 ^ LENGTH('a) - 1)"
proof (cases "unat a * unat b < 2 ^ LENGTH('a)")
  case True
  then show ?thesis by (simp add: saturating_mul_def unat_word_ariths)
next
  case False
  then show ?thesis by (simp add: saturating_mul_def unat_max)
qed

lemma unat_saturating_sub [sat_simps]: "unat (saturating_sub a b) = unat a - unat b"
proof (cases "b \<le> a")
  case True
  then show ?thesis by (simp add: saturating_sub_def unat_sub)
next
  case False
  then have "unat a \<le> unat b" by (simp add: word_le_nat_alt)
  then show ?thesis using False by (simp add: saturating_sub_def)
qed

lemma saturating_add_le_iff:
  fixes a b c :: "'a::len word"
  assumes "c < - 1"
  shows "saturating_add a b \<le> c \<longleftrightarrow> unat a + unat b \<le> unat c"
proof -
  have "unat c < 2 ^ LENGTH('a) - 1"
    using assms by (simp add: word_less_nat_alt unat_max)
  then show ?thesis by (auto simp: word_le_nat_alt unat_saturating_add)
qed

section \<open>Decimal printing\<close>

lemma show_nat_nonempty: "show_nat n \<noteq> []"
  by (subst show_nat.simps) simp

lemma digit_char_inj: "d < 10 \<Longrightarrow> d' < 10 \<Longrightarrow> digit_char d = digit_char d' \<Longrightarrow> d = d'"
  by (simp add: digit_char_def)

lemma show_nat_inj: "show_nat m = show_nat n \<Longrightarrow> m = n"
proof (induction m arbitrary: n rule: less_induct)
  case (less m)
  have e: "show_nat m = (if m < 10 then [digit_char m] else show_nat (m div 10) @ [digit_char (m mod 10)])"
    "show_nat n = (if n < 10 then [digit_char n] else show_nat (n div 10) @ [digit_char (n mod 10)])"
    by (subst show_nat.simps, rule refl)+
  consider "m < 10" "n < 10" | "m < 10 \<longleftrightarrow> \<not> n < 10" | "\<not> m < 10" "\<not> n < 10" by blast
  then show ?case
  proof cases
    case 3
    then have d: "show_nat (m div 10) = show_nat (n div 10)" "digit_char (m mod 10) = digit_char (n mod 10)"
      using less.prems e by simp_all
    have "m div 10 = n div 10" using less.IH [OF _ d(1)] 3(1) by simp
    moreover have "m mod 10 = n mod 10" using digit_char_inj [OF _ _ d(2)] by simp
    ultimately show ?thesis by (metis div_mult_mod_eq)
  qed (use less.prems e show_nat_nonempty show_nat_nonempty [THEN not_sym] digit_char_inj in \<open>auto split: if_splits\<close>)
qed

end
