(* ===== verification/Rmpc_Errors.thy ===== *)
theory Rmpc_Errors
  imports Rmpc_Prelude
begin

text \<open>
  The operator-visible error catalogue (\<open>errors.rs\<close>): the variants of \<open>RmpcError\<close>, their
  \<open>Display\<close> text, and the three variant-name tables the commands print
  (\<open>error_name\<close> of \<open>deposit.rs\<close>, \<open>withdraw.rs\<close> and \<open>self_check.rs\<close>).
\<close>

section \<open>Variants\<close>

datatype io_kind = WouldBlock | OtherKind

datatype io_error = IoError (io_kind: io_kind) (io_text: string)

datatype RmpcError =
    ErrAgentNotAuthorized
  | ErrFeeCapExceeded
  | ErrConcurrentInvocation
  | ErrCodeHashMismatch
  | ErrChainIdMismatch
  | ErrGatewayPaused
  | ErrAllowanceInsufficient
  | ErrBalanceInsufficient
  | ErrSoftwareSignerDisallowed
  | ErrProductionSignerRequired
  | ErrOrderIdAlreadySubmitted string
  | ErrTxReverted string
  | ErrAgentDepositLogMissing string
  | ErrVaultPaused
  | ErrWithdrawCapExceeded
  | ErrShareBalanceInsufficient
  | ErrShareAllowanceInsufficient
  | ErrAgentWithdrawLogMissing string
  | ErrConfig string
  | ErrIo io_error
  | ErrTomlParse string
  | ErrRpcTransport string
  | ErrRpcServer int string
  | ErrRpcDecode string

type_synonym 'a result = "RmpcError + 'a"

section \<open>Display\<close>

definition show_int :: "int \<Rightarrow> string" where
  "show_int i = (if i < 0 then CHR ''-'' # show_nat (nat (- i)) else show_nat (nat i))"

fun display :: "RmpcError \<Rightarrow> string" where
  "display ErrAgentNotAuthorized =
     ''ErrAgentNotAuthorized: agent address is not registered with the gateway''"
| "display ErrFeeCapExceeded =
     ''ErrFeeCapExceeded: computed maxFeePerGas exceeds operator-configured cap''"
| "display ErrConcurrentInvocation =
     ''ErrConcurrentInvocation: another rmpc invocation already holds the agent lock''"
| "display ErrCodeHashMismatch =
     ''ErrCodeHashMismatch: keccak256(eth_getCode(gateway)) does not match pinned hash''"
| "display ErrChainIdMismatch =
     ''ErrChainIdMismatch: RPC eth_chainId does not match configured chain_id''"
| "display ErrGatewayPaused =
     ''ErrGatewayPaused: gateway contract reports paused() == true''"
| "display ErrAllowanceInsufficient =
     ''ErrAllowanceInsufficient: USDC allowance(self, gateway) < amount''"
| "display ErrBalanceInsufficient =
     ''ErrBalanceInsufficient: USDC balanceOf(self) < amount''"
| "display ErrSoftwareSignerDisallowed =
     ''ErrSoftwareSignerDisallowed: [signer].allow_software_fallback must be true''"
| "display ErrProductionSignerRequired =
     ''ErrProductionSignerRequired: Base mainnet write commands require an HSM/KMS/device-bound signer; software keystores are non-production only''"
| "display (ErrOrderIdAlreadySubmitted tx) =
     ''ErrOrderIdAlreadySubmitted: order_id was already submitted (prior tx_hash='' @ tx @ '')''"
| "display (ErrTxReverted tx) =
     ''ErrTxReverted: transaction reverted on-chain (tx_hash='' @ tx @ '')''"
| "display (ErrAgentDepositLogMissing tx) =
     ''ErrAgentDepositLogMissing: receipt has no AgentDeposit log (tx_hash='' @ tx @ '')''"
| "display ErrVaultPaused = ''ErrVaultPaused: source vault reports paused() == true''"
| "display ErrWithdrawCapExceeded =
     ''ErrWithdrawCapExceeded: shares exceed agent maxWithdrawPerPayment policy cap''"
| "display ErrShareBalanceInsufficient =
     ''ErrShareBalanceInsufficient: agent vault share balance < requested shares''"
| "display ErrShareAllowanceInsufficient =
     ''ErrShareAllowanceInsufficient: vault share allowance(agent, gateway) < requested shares''"
| "display (ErrAgentWithdrawLogMissing tx) =
     ''ErrAgentWithdrawLogMissing: receipt has no AgentWithdrawal log (tx_hash='' @ tx @ '')''"
| "display (ErrConfig m) = ''ErrConfig: configuration error: '' @ m"
| "display (ErrIo e) = ''ErrIo: I/O error: '' @ io_text e"
| "display (ErrTomlParse m) = ''ErrTomlParse: TOML parse error: '' @ m"
| "display (ErrRpcTransport m) = ''ErrRpcTransport: JSON-RPC transport error: '' @ m"
| "display (ErrRpcServer code m) =
     ''ErrRpcServer: JSON-RPC server error code='' @ show_int code @ '' message='' @ m"
| "display (ErrRpcDecode m) = ''ErrRpcDecode: JSON-RPC response decode error: '' @ m"

section \<open>Variant-name tables\<close>

fun deposit_error_name :: "RmpcError \<Rightarrow> string" where
  "deposit_error_name ErrAgentNotAuthorized = ''ErrAgentNotAuthorized''"
| "deposit_error_name ErrFeeCapExceeded = ''ErrFeeCapExceeded''"
| "deposit_error_name ErrConcurrentInvocation = ''ErrConcurrentInvocation''"
| "deposit_error_name ErrCodeHashMismatch = ''ErrCodeHashMismatch''"
| "deposit_error_name ErrChainIdMismatch = ''ErrChainIdMismatch''"
| "deposit_error_name ErrGatewayPaused = ''ErrGatewayPaused''"
| "deposit_error_name ErrAllowanceInsufficient = ''ErrAllowanceInsufficient''"
| "deposit_error_name ErrBalanceInsufficient = ''ErrBalanceInsufficient''"
| "deposit_error_name ErrSoftwareSignerDisallowed = ''ErrSoftwareSignerDisallowed''"
| "deposit_error_name ErrProductionSignerRequired = ''ErrProductionSignerRequired''"
| "deposit_error_name (ErrOrderIdAlreadySubmitted _) = ''ErrOrderIdAlreadySubmitted''"
| "deposit_error_name (ErrTxReverted _) = ''ErrTxReverted''"
| "deposit_error_name (ErrAgentDepositLogMissing _) = ''ErrAgentDepositLogMissing''"
| "deposit_error_name ErrVaultPaused = ''ErrVaultPaused''"
| "deposit_error_name ErrWithdrawCapExceeded = ''ErrWithdrawCapExceeded''"
| "deposit_error_name ErrShareBalanceInsufficient = ''ErrShareBalanceInsufficient''"
| "deposit_error_name ErrShareAllowanceInsufficient = ''ErrShareAllowanceInsufficient''"
| "deposit_error_name (ErrAgentWithdrawLogMissing _) = ''ErrAgentWithdrawLogMissing''"
| "deposit_error_name (ErrConfig _) = ''ErrConfig''"
| "deposit_error_name (ErrIo _) = ''ErrIo''"
| "deposit_error_name (ErrTomlParse _) = ''ErrTomlParse''"
| "deposit_error_name (ErrRpcTransport _) = ''ErrRpcTransport''"
| "deposit_error_name (ErrRpcServer _ _) = ''ErrRpcServer''"
| "deposit_error_name (ErrRpcDecode _) = ''ErrRpcDecode''"

fun withdraw_error_name :: "RmpcError \<Rightarrow> string" where
  "withdraw_error_name ErrAgentNotAuthorized = ''ErrAgentNotAuthorized''"
| "withdraw_error_name ErrFeeCapExceeded = ''ErrFeeCapExceeded''"
| "withdraw_error_name ErrConcurrentInvocation = ''ErrConcurrentInvocation''"
| "withdraw_error_name ErrCodeHashMismatch = ''ErrCodeHashMismatch''"
| "withdraw_error_name ErrChainIdMismatch = ''ErrChainIdMismatch''"
| "withdraw_error_name ErrGatewayPaused = ''ErrGatewayPaused''"
| "withdraw_error_name ErrAllowanceInsufficient = ''ErrAllowanceInsufficient''"
| "withdraw_error_name ErrBalanceInsufficient = ''ErrBalanceInsufficient''"
| "withdraw_error_name ErrSoftwareSignerDisallowed = ''ErrSoftwareSignerDisallowed''"
| "withdraw_error_name ErrProductionSignerRequired = ''ErrProductionSignerRequired''"
| "withdraw_error_name (ErrOrderIdAlreadySubmitted _) = ''ErrOrderIdAlreadySubmitted''"
| "withdraw_error_name (ErrTxReverted _) = ''ErrTxReverted''"
| "withdraw_error_name (ErrAgentDepositLogMissing _) = ''ErrAgentDepositLogMissing''"
| "withdraw_error_name ErrVaultPaused = ''ErrVaultPaused''"
| "withdraw_error_name ErrWithdrawCapExceeded = ''ErrWithdrawCapExceeded''"
| "withdraw_error_name ErrShareBalanceInsufficient = ''ErrShareBalanceInsufficient''"
| "withdraw_error_name ErrShareAllowanceInsufficient = ''ErrShareAllowanceInsufficient''"
| "withdraw_error_name (ErrAgentWithdrawLogMissing _) = ''ErrAgentWithdrawLogMissing''"
| "withdraw_error_name (ErrConfig _) = ''ErrConfig''"
| "withdraw_error_name (ErrIo _) = ''ErrIo''"
| "withdraw_error_name (ErrTomlParse _) = ''ErrTomlParse''"
| "withdraw_error_name (ErrRpcTransport _) = ''ErrRpcTransport''"
| "withdraw_error_name (ErrRpcServer _ _) = ''ErrRpcServer''"
| "withdraw_error_name (ErrRpcDecode _) = ''ErrRpcDecode''"

fun self_check_error_name :: "RmpcError \<Rightarrow> string" where
  "self_check_error_name ErrAgentNotAuthorized = ''ErrAgentNotAuthorized''"
| "self_check_error_name ErrFeeCapExceeded = ''ErrFeeCapExceeded''"
| "self_check_error_name ErrConcurrentInvocation = ''ErrConcurrentInvocation''"
| "self_check_error_name ErrCodeHashMismatch = ''ErrCodeHashMismatch''"
| "self_check_error_name ErrChainIdMismatch = ''ErrChainIdMismatch''"
| "self_check_error_name ErrGatewayPaused = ''ErrGatewayPaused''"
| "self_check_error_name ErrAllowanceInsufficient = ''ErrAllowanceInsufficient''"
| "self_check_error_name ErrBalanceInsufficient = ''ErrBalanceInsufficient''"
| "self_check_error_name ErrSoftwareSignerDisallowed = ''ErrSoftwareSignerDisallowed''"
| "self_check_error_name ErrProductionSignerRequired = ''ErrProductionSignerRequired''"
| "self_check_error_name (ErrConfig _) = ''ErrConfig''"
| "self_check_error_name (ErrIo _) = ''ErrIo''"
| "self_check_error_name (ErrTomlParse _) = ''ErrTomlParse''"
| "self_check_error_name (ErrRpcTransport _) = ''ErrRpcTransport''"
| "self_check_error_name (ErrRpcServer _ _) = ''ErrRpcServer''"
| "self_check_error_name (ErrRpcDecode _) = ''ErrRpcDecode''"
| "self_check_error_name (ErrTxReverted _) = ''ErrTxReverted''"
| "self_check_error_name (ErrAgentDepositLogMissing _) = ''ErrAgentDepositLogMissing''"
| "self_check_error_name (ErrOrderIdAlreadySubmitted _) = ''ErrOrderIdAlreadySubmitted''"
| "self_check_error_name ErrVaultPaused = ''ErrVaultPaused''"
| "self_check_error_name ErrWithdrawCapExceeded = ''ErrWithdrawCapExceeded''"
| "self_check_error_name ErrShareBalanceInsufficient = ''ErrShareBalanceInsufficient''"
| "self_check_error_name ErrShareAllowanceInsufficient = ''ErrShareAllowanceInsufficient''"
| "self_check_error_name (ErrAgentWithdrawLogMissing _) = ''ErrAgentWithdrawLogMissing''"

section \<open>Lemmas\<close>

lemma withdraw_error_name_eq: "withdraw_error_name e = deposit_error_name e"
  by (cases e) simp_all

lemma self_check_error_name_eq: "self_check_error_name e = deposit_error_name e"
  by (cases e) simp_all

lemma display_prefix_name: "prefix (deposit_error_name e) (display e)"
  by (cases e) (simp_all add: prefix_def)

lemmas error_tables = withdraw_error_name_eq self_check_error_name_eq

text \<open>
  Operator tooling matches on variant names: whichever command reports an error, the
  name it prints is the same, and it is a proper prefix of the error's \<open>Display\<close> text, ended
  there by a colon (so no name is confused with a longer one that starts with it).
\<close>

theorem error_names_agree_and_prefix_display:
  "withdraw_error_name e = deposit_error_name e \<and>
   self_check_error_name e = deposit_error_name e \<and>
   prefix (deposit_error_name e @ '':'') (display e)"
  by (cases e) (simp_all add: prefix_def)

end
