(* ===== verification/Fees.thy ===== *)
theory Fees
  imports Rmpc_Errors
begin

text \<open>
  EIP-1559 fee policy (\<open>fees/mod.rs\<close>): the fee bid computed from an \<open>eth_feeHistory\<close> reply under
  the operator's two ceilings. Fees are 128-bit words, as in the source; the sum
  \<open>2 * baseFee + tip\<close> saturates.
\<close>

section \<open>Definitions\<close>

record FeeHistory =
  base_fee_per_gas :: "u128 list"
  reward :: "u128 list list option"

record FeeBid =
  max_fee_per_gas :: u128
  max_priority_fee_per_gas :: u128

definition ONE_GWEI :: u128 where
  "ONE_GWEI = 1000000000"

definition PRIORITY_FEE_FLOOR_WEI :: u128 where
  "PRIORITY_FEE_FLOOR_WEI = ONE_GWEI"

definition default_max_fee_per_gas_cap_wei :: "u64 \<Rightarrow> u64 option" where
  "default_max_fee_per_gas_cap_wei chain_id =
     (if chain_id = 1 then Some (100 * ucast ONE_GWEI)
      else if chain_id = 8453 \<or> chain_id = 84532 then Some (ucast ONE_GWEI)
      else None)"

definition UNKNOWN_CHAIN_FEE_CAP_FALLBACK_WEI :: u64 where
  "UNKNOWN_CHAIN_FEE_CAP_FALLBACK_WEI = 100 * ucast ONE_GWEI"

definition base_fee_for_next_block :: "FeeHistory \<Rightarrow> u128 result" where
  "base_fee_for_next_block fh =
     (if base_fee_per_gas fh = []
      then Inl (ErrRpcDecode ''eth_feeHistory: empty base_fee_per_gas'')
      else Inr (last (base_fee_per_gas fh)))"

definition first_tip :: "u128 list \<Rightarrow> u128 option" where
  "first_tip row = (case row of [] \<Rightarrow> None | t # _ \<Rightarrow> Some t)"

definition priority_fee_from_history :: "FeeHistory \<Rightarrow> u128" where
  "priority_fee_from_history fh =
     (case reward fh of
        None \<Rightarrow> PRIORITY_FEE_FLOOR_WEI
      | Some rewards \<Rightarrow>
          (let tips = List.map_filter first_tip rewards in
           if tips = [] then PRIORITY_FEE_FLOOR_WEI
           else let sorted_tips = sort tips;
                    median = sorted_tips ! (length sorted_tips div 2)
                in max median PRIORITY_FEE_FLOOR_WEI))"

definition compute_fees :: "FeeHistory \<Rightarrow> u128 \<Rightarrow> u128 \<Rightarrow> FeeBid result" where
  "compute_fees fee_history max_fee_cap_wei priority_cap_wei =
     andThen (base_fee_for_next_block fee_history) (\<lambda>base_fee_next.
       let priority_fee = priority_fee_from_history fee_history in
       if priority_cap_wei < priority_fee then Inl ErrFeeCapExceeded
       else
         let target = saturating_add (saturating_mul base_fee_next 2) priority_fee in
         if max_fee_cap_wei < target then Inl ErrFeeCapExceeded
         else Inr \<lparr>max_fee_per_gas = target, max_priority_fee_per_gas = priority_fee\<rparr>)"

section \<open>Lemmas\<close>

lemma priority_fee_floor: "PRIORITY_FEE_FLOOR_WEI \<le> priority_fee_from_history fh"
  by (auto simp: priority_fee_from_history_def Let_def split: option.splits)

lemma length_filter_sort: "length (filter P (sort xs)) = length (filter P xs)"
  by (metis filter_sort length_sort)

lemma sorted_prefix_count:
  assumes "sorted xs" and "k < length xs"
  shows "Suc k \<le> length (filter (\<lambda>x. x \<le> xs ! k) xs)"
proof -
  have "\<forall>x \<in> set (take (Suc k) xs). x \<le> xs ! k"
    using assms sorted_nth_mono [OF assms(1)] by (force simp: in_set_conv_nth)
  then have "filter (\<lambda>x. x \<le> xs ! k) (take (Suc k) xs) = take (Suc k) xs"
    by (simp add: filter_id_conv)
  then have "length (filter (\<lambda>x. x \<le> xs ! k) (take (Suc k) xs)) = Suc k"
    using assms(2) by simp
  moreover have "length (filter (\<lambda>x. x \<le> xs ! k) (take (Suc k) xs)) \<le>
      length (filter (\<lambda>x. x \<le> xs ! k) (take (Suc k) xs @ drop (Suc k) xs))"
    by (simp only: filter_append length_append)
  ultimately show ?thesis by simp
qed

lemma sorted_suffix_count:
  assumes "sorted xs" and "k < length xs"
  shows "length xs - k \<le> length (filter (\<lambda>x. xs ! k \<le> x) xs)"
proof -
  have "\<forall>x \<in> set (drop k xs). xs ! k \<le> x"
    using assms sorted_nth_mono [OF assms(1)] by (force simp: in_set_conv_nth)
  then have "filter (\<lambda>x. xs ! k \<le> x) (drop k xs) = drop k xs"
    by (simp add: filter_id_conv)
  then have "length (filter (\<lambda>x. xs ! k \<le> x) (drop k xs)) = length xs - k"
    by simp
  moreover have "length (filter (\<lambda>x. xs ! k \<le> x) (drop k xs)) \<le>
      length (filter (\<lambda>x. xs ! k \<le> x) (take k xs @ drop k xs))"
    by (simp only: filter_append length_append)
  ultimately show ?thesis by simp
qed

lemma compute_fees_Inr_iff:
  "compute_fees fh cap pcap = Inr bid \<longleftrightarrow>
     base_fee_per_gas fh \<noteq> [] \<and> priority_fee_from_history fh \<le> pcap \<and>
     saturating_add (saturating_mul (last (base_fee_per_gas fh)) 2) (priority_fee_from_history fh) \<le> cap \<and>
     bid = \<lparr>max_fee_per_gas = saturating_add (saturating_mul (last (base_fee_per_gas fh)) 2)
              (priority_fee_from_history fh),
            max_priority_fee_per_gas = priority_fee_from_history fh\<rparr>"
  by (auto simp: compute_fees_def base_fee_for_next_block_def Let_def io_simps)

text \<open>A ceiling that comes from a 64-bit configuration field never meets the saturation point.\<close>

lemma unat_target_small:
  fixes a b :: u128 and cap :: u64
  shows "saturating_add (saturating_mul a 2) b \<le> ucast cap \<longleftrightarrow> 2 * unat a + unat b \<le> unat cap"
    and "saturating_add (saturating_mul a 2) b \<le> ucast cap \<Longrightarrow>
         unat (saturating_add (saturating_mul a 2) b) = 2 * unat a + unat b"
proof -
  have cap: "unat (ucast cap :: u128) = unat cap"
    by (simp add: unsigned_ucast_eq take_bit_nat_eq_self order_less_le_trans [OF unsigned_less])
  have c: "unat cap < 2 ^ 64" by (rule order_less_le_trans [OF unsigned_less]) simp
  show "saturating_add (saturating_mul a 2) b \<le> ucast cap \<longleftrightarrow> 2 * unat a + unat b \<le> unat cap"
    using c by (auto simp: word_le_nat_alt cap unat_saturating_add unat_saturating_mul mult.commute)
  show "saturating_add (saturating_mul a 2) b \<le> ucast cap \<Longrightarrow>
         unat (saturating_add (saturating_mul a 2) b) = 2 * unat a + unat b"
    using c by (auto simp: word_le_nat_alt cap unat_saturating_add unat_saturating_mul mult.commute)
qed

section \<open>Properties\<close>

text \<open>
  C38. Fee bids are sound and the refusal is exact, in unbounded arithmetic, for every ceiling
  the commands can pass (a 64-bit \<open>max_fee_per_gas_cap\<close> widened to 128 bits): when the reply
  carries a next base fee, \<open>compute_fees\<close> refuses with \<open>ErrFeeCapExceeded\<close> exactly when the tip
  exceeds the priority ceiling or \<open>2 * baseFee + tip\<close> exceeds the total ceiling; otherwise it
  bids exactly \<open>2 * baseFee + tip\<close> and that tip, which is at least 1 gwei, and no arithmetic
  wraps or saturates.
\<close>

theorem compute_fees_exact:
  fixes cap :: u64
  assumes "base_fee_per_gas fh = bs @ [b]"
  shows "(compute_fees fh (ucast cap) pcap = Inl ErrFeeCapExceeded \<longleftrightarrow>
            pcap < priority_fee_from_history fh \<or>
            unat cap < 2 * unat b + unat (priority_fee_from_history fh)) \<and>
         (\<forall>bid. compute_fees fh (ucast cap) pcap = Inr bid \<longrightarrow>
            unat (max_fee_per_gas bid) = 2 * unat b + unat (max_priority_fee_per_gas bid) \<and>
            unat (max_fee_per_gas bid) \<le> unat cap \<and>
            max_priority_fee_per_gas bid = priority_fee_from_history fh \<and>
            max_priority_fee_per_gas bid \<le> pcap \<and> 1000000000 \<le> max_priority_fee_per_gas bid)"
proof -
  have last: "base_fee_per_gas fh \<noteq> []" "last (base_fee_per_gas fh) = b"
    using assms by simp_all
  show ?thesis
    using last unat_target_small [of b "priority_fee_from_history fh" cap] priority_fee_floor [of fh]
    by (auto simp: compute_fees_Inr_iff compute_fees_def base_fee_for_next_block_def Let_def io_simps
        PRIORITY_FEE_FLOOR_WEI_def ONE_GWEI_def not_le not_less split: if_splits)
qed

theorem compute_fees_exact_witness:
  "compute_fees \<lparr>base_fee_per_gas = [10000000000, 30000000000], reward = Some [[1000000000], [3000000000], [2000000000]]\<rparr>
     (ucast (100000000000 :: u64)) (- 1) \<noteq> Inl ErrFeeCapExceeded"
  using compute_fees_exact [of "\<lparr>base_fee_per_gas = [10000000000, 30000000000],
        reward = Some [[1000000000], [3000000000], [2000000000]]\<rparr>" "[10000000000]" "30000000000" "100000000000" "- 1"]
  by (simp add: priority_fee_from_history_def List.map_filter_def first_tip_def PRIORITY_FEE_FLOOR_WEI_def ONE_GWEI_def)

text \<open>
  The tip is the 1-gwei floor or a median of the per-block tips: at least half of the
  blocks reported a tip no larger, and at least half one no smaller.
\<close>

theorem priority_fee_is_median_or_floor:
  assumes "reward fh = Some rewards" and "tips = List.map_filter first_tip rewards"
    and "priority_fee_from_history fh \<noteq> PRIORITY_FEE_FLOOR_WEI"
  shows "priority_fee_from_history fh \<in> set tips \<and>
         length tips \<le> 2 * length (filter (\<lambda>t. t \<le> priority_fee_from_history fh) tips) \<and>
         length tips \<le> 2 * length (filter (\<lambda>t. priority_fee_from_history fh \<le> t) tips)"
proof -
  let ?k = "length tips div 2"
  have ne: "tips \<noteq> []" and fee: "priority_fee_from_history fh = sort tips ! ?k"
    using assms by (auto simp: priority_fee_from_history_def Let_def max_def split: if_splits)
  have k: "?k < length (sort tips)" using ne by simp
  have "sort tips ! ?k \<in> set tips" using nth_mem [OF k] by simp
  moreover have "Suc ?k \<le> length (filter (\<lambda>t. t \<le> sort tips ! ?k) tips)"
    using sorted_prefix_count [OF sorted_sort k] by (simp add: length_filter_sort)
  moreover have "length tips - ?k \<le> length (filter (\<lambda>t. sort tips ! ?k \<le> t) tips)"
    using sorted_suffix_count [OF sorted_sort k] by (simp add: length_filter_sort)
  ultimately show ?thesis unfolding fee by (intro conjI; linarith?)
qed

theorem priority_fee_is_median_or_floor_witness:
  "priority_fee_from_history \<lparr>base_fee_per_gas = [1], reward = Some [[5000000000], [3000000000], [2000000000]]\<rparr>
     \<in> set [5000000000, 3000000000, 2000000000 :: u128]"
  using priority_fee_is_median_or_floor
      [of "\<lparr>base_fee_per_gas = [1], reward = Some [[5000000000], [3000000000], [2000000000]]\<rparr>"
          "[[5000000000], [3000000000], [2000000000]]" "[5000000000, 3000000000, 2000000000]"]
  by (simp add: priority_fee_from_history_def List.map_filter_def first_tip_def PRIORITY_FEE_FLOOR_WEI_def ONE_GWEI_def)

end
