(* ===== verification/Network_Env.thy ===== *)
theory Network_Env
  imports Rmpc_Errors
begin

text \<open>
  Network classification (\<open>network_env.rs\<close>) and the production-signer gate that every write
  command passes before the keystore is decrypted (\<open>signer/mod.rs\<close>).
\<close>

section \<open>Network environments\<close>

datatype NetworkEnv = LocalDevnet | RmTestnet | ProductionBase | UnknownEnv

definition from_chain_id :: "u64 \<Rightarrow> NetworkEnv" where
  "from_chain_id chain_id =
     (if chain_id = 31337 then LocalDevnet
      else if chain_id = 84532 then RmTestnet
      else if chain_id = 8453 then ProductionBase
      else UnknownEnv)"

fun as_str :: "NetworkEnv \<Rightarrow> string" where
  "as_str LocalDevnet = ''local_devnet''"
| "as_str RmTestnet = ''rm_testnet''"
| "as_str ProductionBase = ''production_base''"
| "as_str UnknownEnv = ''unknown''"

fun human_label :: "NetworkEnv \<Rightarrow> string" where
  "human_label LocalDevnet = ''local devnet''"
| "human_label RmTestnet = ''Robot Money testnet (Base Sepolia)''"
| "human_label ProductionBase = ''[PRODUCTION] Base mainnet''"
| "human_label UnknownEnv = ''unknown chain''"

definition is_production :: "NetworkEnv \<Rightarrow> bool" where
  "is_production e = (case e of ProductionBase \<Rightarrow> True | _ \<Rightarrow> False)"

text \<open>The dash of the warning is U+2014, three bytes in UTF-8.\<close>

definition production_warning :: "NetworkEnv \<Rightarrow> string option" where
  "production_warning e =
     (if is_production e
      then Some (''WARNING: connected to production Base mainnet '' @
                 [CHR 0xE2, CHR 0x80, CHR 0x94] @ '' real assets are at risk'')
      else None)"

section \<open>Signer backends and the production gate\<close>

datatype SignerBackendKind = Software | Hsm | Kms

datatype SignerError =
    SignerDisallowed
  | ErrKeystoreIo string
  | ErrKeystoreFormat string
  | ErrKeystoreDecrypt
  | ErrPassphrase string
  | ErrSign string

definition backend_is_production_grade :: "SignerBackendKind \<Rightarrow> bool" where
  "backend_is_production_grade kind = (case kind of Hsm \<Rightarrow> True | Kms \<Rightarrow> True | Software \<Rightarrow> False)"

definition require_production_grade_for_write :: "u64 \<Rightarrow> SignerBackendKind \<Rightarrow> unit result" where
  "require_production_grade_for_write chain_id backend =
     (if is_production (from_chain_id chain_id) \<and> \<not> backend_is_production_grade backend
      then Inl ErrProductionSignerRequired
      else Inr ())"

fun backend_label :: "SignerBackendKind \<Rightarrow> string" where
  "backend_label Software = ''software''"
| "backend_label Hsm = ''hsm''"
| "backend_label Kms = ''kms''"

section \<open>Lemmas\<close>

lemma is_production_chain_iff [simp]: "is_production (from_chain_id c) \<longleftrightarrow> c = 8453"
  by (auto simp: from_chain_id_def is_production_def)

lemma require_production_grade_Inr_iff:
  "require_production_grade_for_write c b = Inr u \<longleftrightarrow> c \<noteq> 8453 \<or> b \<noteq> Software"
  by (cases b) (auto simp: require_production_grade_for_write_def backend_is_production_grade_def)

lemma as_str_inj: "as_str a = as_str b \<Longrightarrow> a = b"
  by (cases a; cases b) simp_all

text \<open>
  The gate refuses exactly the software backend on Base mainnet (chain 8453), with
  \<open>ErrProductionSignerRequired\<close>; the warning is printed on exactly the chain where the gate is
  strict; and the wire labels identify the environment.
\<close>

theorem production_gate_exact:
  "(require_production_grade_for_write c b = Inl ErrProductionSignerRequired
      \<longleftrightarrow> c = 8453 \<and> b = Software) \<and>
   (require_production_grade_for_write c b = Inr () \<longleftrightarrow> \<not> (c = 8453 \<and> b = Software)) \<and>
   (production_warning (from_chain_id c) \<noteq> None \<longleftrightarrow> c = 8453) \<and>
   (as_str (from_chain_id c) = ''production_base'' \<longleftrightarrow> c = 8453)"
  by (cases b)
    (auto simp: require_production_grade_for_write_def backend_is_production_grade_def
      production_warning_def is_production_def from_chain_id_def)

end
