(* ===== verification/Config.thy ===== *)
theory Config
  imports Fees Network_Env
begin

text \<open>
  Operator configuration (\<open>config.rs\<close>): the fields of the TOML file, the resolution of the
  effective fee ceiling and of the state directory, and the environment overrides of the log
  section. Reading and parsing the file belong to the \<open>toml\<close> crate and are parameters of the
  commands that load it. The process environment is a partial map \<open>string \<rightharpoonup> string\<close>.
\<close>

section \<open>Definitions\<close>

record SignerConfig =
  allow_software_fallback :: bool
  keystore_path :: string

record LogConfig =
  log_level :: string
  log_dir :: string
  rotate_size_mb :: u32
  keep_files :: u32

record Config =
  cfg_chain_id :: u64
  rpc_url :: string
  gateway_address :: string
  usdc_address :: string
  vault_address :: string
  registry_address :: "string option"
  router_address :: "string option"
  governance_address :: "string option"
  timelock_address :: "string option"
  gateway_runtime_hash :: string
  max_fee_per_gas_cap :: "u64 option"
  max_priority_fee_per_gas_cap :: "u64 option"
  state_dir :: "string option"
  signer :: SignerConfig
  log :: LogConfig

definition default_log_config :: "string \<Rightarrow> LogConfig" where
  "default_log_config default_log_dir =
     \<lparr>log_level = ''info'', log_dir = default_log_dir, rotate_size_mb = 10, keep_files = 14\<rparr>"

definition with_env_overrides :: "(string \<rightharpoonup> string) \<Rightarrow> LogConfig \<Rightarrow> LogConfig" where
  "with_env_overrides vars c =
     (let c1 = (case vars ''RMPC_LOG_LEVEL'' of
                  Some lvl \<Rightarrow> if lvl \<noteq> [] then c\<lparr>log_level := lvl\<rparr> else c
                | None \<Rightarrow> c)
      in case vars ''RMPC_LOG_DIR'' of
           Some dir \<Rightarrow> if dir \<noteq> [] then c1\<lparr>log_dir := dir\<rparr> else c1
         | None \<Rightarrow> c1)"

definition effective_max_fee_per_gas_cap :: "Config \<Rightarrow> u64 option \<Rightarrow> u64" where
  "effective_max_fee_per_gas_cap cfg cli_override =
     (case cli_override of
        Some v \<Rightarrow> v
      | None \<Rightarrow>
          (case max_fee_per_gas_cap cfg of
             Some v \<Rightarrow> v
           | None \<Rightarrow>
               (case default_max_fee_per_gas_cap_wei (cfg_chain_id cfg) of
                  Some v \<Rightarrow> v
                | None \<Rightarrow> UNKNOWN_CHAIN_FEE_CAP_FALLBACK_WEI)))"

definition resolve_state_dir :: "(string \<rightharpoonup> string) \<Rightarrow> Config \<Rightarrow> string result" where
  "resolve_state_dir vars cfg =
     (case vars ''RMPC_STATE_DIR'' of
        Some s \<Rightarrow>
          if s \<noteq> [] then Inr s
          else (case state_dir cfg of
                  Some p \<Rightarrow> Inr p
                | None \<Rightarrow> Inl (ErrConfig ''state_dir is not set: provide $RMPC_STATE_DIR or `state_dir = \"...\"` in the config TOML''))
      | None \<Rightarrow>
          (case state_dir cfg of
             Some p \<Rightarrow> Inr p
           | None \<Rightarrow> Inl (ErrConfig ''state_dir is not set: provide $RMPC_STATE_DIR or `state_dir = \"...\"` in the config TOML'')))"

text \<open>The priority ceiling the commands pass to \<open>compute_fees\<close>: absent means unlimited.\<close>

definition priority_cap :: "Config \<Rightarrow> u128" where
  "priority_cap cfg = (case max_priority_fee_per_gas_cap cfg of None \<Rightarrow> - 1 | Some v \<Rightarrow> ucast v)"

section \<open>Properties\<close>

text \<open>
  The state directory comes from a non-empty \<open>RMPC_STATE_DIR\<close>, else from the TOML field,
  else the command fails with \<open>ErrConfig\<close>: no other path is ever used.
\<close>

theorem resolve_state_dir_sources:
  "(resolve_state_dir vars cfg = Inr p \<longleftrightarrow>
      (p \<noteq> [] \<and> vars ''RMPC_STATE_DIR'' = Some p) \<or>
      (vars ''RMPC_STATE_DIR'' \<in> {None, Some []} \<and> state_dir cfg = Some p)) \<and>
   ((\<exists>m. resolve_state_dir vars cfg = Inl (ErrConfig m)) \<longleftrightarrow>
      vars ''RMPC_STATE_DIR'' \<in> {None, Some []} \<and> state_dir cfg = None)"
  by (auto simp: resolve_state_dir_def split: option.splits)

text \<open>
  On Base and Base Sepolia the built-in ceiling of 1 gwei equals the tip floor of 1 gwei, so
  without an explicit ceiling (command line or TOML) a fee bid exists only when the predicted
  base fee is zero: with any positive base fee every deposit and withdrawal is refused with
  \<open>ErrFeeCapExceeded\<close>.
\<close>

theorem base_default_cap_refuses_positive_base_fee:
  assumes "cfg_chain_id cfg \<in> {8453, 84532}" and "max_fee_per_gas_cap cfg = None"
    and "base_fee_per_gas fh = bs @ [b]" and "0 < b"
  shows "compute_fees fh (ucast (effective_max_fee_per_gas_cap cfg None)) pcap = Inl ErrFeeCapExceeded"
proof -
  have cap: "effective_max_fee_per_gas_cap cfg None = 1000000000"
    using assms(1,2)
    by (auto simp: effective_max_fee_per_gas_cap_def default_max_fee_per_gas_cap_wei_def ONE_GWEI_def)
  have tip: "1000000000 \<le> unat (priority_fee_from_history fh)"
    using priority_fee_floor [of fh]
    by (simp add: word_le_nat_alt PRIORITY_FEE_FLOOR_WEI_def ONE_GWEI_def)
  have base: "0 < unat b" using assms(4) by (simp add: word_less_nat_alt)
  have ne: "base_fee_per_gas fh \<noteq> []" "last (base_fee_per_gas fh) = b" using assms(3) by simp_all
  have "\<not> 2 * unat b + unat (priority_fee_from_history fh) \<le> unat (1000000000 :: u64)"
    using tip base by simp
  then show ?thesis
    unfolding cap using ne unat_target_small(1) [of b "priority_fee_from_history fh" 1000000000]
    by (simp add: compute_fees_def base_fee_for_next_block_def Let_def andThen_def not_le)
qed

definition base_cfg :: Config where
  "base_cfg = \<lparr>cfg_chain_id = 8453, rpc_url = [], gateway_address = [], usdc_address = [],
     vault_address = [], registry_address = None, router_address = None, governance_address = None,
     timelock_address = None, gateway_runtime_hash = [], max_fee_per_gas_cap = None,
     max_priority_fee_per_gas_cap = None, state_dir = None,
     signer = \<lparr>allow_software_fallback = True, keystore_path = []\<rparr>, log = default_log_config []\<rparr>"

theorem base_default_cap_refuses_positive_base_fee_witness:
  "compute_fees \<lparr>base_fee_per_gas = [7], reward = None\<rparr>
     (ucast (effective_max_fee_per_gas_cap base_cfg None)) (- 1) = Inl ErrFeeCapExceeded"
  using base_default_cap_refuses_positive_base_fee [of base_cfg "\<lparr>base_fee_per_gas = [7], reward = None\<rparr>" "[]" 7 "- 1"]
  by (simp add: base_cfg_def)

end
