(* ===== verification/External.thy ===== *)
theory External
  imports Config
begin

text \<open>
  The parts of the client's environment that are not code of the repository, as parameters: the
  record \<open>env\<close> collects the functions of third-party crates (alloy, hex, serde_json, toml,
  reqwest, argon2, aes-gcm, k256), the answers of the JSON-RPC node, and the faults and readings
  of the operating system (\<open>flock_try E n i L\<close> is the kernel's answer, \<open>None\<close> for granted, to the
  non-blocking exclusive lock request that is file-system operation \<open>n\<close>, on an open file whose inode
  is \<open>i\<close>, while the client processes hold guards on the inodes \<open>L\<close>). Every definition that uses one of them takes the record as an
  argument. The record \<open>world\<close> is the state a run of the client changes: the request counter and
  the requests sent, the clock and file-system operation counters, the files, the inode each lock
  path names (or will name once created) and the inodes of the lock guards that are alive,
  the audit log and the standard output.
\<close>

section \<open>Data exchanged with the node\<close>

datatype json =
    JNull
  | JBool bool
  | JNum int
  | JStr string
  | JArr "json list"
  | JObj "(string \<times> json) list"

record CallRequest =
  call_to :: address
  call_from :: "address option"
  call_data :: bytes

record LogFilter =
  flt_address :: address
  flt_from_block :: string
  flt_to_block :: string
  flt_topics :: "b256 list"

datatype rpc_param =
    PAddress address
  | PStr string
  | PBool bool
  | PCall CallRequest
  | PBytes bytes
  | PB256 b256
  | PPercentiles "nat list"
  | PFilter LogFilter

record JsonRpcRequest =
  jsonrpc :: string
  rpc_method :: string
  rpc_params :: "rpc_param list"
  rpc_id :: u64

datatype http_reply = SendFailed string | BodyFailed string | HttpReply nat bytes

record JsonRpcResponse =
  resp_result :: "json option"
  resp_error :: "(int \<times> string) option"

record Log =
  log_address :: address
  log_topics :: "b256 list"
  log_data :: bytes

record TransactionReceipt =
  receipt_status :: bool
  receipt_logs :: "Log list"
  receipt_block_number :: "u64 option"
  receipt_gas_used :: u128
  receipt_effective_gas_price :: u128
  receipt_from :: address
  receipt_to :: "address option"

record RawLog =
  raw_address :: address
  raw_topics :: "b256 list"
  raw_data :: bytes
  raw_block_number :: u64
  raw_transaction_hash :: b256

section \<open>Contract bindings\<close>

text \<open>
  The typed calls, return values and events that the \<open>sol!\<close> macro generates from the ABI files;
  the encoders and decoders themselves are generated code and stay parameters.
\<close>

datatype sol_call =
    GwPaused
  | GwUsdc
  | GwVault
  | GwAgents address
  | GwAgentWindowGross address u64
  | GwEffectiveDepositWindowGross address
  | GwEffectiveWithdrawWindowGross address
  | GwDeposit b256 u256 u64 b256
  | GwWithdraw b256 u256 address u64 b256
  | Erc20Allowance address address
  | Erc20BalanceOf address
  | VaultPaused
  | GwDefaultAdminRole
  | GwAdminRole
  | GwPauserRole
  | GwAgentRole
  | GwHasRole b256 address
  | VaultAsset
  | VaultName
  | VaultSymbol
  | VaultDecimals
  | VaultTotalAssets
  | VaultTotalSupply
  | RegListVaults
  | RegGetVault address
  | RouterGetWeights
  | RouterCap
  | GovCurrentProposalId
  | GovCadenceParams
  | GovCurrentWeights
  | GovActiveProposal
  | TlGetMinDelay
  | TlProposerRole
  | TlExecutorRole
  | TlGetTimestamp b256

record AgentPolicy =
  active :: bool
  validUntil :: u64
  maxPerPayment :: u256
  maxPerWindow :: u256
  shareReceiver :: address
  assetRecipient :: address
  maxWithdrawPerPayment :: u256
  maxWithdrawPerWindow :: u256

record AgentDeposit =
  dep_paymentId :: b256
  dep_orderId :: b256
  dep_agent :: address
  dep_shareReceiver :: address
  dep_amount :: u256
  dep_sharesMinted :: u256
  dep_windowId :: u64

record AgentWithdrawal =
  wd_paymentId :: b256
  wd_orderId :: b256
  wd_agent :: address
  wd_sourceVault :: address
  wd_shares :: u256
  wd_assetsOut :: u256
  wd_assetRecipient :: address
  wd_windowId :: u64

record VaultRecord =
  vr_name :: string
  vr_riskLabel :: string
  vr_mandate :: string
  vr_status :: u8
  vr_receiptToken :: address
  vr_depositCap :: u256
  vr_exitFeeBps :: u16
  vr_registeredAt :: u64

record CadenceParams =
  votingPeriod :: u64
  executionDelay :: u64
  quorumThreshold :: u256
  totalVotingPower :: u256

record ActiveProposal =
  prop_id :: u256
  prop_proposer :: address
  prop_vaults :: "address list"
  prop_bps :: "u256 list"
  prop_votingDeadline :: u64
  prop_executableAfter :: u64
  prop_votesFor :: u256
  prop_executed :: bool

section \<open>Keystore documents and signatures\<close>

record KdfParams =
  kdf_name :: string
  kdf_salt :: string
  m_cost :: u32
  t_cost :: u32
  p_cost :: u32

record CipherParams =
  cipher_name :: string
  cipher_nonce :: string
  cipher_ciphertext :: string

record Keystore =
  ks_version :: u32
  ks_kind :: string
  ks_address :: string
  ks_kdf :: KdfParams
  ks_cipher :: CipherParams

text \<open>An ECDSA signature as the curve library returns it, and the form alloy consumes.\<close>

record raw_signature =
  sig_r :: u256
  sig_s :: u256
  sig_recid :: u8

record Signature =
  alloy_r :: u256
  alloy_s :: u256
  alloy_parity :: bool

record TxEip1559 =
  tx_chain_id :: u64
  tx_nonce :: u64
  tx_gas_limit :: u64
  tx_max_fee_per_gas :: u128
  tx_max_priority_fee_per_gas :: u128
  tx_to :: address
  tx_value :: u256
  tx_access_list :: "(address \<times> b256 list) list"
  tx_input :: bytes

section \<open>The replay cache document\<close>

record Entry =
  payment_id :: string
  order_id :: string
  idempotency_key :: string
  deadline :: u64
  tx_hash :: string

record ReplayFile =
  version :: u32
  entries :: "Entry list"

section \<open>Audit records\<close>

datatype AuditDecision = Signed | Refused | Reverted | BroadcastFailed

record AuditRecord =
  aud_agent :: string
  aud_backend :: string
  aud_request_type :: string
  aud_order_id :: string
  aud_idempotency_key :: string
  aud_amount :: string
  aud_deadline :: u64
  aud_gateway :: string
  aud_chain_id :: u64
  aud_decision :: AuditDecision
  aud_rejection_reason :: "string option"
  aud_tx_hash :: "string option"
  aud_payment_id :: "string option"

section \<open>File-system operations\<close>

datatype fs_op = OpCreateDir | OpOpen | OpLock | OpRead | OpSetLen | OpSeek | OpWrite | OpFlush | OpStat | OpRename | OpRemove

section \<open>The environment\<close>

record env =
  env_vars :: "string \<rightharpoonup> string"
  clock :: "nat \<Rightarrow> u64 option"
  fs_fault :: "nat \<Rightarrow> fs_op \<Rightarrow> string \<Rightarrow> io_error option"
  write_progress :: "nat \<Rightarrow> nat"
  flock_try :: "nat \<Rightarrow> nat \<Rightarrow> nat list \<Rightarrow> io_error option"
  read_path :: "string \<Rightarrow> io_error + string"
  toml_config :: "string \<Rightarrow> string + Config"
  stdin_line :: "io_error + string"
  json_keystore :: "string \<Rightarrow> string + Keystore"
  keystore_to_json :: "Keystore \<Rightarrow> string + string"
  replay_to_json :: "ReplayFile \<Rightarrow> string + string"
  replay_from_json :: "string \<Rightarrow> string + ReplayFile"
  audit_to_json :: "AuditRecord \<Rightarrow> string + string"
  level_filter_ok :: "string \<Rightarrow> bool"
  flexi_logger_start :: "LogConfig \<Rightarrow> string + unit"
  keccak256 :: "bytes \<Rightarrow> b256"
  b256_bytes :: "b256 \<Rightarrow> bytes"
  abi_encode_sequence :: "u256 \<times> address \<times> address \<times> b256 \<times> u256 \<times> b256 \<Rightarrow> bytes"
  abi_encode :: "sol_call \<Rightarrow> bytes"
  dec_bool :: "bytes \<Rightarrow> string + bool"
  dec_u256 :: "bytes \<Rightarrow> string + u256"
  dec_address :: "bytes \<Rightarrow> string + address"
  dec_agents :: "bytes \<Rightarrow> string + AgentPolicy"
  dec_u8 :: "bytes \<Rightarrow> string + u8"
  dec_string :: "bytes \<Rightarrow> string + string"
  dec_b256 :: "bytes \<Rightarrow> string + b256"
  dec_address_list :: "bytes \<Rightarrow> string + address list"
  dec_vault_record :: "bytes \<Rightarrow> string + VaultRecord"
  dec_weights :: "bytes \<Rightarrow> string + address list \<times> u256 list"
  dec_cadence :: "bytes \<Rightarrow> string + CadenceParams"
  dec_proposal :: "bytes \<Rightarrow> string + ActiveProposal"
  b256_of_bytes :: "bytes \<Rightarrow> b256"
  hashset_iter :: "b256 set \<Rightarrow> b256 list"
  agent_deposit_topic :: b256
  dec_agent_deposit :: "b256 list \<Rightarrow> bytes \<Rightarrow> string + AgentDeposit"
  agent_withdrawal_topic :: b256
  dec_agent_withdrawal :: "b256 list \<Rightarrow> bytes \<Rightarrow> string + AgentWithdrawal"
  address_from_str :: "string \<Rightarrow> string + address"
  b256_from_str :: "string \<Rightarrow> string + b256"
  u256_from_str :: "string \<Rightarrow> string + u256"
  u256_from_str_radix10 :: "string \<Rightarrow> string + u256"
  hex_decode :: "string \<Rightarrow> string + bytes"
  hex_encode :: "bytes \<Rightarrow> string"
  address_bytes :: "address \<Rightarrow> bytes"
  address_of_bytes :: "bytes \<Rightarrow> address"
  show_address :: "address \<Rightarrow> string"
  debug_address :: "address \<Rightarrow> string"
  show_b256 :: "b256 \<Rightarrow> string"
  url_parse :: "string \<Rightarrow> string + unit"
  http_client_build :: "string + unit"
  runtime_build :: "string + unit"
  http_post :: "string \<Rightarrow> JsonRpcRequest \<Rightarrow> http_reply"
  http_status_text :: "nat \<Rightarrow> string"
  utf8_lossy :: "bytes \<Rightarrow> string"
  json_response :: "bytes \<Rightarrow> string + JsonRpcResponse"
  json_u64 :: "json \<Rightarrow> string + u64"
  json_u256 :: "json \<Rightarrow> string + u256"
  json_bytes :: "json \<Rightarrow> string + bytes"
  json_b256 :: "json \<Rightarrow> string + b256"
  json_fee_history :: "json \<Rightarrow> string + FeeHistory"
  json_receipt :: "json \<Rightarrow> string + TransactionReceipt option"
  json_raw_logs :: "json \<Rightarrow> string + RawLog list"
  argon2_params :: "u32 \<Rightarrow> u32 \<Rightarrow> u32 \<Rightarrow> string + unit"
  argon2id :: "u32 \<Rightarrow> u32 \<Rightarrow> u32 \<Rightarrow> bytes \<Rightarrow> bytes \<Rightarrow> string + bytes"
  aes_gcm_encrypt :: "bytes \<Rightarrow> bytes \<Rightarrow> bytes \<Rightarrow> bytes \<Rightarrow> string + bytes"
  aes_gcm_decrypt :: "bytes \<Rightarrow> bytes \<Rightarrow> bytes \<Rightarrow> bytes \<Rightarrow> string + bytes"
  signing_key_check :: "bytes \<Rightarrow> string + unit"
  public_point :: "bytes \<Rightarrow> bytes"
  sign_prehash :: "bytes \<Rightarrow> b256 \<Rightarrow> string + raw_signature"
  normalize_s :: "u256 \<Rightarrow> u256 option"
  signature_hash :: "TxEip1559 \<Rightarrow> b256"
  rlp_signed :: "TxEip1559 \<Rightarrow> Signature \<Rightarrow> bytes"

section \<open>The world\<close>

record world =
  next_id :: u64
  sent :: "JsonRpcRequest list"
  clock_reads :: nat
  io_count :: nat
  files :: "string \<rightharpoonup> string"
  lock_file :: "string \<Rightarrow> nat"
  locks :: "nat list"
  audit_log :: "AuditRecord list"
  stdout :: "(bool \<times> json) list"

type_synonym 'a rmpc = "(world, RmpcError, 'a) io"

text \<open>
  \<open>SystemTime::now().duration_since(UNIX_EPOCH)\<close>, 0 before the epoch: each call is a new reading
  of the clock.
\<close>

definition now_unix :: "env \<Rightarrow> (world, 'e, u64) io" where
  "now_unix E = (\<lambda>w. (Inr (case clock E (clock_reads w) of Some t \<Rightarrow> t | None \<Rightarrow> 0),
     w\<lparr>clock_reads := Suc (clock_reads w)\<rparr>))"

text \<open>One file-system call: it may fail, and each call is counted.\<close>

definition fs_call :: "env \<Rightarrow> fs_op \<Rightarrow> string \<Rightarrow> (io_error \<Rightarrow> 'e) \<Rightarrow> (world, 'e, unit) io" where
  "fs_call E op path f = (\<lambda>w.
     (case fs_fault E (io_count w) op path of Some e \<Rightarrow> Inl (f e) | None \<Rightarrow> Inr (),
      w\<lparr>io_count := Suc (io_count w)\<rparr>))"

text \<open>A request to the kernel for an exclusive lock, which does not wait.\<close>

definition flock_call :: "env \<Rightarrow> nat \<Rightarrow> (world, io_error, unit) io" where
  "flock_call E file = (\<lambda>w.
     (case flock_try E (io_count w) file (locks w) of Some e \<Rightarrow> Inl e | None \<Rightarrow> Inr (),
      w\<lparr>io_count := Suc (io_count w)\<rparr>))"

text \<open>
  What \<open>flock(2)\<close> documents of such requests: a file that is locked through another open file
  is refused with \<open>EWOULDBLOCK\<close>; a file that is not locked is granted.
\<close>

definition flock_excludes :: "env \<Rightarrow> bool" where
  "flock_excludes E \<longleftrightarrow> (\<forall>n i L. i \<in> set L \<longrightarrow> (\<exists>m. flock_try E n i L = Some (IoError WouldBlock m)))"

definition flock_grants :: "env \<Rightarrow> bool" where
  "flock_grants E \<longleftrightarrow> (\<forall>n i L. i \<notin> set L \<longrightarrow> flock_try E n i L = None)"

text \<open>\<open>Config::from_path\<close>\<close>

definition from_path :: "env \<Rightarrow> string \<Rightarrow> Config result" where
  "from_path E path =
     andThen (map_err ErrIo (read_path E path)) (\<lambda>s. map_err ErrTomlParse (toml_config E s))"

section \<open>Lemmas\<close>

lemma fs_call_Inr_iff [io_simps]:
  "fs_call E op path f w = (Inr u, w') \<longleftrightarrow>
     fs_fault E (io_count w) op path = None \<and> w' = w\<lparr>io_count := Suc (io_count w)\<rparr>"
  by (auto simp: fs_call_def split: option.splits)

lemma fs_call_Inl_iff [io_simps]:
  "fs_call E op path f w = (Inl e, w') \<longleftrightarrow>
     (\<exists>ioe. fs_fault E (io_count w) op path = Some ioe \<and> e = f ioe) \<and>
     w' = w\<lparr>io_count := Suc (io_count w)\<rparr>"
  by (auto simp: fs_call_def split: option.splits)

lemma flock_call_Inr_iff [io_simps]:
  "flock_call E file w = (Inr u, w') \<longleftrightarrow>
     flock_try E (io_count w) file (locks w) = None \<and> w' = w\<lparr>io_count := Suc (io_count w)\<rparr>"
  by (auto simp: flock_call_def split: option.splits)

lemma flock_call_Inl_iff [io_simps]:
  "flock_call E file w = (Inl e, w') \<longleftrightarrow>
     flock_try E (io_count w) file (locks w) = Some e \<and> w' = w\<lparr>io_count := Suc (io_count w)\<rparr>"
  by (auto simp: flock_call_def split: option.splits)

lemma now_unix_iff [io_simps]:
  "now_unix E w = (r, w') \<longleftrightarrow>
     Inr (case clock E (clock_reads w) of Some t \<Rightarrow> t | None \<Rightarrow> 0) = r \<and>
     w' = w\<lparr>clock_reads := Suc (clock_reads w)\<rparr>"
  by (auto simp: now_unix_def)

section \<open>Effect disciplines of the client\<close>

text \<open>
  \<open>no_broadcast\<close>: the step sends no \<open>eth_sendRawTransaction\<close> (and only appends requests).
  \<open>quiet\<close>: the step writes no audit record and prints nothing. \<open>same_files\<close>: files are untouched.
  \<open>same_locks\<close>: no guard is taken or dropped and no lock file is removed or replaced.
\<close>

definition is_broadcast :: "JsonRpcRequest \<Rightarrow> bool" where
  "is_broadcast r \<longleftrightarrow> rpc_method r = ''eth_sendRawTransaction''"

definition no_broadcast :: "world \<Rightarrow> world \<Rightarrow> bool" where
  "no_broadcast w w' \<longleftrightarrow> filter is_broadcast (sent w') = filter is_broadcast (sent w)"

definition quiet :: "world \<Rightarrow> world \<Rightarrow> bool" where
  "quiet w w' \<longleftrightarrow> audit_log w' = audit_log w \<and> stdout w' = stdout w"

definition same_files :: "world \<Rightarrow> world \<Rightarrow> bool" where
  "same_files w w' \<longleftrightarrow> files w' = files w"

definition same_locks :: "world \<Rightarrow> world \<Rightarrow> bool" where
  "same_locks w w' \<longleftrightarrow> locks w' = locks w \<and> lock_file w' = lock_file w"

definition audit_grows :: "world \<Rightarrow> world \<Rightarrow> bool" where
  "audit_grows w w' \<longleftrightarrow> prefix (audit_log w) (audit_log w') \<and> prefix (stdout w) (stdout w')"

definition broadcasts :: "world \<Rightarrow> JsonRpcRequest list" where
  "broadcasts w = filter is_broadcast (sent w)"

lemma no_broadcast_iff: "no_broadcast w w' \<longleftrightarrow> broadcasts w' = broadcasts w"
  by (simp add: no_broadcast_def broadcasts_def)

interpretation nb: effect_discipline no_broadcast
  by unfold_locales (auto simp: no_broadcast_def)

interpretation qt: effect_discipline quiet
  by unfold_locales (auto simp: quiet_def)

interpretation sf: effect_discipline same_files
  by unfold_locales (auto simp: same_files_def)

interpretation sl: effect_discipline same_locks
  by unfold_locales (auto simp: same_locks_def)

interpretation ag: effect_discipline audit_grows
  by unfold_locales (auto simp: audit_grows_def intro: prefix_order.trans)

lemma now_unix_obeys [simp]:
  "obeys no_broadcast (now_unix E)" "obeys quiet (now_unix E)" "obeys same_files (now_unix E)"
  "obeys same_locks (now_unix E)" "obeys audit_grows (now_unix E)"
  by (simp_all add: obeys_def now_unix_def no_broadcast_def quiet_def same_files_def
      same_locks_def audit_grows_def)

lemma fs_call_obeys [simp]:
  "obeys no_broadcast (fs_call E op path f)" "obeys quiet (fs_call E op path f)"
  "obeys same_files (fs_call E op path f)" "obeys same_locks (fs_call E op path f)"
  "obeys audit_grows (fs_call E op path f)"
  by (simp_all add: obeys_def fs_call_def no_broadcast_def quiet_def same_files_def
      same_locks_def audit_grows_def)

lemma flock_call_obeys [simp]:
  "obeys no_broadcast (flock_call E file)" "obeys quiet (flock_call E file)"
  by (simp_all add: obeys_def flock_call_def no_broadcast_def quiet_def)

end
