(* ===== verification/Rpc.thy ===== *)
theory Rpc
  imports External
begin

text \<open>
  The JSON-RPC client (\<open>rpc/mod.rs\<close>): request numbering, the interpretation of a reply
  (transport, HTTP status, body, error object, result) and the typed wrappers the commands use.
  The node answers through the parameter \<open>http_post\<close>; since every request carries a fresh id, two
  requests of one run may get different answers.
\<close>

section \<open>Definitions\<close>

fun show_hex_nat :: "nat \<Rightarrow> string" where
  "show_hex_nat n =
     (if n < 16 then [''0123456789abcdef'' ! n]
      else show_hex_nat (n div 16) @ [''0123456789abcdef'' ! (n mod 16)])"

declare show_hex_nat.simps [simp del]

definition hex_tag :: "u64 \<Rightarrow> string" where
  "hex_tag n = ''0x'' @ show_hex_nat (unat n)"

definition is_success :: "nat \<Rightarrow> bool" where
  "is_success status \<longleftrightarrow> 200 \<le> status \<and> status < 300"

definition decode_reply :: "env \<Rightarrow> (json \<Rightarrow> string + 'a) \<Rightarrow> http_reply \<Rightarrow> 'a result" where
  "decode_reply E dec reply =
     (case reply of
        SendFailed e \<Rightarrow> Inl (ErrRpcTransport e)
      | BodyFailed e \<Rightarrow> Inl (ErrRpcTransport e)
      | HttpReply status body \<Rightarrow>
          if \<not> is_success status
          then Inl (ErrRpcTransport (''HTTP '' @ http_status_text E status @ '': '' @ utf8_lossy E body))
          else (case json_response E body of
                  Inl e \<Rightarrow> Inl (ErrRpcDecode (''response not JSON: '' @ e))
                | Inr parsed \<Rightarrow>
                    (case resp_error parsed of
                       Some (code, message) \<Rightarrow> Inl (ErrRpcServer code message)
                     | None \<Rightarrow>
                         (let result = (case resp_result parsed of Some v \<Rightarrow> v | None \<Rightarrow> JNull) in
                          map_err (\<lambda>e. ErrRpcDecode (''result decode: '' @ e)) (dec result)))))"

definition request :: "string \<Rightarrow> rpc_param list \<Rightarrow> u64 \<Rightarrow> JsonRpcRequest" where
  "request method params i =
     \<lparr>jsonrpc = ''2.0'', rpc_method = method, rpc_params = params, rpc_id = i\<rparr>"

definition rpc_new :: "env \<Rightarrow> string \<Rightarrow> unit rmpc" where
  "rpc_new E url =
     bindM (liftR (map_err (\<lambda>e. ErrConfig (''rpc url: '' @ e)) (url_parse E url))) (\<lambda>_.
     bindM (liftR (map_err ErrRpcTransport (http_client_build E))) (\<lambda>_.
     modifyM (\<lambda>w. w\<lparr>next_id := 1\<rparr>)))"

definition rpc_call :: "env \<Rightarrow> string \<Rightarrow> string \<Rightarrow> rpc_param list \<Rightarrow> (json \<Rightarrow> string + 'a) \<Rightarrow> 'a rmpc" where
  "rpc_call E url method params dec = (\<lambda>w.
     let req = request method params (next_id w) in
     (decode_reply E dec (http_post E url req),
      w\<lparr>next_id := next_id w + 1, sent := sent w @ [req]\<rparr>))"

definition tag_or_latest :: "string option \<Rightarrow> string" where
  "tag_or_latest tag = (case tag of Some t \<Rightarrow> t | None \<Rightarrow> ''latest'')"

definition rpc_chain_id :: "env \<Rightarrow> string \<Rightarrow> u64 rmpc" where
  "rpc_chain_id E url = rpc_call E url ''eth_chainId'' [] (json_u64 E)"

definition rpc_block_number :: "env \<Rightarrow> string \<Rightarrow> u64 rmpc" where
  "rpc_block_number E url = rpc_call E url ''eth_blockNumber'' [] (json_u64 E)"

definition rpc_get_code :: "env \<Rightarrow> string \<Rightarrow> address \<Rightarrow> string option \<Rightarrow> bytes rmpc" where
  "rpc_get_code E url a tag =
     rpc_call E url ''eth_getCode'' [PAddress a, PStr (tag_or_latest tag)] (json_bytes E)"

definition rpc_get_balance :: "env \<Rightarrow> string \<Rightarrow> address \<Rightarrow> string option \<Rightarrow> u256 rmpc" where
  "rpc_get_balance E url a tag =
     rpc_call E url ''eth_getBalance'' [PAddress a, PStr (tag_or_latest tag)] (json_u256 E)"

definition rpc_get_transaction_count :: "env \<Rightarrow> string \<Rightarrow> address \<Rightarrow> string option \<Rightarrow> u64 rmpc" where
  "rpc_get_transaction_count E url a tag =
     rpc_call E url ''eth_getTransactionCount'' [PAddress a, PStr (tag_or_latest tag)] (json_u64 E)"

definition rpc_gas_price :: "env \<Rightarrow> string \<Rightarrow> u256 rmpc" where
  "rpc_gas_price E url = rpc_call E url ''eth_gasPrice'' [] (json_u256 E)"

definition rpc_fee_history :: "env \<Rightarrow> string \<Rightarrow> u64 \<Rightarrow> string \<Rightarrow> nat list \<Rightarrow> FeeHistory rmpc" where
  "rpc_fee_history E url block_count newest percentiles =
     rpc_call E url ''eth_feeHistory''
       [PStr (hex_tag block_count), PStr newest, PPercentiles percentiles] (json_fee_history E)"

definition rpc_eth_call :: "env \<Rightarrow> string \<Rightarrow> CallRequest \<Rightarrow> string option \<Rightarrow> bytes rmpc" where
  "rpc_eth_call E url req tag =
     rpc_call E url ''eth_call'' [PCall req, PStr (tag_or_latest tag)] (json_bytes E)"

definition rpc_send_raw_transaction :: "env \<Rightarrow> string \<Rightarrow> bytes \<Rightarrow> b256 rmpc" where
  "rpc_send_raw_transaction E url raw =
     rpc_call E url ''eth_sendRawTransaction'' [PBytes raw] (json_b256 E)"

definition rpc_get_transaction_receipt :: "env \<Rightarrow> string \<Rightarrow> b256 \<Rightarrow> TransactionReceipt option rmpc" where
  "rpc_get_transaction_receipt E url h =
     rpc_call E url ''eth_getTransactionReceipt'' [PB256 h] (json_receipt E)"

definition rpc_get_logs :: "env \<Rightarrow> string \<Rightarrow> LogFilter \<Rightarrow> RawLog list rmpc" where
  "rpc_get_logs E url flt = rpc_call E url ''eth_getLogs'' [PFilter flt] (json_raw_logs E)"

definition json_get :: "string \<Rightarrow> json \<Rightarrow> json option" where
  "json_get k v = (case v of JObj kvs \<Rightarrow> map_of kvs k | _ \<Rightarrow> None)"

fun trim_0x :: "string \<Rightarrow> string" where
  "trim_0x (CHR ''0'' # CHR ''x'' # s) = trim_0x s"
| "trim_0x s = s"

definition rpc_block_timestamp :: "env \<Rightarrow> string \<Rightarrow> u64 \<Rightarrow> u64 rmpc" where
  "rpc_block_timestamp E url block_number =
     bindM (rpc_call E url ''eth_getBlockByNumber'' [PStr (hex_tag block_number), PBool False] Inr) (\<lambda>v.
       case json_get ''timestamp'' v of
         Some (JStr ts_hex) \<Rightarrow>
           liftR (map_err (\<lambda>e. ErrRpcDecode (''timestamp hex: '' @ e)) (u64_from_hex (trim_0x ts_hex)))
       | _ \<Rightarrow> failM (ErrRpcDecode ''block has no timestamp''))"

section \<open>Lemmas\<close>

text \<open>What the node answers to the request with a given id.\<close>

definition answer :: "env \<Rightarrow> string \<Rightarrow> string \<Rightarrow> rpc_param list \<Rightarrow> (json \<Rightarrow> string + 'a) \<Rightarrow> u64 \<Rightarrow> 'a result" where
  "answer E url method params dec i = decode_reply E dec (http_post E url (request method params i))"

lemma rpc_call_iff [io_simps]:
  "rpc_call E url method params dec w = (r, w') \<longleftrightarrow>
     answer E url method params dec (next_id w) = r \<and>
     w' = w\<lparr>next_id := next_id w + 1, sent := sent w @ [request method params (next_id w)]\<rparr>"
  by (auto simp: rpc_call_def answer_def Let_def)

lemma rpc_call_eval:
  "rpc_call E url method params dec w =
     (answer E url method params dec (next_id w),
      w\<lparr>next_id := next_id w + 1, sent := sent w @ [request method params (next_id w)]\<rparr>)"
  by (simp add: rpc_call_def answer_def Let_def)

lemma is_broadcast_request [simp]:
  "is_broadcast (request method params i) \<longleftrightarrow> method = ''eth_sendRawTransaction''"
  by (simp add: is_broadcast_def request_def)

lemma rpc_call_obeys [simp]:
  "method \<noteq> ''eth_sendRawTransaction'' \<Longrightarrow> obeys no_broadcast (rpc_call E url method params dec)"
  "obeys quiet (rpc_call E url method params dec)"
  "obeys same_files (rpc_call E url method params dec)"
  "obeys same_locks (rpc_call E url method params dec)"
  "obeys audit_grows (rpc_call E url method params dec)"
  by (simp_all add: obeys_def rpc_call_def Let_def no_broadcast_def quiet_def same_files_def
      same_locks_def audit_grows_def)

lemma rpc_new_obeys [simp]:
  "obeys no_broadcast (rpc_new E url)" "obeys quiet (rpc_new E url)"
  "obeys same_files (rpc_new E url)" "obeys same_locks (rpc_new E url)" "obeys audit_grows (rpc_new E url)"
  unfolding rpc_new_def
  by (intro nb.obeys_intros qt.obeys_intros sf.obeys_intros sl.obeys_intros ag.obeys_intros
        nb.obeys_modifyM qt.obeys_modifyM sf.obeys_modifyM sl.obeys_modifyM ag.obeys_modifyM;
      simp add: no_broadcast_def quiet_def same_files_def same_locks_def audit_grows_def)+

lemmas rpc_wrappers = rpc_chain_id_def rpc_block_number_def rpc_get_code_def rpc_get_balance_def
  rpc_get_transaction_count_def rpc_gas_price_def rpc_fee_history_def rpc_eth_call_def
  rpc_get_transaction_receipt_def rpc_get_logs_def

section \<open>Properties\<close>

text \<open>
  A reply is accepted exactly when the exchange succeeded, the status is 2xx, the body is a
  JSON-RPC response without an error object, and its result decodes; a response with no
  \<open>result\<close> member at all is treated as \<open>result: null\<close>, so for a caller that decodes into an
  option it is indistinguishable from a pending answer.
\<close>

theorem decode_reply_accepts_iff:
  "decode_reply E dec reply = Inr v \<longleftrightarrow>
     (\<exists>status body resp. reply = HttpReply status body \<and> 200 \<le> status \<and> status < 300 \<and>
        json_response E body = Inr resp \<and> resp_error resp = None \<and>
        dec (case resp_result resp of Some r \<Rightarrow> r | None \<Rightarrow> JNull) = Inr v)"
  by (auto simp: decode_reply_def is_success_def Let_def io_simps
      split: http_reply.splits sum.splits option.splits)

end
