(* ===== verification/Preflight.thy ===== *)
theory Preflight
  imports Rpc
begin

text \<open>
  Client-side preflight (\<open>policy/mod.rs\<close>): the ten checks replayed before anything is signed, in
  the source's order, each on an answer of the node, with the deposit and the withdrawal variant.
  The second half states the policy abstractly, as a predicate on a snapshot of the answers, and
  proves that the sequential, early-returning code decides exactly that predicate.
\<close>

section \<open>Definitions\<close>

definition WINDOW_SECONDS :: u64 where
  "WINDOW_SECONDS = 86400"

record PreflightInputs =
  signer_address :: address
  amount :: u256

record PreflightReport =
  rep_chain_id :: u64
  gateway_runtime_hash_ok :: bool
  paused :: bool
  agent_active :: bool
  agent_valid_until :: u64
  max_per_payment :: u256
  max_per_window :: u256
  window_gross :: u256
  allowance :: u256
  balance :: u256

definition parse_addr :: "env \<Rightarrow> string \<Rightarrow> string \<Rightarrow> address result" where
  "parse_addr E s field = map_err (\<lambda>e. ErrConfig (field @ '': '' @ e)) (address_from_str E s)"

definition parse_b256_hex :: "env \<Rightarrow> string \<Rightarrow> bytes result" where
  "parse_b256_hex E s =
     andThen (map_err (\<lambda>e. ErrConfig (''gateway_runtime_hash: '' @ e))
                (hex_decode E (strip_prefix_or_self ''0x'' s))) (\<lambda>bs.
       if length bs \<noteq> 32
       then Inl (ErrConfig (''gateway_runtime_hash: expected 32 bytes, got '' @ show_nat (length bs)))
       else Inr bs)"

text \<open>The body all typed view helpers share: encode, \<open>eth_call\<close> at the latest block, decode.\<close>

definition view_call ::
    "env \<Rightarrow> string \<Rightarrow> address \<Rightarrow> sol_call \<Rightarrow> (bytes \<Rightarrow> string + 'a) \<Rightarrow> string \<Rightarrow> 'a rmpc" where
  "view_call E url to call dec label =
     bindM (rpc_eth_call E url \<lparr>call_to = to, call_from = None, call_data = abi_encode E call\<rparr> None) (\<lambda>out.
     liftR (map_err (\<lambda>e. ErrRpcDecode (label @ '' decode: '' @ e)) (dec out)))"

definition call_view_paused :: "env \<Rightarrow> string \<Rightarrow> address \<Rightarrow> bool rmpc" where
  "call_view_paused E url gateway = view_call E url gateway GwPaused (dec_bool E) ''paused()''"

definition call_view_usdc :: "env \<Rightarrow> string \<Rightarrow> address \<Rightarrow> address rmpc" where
  "call_view_usdc E url gateway = view_call E url gateway GwUsdc (dec_address E) ''usdc()''"

definition call_view_vault :: "env \<Rightarrow> string \<Rightarrow> address \<Rightarrow> address rmpc" where
  "call_view_vault E url gateway = view_call E url gateway GwVault (dec_address E) ''vault()''"

definition call_view_agents :: "env \<Rightarrow> string \<Rightarrow> address \<Rightarrow> address \<Rightarrow> AgentPolicy rmpc" where
  "call_view_agents E url gateway agent =
     view_call E url gateway (GwAgents agent) (dec_agents E) ''agents()''"

definition call_view_agent_window_gross :: "env \<Rightarrow> string \<Rightarrow> address \<Rightarrow> address \<Rightarrow> u64 \<Rightarrow> u256 rmpc" where
  "call_view_agent_window_gross E url gateway agent window_id =
     view_call E url gateway (GwAgentWindowGross agent window_id) (dec_u256 E) ''agentWindowGross''"

definition call_view_agent_deposit_window_gross :: "env \<Rightarrow> string \<Rightarrow> address \<Rightarrow> address \<Rightarrow> u256 rmpc" where
  "call_view_agent_deposit_window_gross E url gateway agent =
     view_call E url gateway (GwEffectiveDepositWindowGross agent) (dec_u256 E)
       ''effectiveDepositWindowGross''"

definition call_view_agent_withdraw_window_gross :: "env \<Rightarrow> string \<Rightarrow> address \<Rightarrow> address \<Rightarrow> u256 rmpc" where
  "call_view_agent_withdraw_window_gross E url gateway agent =
     view_call E url gateway (GwEffectiveWithdrawWindowGross agent) (dec_u256 E)
       ''effectiveWithdrawWindowGross''"

definition call_view_allowance :: "env \<Rightarrow> string \<Rightarrow> address \<Rightarrow> address \<Rightarrow> address \<Rightarrow> u256 rmpc" where
  "call_view_allowance E url token owner spender =
     view_call E url token (Erc20Allowance owner spender) (dec_u256 E) ''allowance''"

definition call_view_balance_of :: "env \<Rightarrow> string \<Rightarrow> address \<Rightarrow> address \<Rightarrow> u256 rmpc" where
  "call_view_balance_of E url token who =
     view_call E url token (Erc20BalanceOf who) (dec_u256 E) ''balanceOf''"

text \<open>
  Checks 1 to 6, which \<open>run_inner\<close> and \<open>run_withdraw_inner\<close> repeat word for word: chain id, code
  hash pin, pause flag, pinned USDC and vault addresses, agent authorisation and expiry.
\<close>

definition common_checks :: "env \<Rightarrow> Config \<Rightarrow> PreflightInputs \<Rightarrow> (u64 \<times> address \<times> address \<times> AgentPolicy) rmpc" where
  "common_checks E cfg inputs =
     bindM (rpc_chain_id E (rpc_url cfg)) (\<lambda>chain_id.
     bindM (refuse_if (chain_id \<noteq> cfg_chain_id cfg) ErrChainIdMismatch) (\<lambda>_.
     bindM (liftR (parse_addr E (gateway_address cfg) ''gateway_address'')) (\<lambda>gateway_addr.
     bindM (rpc_get_code E (rpc_url cfg) gateway_addr None) (\<lambda>code.
     bindM (refuse_if (code = []) ErrCodeHashMismatch) (\<lambda>_.
     bindM (liftR (parse_b256_hex E (gateway_runtime_hash cfg))) (\<lambda>expected_hash.
     bindM (refuse_if (b256_bytes E (keccak256 E code) \<noteq> expected_hash) ErrCodeHashMismatch) (\<lambda>_.
     bindM (call_view_paused E (rpc_url cfg) gateway_addr) (\<lambda>is_paused.
     bindM (refuse_if is_paused ErrGatewayPaused) (\<lambda>_.
     bindM (call_view_usdc E (rpc_url cfg) gateway_addr) (\<lambda>usdc_addr_on_chain.
     bindM (liftR (parse_addr E (usdc_address cfg) ''usdc_address'')) (\<lambda>usdc_addr_cfg.
     bindM (refuse_if (usdc_addr_on_chain \<noteq> usdc_addr_cfg)
             (ErrConfig (''gateway.usdc() = '' @ debug_address E usdc_addr_on_chain @
                         '' does not match configured usdc_address = '' @ debug_address E usdc_addr_cfg))) (\<lambda>_.
     bindM (call_view_vault E (rpc_url cfg) gateway_addr) (\<lambda>vault_addr_on_chain.
     bindM (liftR (parse_addr E (vault_address cfg) ''vault_address'')) (\<lambda>vault_addr_cfg.
     bindM (refuse_if (vault_addr_on_chain \<noteq> vault_addr_cfg)
             (ErrConfig (''gateway.vault() = '' @ debug_address E vault_addr_on_chain @
                         '' does not match configured vault_address = '' @ debug_address E vault_addr_cfg))) (\<lambda>_.
     bindM (call_view_agents E (rpc_url cfg) gateway_addr (signer_address inputs)) (\<lambda>agent.
     bindM (refuse_if (\<not> active agent) ErrAgentNotAuthorized) (\<lambda>_.
     bindM (now_unix E) (\<lambda>now.
     bindM (refuse_if (validUntil agent < now) ErrAgentNotAuthorized) (\<lambda>_.
     retM (chain_id, gateway_addr, usdc_addr_cfg, agent))))))))))))))))))))"

definition run_withdraw_inner :: "env \<Rightarrow> Config \<Rightarrow> PreflightInputs \<Rightarrow> PreflightReport rmpc" where
  "run_withdraw_inner E cfg inputs =
     bindM (common_checks E cfg inputs) (\<lambda>(chain_id, gateway_addr, usdc_addr_cfg, agent).
     bindM (refuse_if (maxWithdrawPerPayment agent < amount inputs)
             (ErrConfig (''shares '' @ show_word (amount inputs) @ '' exceeds agent maxWithdrawPerPayment '' @
                         show_word (maxWithdrawPerPayment agent)))) (\<lambda>_.
     bindM (call_view_agent_withdraw_window_gross E (rpc_url cfg) gateway_addr (signer_address inputs)) (\<lambda>gross.
     let projected = saturating_add gross (amount inputs) in
     bindM (refuse_if (maxWithdrawPerWindow agent < projected)
             (ErrConfig (''rollingWithdrawGross '' @ show_word gross @ '' + shares '' @ show_word (amount inputs) @
                         '' exceeds maxWithdrawPerWindow '' @ show_word (maxWithdrawPerWindow agent)))) (\<lambda>_.
     retM \<lparr>rep_chain_id = chain_id, gateway_runtime_hash_ok = True, paused = False,
           agent_active = active agent, agent_valid_until = validUntil agent,
           max_per_payment = maxWithdrawPerPayment agent, max_per_window = maxWithdrawPerWindow agent,
           window_gross = gross, allowance = 0, balance = 0\<rparr>))))"

definition run_inner :: "env \<Rightarrow> Config \<Rightarrow> PreflightInputs \<Rightarrow> bool \<Rightarrow> PreflightReport rmpc" where
  "run_inner E cfg inputs check_usdc =
     bindM (common_checks E cfg inputs) (\<lambda>(chain_id, gateway_addr, usdc_addr_cfg, agent).
     bindM (refuse_if (maxPerPayment agent < amount inputs)
             (ErrConfig (''amount '' @ show_word (amount inputs) @ '' exceeds agent maxPerPayment '' @
                         show_word (maxPerPayment agent)))) (\<lambda>_.
     bindM (call_view_agent_deposit_window_gross E (rpc_url cfg) gateway_addr (signer_address inputs)) (\<lambda>gross.
     let projected = saturating_add gross (amount inputs) in
     bindM (refuse_if (maxPerWindow agent < projected)
             (ErrConfig (''rollingDepositGross '' @ show_word gross @ '' + amount '' @ show_word (amount inputs) @
                         '' exceeds maxPerWindow '' @ show_word (maxPerWindow agent)))) (\<lambda>_.
     bindM (if check_usdc then
              bindM (call_view_allowance E (rpc_url cfg) usdc_addr_cfg (signer_address inputs) gateway_addr) (\<lambda>allow.
              bindM (refuse_if (allow < amount inputs) ErrAllowanceInsufficient) (\<lambda>_.
              bindM (call_view_balance_of E (rpc_url cfg) usdc_addr_cfg (signer_address inputs)) (\<lambda>bal.
              bindM (refuse_if (bal < amount inputs) ErrBalanceInsufficient) (\<lambda>_.
              retM (allow, bal)))))
            else retM (0, 0)) (\<lambda>(allow, bal).
     retM \<lparr>rep_chain_id = chain_id, gateway_runtime_hash_ok = True, paused = False,
           agent_active = active agent, agent_valid_until = validUntil agent,
           max_per_payment = maxPerPayment agent, max_per_window = maxPerWindow agent,
           window_gross = gross, allowance = allow, balance = bal\<rparr>)))))"

definition preflight_run :: "env \<Rightarrow> Config \<Rightarrow> PreflightInputs \<Rightarrow> PreflightReport rmpc" where
  "preflight_run E cfg inputs = run_inner E cfg inputs True"

definition run_gateway_only :: "env \<Rightarrow> Config \<Rightarrow> PreflightInputs \<Rightarrow> PreflightReport rmpc" where
  "run_gateway_only E cfg inputs = run_inner E cfg inputs False"

definition run_withdraw_gateway :: "env \<Rightarrow> Config \<Rightarrow> PreflightInputs \<Rightarrow> PreflightReport rmpc" where
  "run_withdraw_gateway E cfg inputs = run_withdraw_inner E cfg inputs"

section \<open>The policy, abstractly\<close>

text \<open>What the node and the clock said during one preflight.\<close>

record snapshot =
  sn_chain_id :: u64
  sn_code :: bytes
  sn_paused :: bool
  sn_usdc :: address
  sn_vault :: address
  sn_agent :: AgentPolicy
  sn_now :: u64
  sn_gross :: u256
  sn_allowance :: u256
  sn_balance :: u256

text \<open>The pinned configuration, parsed.\<close>

record pins =
  pin_chain_id :: u64
  pin_gateway :: address
  pin_usdc :: address
  pin_vault :: address
  pin_hash :: bytes

definition pinned :: "env \<Rightarrow> Config \<Rightarrow> pins \<Rightarrow> bool" where
  "pinned E cfg p \<longleftrightarrow>
     pin_chain_id p = cfg_chain_id cfg \<and>
     parse_addr E (gateway_address cfg) ''gateway_address'' = Inr (pin_gateway p) \<and>
     parse_addr E (usdc_address cfg) ''usdc_address'' = Inr (pin_usdc p) \<and>
     parse_addr E (vault_address cfg) ''vault_address'' = Inr (pin_vault p) \<and>
     parse_b256_hex E (gateway_runtime_hash cfg) = Inr (pin_hash p)"

definition gateway_authentic :: "env \<Rightarrow> pins \<Rightarrow> snapshot \<Rightarrow> bool" where
  "gateway_authentic E p sn \<longleftrightarrow>
     sn_chain_id sn = pin_chain_id p \<and> sn_code sn \<noteq> [] \<and>
     b256_bytes E (keccak256 E (sn_code sn)) = pin_hash p \<and>
     \<not> sn_paused sn \<and> sn_usdc sn = pin_usdc p \<and> sn_vault sn = pin_vault p"

definition agent_authorized :: "snapshot \<Rightarrow> bool" where
  "agent_authorized sn \<longleftrightarrow> active (sn_agent sn) \<and> sn_now sn \<le> validUntil (sn_agent sn)"

definition within_caps :: "u256 \<Rightarrow> u256 \<Rightarrow> u256 \<Rightarrow> u256 \<Rightarrow> bool" where
  "within_caps per_payment per_window gross amt \<longleftrightarrow>
     amt \<le> per_payment \<and> min (unat gross + unat amt) (2 ^ 256 - 1) \<le> unat per_window"

definition deposit_admissible :: "env \<Rightarrow> pins \<Rightarrow> u256 \<Rightarrow> snapshot \<Rightarrow> bool" where
  "deposit_admissible E p amt sn \<longleftrightarrow>
     gateway_authentic E p sn \<and> agent_authorized sn \<and>
     within_caps (maxPerPayment (sn_agent sn)) (maxPerWindow (sn_agent sn)) (sn_gross sn) amt \<and>
     amt \<le> sn_allowance sn \<and> amt \<le> sn_balance sn"

definition withdraw_admissible :: "env \<Rightarrow> pins \<Rightarrow> u256 \<Rightarrow> snapshot \<Rightarrow> bool" where
  "withdraw_admissible E p amt sn \<longleftrightarrow>
     gateway_authentic E p sn \<and> agent_authorized sn \<and>
     within_caps (maxWithdrawPerPayment (sn_agent sn)) (maxWithdrawPerWindow (sn_agent sn)) (sn_gross sn) amt"

text \<open>The answer to a typed view, as the request with id \<open>i\<close>.\<close>

definition view_answer ::
    "env \<Rightarrow> string \<Rightarrow> address \<Rightarrow> sol_call \<Rightarrow> (bytes \<Rightarrow> string + 'a) \<Rightarrow> u64 \<Rightarrow> 'a \<Rightarrow> bool" where
  "view_answer E url to call dec i v \<longleftrightarrow>
     (\<exists>out. answer E url ''eth_call''
        [PCall \<lparr>call_to = to, call_from = None, call_data = abi_encode E call\<rparr>, PStr ''latest'']
        (json_bytes E) i = Inr out \<and> dec out = Inr v)"

text \<open>The first six reads of a preflight that starts in \<open>w\<close> returned the snapshot.\<close>

definition common_reads :: "env \<Rightarrow> Config \<Rightarrow> PreflightInputs \<Rightarrow> pins \<Rightarrow> world \<Rightarrow> snapshot \<Rightarrow> bool" where
  "common_reads E cfg inputs p w sn \<longleftrightarrow>
     (let url = rpc_url cfg; gw = pin_gateway p; i = next_id w in
      answer E url ''eth_chainId'' [] (json_u64 E) i = Inr (sn_chain_id sn) \<and>
      answer E url ''eth_getCode'' [PAddress gw, PStr ''latest''] (json_bytes E) (i + 1) = Inr (sn_code sn) \<and>
      view_answer E url gw GwPaused (dec_bool E) (i + 2) (sn_paused sn) \<and>
      view_answer E url gw GwUsdc (dec_address E) (i + 3) (sn_usdc sn) \<and>
      view_answer E url gw GwVault (dec_address E) (i + 4) (sn_vault sn) \<and>
      view_answer E url gw (GwAgents (signer_address inputs)) (dec_agents E) (i + 5) (sn_agent sn) \<and>
      sn_now sn = (case clock E (clock_reads w) of Some t \<Rightarrow> t | None \<Rightarrow> 0))"

definition deposit_reads :: "env \<Rightarrow> Config \<Rightarrow> PreflightInputs \<Rightarrow> pins \<Rightarrow> world \<Rightarrow> snapshot \<Rightarrow> bool" where
  "deposit_reads E cfg inputs p w sn \<longleftrightarrow>
     common_reads E cfg inputs p w sn \<and>
     (let url = rpc_url cfg; gw = pin_gateway p; a = signer_address inputs; i = next_id w in
      view_answer E url gw (GwEffectiveDepositWindowGross a) (dec_u256 E) (i + 6) (sn_gross sn) \<and>
      view_answer E url (pin_usdc p) (Erc20Allowance a gw) (dec_u256 E) (i + 7) (sn_allowance sn) \<and>
      view_answer E url (pin_usdc p) (Erc20BalanceOf a) (dec_u256 E) (i + 8) (sn_balance sn))"

definition withdraw_reads :: "env \<Rightarrow> Config \<Rightarrow> PreflightInputs \<Rightarrow> pins \<Rightarrow> world \<Rightarrow> snapshot \<Rightarrow> bool" where
  "withdraw_reads E cfg inputs p w sn \<longleftrightarrow>
     common_reads E cfg inputs p w sn \<and>
     view_answer E (rpc_url cfg) (pin_gateway p) (GwEffectiveWithdrawWindowGross (signer_address inputs))
       (dec_u256 E) (next_id w + 6) (sn_gross sn)"

section \<open>Lemmas\<close>

lemmas view_defs = call_view_paused_def call_view_usdc_def call_view_vault_def call_view_agents_def
  call_view_agent_window_gross_def call_view_agent_deposit_window_gross_def
  call_view_agent_withdraw_window_gross_def call_view_allowance_def call_view_balance_of_def

lemma view_call_Inr_iff [io_simps]:
  "view_call E url to call dec label w = (Inr v, w') \<longleftrightarrow>
     view_answer E url to call dec (next_id w) v \<and>
     w' = w\<lparr>next_id := next_id w + 1, sent := sent w @ [request ''eth_call''
       [PCall \<lparr>call_to = to, call_from = None, call_data = abi_encode E call\<rparr>, PStr ''latest''] (next_id w)]\<rparr>"
  by (auto simp: view_call_def rpc_eth_call_def tag_or_latest_def view_answer_def io_simps)

lemma view_call_obeys [simp]:
  "obeys no_broadcast (view_call E url to call dec label)" "obeys quiet (view_call E url to call dec label)"
  "obeys same_files (view_call E url to call dec label)" "obeys same_locks (view_call E url to call dec label)"
  "obeys audit_grows (view_call E url to call dec label)"
  by (auto simp: view_call_def rpc_eth_call_def)

lemma view_answer_fun: "view_answer E url to call dec i v \<Longrightarrow> view_answer E url to call dec i v' \<Longrightarrow> v = v'"
  by (auto simp: view_answer_def)

lemma common_checks_obeys [simp]:
  "obeys no_broadcast (common_checks E cfg inputs)" "obeys quiet (common_checks E cfg inputs)"
  "obeys same_files (common_checks E cfg inputs)" "obeys same_locks (common_checks E cfg inputs)"
  "obeys audit_grows (common_checks E cfg inputs)"
  unfolding common_checks_def rpc_wrappers view_defs
  by (intro nb.obeys_intros qt.obeys_intros sf.obeys_intros sl.obeys_intros ag.obeys_intros; simp)+

lemma common_reads_later_fields [simp]:
  "common_reads E cfg inputs p w (sn\<lparr>sn_gross := g, sn_allowance := a, sn_balance := b\<rparr>) \<longleftrightarrow>
     common_reads E cfg inputs p w sn"
  "gateway_authentic E p (sn\<lparr>sn_gross := g, sn_allowance := a, sn_balance := b\<rparr>) \<longleftrightarrow> gateway_authentic E p sn"
  "agent_authorized (sn\<lparr>sn_gross := g, sn_allowance := a, sn_balance := b\<rparr>) \<longleftrightarrow> agent_authorized sn"
  by (simp_all add: common_reads_def gateway_authentic_def agent_authorized_def)

lemma common_checks_Inr_D:
  assumes "common_checks E cfg inputs w = (Inr (c, gw, us, ag), w')"
  shows "\<exists>p sn. pinned E cfg p \<and> common_reads E cfg inputs p w sn \<and> gateway_authentic E p sn \<and>
           agent_authorized sn \<and> c = sn_chain_id sn \<and> gw = pin_gateway p \<and> us = pin_usdc p \<and>
           ag = sn_agent sn \<and> next_id w' = next_id w + 6"
proof -
  from assms obtain code usdc vault hash where h:
      "answer E (rpc_url cfg) ''eth_chainId'' [] (json_u64 E) (next_id w) = Inr c"
      "c = cfg_chain_id cfg"
      "parse_addr E (gateway_address cfg) ''gateway_address'' = Inr gw"
      "answer E (rpc_url cfg) ''eth_getCode'' [PAddress gw, PStr ''latest''] (json_bytes E) (next_id w + 1) = Inr code"
      "code \<noteq> []" "parse_b256_hex E (gateway_runtime_hash cfg) = Inr hash"
      "b256_bytes E (keccak256 E code) = hash"
      "view_answer E (rpc_url cfg) gw GwPaused (dec_bool E) (next_id w + 2) False"
      "view_answer E (rpc_url cfg) gw GwUsdc (dec_address E) (next_id w + 3) usdc"
      "parse_addr E (usdc_address cfg) ''usdc_address'' = Inr us" "usdc = us"
      "view_answer E (rpc_url cfg) gw GwVault (dec_address E) (next_id w + 4) vault"
      "parse_addr E (vault_address cfg) ''vault_address'' = Inr vault"
      "view_answer E (rpc_url cfg) gw (GwAgents (signer_address inputs)) (dec_agents E) (next_id w + 5) ag"
      "active ag" "\<not> validUntil ag < (case clock E (clock_reads w) of Some t \<Rightarrow> t | None \<Rightarrow> 0)"
      "next_id w' = next_id w + 6"
    by (auto simp: common_checks_def rpc_chain_id_def rpc_get_code_def tag_or_latest_def view_defs io_simps
        add.commute [of "next_id w"])
  let ?sn = "\<lparr>sn_chain_id = c, sn_code = code, sn_paused = False, sn_usdc = us, sn_vault = vault,
    sn_agent = ag, sn_now = (case clock E (clock_reads w) of Some t \<Rightarrow> t | None \<Rightarrow> 0),
    sn_gross = 0, sn_allowance = 0, sn_balance = 0\<rparr>"
  let ?p = "\<lparr>pin_chain_id = c, pin_gateway = gw, pin_usdc = us, pin_vault = vault, pin_hash = hash\<rparr>"
  have "pinned E cfg ?p \<and> common_reads E cfg inputs ?p w ?sn \<and> gateway_authentic E ?p ?sn \<and> agent_authorized ?sn"
    using h by (simp add: pinned_def common_reads_def gateway_authentic_def agent_authorized_def not_less)
  then show ?thesis using h by fastforce
qed

lemma common_checks_Inr_I:
  assumes "pinned E cfg p" "common_reads E cfg inputs p w sn" "gateway_authentic E p sn" "agent_authorized sn"
  shows "\<exists>w'. common_checks E cfg inputs w =
           (Inr (sn_chain_id sn, pin_gateway p, pin_usdc p, sn_agent sn), w') \<and> next_id w' = next_id w + 6"
  using assms
  by (auto simp: pinned_def common_reads_def gateway_authentic_def agent_authorized_def Let_def
      common_checks_def rpc_chain_id_def rpc_get_code_def tag_or_latest_def view_defs io_simps not_less
      add.commute [of "next_id w"])

lemma within_caps_iff:
  "within_caps per_payment per_window gross amt \<longleftrightarrow>
     \<not> per_payment < amt \<and> \<not> per_window < saturating_add gross amt"
  by (simp add: within_caps_def not_less word_le_nat_alt unat_saturating_add)

lemma run_inner_obeys [simp]:
  "obeys no_broadcast (run_inner E cfg inputs b)" "obeys quiet (run_inner E cfg inputs b)"
  "obeys same_files (run_inner E cfg inputs b)" "obeys same_locks (run_inner E cfg inputs b)"
  "obeys audit_grows (run_inner E cfg inputs b)"
  by (auto simp: run_inner_def view_defs Let_def split: prod.splits
      intro!: nb.obeys_bindM qt.obeys_bindM sf.obeys_bindM sl.obeys_bindM ag.obeys_bindM)

lemma run_withdraw_inner_obeys [simp]:
  "obeys no_broadcast (run_withdraw_inner E cfg inputs)" "obeys quiet (run_withdraw_inner E cfg inputs)"
  "obeys same_files (run_withdraw_inner E cfg inputs)" "obeys same_locks (run_withdraw_inner E cfg inputs)"
  "obeys audit_grows (run_withdraw_inner E cfg inputs)"
  by (auto simp: run_withdraw_inner_def view_defs Let_def split: prod.splits
      intro!: nb.obeys_bindM qt.obeys_bindM sf.obeys_bindM sl.obeys_bindM ag.obeys_bindM)

lemma preflight_run_D:
  assumes "preflight_run E cfg inputs w = (Inr rep, w')"
  shows "\<exists>p sn. pinned E cfg p \<and> deposit_reads E cfg inputs p w sn \<and>
           deposit_admissible E p (amount inputs) sn \<and>
           rep = \<lparr>rep_chain_id = sn_chain_id sn, gateway_runtime_hash_ok = True, paused = False,
             agent_active = True, agent_valid_until = validUntil (sn_agent sn),
             max_per_payment = maxPerPayment (sn_agent sn), max_per_window = maxPerWindow (sn_agent sn),
             window_gross = sn_gross sn, allowance = sn_allowance sn, balance = sn_balance sn\<rparr>"
proof -
  from assms obtain c gw us ag w1 gross allow bal where
    cc: "common_checks E cfg inputs w = (Inr (c, gw, us, ag), w1)"
    and pay: "\<not> maxPerPayment ag < amount inputs"
    and g: "view_answer E (rpc_url cfg) gw (GwEffectiveDepositWindowGross (signer_address inputs)) (dec_u256 E) (next_id w1) gross"
    and win: "\<not> maxPerWindow ag < saturating_add gross (amount inputs)"
    and al: "view_answer E (rpc_url cfg) us (Erc20Allowance (signer_address inputs) gw) (dec_u256 E) (next_id w1 + 1) allow"
    and al2: "\<not> allow < amount inputs"
    and bl: "view_answer E (rpc_url cfg) us (Erc20BalanceOf (signer_address inputs)) (dec_u256 E) (2 + next_id w1) bal"
    and bl2: "\<not> bal < amount inputs"
    and rep: "rep = \<lparr>rep_chain_id = c, gateway_runtime_hash_ok = True, paused = False,
           agent_active = active ag, agent_valid_until = validUntil ag,
           max_per_payment = maxPerPayment ag, max_per_window = maxPerWindow ag,
           window_gross = gross, allowance = allow, balance = bal\<rparr>"
    by (auto simp: preflight_run_def run_inner_def Let_def view_defs io_simps)
  from common_checks_Inr_D [OF cc] obtain p sn where
    p: "pinned E cfg p" and sn: "common_reads E cfg inputs p w sn" "gateway_authentic E p sn" "agent_authorized sn"
      "c = sn_chain_id sn" "gw = pin_gateway p" "us = pin_usdc p" "ag = sn_agent sn" "next_id w1 = next_id w + 6"
    by blast
  let ?sn = "sn\<lparr>sn_gross := gross, sn_allowance := allow, sn_balance := bal\<rparr>"
  have "deposit_reads E cfg inputs p w ?sn"
    using sn g al bl by (simp add: deposit_reads_def add.commute)
  moreover have "deposit_admissible E p (amount inputs) ?sn"
    using sn pay win al2 bl2 by (auto simp: deposit_admissible_def within_caps_iff)
  moreover have "active ag" using sn by (simp add: agent_authorized_def)
  ultimately show ?thesis using p sn(4,7) rep by fastforce
qed

lemma preflight_run_next_id:
  assumes "preflight_run E cfg inputs w = (Inr rep, w')"
  shows "next_id w' = next_id w + 9"
proof -
  from assms obtain c gw us ag w1 where cc: "common_checks E cfg inputs w = (Inr (c, gw, us, ag), w1)"
    and n: "next_id w' = 3 + next_id w1"
    by (auto simp: preflight_run_def run_inner_def Let_def view_defs io_simps)
  from common_checks_Inr_D [OF cc] n show ?thesis by auto
qed

lemma preflight_run_I:
  assumes "pinned E cfg p" "deposit_reads E cfg inputs p w sn" "deposit_admissible E p (amount inputs) sn"
  shows "\<exists>rep w'. preflight_run E cfg inputs w = (Inr rep, w')"
proof -
  obtain w1 where w1: "common_checks E cfg inputs w =
      (Inr (sn_chain_id sn, pin_gateway p, pin_usdc p, sn_agent sn), w1)" "next_id w1 = next_id w + 6"
    using common_checks_Inr_I assms by (metis deposit_admissible_def deposit_reads_def)
  have reads:
    "view_answer E (rpc_url cfg) (pin_gateway p) (GwEffectiveDepositWindowGross (signer_address inputs)) (dec_u256 E) (next_id w1) (sn_gross sn)"
    "view_answer E (rpc_url cfg) (pin_usdc p) (Erc20Allowance (signer_address inputs) (pin_gateway p)) (dec_u256 E) (next_id w1 + 1) (sn_allowance sn)"
    "view_answer E (rpc_url cfg) (pin_usdc p) (Erc20BalanceOf (signer_address inputs)) (dec_u256 E) (next_id w1 + 1 + 1) (sn_balance sn)"
    using assms(2) w1(2) by (simp_all add: deposit_reads_def Let_def add.commute)
  have caps: "\<not> maxPerPayment (sn_agent sn) < amount inputs"
    "\<not> maxPerWindow (sn_agent sn) < saturating_add (sn_gross sn) (amount inputs)"
    "\<not> sn_allowance sn < amount inputs" "\<not> sn_balance sn < amount inputs"
    using assms(3) by (auto simp: deposit_admissible_def within_caps_iff)
  show ?thesis
    unfolding preflight_run_def run_inner_def Let_def view_defs bindM_Inr_iff w1(1)
    using reads caps by (fastforce simp: io_simps)
qed

lemma run_withdraw_inner_D:
  assumes "run_withdraw_inner E cfg inputs w = (Inr rep, w')"
  shows "\<exists>p sn. pinned E cfg p \<and> withdraw_reads E cfg inputs p w sn \<and> withdraw_admissible E p (amount inputs) sn"
proof -
  from assms obtain c gw us ag w1 gross where
    cc: "common_checks E cfg inputs w = (Inr (c, gw, us, ag), w1)"
    and pay: "\<not> maxWithdrawPerPayment ag < amount inputs"
    and g: "view_answer E (rpc_url cfg) gw (GwEffectiveWithdrawWindowGross (signer_address inputs)) (dec_u256 E) (next_id w1) gross"
    and win: "\<not> maxWithdrawPerWindow ag < saturating_add gross (amount inputs)"
    by (auto simp: run_withdraw_inner_def Let_def view_defs io_simps)
  from common_checks_Inr_D [OF cc] obtain p sn where
    p: "pinned E cfg p" and sn: "common_reads E cfg inputs p w sn" "gateway_authentic E p sn" "agent_authorized sn"
      "gw = pin_gateway p" "ag = sn_agent sn" "next_id w1 = next_id w + 6"
    by blast
  let ?sn = "sn\<lparr>sn_gross := gross, sn_allowance := 0, sn_balance := 0\<rparr>"
  have "withdraw_reads E cfg inputs p w ?sn" using sn g by (simp add: withdraw_reads_def)
  moreover have "withdraw_admissible E p (amount inputs) ?sn"
    using sn pay win by (simp add: withdraw_admissible_def within_caps_iff)
  ultimately show ?thesis using p by blast
qed

lemma run_withdraw_inner_I:
  assumes "pinned E cfg p" "withdraw_reads E cfg inputs p w sn" "withdraw_admissible E p (amount inputs) sn"
  shows "\<exists>rep w'. run_withdraw_inner E cfg inputs w = (Inr rep, w')"
proof -
  obtain w1 where w1: "common_checks E cfg inputs w =
      (Inr (sn_chain_id sn, pin_gateway p, pin_usdc p, sn_agent sn), w1)" "next_id w1 = next_id w + 6"
    using common_checks_Inr_I assms by (metis withdraw_admissible_def withdraw_reads_def)
  have "view_answer E (rpc_url cfg) (pin_gateway p) (GwEffectiveWithdrawWindowGross (signer_address inputs))
      (dec_u256 E) (next_id w1) (sn_gross sn)"
    using assms(2) w1(2) by (simp add: withdraw_reads_def)
  moreover have "\<not> maxWithdrawPerPayment (sn_agent sn) < amount inputs"
    "\<not> maxWithdrawPerWindow (sn_agent sn) < saturating_add (sn_gross sn) (amount inputs)"
    using assms(3) by (auto simp: withdraw_admissible_def within_caps_iff)
  ultimately show ?thesis
    unfolding run_withdraw_inner_def Let_def view_defs bindM_Inr_iff w1(1) by (fastforce simp: io_simps)
qed

section \<open>Properties\<close>

text \<open>
  C3. The deposit preflight decides the policy: it succeeds exactly when the pinned configuration
  parses and the answers of the node, taken in the order they are requested, satisfy all ten
  checks (chain id, non-empty code with the pinned hash, not paused, pinned USDC and vault,
  active and unexpired agent, per-payment cap, rolling-window cap, allowance, balance).
\<close>

theorem preflight_refines_policy:
  "(\<exists>rep w'. preflight_run E cfg inputs w = (Inr rep, w')) \<longleftrightarrow>
   (\<exists>p sn. pinned E cfg p \<and> deposit_reads E cfg inputs p w sn \<and> deposit_admissible E p (amount inputs) sn)"
  using preflight_run_D preflight_run_I by blast

text \<open>
  The withdrawal preflight decides the withdrawal policy: the same gateway and agent checks,
  and the withdrawal caps, not the deposit caps, against the withdrawal window.
\<close>

theorem withdraw_preflight_refines_policy:
  "(\<exists>rep w'. run_withdraw_gateway E cfg inputs w = (Inr rep, w')) \<longleftrightarrow>
   (\<exists>p sn. pinned E cfg p \<and> withdraw_reads E cfg inputs p w sn \<and> withdraw_admissible E p (amount inputs) sn)"
  unfolding run_withdraw_gateway_def using run_withdraw_inner_D run_withdraw_inner_I by blast

text \<open>
  Preflight only reads: whatever its outcome, it sends no transaction, writes no file, takes
  or releases no lock, and neither prints nor records anything.
\<close>

theorem preflight_is_read_only:
  "obeys no_broadcast (preflight_run E cfg inputs) \<and> obeys no_broadcast (run_withdraw_gateway E cfg inputs) \<and>
   obeys same_files (preflight_run E cfg inputs) \<and> obeys same_files (run_withdraw_gateway E cfg inputs) \<and>
   obeys same_locks (preflight_run E cfg inputs) \<and> obeys same_locks (run_withdraw_gateway E cfg inputs) \<and>
   obeys quiet (preflight_run E cfg inputs) \<and> obeys quiet (run_withdraw_gateway E cfg inputs)"
  by (simp add: preflight_run_def run_withdraw_gateway_def)

end
