(* ===== verification/Demo_Env.thy ===== *)
theory Demo_Env
  imports Preflight
begin

text \<open>
  A concrete environment, for evaluating the model on an input: a node on chain 31337 whose
  gateway is unpaused, whose agent is authorised, and which answers every request of a deposit or
  withdrawal. A request for a contract view is answered by its call data, every other one by a
  one-byte tag; the decoders map the tags to values.
\<close>

definition demo_cfg :: Config where
  "demo_cfg = base_cfg\<lparr>cfg_chain_id := 31337, state_dir := Some ''/s'',
     gateway_address := ''gw'', usdc_address := ''usdc'', vault_address := ''vault'',
     gateway_runtime_hash := replicate 32 (CHR 0x01), max_fee_per_gas_cap := None, max_priority_fee_per_gas_cap := None\<rparr>"

definition demo_policy :: AgentPolicy where
  "demo_policy = \<lparr>active = True, validUntil = 5000, maxPerPayment = 100, maxPerWindow = 150,
     shareReceiver = 9, assetRecipient = 9, maxWithdrawPerPayment = 60, maxWithdrawPerWindow = 80\<rparr>"

definition demo_keystore :: Keystore where
  "demo_keystore = \<lparr>ks_version = 1, ks_kind = ''rmpc-software-keystore'', ks_address = ''0x'' @ replicate 20 (CHR ''a''),
     ks_kdf = \<lparr>kdf_name = ''argon2id'', kdf_salt = replicate 16 (CHR ''s''), m_cost = 1, t_cost = 1, p_cost = 1\<rparr>,
     ks_cipher = \<lparr>cipher_name = ''aes-256-gcm'', cipher_nonce = replicate 12 (CHR ''n''), 
       cipher_ciphertext = replicate 32 (CHR 0x01) @ replicate 32 (CHR ''p'')\<rparr>\<rparr>"

fun demo_abi :: "sol_call \<Rightarrow> bytes" where
  "demo_abi GwPaused = [20]"
| "demo_abi GwUsdc = [21]"
| "demo_abi GwVault = [22]"
| "demo_abi (GwAgents _) = [23]"
| "demo_abi (GwAgentWindowGross _ _) = [24]"
| "demo_abi (GwEffectiveDepositWindowGross _) = [25]"
| "demo_abi (GwEffectiveWithdrawWindowGross _) = [26]"
| "demo_abi (GwDeposit _ m _ _) = [27, ucast m]"
| "demo_abi (GwWithdraw _ m _ _ _) = [28, ucast m]"
| "demo_abi (Erc20Allowance _ _) = [29]"
| "demo_abi (Erc20BalanceOf _) = [30]"
| "demo_abi VaultPaused = [31]"
| "demo_abi (GwHasRole _ _) = [33]"
| "demo_abi VaultAsset = [34]"
| "demo_abi VaultName = [35]"
| "demo_abi VaultSymbol = [36]"
| "demo_abi VaultDecimals = [37]"
| "demo_abi VaultTotalAssets = [38]"
| "demo_abi VaultTotalSupply = [39]"
| "demo_abi RegListVaults = [40]"
| "demo_abi (RegGetVault _) = [41]"
| "demo_abi RouterGetWeights = [42]"
| "demo_abi RouterCap = [43]"
| "demo_abi GovCurrentProposalId = [44]"
| "demo_abi GovCadenceParams = [45]"
| "demo_abi GovCurrentWeights = [46]"
| "demo_abi GovActiveProposal = [47]"
| "demo_abi TlGetMinDelay = [48]"
| "demo_abi TlProposerRole = [49]"
| "demo_abi TlExecutorRole = [50]"
| "demo_abi (TlGetTimestamp _) = [51]"
| "demo_abi _ = [32]"

definition demo_body :: "JsonRpcRequest \<Rightarrow> bytes" where
  "demo_body r =
     (if rpc_method r = ''eth_call'' then (case rpc_params r of PCall c # _ \<Rightarrow> call_data c | _ \<Rightarrow> [0])
      else if rpc_method r = ''eth_chainId'' then [1]
      else if rpc_method r = ''eth_getCode'' then [2]
      else if rpc_method r = ''eth_feeHistory'' then [3]
      else if rpc_method r = ''eth_getTransactionCount'' then [4]
      else if rpc_method r = ''eth_sendRawTransaction'' then [5]
      else if rpc_method r = ''eth_getTransactionReceipt'' then [6]
      else if rpc_method r = ''eth_blockNumber'' then [7]
      else if rpc_method r = ''eth_getLogs'' then [8]
      else [0])"

definition demo_receipt :: TransactionReceipt where
  "demo_receipt = \<lparr>receipt_status = True,
     receipt_logs = [\<lparr>log_address = 1, log_topics = [77], log_data = []\<rparr>],
     receipt_block_number = Some 12, receipt_gas_used = 21000, receipt_effective_gas_price = 3,
     receipt_from = 8, receipt_to = Some 1\<rparr>"

text \<open>A codec for the replay document: words as bit strings, strings with a mark before each character.\<close>

fun enc_str :: "string \<Rightarrow> string" where
  "enc_str [] = ''.''"
| "enc_str (c # cs) = CHR ''c'' # c # enc_str cs"

fun dec_str :: "string \<Rightarrow> string \<times> string" where
  "dec_str (a # c # r) = (if a = CHR ''c'' then (case dec_str r of (s, t) \<Rightarrow> (c # s, t)) else ([], c # r))"
| "dec_str _ = ([], [])"

definition enc_word :: "'a::len word \<Rightarrow> string" where
  "enc_word w = map (\<lambda>i. if bit w i then CHR ''1'' else CHR ''0'') [0..<LENGTH('a)]"

definition dec_word :: "string \<Rightarrow> 'a::len word \<times> string" where
  "dec_word s = (horner_sum of_bool 2 (map (\<lambda>c. c = CHR ''1'') (take LENGTH('a) s)), drop LENGTH('a) s)"

definition enc_entry :: "Entry \<Rightarrow> string" where
  "enc_entry e = enc_str (payment_id e) @ enc_str (order_id e) @ enc_str (idempotency_key e) @
     enc_word (deadline e) @ enc_str (tx_hash e)"

definition dec_entry :: "string \<Rightarrow> Entry \<times> string" where
  "dec_entry s =
     (let (p, s1) = dec_str s; (ord, s2) = dec_str s1; (i, s3) = dec_str s2; (d, s4) = dec_word s3; (t, s5) = dec_str s4 in
      (\<lparr>payment_id = p, order_id = ord, idempotency_key = i, deadline = d, tx_hash = t\<rparr>, s5))"

fun dec_entries :: "nat \<Rightarrow> string \<Rightarrow> Entry list" where
  "dec_entries 0 s = []"
| "dec_entries (Suc n) s = (case dec_entry s of (e, t) \<Rightarrow> e # dec_entries n t)"

definition enc_file :: "ReplayFile \<Rightarrow> string" where
  "enc_file rf = CHR 0x7B # enc_word (version rf) @ enc_str (replicate (length (entries rf)) (CHR ''e'')) @
     concat (map enc_entry (entries rf))"

definition dec_file :: "string \<Rightarrow> ReplayFile" where
  "dec_file s =
     (let (v, s1) = dec_word (tl s); (n, s2) = dec_str s1 in \<lparr>version = v, entries = dec_entries (length n) s2\<rparr>)"

lemma dec_enc_str [simp]: "dec_str (enc_str s @ t) = (s, t)"
proof (induction s)
  case Nil
  show ?case by (cases t) simp_all
qed simp

lemma dec_enc_word [simp]: "dec_word (enc_word w @ t) = (w, t)"
proof -
  have "map (\<lambda>c. c = CHR ''1'') (enc_word w) = map (bit w) [0..<LENGTH('a)]"
    by (simp add: enc_word_def comp_def)
  then have "horner_sum of_bool 2 (map (\<lambda>c. c = CHR ''1'') (enc_word w)) = w"
    by (simp only: horner_sum_bit_eq_take_bit) simp
  moreover have "length (enc_word w) = LENGTH('a)" by (simp add: enc_word_def)
  ultimately show ?thesis by (simp add: dec_word_def)
qed

lemma dec_enc_entry [simp]: "dec_entry (enc_entry e @ t) = (e, t)"
  by (simp add: dec_entry_def enc_entry_def)

lemma dec_enc_entries [simp]: "dec_entries (length es) (concat (map enc_entry es)) = es"
  by (induction es) simp_all

lemma dec_enc_file [simp]: "dec_file (enc_file rf) = rf"
  by (simp add: dec_file_def enc_file_def)

lemma enc_file_not_blank [simp]: "\<not> is_blank (enc_file rf)"
  by (simp add: enc_file_def is_blank_def is_space_def)

definition demo_env :: env where
  "demo_env =
     \<lparr>env_vars = [''RMPC_KEYSTORE_PASSPHRASE'' \<mapsto> replicate 32 (CHR ''p'')],
      clock = (\<lambda>_. Some 1000),
      fs_fault = (\<lambda>_ _ _. None),
      write_progress = (\<lambda>_. 0),
      flock_try = (\<lambda>_ i L. if i \<in> set L then Some (IoError WouldBlock ''Resource temporarily unavailable'') else None),
      read_path = (\<lambda>_. Inr ''cfg''),
      toml_config = (\<lambda>_. Inr demo_cfg),
      stdin_line = Inr [],
      json_keystore = (\<lambda>_. Inr demo_keystore),
      keystore_to_json = (\<lambda>_. Inr ''ks''),
      replay_to_json = (\<lambda>rf. Inr (enc_file rf)),
      replay_from_json = (\<lambda>s. Inr (dec_file s)),
      audit_to_json = (\<lambda>r. Inr (aud_order_id r)),
      level_filter_ok = (\<lambda>l. l \<in> {''error'', ''warn'', ''info'', ''debug'', ''trace''}),
      flexi_logger_start = (\<lambda>_. Inr ()),
      keccak256 = foldl (\<lambda>acc b. acc * 256 + ucast b) 0,
      b256_bytes = (\<lambda>h. replicate 32 (ucast h)),
      abi_encode_sequence = (\<lambda>(c, g, a, ord, m, i). [ucast c, ucast g, ucast a, ucast ord, ucast m, ucast i]),
      abi_encode = demo_abi,
      dec_bool = (\<lambda>bs. Inr (bs = [0])),
      dec_u256 = (\<lambda>bs. Inr (if bs = [25] then 40 else if bs = [26] then 10 else 1000)),
      dec_address = (\<lambda>bs. Inr (if bs = [21] then 2 else 3)),
      dec_agents = (\<lambda>_. Inr demo_policy),
      dec_u8 = (\<lambda>_. Inr 6),
      dec_string = (\<lambda>_. Inr ''rmUSDC''),
      dec_b256 = (\<lambda>bs. Inr (ucast (hd bs))),
      dec_address_list = (\<lambda>_. Inr [3, 13]),
      dec_vault_record = (\<lambda>_. Inr \<lparr>vr_name = ''v'', vr_riskLabel = ''stable-yield'', vr_mandate = ''m'', vr_status = 0,
        vr_receiptToken = 3, vr_depositCap = 0, vr_exitFeeBps = 25, vr_registeredAt = 9\<rparr>),
      dec_weights = (\<lambda>_. Inr ([3, 13], [6000, 4000])),
      dec_cadence = (\<lambda>_. Inr \<lparr>votingPeriod = 100, executionDelay = 10, quorumThreshold = 5, totalVotingPower = 9\<rparr>),
      dec_proposal = (\<lambda>_. Inr \<lparr>prop_id = 1, prop_proposer = 8, prop_vaults = [3, 13], prop_bps = [5000, 5000],
        prop_votingDeadline = 200, prop_executableAfter = 210, prop_votesFor = 6, prop_executed = False\<rparr>),
      b256_of_bytes = foldl (\<lambda>acc b. acc * 256 + ucast b) 0,
      hashset_iter = sorted_list_of_set,
      agent_deposit_topic = 77,
      dec_agent_deposit = (\<lambda>_ _. Inr \<lparr>dep_paymentId = 5, dep_orderId = 4, dep_agent = 8, dep_shareReceiver = 9,
        dep_amount = 50, dep_sharesMinted = 49, dep_windowId = 0\<rparr>),
      agent_withdrawal_topic = 77,
      dec_agent_withdrawal = (\<lambda>_ _. Inr \<lparr>wd_paymentId = 5, wd_orderId = 4, wd_agent = 8, wd_sourceVault = 3,
        wd_shares = 50, wd_assetsOut = 49, wd_assetRecipient = 9, wd_windowId = 0\<rparr>),
      address_from_str = (\<lambda>s. Inr (if s = usdc_address demo_cfg then 2 else if s = vault_address demo_cfg then 3 else 1)),
      b256_from_str = (\<lambda>_. Inr 4),
      u256_from_str = (\<lambda>_. Inr 50),
      u256_from_str_radix10 = (\<lambda>_. Inr 50),
      hex_decode = (\<lambda>s. Inr (map (\<lambda>c. of_nat (of_char c)) s)),
      hex_encode = map (\<lambda>b. char_of (unat b)),
      address_bytes = (\<lambda>a. [ucast a]),
      address_of_bytes = (\<lambda>_. 8),
      show_address = show_word,
      debug_address = show_word,
      show_b256 = show_word,
      url_parse = (\<lambda>_. Inr ()),
      http_client_build = Inr (),
      runtime_build = Inr (),
      http_post = (\<lambda>_ r. HttpReply 200 (demo_body r)),
      http_status_text = show_nat,
      utf8_lossy = map (\<lambda>b. char_of (unat b)),
      json_response = (\<lambda>b. Inr \<lparr>resp_result = Some (JNum (uint (hd b))), resp_error = None\<rparr>),
      json_u64 = (\<lambda>v. Inr (case v of JNum t \<Rightarrow> if t = 1 then 31337 else 7 | _ \<Rightarrow> 0)),
      json_u256 = (\<lambda>_. Inr 0),
      json_bytes = (\<lambda>v. Inr (case v of JNum t \<Rightarrow> if t = 2 then [1] else [of_int t] | _ \<Rightarrow> [])),
      json_b256 = (\<lambda>_. Inr 99),
      json_fee_history = (\<lambda>_. Inr \<lparr>base_fee_per_gas = [10, 12], reward = Some [[2]]\<rparr>),
      json_receipt = (\<lambda>_. Inr (Some demo_receipt)),
      json_raw_logs = (\<lambda>_. Inr []),
      argon2_params = (\<lambda>_ _ _. Inr ()),
      argon2id = (\<lambda>_ _ _ pw salt. Inr pw),
      aes_gcm_encrypt = (\<lambda>key nonce aad pt. Inr (pt @ key)),
      aes_gcm_decrypt = (\<lambda>key nonce aad ct.
        if drop (length ct - length key) ct = key \<and> length key \<le> length ct
        then Inr (take (length ct - length key) ct) else Inl ''tag mismatch''),
      signing_key_check = (\<lambda>_. Inr ()),
      public_point = (\<lambda>k. 4 # k),
      sign_prehash = (\<lambda>k h. Inr \<lparr>sig_r = h, sig_s = 1, sig_recid = 0\<rparr>),
      normalize_s = (\<lambda>_. None),
      signature_hash = (\<lambda>t. ucast (tx_nonce t)),
      rlp_signed = (\<lambda>t s. [2, ucast (tx_nonce t)])\<rparr>"

definition world0 :: world where
  "world0 = \<lparr>next_id = 1, sent = [], clock_reads = 0, io_count = 0, files = Map.empty,
     lock_file = length, locks = [],
     audit_log = [], stdout = []\<rparr>"

end
