(* ===== verification/Agent_Lock.thy ===== *)
theory Agent_Lock
  imports Demo_Env
begin

text \<open>
  The per-agent single-flight lock (\<open>nonce/mod.rs\<close>). The advisory lock itself belongs to the kernel
  and is a parameter: \<open>flock_try\<close> answers a request on an open file, identified by its inode, and
  \<open>flock_excludes\<close> is what its manual documents. The world records the inode each lock path names and the
  inodes of the guards that are alive. The RAII guard is \<open>holding_lock\<close>, which runs
  the rest of the command and drops the guard on every way out. The second half runs many
  processes against one file system as a step relation, in which anybody may remove or replace files outside
  a set of kept paths, and proves mutual exclusion for the agents whose lock file is kept.
\<close>

section \<open>Definitions\<close>

record AgentLock =
  al_file :: nat
  al_path :: string

definition lock_path :: "env \<Rightarrow> string \<Rightarrow> address \<Rightarrow> string" where
  "lock_path E dir agent = path_join dir (''agent-'' @ hex_encode E (address_bytes E agent) @ ''.lock'')"

definition acquire :: "env \<Rightarrow> string \<Rightarrow> address \<Rightarrow> AgentLock rmpc" where
  "acquire E dir agent =
     bindM (fs_call E OpCreateDir dir (\<lambda>e. ErrConfig (''nonce: cannot create state dir '' @ dir @ '': '' @ io_text e))) (\<lambda>_.
     let path = lock_path E dir agent in
     bindM (fs_call E OpOpen path ErrIo) (\<lambda>_.
     bindM (modifyM (\<lambda>w. w\<lparr>files := (files w)(path \<mapsto> (case files w path of Some s \<Rightarrow> s | None \<Rightarrow> []))\<rparr>)) (\<lambda>_.
     bindM (getM (\<lambda>w. lock_file w path)) (\<lambda>file.
     bindM (handleM (flock_call E file) (\<lambda>e.
              failM (if io_kind e = WouldBlock then ErrConcurrentInvocation else ErrIo e))) (\<lambda>_.
     bindM (modifyM (\<lambda>w. w\<lparr>locks := file # locks w\<rparr>)) (\<lambda>_.
     retM \<lparr>al_file = file, al_path = path\<rparr>))))))"

definition drop_guard :: "AgentLock \<Rightarrow> world \<Rightarrow> world" where
  "drop_guard a w = w\<lparr>locks := remove1 (al_file a) (locks w)\<rparr>"

text \<open>The rest of a function whose local variable is the guard; \<open>on_err\<close> is the error branch.\<close>

definition holding_lock ::
    "env \<Rightarrow> string \<Rightarrow> address \<Rightarrow> (RmpcError \<Rightarrow> (world, 'e, 'a) io) \<Rightarrow> (world, 'e, 'a) io \<Rightarrow> (world, 'e, 'a) io" where
  "holding_lock E dir agent on_err body = (\<lambda>w.
     case acquire E dir agent w of
       (Inl e, w1) \<Rightarrow> on_err e w1
     | (Inr a, w1) \<Rightarrow> (case body w1 of (r, w2) \<Rightarrow> (r, drop_guard a w2)))"

section \<open>Many processes\<close>

text \<open>
  A machine is the shared world and, for each process id, the guard it holds. A process enters
  by \<open>acquire\<close>, leaves by dropping its guard (also what the kernel does when it dies), and
  otherwise it, or any other program, does anything that neither takes nor drops a guard and
  leaves the lock files at the paths \<open>K\<close> in place. Lock files elsewhere may be removed or replaced.
\<close>

type_synonym machine = "world \<times> (nat \<rightharpoonup> AgentLock)"

inductive step :: "env \<Rightarrow> string set \<Rightarrow> machine \<Rightarrow> machine \<Rightarrow> bool" for E K where
  enter: "g p = None \<Longrightarrow> acquire E dir agent w = (Inr a, w') \<Longrightarrow> step E K (w, g) (w', g(p \<mapsto> a))"
| refused: "g p = None \<Longrightarrow> acquire E dir agent w = (Inl e, w') \<Longrightarrow> step E K (w, g) (w', g)"
| leave: "g p = Some a \<Longrightarrow> step E K (w, g) (drop_guard a w, g(p := None))"
| local_work: "locks w' = locks w \<Longrightarrow> \<forall>x\<in>K. lock_file w' x = lock_file w x \<Longrightarrow> step E K (w, g) (w', g)"

inductive reachable :: "env \<Rightarrow> string set \<Rightarrow> machine \<Rightarrow> bool" for E K where
  start: "locks w = [] \<Longrightarrow> reachable E K (w, Map.empty)"
| next_step: "reachable E K m \<Longrightarrow> step E K m m' \<Longrightarrow> reachable E K m'"

definition guards_inv :: "string set \<Rightarrow> machine \<Rightarrow> bool" where
  "guards_inv K m \<longleftrightarrow>
     (\<forall>p a. snd m p = Some a \<longrightarrow> al_file a \<in> set (locks (fst m)) \<and>
        (al_path a \<in> K \<longrightarrow> lock_file (fst m) (al_path a) = al_file a)) \<and>
     (\<forall>p q a b. snd m p = Some a \<longrightarrow> snd m q = Some b \<longrightarrow> p \<noteq> q \<longrightarrow> al_file a \<noteq> al_file b)"

text \<open>What a run that entered knows of the lock: the kernel granted it, so nobody else held it.\<close>

definition lock_was_free :: "env \<Rightarrow> world \<Rightarrow> string \<Rightarrow> bool" where
  "lock_was_free E w path \<longleftrightarrow> flock_try E (io_count w + 2) (lock_file w path) (locks w) = None \<and>
     (flock_excludes E \<longrightarrow> lock_file w path \<notin> set (locks w))"

section \<open>Lemmas\<close>

lemma granted_not_held: "flock_excludes E \<Longrightarrow> flock_try E n i L = None \<Longrightarrow> i \<notin> set L"
  unfolding flock_excludes_def by (metis option.distinct(1))

lemma lock_was_free_clock [simp]: "lock_was_free E (w\<lparr>clock_reads := n\<rparr>) path = lock_was_free E w path"
  by (simp add: lock_was_free_def)

lemma acquire_Inr_D:
  assumes "acquire E dir agent w = (Inr a, w')"
  shows "a = \<lparr>al_file = lock_file w (lock_path E dir agent), al_path = lock_path E dir agent\<rparr>"
    "lock_was_free E w (lock_path E dir agent)" "locks w' = al_file a # locks w" "lock_file w' = lock_file w"
    "audit_log w' = audit_log w" "stdout w' = stdout w" "sent w' = sent w"
  using assms granted_not_held
  by (auto simp: acquire_def Let_def io_simps lock_was_free_def)

lemma acquire_Inl_locks:
  assumes "acquire E dir agent w = (Inl e, w')"
  shows "locks w' = locks w" "lock_file w' = lock_file w"
  using assms by (auto simp: acquire_def Let_def io_simps split: if_splits)

lemma acquire_obeys [simp]:
  "obeys no_broadcast (acquire E dir agent)" "obeys quiet (acquire E dir agent)"
  unfolding acquire_def Let_def
  by (auto intro!: nb.obeys_bindM qt.obeys_bindM nb.obeys_handleM qt.obeys_handleM nb.obeys_modifyM qt.obeys_modifyM
      simp: no_broadcast_def quiet_def)

text \<open>What a command does while it holds a guard is local work of the machine.\<close>

lemma obeys_is_local_work:
  assumes "obeys same_locks m" and "m w = (r, w')"
  shows "step E K (w, g) (w', g)"
  using sl.obeysD [OF assms] by (intro local_work) (auto simp: same_locks_def)

lemma step_guards_inv:
  assumes "flock_excludes E"
  shows "step E K m m' \<Longrightarrow> guards_inv K m \<Longrightarrow> guards_inv K m'"
proof (induction rule: step.induct)
  case (enter g p dir agent w a w')
  have new: "al_file a \<notin> set (locks w)" "lock_file w' (al_path a) = al_file a"
    using acquire_Inr_D [OF enter(2)] assms by (simp_all add: lock_was_free_def)
  have old: "al_file b \<noteq> al_file a" if "g q = Some b" for q b
    using that new(1) enter.prems unfolding guards_inv_def by (metis fst_conv snd_conv)
  show ?case
    using enter.prems new acquire_Inr_D(3,4) [OF enter(2)] old unfolding guards_inv_def
    by (auto split: if_splits)
next
  case (refused g p dir agent w e w')
  then show ?case using acquire_Inl_locks [OF refused(2)] by (simp add: guards_inv_def)
next
  case (leave g p a w)
  then show ?case by (auto simp: guards_inv_def drop_guard_def in_set_remove1)
next
  case (local_work w' w g)
  then show ?case by (auto simp: guards_inv_def)
qed

lemma reachable_guards_inv:
  assumes "flock_excludes E" and "reachable E K m"
  shows "guards_inv K m"
  using assms(2)
proof (induction rule: reachable.induct)
  case (start w)
  then show ?case by (simp add: guards_inv_def)
qed (rule step_guards_inv [OF assms(1)])

lemma acquire_refused:
  assumes "flock_excludes E" and "lock_file w (lock_path E dir agent) \<in> set (locks w)"
    and "\<forall>n op path. fs_fault E n op path = None"
  shows "\<exists>w'. acquire E dir agent w = (Inl ErrConcurrentInvocation, w') \<and> locks w' = locks w"
proof -
  obtain m where "flock_try E (Suc (Suc (io_count w))) (lock_file w (lock_path E dir agent)) (locks w) =
      Some (IoError WouldBlock m)"
    using assms(1,2) unfolding flock_excludes_def by blast
  then show ?thesis using assms(3) by (simp add: acquire_def Let_def io_eval fs_call_def flock_call_def)
qed

lemma acquire_granted:
  assumes "flock_grants E" and "lock_file w (lock_path E dir agent) \<notin> set (locks w)"
    and "\<forall>n op path. op \<noteq> OpWrite \<longrightarrow> fs_fault E n op path = None"
  shows "\<exists>w'. acquire E dir agent w =
      (Inr \<lparr>al_file = lock_file w (lock_path E dir agent), al_path = lock_path E dir agent\<rparr>, w') \<and>
    locks w' = lock_file w (lock_path E dir agent) # locks w \<and> lock_file w' = lock_file w"
  using assms by (simp add: acquire_def Let_def io_eval fs_call_def flock_call_def flock_grants_def)

lemma holding_lock_cases:
  assumes "holding_lock E dir agent on_err body w = (r, w')"
  obtains (refused) e w1 where "acquire E dir agent w = (Inl e, w1)" "on_err e w1 = (r, w')"
  | (entered) a w1 w2 where "acquire E dir agent w = (Inr a, w1)" "body w1 = (r, w2)" "w' = drop_guard a w2"
  using assms by (auto simp: holding_lock_def split: prod.splits sum.splits)

section \<open>Properties\<close>

text \<open>
  C4. Mutual exclusion: in every reachable state of any number of client processes sharing a state
  directory, two processes never hold the lock of the same agent, and a process that tries to
  enter while another holds it is refused with \<open>ErrConcurrentInvocation\<close> and takes no guard
  (absent an I/O fault on the directory or the lock file). This rests on two things outside the code: the
  kernel refuses a lock on a file that is locked through another open file, as \<open>flock(2)\<close>
  documents, and nobody removes or replaces the lock file of the agent (the client never does).
\<close>

theorem agent_lock_mutual_exclusion:
  assumes "flock_excludes E" and "reachable E K (w, g)" and "lock_path E dir agent \<in> K"
    and "g p = Some a" and "al_path a = lock_path E dir agent"
  shows "(\<forall>q b. g q = Some b \<and> al_path b = lock_path E dir agent \<longrightarrow> q = p) \<and>
    ((\<forall>n op path. fs_fault E n op path = None) \<longrightarrow>
       (\<exists>w'. acquire E dir agent w = (Inl ErrConcurrentInvocation, w') \<and> locks w' = locks w))"
proof -
  have inv: "guards_inv K (w, g)" using assms(1,2) by (rule reachable_guards_inv)
  have inode: "al_file b = lock_file w (lock_path E dir agent)" if "g q = Some b" "al_path b = lock_path E dir agent" for q b
    using inv that assms(3) unfolding guards_inv_def by fastforce
  have "q = p" if "g q = Some b" "al_path b = lock_path E dir agent" for q b
  proof (rule ccontr)
    assume "q \<noteq> p"
    then have "al_file b \<noteq> al_file a" using inv that(1) assms(4) unfolding guards_inv_def by auto
    then show False using inode [OF that] inode [OF assms(4,5)] by simp
  qed
  moreover have "lock_file w (lock_path E dir agent) \<in> set (locks w)"
    using inv assms(4) inode [OF assms(4,5)] unfolding guards_inv_def by fastforce
  ultimately show ?thesis using acquire_refused [OF assms(1)] by blast
qed

lemma demo_flock: "flock_excludes demo_env" "flock_grants demo_env"
  by (simp_all add: flock_excludes_def flock_grants_def demo_env_def)

lemma demo_no_fault:
  "\<forall>n op path. fs_fault demo_env n op path = None" "\<forall>n op path. op \<noteq> OpWrite \<longrightarrow> fs_fault demo_env n op path = None"
  by (simp_all add: demo_env_def)

lemma demo_enter:
  "\<exists>a w1. reachable demo_env K (w1, [0 \<mapsto> a]) \<and> al_path a = lock_path demo_env ''/s'' 8 \<and>
     acquire demo_env ''/s'' 8 world0 = (Inr a, w1) \<and>
     locks w1 = [lock_file world0 (lock_path demo_env ''/s'' 8)] \<and> lock_file w1 = lock_file world0"
proof -
  have free: "lock_file world0 (lock_path demo_env ''/s'' 8) \<notin> set (locks world0)" by (simp add: world0_def)
  from acquire_granted [OF demo_flock(2) free demo_no_fault(2)] obtain a w1 where
    a: "acquire demo_env ''/s'' 8 world0 = (Inr a, w1)" "al_path a = lock_path demo_env ''/s'' 8"
      "locks w1 = lock_file world0 (lock_path demo_env ''/s'' 8) # locks world0" "lock_file w1 = lock_file world0"
    by (metis AgentLock.select_convs(2))
  have "reachable demo_env K (w1, [0 \<mapsto> a])"
    using next_step [OF start enter [OF _ a(1), of Map.empty 0]] by (simp add: world0_def)
  then show ?thesis using a by (auto simp: world0_def)
qed

theorem agent_lock_mutual_exclusion_witness:
  "\<exists>w1 w2 a. acquire demo_env ''/s'' 8 world0 = (Inr a, w1) \<and>
     acquire demo_env ''/s'' 8 w1 = (Inl ErrConcurrentInvocation, w2)"
proof -
  obtain a w1 where a: "reachable demo_env {lock_path demo_env ''/s'' 8} (w1, [0 \<mapsto> a])"
      "al_path a = lock_path demo_env ''/s'' 8" "acquire demo_env ''/s'' 8 world0 = (Inr a, w1)"
    using demo_enter by blast
  from agent_lock_mutual_exclusion [OF demo_flock(1) a(1) _ _ a(2), of 0] demo_no_fault(1) a(3)
  show ?thesis by auto
qed

text \<open>
  The kept lock file is needed: after the lock file of an agent that is inside was removed, the next
  open creates a new file, the kernel grants a lock on it, and two processes hold the lock of one agent.
\<close>

theorem replaced_lock_file_admits_second:
  "\<exists>w g a b. flock_excludes demo_env \<and> reachable demo_env {} (w, g) \<and> g 0 = Some a \<and> g 1 = Some b \<and>
     al_path a = lock_path demo_env ''/s'' 8 \<and> al_path b = lock_path demo_env ''/s'' 8"
proof -
  let ?p = "lock_path demo_env ''/s'' 8"
  obtain a w1 where a: "reachable demo_env {} (w1, [0 \<mapsto> a])" "al_path a = ?p"
      "locks w1 = [lock_file world0 ?p]" "lock_file w1 = lock_file world0"
    using demo_enter by blast
  let ?w2 = "w1\<lparr>lock_file := (lock_file w1)(?p := Suc (lock_file world0 ?p))\<rparr>"
  have r2: "reachable demo_env {} (?w2, [0 \<mapsto> a])"
    by (rule next_step [OF a(1)], rule local_work) simp_all
  have "lock_file ?w2 ?p \<notin> set (locks ?w2)" using a(3) by simp
  from acquire_granted [OF demo_flock(2) this demo_no_fault(2)] obtain b w3 where
    b: "acquire demo_env ''/s'' 8 ?w2 = (Inr b, w3)" "al_path b = ?p"
    by (metis AgentLock.select_convs(2))
  have "reachable demo_env {} (w3, [0 \<mapsto> a, 1 \<mapsto> b])"
    by (rule next_step [OF r2], rule enter [OF _ b(1)]) simp
  then have "reachable demo_env {} (w3, [0 \<mapsto> a, 1 \<mapsto> b]) \<and> [0 :: nat \<mapsto> a, 1 \<mapsto> b] 0 = Some a \<and>
      [0 :: nat \<mapsto> a, 1 \<mapsto> b] 1 = Some b"
    by simp
  then show ?thesis using demo_flock(1) a(2) b(2) by blast
qed

end
