(* ===== verification/Tx.thy ===== *)
theory Tx
  imports Agent_Lock
begin

text \<open>
  Transaction envelopes and the receipt wait (\<open>tx/mod.rs\<close>). RLP encoding and the signing hash are
  functions of the alloy crate and stay parameters. The interval between two polls has no effect
  on the state and is left out; the attempt budget is the bound of the loop.
\<close>

section \<open>Definitions\<close>

definition RECEIPT_POLL_MAX_ATTEMPTS :: u32 where
  "RECEIPT_POLL_MAX_ATTEMPTS = 60"

record Eip1559Inputs =
  in_chain_id :: u64
  in_nonce :: u64
  in_to :: address
  in_gas_limit :: u64
  in_fees :: FeeBid
  in_value :: u256
  in_input :: bytes

definition build_eip1559 :: "Eip1559Inputs \<Rightarrow> TxEip1559" where
  "build_eip1559 inputs =
     \<lparr>tx_chain_id = in_chain_id inputs,
      tx_nonce = in_nonce inputs,
      tx_gas_limit = in_gas_limit inputs,
      tx_max_fee_per_gas = max_fee_per_gas (in_fees inputs),
      tx_max_priority_fee_per_gas = max_priority_fee_per_gas (in_fees inputs),
      tx_to = in_to inputs,
      tx_value = in_value inputs,
      tx_access_list = [],
      tx_input = in_input inputs\<rparr>"

definition signing_hash :: "env \<Rightarrow> TxEip1559 \<Rightarrow> b256" where
  "signing_hash E tx = signature_hash E tx"

definition encode_signed :: "env \<Rightarrow> TxEip1559 \<Rightarrow> Signature \<Rightarrow> bytes" where
  "encode_signed E tx signature = rlp_signed E tx signature"

definition broadcast :: "env \<Rightarrow> string \<Rightarrow> bytes \<Rightarrow> b256 rmpc" where
  "broadcast E url raw = rpc_send_raw_transaction E url raw"

fun wait_for_receipt_with :: "env \<Rightarrow> string \<Rightarrow> b256 \<Rightarrow> nat \<Rightarrow> TransactionReceipt rmpc" where
  "wait_for_receipt_with E url h 0 =
     failM (ErrRpcTransport (''timeout waiting for receipt of '' @ show_b256 E h))"
| "wait_for_receipt_with E url h (Suc n) =
     bindM (rpc_get_transaction_receipt E url h) (\<lambda>r.
       case r of Some receipt \<Rightarrow> retM receipt | None \<Rightarrow> wait_for_receipt_with E url h n)"

definition wait_for_receipt :: "env \<Rightarrow> string \<Rightarrow> b256 \<Rightarrow> TransactionReceipt rmpc" where
  "wait_for_receipt E url h = wait_for_receipt_with E url h (unat RECEIPT_POLL_MAX_ATTEMPTS)"

section \<open>Lemmas\<close>

text \<open>The answer to the \<open>k\<close>-th poll of a wait whose first request has id \<open>i\<close>.\<close>

definition poll_answer :: "env \<Rightarrow> string \<Rightarrow> b256 \<Rightarrow> u64 \<Rightarrow> nat \<Rightarrow> TransactionReceipt option result" where
  "poll_answer E url h i k =
     answer E url ''eth_getTransactionReceipt'' [PB256 h] (json_receipt E) (i + of_nat k)"

definition first_definite :: "(nat \<Rightarrow> 'a option result) \<Rightarrow> nat \<Rightarrow> nat option" where
  "first_definite a n = List.find (\<lambda>k. a k \<noteq> Inr None) [0..<n]"

lemma first_definite_0 [simp]: "first_definite a 0 = None"
  by (simp add: first_definite_def)

lemma first_definite_Suc:
  "first_definite a (Suc n) =
     (if a 0 \<noteq> Inr None then Some 0 else map_option Suc (first_definite (\<lambda>k. a (Suc k)) n))"
proof -
  have "List.find P (map Suc xs) = map_option Suc (List.find (\<lambda>k. P (Suc k)) xs)" for P xs
    by (induction xs) auto
  then show ?thesis
    unfolding first_definite_def upt_conv_Cons [OF zero_less_Suc] map_Suc_upt [symmetric] by simp
qed

lemma poll_answer_shift: "poll_answer E url h (i + 1) k = poll_answer E url h i (Suc k)"
  by (simp add: poll_answer_def add.assoc)

lemma broadcast_Inr_iff [io_simps]:
  "broadcast E url raw w = (r, w') \<longleftrightarrow>
     answer E url ''eth_sendRawTransaction'' [PBytes raw] (json_b256 E) (next_id w) = r \<and>
     w' = w\<lparr>next_id := next_id w + 1,
       sent := sent w @ [request ''eth_sendRawTransaction'' [PBytes raw] (next_id w)]\<rparr>"
  by (simp add: broadcast_def rpc_send_raw_transaction_def io_simps)

lemma broadcast_obeys [simp]:
  "obeys quiet (broadcast E url raw)" "obeys same_files (broadcast E url raw)"
  "obeys same_locks (broadcast E url raw)" "obeys audit_grows (broadcast E url raw)"
  by (simp_all add: broadcast_def rpc_send_raw_transaction_def)

lemma wait_with_obeys [simp]:
  "obeys no_broadcast (wait_for_receipt_with E url h n)" "obeys quiet (wait_for_receipt_with E url h n)"
  "obeys same_files (wait_for_receipt_with E url h n)" "obeys same_locks (wait_for_receipt_with E url h n)"
  by (induction n)
     (auto simp: rpc_get_transaction_receipt_def split: option.splits
       intro!: nb.obeys_bindM qt.obeys_bindM sf.obeys_bindM sl.obeys_bindM)

lemma wait_obeys [simp]:
  "obeys no_broadcast (wait_for_receipt E url h)" "obeys quiet (wait_for_receipt E url h)"
  "obeys same_files (wait_for_receipt E url h)" "obeys same_locks (wait_for_receipt E url h)"
  by (simp_all add: wait_for_receipt_def)

lemma poll_requests_shift:
  "map (\<lambda>k. request m ps (i + 1 + of_nat k)) [0..<j] = map (\<lambda>k. request m ps (i + of_nat k)) [Suc 0..<Suc j]"
  unfolding map_Suc_upt [symmetric] by (simp add: add.assoc)

section \<open>Properties\<close>

text \<open>
  C39. The receipt wait returns: with a budget of \<open>n\<close> attempts it polls the receipt of the broadcast
  hash at most \<open>n\<close> times, its outcome is the first answer that is not \<open>null\<close> (a receipt, or the node's error), it sends
  exactly the requests up to that answer and nothing else, and when all \<open>n\<close> are \<open>null\<close> it ends
  with the timeout error.
\<close>

theorem wait_for_receipt_exact:
  "fst (wait_for_receipt_with E url h n w) =
      (case first_definite (poll_answer E url h (next_id w)) n of
         None \<Rightarrow> Inl (ErrRpcTransport (''timeout waiting for receipt of '' @ show_b256 E h))
       | Some k \<Rightarrow> andThen (poll_answer E url h (next_id w) k) (\<lambda>r. Inr (the r))) \<and>
   sent (snd (wait_for_receipt_with E url h n w)) =
      sent w @ map (\<lambda>k. request ''eth_getTransactionReceipt'' [PB256 h] (next_id w + of_nat k))
        [0..<(case first_definite (poll_answer E url h (next_id w)) n of None \<Rightarrow> n | Some k \<Rightarrow> Suc k)]"
proof (induction n arbitrary: w)
  case 0
  show ?case by (simp add: failM_def)
next
  case (Suc n)
  let ?w1 = "w\<lparr>next_id := next_id w + 1, sent := sent w @ [request ''eth_getTransactionReceipt'' [PB256 h] (next_id w)]\<rparr>"
  have e: "wait_for_receipt_with E url h (Suc n) w =
      (case poll_answer E url h (next_id w) 0 of
         Inl e \<Rightarrow> (Inl e, ?w1)
       | Inr (Some r) \<Rightarrow> (Inr r, ?w1)
       | Inr None \<Rightarrow> wait_for_receipt_with E url h n ?w1)"
    by (simp add: rpc_get_transaction_receipt_def bindM_def rpc_call_eval poll_answer_def retM_def
        split: sum.splits option.splits)
  have sh: "poll_answer E url h (next_id ?w1) = (\<lambda>k. poll_answer E url h (next_id w) (Suc k))"
    by (rule ext) (simp add: poll_answer_shift)
  show ?case
  proof (cases "poll_answer E url h (next_id w) 0 = Inr None")
    case True
    then show ?thesis
      unfolding e first_definite_Suc using Suc.IH [of ?w1] unfolding sh
      by (simp add: poll_requests_shift upt_conv_Cons del: upt_Suc split: option.splits)
  next
    case False
    then show ?thesis
      unfolding e first_definite_Suc by (auto simp: andThen_def split: sum.splits option.splits)
  qed
qed

end
