(* ===== verification/Replay_Cache.thy ===== *)
theory Replay_Cache
  imports Demo_Env "HOL-Library.AList" "HOL-Library.List_Lexorder" "HOL-Library.Char_ord"
begin

text \<open>
  The replay cache (\<open>replay_cache.rs\<close>): one JSON document per installation that maps a payment id
  to the hash of the transaction that was broadcast for it. The \<open>HashMap\<close> is an association list
  (its iteration order is shown not to matter), the JSON codec is a parameter. The advisory file
  lock brackets each operation and is never held across two of them, so an operation is one step;
  taking it can fail like any other file-system call. The interface the commands rely on is the
  locale \<open>submission_log\<close>.
\<close>

section \<open>Definitions\<close>

definition REPLAY_CACHE_FILENAME :: string where
  "REPLAY_CACHE_FILENAME = ''submitted_order_ids.json''"

record PaymentIdInputs =
  pi_chain_id :: u64
  pi_gateway :: address
  pi_agent :: address
  pi_order_id :: b256
  pi_amount :: u256
  pi_idempotency_key :: b256
  pi_deadline :: u64
  pi_tx_hash :: string

definition compute_payment_id :: "env \<Rightarrow> u64 \<Rightarrow> address \<Rightarrow> address \<Rightarrow> b256 \<Rightarrow> u256 \<Rightarrow> b256 \<Rightarrow> b256" where
  "compute_payment_id E chain_id gateway agent order amt idem =
     keccak256 E (abi_encode_sequence E (ucast chain_id, gateway, agent, order, amt, idem))"

type_synonym cache_map = "(string \<times> Entry) list"

text \<open>The loop that turns the entries of the document into a map: later entries win.\<close>

definition index_entries :: "Entry list \<Rightarrow> cache_map" where
  "index_entries es = fold (\<lambda>e m. AList.update (payment_id e) e m) es []"

definition parse_cache :: "env \<Rightarrow> string \<Rightarrow> cache_map result" where
  "parse_cache E buf =
     (if is_blank buf then Inr []
      else andThen (map_err (\<lambda>e. ErrConfig (''replay cache: failed to parse: '' @ e)) (replay_from_json E buf))
             (\<lambda>parsed. Inr (index_entries (entries parsed))))"

definition replay_open :: "env \<Rightarrow> string \<Rightarrow> string rmpc" where
  "replay_open E dir =
     bindM (fs_call E OpCreateDir dir ErrIo) (\<lambda>_.
     retM (path_join dir REPLAY_CACHE_FILENAME))"

definition file_content :: "string \<Rightarrow> world \<Rightarrow> string" where
  "file_content path w = (case files w path of Some s \<Rightarrow> s | None \<Rightarrow> [])"

definition read_locked :: "env \<Rightarrow> string \<Rightarrow> cache_map rmpc" where
  "read_locked E path =
     bindM (getM (\<lambda>w. files w path \<noteq> None)) (\<lambda>present.
     if \<not> present then retM []
     else
       bindM (fs_call E OpOpen path ErrIo) (\<lambda>_.
       bindM (fs_call E OpLock path ErrIo) (\<lambda>_.
       bindM (fs_call E OpRead path ErrIo) (\<lambda>_.
       bindM (getM (file_content path)) (\<lambda>buf.
       liftR (parse_cache E buf))))))"

text \<open>\<open>write_all\<close>: a failing write leaves the prefix that was written.\<close>

definition write_all :: "env \<Rightarrow> string \<Rightarrow> string \<Rightarrow> unit rmpc" where
  "write_all E path text = (\<lambda>w.
     (case fs_fault E (io_count w) OpWrite path of
        Some e \<Rightarrow> (Inl (ErrIo e),
          w\<lparr>io_count := Suc (io_count w),
            files := (files w)(path \<mapsto> take (write_progress E (io_count w)) text)\<rparr>)
      | None \<Rightarrow> (Inr (),
          w\<lparr>io_count := Suc (io_count w), files := (files w)(path \<mapsto> text)\<rparr>)))"

definition cache_document :: "cache_map \<Rightarrow> ReplayFile" where
  "cache_document m = \<lparr>version = 2, entries = sort_key payment_id (map snd m)\<rparr>"

definition write_back :: "env \<Rightarrow> string \<Rightarrow> cache_map \<Rightarrow> unit rmpc" where
  "write_back E path m =
     bindM (liftR (map_err ErrConfig (replay_to_json E (cache_document m)))) (\<lambda>json.
     bindM (fs_call E OpSetLen path ErrIo) (\<lambda>_.
     bindM (modifyM (\<lambda>w. w\<lparr>files := (files w)(path \<mapsto> [])\<rparr>)) (\<lambda>_.
     bindM (fs_call E OpSeek path ErrIo) (\<lambda>_.
     bindM (write_all E path json) (\<lambda>_.
     fs_call E OpFlush path ErrIo)))))"

definition with_locked_file :: "env \<Rightarrow> string \<Rightarrow> (cache_map \<Rightarrow> unit rmpc) \<Rightarrow> unit rmpc" where
  "with_locked_file E path f =
     bindM (fs_call E OpOpen path ErrIo) (\<lambda>_.
     bindM (modifyM (\<lambda>w. w\<lparr>files := (files w)(path \<mapsto> file_content path w)\<rparr>)) (\<lambda>_.
     bindM (fs_call E OpLock path ErrIo) (\<lambda>_.
     bindM (fs_call E OpRead path ErrIo) (\<lambda>_.
     bindM (getM (file_content path)) (\<lambda>buf.
     bindM (liftR (parse_cache E buf)) f)))))"

definition lookup ::
    "env \<Rightarrow> string \<Rightarrow> u64 \<Rightarrow> address \<Rightarrow> address \<Rightarrow> b256 \<Rightarrow> u256 \<Rightarrow> b256 \<Rightarrow> string option rmpc" where
  "lookup E path chain_id gateway agent order amt idem =
     (let key = show_b256 E (compute_payment_id E chain_id gateway agent order amt idem) in
      bindM (read_locked E path) (\<lambda>m.
      retM (map_option tx_hash (map_of m key))))"

definition insert_entry ::
    "env \<Rightarrow> string \<Rightarrow> u64 \<Rightarrow> address \<Rightarrow> address \<Rightarrow> b256 \<Rightarrow> u256 \<Rightarrow> b256 \<Rightarrow> u64 \<Rightarrow> string \<Rightarrow> unit rmpc" where
  "insert_entry E path chain_id gateway agent order amt idem dl tx =
     (let key = show_b256 E (compute_payment_id E chain_id gateway agent order amt idem) in
      with_locked_file E path (\<lambda>m.
        write_back E path (AList.update key
          \<lparr>payment_id = key, order_id = show_b256 E order, idempotency_key = show_b256 E idem,
           deadline = dl, tx_hash = tx\<rparr> m)))"

section \<open>The interface of the cache\<close>

text \<open>
  What a caller may rely on: recording an entry makes it the answer for its key and leaves every
  other key alone. The consequence for a whole history of submissions is proved once.
\<close>

locale submission_log =
  fixes find :: "'s \<Rightarrow> 'k \<Rightarrow> 'e option"
    and enter :: "'e \<Rightarrow> 's \<Rightarrow> 's"
    and key_of :: "'e \<Rightarrow> 'k"
  assumes find_enter: "find (enter e s) k = (if k = key_of e then Some e else find s k)"
begin

lemma find_history:
  "find (fold enter es s) k =
     (case map_of (map (\<lambda>e. (key_of e, e)) (rev es)) k of Some e \<Rightarrow> Some e | None \<Rightarrow> find s k)"
proof (induction es rule: rev_induct)
  case (snoc e es)
  then show ?case by (simp add: find_enter)
qed simp

lemma recorded_stays: "find s k \<noteq> None \<Longrightarrow> find (fold enter es s) k \<noteq> None"
  by (simp add: find_history split: option.splits)

end

definition rf_find :: "ReplayFile \<Rightarrow> string \<Rightarrow> Entry option" where
  "rf_find rf k = map_of (index_entries (entries rf)) k"

definition rf_enter :: "Entry \<Rightarrow> ReplayFile \<Rightarrow> ReplayFile" where
  "rf_enter e rf = cache_document (AList.update (payment_id e) e (index_entries (entries rf)))"

definition well_keyed :: "cache_map \<Rightarrow> bool" where
  "well_keyed m \<longleftrightarrow> distinct (map fst m) \<and> list_all (\<lambda>(k, e). payment_id e = k) m"

lemma well_keyed_update: "well_keyed m \<Longrightarrow> well_keyed (AList.update (payment_id e) e m)"
proof -
  assume m: "well_keyed m"
  have "list_all (\<lambda>(k, e). payment_id e = k) m \<Longrightarrow>
      list_all (\<lambda>(k, e). payment_id e = k) (AList.update (payment_id e) e m)"
    by (induction m) auto
  with m show ?thesis by (auto simp: well_keyed_def distinct_update)
qed

lemma map_of_fold_update:
  "map_of (fold (\<lambda>e m. AList.update (payment_id e) e m) es m) =
     map_of m ++ map_of (map (\<lambda>e. (payment_id e, e)) (rev es))"
  by (induction es arbitrary: m) (auto simp: update_conv')

lemma map_of_index_entries:
  "map_of (index_entries es) = map_of (map (\<lambda>e. (payment_id e, e)) (rev es))"
  by (simp add: index_entries_def map_of_fold_update)

lemma well_keyed_fold:
  "well_keyed m \<Longrightarrow> well_keyed (fold (\<lambda>e m. AList.update (payment_id e) e m) es m)"
  by (induction es arbitrary: m) (auto simp: well_keyed_update)

lemma well_keyed_index [simp]: "well_keyed (index_entries es)"
  unfolding index_entries_def by (rule well_keyed_fold) (simp add: well_keyed_def)

lemma well_keyed_pairs: "well_keyed m \<Longrightarrow> map (\<lambda>e. (payment_id e, e)) (map snd m) = m"
  by (induction m) (auto simp: well_keyed_def)

lemma well_keyed_distinct: "well_keyed m \<Longrightarrow> distinct (map payment_id (map snd m))"
  using well_keyed_pairs [of m] by (metis (no_types, lifting) fst_conv list.map_comp comp_def map_eq_conv well_keyed_def)

text \<open>Writing a map out and reading it back gives the same map.\<close>

lemma map_of_document:
  assumes "well_keyed m"
  shows "map_of (index_entries (entries (cache_document m))) = map_of m"
proof -
  let ?s = "sort_key payment_id (map snd m)"
  let ?ps = "map (\<lambda>e. (payment_id e, e)) (rev ?s)"
  have d: "distinct (map fst ?ps)"
  proof -
    have "distinct (map payment_id ?s)"
      using well_keyed_distinct [OF assms] unfolding distinct_map [of payment_id] by simp
    then show ?thesis by (simp add: rev_map [symmetric] comp_def)
  qed
  have "set ?ps = set (map (\<lambda>e. (payment_id e, e)) (map snd m))" by auto
  also have "\<dots> = set m" by (simp only: well_keyed_pairs [OF assms])
  finally have s: "set ?ps = set m" .
  have "map_of ?ps = map_of m"
    using d s assms by (metis map_of_inject_set well_keyed_def)
  then show ?thesis by (simp add: map_of_index_entries cache_document_def)
qed

interpretation rc: submission_log rf_find rf_enter payment_id
  by unfold_locales
     (simp add: rf_find_def rf_enter_def map_of_document well_keyed_update update_conv')

section \<open>Lemmas\<close>

text \<open>
  What \<open>serde_json\<close> documents of the pair \<open>to_string_pretty\<close>, \<open>from_str\<close> on a document type with
  derived instances: a document that was written reads back, and is not blank.
\<close>

definition codec_ok :: "env \<Rightarrow> bool" where
  "codec_ok E \<longleftrightarrow>
     (\<forall>rf s. replay_to_json E rf = Inr s \<longrightarrow> replay_from_json E s = Inr rf \<and> \<not> is_blank s)"

text \<open>The document a file stands for; a blank file is the empty document.\<close>

definition document :: "env \<Rightarrow> string \<Rightarrow> ReplayFile result" where
  "document E buf =
     (if is_blank buf then Inr \<lparr>version = 2, entries = []\<rparr>
      else map_err (\<lambda>e. ErrConfig (''replay cache: failed to parse: '' @ e)) (replay_from_json E buf))"

definition payment_key :: "env \<Rightarrow> PaymentIdInputs \<Rightarrow> string" where
  "payment_key E p = show_b256 E (compute_payment_id E (pi_chain_id p) (pi_gateway p) (pi_agent p)
     (pi_order_id p) (pi_amount p) (pi_idempotency_key p))"

definition entry_of :: "env \<Rightarrow> PaymentIdInputs \<Rightarrow> Entry" where
  "entry_of E p = \<lparr>payment_id = payment_key E p, order_id = show_b256 E (pi_order_id p),
     idempotency_key = show_b256 E (pi_idempotency_key p), deadline = pi_deadline p, tx_hash = pi_tx_hash p\<rparr>"

definition insert_inputs :: "env \<Rightarrow> string \<Rightarrow> PaymentIdInputs \<Rightarrow> unit rmpc" where
  "insert_inputs E path p = insert_entry E path (pi_chain_id p) (pi_gateway p) (pi_agent p)
     (pi_order_id p) (pi_amount p) (pi_idempotency_key p) (pi_deadline p) (pi_tx_hash p)"

definition lookup_inputs :: "env \<Rightarrow> string \<Rightarrow> PaymentIdInputs \<Rightarrow> string option rmpc" where
  "lookup_inputs E path p = lookup E path (pi_chain_id p) (pi_gateway p) (pi_agent p)
     (pi_order_id p) (pi_amount p) (pi_idempotency_key p)"

primrec insert_all :: "env \<Rightarrow> string \<Rightarrow> PaymentIdInputs list \<Rightarrow> unit rmpc" where
  "insert_all E path [] = retM ()"
| "insert_all E path (p # ps) = thenM (insert_inputs E path p) (insert_all E path ps)"

definition no_faults :: "env \<Rightarrow> string \<Rightarrow> bool" where
  "no_faults E path \<longleftrightarrow> (\<forall>n op. fs_fault E n op path = None)"

lemma payment_id_entry_of [simp]: "payment_id (entry_of E p) = payment_key E p"
  by (simp add: entry_of_def)

lemma tx_hash_entry_of [simp]: "tx_hash (entry_of E p) = pi_tx_hash p"
  by (simp add: entry_of_def)

lemma parse_cache_document:
  "parse_cache E buf = map_err id (andThen (document E buf) (\<lambda>rf. Inr (index_entries (entries rf))))"
  by (auto simp: parse_cache_def document_def index_entries_def andThen_def map_err_def split: sum.splits)

lemma write_all_Inr_iff [io_simps]:
  "write_all E path text w = (Inr u, w') \<longleftrightarrow> fs_fault E (io_count w) OpWrite path = None \<and>
     w' = w\<lparr>io_count := Suc (io_count w), files := (files w)(path \<mapsto> text)\<rparr>"
  by (auto simp: write_all_def split: option.splits)

text \<open>A successful insert replaces the document by the one with the entry recorded.\<close>

lemma insert_inputs_Inr_D:
  assumes "insert_inputs E path p w = (Inr (), w')"
  shows "\<exists>rf json. document E (file_content path w) = Inr rf \<and>
           replay_to_json E (rf_enter (entry_of E p) rf) = Inr json \<and> files w' = (files w)(path \<mapsto> json)"
proof -
  from assms obtain rf json where
      "document E (file_content path w) = Inr rf"
      "replay_to_json E (cache_document (AList.update (payment_key E p) (entry_of E p) (index_entries (entries rf)))) = Inr json"
      "files w' = (files w)(path \<mapsto> json)"
    by (auto simp: insert_inputs_def insert_entry_def with_locked_file_def write_back_def io_simps
        parse_cache_document payment_key_def entry_of_def file_content_def Let_def)
  then show ?thesis by (auto simp: rf_enter_def)
qed

lemma lookup_inputs_result:
  assumes "no_faults E path" and "document E (file_content path w) = Inr rf"
  shows "fst (lookup_inputs E path p w) = Inr (map_option tx_hash (rf_find rf (payment_key E p)))"
  using assms
  by (auto simp: lookup_inputs_def lookup_def read_locked_def io_eval fs_call_def no_faults_def payment_key_def
      parse_cache_document rf_find_def Let_def file_content_def document_def index_entries_def is_blank_def
      split: option.splits)

lemma insert_all_document:
  assumes "codec_ok E" and "insert_all E path ps w = (Inr (), w')" and "document E (file_content path w) = Inr rf"
  shows "document E (file_content path w') = Inr (fold rf_enter (map (entry_of E) ps) rf)"
  using assms(2,3)
proof (induction ps arbitrary: w rf)
  case Nil
  then show ?case by (simp add: io_simps)
next
  case (Cons p ps)
  from Cons.prems(1) obtain w1 where w1: "insert_inputs E path p w = (Inr (), w1)"
      "insert_all E path ps w1 = (Inr (), w')"
    by (auto simp: io_simps)
  from insert_inputs_Inr_D [OF w1(1)] Cons.prems(2) obtain json where
      j: "replay_to_json E (rf_enter (entry_of E p) rf) = Inr json" "files w1 = (files w)(path \<mapsto> json)"
    by auto
  have "replay_from_json E json = Inr (rf_enter (entry_of E p) rf)" "\<not> is_blank json"
    using assms(1) j(1) unfolding codec_ok_def by blast+
  then have "document E (file_content path w1) = Inr (rf_enter (entry_of E p) rf)"
    using j(2) by (simp add: document_def file_content_def map_err_def)
  from Cons.IH [OF w1(2) this] show ?case by simp
qed

lemma history_tx_hash:
  "map_option tx_hash (map_of (map (\<lambda>e. (payment_id e, e)) (rev (map (entry_of E) ps))) k) =
     map_of (map (\<lambda>p. (payment_key E p, pi_tx_hash p)) (rev ps)) k"
  by (induction ps rule: rev_induct) auto

lemma replay_obeys [simp]:
  "obeys no_broadcast (lookup E path c g a ord m i)" "obeys no_broadcast (insert_entry E path c g a ord m i d t)"
  "obeys quiet (lookup E path c g a ord m i)" "obeys quiet (insert_entry E path c g a ord m i d t)"
  "obeys same_locks (lookup E path c g a ord m i)" "obeys same_locks (insert_entry E path c g a ord m i d t)"
  "obeys same_files (lookup E path c g a ord m i)"
  "obeys no_broadcast (replay_open E dir)" "obeys quiet (replay_open E dir)"
  "obeys same_locks (replay_open E dir)" "obeys same_files (replay_open E dir)"
proof -
  have w: "obeys no_broadcast (write_all E path s)" "obeys quiet (write_all E path s)"
      "obeys same_locks (write_all E path s)" for s
    by (auto simp: obeys_def write_all_def no_broadcast_def quiet_def same_locks_def split: option.splits)
  have m: "obeys no_broadcast (modifyM (\<lambda>w. w\<lparr>files := F w\<rparr>))" "obeys quiet (modifyM (\<lambda>w. w\<lparr>files := F w\<rparr>))"
      "obeys same_locks (modifyM (\<lambda>w. w\<lparr>files := F w\<rparr>))" for F
    by (auto simp: obeys_def modifyM_def no_broadcast_def quiet_def same_locks_def)
  show "obeys no_broadcast (lookup E path c g a ord m i)" "obeys quiet (lookup E path c g a ord m i)"
      "obeys same_locks (lookup E path c g a ord m i)" "obeys same_files (lookup E path c g a ord m i)"
    unfolding lookup_def read_locked_def Let_def
    by (auto intro!: nb.obeys_bindM qt.obeys_bindM sl.obeys_bindM sf.obeys_bindM)
  show "obeys no_broadcast (insert_entry E path c g a ord m i d t)" "obeys quiet (insert_entry E path c g a ord m i d t)"
      "obeys same_locks (insert_entry E path c g a ord m i d t)"
    unfolding insert_entry_def with_locked_file_def write_back_def Let_def
    by (auto intro!: nb.obeys_bindM qt.obeys_bindM sl.obeys_bindM simp: w m)
  show "obeys no_broadcast (replay_open E dir)" "obeys quiet (replay_open E dir)"
      "obeys same_locks (replay_open E dir)" "obeys same_files (replay_open E dir)"
    unfolding replay_open_def by (auto intro!: nb.obeys_bindM qt.obeys_bindM sl.obeys_bindM sf.obeys_bindM)
qed

lemma insert_inputs_Inr_I:
  assumes "no_faults E path" and "document E (file_content path w) = Inr rf"
    and "replay_to_json E (rf_enter (entry_of E p) rf) = Inr json"
  shows "\<exists>w'. insert_inputs E path p w = (Inr (), w') \<and> files w' = (files w)(path \<mapsto> json)"
proof -
  have "replay_to_json E (cache_document (AList.update (payment_key E p) (entry_of E p) (index_entries (entries rf)))) = Inr json"
    using assms(3) by (simp add: rf_enter_def)
  then show ?thesis
    using assms(1,2)
    by (simp add: insert_inputs_def insert_entry_def with_locked_file_def write_back_def Let_def io_simps
        parse_cache_document payment_key_def entry_of_def file_content_def no_faults_def)
qed

section \<open>Properties\<close>

text \<open>
  C5. The cache remembers every submission: after any sequence of successful inserts, looking up a
  payment answers the transaction hash of the last insert with the same chain, gateway, agent,
  order, amount and idempotency key, whatever the deadline; and a payment that was not among them
  is answered as it would have been before.
\<close>

theorem replay_remembers:
  assumes "codec_ok E" and "no_faults E path" and "document E (file_content path w) = Inr rf"
    and "insert_all E path ps w = (Inr (), w')"
  shows "fst (lookup_inputs E path q w') =
    Inr (case map_of (map (\<lambda>p. (payment_key E p, pi_tx_hash p)) (rev ps)) (payment_key E q) of
           Some h \<Rightarrow> Some h | None \<Rightarrow> map_option tx_hash (rf_find rf (payment_key E q)))"
proof -
  have "fst (lookup_inputs E path q w') =
      Inr (map_option tx_hash (rf_find (fold rf_enter (map (entry_of E) ps) rf) (payment_key E q)))"
    by (rule lookup_inputs_result [OF assms(2) insert_all_document [OF assms(1,4,3)]])
  then show ?thesis
    unfolding rc.find_history history_tx_hash [symmetric] by (simp split: option.splits)
qed

definition demo_submission :: PaymentIdInputs where
  "demo_submission = \<lparr>pi_chain_id = 31337, pi_gateway = 1, pi_agent = 8, pi_order_id = 4, pi_amount = 50,
     pi_idempotency_key = 4, pi_deadline = 2000, pi_tx_hash = ''99''\<rparr>"

lemma demo_codec_ok: "codec_ok demo_env" "no_faults demo_env path"
  by (simp_all add: codec_ok_def no_faults_def demo_env_def)

theorem replay_remembers_witness:
  "fst (lookup_inputs demo_env ''/c'' (demo_submission\<lparr>pi_deadline := 9999\<rparr>)
     (snd (insert_all demo_env ''/c'' [demo_submission] world0))) = Inr (Some ''99'')"
proof -
  have d: "document demo_env (file_content ''/c'' world0) = Inr \<lparr>version = 2, entries = []\<rparr>"
    by (simp add: document_def file_content_def world0_def is_blank_def)
  have "replay_to_json demo_env rf = Inr (enc_file rf)" for rf by (simp add: demo_env_def)
  then obtain w' where "insert_inputs demo_env ''/c'' demo_submission world0 = (Inr (), w')"
    using insert_inputs_Inr_I [OF demo_codec_ok(2) d] by blast
  then have w': "insert_all demo_env ''/c'' [demo_submission] world0 = (Inr (), w')" by (simp add: io_simps)
  have "payment_key demo_env (demo_submission\<lparr>pi_deadline := 9999\<rparr>) = payment_key demo_env demo_submission"
    by (simp add: payment_key_def)
  then show ?thesis
    using replay_remembers [OF demo_codec_ok d w', of "demo_submission\<lparr>pi_deadline := 9999\<rparr>"]
    by (simp only: w') (simp add: demo_submission_def)
qed

text \<open>
  The document written does not depend on the iteration order of the hash map: two maps with
  the same contents are written identically, so rewriting the cache is deterministic.
\<close>

theorem write_back_order_irrelevant:
  assumes "well_keyed m" and "well_keyed m'" and "map_of m = map_of m'"
  shows "write_back E path m = write_back E path m'"
proof -
  have "set m = set m'" using assms by (metis map_of_inject_set well_keyed_def)
  then have s: "set (map snd m) = set (map snd m')" by simp
  have dk: "distinct (map payment_id (sort_key payment_id (map snd x)))" if "well_keyed x" for x
    using well_keyed_distinct [OF that] unfolding distinct_map [of payment_id] by simp
  have "inj_on payment_id (set (sort_key payment_id (map snd m)) \<union> set (sort_key payment_id (map snd m')))"
    using well_keyed_distinct [OF assms(1)] s unfolding distinct_map [of payment_id] by simp
  from map_sorted_distinct_set_unique [OF this _ dk [OF assms(1)] _ dk [OF assms(2)]]
  have "sort_key payment_id (map snd m) = sort_key payment_id (map snd m')" using s by simp
  then show ?thesis by (simp add: write_back_def cache_document_def)
qed

theorem write_back_order_irrelevant_witness:
  "let e1 = \<lparr>payment_id = ''1'', order_id = ''a'', idempotency_key = ''a'', deadline = 7, tx_hash = ''t''\<rparr>;
       e2 = \<lparr>payment_id = ''2'', order_id = ''b'', idempotency_key = ''b'', deadline = 7, tx_hash = ''u''\<rparr> in
   write_back demo_env ''/c'' [(''2'', e2), (''1'', e1)] = write_back demo_env ''/c'' [(''1'', e1), (''2'', e2)]"
  unfolding Let_def
  by (rule write_back_order_irrelevant) (auto simp: well_keyed_def)

lemma torn_insert_blanks:
  assumes "document E (file_content path w) = Inr rf"
    and "replay_to_json E (rf_enter (entry_of E p) rf) = Inr json"
    and "\<forall>n op. fs_fault E n op path = (if op = OpWrite then Some e else None)"
    and "\<forall>n. write_progress E n = 0"
  shows "\<exists>w'. insert_inputs E path p w = (Inl (ErrIo e), w') \<and> files w' path = Some []"
proof -
  have "replay_to_json E (cache_document (AList.update (payment_key E p) (entry_of E p) (index_entries (entries rf)))) = Inr json"
    using assms(2) by (simp add: rf_enter_def)
  then show ?thesis
    using assms(1,3,4)
    by (simp add: insert_inputs_def insert_entry_def with_locked_file_def write_back_def Let_def io_eval
        parse_cache_document payment_key_def entry_of_def file_content_def fs_call_def write_all_def)
qed

lemma blank_cache_answers_none:
  assumes "files w path = Some []" and "\<forall>n op. op \<noteq> OpWrite \<longrightarrow> fs_fault E n op path = None"
  shows "fst (lookup_inputs E path q w) = Inr None"
  using assms
  by (simp add: lookup_inputs_def lookup_def read_locked_def io_eval fs_call_def Let_def file_content_def
      parse_cache_def is_blank_def)

text \<open>
  C40. Rewriting is not atomic: when the write of a new entry fails before its first byte, the
  insert reports the I/O error but the file has already been truncated, and from then on every
  earlier submission is answered as never seen.
\<close>

theorem torn_insert_forgets_cache:
  assumes "document E (file_content path w) = Inr rf"
    and "replay_to_json E (rf_enter (entry_of E p) rf) = Inr json"
    and "\<forall>n op. fs_fault E n op path = (if op = OpWrite then Some e else None)"
    and "\<forall>n. write_progress E n = 0"
  shows "\<exists>w'. insert_inputs E path p w = (Inl (ErrIo e), w') \<and>
           fst (lookup_inputs E path q w') = Inr None"
proof -
  obtain w' where w': "insert_inputs E path p w = (Inl (ErrIo e), w')" "files w' path = Some []"
    using torn_insert_blanks [OF assms] by blast
  with blank_cache_answers_none [OF w'(2)] assms(3) show ?thesis by auto
qed

definition demo_torn_env :: env where
  "demo_torn_env = demo_env\<lparr>fs_fault :=
     (\<lambda>_ op _. if op = OpWrite then Some (IoError OtherKind ''disk full'') else None)\<rparr>"

theorem torn_insert_forgets_cache_witness:
  "\<exists>w'. insert_inputs demo_torn_env ''/c'' demo_submission world0 = (Inl (ErrIo (IoError OtherKind ''disk full'')), w') \<and>
     fst (lookup_inputs demo_torn_env ''/c'' demo_submission w') = Inr None"
proof (rule torn_insert_forgets_cache)
  show "document demo_torn_env (file_content ''/c'' world0) = Inr \<lparr>version = 2, entries = []\<rparr>"
    by (simp add: document_def file_content_def world0_def is_blank_def)
  show "replay_to_json demo_torn_env (rf_enter (entry_of demo_torn_env demo_submission) \<lparr>version = 2, entries = []\<rparr>) =
      Inr (enc_file (rf_enter (entry_of demo_torn_env demo_submission) \<lparr>version = 2, entries = []\<rparr>))"
    by (simp add: demo_torn_env_def demo_env_def)
  show "\<forall>n op. fs_fault demo_torn_env n op ''/c'' =
      (if op = OpWrite then Some (IoError OtherKind ''disk full'') else None)"
    by (simp add: demo_torn_env_def)
  show "\<forall>n. write_progress demo_torn_env n = 0"
    by (simp add: demo_torn_env_def demo_env_def)
qed

end
