(* ===== verification/Keystore.thy ===== *)
theory Keystore
  imports Tx Replay_Cache
begin

text \<open>
  The software signer (\<open>signer/software.rs\<close>): creating, loading and decrypting the keystore
  document, and signing an envelope hash with a low-S signature. Argon2id, AES-256-GCM, hex and
  the curve are crates and stay parameters; a signing key is represented by its scalar bytes, the
  random salt and nonce of a new keystore are arguments, wiping of buffers has no counterpart, and the
  one non-ASCII character of a message is written in ASCII.
\<close>

section \<open>Definitions\<close>

definition PASSPHRASE_ENV_VAR :: string where
  "PASSPHRASE_ENV_VAR = ''RMPC_KEYSTORE_PASSPHRASE''"

definition ARGON2_M_COST_KIB :: u32 where "ARGON2_M_COST_KIB = 19456"
definition ARGON2_T_COST :: u32 where "ARGON2_T_COST = 2"
definition ARGON2_P_COST :: u32 where "ARGON2_P_COST = 1"
definition KEY_LEN :: nat where "KEY_LEN = 32"
definition NONCE_LEN :: nat where "NONCE_LEN = 12"
definition PRIVKEY_LEN :: nat where "PRIVKEY_LEN = 32"
definition MIN_SALT_LEN :: nat where "MIN_SALT_LEN = 16"

record SoftwareSigner =
  signing_key :: bytes
  signer_addr :: address

type_synonym 'a signer_result = "SignerError + 'a"

definition str_bytes :: "string \<Rightarrow> bytes" where
  "str_bytes s = map (\<lambda>c. of_nat (of_char c)) s"

definition derive_key :: "env \<Rightarrow> bytes \<Rightarrow> bytes \<Rightarrow> u32 \<Rightarrow> u32 \<Rightarrow> u32 \<Rightarrow> bytes signer_result" where
  "derive_key E passphrase salt m t p =
     andThen (map_err (\<lambda>e. ErrKeystoreFormat (''bad argon2 params: '' @ e)) (argon2_params E m t p)) (\<lambda>_.
     map_err (\<lambda>e. ErrKeystoreFormat (''argon2 derive: '' @ e)) (argon2id E m t p passphrase salt))"

text \<open>\<open>Aes256Gcm::new_from_slice\<close> rejects a key of the wrong length.\<close>

definition aes_new :: "bytes \<Rightarrow> unit signer_result" where
  "aes_new key = (if length key = KEY_LEN then Inr () else Inl (ErrSign ''aes init: Invalid Length''))"

definition address_from_signing_key :: "env \<Rightarrow> bytes \<Rightarrow> address" where
  "address_from_signing_key E sk =
     (let pubkey = public_point E sk; h = keccak256 E (tl pubkey) in
      address_of_bytes E (drop 12 (b256_bytes E h)))"

definition parse_address :: "env \<Rightarrow> string \<Rightarrow> address signer_result" where
  "parse_address E s =
     andThen (map_err (\<lambda>e. ErrKeystoreFormat (''bad address hex: '' @ e))
                (hex_decode E (strip_prefix_or_self ''0x'' s))) (\<lambda>bs.
       if length bs \<noteq> 20
       then Inl (ErrKeystoreFormat (''address must be 20 bytes, got '' @ show_nat (length bs)))
       else Inr (address_of_bytes E bs))"

text \<open>\<open>std::fs::write\<close>.\<close>

definition fs_write :: "env \<Rightarrow> string \<Rightarrow> string \<Rightarrow> (world, SignerError, unit) io" where
  "fs_write E path text =
     bindM (fs_call E OpOpen path (\<lambda>e. ErrKeystoreIo (io_text e))) (\<lambda>_.
     bindM (modifyM (\<lambda>w. w\<lparr>files := (files w)(path \<mapsto> [])\<rparr>)) (\<lambda>_.
     handleM (write_all E path text)
       (\<lambda>e. failM (ErrKeystoreIo (case e of ErrIo x \<Rightarrow> io_text x | _ \<Rightarrow> display e)))))"

definition create_keystore ::
    "env \<Rightarrow> string \<Rightarrow> bytes \<Rightarrow> bytes \<Rightarrow> bytes \<Rightarrow> bytes \<Rightarrow> (world, SignerError, Keystore) io" where
  "create_keystore E path private_key passphrase salt nonce_bytes =
     bindM (liftR (derive_key E passphrase salt ARGON2_M_COST_KIB ARGON2_T_COST ARGON2_P_COST)) (\<lambda>key_bytes.
     bindM (liftR (aes_new key_bytes)) (\<lambda>_.
     bindM (liftR (map_err (\<lambda>e. ErrSign (''invalid private key: '' @ e)) (signing_key_check E private_key))) (\<lambda>_.
     let addr = address_from_signing_key E private_key; aad = address_bytes E addr in
     bindM (liftR (map_err (\<lambda>e. ErrSign (''aes encrypt: '' @ e))
              (aes_gcm_encrypt E key_bytes nonce_bytes aad private_key))) (\<lambda>ciphertext.
     let keystore =
       \<lparr>ks_version = 1, ks_kind = ''rmpc-software-keystore'',
        ks_address = ''0x'' @ hex_encode E (address_bytes E addr),
        ks_kdf = \<lparr>kdf_name = ''argon2id'', kdf_salt = hex_encode E salt, m_cost = ARGON2_M_COST_KIB,
                  t_cost = ARGON2_T_COST, p_cost = ARGON2_P_COST\<rparr>,
        ks_cipher = \<lparr>cipher_name = ''aes-256-gcm'', cipher_nonce = hex_encode E nonce_bytes,
                     cipher_ciphertext = hex_encode E ciphertext\<rparr>\<rparr> in
     bindM (liftR (map_err ErrKeystoreFormat (keystore_to_json E keystore))) (\<lambda>json.
     bindM (fs_write E path json) (\<lambda>_.
     retM keystore))))))"

text \<open>\<open>format!("{:?}", s)\<close> on a plain string.\<close>

definition quoted :: "string \<Rightarrow> string" where
  "quoted s = CHR 0x22 # s @ [CHR 0x22]"

definition from_keystore :: "env \<Rightarrow> Keystore \<Rightarrow> bytes \<Rightarrow> SoftwareSigner signer_result" where
  "from_keystore E ks passphrase =
     (if ks_version ks \<noteq> 1 then
        Inl (ErrKeystoreFormat (''unsupported keystore version '' @ show_word (ks_version ks)))
      else if ks_kind ks \<noteq> ''rmpc-software-keystore'' then
        Inl (ErrKeystoreFormat (''unexpected keystore kind '' @ quoted (ks_kind ks)))
      else if kdf_name (ks_kdf ks) \<noteq> ''argon2id'' then
        Inl (ErrKeystoreFormat (''unsupported KDF '' @ quoted (kdf_name (ks_kdf ks))))
      else if cipher_name (ks_cipher ks) \<noteq> ''aes-256-gcm'' then
        Inl (ErrKeystoreFormat (''unsupported cipher '' @ quoted (cipher_name (ks_cipher ks))))
      else
        andThen (map_err (\<lambda>e. ErrKeystoreFormat (''bad salt hex: '' @ e)) (hex_decode E (kdf_salt (ks_kdf ks)))) (\<lambda>salt.
        if length salt < MIN_SALT_LEN then
          Inl (ErrKeystoreFormat (''salt too short ('' @ show_nat (length salt) @ '' bytes; need >= '' @
                show_nat MIN_SALT_LEN @ '')''))
        else
        andThen (map_err (\<lambda>e. ErrKeystoreFormat (''bad nonce hex: '' @ e)) (hex_decode E (cipher_nonce (ks_cipher ks)))) (\<lambda>nonce_bytes.
        if length nonce_bytes \<noteq> NONCE_LEN then
          Inl (ErrKeystoreFormat (''nonce must be '' @ show_nat NONCE_LEN @ '' bytes, got '' @ show_nat (length nonce_bytes)))
        else
        andThen (map_err (\<lambda>e. ErrKeystoreFormat (''bad ciphertext hex: '' @ e)) (hex_decode E (cipher_ciphertext (ks_cipher ks)))) (\<lambda>ciphertext.
        andThen (parse_address E (ks_address ks)) (\<lambda>claimed_address.
        andThen (derive_key E passphrase salt (m_cost (ks_kdf ks)) (t_cost (ks_kdf ks)) (p_cost (ks_kdf ks))) (\<lambda>key_bytes.
        andThen (aes_new key_bytes) (\<lambda>_.
        andThen (map_err (\<lambda>_. ErrKeystoreDecrypt)
                   (aes_gcm_decrypt E key_bytes nonce_bytes (address_bytes E claimed_address) ciphertext)) (\<lambda>plaintext.
        if length plaintext \<noteq> PRIVKEY_LEN then
          Inl (ErrKeystoreFormat (''decrypted plaintext is '' @ show_nat (length plaintext) @ '' bytes, expected '' @
                show_nat PRIVKEY_LEN))
        else
        andThen (map_err (\<lambda>e. ErrSign (''invalid private key: '' @ e)) (signing_key_check E plaintext)) (\<lambda>_.
        let derived = address_from_signing_key E plaintext in
        if derived \<noteq> claimed_address then
          Inl (ErrKeystoreFormat ''decrypted key does not match claimed `address`'')
        else Inr \<lparr>signing_key = plaintext, signer_addr = derived\<rparr>)))))))))"

definition load_with_passphrase :: "env \<Rightarrow> string \<Rightarrow> bytes \<Rightarrow> bool \<Rightarrow> SoftwareSigner signer_result" where
  "load_with_passphrase E path passphrase allow =
     (if \<not> allow then Inl SignerDisallowed
      else
        andThen (map_err (\<lambda>e. ErrKeystoreIo (io_text e)) (read_path E path)) (\<lambda>raw.
        andThen (map_err ErrKeystoreFormat (json_keystore E raw)) (\<lambda>ks.
        from_keystore E ks passphrase)))"

definition strip_newline :: "string \<Rightarrow> string" where
  "strip_newline line =
     (if line \<noteq> [] \<and> last line = CHR 0x0A then
        (let l = butlast line in if l \<noteq> [] \<and> last l = CHR 0x0D then butlast l else l)
      else line)"

definition read_passphrase_from_env_or_stdin :: "env \<Rightarrow> string signer_result" where
  "read_passphrase_from_env_or_stdin E =
     (case env_vars E PASSPHRASE_ENV_VAR of
        Some p \<Rightarrow>
          if p = [] then Inl (ErrPassphrase (PASSPHRASE_ENV_VAR @ '' is set but empty'')) else Inr p
      | None \<Rightarrow>
          andThen (map_err (\<lambda>e. ErrPassphrase (''reading stdin: '' @ io_text e)) (stdin_line E)) (\<lambda>line.
            let l = strip_newline line in
            if l = [] then Inl (ErrPassphrase ''empty passphrase on stdin'') else Inr l))"

definition load :: "env \<Rightarrow> string \<Rightarrow> bool \<Rightarrow> SoftwareSigner signer_result" where
  "load E path allow =
     (if \<not> allow then Inl SignerDisallowed
      else andThen (read_passphrase_from_env_or_stdin E) (\<lambda>p.
             load_with_passphrase E path (str_bytes p) allow))"

definition sign_eip1559_hash :: "env \<Rightarrow> SoftwareSigner \<Rightarrow> b256 \<Rightarrow> Signature signer_result" where
  "sign_eip1559_hash E sg h =
     andThen (map_err ErrSign (sign_prehash E (signing_key sg) h)) (\<lambda>sig.
     let (s, recid) = (case normalize_s E (sig_s sig) of
           Some low \<Rightarrow> (low, xor (sig_recid sig) 1)
         | None \<Rightarrow> (sig_s sig, sig_recid sig)) in
     Inr \<lparr>alloy_r = sig_r sig, alloy_s = s, alloy_parity = odd recid\<rparr>)"

section \<open>Properties\<close>

text \<open>
  A keystore unlocks exactly to the key it claims: unlocking succeeds if and only if the
  format tags, salt and nonce lengths are right, the ciphertext authenticates under the key derived
  from the passphrase with the claimed address as associated data, and the 32-byte key inside
  controls the claimed address; the signer then holds that key and that address.
\<close>

theorem from_keystore_exact:
  "from_keystore E ks passphrase = Inr sg \<longleftrightarrow>
     ks_version ks = 1 \<and> ks_kind ks = ''rmpc-software-keystore'' \<and>
     kdf_name (ks_kdf ks) = ''argon2id'' \<and> cipher_name (ks_cipher ks) = ''aes-256-gcm'' \<and>
     (\<exists>salt nonce ct key.
        hex_decode E (kdf_salt (ks_kdf ks)) = Inr salt \<and> 16 \<le> length salt \<and>
        hex_decode E (cipher_nonce (ks_cipher ks)) = Inr nonce \<and> length nonce = 12 \<and>
        hex_decode E (cipher_ciphertext (ks_cipher ks)) = Inr ct \<and>
        parse_address E (ks_address ks) = Inr (signer_addr sg) \<and>
        derive_key E passphrase salt (m_cost (ks_kdf ks)) (t_cost (ks_kdf ks)) (p_cost (ks_kdf ks)) = Inr key \<and>
        length key = 32 \<and>
        aes_gcm_decrypt E key nonce (address_bytes E (signer_addr sg)) ct = Inr (signing_key sg) \<and>
        length (signing_key sg) = 32 \<and> signing_key_check E (signing_key sg) = Inr () \<and>
        signer_addr sg = address_from_signing_key E (signing_key sg))"
    (is "?l \<longleftrightarrow> ?r")
proof
  assume ?l
  then show ?r
    by (auto simp: from_keystore_def io_simps aes_new_def Let_def KEY_LEN_def NONCE_LEN_def PRIVKEY_LEN_def
        MIN_SALT_LEN_def not_less split: if_splits)
next
  assume ?r
  then show ?l
    by (cases sg) (auto simp: from_keystore_def andThen_def map_err_def aes_new_def Let_def KEY_LEN_def
        NONCE_LEN_def PRIVKEY_LEN_def MIN_SALT_LEN_def)
qed

lemma created_unlocks:
  assumes "create_keystore E path priv pw salt nonce w = (Inr ks, w')"
    and "\<forall>bs. hex_decode E (hex_encode E bs) = Inr bs"
    and "\<forall>k n a p c. aes_gcm_encrypt E k n a p = Inr c \<longrightarrow> aes_gcm_decrypt E k n a c = Inr p"
    and "length (address_bytes E (address_from_signing_key E priv)) = 20"
    and "address_of_bytes E (address_bytes E (address_from_signing_key E priv)) = address_from_signing_key E priv"
    and "length salt = 16" and "length nonce = 12" and "length priv = 32"
  shows "from_keystore E ks pw = Inr \<lparr>signing_key = priv, signer_addr = address_from_signing_key E priv\<rparr>"
proof -
  from assms(1) obtain key ct where k: "derive_key E pw salt ARGON2_M_COST_KIB ARGON2_T_COST ARGON2_P_COST = Inr key"
      "aes_new key = Inr ()" "signing_key_check E priv = Inr ()"
      "aes_gcm_encrypt E key nonce (address_bytes E (address_from_signing_key E priv)) priv = Inr ct"
      "ks = \<lparr>ks_version = 1, ks_kind = ''rmpc-software-keystore'',
        ks_address = ''0x'' @ hex_encode E (address_bytes E (address_from_signing_key E priv)),
        ks_kdf = \<lparr>kdf_name = ''argon2id'', kdf_salt = hex_encode E salt, m_cost = ARGON2_M_COST_KIB,
                  t_cost = ARGON2_T_COST, p_cost = ARGON2_P_COST\<rparr>,
        ks_cipher = \<lparr>cipher_name = ''aes-256-gcm'', cipher_nonce = hex_encode E nonce,
                     cipher_ciphertext = hex_encode E ct\<rparr>\<rparr>"
    by (auto simp: create_keystore_def Let_def io_simps)
  have "parse_address E (ks_address ks) = Inr (address_from_signing_key E priv)"
    using assms(2,4,5) by (simp add: k(5) parse_address_def strip_prefix_or_self_def andThen_def map_err_def)
  moreover have "aes_gcm_decrypt E key nonce (address_bytes E (address_from_signing_key E priv)) ct = Inr priv"
    using assms(3) k(4) by blast
  ultimately show ?thesis
    unfolding from_keystore_def using k assms(2,6,7,8)
    by (simp add: andThen_def map_err_def MIN_SALT_LEN_def NONCE_LEN_def PRIVKEY_LEN_def)
qed

text \<open>
  Round trip: a keystore written by \<open>create_keystore\<close> unlocks under the same passphrase to the
  private key it was made from. The crates' documented behaviour that is used: hex decoding
  inverts encoding, AES-GCM decrypts what it encrypted under the same key, nonce and associated
  data, and an address is 20 bytes that read back.
\<close>

theorem keystore_roundtrip:
  assumes "create_keystore E path priv pw salt nonce w = (Inr ks, w')"
    and "\<forall>bs. hex_decode E (hex_encode E bs) = Inr bs"
    and "\<forall>k n a p c. aes_gcm_encrypt E k n a p = Inr c \<longrightarrow> aes_gcm_decrypt E k n a c = Inr p"
    and "length (address_bytes E (address_from_signing_key E priv)) = 20"
    and "address_of_bytes E (address_bytes E (address_from_signing_key E priv)) = address_from_signing_key E priv"
    and "length salt = 16" and "length nonce = 12" and "length priv = 32"
  shows "from_keystore E ks pw = Inr \<lparr>signing_key = priv, signer_addr = address_from_signing_key E priv\<rparr>"
  by (rule created_unlocks [OF assms])

definition demo_ks_env :: env where
  "demo_ks_env = demo_env\<lparr>address_bytes := (\<lambda>_. replicate 20 1)\<rparr>"

theorem keystore_roundtrip_witness:
  "\<exists>ks w'. create_keystore demo_ks_env ''/k'' (replicate 32 1) (replicate 32 112) (replicate 16 5) (replicate 12 6) world0 =
       (Inr ks, w') \<and>
     from_keystore demo_ks_env ks (replicate 32 112) =
       Inr \<lparr>signing_key = replicate 32 1, signer_addr = address_from_signing_key demo_ks_env (replicate 32 1)\<rparr>"
proof -
  obtain ks w' where c: "create_keystore demo_ks_env ''/k'' (replicate 32 1) (replicate 32 112) (replicate 16 5)
      (replicate 12 6) world0 = (Inr ks, w')"
    by (simp add: create_keystore_def demo_ks_env_def demo_env_def Let_def io_eval derive_key_def aes_new_def
        KEY_LEN_def fs_write_def fs_call_def write_all_def)
  have h: "unat (b :: 8 word) mod 256 = unat b" for b
    using unsigned_less [of b, where 'a = nat] by simp
  have "from_keystore demo_ks_env ks (replicate 32 112) =
      Inr \<lparr>signing_key = replicate 32 1, signer_addr = address_from_signing_key demo_ks_env (replicate 32 1)\<rparr>"
    by (rule keystore_roundtrip [OF c])
       (auto simp: demo_ks_env_def demo_env_def address_from_signing_key_def Let_def comp_def h)
  with c show ?thesis by blast
qed

text \<open>
  Signatures are canonical: with the curve's order \<open>n\<close> and its documented normalisation (a high
  \<open>s\<close> is replaced by \<open>n - s\<close>), every signature the signer returns has \<open>s\<close> in the lower half, and the
  parity flips exactly when \<open>s\<close> was replaced, so the recovered key stays the same.
\<close>

theorem sign_low_s:
  fixes n :: u256
  assumes "\<forall>s. normalize_s E s = (if n div 2 < s then Some (n - s) else None)"
    and "sign_prehash E (signing_key sg) h = Inr sig" and "sig_s sig < n"
    and "sign_eip1559_hash E sg h = Inr a"
  shows "alloy_s a \<le> n div 2 \<and> alloy_r a = sig_r sig \<and>
    (alloy_s a = sig_s sig \<and> alloy_parity a = odd (sig_recid sig) \<or>
     alloy_s a = n - sig_s sig \<and> alloy_parity a = (\<not> odd (sig_recid sig)))"
proof (cases "n div 2 < sig_s sig")
  case True
  have "n - sig_s sig \<le> n div 2"
    using True assms(3) by (simp add: word_le_nat_alt word_less_nat_alt unat_sub unat_div)
  moreover have "odd (xor (sig_recid sig) 1) = (\<not> odd (sig_recid sig))"
    by (simp add: even_xor_iff)
  ultimately show ?thesis
    using True assms by (auto simp: sign_eip1559_hash_def andThen_def map_err_def)
next
  case False
  then show ?thesis using assms by (auto simp: sign_eip1559_hash_def andThen_def map_err_def)
qed

theorem sign_low_s_witness:
  "alloy_s \<lparr>alloy_r = 5, alloy_s = 3, alloy_parity = True\<rparr> \<le> (10 :: u256) div 2 \<and>
   sign_eip1559_hash (demo_env\<lparr>normalize_s := (\<lambda>s. if 10 div 2 < s then Some (10 - s) else None),
     sign_prehash := (\<lambda>_ _. Inr \<lparr>sig_r = 5, sig_s = 7, sig_recid = 0\<rparr>)\<rparr>) \<lparr>signing_key = [], signer_addr = 0\<rparr> 9 =
     Inr \<lparr>alloy_r = 5, alloy_s = 3, alloy_parity = True\<rparr>"
proof -
  let ?E = "demo_env\<lparr>normalize_s := (\<lambda>s. if 10 div 2 < s then Some (10 - s) else None),
     sign_prehash := (\<lambda>_ _. Inr \<lparr>sig_r = 5, sig_s = 7, sig_recid = 0\<rparr>)\<rparr>"
  have e: "sign_eip1559_hash ?E \<lparr>signing_key = [], signer_addr = 0\<rparr> 9 =
      Inr \<lparr>alloy_r = 5, alloy_s = 3, alloy_parity = True\<rparr>"
    by (simp add: sign_eip1559_hash_def andThen_def map_err_def)
  show ?thesis
    using e sign_low_s [of ?E 10 "\<lparr>signing_key = [], signer_addr = 0\<rparr>" 9 "\<lparr>sig_r = 5, sig_s = 7, sig_recid = 0\<rparr>", OF _ _ _ e]
    by simp
qed

end
