(* ===== verification/Command.thy ===== *)
theory Command
  imports Keystore
begin

text \<open>
  What the commands share: exit codes, the JSON line printed on standard output, and the audit
  record (\<open>logging.rs\<close>). A command's body is a computation whose early \<open>return code\<close> is the failure
  branch with that code. Diagnostic log lines are not part of the state. The time stamp of an
  audit record is left out.
\<close>

section \<open>Definitions\<close>

definition EXIT_OK :: nat where "EXIT_OK = 0"
definition EXIT_REFUSAL :: nat where "EXIT_REFUSAL = 2"
definition EXIT_STARTUP_FAIL :: nat where "EXIT_STARTUP_FAIL = 3"

type_synonym 'a cmd = "(world, nat, 'a) io"

definition or_exit :: "nat \<Rightarrow> 'e + 'a \<Rightarrow> 'a cmd" where
  "or_exit code r = liftR (map_err (\<lambda>_. code) r)"

definition exit_on :: "nat \<Rightarrow> (world, 'e, 'a) io \<Rightarrow> 'a cmd" where
  "exit_on code m = handleM m (\<lambda>_. failM code)"

definition finish :: "nat cmd \<Rightarrow> world \<Rightarrow> nat \<times> world" where
  "finish m w = (case m w of (Inl c, w') \<Rightarrow> (c, w') | (Inr c, w') \<Rightarrow> (c, w'))"

definition emit :: "bool \<Rightarrow> json \<Rightarrow> (world, 'e, unit) io" where
  "emit pretty j = modifyM (\<lambda>w. w\<lparr>stdout := stdout w @ [(pretty, j)]\<rparr>)"

record AuditRecordBuilder =
  ab_agent :: string
  ab_backend :: string
  ab_request_type :: string
  ab_order_id :: string
  ab_idempotency_key :: string
  ab_amount :: string
  ab_deadline :: u64
  ab_gateway :: string
  ab_chain_id :: u64
  ab_tx_hash :: "string option"
  ab_payment_id :: "string option"

definition build :: "AuditRecordBuilder \<Rightarrow> AuditDecision \<Rightarrow> string option \<Rightarrow> AuditRecord" where
  "build b d reason =
     \<lparr>aud_agent = ab_agent b, aud_backend = ab_backend b, aud_request_type = ab_request_type b,
      aud_order_id = ab_order_id b, aud_idempotency_key = ab_idempotency_key b, aud_amount = ab_amount b,
      aud_deadline = ab_deadline b, aud_gateway = ab_gateway b, aud_chain_id = ab_chain_id b,
      aud_decision = d, aud_rejection_reason = reason, aud_tx_hash = ab_tx_hash b,
      aud_payment_id = ab_payment_id b\<rparr>"

definition record_audit :: "AuditRecord \<Rightarrow> (world, 'e, unit) io" where
  "record_audit r = modifyM (\<lambda>w. w\<lparr>audit_log := audit_log w @ [r]\<rparr>)"

text \<open>Optional members are left out of the document (\<open>skip_serializing_if\<close>).\<close>

definition opt_member :: "string \<Rightarrow> ('a \<Rightarrow> json) \<Rightarrow> 'a option \<Rightarrow> (string \<times> json) list" where
  "opt_member k f v = (case v of None \<Rightarrow> [] | Some x \<Rightarrow> [(k, f x)])"

abbreviation JU64 :: "u64 \<Rightarrow> json" where
  "JU64 n \<equiv> JNum (uint n)"

section \<open>Lemmas\<close>

lemma or_exit_Inr_iff [io_simps]: "or_exit c r w = (Inr x, w') \<longleftrightarrow> r = Inr x \<and> w' = w"
  by (auto simp: or_exit_def io_simps)

lemma or_exit_Inl_iff [io_simps]: "or_exit c r w = (Inl k, w') \<longleftrightarrow> (\<exists>e. r = Inl e) \<and> k = c \<and> w' = w"
  by (auto simp: or_exit_def io_simps)

lemma exit_on_Inr_iff [io_simps]: "exit_on c m w = (Inr x, w') \<longleftrightarrow> m w = (Inr x, w')"
  by (auto simp: exit_on_def io_simps)

lemma exit_on_Inl_iff [io_simps]: "exit_on c m w = (Inl k, w') \<longleftrightarrow> (\<exists>e. m w = (Inl e, w')) \<and> k = c"
  by (auto simp: exit_on_def io_simps)

lemma emit_iff [io_simps]:
  "emit p j w = (r, w') \<longleftrightarrow> r = Inr () \<and> w' = w\<lparr>stdout := stdout w @ [(p, j)]\<rparr>"
  by (auto simp: emit_def io_simps)

lemma record_audit_iff [io_simps]:
  "record_audit a w = (r, w') \<longleftrightarrow> r = Inr () \<and> w' = w\<lparr>audit_log := audit_log w @ [a]\<rparr>"
  by (auto simp: record_audit_def io_simps)

lemma emit_obeys [simp]:
  "obeys no_broadcast (emit p j)" "obeys same_files (emit p j)" "obeys same_locks (emit p j)" "obeys audit_grows (emit p j)"
  by (simp_all add: obeys_def emit_def modifyM_def no_broadcast_def same_files_def same_locks_def audit_grows_def)

lemma record_audit_obeys [simp]:
  "obeys no_broadcast (record_audit a)" "obeys same_files (record_audit a)" "obeys same_locks (record_audit a)"
  "obeys audit_grows (record_audit a)"
  by (simp_all add: obeys_def record_audit_def modifyM_def no_broadcast_def same_files_def same_locks_def audit_grows_def)

lemma or_exit_obeys [simp]:
  "obeys no_broadcast (or_exit c r)" "obeys same_files (or_exit c r)" "obeys same_locks (or_exit c r)"
  "obeys quiet (or_exit c r)" "obeys audit_grows (or_exit c r)"
  by (simp_all add: or_exit_def)

lemma exit_on_obeys [intro, simp]:
  "obeys no_broadcast m \<Longrightarrow> obeys no_broadcast (exit_on c m)" "obeys same_files m \<Longrightarrow> obeys same_files (exit_on c m)"
  "obeys same_locks m \<Longrightarrow> obeys same_locks (exit_on c m)" "obeys quiet m \<Longrightarrow> obeys quiet (exit_on c m)"
  "obeys audit_grows m \<Longrightarrow> obeys audit_grows (exit_on c m)"
  by (auto simp: exit_on_def)

section \<open>What a run reports\<close>

text \<open>The audit records and the documents a run adds, in order.\<close>

definition added :: "world \<Rightarrow> world \<Rightarrow> AuditRecord list \<Rightarrow> (bool \<times> json) list \<Rightarrow> bool" where
  "added w w' a s \<longleftrightarrow> audit_log w' = audit_log w @ a \<and> stdout w' = stdout w @ s"

text \<open>
  A run that does not succeed: a startup failure (3) is silent; a refusal (2) prints exactly one
  document with a named error, and adds at most one audit record, which gives that name as its
  reason and is not a success.
\<close>

definition fail_report :: "nat \<Rightarrow> AuditRecord list \<Rightarrow> (bool \<times> json) list \<Rightarrow> bool" where
  "fail_report c a s \<longleftrightarrow>
     c = EXIT_STARTUP_FAIL \<and> a = [] \<and> s = [] \<or>
     c = EXIT_REFUSAL \<and>
       (\<exists>b j err. s = [(b, j)] \<and> json_get ''status'' j = Some (JStr ''refused'') \<and>
          json_get ''error'' j = Some (JStr err) \<and>
          (a = [] \<or> (\<exists>x. a = [x] \<and> aud_decision x \<noteq> Signed \<and> aud_rejection_reason x = Some err)))"

definition reports :: "('a \<Rightarrow> AuditRecord list \<Rightarrow> (bool \<times> json) list \<Rightarrow> bool) \<Rightarrow> 'a cmd \<Rightarrow> bool" where
  "reports F m \<longleftrightarrow>
     (\<forall>w r w'. m w = (r, w') \<longrightarrow>
        (\<exists>a s. added w w' a s \<and> (case r of Inr x \<Rightarrow> F x a s | Inl c \<Rightarrow> fail_report c a s)))"

abbreviation phase :: "'a cmd \<Rightarrow> bool" where
  "phase m \<equiv> reports (\<lambda>_ a s. a = [] \<and> s = []) m"

lemma reportsD:
  "reports F m \<Longrightarrow> m w = (r, w') \<Longrightarrow>
     \<exists>a s. added w w' a s \<and> (case r of Inr x \<Rightarrow> F x a s | Inl c \<Rightarrow> fail_report c a s)"
  by (simp add: reports_def)

lemma reports_bindM [intro]:
  assumes "phase m" and "\<And>x. reports F (f x)"
  shows "reports F (bindM m f)"
  unfolding reports_def
proof (intro allI impI)
  fix w r w' assume "bindM m f w = (r, w')"
  then show "\<exists>a s. added w w' a s \<and> (case r of Inr x \<Rightarrow> F x a s | Inl c \<Rightarrow> fail_report c a s)"
  proof (cases rule: bindM_cases)
    case (failed e)
    then show ?thesis using reportsD [OF assms(1)] by fastforce
  next
    case (continued x w1)
    have "added w w1 [] []" using reportsD [OF assms(1) continued(1)] by auto
    then show ?thesis using reportsD [OF assms(2) continued(2)] by (auto simp: added_def)
  qed
qed

lemma phase_retM [simp]: "phase (retM x)"
  by (auto simp: reports_def retM_def added_def)

lemma fail_report_silent [simp]: "fail_report EXIT_STARTUP_FAIL [] []"
  by (simp add: fail_report_def)

lemma reports_startup_fail [simp]: "reports F (failM EXIT_STARTUP_FAIL)"
  by (auto simp: reports_def failM_def added_def fail_report_def)

lemma phase_or_exit [simp]: "phase (or_exit EXIT_STARTUP_FAIL r)"
  by (cases r) (auto simp: reports_def or_exit_def liftR_def map_err_def added_def fail_report_def)

lemma phase_exit_on: "obeys quiet m \<Longrightarrow> phase (exit_on EXIT_STARTUP_FAIL m)"
  unfolding reports_def
proof (intro allI impI)
  fix w r w' assume q: "obeys quiet m" and e: "exit_on EXIT_STARTUP_FAIL m w = (r, w')"
  obtain r0 where "m w = (r0, w')" and r: "(\<exists>x. r = Inr x) \<or> r = Inl EXIT_STARTUP_FAIL"
    using e by (cases r) (auto simp: io_simps)
  then have "added w w' [] []" using qt.obeysD [OF q] by (auto simp: quiet_def added_def)
  then show "\<exists>a s. added w w' a s \<and> (case r of Inr x \<Rightarrow> a = [] \<and> s = [] | Inl c \<Rightarrow> fail_report c a s)"
    using r by (intro exI [of _ "[]"]) auto
qed

lemma phase_handleM:
  assumes "obeys quiet m" and "\<And>e. phase (h e)"
  shows "phase (handleM m h)"
  unfolding reports_def
proof (intro allI impI)
  fix w r w' assume e: "handleM m h w = (r, w')"
  obtain q w1 where m: "m w = (q, w1)" by force
  have a: "added w w1 [] []" using qt.obeysD [OF assms(1) m] by (auto simp: quiet_def added_def)
  show "\<exists>a s. added w w' a s \<and> (case r of Inr x \<Rightarrow> a = [] \<and> s = [] | Inl c \<Rightarrow> fail_report c a s)"
  proof (cases q)
    case (Inl x)
    then have "h x w1 = (r, w')" using e m by (simp add: handleM_def)
    from reportsD [OF assms(2) this] a show ?thesis by (auto simp: added_def)
  next
    case (Inr x)
    then show ?thesis using e m a by (auto simp: handleM_def)
  qed
qed

lemma phase_quiet: "obeys quiet m \<Longrightarrow> (\<And>w c w'. \<not> m w = (Inl c, w')) \<Longrightarrow> phase m"
  unfolding reports_def
proof (intro allI impI)
  fix w r w' assume q: "obeys quiet m" "\<And>w c w'. \<not> m w = (Inl c, w')" and m: "m w = (r, w')"
  have "added w w' [] []" using qt.obeysD [OF q(1) m] by (auto simp: quiet_def added_def)
  then show "\<exists>a s. added w w' a s \<and> (case r of Inr x \<Rightarrow> a = [] \<and> s = [] | Inl c \<Rightarrow> fail_report c a s)"
    using q(2) m by (cases r) auto
qed

lemma phase_now_unix [simp]: "phase (now_unix E)"
  by (rule phase_quiet) (simp_all add: io_simps)

end
