(* ===== verification/Self_Check.thy ===== *)
theory Self_Check
  imports Command
begin

text \<open>
  The \<open>self-check\<close> command (\<open>commands/self_check.rs\<close>): decrypt the keystore, run the deposit
  preflight with amount zero, read the withdrawal exposure, and print one JSON report.
\<close>

section \<open>Definitions\<close>

definition EXIT_PREFLIGHT_FAIL :: nat where "EXIT_PREFLIGHT_FAIL = 2"

record ChecksOutput =
  chain_id_match :: bool
  gateway_code_hash_match :: bool
  gateway_paused :: bool
  out_agent_active :: bool
  out_agent_valid_until :: u64
  out_max_per_payment :: string
  out_max_per_window :: string
  out_window_gross :: string
  out_allowance :: string
  out_balance :: string

definition from_report :: "PreflightReport \<Rightarrow> ChecksOutput" where
  "from_report r =
     \<lparr>chain_id_match = True,
      gateway_code_hash_match = gateway_runtime_hash_ok r,
      gateway_paused = paused r,
      out_agent_active = agent_active r,
      out_agent_valid_until = agent_valid_until r,
      out_max_per_payment = show_word (max_per_payment r),
      out_max_per_window = show_word (max_per_window r),
      out_window_gross = show_word (window_gross r),
      out_allowance = show_word (allowance r),
      out_balance = show_word (balance r)\<rparr>"

definition checks_unknown :: ChecksOutput where
  "checks_unknown =
     \<lparr>chain_id_match = False, gateway_code_hash_match = False, gateway_paused = False,
      out_agent_active = False, out_agent_valid_until = 0, out_max_per_payment = ''0'',
      out_max_per_window = ''0'', out_window_gross = ''0'', out_allowance = ''0'', out_balance = ''0''\<rparr>"

definition from_err_partial :: "RmpcError \<Rightarrow> ChecksOutput" where
  "from_err_partial err =
     (let c = checks_unknown in
      case err of
        ErrChainIdMismatch \<Rightarrow> c
      | ErrCodeHashMismatch \<Rightarrow> c\<lparr>chain_id_match := True\<rparr>
      | ErrGatewayPaused \<Rightarrow> c\<lparr>chain_id_match := True, gateway_code_hash_match := True, gateway_paused := True\<rparr>
      | _ \<Rightarrow> c\<lparr>chain_id_match := True, gateway_code_hash_match := True\<rparr>)"

definition checks_json :: "ChecksOutput \<Rightarrow> json" where
  "checks_json c =
     JObj [(''chain_id_match'', JBool (chain_id_match c)),
           (''gateway_code_hash_match'', JBool (gateway_code_hash_match c)),
           (''gateway_paused'', JBool (gateway_paused c)),
           (''agent_active'', JBool (out_agent_active c)),
           (''agent_valid_until'', JU64 (out_agent_valid_until c)),
           (''max_per_payment'', JStr (out_max_per_payment c)),
           (''max_per_window'', JStr (out_max_per_window c)),
           (''window_gross'', JStr (out_window_gross c)),
           (''allowance'', JStr (out_allowance c)),
           (''balance'', JStr (out_balance c))]"

record WithdrawalExposure =
  withdrawals_enabled :: bool
  exp_asset_recipient :: string
  exp_max_withdraw_per_payment :: string
  exp_max_withdraw_per_window :: string
  share_allowance :: string
  stale_share_allowance :: bool

definition exposure_unknown :: WithdrawalExposure where
  "exposure_unknown =
     \<lparr>withdrawals_enabled = False, exp_asset_recipient = ''0x0000000000000000000000000000000000000000'',
      exp_max_withdraw_per_payment = ''0'', exp_max_withdraw_per_window = ''0'',
      share_allowance = ''0'', stale_share_allowance = False\<rparr>"

definition exposure_json :: "WithdrawalExposure \<Rightarrow> json" where
  "exposure_json x =
     JObj [(''withdrawals_enabled'', JBool (withdrawals_enabled x)),
           (''asset_recipient'', JStr (exp_asset_recipient x)),
           (''max_withdraw_per_payment'', JStr (exp_max_withdraw_per_payment x)),
           (''max_withdraw_per_window'', JStr (exp_max_withdraw_per_window x)),
           (''share_allowance'', JStr (share_allowance x)),
           (''stale_share_allowance'', JBool (stale_share_allowance x))]"

definition read_withdrawal_exposure :: "env \<Rightarrow> Config \<Rightarrow> address \<Rightarrow> (world, 'e, WithdrawalExposure) io" where
  "read_withdrawal_exposure E cfg agent =
     handleM
       (bindM (liftR (map_err (\<lambda>_. ErrConfig []) (address_from_str E (gateway_address cfg)))) (\<lambda>gateway.
        bindM (liftR (map_err (\<lambda>_. ErrConfig []) (address_from_str E (vault_address cfg)))) (\<lambda>vault.
        bindM (view_call E (rpc_url cfg) gateway (GwAgents agent) (dec_agents E) ''agents()'') (\<lambda>agents_ret.
        bindM (handleM (view_call E (rpc_url cfg) vault (Erc20Allowance agent gateway) (dec_u256 E) ''allowance'')
                 (\<lambda>_. retM 0)) (\<lambda>shares.
        let enabled = maxWithdrawPerPayment agents_ret \<noteq> 0 in
        retM \<lparr>withdrawals_enabled = enabled,
              exp_asset_recipient = show_address E (assetRecipient agents_ret),
              exp_max_withdraw_per_payment = show_word (maxWithdrawPerPayment agents_ret),
              exp_max_withdraw_per_window = show_word (maxWithdrawPerWindow agents_ret),
              share_allowance = show_word shares,
              stale_share_allowance = (\<not> enabled \<and> shares \<noteq> 0)\<rparr>)))))
       (\<lambda>_. retM exposure_unknown)"

fun backend_operator_message :: "SignerBackendKind \<Rightarrow> string" where
  "backend_operator_message Software =
     ''software keystore is non-production; use an HSM/KMS/device-bound signer for Base mainnet writes''"
| "backend_operator_message Hsm = ''production-grade signer backend selected''"
| "backend_operator_message Kms = ''production-grade signer backend selected''"

text \<open>The checks printed on a refusal, computed inline by the command.\<close>

definition self_check_checks :: "RmpcError \<Rightarrow> ChecksOutput" where
  "self_check_checks err =
     (case err of
        ErrChainIdMismatch \<Rightarrow> checks_unknown
      | ErrCodeHashMismatch \<Rightarrow> checks_unknown\<lparr>chain_id_match := True\<rparr>
      | ErrGatewayPaused \<Rightarrow>
          checks_unknown\<lparr>chain_id_match := True, gateway_code_hash_match := True, gateway_paused := True\<rparr>
      | _ \<Rightarrow> checks_unknown\<lparr>chain_id_match := True, gateway_code_hash_match := True\<rparr>)"

record SelfCheckOutput =
  selected_backend :: SignerBackendKind
  sc_agent_address :: string
  sc_chain_id :: u64
  network_env :: NetworkEnv
  sc_gateway :: string
  software_fallback_allowed :: bool
  selected_backend_production_ready :: bool
  selected_backend_operator_message :: string
  key_exportable :: bool
  device_bound :: bool
  timestamp :: u64
  sc_checks :: ChecksOutput
  withdrawal_exposure :: WithdrawalExposure
  ok :: bool
  sc_error :: "string option"

definition self_check_json :: "SelfCheckOutput \<Rightarrow> json" where
  "self_check_json x =
     JObj ([(''selected_backend'', JStr (backend_label (selected_backend x))),
            (''agent_address'', JStr (sc_agent_address x)),
            (''chain_id'', JU64 (sc_chain_id x)),
            (''network_env'', JStr (as_str (network_env x))),
            (''gateway'', JStr (sc_gateway x)),
            (''software_fallback_allowed'', JBool (software_fallback_allowed x)),
            (''selected_backend_production_ready'', JBool (selected_backend_production_ready x)),
            (''selected_backend_operator_message'', JStr (selected_backend_operator_message x)),
            (''key_exportable'', JBool (key_exportable x)),
            (''device_bound'', JBool (device_bound x)),
            (''timestamp'', JU64 (timestamp x)),
            (''checks'', checks_json (sc_checks x)),
            (''withdrawal_exposure'', exposure_json (withdrawal_exposure x)),
            (''ok'', JBool (ok x))] @
           opt_member ''error'' JStr (sc_error x))"

text \<open>A preflight run whose error is kept as a value.\<close>

definition try_run :: "'a rmpc \<Rightarrow> (world, 'e, RmpcError + 'a) io" where
  "try_run m = handleM (bindM m (\<lambda>x. retM (Inr x))) (\<lambda>e. retM (Inl e))"

definition self_check_start :: "env \<Rightarrow> string \<Rightarrow> (Config \<times> SoftwareSigner) cmd" where
  "self_check_start E config_path =
     bindM (or_exit EXIT_STARTUP_FAIL (from_path E config_path)) (\<lambda>cfg.
     bindM (case env_vars E PASSPHRASE_ENV_VAR of
              None \<Rightarrow> failM EXIT_STARTUP_FAIL | Some p \<Rightarrow> retM p) (\<lambda>passphrase.
     bindM (or_exit EXIT_STARTUP_FAIL (load_with_passphrase E (keystore_path (signer cfg)) (str_bytes passphrase)
              (allow_software_fallback (signer cfg)))) (\<lambda>sg.
     bindM (or_exit EXIT_STARTUP_FAIL (runtime_build E)) (\<lambda>_.
     bindM (exit_on EXIT_STARTUP_FAIL (rpc_new E (rpc_url cfg))) (\<lambda>_.
     retM (cfg, sg))))))"

definition self_check_output ::
    "env \<Rightarrow> Config \<Rightarrow> address \<Rightarrow> PreflightReport result \<Rightarrow> WithdrawalExposure \<Rightarrow> u64 \<Rightarrow> SelfCheckOutput" where
  "self_check_output E cfg agent_address preflight_result exposure ts =
     (let backend = Software;
          (okay, checks, chain_id, err) =
            (case preflight_result of
               Inr report \<Rightarrow> (True, from_report report, rep_chain_id report, None)
             | Inl e \<Rightarrow> (False, self_check_checks e, cfg_chain_id cfg, Some (self_check_error_name e))) in
      \<lparr>selected_backend = backend, sc_agent_address = show_address E agent_address, sc_chain_id = chain_id,
       network_env = from_chain_id chain_id, sc_gateway = gateway_address cfg,
       software_fallback_allowed = allow_software_fallback (signer cfg),
       selected_backend_production_ready = backend_is_production_grade backend,
       selected_backend_operator_message = backend_operator_message backend,
       key_exportable = (backend = Software), device_bound = False, timestamp = ts, sc_checks = checks,
       withdrawal_exposure = exposure, ok = okay, sc_error = err\<rparr>)"

definition self_check_run :: "env \<Rightarrow> string \<Rightarrow> bool \<Rightarrow> nat cmd" where
  "self_check_run E config_path pretty =
     bindM (self_check_start E config_path) (\<lambda>(cfg, sg).
     bindM (try_run (preflight_run E cfg \<lparr>signer_address = signer_addr sg, amount = 0\<rparr>)) (\<lambda>preflight_result.
     bindM (read_withdrawal_exposure E cfg (signer_addr sg)) (\<lambda>exposure.
     bindM (now_unix E) (\<lambda>ts.
     let out = self_check_output E cfg (signer_addr sg) preflight_result exposure ts in
     bindM (emit pretty (self_check_json out)) (\<lambda>_.
     retM (if ok out then EXIT_OK else EXIT_PREFLIGHT_FAIL))))))"

section \<open>Lemmas\<close>

lemma self_check_checks_same: "self_check_checks = from_err_partial"
  by (rule ext) (simp add: self_check_checks_def from_err_partial_def Let_def split: RmpcError.split)

lemma try_run_iff [io_simps]: "try_run m w = (Inr r, w') \<longleftrightarrow> m w = (r, w')"
  by (cases r) (auto simp: try_run_def io_simps)

lemma try_run_total [io_simps]: "\<not> try_run m w = (Inl e, w')"
  by (auto simp: try_run_def io_simps)

lemma exposure_total [io_simps]: "\<not> read_withdrawal_exposure E cfg a w = (Inl e, w')"
  by (auto simp: read_withdrawal_exposure_def io_simps)

lemma try_run_obeys [intro, simp]:
  "obeys no_broadcast m \<Longrightarrow> obeys no_broadcast (try_run m)" "obeys same_files m \<Longrightarrow> obeys same_files (try_run m)"
  "obeys same_locks m \<Longrightarrow> obeys same_locks (try_run m)" "obeys quiet m \<Longrightarrow> obeys quiet (try_run m)"
  by (auto simp: try_run_def)

lemma exposure_obeys [simp]:
  "obeys no_broadcast (read_withdrawal_exposure E cfg a)" "obeys same_files (read_withdrawal_exposure E cfg a)"
  "obeys same_locks (read_withdrawal_exposure E cfg a)" "obeys quiet (read_withdrawal_exposure E cfg a)"
  unfolding read_withdrawal_exposure_def Let_def
  by (intro nb.obeys_intros qt.obeys_intros sf.obeys_intros sl.obeys_intros; simp)+

lemma preflight_run_obeys [simp]:
  "obeys no_broadcast (preflight_run E cfg i)" "obeys quiet (preflight_run E cfg i)"
  "obeys same_files (preflight_run E cfg i)" "obeys same_locks (preflight_run E cfg i)"
  by (simp_all add: preflight_run_def)

lemma self_check_start_obeys [simp]:
  "obeys no_broadcast (self_check_start E p)" "obeys same_files (self_check_start E p)"
  "obeys same_locks (self_check_start E p)" "obeys quiet (self_check_start E p)"
  unfolding self_check_start_def
  by (auto intro!: nb.obeys_bindM sf.obeys_bindM sl.obeys_bindM qt.obeys_bindM split: option.split)

lemma self_check_start_exit: "self_check_start E p w = (Inl c, w') \<Longrightarrow> c = EXIT_STARTUP_FAIL"
  by (auto simp: self_check_start_def io_simps split: option.splits)

lemma self_check_obeys:
  "obeys no_broadcast (self_check_run E p b)" "obeys same_files (self_check_run E p b)"
  "obeys same_locks (self_check_run E p b)"
  unfolding self_check_run_def Let_def
  by (auto intro!: nb.obeys_bindM sf.obeys_bindM sl.obeys_bindM split: prod.split)

section \<open>Properties\<close>

text \<open>
  The self-check reports once and only reads: exit code 3 means nothing was printed; otherwise
  exactly one JSON document was printed, the code is 0 when it says \<open>ok\<close> and 2 when it does not,
  and it says \<open>ok\<close> exactly when the preflight with amount zero succeeded. On every path no
  transaction is sent, no file and no lock is touched and nothing is recorded in the audit log.
\<close>

theorem self_check_reports_once:
  "case finish (self_check_run E p b) w of (c, w') \<Rightarrow>
     no_broadcast w w' \<and> same_files w w' \<and> same_locks w w' \<and> audit_log w' = audit_log w \<and>
     (if c = EXIT_STARTUP_FAIL then stdout w' = stdout w
      else (\<exists>cfg sg w1 pr w2 x. self_check_start E p w = (Inr (cfg, sg), w1) \<and>
              preflight_run E cfg \<lparr>signer_address = signer_addr sg, amount = 0\<rparr> w1 = (pr, w2) \<and>
              stdout w' = stdout w @ [(b, self_check_json x)] \<and>
              ok x = (\<not> isl pr) \<and> c = (if ok x then EXIT_OK else EXIT_PREFLIGHT_FAIL)))"
proof -
  obtain r w' where run: "self_check_run E p b w = (r, w')" by force
  have d: "no_broadcast w w'" "same_files w w'" "same_locks w w'"
    using nb.obeysD [OF self_check_obeys(1) run] sf.obeysD [OF self_check_obeys(2) run]
      sl.obeysD [OF self_check_obeys(3) run] by auto
  show ?thesis
  proof (cases "\<exists>c. self_check_start E p w = (Inl c, w')")
    case True
    then obtain c where c: "self_check_start E p w = (Inl c, w')" by blast
    then have "r = Inl c" using run by (simp add: self_check_run_def bindM_def)
    then show ?thesis
      using d run self_check_start_exit [OF c] qt.obeysD [OF self_check_start_obeys(4) c]
      by (simp add: finish_def quiet_def)
  next
    case False
    obtain r1 w1 where r1: "self_check_start E p w = (r1, w1)" by force
    with False run obtain cfg sg where st: "self_check_start E p w = (Inr (cfg, sg), w1)"
      by (cases r1) (auto simp: self_check_run_def bindM_def)
    obtain pr w2 where pr: "preflight_run E cfg \<lparr>signer_address = signer_addr sg, amount = 0\<rparr> w1 = (pr, w2)" by force
    obtain rx w3 where rx: "(read_withdrawal_exposure E cfg (signer_addr sg) :: WithdrawalExposure cmd) w2 = (rx, w3)" by force
    then obtain x where x: "(read_withdrawal_exposure E cfg (signer_addr sg) :: WithdrawalExposure cmd) w2 = (Inr x, w3)"
      by (cases rx) (auto simp: exposure_total)
    have q: "quiet w w3"
      using qt.obeysD [OF self_check_start_obeys(4) st] qt.obeysD [OF preflight_run_obeys(2) pr]
        qt.obeysD [OF exposure_obeys(4) x] by (auto simp: quiet_def)
    let ?out = "self_check_output E cfg (signer_addr sg) pr x (case clock E (clock_reads w3) of Some t \<Rightarrow> t | None \<Rightarrow> 0)"
    have t: "try_run (preflight_run E cfg \<lparr>signer_address = signer_addr sg, amount = 0\<rparr>) w1 = (Inr pr :: nat + _, w2)"
      using pr by (simp add: try_run_iff)
    have "r = Inr (if ok ?out then EXIT_OK else EXIT_PREFLIGHT_FAIL)"
      "audit_log w' = audit_log w" "stdout w' = stdout w @ [(b, self_check_json ?out)]"
      using run q by (auto simp: self_check_run_def bindM_def st t x now_unix_def Let_def emit_def modifyM_def retM_def quiet_def)
    moreover have "ok ?out = (\<not> isl pr)"
      by (cases pr) (simp_all add: self_check_output_def)
    ultimately show ?thesis
      using d run st pr
      by (auto simp: finish_def EXIT_OK_def EXIT_PREFLIGHT_FAIL_def EXIT_STARTUP_FAIL_def)
  qed
qed

text \<open>
  A refusal report can claim checks that never ran: when the node cannot be reached at all, the
  preflight fails on its first request, and the report printed for that error says that the chain
  id and the gateway code hash match.
\<close>

theorem unreachable_node_reported_as_match:
  assumes "answer E (rpc_url cfg) ''eth_chainId'' [] (json_u64 E) (next_id w) = Inl (ErrRpcTransport msg)"
  shows "\<exists>w'. preflight_run E cfg inputs w = (Inl (ErrRpcTransport msg), w') \<and>
           chain_id_match (self_check_checks (ErrRpcTransport msg)) \<and>
           gateway_code_hash_match (self_check_checks (ErrRpcTransport msg)) \<and>
           sent w' = sent w @ [request ''eth_chainId'' [] (next_id w)]"
  using assms
  by (simp add: preflight_run_def run_inner_def common_checks_def bindM_def rpc_chain_id_def rpc_call_eval
      self_check_checks_def)

theorem unreachable_node_reported_as_match_witness:
  "\<exists>w'. preflight_run (demo_env\<lparr>http_post := (\<lambda>_ _. SendFailed ''refused'')\<rparr>) demo_cfg
       \<lparr>signer_address = 8, amount = 0\<rparr> world0 = (Inl (ErrRpcTransport ''refused''), w') \<and>
     chain_id_match (self_check_checks (ErrRpcTransport ''refused''))"
  using unreachable_node_reported_as_match [of "demo_env\<lparr>http_post := (\<lambda>_ _. SendFailed ''refused'')\<rparr>" demo_cfg world0
      "''refused''" "\<lparr>signer_address = 8, amount = 0\<rparr>"]
  by (auto simp: answer_def decode_reply_def)

end
