(* ===== verification/Deposit.thy ===== *)
theory Deposit
  imports Self_Check
begin

text \<open>
  The \<open>deposit\<close> command (\<open>commands/deposit.rs\<close>), phase by phase in the source's order: inputs,
  signer, lock, replay check, preflight, fees and nonce, signing, broadcast, cache insert, receipt,
  event. Each phase is a definition; \<open>deposit_run\<close> composes them the way the function body does,
  with every early return.
\<close>

section \<open>Definitions\<close>

definition MAX_DEADLINE_SKEW_SECS :: u64 where
  "MAX_DEADLINE_SKEW_SECS = 600"

record Args =
  config_path :: string
  arg_amount :: string
  arg_order_id :: string
  arg_idempotency_key :: "string option"
  deadline_secs :: u64
  receipt_timeout_secs :: u64
  gas_limit :: u64
  fee_cap_wei :: "u64 option"
  pretty :: bool

text \<open>\<open>DepositFailure\<close>, serialised.\<close>

definition failure_json ::
    "string \<Rightarrow> string option \<Rightarrow> string option \<Rightarrow> string option \<Rightarrow> string option \<Rightarrow> ChecksOutput option \<Rightarrow> json" where
  "failure_json err msg agent order tx checks =
     JObj ([(''status'', JStr ''refused''), (''error'', JStr err)] @
           opt_member ''message'' JStr msg @ opt_member ''agent'' JStr agent @
           opt_member ''order_id'' JStr order @ opt_member ''tx_hash'' JStr tx @
           opt_member ''checks'' checks_json checks)"

text \<open>The local variables of the function once its inputs are parsed.\<close>

record deposit_ctx =
  c_cfg :: Config
  c_amount :: u256
  c_order_id :: b256
  c_idempotency_key :: b256
  c_gateway :: address
  c_deadline :: u64

definition starts_0x :: "string \<Rightarrow> bool" where
  "starts_0x s = (take 2 s = ''0x'')"

definition parse_amount :: "env \<Rightarrow> string \<Rightarrow> string + u256" where
  "parse_amount E s =
     (case u256_from_str_radix10 E (trim_0x s) of
        Inr v \<Rightarrow> if \<not> starts_0x s then Inr v else u256_from_str E s
      | Inl _ \<Rightarrow> u256_from_str E s)"

definition deposit_inputs :: "env \<Rightarrow> Args \<Rightarrow> deposit_ctx cmd" where
  "deposit_inputs E args =
     bindM (or_exit EXIT_STARTUP_FAIL (from_path E (config_path args))) (\<lambda>cfg.
     bindM (or_exit EXIT_STARTUP_FAIL (parse_amount E (arg_amount args))) (\<lambda>amt.
     bindM (or_exit EXIT_STARTUP_FAIL (b256_from_str E (arg_order_id args))) (\<lambda>order.
     bindM (case arg_idempotency_key args of
              None \<Rightarrow> retM order
            | Some s \<Rightarrow> or_exit EXIT_STARTUP_FAIL (b256_from_str E s)) (\<lambda>idem.
     bindM (or_exit EXIT_STARTUP_FAIL (address_from_str E (gateway_address cfg))) (\<lambda>gateway_addr.
     let dsecs = min (deadline_secs args) MAX_DEADLINE_SKEW_SECS in
     bindM (now_unix E) (\<lambda>now.
     retM \<lparr>c_cfg = cfg, c_amount = amt, c_order_id = order, c_idempotency_key = idem,
           c_gateway = gateway_addr, c_deadline = saturating_add now dsecs\<rparr>))))))"

definition emit_refusal :: "Args \<Rightarrow> json \<Rightarrow> 'a cmd" where
  "emit_refusal args j = bindM (emit (pretty args) j) (\<lambda>_. failM EXIT_REFUSAL)"

definition deposit_signer :: "env \<Rightarrow> Args \<Rightarrow> deposit_ctx \<Rightarrow> SoftwareSigner cmd" where
  "deposit_signer E args c =
     (let cfg = c_cfg c; order = show_b256 E (c_order_id c) in
      bindM (case require_production_grade_for_write (cfg_chain_id cfg) Software of
               Inr _ \<Rightarrow> retM ()
             | Inl err \<Rightarrow> emit_refusal args
                 (failure_json (deposit_error_name err) (Some (display err)) None (Some order) None None)) (\<lambda>_.
      bindM (case env_vars E PASSPHRASE_ENV_VAR of
               None \<Rightarrow> failM EXIT_STARTUP_FAIL | Some p \<Rightarrow> retM p) (\<lambda>passphrase.
      case load_with_passphrase E (keystore_path (signer cfg)) (str_bytes passphrase)
             (allow_software_fallback (signer cfg)) of
        Inr sg \<Rightarrow> retM sg
      | Inl SignerDisallowed \<Rightarrow> emit_refusal args
          (failure_json ''ErrSoftwareSignerDisallowed''
             (Some ''[signer].allow_software_fallback must be true to use the software keystore'')
             None (Some order) None None)
      | Inl _ \<Rightarrow> failM EXIT_STARTUP_FAIL)))"

definition deposit_audit :: "env \<Rightarrow> deposit_ctx \<Rightarrow> SoftwareSigner \<Rightarrow> AuditRecordBuilder" where
  "deposit_audit E c sg =
     \<lparr>ab_agent = show_address E (signer_addr sg), ab_backend = backend_label Software,
      ab_request_type = ''deposit'', ab_order_id = show_b256 E (c_order_id c),
      ab_idempotency_key = show_b256 E (c_idempotency_key c), ab_amount = show_word (c_amount c),
      ab_deadline = c_deadline c, ab_gateway = show_address E (c_gateway c),
      ab_chain_id = cfg_chain_id (c_cfg c), ab_tx_hash = None, ab_payment_id = None\<rparr>"

text \<open>Record the decision, print the refusal, return the refusal code.\<close>

definition deposit_refuse ::
    "env \<Rightarrow> Args \<Rightarrow> deposit_ctx \<Rightarrow> SoftwareSigner \<Rightarrow> AuditRecordBuilder \<Rightarrow> AuditDecision \<Rightarrow> string \<Rightarrow> string \<Rightarrow>
       string option \<Rightarrow> ChecksOutput option \<Rightarrow> 'a cmd" where
  "deposit_refuse E args c sg audit d err msg tx checks =
     bindM (record_audit (build audit d (Some err))) (\<lambda>_.
     emit_refusal args (failure_json err (Some msg) (Some (show_address E (signer_addr sg)))
       (Some (show_b256 E (c_order_id c))) tx checks))"

definition deposit_lock_err ::
    "env \<Rightarrow> Args \<Rightarrow> deposit_ctx \<Rightarrow> SoftwareSigner \<Rightarrow> RmpcError \<Rightarrow> nat cmd" where
  "deposit_lock_err E args c sg e =
     (case e of
        ErrConcurrentInvocation \<Rightarrow>
          deposit_refuse E args c sg (deposit_audit E c sg) Refused ''ErrConcurrentInvocation''
            (''another rmpc invocation already holds the lock for agent '' @ show_address E (signer_addr sg)) None None
      | _ \<Rightarrow> failM EXIT_STARTUP_FAIL)"

definition deposit_replay_check ::
    "env \<Rightarrow> Args \<Rightarrow> deposit_ctx \<Rightarrow> SoftwareSigner \<Rightarrow> string \<Rightarrow> string cmd" where
  "deposit_replay_check E args c sg dir =
     bindM (exit_on EXIT_STARTUP_FAIL (replay_open E dir)) (\<lambda>replay.
     bindM (exit_on EXIT_STARTUP_FAIL (lookup E replay (cfg_chain_id (c_cfg c)) (c_gateway c) (signer_addr sg)
              (c_order_id c) (c_amount c) (c_idempotency_key c))) (\<lambda>hit.
     case hit of
       Some prior_tx \<Rightarrow>
         deposit_refuse E args c sg (deposit_audit E c sg) Refused ''ErrOrderIdAlreadySubmitted''
           (display (ErrOrderIdAlreadySubmitted prior_tx)) (Some prior_tx) None
     | None \<Rightarrow> retM replay))"

definition deposit_preflight ::
    "env \<Rightarrow> Args \<Rightarrow> deposit_ctx \<Rightarrow> SoftwareSigner \<Rightarrow> PreflightReport cmd" where
  "deposit_preflight E args c sg =
     bindM (or_exit EXIT_STARTUP_FAIL (runtime_build E)) (\<lambda>_.
     bindM (exit_on EXIT_STARTUP_FAIL (rpc_new E (rpc_url (c_cfg c)))) (\<lambda>_.
     handleM (preflight_run E (c_cfg c) \<lparr>signer_address = signer_addr sg, amount = c_amount c\<rparr>) (\<lambda>err.
       deposit_refuse E args c sg (deposit_audit E c sg) Refused (deposit_error_name err) (display err) None
         (Some (from_err_partial err)))))"

definition deposit_fees ::
    "env \<Rightarrow> Args \<Rightarrow> deposit_ctx \<Rightarrow> SoftwareSigner \<Rightarrow> PreflightReport \<Rightarrow> FeeBid cmd" where
  "deposit_fees E args c sg report =
     bindM (exit_on EXIT_STARTUP_FAIL (rpc_fee_history E (rpc_url (c_cfg c)) 5 ''latest'' [50])) (\<lambda>fh.
     case compute_fees fh (ucast (effective_max_fee_per_gas_cap (c_cfg c) (fee_cap_wei args))) (priority_cap (c_cfg c)) of
       Inr b \<Rightarrow> retM b
     | Inl e \<Rightarrow> deposit_refuse E args c sg (deposit_audit E c sg) Refused (deposit_error_name e) (display e) None
                 (Some (from_report report)))"

definition deposit_tx ::
    "env \<Rightarrow> Args \<Rightarrow> deposit_ctx \<Rightarrow> FeeBid \<Rightarrow> u64 \<Rightarrow> TxEip1559" where
  "deposit_tx E args c fees nonce =
     build_eip1559
       \<lparr>in_chain_id = cfg_chain_id (c_cfg c), in_nonce = nonce, in_to = c_gateway c,
        in_gas_limit = gas_limit args, in_fees = fees, in_value = 0,
        in_input = abi_encode E (GwDeposit (c_order_id c) (c_amount c) (c_deadline c) (c_idempotency_key c))\<rparr>"

definition deposit_sign ::
    "env \<Rightarrow> Args \<Rightarrow> deposit_ctx \<Rightarrow> SoftwareSigner \<Rightarrow> FeeBid \<Rightarrow> bytes cmd" where
  "deposit_sign E args c sg fees =
     bindM (exit_on EXIT_STARTUP_FAIL (rpc_get_transaction_count E (rpc_url (c_cfg c)) (signer_addr sg) (Some ''pending''))) (\<lambda>nonce.
     let tx = deposit_tx E args c fees nonce in
     bindM (or_exit EXIT_STARTUP_FAIL (sign_eip1559_hash E sg (signing_hash E tx))) (\<lambda>alloy_sig.
     retM (encode_signed E tx alloy_sig)))"

definition deposit_broadcast ::
    "env \<Rightarrow> Args \<Rightarrow> deposit_ctx \<Rightarrow> SoftwareSigner \<Rightarrow> PreflightReport \<Rightarrow> bytes \<Rightarrow> b256 cmd" where
  "deposit_broadcast E args c sg report raw =
     handleM (broadcast E (rpc_url (c_cfg c)) raw) (\<lambda>e.
       deposit_refuse E args c sg (deposit_audit E c sg) BroadcastFailed (deposit_error_name e) (display e) None
         (Some (from_report report)))"

text \<open>The insert is best effort: its failure is only logged.\<close>

definition deposit_record ::
    "env \<Rightarrow> deposit_ctx \<Rightarrow> SoftwareSigner \<Rightarrow> string \<Rightarrow> string \<Rightarrow> unit cmd" where
  "deposit_record E c sg replay tx_hash_hex =
     handleM (insert_entry E replay (cfg_chain_id (c_cfg c)) (c_gateway c) (signer_addr sg) (c_order_id c)
                (c_amount c) (c_idempotency_key c) (c_deadline c) tx_hash_hex)
       (\<lambda>_. retM ())"

definition max_attempts :: "Args \<Rightarrow> nat" where
  "max_attempts args = max (min (unat (receipt_timeout_secs args)) (2 ^ 32 - 1)) 1"

definition deposit_receipt ::
    "env \<Rightarrow> Args \<Rightarrow> deposit_ctx \<Rightarrow> SoftwareSigner \<Rightarrow> AuditRecordBuilder \<Rightarrow> b256 \<Rightarrow> TransactionReceipt cmd" where
  "deposit_receipt E args c sg audit h =
     bindM (handleM (wait_for_receipt_with E (rpc_url (c_cfg c)) h (max_attempts args)) (\<lambda>e.
              deposit_refuse E args c sg audit Refused (deposit_error_name e) (display e) (Some (show_b256 E h)) None)) (\<lambda>receipt.
     if \<not> receipt_status receipt then
       deposit_refuse E args c sg audit Reverted ''ErrTxReverted'' (display (ErrTxReverted (show_b256 E h)))
         (Some (show_b256 E h)) None
     else retM receipt)"

definition deposit_output :: "env \<Rightarrow> AgentDeposit \<Rightarrow> TransactionReceipt \<Rightarrow> b256 \<Rightarrow> json" where
  "deposit_output E d receipt h =
     JObj [(''status'', JStr ''success''),
           (''payment_id'', JStr (show_b256 E (dep_paymentId d))),
           (''order_id'', JStr (show_b256 E (dep_orderId d))),
           (''agent'', JStr (show_address E (dep_agent d))),
           (''share_receiver'', JStr (show_address E (dep_shareReceiver d))),
           (''amount'', JStr (show_word (dep_amount d))),
           (''shares_minted'', JStr (show_word (dep_sharesMinted d))),
           (''block_number'', JU64 (case receipt_block_number receipt of Some b \<Rightarrow> b | None \<Rightarrow> 0)),
           (''tx_hash'', JStr (show_b256 E h)),
           (''gas_used'', JStr (show_word (receipt_gas_used receipt))),
           (''effective_gas_price'', JStr (show_word (receipt_effective_gas_price receipt)))]"

definition deposit_event ::
    "env \<Rightarrow> Args \<Rightarrow> deposit_ctx \<Rightarrow> SoftwareSigner \<Rightarrow> AuditRecordBuilder \<Rightarrow> b256 \<Rightarrow> TransactionReceipt \<Rightarrow> nat cmd" where
  "deposit_event E args c sg audit h receipt =
     (case List.find (\<lambda>l. log_address l = c_gateway c \<and> log_topics l \<noteq> [] \<and> hd (log_topics l) = agent_deposit_topic E)
             (receipt_logs receipt) of
        None \<Rightarrow>
          deposit_refuse E args c sg audit Refused ''ErrAgentDepositLogMissing''
            (display (ErrAgentDepositLogMissing (show_b256 E h))) (Some (show_b256 E h)) None
      | Some l \<Rightarrow>
          bindM (or_exit EXIT_STARTUP_FAIL (dec_agent_deposit E (log_topics l) (log_data l))) (\<lambda>decoded.
          bindM (record_audit (build (audit\<lparr>ab_payment_id := Some (show_b256 E (dep_paymentId decoded))\<rparr>) Signed None)) (\<lambda>_.
          bindM (emit (pretty args) (deposit_output E decoded receipt h)) (\<lambda>_.
          retM EXIT_OK))))"

text \<open>Everything between the lock and the broadcast.\<close>

definition deposit_prepare ::
    "env \<Rightarrow> Args \<Rightarrow> deposit_ctx \<Rightarrow> SoftwareSigner \<Rightarrow> string \<Rightarrow> (string \<times> PreflightReport \<times> bytes) cmd" where
  "deposit_prepare E args c sg dir =
     bindM (deposit_replay_check E args c sg dir) (\<lambda>replay.
     bindM (deposit_preflight E args c sg) (\<lambda>report.
     bindM (deposit_fees E args c sg report) (\<lambda>fees.
     bindM (deposit_sign E args c sg fees) (\<lambda>raw.
     retM (replay, report, raw)))))"

text \<open>Everything after the broadcast.\<close>

definition deposit_settle ::
    "env \<Rightarrow> Args \<Rightarrow> deposit_ctx \<Rightarrow> SoftwareSigner \<Rightarrow> string \<Rightarrow> b256 \<Rightarrow> nat cmd" where
  "deposit_settle E args c sg replay h =
     (let audit = (deposit_audit E c sg)\<lparr>ab_tx_hash := Some (show_b256 E h)\<rparr> in
      bindM (deposit_record E c sg replay (show_b256 E h)) (\<lambda>_.
      bindM (deposit_receipt E args c sg audit h) (\<lambda>receipt.
      deposit_event E args c sg audit h receipt)))"

definition deposit_locked ::
    "env \<Rightarrow> Args \<Rightarrow> deposit_ctx \<Rightarrow> SoftwareSigner \<Rightarrow> string \<Rightarrow> nat cmd" where
  "deposit_locked E args c sg dir =
     bindM (deposit_prepare E args c sg dir) (\<lambda>(replay, report, raw).
     bindM (deposit_broadcast E args c sg report raw) (\<lambda>h.
     deposit_settle E args c sg replay h))"

definition deposit_body :: "env \<Rightarrow> Args \<Rightarrow> nat cmd" where
  "deposit_body E args =
     bindM (deposit_inputs E args) (\<lambda>c.
     bindM (deposit_signer E args c) (\<lambda>sg.
     bindM (or_exit EXIT_STARTUP_FAIL (resolve_state_dir (env_vars E) (c_cfg c))) (\<lambda>dir.
     holding_lock E dir (signer_addr sg) (deposit_lock_err E args c sg) (deposit_locked E args c sg dir))))"

definition deposit_run :: "env \<Rightarrow> Args \<Rightarrow> world \<Rightarrow> nat \<times> world" where
  "deposit_run E args = finish (deposit_body E args)"

section \<open>Effects of the phases\<close>

lemma emit_refusal_Inr [io_simps]: "\<not> emit_refusal args j w = (Inr x, w')"
  by (simp add: emit_refusal_def io_simps)

lemma deposit_refuse_Inr [io_simps]: "\<not> deposit_refuse E args c sg audit d err msg tx checks w = (Inr x, w')"
  by (simp add: deposit_refuse_def io_simps)

lemma deposit_refuse_obeys [simp]:
  "obeys no_broadcast (deposit_refuse E args c sg audit d err msg tx checks)"
  "obeys same_files (deposit_refuse E args c sg audit d err msg tx checks)"
  "obeys same_locks (deposit_refuse E args c sg audit d err msg tx checks)"
  "obeys audit_grows (deposit_refuse E args c sg audit d err msg tx checks)"
  unfolding deposit_refuse_def emit_refusal_def
  by (intro nb.obeys_intros sf.obeys_intros sl.obeys_intros ag.obeys_intros; simp)+

lemma emit_refusal_obeys [simp]:
  "obeys no_broadcast (emit_refusal args j)" "obeys same_files (emit_refusal args j)" "obeys same_locks (emit_refusal args j)"
  unfolding emit_refusal_def by (intro nb.obeys_intros sf.obeys_intros sl.obeys_intros; simp)+

lemma deposit_lock_err_obeys [simp]:
  "obeys no_broadcast (deposit_lock_err E args c sg e)" "obeys same_files (deposit_lock_err E args c sg e)"
  "obeys same_locks (deposit_lock_err E args c sg e)"
  by (simp_all add: deposit_lock_err_def split: RmpcError.split)

lemma deposit_inputs_obeys [simp]:
  "obeys no_broadcast (deposit_inputs E args)" "obeys same_files (deposit_inputs E args)"
  "obeys same_locks (deposit_inputs E args)" "obeys quiet (deposit_inputs E args)"
  unfolding deposit_inputs_def Let_def
  by (auto intro!: nb.obeys_bindM sf.obeys_bindM sl.obeys_bindM qt.obeys_bindM split: option.split)

lemma deposit_signer_obeys [simp]:
  "obeys no_broadcast (deposit_signer E args c)" "obeys same_files (deposit_signer E args c)"
  "obeys same_locks (deposit_signer E args c)"
  unfolding deposit_signer_def Let_def
  by (auto intro!: nb.obeys_bindM sf.obeys_bindM sl.obeys_bindM split: option.split sum.split SignerError.split)

lemma deposit_prepare_obeys [simp]:
  "obeys no_broadcast (deposit_prepare E args c sg dir)" "obeys same_files (deposit_prepare E args c sg dir)"
  "obeys same_locks (deposit_prepare E args c sg dir)"
  unfolding deposit_prepare_def deposit_replay_check_def deposit_preflight_def deposit_fees_def deposit_sign_def
    Let_def rpc_wrappers
  by (auto intro!: nb.obeys_bindM sf.obeys_bindM sl.obeys_bindM nb.obeys_handleM sf.obeys_handleM sl.obeys_handleM
      split: option.split sum.split)

lemma deposit_broadcast_obeys [simp]:
  "obeys same_files (deposit_broadcast E args c sg report raw)" "obeys same_locks (deposit_broadcast E args c sg report raw)"
  unfolding deposit_broadcast_def by (auto intro!: sf.obeys_handleM sl.obeys_handleM)

lemma deposit_record_obeys [simp]:
  "obeys no_broadcast (deposit_record E c sg replay t)" "obeys same_locks (deposit_record E c sg replay t)"
  "obeys quiet (deposit_record E c sg replay t)"
  unfolding deposit_record_def by (auto intro!: nb.obeys_handleM sl.obeys_handleM qt.obeys_handleM)

lemma deposit_receipt_obeys [simp]:
  "obeys no_broadcast (deposit_receipt E args c sg audit h)" "obeys same_files (deposit_receipt E args c sg audit h)"
  "obeys same_locks (deposit_receipt E args c sg audit h)"
  unfolding deposit_receipt_def
  by (auto intro!: nb.obeys_bindM sf.obeys_bindM sl.obeys_bindM nb.obeys_handleM sf.obeys_handleM sl.obeys_handleM)

lemma deposit_event_obeys [simp]:
  "obeys no_broadcast (deposit_event E args c sg audit h r)" "obeys same_files (deposit_event E args c sg audit h r)"
  "obeys same_locks (deposit_event E args c sg audit h r)"
  unfolding deposit_event_def
  by (auto intro!: nb.obeys_bindM sf.obeys_bindM sl.obeys_bindM split: option.split)

lemma deposit_settle_obeys [simp]:
  "obeys no_broadcast (deposit_settle E args c sg replay h)" "obeys same_locks (deposit_settle E args c sg replay h)"
  unfolding deposit_settle_def Let_def by (auto intro!: nb.obeys_bindM sl.obeys_bindM)

lemma deposit_locked_obeys [simp]: "obeys same_locks (deposit_locked E args c sg dir)"
  unfolding deposit_locked_def by (auto intro!: sl.obeys_bindM split: prod.split)

section \<open>What a phase that succeeds has checked\<close>

lemma deposit_inputs_Inr_D:
  "deposit_inputs E args w = (Inr c, w') \<Longrightarrow> w' = w\<lparr>clock_reads := Suc (clock_reads w)\<rparr>"
  by (auto simp: deposit_inputs_def Let_def io_simps split: option.splits)

definition unlocked :: "env \<Rightarrow> Config \<Rightarrow> SoftwareSigner \<Rightarrow> bool" where
  "unlocked E cfg sg \<longleftrightarrow>
     (\<exists>passphrase. env_vars E PASSPHRASE_ENV_VAR = Some passphrase \<and>
        load_with_passphrase E (keystore_path (signer cfg)) (str_bytes passphrase)
          (allow_software_fallback (signer cfg)) = Inr sg)"

lemma deposit_signer_Inr_D:
  assumes "deposit_signer E args c w = (Inr sg, w')"
  shows "w' = w \<and> require_production_grade_for_write (cfg_chain_id (c_cfg c)) Software = Inr () \<and> unlocked E (c_cfg c) sg"
  using assms
  by (auto simp: deposit_signer_def Let_def io_simps unlocked_def split: option.splits sum.splits SignerError.splits)

definition replay_path :: "string \<Rightarrow> string" where
  "replay_path dir = path_join dir REPLAY_CACHE_FILENAME"

definition ctx_key :: "env \<Rightarrow> deposit_ctx \<Rightarrow> SoftwareSigner \<Rightarrow> string" where
  "ctx_key E c sg = show_b256 E (compute_payment_id E (cfg_chain_id (c_cfg c)) (c_gateway c) (signer_addr sg)
     (c_order_id c) (c_amount c) (c_idempotency_key c))"

lemma deposit_replay_check_Inr_D:
  assumes "deposit_replay_check E args c sg dir w = (Inr replay, w')"
  shows "replay = replay_path dir \<and> clock_reads w' = clock_reads w \<and>
    (\<exists>m. parse_cache E (file_content (replay_path dir) w) = Inr m \<and> map_of m (ctx_key E c sg) = None)"
  using assms
  by (auto simp: deposit_replay_check_def lookup_def read_locked_def replay_open_def replay_path_def ctx_key_def
      io_simps Let_def file_content_def parse_cache_def is_blank_def split: option.splits if_splits)

lemma deposit_reads_cong:
  "next_id w = next_id w' \<Longrightarrow> clock_reads w = clock_reads w' \<Longrightarrow>
     deposit_reads E cfg i p w sn = deposit_reads E cfg i p w' sn"
  by (simp add: deposit_reads_def common_reads_def)

lemma deposit_preflight_Inr_D:
  assumes "deposit_preflight E args c sg w = (Inr report, w')"
  shows "next_id w' = 10 \<and>
    (\<exists>p sn. pinned E (c_cfg c) p \<and>
       deposit_reads E (c_cfg c) \<lparr>signer_address = signer_addr sg, amount = c_amount c\<rparr> p (w\<lparr>next_id := 1\<rparr>) sn \<and>
       deposit_admissible E p (c_amount c) sn)"
proof -
  from assms have pf: "preflight_run E (c_cfg c) \<lparr>signer_address = signer_addr sg, amount = c_amount c\<rparr> (w\<lparr>next_id := 1\<rparr>) = (Inr report, w')"
    by (auto simp: deposit_preflight_def io_simps rpc_new_def)
  from preflight_run_D [OF pf] preflight_run_next_id [OF pf] show ?thesis by auto
qed

lemma deposit_fees_Inr_D:
  assumes "deposit_fees E args c sg report w = (Inr fees, w')"
  shows "next_id w' = next_id w + 1 \<and>
    (\<exists>fh. answer E (rpc_url (c_cfg c)) ''eth_feeHistory'' [PStr (hex_tag 5), PStr ''latest'', PPercentiles [50]]
            (json_fee_history E) (next_id w) = Inr fh \<and>
       compute_fees fh (ucast (effective_max_fee_per_gas_cap (c_cfg c) (fee_cap_wei args))) (priority_cap (c_cfg c)) = Inr fees)"
  using assms
  by (auto simp: deposit_fees_def rpc_fee_history_def io_simps case_sum_run_iff)

lemma deposit_sign_Inr_D:
  assumes "deposit_sign E args c sg fees w = (Inr raw, w')"
  shows "next_id w' = next_id w + 1 \<and>
    (\<exists>nonce sig. answer E (rpc_url (c_cfg c)) ''eth_getTransactionCount'' [PAddress (signer_addr sg), PStr ''pending'']
            (json_u64 E) (next_id w) = Inr nonce \<and>
       sign_eip1559_hash E sg (signing_hash E (deposit_tx E args c fees nonce)) = Inr sig \<and>
       raw = encode_signed E (deposit_tx E args c fees nonce) sig)"
  using assms
  by (auto simp: deposit_sign_def rpc_get_transaction_count_def tag_or_latest_def Let_def io_simps)

section \<open>Properties\<close>

lemma deposit_broadcast_sends:
  assumes "deposit_broadcast E args c sg report raw w = (r, w')"
  shows "broadcasts w' = broadcasts w @ [request ''eth_sendRawTransaction'' [PBytes raw] (next_id w)]"
proof -
  let ?w1 = "w\<lparr>next_id := next_id w + 1, sent := sent w @ [request ''eth_sendRawTransaction'' [PBytes raw] (next_id w)]\<rparr>"
  have b: "broadcasts ?w1 = broadcasts w @ [request ''eth_sendRawTransaction'' [PBytes raw] (next_id w)]"
    by (simp add: broadcasts_def)
  obtain q where q: "broadcast E (rpc_url (c_cfg c)) raw w = (q, ?w1)"
    by (metis (no_types) broadcast_Inr_iff)
  show ?thesis
  proof (cases q)
    case (Inl e)
    have n: "obeys no_broadcast (deposit_refuse E args c sg (deposit_audit E c sg) BroadcastFailed (deposit_error_name e)
        (display e) None (Some (from_report report)) :: b256 cmd)" by simp
    have "deposit_refuse E args c sg (deposit_audit E c sg) BroadcastFailed (deposit_error_name e)
        (display e) None (Some (from_report report)) ?w1 = (r, w')"
      using assms q Inl by (simp add: deposit_broadcast_def handleM_def)
    from nb.obeysD [OF n this] b show ?thesis by (simp add: no_broadcast_iff)
  next
    case (Inr h)
    then have "w' = ?w1" using assms q by (simp add: deposit_broadcast_def handleM_def)
    then show ?thesis using b by simp
  qed
qed

text \<open>What has been established when the transaction of a run leaves the process.\<close>

definition deposit_authorised ::
    "env \<Rightarrow> Args \<Rightarrow> world \<Rightarrow> deposit_ctx \<Rightarrow> SoftwareSigner \<Rightarrow> string \<Rightarrow> bytes \<Rightarrow> bool" where
  "deposit_authorised E args w c sg dir raw \<longleftrightarrow>
     fst (deposit_inputs E args w) = Inr c \<and>
     require_production_grade_for_write (cfg_chain_id (c_cfg c)) Software = Inr () \<and>
     unlocked E (c_cfg c) sg \<and>
     resolve_state_dir (env_vars E) (c_cfg c) = Inr dir \<and>
     lock_was_free E w (lock_path E dir (signer_addr sg)) \<and>
     (\<exists>m. parse_cache E (file_content (replay_path dir) w) = Inr m \<and> map_of m (ctx_key E c sg) = None) \<and>
     (\<exists>p sn. pinned E (c_cfg c) p \<and>
        deposit_reads E (c_cfg c) \<lparr>signer_address = signer_addr sg, amount = c_amount c\<rparr> p
          (w\<lparr>next_id := 1, clock_reads := Suc (clock_reads w)\<rparr>) sn \<and>
        deposit_admissible E p (c_amount c) sn) \<and>
     (\<exists>fh fees nonce sig.
        answer E (rpc_url (c_cfg c)) ''eth_feeHistory'' [PStr (hex_tag 5), PStr ''latest'', PPercentiles [50]]
          (json_fee_history E) 10 = Inr fh \<and>
        compute_fees fh (ucast (effective_max_fee_per_gas_cap (c_cfg c) (fee_cap_wei args))) (priority_cap (c_cfg c)) = Inr fees \<and>
        answer E (rpc_url (c_cfg c)) ''eth_getTransactionCount'' [PAddress (signer_addr sg), PStr ''pending''] (json_u64 E) 11 = Inr nonce \<and>
        sign_eip1559_hash E sg (signing_hash E (deposit_tx E args c fees nonce)) = Inr sig \<and>
        raw = encode_signed E (deposit_tx E args c fees nonce) sig)"

lemma lock_path_not_replay: "lock_path E dir a \<noteq> replay_path dir"
  by (simp add: lock_path_def replay_path_def path_join_def REPLAY_CACHE_FILENAME_def)

lemma acquire_frame:
  assumes "acquire E dir agent w = (Inr a, w')"
  shows "next_id w' = next_id w \<and> clock_reads w' = clock_reads w \<and>
    (\<forall>q. q \<noteq> lock_path E dir agent \<longrightarrow> files w' q = files w q)"
  using assms by (auto simp: acquire_def Let_def io_simps)

lemma deposit_prepare_Inr_D:
  assumes "deposit_prepare E args c sg dir w = (Inr (replay, report, raw), w')"
  shows "next_id w' = 12 \<and> replay = replay_path dir \<and>
    (\<exists>m. parse_cache E (file_content (replay_path dir) w) = Inr m \<and> map_of m (ctx_key E c sg) = None) \<and>
    (\<exists>p sn. pinned E (c_cfg c) p \<and>
       deposit_reads E (c_cfg c) \<lparr>signer_address = signer_addr sg, amount = c_amount c\<rparr> p (w\<lparr>next_id := 1\<rparr>) sn \<and>
       deposit_admissible E p (c_amount c) sn) \<and>
    (\<exists>fh fees nonce sig.
        answer E (rpc_url (c_cfg c)) ''eth_feeHistory'' [PStr (hex_tag 5), PStr ''latest'', PPercentiles [50]]
          (json_fee_history E) 10 = Inr fh \<and>
        compute_fees fh (ucast (effective_max_fee_per_gas_cap (c_cfg c) (fee_cap_wei args))) (priority_cap (c_cfg c)) = Inr fees \<and>
        answer E (rpc_url (c_cfg c)) ''eth_getTransactionCount'' [PAddress (signer_addr sg), PStr ''pending''] (json_u64 E) 11 = Inr nonce \<and>
        sign_eip1559_hash E sg (signing_hash E (deposit_tx E args c fees nonce)) = Inr sig \<and>
        raw = encode_signed E (deposit_tx E args c fees nonce) sig)"
proof -
  from assms obtain w1 w2 w3 fees where
    rc: "deposit_replay_check E args c sg dir w = (Inr replay, w1)" and
    pf: "deposit_preflight E args c sg w1 = (Inr report, w2)" and
    fe: "deposit_fees E args c sg report w2 = (Inr fees, w3)" and
    sg: "deposit_sign E args c sg fees w3 = (Inr raw, w')"
    unfolding deposit_prepare_def by (auto simp: bindM_Inr_iff retM_iff)
  note rc' = deposit_replay_check_Inr_D [OF rc] and pf' = deposit_preflight_Inr_D [OF pf]
    and fe' = deposit_fees_Inr_D [OF fe] and sg' = deposit_sign_Inr_D [OF sg]
  have "deposit_reads E (c_cfg c) i p (w1\<lparr>next_id := 1\<rparr>) sn = deposit_reads E (c_cfg c) i p (w\<lparr>next_id := 1\<rparr>) sn" for i p sn
    using rc' by (intro deposit_reads_cong) auto
  then show ?thesis using rc' pf' fe' sg' by auto
qed

lemma deposit_locked_broadcasts:
  assumes "deposit_locked E args c sg dir w = (r, w')"
  shows "broadcasts w' = broadcasts w \<or>
    (\<exists>replay report raw w1. deposit_prepare E args c sg dir w = (Inr (replay, report, raw), w1) \<and>
       broadcasts w' = broadcasts w @ [request ''eth_sendRawTransaction'' [PBytes raw] (next_id w1)])"
  using assms unfolding deposit_locked_def
proof (cases rule: bindM_cases)
  case (failed e)
  then show ?thesis using nb.obeysD [OF deposit_prepare_obeys(1)] by (auto simp: no_broadcast_iff)
next
  case (continued x w1)
  obtain replay report raw where x: "x = (replay, report, raw)" by (cases x)
  have b1: "broadcasts w1 = broadcasts w"
    using nb.obeysD [OF deposit_prepare_obeys(1) continued(1)] by (simp add: no_broadcast_iff)
  obtain rb w2 where b: "deposit_broadcast E args c sg report raw w1 = (rb, w2)" by force
  have "broadcasts w' = broadcasts w2"
  proof (cases rb)
    case (Inl e)
    then show ?thesis using continued(2) x b by (simp add: bindM_def)
  next
    case (Inr h)
    then have "deposit_settle E args c sg replay h w2 = (r, w')" using continued(2) x b by (simp add: bindM_def)
    then show ?thesis using nb.obeysD [OF deposit_settle_obeys(1)] by (simp add: no_broadcast_iff)
  qed
  then show ?thesis using deposit_broadcast_sends [OF b] b1 continued(1) x by auto
qed

text \<open>The three ways a run can go: it stops before the lock, it is refused the lock, or it enters.\<close>

lemma deposit_body_cases:
  assumes "deposit_body E args w = (r, w')"
  obtains (early) "no_broadcast w w'" "same_files w w'" "same_locks w w'" "isl r"
  | (refused) c sg dir e w1 where "acquire E dir (signer_addr sg) (w\<lparr>clock_reads := Suc (clock_reads w)\<rparr>) = (Inl e, w1)"
      "deposit_lock_err E args c sg e w1 = (r, w')"
  | (entered) c sg dir a w1 w2 where "fst (deposit_inputs E args w) = Inr c"
      "require_production_grade_for_write (cfg_chain_id (c_cfg c)) Software = Inr ()" "unlocked E (c_cfg c) sg"
      "resolve_state_dir (env_vars E) (c_cfg c) = Inr dir"
      "acquire E dir (signer_addr sg) (w\<lparr>clock_reads := Suc (clock_reads w)\<rparr>) = (Inr a, w1)"
      "deposit_locked E args c sg dir w1 = (r, w2)" "w' = drop_guard a w2"
  using assms unfolding deposit_body_def
proof (cases rule: bindM_cases)
  case (failed e)
  then show thesis
    using nb.obeysD [OF deposit_inputs_obeys(1)] sf.obeysD [OF deposit_inputs_obeys(2)] sl.obeysD [OF deposit_inputs_obeys(3)]
      early by auto
next
  case inp: (continued c w0)
  have w0: "w0 = w\<lparr>clock_reads := Suc (clock_reads w)\<rparr>" using deposit_inputs_Inr_D [OF inp(1)] .
  have early0: "no_broadcast w0 w' \<Longrightarrow> same_files w0 w' \<Longrightarrow> same_locks w0 w' \<Longrightarrow> isl r \<Longrightarrow> thesis"
    using early w0 by (simp add: no_broadcast_def same_files_def same_locks_def)
  from inp(2) show thesis
  proof (cases rule: bindM_cases)
    case (failed e)
    then show thesis
      using nb.obeysD [OF deposit_signer_obeys(1)] sf.obeysD [OF deposit_signer_obeys(2)] sl.obeysD [OF deposit_signer_obeys(3)]
        early0 by auto
  next
    case sgn: (continued sg w1)
    from sgn(2) show thesis
    proof (cases rule: bindM_cases)
      case (failed e)
      then show thesis
        using deposit_signer_Inr_D [OF sgn(1)] early0 by (auto simp: io_simps no_broadcast_def same_files_def same_locks_def)
    next
      case dir: (continued d w2)
      then have d: "resolve_state_dir (env_vars E) (c_cfg c) = Inr d" "w2 = w0"
        using deposit_signer_Inr_D [OF sgn(1)] by (auto simp: io_simps)
      from dir(2) show thesis
        by (cases rule: holding_lock_cases)
           (use refused entered inp(1) deposit_signer_Inr_D [OF sgn(1)] d w0 in \<open>auto\<close>)
    qed
  qed
qed

lemma deposit_body_authorised:
  assumes run: "deposit_body E args w = (r, w')"
  shows "broadcasts w' = broadcasts w \<or>
     (\<exists>c sg dir raw. deposit_authorised E args w c sg dir raw \<and>
        broadcasts w' = broadcasts w @ [request ''eth_sendRawTransaction'' [PBytes raw] 12])"
  using run
proof (cases rule: deposit_body_cases)
  case early
  then show ?thesis by (simp add: no_broadcast_iff)
next
  case (refused c sg dir e w1)
  then show ?thesis
    using nb.obeysD [OF deposit_lock_err_obeys(1)] nb.obeysD [OF acquire_obeys(1)]
    by (auto simp: no_broadcast_iff broadcasts_def)
next
  case (entered c sg dir a w1 w2)
  note fr = acquire_frame [OF entered(5)] and free = acquire_Inr_D(2) [OF entered(5)]
  have cache: "file_content (replay_path dir) w1 = file_content (replay_path dir) w"
    using fr lock_path_not_replay [of E dir "signer_addr sg"] by (auto simp: file_content_def)
  have reads: "deposit_reads E (c_cfg c) i p (w1\<lparr>next_id := 1\<rparr>) sn =
      deposit_reads E (c_cfg c) i p (w\<lparr>next_id := 1, clock_reads := Suc (clock_reads w)\<rparr>) sn" for i p sn
    using fr by (intro deposit_reads_cong) auto
  have b: "broadcasts w1 = broadcasts w" "broadcasts w' = broadcasts w2"
    using nb.obeysD [OF acquire_obeys(1) entered(5)] entered(7) by (simp_all add: no_broadcast_iff broadcasts_def drop_guard_def)
  from deposit_locked_broadcasts [OF entered(6)] show ?thesis
  proof (elim disjE exE conjE)
    fix replay report raw w5
    assume p: "deposit_prepare E args c sg dir w1 = (Inr (replay, report, raw), w5)"
      "broadcasts w2 = broadcasts w1 @ [request ''eth_sendRawTransaction'' [PBytes raw] (next_id w5)]"
    have "deposit_authorised E args w c sg dir raw"
      unfolding deposit_authorised_def using deposit_prepare_Inr_D [OF p(1)] entered(1-4) free cache reads by auto
    then show ?thesis using p(2) deposit_prepare_Inr_D [OF p(1)] b by auto
  qed (use b in simp)
qed

text \<open>
  C1. A deposit broadcasts at most one transaction, and only one that was cleared: if a run sends
  a raw transaction at all, then the inputs parsed, the signer is allowed on the configured chain
  and was unlocked, the kernel granted the agent's lock (so no other guard held it, if the kernel
  refuses locked files), the replay cache as it was at the start
  does not know the payment, the answers of the node satisfy the whole deposit policy for exactly
  this agent and amount, the fee bid respects both caps, and the bytes sent are the signed encoding
  of the gateway call with these values, as request number 12.
\<close>

theorem deposit_broadcast_guarded:
  "case deposit_run E args w of (code, w') \<Rightarrow>
     broadcasts w' = broadcasts w \<or>
     (\<exists>c sg dir raw. deposit_authorised E args w c sg dir raw \<and>
        broadcasts w' = broadcasts w @ [request ''eth_sendRawTransaction'' [PBytes raw] 12])"
proof -
  obtain r w' where run: "deposit_body E args w = (r, w')" by force
  from deposit_body_authorised [OF run] show ?thesis by (cases r) (simp_all add: deposit_run_def finish_def run)
qed

text \<open>
  The lock is released on every path: whatever the outcome of a deposit, the lock table after
  the run is the one before it.
\<close>

theorem deposit_releases_lock:
  "locks (snd (deposit_run E args w)) = locks w"
proof -
  obtain r w' where run: "deposit_body E args w = (r, w')" by force
  from run have "locks w' = locks w"
  proof (cases rule: deposit_body_cases)
    case early
    then show ?thesis by (simp add: same_locks_def)
  next
    case (refused c sg dir e w1)
    then show ?thesis
      using sl.obeysD [OF deposit_lock_err_obeys(3)] acquire_Inl_locks by (fastforce simp: same_locks_def)
  next
    case (entered c sg dir a w1 w2)
    then show ?thesis
      using sl.obeysD [OF deposit_locked_obeys] acquire_Inr_D(3) [OF entered(5)] by (simp add: same_locks_def drop_guard_def)
  qed
  then show ?thesis by (cases r) (simp_all add: deposit_run_def finish_def run)
qed

section \<open>Reporting\<close>

lemma failure_json_members [simp]:
  "json_get ''status'' (failure_json err msg agent order tx checks) = Some (JStr ''refused'')"
  "json_get ''error'' (failure_json err msg agent order tx checks) = Some (JStr err)"
  by (simp_all add: failure_json_def json_get_def)

lemma reports_emit_refusal [simp]:
  "reports F (emit_refusal args (failure_json err msg agent order tx checks))"
  by (fastforce simp: reports_def emit_refusal_def io_simps added_def fail_report_def bindM_def emit_def modifyM_def failM_def)

lemma reports_refuse [simp]:
  "d \<noteq> Signed \<Longrightarrow> reports F (deposit_refuse E args c sg audit d err msg tx checks)"
  by (fastforce simp: reports_def deposit_refuse_def emit_refusal_def record_audit_def added_def fail_report_def build_def
      bindM_def emit_def modifyM_def failM_def)

lemma reports_holding_lock:
  assumes "reports F body" and "\<And>e. reports F (on_err e)"
  shows "reports F (holding_lock E dir agent on_err body)"
  unfolding reports_def
proof (intro allI impI)
  fix w r w' assume "holding_lock E dir agent on_err body w = (r, w')"
  then show "\<exists>a s. added w w' a s \<and> (case r of Inr x \<Rightarrow> F x a s | Inl c \<Rightarrow> fail_report c a s)"
  proof (cases rule: holding_lock_cases)
    case (refused e w1)
    have "quiet w w1" using qt.obeysD [OF acquire_obeys(2) refused(1)] .
    then show ?thesis using reportsD [OF assms(2) refused(2)] by (auto simp: added_def quiet_def)
  next
    case (entered a w1 w2)
    have "quiet w w1" using qt.obeysD [OF acquire_obeys(2) entered(1)] .
    then show ?thesis
      using reportsD [OF assms(1) entered(2)] entered(3) by (auto simp: added_def quiet_def drop_guard_def)
  qed
qed

lemma phase_deposit_inputs: "phase (deposit_inputs E args)"
  unfolding deposit_inputs_def Let_def
  by (auto intro!: reports_bindM split: option.split)

lemma phase_deposit_signer: "phase (deposit_signer E args c)"
  unfolding deposit_signer_def Let_def
  by (auto intro!: reports_bindM split: option.split sum.split SignerError.split)

lemma reports_deposit_lock_err: "reports F (deposit_lock_err E args c sg e)"
  by (simp add: deposit_lock_err_def split: RmpcError.split)

lemma phase_deposit_prepare: "phase (deposit_prepare E args c sg dir)"
  unfolding deposit_prepare_def deposit_replay_check_def deposit_preflight_def deposit_fees_def deposit_sign_def Let_def
    rpc_wrappers
  by (auto intro!: reports_bindM phase_exit_on phase_handleM split: option.split sum.split)

lemma phase_deposit_broadcast: "phase (deposit_broadcast E args c sg report raw)"
  unfolding deposit_broadcast_def by (auto intro!: phase_handleM)

lemma phase_deposit_record: "phase (deposit_record E c sg replay t)"
  by (rule phase_quiet [OF deposit_record_obeys(3)]) (simp add: deposit_record_def io_simps)

lemma phase_deposit_receipt: "phase (deposit_receipt E args c sg audit h)"
  unfolding deposit_receipt_def by (auto intro!: reports_bindM phase_handleM)

definition success_report :: "bool \<Rightarrow> nat \<Rightarrow> AuditRecord list \<Rightarrow> (bool \<times> json) list \<Rightarrow> bool" where
  "success_report b code a s \<longleftrightarrow>
     code = EXIT_OK \<and>
     (\<exists>x j. a = [x] \<and> aud_decision x = Signed \<and> aud_rejection_reason x = None \<and>
        aud_tx_hash x \<noteq> None \<and> aud_payment_id x \<noteq> None \<and>
        s = [(b, j)] \<and> json_get ''status'' j = Some (JStr ''success''))"

lemma reports_deposit_event:
  assumes "ab_tx_hash audit \<noteq> None"
  shows "reports (success_report (pretty args)) (deposit_event E args c sg audit h receipt)"
proof -
  have "reports (success_report (pretty args))
      (bindM (record_audit (build (audit\<lparr>ab_payment_id := Some (show_b256 E (dep_paymentId d))\<rparr>) Signed None)) (\<lambda>_.
       bindM (emit (pretty args) (deposit_output E d receipt h)) (\<lambda>_. retM EXIT_OK)))" for d
    using assms
    by (auto simp: reports_def record_audit_def added_def success_report_def build_def bindM_def emit_def modifyM_def
        retM_def deposit_output_def json_get_def)
  then show ?thesis
    unfolding deposit_event_def
    by (cases "List.find (\<lambda>l. log_address l = c_gateway c \<and> log_topics l \<noteq> [] \<and> hd (log_topics l) = agent_deposit_topic E)
          (receipt_logs receipt)")
       (simp_all add: reports_bindM)
qed

lemma reports_deposit_body: "reports (success_report (pretty args)) (deposit_body E args)"
  unfolding deposit_body_def deposit_locked_def deposit_settle_def Let_def
  by (intro reports_bindM phase_deposit_inputs phase_deposit_signer phase_or_exit reports_holding_lock
        reports_deposit_lock_err)
     (auto intro!: reports_bindM phase_deposit_prepare phase_deposit_broadcast phase_deposit_record phase_deposit_receipt
        reports_deposit_event split: prod.split)

text \<open>
  The outcome contract: a deposit that exits with 0 added exactly one audit record, marked
  signed and carrying the transaction hash and the payment id, and printed exactly one success
  document; one that exits with 2 printed exactly one refusal with a named error and added at most
  one audit record, not marked signed, with the same name as its reason; one that exits with 3
  printed and recorded nothing. There is no other exit code.
\<close>

theorem deposit_reports_outcome:
  "case deposit_run E args w of (code, w') \<Rightarrow>
     \<exists>a s. added w w' a s \<and> (fail_report code a s \<or> success_report (pretty args) code a s)"
proof -
  obtain r w' where run: "deposit_body E args w = (r, w')" by force
  from reportsD [OF reports_deposit_body run] show ?thesis
    by (cases r) (auto simp: deposit_run_def finish_def run)
qed

section \<open>A run that succeeds\<close>

definition demo_args :: Args where
  "demo_args = \<lparr>config_path = ''c'', arg_amount = ''50'', arg_order_id = ''4'', arg_idempotency_key = None,
     deadline_secs = 900, receipt_timeout_secs = 2, gas_limit = 100000, fee_cap_wei = None, pretty = False\<rparr>"

definition demo_ctx :: deposit_ctx where
  "demo_ctx = \<lparr>c_cfg = demo_cfg, c_amount = 50, c_order_id = 4, c_idempotency_key = 4, c_gateway = 1, c_deadline = 1600\<rparr>"

definition demo_signer :: SoftwareSigner where
  "demo_signer = \<lparr>signing_key = replicate 32 1, signer_addr = 8\<rparr>"

lemma demo_cfg_sel [simp]:
  "cfg_chain_id demo_cfg = 31337" "state_dir demo_cfg = Some ''/s''" "gateway_address demo_cfg = ''gw''"
  "usdc_address demo_cfg = ''usdc''" "vault_address demo_cfg = ''vault''" "rpc_url demo_cfg = []"
  "gateway_runtime_hash demo_cfg = replicate 32 (CHR 0x01)" "max_fee_per_gas_cap demo_cfg = None"
  "max_priority_fee_per_gas_cap demo_cfg = None"
  "signer demo_cfg = \<lparr>allow_software_fallback = True, keystore_path = []\<rparr>"
  by (simp_all add: demo_cfg_def base_cfg_def)

lemma demo_inputs: "deposit_inputs (demo_env\<lparr>fs_fault := F\<rparr>) demo_args world0 = (Inr demo_ctx, world0\<lparr>clock_reads := Suc 0\<rparr>)"
  by (simp add: deposit_inputs_def demo_args_def io_eval or_exit_def from_path_def demo_env_def parse_amount_def starts_0x_def
      now_unix_def world0_def demo_ctx_def Let_def MAX_DEADLINE_SKEW_SECS_def saturating_add_def)

lemma demo_signer_ok: "deposit_signer (demo_env\<lparr>fs_fault := F\<rparr>) demo_args demo_ctx w = (Inr demo_signer, w)"
  by (simp add: deposit_signer_def demo_ctx_def io_eval require_production_grade_for_write_def from_chain_id_def is_production_def
      PASSPHRASE_ENV_VAR_def demo_env_def load_with_passphrase_def from_keystore_def demo_keystore_def MIN_SALT_LEN_def NONCE_LEN_def
      PRIVKEY_LEN_def KEY_LEN_def aes_new_def derive_key_def parse_address_def strip_prefix_or_self_def str_bytes_def
      address_from_signing_key_def Let_def demo_signer_def)

lemmas demo_rpc = rpc_wrappers rpc_send_raw_transaction_def rpc_call_eval answer_def decode_reply_def is_success_def
  request_def demo_body_def demo_env_def Let_def

lemma demo_replay_check:
  assumes "\<forall>n op path. op \<noteq> OpWrite \<longrightarrow> F n op path = None" and "files w (replay_path ''/s'') = None"
  shows "\<exists>w'. deposit_replay_check (demo_env\<lparr>fs_fault := F\<rparr>) demo_args demo_ctx demo_signer ''/s'' w = (Inr (replay_path ''/s''), w')"
  using assms
  by (simp add: deposit_replay_check_def io_eval exit_on_def replay_open_def fs_call_def lookup_def read_locked_def
      replay_path_def demo_env_def Let_def)

lemma demo_preflight: "\<exists>rep w'. deposit_preflight (demo_env\<lparr>fs_fault := F\<rparr>) demo_args demo_ctx demo_signer w = (Inr rep, w')"
  by (simp add: deposit_preflight_def demo_ctx_def io_eval or_exit_def exit_on_def rpc_new_def preflight_run_def run_inner_def
      common_checks_def view_defs view_call_def parse_addr_def parse_b256_hex_def strip_prefix_or_self_def demo_policy_def
      demo_signer_def tag_or_latest_def now_unix_def saturating_add_def demo_rpc)

lemma demo_fees: "\<exists>fees w'. deposit_fees (demo_env\<lparr>fs_fault := F\<rparr>) demo_args demo_ctx demo_signer report w = (Inr fees, w')"
  by (simp add: deposit_fees_def demo_ctx_def demo_args_def io_eval exit_on_def compute_fees_def base_fee_for_next_block_def
      priority_fee_from_history_def first_tip_def effective_max_fee_per_gas_cap_def default_max_fee_per_gas_cap_wei_def
      UNKNOWN_CHAIN_FEE_CAP_FALLBACK_WEI_def priority_cap_def PRIORITY_FEE_FLOOR_WEI_def ONE_GWEI_def
      saturating_add_def saturating_mul_def demo_rpc)

lemma demo_sign: "\<exists>raw w'. deposit_sign (demo_env\<lparr>fs_fault := F\<rparr>) demo_args demo_ctx demo_signer fees w = (Inr raw, w')"
  by (simp add: deposit_sign_def demo_ctx_def io_eval exit_on_def or_exit_def sign_eip1559_hash_def demo_rpc)

lemma demo_broadcast: "\<exists>h w'. deposit_broadcast (demo_env\<lparr>fs_fault := F\<rparr>) demo_args demo_ctx demo_signer report raw w = (Inr h, w')"
  by (simp add: deposit_broadcast_def broadcast_def demo_ctx_def io_eval demo_rpc)

lemma demo_record: "\<exists>w'. deposit_record (demo_env\<lparr>fs_fault := F\<rparr>) demo_ctx demo_signer replay t w = (Inr (), w')"
  by (simp add: deposit_record_def handleM_def split: prod.split sum.split) (simp add: retM_def)

lemma demo_receipt_ok: "\<exists>w'. deposit_receipt (demo_env\<lparr>fs_fault := F\<rparr>) demo_args demo_ctx demo_signer audit h w = (Inr demo_receipt, w')"
proof -
  have "max_attempts demo_args = Suc 1" by (simp add: max_attempts_def demo_args_def)
  then show ?thesis by (simp add: deposit_receipt_def demo_ctx_def io_eval demo_rpc demo_receipt_def)
qed

lemma demo_event: "\<exists>w'. deposit_event (demo_env\<lparr>fs_fault := F\<rparr>) demo_args demo_ctx demo_signer audit h demo_receipt w = (Inr EXIT_OK, w')"
  by (simp add: deposit_event_def demo_ctx_def demo_receipt_def io_eval or_exit_def record_audit_def emit_def demo_env_def)

lemma demo_deposit_exits_ok:
  assumes "\<forall>n op path. op \<noteq> OpWrite \<longrightarrow> F n op path = None"
  shows "\<exists>w'. deposit_run (demo_env\<lparr>fs_fault := F\<rparr>) demo_args world0 = (EXIT_OK, w')"
proof -
  define E where "E = demo_env\<lparr>fs_fault := F\<rparr>"
  have kernel: "flock_grants E" "\<forall>n op path. op \<noteq> OpWrite \<longrightarrow> fs_fault E n op path = None"
    using demo_flock(2) assms by (simp_all add: flock_grants_def E_def)
  note phases = demo_inputs [of F, folded E_def] demo_signer_ok [of F, folded E_def]
  let ?w0 = "world0\<lparr>clock_reads := Suc 0\<rparr>"
  have "lock_file ?w0 (lock_path E ''/s'' 8) \<notin> set (locks ?w0)" by (simp add: world0_def)
  from acquire_granted [OF kernel(1) this kernel(2)] obtain a w1 where
    w1: "acquire E ''/s'' 8 ?w0 = (Inr a, w1)" by blast
  have "files w1 (replay_path ''/s'') = None"
    using acquire_frame [OF w1] lock_path_not_replay [of E "''/s''" 8] by (auto simp: world0_def)
  then obtain w2 where rc: "deposit_replay_check E demo_args demo_ctx demo_signer ''/s'' w1 = (Inr (replay_path ''/s''), w2)"
    using demo_replay_check [OF assms] unfolding E_def by blast
  obtain rep w3 where pf: "deposit_preflight E demo_args demo_ctx demo_signer w2 = (Inr rep, w3)" using demo_preflight unfolding E_def by blast
  obtain fees w4 where fe: "deposit_fees E demo_args demo_ctx demo_signer rep w3 = (Inr fees, w4)" using demo_fees unfolding E_def by blast
  obtain raw w5 where si: "deposit_sign E demo_args demo_ctx demo_signer fees w4 = (Inr raw, w5)" using demo_sign unfolding E_def by blast
  obtain h w6 where br: "deposit_broadcast E demo_args demo_ctx demo_signer rep raw w5 = (Inr h, w6)" using demo_broadcast unfolding E_def by blast
  obtain w7 where re: "deposit_record E demo_ctx demo_signer (replay_path ''/s'') (show_b256 E h) w6 = (Inr (), w7)"
    using demo_record unfolding E_def by blast
  let ?au = "(deposit_audit E demo_ctx demo_signer)\<lparr>ab_tx_hash := Some (show_b256 E h)\<rparr>"
  obtain w8 where rt: "deposit_receipt E demo_args demo_ctx demo_signer ?au h w7 = (Inr demo_receipt, w8)"
    using demo_receipt_ok unfolding E_def by blast
  obtain w9 where ev: "deposit_event E demo_args demo_ctx demo_signer ?au h demo_receipt w8 = (Inr EXIT_OK, w9)"
    using demo_event unfolding E_def by blast
  have "deposit_locked E demo_args demo_ctx demo_signer ''/s'' w1 = (Inr EXIT_OK, w9)"
    by (simp add: deposit_locked_def deposit_prepare_def deposit_settle_def Let_def bindM_def retM_def rc pf fe si br re rt ev)
  moreover have "resolve_state_dir (env_vars E) (c_cfg demo_ctx) = Inr ''/s''" "signer_addr demo_signer = 8"
    by (simp_all add: resolve_state_dir_def demo_ctx_def demo_signer_def demo_env_def E_def)
  ultimately have "deposit_body E demo_args world0 = (Inr EXIT_OK, drop_guard a w9)"
    by (simp add: deposit_body_def bindM_def phases or_exit_def liftR_def map_err_def holding_lock_def w1)
  then show ?thesis unfolding E_def by (simp add: deposit_run_def finish_def)
qed

lemma demo_deposit_succeeds: "\<exists>w'. deposit_run demo_env demo_args world0 = (EXIT_OK, w')"
proof -
  have "demo_env\<lparr>fs_fault := (\<lambda>_ _ _. None)\<rparr> = demo_env" by (simp add: demo_env_def)
  then show ?thesis using demo_deposit_exits_ok [of "\<lambda>_ _ _. None"] by simp
qed

end
