(* ===== verification/Withdraw.thy ===== *)
theory Withdraw
  imports Deposit
begin

text \<open>
  The \<open>withdraw\<close> command (\<open>commands/withdraw.rs\<close>): the deposit pipeline with the withdrawal
  preflight, three further checks on the source vault, and no replay cache.
\<close>

section \<open>Definitions\<close>

record WithdrawArgs =
  wa_config_path :: string
  wa_shares :: string
  wa_source_vault :: string
  wa_order_id :: string
  wa_idempotency_key :: "string option"
  wa_deadline_secs :: u64
  wa_receipt_timeout_secs :: u64
  wa_gas_limit :: u64
  wa_fee_cap_wei :: "u64 option"
  wa_pretty :: bool

record withdraw_ctx =
  x_cfg :: Config
  x_shares :: u256
  x_source_vault :: address
  x_order_id :: b256
  x_idempotency_key :: b256
  x_gateway :: address
  x_deadline :: u64

definition withdraw_inputs :: "env \<Rightarrow> WithdrawArgs \<Rightarrow> withdraw_ctx cmd" where
  "withdraw_inputs E args =
     bindM (or_exit EXIT_STARTUP_FAIL (from_path E (wa_config_path args))) (\<lambda>cfg.
     bindM (or_exit EXIT_STARTUP_FAIL (u256_from_str E (wa_shares args))) (\<lambda>shares.
     bindM (or_exit EXIT_STARTUP_FAIL (address_from_str E (wa_source_vault args))) (\<lambda>source_vault.
     bindM (or_exit EXIT_STARTUP_FAIL (b256_from_str E (wa_order_id args))) (\<lambda>order.
     bindM (case wa_idempotency_key args of
              None \<Rightarrow> retM order
            | Some s \<Rightarrow> or_exit EXIT_STARTUP_FAIL (b256_from_str E s)) (\<lambda>idem.
     bindM (or_exit EXIT_STARTUP_FAIL (address_from_str E (gateway_address cfg))) (\<lambda>gateway_addr.
     let dsecs = min (wa_deadline_secs args) MAX_DEADLINE_SKEW_SECS in
     bindM (now_unix E) (\<lambda>now.
     retM \<lparr>x_cfg = cfg, x_shares = shares, x_source_vault = source_vault, x_order_id = order,
           x_idempotency_key = idem, x_gateway = gateway_addr, x_deadline = saturating_add now dsecs\<rparr>)))))))"

definition withdraw_emit_refusal :: "WithdrawArgs \<Rightarrow> json \<Rightarrow> 'a cmd" where
  "withdraw_emit_refusal args j = bindM (emit (wa_pretty args) j) (\<lambda>_. failM EXIT_REFUSAL)"

definition withdraw_signer :: "env \<Rightarrow> WithdrawArgs \<Rightarrow> withdraw_ctx \<Rightarrow> SoftwareSigner cmd" where
  "withdraw_signer E args c =
     (let cfg = x_cfg c; order = show_b256 E (x_order_id c) in
      bindM (case require_production_grade_for_write (cfg_chain_id cfg) Software of
               Inr _ \<Rightarrow> retM ()
             | Inl err \<Rightarrow> withdraw_emit_refusal args
                 (failure_json (withdraw_error_name err) (Some (display err)) None (Some order) None None)) (\<lambda>_.
      bindM (case env_vars E PASSPHRASE_ENV_VAR of
               None \<Rightarrow> failM EXIT_STARTUP_FAIL | Some p \<Rightarrow> retM p) (\<lambda>passphrase.
      case load_with_passphrase E (keystore_path (signer cfg)) (str_bytes passphrase)
             (allow_software_fallback (signer cfg)) of
        Inr sg \<Rightarrow> retM sg
      | Inl SignerDisallowed \<Rightarrow> withdraw_emit_refusal args
          (failure_json ''ErrSoftwareSignerDisallowed''
             (Some ''[signer].allow_software_fallback must be true to use the software keystore'')
             None (Some order) None None)
      | Inl _ \<Rightarrow> failM EXIT_STARTUP_FAIL)))"

definition withdraw_audit :: "env \<Rightarrow> withdraw_ctx \<Rightarrow> SoftwareSigner \<Rightarrow> AuditRecordBuilder" where
  "withdraw_audit E c sg =
     \<lparr>ab_agent = show_address E (signer_addr sg), ab_backend = backend_label Software,
      ab_request_type = ''withdraw'', ab_order_id = show_b256 E (x_order_id c),
      ab_idempotency_key = show_b256 E (x_idempotency_key c), ab_amount = show_word (x_shares c),
      ab_deadline = x_deadline c, ab_gateway = show_address E (x_gateway c),
      ab_chain_id = cfg_chain_id (x_cfg c), ab_tx_hash = None, ab_payment_id = None\<rparr>"

definition withdraw_refuse ::
    "env \<Rightarrow> WithdrawArgs \<Rightarrow> withdraw_ctx \<Rightarrow> SoftwareSigner \<Rightarrow> AuditRecordBuilder \<Rightarrow> AuditDecision \<Rightarrow> string \<Rightarrow> string \<Rightarrow>
       string option \<Rightarrow> ChecksOutput option \<Rightarrow> 'a cmd" where
  "withdraw_refuse E args c sg audit d err msg tx checks =
     bindM (record_audit (build audit d (Some err))) (\<lambda>_.
     withdraw_emit_refusal args (failure_json err (Some msg) (Some (show_address E (signer_addr sg)))
       (Some (show_b256 E (x_order_id c))) tx checks))"

definition withdraw_lock_err ::
    "env \<Rightarrow> WithdrawArgs \<Rightarrow> withdraw_ctx \<Rightarrow> SoftwareSigner \<Rightarrow> RmpcError \<Rightarrow> nat cmd" where
  "withdraw_lock_err E args c sg e =
     (case e of
        ErrConcurrentInvocation \<Rightarrow>
          withdraw_refuse E args c sg (withdraw_audit E c sg) Refused ''ErrConcurrentInvocation''
            (''another rmpc invocation already holds the lock for agent '' @ show_address E (signer_addr sg)) None None
      | _ \<Rightarrow> failM EXIT_STARTUP_FAIL)"

definition withdraw_preflight ::
    "env \<Rightarrow> WithdrawArgs \<Rightarrow> withdraw_ctx \<Rightarrow> SoftwareSigner \<Rightarrow> PreflightReport cmd" where
  "withdraw_preflight E args c sg =
     bindM (or_exit EXIT_STARTUP_FAIL (runtime_build E)) (\<lambda>_.
     bindM (exit_on EXIT_STARTUP_FAIL (rpc_new E (rpc_url (x_cfg c)))) (\<lambda>_.
     handleM (run_withdraw_gateway E (x_cfg c) \<lparr>signer_address = signer_addr sg, amount = x_shares c\<rparr>) (\<lambda>err.
       withdraw_refuse E args c sg (withdraw_audit E c sg) Refused (withdraw_error_name err) (display err) None
         (Some (from_err_partial err)))))"

definition call_vault_paused :: "env \<Rightarrow> string \<Rightarrow> address \<Rightarrow> bool rmpc" where
  "call_vault_paused E url vault = view_call E url vault VaultPaused (dec_bool E) ''vault.paused()''"

definition call_erc20_allowance :: "env \<Rightarrow> string \<Rightarrow> address \<Rightarrow> address \<Rightarrow> address \<Rightarrow> u256 rmpc" where
  "call_erc20_allowance E url token owner spender =
     view_call E url token (Erc20Allowance owner spender) (dec_u256 E) ''allowance''"

definition call_erc20_balance_of :: "env \<Rightarrow> string \<Rightarrow> address \<Rightarrow> address \<Rightarrow> u256 rmpc" where
  "call_erc20_balance_of E url token who = view_call E url token (Erc20BalanceOf who) (dec_u256 E) ''balanceOf''"

definition withdraw_vault_preflight :: "env \<Rightarrow> string \<Rightarrow> address \<Rightarrow> address \<Rightarrow> address \<Rightarrow> u256 \<Rightarrow> unit rmpc" where
  "withdraw_vault_preflight E url source_vault gateway agent shares =
     bindM (call_vault_paused E url source_vault) (\<lambda>is_paused.
     bindM (refuse_if is_paused ErrVaultPaused) (\<lambda>_.
     bindM (call_erc20_allowance E url source_vault agent gateway) (\<lambda>allow.
     bindM (refuse_if (allow < shares) ErrShareAllowanceInsufficient) (\<lambda>_.
     bindM (call_erc20_balance_of E url source_vault agent) (\<lambda>bal.
     refuse_if (bal < shares) ErrShareBalanceInsufficient)))))"

definition withdraw_vault_checks ::
    "env \<Rightarrow> WithdrawArgs \<Rightarrow> withdraw_ctx \<Rightarrow> SoftwareSigner \<Rightarrow> PreflightReport \<Rightarrow> unit cmd" where
  "withdraw_vault_checks E args c sg report =
     handleM (withdraw_vault_preflight E (rpc_url (x_cfg c)) (x_source_vault c) (x_gateway c) (signer_addr sg) (x_shares c)) (\<lambda>err.
       withdraw_refuse E args c sg (withdraw_audit E c sg) Refused (withdraw_error_name err) (display err) None
         (Some (from_report report)))"

definition withdraw_fees ::
    "env \<Rightarrow> WithdrawArgs \<Rightarrow> withdraw_ctx \<Rightarrow> SoftwareSigner \<Rightarrow> PreflightReport \<Rightarrow> FeeBid cmd" where
  "withdraw_fees E args c sg report =
     bindM (exit_on EXIT_STARTUP_FAIL (rpc_fee_history E (rpc_url (x_cfg c)) 5 ''latest'' [50])) (\<lambda>fh.
     case compute_fees fh (ucast (effective_max_fee_per_gas_cap (x_cfg c) (wa_fee_cap_wei args))) (priority_cap (x_cfg c)) of
       Inr b \<Rightarrow> retM b
     | Inl e \<Rightarrow> withdraw_refuse E args c sg (withdraw_audit E c sg) Refused (withdraw_error_name e) (display e) None
                 (Some (from_report report)))"

definition withdraw_tx :: "env \<Rightarrow> WithdrawArgs \<Rightarrow> withdraw_ctx \<Rightarrow> FeeBid \<Rightarrow> u64 \<Rightarrow> TxEip1559" where
  "withdraw_tx E args c fees nonce =
     build_eip1559
       \<lparr>in_chain_id = cfg_chain_id (x_cfg c), in_nonce = nonce, in_to = x_gateway c,
        in_gas_limit = wa_gas_limit args, in_fees = fees, in_value = 0,
        in_input = abi_encode E (GwWithdraw (x_order_id c) (x_shares c) (x_source_vault c) (x_deadline c)
          (x_idempotency_key c))\<rparr>"

definition withdraw_sign ::
    "env \<Rightarrow> WithdrawArgs \<Rightarrow> withdraw_ctx \<Rightarrow> SoftwareSigner \<Rightarrow> FeeBid \<Rightarrow> bytes cmd" where
  "withdraw_sign E args c sg fees =
     bindM (exit_on EXIT_STARTUP_FAIL (rpc_get_transaction_count E (rpc_url (x_cfg c)) (signer_addr sg) (Some ''pending''))) (\<lambda>nonce.
     let tx = withdraw_tx E args c fees nonce in
     bindM (or_exit EXIT_STARTUP_FAIL (sign_eip1559_hash E sg (signing_hash E tx))) (\<lambda>alloy_sig.
     retM (encode_signed E tx alloy_sig)))"

definition withdraw_broadcast ::
    "env \<Rightarrow> WithdrawArgs \<Rightarrow> withdraw_ctx \<Rightarrow> SoftwareSigner \<Rightarrow> PreflightReport \<Rightarrow> bytes \<Rightarrow> b256 cmd" where
  "withdraw_broadcast E args c sg report raw =
     handleM (broadcast E (rpc_url (x_cfg c)) raw) (\<lambda>e.
       withdraw_refuse E args c sg (withdraw_audit E c sg) BroadcastFailed (withdraw_error_name e) (display e) None
         (Some (from_report report)))"

definition withdraw_max_attempts :: "WithdrawArgs \<Rightarrow> nat" where
  "withdraw_max_attempts args = max (min (unat (wa_receipt_timeout_secs args)) (2 ^ 32 - 1)) 1"

definition withdraw_receipt ::
    "env \<Rightarrow> WithdrawArgs \<Rightarrow> withdraw_ctx \<Rightarrow> SoftwareSigner \<Rightarrow> AuditRecordBuilder \<Rightarrow> b256 \<Rightarrow> TransactionReceipt cmd" where
  "withdraw_receipt E args c sg audit h =
     bindM (handleM (wait_for_receipt_with E (rpc_url (x_cfg c)) h (withdraw_max_attempts args)) (\<lambda>e.
              withdraw_refuse E args c sg audit Refused (withdraw_error_name e) (display e) (Some (show_b256 E h)) None)) (\<lambda>receipt.
     if \<not> receipt_status receipt then
       withdraw_refuse E args c sg audit Reverted ''ErrTxReverted'' (display (ErrTxReverted (show_b256 E h)))
         (Some (show_b256 E h)) None
     else retM receipt)"

definition withdraw_output :: "env \<Rightarrow> AgentWithdrawal \<Rightarrow> TransactionReceipt \<Rightarrow> b256 \<Rightarrow> json" where
  "withdraw_output E d receipt h =
     JObj [(''status'', JStr ''success''),
           (''payment_id'', JStr (show_b256 E (wd_paymentId d))),
           (''order_id'', JStr (show_b256 E (wd_orderId d))),
           (''agent'', JStr (show_address E (wd_agent d))),
           (''asset_recipient'', JStr (show_address E (wd_assetRecipient d))),
           (''source_vault'', JStr (show_address E (wd_sourceVault d))),
           (''shares'', JStr (show_word (wd_shares d))),
           (''assets_out'', JStr (show_word (wd_assetsOut d))),
           (''block_number'', JU64 (case receipt_block_number receipt of Some b \<Rightarrow> b | None \<Rightarrow> 0)),
           (''tx_hash'', JStr (show_b256 E h)),
           (''gas_used'', JStr (show_word (receipt_gas_used receipt))),
           (''effective_gas_price'', JStr (show_word (receipt_effective_gas_price receipt)))]"

definition withdraw_event ::
    "env \<Rightarrow> WithdrawArgs \<Rightarrow> withdraw_ctx \<Rightarrow> SoftwareSigner \<Rightarrow> AuditRecordBuilder \<Rightarrow> b256 \<Rightarrow> TransactionReceipt \<Rightarrow> nat cmd" where
  "withdraw_event E args c sg audit h receipt =
     (case List.find (\<lambda>l. log_address l = x_gateway c \<and> log_topics l \<noteq> [] \<and> hd (log_topics l) = agent_withdrawal_topic E)
             (receipt_logs receipt) of
        None \<Rightarrow>
          withdraw_refuse E args c sg audit Refused ''ErrAgentWithdrawLogMissing''
            (display (ErrAgentWithdrawLogMissing (show_b256 E h))) (Some (show_b256 E h)) None
      | Some l \<Rightarrow>
          bindM (or_exit EXIT_STARTUP_FAIL (dec_agent_withdrawal E (log_topics l) (log_data l))) (\<lambda>decoded.
          bindM (record_audit (build (audit\<lparr>ab_payment_id := Some (show_b256 E (wd_paymentId decoded))\<rparr>) Signed None)) (\<lambda>_.
          bindM (emit (wa_pretty args) (withdraw_output E decoded receipt h)) (\<lambda>_.
          retM EXIT_OK))))"

definition withdraw_prepare ::
    "env \<Rightarrow> WithdrawArgs \<Rightarrow> withdraw_ctx \<Rightarrow> SoftwareSigner \<Rightarrow> (PreflightReport \<times> bytes) cmd" where
  "withdraw_prepare E args c sg =
     bindM (withdraw_preflight E args c sg) (\<lambda>report.
     bindM (withdraw_vault_checks E args c sg report) (\<lambda>_.
     bindM (withdraw_fees E args c sg report) (\<lambda>fees.
     bindM (withdraw_sign E args c sg fees) (\<lambda>raw.
     retM (report, raw)))))"

definition withdraw_settle ::
    "env \<Rightarrow> WithdrawArgs \<Rightarrow> withdraw_ctx \<Rightarrow> SoftwareSigner \<Rightarrow> b256 \<Rightarrow> nat cmd" where
  "withdraw_settle E args c sg h =
     (let audit = (withdraw_audit E c sg)\<lparr>ab_tx_hash := Some (show_b256 E h)\<rparr> in
      bindM (withdraw_receipt E args c sg audit h) (\<lambda>receipt.
      withdraw_event E args c sg audit h receipt))"

definition withdraw_locked ::
    "env \<Rightarrow> WithdrawArgs \<Rightarrow> withdraw_ctx \<Rightarrow> SoftwareSigner \<Rightarrow> nat cmd" where
  "withdraw_locked E args c sg =
     bindM (withdraw_prepare E args c sg) (\<lambda>(report, raw).
     bindM (withdraw_broadcast E args c sg report raw) (\<lambda>h.
     withdraw_settle E args c sg h))"

definition withdraw_body :: "env \<Rightarrow> WithdrawArgs \<Rightarrow> nat cmd" where
  "withdraw_body E args =
     bindM (withdraw_inputs E args) (\<lambda>c.
     bindM (withdraw_signer E args c) (\<lambda>sg.
     bindM (or_exit EXIT_STARTUP_FAIL (resolve_state_dir (env_vars E) (x_cfg c))) (\<lambda>dir.
     holding_lock E dir (signer_addr sg) (withdraw_lock_err E args c sg) (withdraw_locked E args c sg))))"

definition withdraw_run :: "env \<Rightarrow> WithdrawArgs \<Rightarrow> world \<Rightarrow> nat \<times> world" where
  "withdraw_run E args = finish (withdraw_body E args)"

section \<open>Effects of the phases\<close>

lemma withdraw_refuse_Inr [io_simps]: "\<not> withdraw_refuse E args c sg audit d err msg tx checks w = (Inr x, w')"
  by (simp add: withdraw_refuse_def withdraw_emit_refusal_def io_simps)

lemma withdraw_emit_refusal_Inr [io_simps]: "\<not> withdraw_emit_refusal args j w = (Inr x, w')"
  by (simp add: withdraw_emit_refusal_def io_simps)

lemma withdraw_emit_refusal_obeys [simp]:
  "obeys no_broadcast (withdraw_emit_refusal args j)" "obeys same_locks (withdraw_emit_refusal args j)"
  "obeys same_files (withdraw_emit_refusal args j)"
  unfolding withdraw_emit_refusal_def by (intro nb.obeys_intros sl.obeys_intros sf.obeys_intros; simp)+

lemma withdraw_refuse_obeys [simp]:
  "obeys no_broadcast (withdraw_refuse E args c sg audit d err msg tx checks)"
  "obeys same_locks (withdraw_refuse E args c sg audit d err msg tx checks)"
  "obeys same_files (withdraw_refuse E args c sg audit d err msg tx checks)"
  unfolding withdraw_refuse_def by (intro nb.obeys_intros sl.obeys_intros sf.obeys_intros; simp)+

lemma withdraw_lock_err_obeys [simp]:
  "obeys no_broadcast (withdraw_lock_err E args c sg e)" "obeys same_locks (withdraw_lock_err E args c sg e)"
  by (simp_all add: withdraw_lock_err_def split: RmpcError.split)

lemma withdraw_inputs_obeys [simp]:
  "obeys no_broadcast (withdraw_inputs E args)" "obeys same_locks (withdraw_inputs E args)"
  unfolding withdraw_inputs_def Let_def
  by (auto intro!: nb.obeys_bindM sl.obeys_bindM split: option.split)

lemma withdraw_signer_obeys [simp]:
  "obeys no_broadcast (withdraw_signer E args c)" "obeys same_locks (withdraw_signer E args c)"
  unfolding withdraw_signer_def Let_def
  by (auto intro!: nb.obeys_bindM sl.obeys_bindM split: option.split sum.split SignerError.split)

lemma withdraw_gateway_obeys [simp]:
  "obeys no_broadcast (run_withdraw_gateway E cfg i)" "obeys quiet (run_withdraw_gateway E cfg i)"
  "obeys same_files (run_withdraw_gateway E cfg i)" "obeys same_locks (run_withdraw_gateway E cfg i)"
  by (simp_all add: run_withdraw_gateway_def)

lemmas vault_view_defs = call_vault_paused_def call_erc20_allowance_def call_erc20_balance_of_def

lemma withdraw_vault_preflight_obeys [simp]:
  "obeys no_broadcast (withdraw_vault_preflight E url v g a s)" "obeys quiet (withdraw_vault_preflight E url v g a s)"
  "obeys same_files (withdraw_vault_preflight E url v g a s)" "obeys same_locks (withdraw_vault_preflight E url v g a s)"
  unfolding withdraw_vault_preflight_def vault_view_defs
  by (intro nb.obeys_intros qt.obeys_intros sf.obeys_intros sl.obeys_intros; simp)+

lemma withdraw_prepare_obeys [simp]:
  "obeys no_broadcast (withdraw_prepare E args c sg)" "obeys same_locks (withdraw_prepare E args c sg)"
  "obeys same_files (withdraw_prepare E args c sg)"
  unfolding withdraw_prepare_def withdraw_preflight_def withdraw_vault_checks_def withdraw_fees_def withdraw_sign_def
    Let_def rpc_wrappers
  by (auto intro!: nb.obeys_bindM sl.obeys_bindM sf.obeys_bindM nb.obeys_handleM sl.obeys_handleM sf.obeys_handleM split: sum.split)

lemma withdraw_broadcast_obeys [simp]: "obeys same_locks (withdraw_broadcast E args c sg report raw)"
  unfolding withdraw_broadcast_def by (auto intro!: sl.obeys_handleM)

lemma withdraw_settle_obeys [simp]:
  "obeys no_broadcast (withdraw_settle E args c sg h)" "obeys same_locks (withdraw_settle E args c sg h)"
  unfolding withdraw_settle_def withdraw_receipt_def withdraw_event_def Let_def
  by (auto intro!: nb.obeys_bindM sl.obeys_bindM nb.obeys_handleM sl.obeys_handleM split: option.split)

lemma withdraw_locked_obeys [simp]: "obeys same_locks (withdraw_locked E args c sg)"
  unfolding withdraw_locked_def by (auto intro!: sl.obeys_bindM split: prod.split)

section \<open>What a phase that succeeds has checked\<close>

lemma withdraw_inputs_Inr_D:
  "withdraw_inputs E args w = (Inr c, w') \<Longrightarrow> w' = w\<lparr>clock_reads := Suc (clock_reads w)\<rparr>"
  by (auto simp: withdraw_inputs_def Let_def io_simps split: option.splits)

lemma withdraw_signer_Inr_D:
  assumes "withdraw_signer E args c w = (Inr sg, w')"
  shows "w' = w \<and> require_production_grade_for_write (cfg_chain_id (x_cfg c)) Software = Inr () \<and> unlocked E (x_cfg c) sg"
  using assms
  by (auto simp: withdraw_signer_def Let_def io_simps unlocked_def split: option.splits sum.splits SignerError.splits)

lemma withdraw_reads_cong:
  "next_id w = next_id w' \<Longrightarrow> clock_reads w = clock_reads w' \<Longrightarrow>
     withdraw_reads E cfg i p w sn = withdraw_reads E cfg i p w' sn"
  by (simp add: withdraw_reads_def common_reads_def)

lemma run_withdraw_inner_next_id:
  assumes "run_withdraw_inner E cfg inputs w = (Inr rep, w')"
  shows "next_id w' = next_id w + 7"
proof -
  from assms obtain c gw us ag w1 where cc: "common_checks E cfg inputs w = (Inr (c, gw, us, ag), w1)"
    and n: "next_id w' = next_id w1 + 1"
    by (auto simp: run_withdraw_inner_def Let_def view_defs io_simps)
  from common_checks_Inr_D [OF cc] n show ?thesis by auto
qed

lemma withdraw_preflight_Inr_D:
  assumes "withdraw_preflight E args c sg w = (Inr report, w')"
  shows "next_id w' = 8 \<and>
    (\<exists>p sn. pinned E (x_cfg c) p \<and>
       withdraw_reads E (x_cfg c) \<lparr>signer_address = signer_addr sg, amount = x_shares c\<rparr> p (w\<lparr>next_id := 1\<rparr>) sn \<and>
       withdraw_admissible E p (x_shares c) sn)"
proof -
  from assms have pf: "run_withdraw_inner E (x_cfg c) \<lparr>signer_address = signer_addr sg, amount = x_shares c\<rparr> (w\<lparr>next_id := 1\<rparr>) = (Inr report, w')"
    by (auto simp: withdraw_preflight_def run_withdraw_gateway_def io_simps rpc_new_def)
  from run_withdraw_inner_D [OF pf] run_withdraw_inner_next_id [OF pf] show ?thesis by auto
qed

text \<open>The source vault is open and the agent's shares are approved and present.\<close>

definition vault_ready :: "env \<Rightarrow> string \<Rightarrow> address \<Rightarrow> address \<Rightarrow> address \<Rightarrow> u256 \<Rightarrow> u64 \<Rightarrow> bool" where
  "vault_ready E url v g a shares i \<longleftrightarrow>
     view_answer E url v VaultPaused (dec_bool E) i False \<and>
     (\<exists>allow. view_answer E url v (Erc20Allowance a g) (dec_u256 E) (i + 1) allow \<and> shares \<le> allow) \<and>
     (\<exists>bal. view_answer E url v (Erc20BalanceOf a) (dec_u256 E) (2 + i) bal \<and> shares \<le> bal)"

lemma withdraw_vault_checks_Inr_D:
  assumes "withdraw_vault_checks E args c sg report w = (Inr u, w')"
  shows "next_id w' = 3 + next_id w \<and>
    vault_ready E (rpc_url (x_cfg c)) (x_source_vault c) (x_gateway c) (signer_addr sg) (x_shares c) (next_id w)"
  using assms
  by (auto simp: withdraw_vault_checks_def withdraw_vault_preflight_def vault_view_defs vault_ready_def io_simps not_less)

lemma withdraw_fees_Inr_D:
  assumes "withdraw_fees E args c sg report w = (Inr fees, w')"
  shows "next_id w' = next_id w + 1 \<and>
    (\<exists>fh. answer E (rpc_url (x_cfg c)) ''eth_feeHistory'' [PStr (hex_tag 5), PStr ''latest'', PPercentiles [50]]
            (json_fee_history E) (next_id w) = Inr fh \<and>
       compute_fees fh (ucast (effective_max_fee_per_gas_cap (x_cfg c) (wa_fee_cap_wei args))) (priority_cap (x_cfg c)) = Inr fees)"
  using assms
  by (auto simp: withdraw_fees_def rpc_fee_history_def io_simps case_sum_run_iff)

lemma withdraw_sign_Inr_D:
  assumes "withdraw_sign E args c sg fees w = (Inr raw, w')"
  shows "next_id w' = next_id w + 1 \<and>
    (\<exists>nonce sig. answer E (rpc_url (x_cfg c)) ''eth_getTransactionCount'' [PAddress (signer_addr sg), PStr ''pending'']
            (json_u64 E) (next_id w) = Inr nonce \<and>
       sign_eip1559_hash E sg (signing_hash E (withdraw_tx E args c fees nonce)) = Inr sig \<and>
       raw = encode_signed E (withdraw_tx E args c fees nonce) sig)"
  using assms
  by (auto simp: withdraw_sign_def rpc_get_transaction_count_def tag_or_latest_def Let_def io_simps)

definition withdraw_cleared ::
    "env \<Rightarrow> WithdrawArgs \<Rightarrow> world \<Rightarrow> withdraw_ctx \<Rightarrow> SoftwareSigner \<Rightarrow> bytes \<Rightarrow> bool" where
  "withdraw_cleared E args w c sg raw \<longleftrightarrow>
    (\<exists>p sn. pinned E (x_cfg c) p \<and>
       withdraw_reads E (x_cfg c) \<lparr>signer_address = signer_addr sg, amount = x_shares c\<rparr> p (w\<lparr>next_id := 1\<rparr>) sn \<and>
       withdraw_admissible E p (x_shares c) sn) \<and>
    vault_ready E (rpc_url (x_cfg c)) (x_source_vault c) (x_gateway c) (signer_addr sg) (x_shares c) 8 \<and>
    (\<exists>fh fees nonce sig.
        answer E (rpc_url (x_cfg c)) ''eth_feeHistory'' [PStr (hex_tag 5), PStr ''latest'', PPercentiles [50]]
          (json_fee_history E) 11 = Inr fh \<and>
        compute_fees fh (ucast (effective_max_fee_per_gas_cap (x_cfg c) (wa_fee_cap_wei args))) (priority_cap (x_cfg c)) = Inr fees \<and>
        answer E (rpc_url (x_cfg c)) ''eth_getTransactionCount'' [PAddress (signer_addr sg), PStr ''pending''] (json_u64 E) 12 = Inr nonce \<and>
        sign_eip1559_hash E sg (signing_hash E (withdraw_tx E args c fees nonce)) = Inr sig \<and>
        raw = encode_signed E (withdraw_tx E args c fees nonce) sig)"

lemma withdraw_prepare_Inr_D:
  assumes "withdraw_prepare E args c sg w = (Inr (report, raw), w')"
  shows "next_id w' = 13 \<and> withdraw_cleared E args w c sg raw"
proof -
  from assms obtain w1 w2 w3 fees where
    pf: "withdraw_preflight E args c sg w = (Inr report, w1)" and
    vc: "withdraw_vault_checks E args c sg report w1 = (Inr (), w2)" and
    fe: "withdraw_fees E args c sg report w2 = (Inr fees, w3)" and
    sg: "withdraw_sign E args c sg fees w3 = (Inr raw, w')"
    unfolding withdraw_prepare_def by (auto simp: bindM_Inr_iff retM_iff)
  then show ?thesis
    using withdraw_preflight_Inr_D [OF pf] withdraw_vault_checks_Inr_D [OF vc] withdraw_fees_Inr_D [OF fe]
      withdraw_sign_Inr_D [OF sg]
    by (auto simp: withdraw_cleared_def)
qed

lemma withdraw_broadcast_sends:
  assumes "withdraw_broadcast E args c sg report raw w = (r, w')"
  shows "broadcasts w' = broadcasts w @ [request ''eth_sendRawTransaction'' [PBytes raw] (next_id w)]"
proof -
  let ?w1 = "w\<lparr>next_id := next_id w + 1, sent := sent w @ [request ''eth_sendRawTransaction'' [PBytes raw] (next_id w)]\<rparr>"
  have b: "broadcasts ?w1 = broadcasts w @ [request ''eth_sendRawTransaction'' [PBytes raw] (next_id w)]"
    by (simp add: broadcasts_def)
  obtain q where q: "broadcast E (rpc_url (x_cfg c)) raw w = (q, ?w1)"
    by (metis (no_types) broadcast_Inr_iff)
  show ?thesis
  proof (cases q)
    case (Inl e)
    have n: "obeys no_broadcast (withdraw_refuse E args c sg (withdraw_audit E c sg) BroadcastFailed (withdraw_error_name e)
        (display e) None (Some (from_report report)) :: b256 cmd)" by simp
    have "withdraw_refuse E args c sg (withdraw_audit E c sg) BroadcastFailed (withdraw_error_name e)
        (display e) None (Some (from_report report)) ?w1 = (r, w')"
      using assms q Inl by (simp add: withdraw_broadcast_def handleM_def)
    from nb.obeysD [OF n this] b show ?thesis by (simp add: no_broadcast_iff)
  next
    case (Inr h)
    then have "w' = ?w1" using assms q by (simp add: withdraw_broadcast_def handleM_def)
    then show ?thesis using b by simp
  qed
qed

lemma withdraw_locked_broadcasts:
  assumes "withdraw_locked E args c sg w = (r, w')"
  shows "broadcasts w' = broadcasts w \<or>
    (\<exists>raw. withdraw_cleared E args w c sg raw \<and>
       broadcasts w' = broadcasts w @ [request ''eth_sendRawTransaction'' [PBytes raw] 13])"
  using assms unfolding withdraw_locked_def
proof (cases rule: bindM_cases)
  case (failed e)
  then show ?thesis using nb.obeysD [OF withdraw_prepare_obeys(1)] by (auto simp: no_broadcast_iff)
next
  case (continued x w1)
  obtain report raw where x: "x = (report, raw)" by (cases x)
  have b1: "broadcasts w1 = broadcasts w"
    using nb.obeysD [OF withdraw_prepare_obeys(1) continued(1)] by (simp add: no_broadcast_iff)
  obtain rb w2 where b: "withdraw_broadcast E args c sg report raw w1 = (rb, w2)" by force
  have "broadcasts w' = broadcasts w2"
  proof (cases rb)
    case (Inl e)
    then show ?thesis using continued(2) x b by (simp add: bindM_def)
  next
    case (Inr h)
    then have "withdraw_settle E args c sg h w2 = (r, w')" using continued(2) x b by (simp add: bindM_def)
    then show ?thesis using nb.obeysD [OF withdraw_settle_obeys(1)] by (simp add: no_broadcast_iff)
  qed
  then show ?thesis
    using withdraw_broadcast_sends [OF b] b1 withdraw_prepare_Inr_D [of E args c sg w report raw w1] continued(1) x by auto
qed

lemma withdraw_body_cases:
  assumes "withdraw_body E args w = (r, w')"
  obtains (early) "no_broadcast w w'" "same_locks w w'"
  | (refused) c sg dir e w1 where "acquire E dir (signer_addr sg) (w\<lparr>clock_reads := Suc (clock_reads w)\<rparr>) = (Inl e, w1)"
      "withdraw_lock_err E args c sg e w1 = (r, w')"
  | (entered) c sg dir a w1 w2 where "fst (withdraw_inputs E args w) = Inr c"
      "require_production_grade_for_write (cfg_chain_id (x_cfg c)) Software = Inr ()" "unlocked E (x_cfg c) sg"
      "resolve_state_dir (env_vars E) (x_cfg c) = Inr dir"
      "acquire E dir (signer_addr sg) (w\<lparr>clock_reads := Suc (clock_reads w)\<rparr>) = (Inr a, w1)"
      "withdraw_locked E args c sg w1 = (r, w2)" "w' = drop_guard a w2"
  using assms unfolding withdraw_body_def
proof (cases rule: bindM_cases)
  case (failed e)
  then show thesis
    using nb.obeysD [OF withdraw_inputs_obeys(1)] sl.obeysD [OF withdraw_inputs_obeys(2)] early by auto
next
  case inp: (continued c w0)
  have w0: "w0 = w\<lparr>clock_reads := Suc (clock_reads w)\<rparr>" using withdraw_inputs_Inr_D [OF inp(1)] .
  have early0: "no_broadcast w0 w' \<Longrightarrow> same_locks w0 w' \<Longrightarrow> thesis"
    using early w0 by (simp add: no_broadcast_def same_locks_def)
  from inp(2) show thesis
  proof (cases rule: bindM_cases)
    case (failed e)
    then show thesis
      using nb.obeysD [OF withdraw_signer_obeys(1)] sl.obeysD [OF withdraw_signer_obeys(2)] early0 by auto
  next
    case sgn: (continued sg w1)
    from sgn(2) show thesis
    proof (cases rule: bindM_cases)
      case (failed e)
      then show thesis
        using withdraw_signer_Inr_D [OF sgn(1)] early0 by (auto simp: io_simps no_broadcast_def same_locks_def)
    next
      case dir: (continued d w2)
      then have d: "resolve_state_dir (env_vars E) (x_cfg c) = Inr d" "w2 = w0"
        using withdraw_signer_Inr_D [OF sgn(1)] by (auto simp: io_simps)
      from dir(2) show thesis
        by (cases rule: holding_lock_cases)
           (use refused entered inp(1) withdraw_signer_Inr_D [OF sgn(1)] d w0 in \<open>auto\<close>)
    qed
  qed
qed

section \<open>Reporting\<close>

lemma reports_withdraw_emit_refusal [simp]:
  "reports F (withdraw_emit_refusal args (failure_json err msg agent order tx checks))"
  by (fastforce simp: reports_def withdraw_emit_refusal_def added_def fail_report_def bindM_def emit_def modifyM_def failM_def)

lemma reports_withdraw_refuse [simp]:
  "d \<noteq> Signed \<Longrightarrow> reports F (withdraw_refuse E args c sg audit d err msg tx checks)"
  by (fastforce simp: reports_def withdraw_refuse_def withdraw_emit_refusal_def record_audit_def added_def fail_report_def
      build_def bindM_def emit_def modifyM_def failM_def)

lemma phase_withdraw_inputs: "phase (withdraw_inputs E args)"
  unfolding withdraw_inputs_def Let_def by (auto intro!: reports_bindM split: option.split)

lemma phase_withdraw_signer: "phase (withdraw_signer E args c)"
  unfolding withdraw_signer_def Let_def
  by (auto intro!: reports_bindM split: option.split sum.split SignerError.split)

lemma reports_withdraw_lock_err: "reports F (withdraw_lock_err E args c sg e)"
  by (simp add: withdraw_lock_err_def split: RmpcError.split)

lemma phase_withdraw_prepare: "phase (withdraw_prepare E args c sg)"
  unfolding withdraw_prepare_def withdraw_preflight_def withdraw_vault_checks_def withdraw_fees_def withdraw_sign_def Let_def
    rpc_wrappers
  by (auto intro!: reports_bindM phase_exit_on phase_handleM split: option.split sum.split)

lemma phase_withdraw_broadcast: "phase (withdraw_broadcast E args c sg report raw)"
  unfolding withdraw_broadcast_def by (auto intro!: phase_handleM)

lemma phase_withdraw_receipt: "phase (withdraw_receipt E args c sg audit h)"
  unfolding withdraw_receipt_def by (auto intro!: reports_bindM phase_handleM)

lemma reports_withdraw_event:
  assumes "ab_tx_hash audit \<noteq> None"
  shows "reports (success_report (wa_pretty args)) (withdraw_event E args c sg audit h receipt)"
proof -
  have "reports (success_report (wa_pretty args))
      (bindM (record_audit (build (audit\<lparr>ab_payment_id := Some (show_b256 E (wd_paymentId d))\<rparr>) Signed None)) (\<lambda>_.
       bindM (emit (wa_pretty args) (withdraw_output E d receipt h)) (\<lambda>_. retM EXIT_OK)))" for d
    using assms
    by (auto simp: reports_def record_audit_def added_def success_report_def build_def bindM_def emit_def modifyM_def
        retM_def withdraw_output_def json_get_def)
  then show ?thesis
    unfolding withdraw_event_def
    by (cases "List.find (\<lambda>l. log_address l = x_gateway c \<and> log_topics l \<noteq> [] \<and> hd (log_topics l) = agent_withdrawal_topic E)
          (receipt_logs receipt)")
       (simp_all add: reports_bindM)
qed

lemma reports_withdraw_body: "reports (success_report (wa_pretty args)) (withdraw_body E args)"
  unfolding withdraw_body_def withdraw_locked_def withdraw_settle_def Let_def
  by (intro reports_bindM phase_withdraw_inputs phase_withdraw_signer phase_or_exit reports_holding_lock
        reports_withdraw_lock_err)
     (auto intro!: reports_bindM phase_withdraw_prepare phase_withdraw_broadcast phase_withdraw_receipt
        reports_withdraw_event split: prod.split)

section \<open>Properties\<close>

text \<open>
  C21. A withdrawal broadcasts at most one transaction, and only one that was cleared: the inputs
  parsed, the signer is allowed and unlocked, the kernel granted the agent's lock (so no other guard held it,
  if the kernel refuses locked files), the answers
  of the node satisfy the withdrawal policy (the withdrawal caps) for exactly these shares, the
  source vault is not paused and holds enough approved shares of the agent, the fee bid respects
  both caps, and the bytes sent are the signed gateway call with these values, as request 13.
\<close>

theorem withdraw_broadcast_guarded:
  "case withdraw_run E args w of (code, w') \<Rightarrow>
     broadcasts w' = broadcasts w \<or>
     (\<exists>c sg dir raw.
        fst (withdraw_inputs E args w) = Inr c \<and>
        require_production_grade_for_write (cfg_chain_id (x_cfg c)) Software = Inr () \<and>
        unlocked E (x_cfg c) sg \<and> resolve_state_dir (env_vars E) (x_cfg c) = Inr dir \<and>
        lock_was_free E w (lock_path E dir (signer_addr sg)) \<and>
        withdraw_cleared E args (w\<lparr>clock_reads := Suc (clock_reads w)\<rparr>) c sg raw \<and>
        broadcasts w' = broadcasts w @ [request ''eth_sendRawTransaction'' [PBytes raw] 13])"
proof -
  obtain r w' where run: "withdraw_body E args w = (r, w')" by force
  let ?w0 = "w\<lparr>clock_reads := Suc (clock_reads w)\<rparr>"
  from run show ?thesis
  proof (cases rule: withdraw_body_cases)
    case early
    then show ?thesis by (cases r) (simp_all add: withdraw_run_def finish_def run no_broadcast_iff)
  next
    case (refused c sg dir e w1)
    then have "broadcasts w' = broadcasts w"
      using nb.obeysD [OF withdraw_lock_err_obeys(1)] nb.obeysD [OF acquire_obeys(1)]
      by (auto simp: no_broadcast_iff broadcasts_def)
    then show ?thesis by (cases r) (simp_all add: withdraw_run_def finish_def run)
  next
    case (entered c sg dir a w1 w2)
    note fr = acquire_frame [OF entered(5)] and free = acquire_Inr_D(2) [OF entered(5)]
    have reads: "withdraw_cleared E args w1 c sg raw = withdraw_cleared E args ?w0 c sg raw" for raw
      using fr withdraw_reads_cong [of "w1\<lparr>next_id := 1\<rparr>" "?w0\<lparr>next_id := 1\<rparr>"] by (simp add: withdraw_cleared_def)
    have b: "broadcasts w1 = broadcasts w" "broadcasts w' = broadcasts w2"
      using nb.obeysD [OF acquire_obeys(1) entered(5)] entered(7) by (simp_all add: no_broadcast_iff broadcasts_def drop_guard_def)
    from withdraw_locked_broadcasts [OF entered(6)] entered(1-4) free b reads show ?thesis
      by (cases r) (auto simp: withdraw_run_def finish_def run)
  qed
qed

text \<open>
  The withdrawal releases the agent's lock on every path, and reports like a deposit: one signed
  record and one success document with exit code 0, one refusal document and at most one unsigned
  record with code 2, nothing with code 3.
\<close>

theorem withdraw_reports_and_releases:
  "case withdraw_run E args w of (code, w') \<Rightarrow>
     locks w' = locks w \<and>
     (\<exists>a s. added w w' a s \<and> (fail_report code a s \<or> success_report (wa_pretty args) code a s))"
proof -
  obtain r w' where run: "withdraw_body E args w = (r, w')" by force
  from run have "locks w' = locks w"
  proof (cases rule: withdraw_body_cases)
    case early
    then show ?thesis by (simp add: same_locks_def)
  next
    case (refused c sg dir e w1)
    then show ?thesis
      using sl.obeysD [OF withdraw_lock_err_obeys(2)] acquire_Inl_locks by (fastforce simp: same_locks_def)
  next
    case (entered c sg dir a w1 w2)
    then show ?thesis
      using sl.obeysD [OF withdraw_locked_obeys] acquire_Inr_D(3) [OF entered(5)] by (simp add: same_locks_def drop_guard_def)
  qed
  with reportsD [OF reports_withdraw_body run] show ?thesis
    by (cases r) (auto simp: withdraw_run_def finish_def run)
qed

end
