(* ===== verification/Read_Output.thy ===== *)
theory Read_Output
  imports Command Demo_Env
begin

text \<open>
  The output contract of the read commands (\<open>read_output.rs\<close>): the shared envelope, the builder
  that collects the failures of the sub-reads, and the decimal newtypes. The second part has what
  the command files repeat: the typed view calls at a pinned block, the match on a sub-read's
  result, and the start of a command (configuration, addresses, runtime, RPC client). The lemmas
  give the disciplines every read command obeys: it changes nothing but the request list, and,
  once a block is pinned, it asks only about that block.
\<close>

section \<open>The envelope\<close>

datatype Source = JsonRpc

fun source_as_str :: "Source \<Rightarrow> string" where
  "source_as_str JsonRpc = ''json_rpc''"

record FieldError =
  fe_field :: string
  fe_message :: string

record 'd Envelope =
  en_chain_id :: u64
  en_block_number :: u64
  en_source :: Source
  en_network_env :: NetworkEnv
  en_partial :: bool
  en_errors :: "FieldError list"
  en_data :: 'd

record 'd PartialBuilder =
  pb_chain_id :: u64
  pb_block_number :: u64
  pb_errors :: "FieldError list"
  pb_data :: 'd

definition builder_new :: "u64 \<Rightarrow> u64 \<Rightarrow> 'd \<Rightarrow> 'd PartialBuilder" where
  "builder_new chain_id block_number data =
     \<lparr>pb_chain_id = chain_id, pb_block_number = block_number, pb_errors = [], pb_data = data\<rparr>"

definition data_mut :: "('d \<Rightarrow> 'd) \<Rightarrow> 'd PartialBuilder \<Rightarrow> 'd PartialBuilder" where
  "data_mut f b = b\<lparr>pb_data := f (pb_data b)\<rparr>"

definition record_err :: "string \<Rightarrow> string \<Rightarrow> 'd PartialBuilder \<Rightarrow> 'd PartialBuilder" where
  "record_err field message b =
     b\<lparr>pb_errors := pb_errors b @ [\<lparr>fe_field = field, fe_message = message\<rparr>]\<rparr>"

definition builder_finish :: "'d PartialBuilder \<Rightarrow> 'd Envelope" where
  "builder_finish b =
     \<lparr>en_chain_id = pb_chain_id b, en_block_number = pb_block_number b, en_source = JsonRpc,
      en_network_env = from_chain_id (pb_chain_id b), en_partial = (pb_errors b \<noteq> []),
      en_errors = pb_errors b, en_data = pb_data b\<rparr>"

datatype DecimalU256 = DecimalU256 u256

datatype DecimalU128 = DecimalU128 u128

fun decimal_u256_json :: "DecimalU256 \<Rightarrow> json" where
  "decimal_u256_json (DecimalU256 v) = JStr (show_word v)"

fun decimal_u128_json :: "DecimalU128 \<Rightarrow> json" where
  "decimal_u128_json (DecimalU128 v) = JStr (show_word v)"

definition field_error_json :: "FieldError \<Rightarrow> json" where
  "field_error_json e = JObj [(''field'', JStr (fe_field e)), (''message'', JStr (fe_message e))]"

definition envelope_json :: "('d \<Rightarrow> json) \<Rightarrow> 'd Envelope \<Rightarrow> json" where
  "envelope_json f e =
     JObj [(''chain_id'', JU64 (en_chain_id e)),
           (''block_number'', JU64 (en_block_number e)),
           (''source'', JStr (source_as_str (en_source e))),
           (''network_env'', JStr (as_str (en_network_env e))),
           (''partial'', JBool (en_partial e)),
           (''errors'', JArr (map field_error_json (en_errors e))),
           (''data'', f (en_data e))]"

section \<open>What the command files share\<close>

text \<open>A sub-read: its failure is the text for the error list.\<close>

type_synonym 'a sub = "(world, string, 'a) io"

definition with_msg :: "('e \<Rightarrow> string) \<Rightarrow> (world, 'e, 'a) io \<Rightarrow> 'a sub" where
  "with_msg f m = handleM m (\<lambda>e. failM (f e))"

text \<open>A call whose failure is kept as a value (\<open>match call.await { Ok(x) => \<dots>, Err(e) => \<dots> }\<close>).\<close>

definition attempt :: "(world, 'e, 'a) io \<Rightarrow> (world, 'f, 'e + 'a) io" where
  "attempt m = handleM (bindM m (\<lambda>x. retM (Inr x))) (\<lambda>e. retM (Inl e))"

text \<open>\<open>Ok(x) => *b.data_mut() = \<dots>, Err(e) => b.record_err(field, e)\<close>\<close>

definition note_result :: "string \<Rightarrow> ('a \<Rightarrow> 'd \<Rightarrow> 'd) \<Rightarrow> string + 'a \<Rightarrow> 'd PartialBuilder \<Rightarrow> 'd PartialBuilder" where
  "note_result field upd r b = (case r of Inr x \<Rightarrow> data_mut (upd x) b | Inl e \<Rightarrow> record_err field e b)"

definition sub_read :: "string \<Rightarrow> 'a sub \<Rightarrow> ('a \<Rightarrow> 'd \<Rightarrow> 'd) \<Rightarrow> 'd PartialBuilder \<Rightarrow> (world, 'e, 'd PartialBuilder) io" where
  "sub_read field m upd b =
     bindM (attempt m) (\<lambda>r. retM (note_result field upd r b))"

text \<open>The same, where the value is used afterwards (\<open>Some(v)\<close> and \<open>None\<close> arms).\<close>

definition sub_read_value ::
    "string \<Rightarrow> 'a sub \<Rightarrow> ('a \<Rightarrow> 'd \<Rightarrow> 'd) \<Rightarrow> 'd PartialBuilder \<Rightarrow> (world, 'e, 'a option \<times> 'd PartialBuilder) io" where
  "sub_read_value field m upd b =
     bindM (attempt m) (\<lambda>r.
     retM (case r of Inr x \<Rightarrow> Some x | Inl e \<Rightarrow> None, note_result field upd r b))"

text \<open>Encode, \<open>eth_call\<close>, decode; the two spellings of the errors in the command files.\<close>

definition view_request :: "env \<Rightarrow> address \<Rightarrow> sol_call \<Rightarrow> CallRequest" where
  "view_request E to call = \<lparr>call_to = to, call_from = None, call_data = abi_encode E call\<rparr>"

definition view_at ::
    "env \<Rightarrow> string \<Rightarrow> address \<Rightarrow> string \<Rightarrow> sol_call \<Rightarrow> (bytes \<Rightarrow> string + 'a) \<Rightarrow> 'a sub" where
  "view_at E url to block_tag call dec =
     bindM (with_msg (\<lambda>e. ''eth_call failed: '' @ display e)
              (rpc_eth_call E url (view_request E to call) (Some block_tag))) (\<lambda>out.
     liftR (map_err (\<lambda>e. ''abi decode: '' @ e) (dec out)))"

definition labelled_view ::
    "env \<Rightarrow> string \<Rightarrow> address \<Rightarrow> string option \<Rightarrow> sol_call \<Rightarrow> (bytes \<Rightarrow> string + 'a) \<Rightarrow> string \<Rightarrow> 'a rmpc" where
  "labelled_view E url to block_tag call dec label =
     bindM (rpc_eth_call E url (view_request E to call) block_tag) (\<lambda>out.
     liftR (map_err (\<lambda>e. ErrRpcDecode (label @ e)) (dec out)))"

text \<open>\<open>saturating_to::<u64>\<close>\<close>

definition saturating_to_u64 :: "u256 \<Rightarrow> u64" where
  "saturating_to_u64 v = (if unat v < 2 ^ 64 then ucast v else - 1)"

text \<open>The start of a command.\<close>

definition EXIT_INPUT_FAIL :: nat where "EXIT_INPUT_FAIL = 2"
definition EXIT_NOT_FOUND :: nat where "EXIT_NOT_FOUND = 4"

definition load_config :: "env \<Rightarrow> string \<Rightarrow> Config cmd" where
  "load_config E config_path = or_exit EXIT_STARTUP_FAIL (from_path E config_path)"

definition parse_address :: "env \<Rightarrow> nat \<Rightarrow> string \<Rightarrow> address cmd" where
  "parse_address E code s = or_exit code (address_from_str E s)"

definition parse_optional_address :: "env \<Rightarrow> string option \<Rightarrow> address cmd" where
  "parse_optional_address E s =
     (case s of Some a \<Rightarrow> parse_address E EXIT_STARTUP_FAIL a | None \<Rightarrow> failM EXIT_STARTUP_FAIL)"

definition parse_hash :: "env \<Rightarrow> string \<Rightarrow> b256 cmd" where
  "parse_hash E s = or_exit EXIT_INPUT_FAIL (b256_from_str E s)"

definition open_rpc :: "env \<Rightarrow> Config \<Rightarrow> unit cmd" where
  "open_rpc E cfg =
     bindM (or_exit EXIT_STARTUP_FAIL (runtime_build E)) (\<lambda>_.
     exit_on EXIT_STARTUP_FAIL (rpc_new E (rpc_url cfg)))"

text \<open>The end of a command: print the envelope and return 0.\<close>

definition emit_envelope :: "('d \<Rightarrow> json) \<Rightarrow> bool \<Rightarrow> 'd Envelope \<Rightarrow> nat cmd" where
  "emit_envelope f pretty e = bindM (emit pretty (envelope_json f e)) (\<lambda>_. retM EXIT_OK)"

text \<open>The two header reads; a multi-read command pins the block it was told.\<close>

definition pinned_block :: "env \<Rightarrow> string \<Rightarrow> (u64 \<times> u64) rmpc" where
  "pinned_block E url =
     bindM (rpc_chain_id E url) (\<lambda>chain_id.
     bindM (rpc_block_number E url) (\<lambda>block_number.
     retM (chain_id, block_number)))"

section \<open>Lemmas\<close>

lemma attempt_iff [io_simps]: "attempt m w = (Inr r, w') \<longleftrightarrow> m w = (r, w')"
  by (cases r) (auto simp: attempt_def io_simps)

lemma attempt_total [io_simps]: "\<not> attempt m w = (Inl e, w')"
  by (auto simp: attempt_def io_simps)

lemma attempt_eval: "attempt m w = (case m w of (r, w') \<Rightarrow> (Inr r, w'))"
  by (auto simp: attempt_def io_eval split: prod.split sum.split)

lemma with_msg_Inr_iff [io_simps]: "with_msg f m w = (Inr x, w') \<longleftrightarrow> m w = (Inr x, w')"
  by (auto simp: with_msg_def io_simps)

lemma with_msg_Inl_iff [io_simps]: "with_msg f m w = (Inl s, w') \<longleftrightarrow> (\<exists>e. m w = (Inl e, w') \<and> s = f e)"
  by (auto simp: with_msg_def io_simps)

lemma sub_read_eval:
  "sub_read field m upd b w =
     (case m w of (Inr x, w') \<Rightarrow> (Inr (data_mut (upd x) b), w') | (Inl e, w') \<Rightarrow> (Inr (record_err field e b), w'))"
  by (auto simp: sub_read_def note_result_def attempt_eval io_eval split: prod.split sum.split)

lemma sub_read_value_eval:
  "sub_read_value field m upd b w =
     (case m w of (Inr x, w') \<Rightarrow> (Inr (Some x, data_mut (upd x) b), w')
                | (Inl e, w') \<Rightarrow> (Inr (None, record_err field e b), w'))"
  by (auto simp: sub_read_value_def note_result_def attempt_eval io_eval split: prod.split sum.split)

lemma builder_simps [simp]:
  "pb_chain_id (builder_new c n d) = c" "pb_block_number (builder_new c n d) = n"
  "pb_errors (builder_new c n d) = []" "pb_data (builder_new c n d) = d"
  "pb_chain_id (data_mut f b) = pb_chain_id b" "pb_block_number (data_mut f b) = pb_block_number b"
  "pb_errors (data_mut f b) = pb_errors b" "pb_data (data_mut f b) = f (pb_data b)"
  "pb_chain_id (record_err s t b) = pb_chain_id b" "pb_block_number (record_err s t b) = pb_block_number b"
  "pb_errors (record_err s t b) = pb_errors b @ [\<lparr>fe_field = s, fe_message = t\<rparr>]"
  "pb_data (record_err s t b) = pb_data b"
  by (simp_all add: builder_new_def data_mut_def record_err_def)

lemma finish_simps [simp]:
  "en_chain_id (builder_finish b) = pb_chain_id b" "en_block_number (builder_finish b) = pb_block_number b"
  "en_source (builder_finish b) = JsonRpc" "en_network_env (builder_finish b) = from_chain_id (pb_chain_id b)"
  "en_partial (builder_finish b) = (pb_errors b \<noteq> [])" "en_errors (builder_finish b) = pb_errors b"
  "en_data (builder_finish b) = pb_data b"
  by (simp_all add: builder_finish_def)

lemma unat_saturating_to_u64: "unat (saturating_to_u64 v) = min (unat v) (2 ^ 64 - 1)"
proof (cases "unat v < 2 ^ 64")
  case True
  then show ?thesis by (simp add: saturating_to_u64_def unsigned_ucast_eq take_bit_nat_eq_self)
next
  case False
  then show ?thesis by (simp add: saturating_to_u64_def unat_max)
qed

section \<open>Disciplines\<close>

text \<open>
  \<open>asks P\<close>: the step changes nothing but the request counter and the request list, and every
  request it adds satisfies \<open>P\<close>.
\<close>

definition asks :: "(JsonRpcRequest \<Rightarrow> bool) \<Rightarrow> world \<Rightarrow> world \<Rightarrow> bool" where
  "asks P w w' \<longleftrightarrow> (\<exists>i rs. w' = w\<lparr>next_id := i, sent := sent w @ rs\<rparr> \<and> list_all P rs)"

lemma asksI: "list_all P rs \<Longrightarrow> w' = w\<lparr>next_id := i, sent := sent w @ rs\<rparr> \<Longrightarrow> asks P w w'"
  unfolding asks_def by (rule exI, rule exI, rule conjI)

lemma asksE:
  assumes "asks P w w'"
  obtains i rs where "list_all P rs" "w' = w\<lparr>next_id := i, sent := sent w @ rs\<rparr>"
  using assms unfolding asks_def by (elim exE conjE)

lemma asks_refl: "asks P w w"
  by (rule asksI [of _ "[]" _ _ "next_id w"]) simp_all

lemma asks_trans:
  assumes "asks P u v" "asks P v w"
  shows "asks P u w"
proof -
  obtain i rs where 1: "list_all P rs" "v = u\<lparr>next_id := i, sent := sent u @ rs\<rparr>" using assms(1) by (rule asksE)
  obtain j qs where 2: "list_all P qs" "w = v\<lparr>next_id := j, sent := sent v @ qs\<rparr>" using assms(2) by (rule asksE)
  show ?thesis by (rule asksI [of _ "rs @ qs" _ _ j]) (simp_all add: 1 2)
qed

interpretation ak: effect_discipline "asks P" for P
  by unfold_locales (fact asks_refl, rule asks_trans)

lemma asks_mono: "asks P w w' \<Longrightarrow> (\<And>r. P r \<Longrightarrow> Q r) \<Longrightarrow> asks Q w w'"
  by (erule asksE, erule asksI [rotated]) (auto simp: list_all_iff)

lemma obeys_asks_mono: "obeys (asks P) m \<Longrightarrow> (\<And>r. P r \<Longrightarrow> Q r) \<Longrightarrow> obeys (asks Q) m"
  unfolding obeys_def by (blast intro: asks_mono)

lemma asks_keeps:
  assumes "asks P w w'"
  shows "stdout w' = stdout w" "audit_log w' = audit_log w" "files w' = files w" "locks w' = locks w"
    "clock_reads w' = clock_reads w" "io_count w' = io_count w"
  using assms by (auto elim: asksE)

text \<open>A request about the state at a given block tag, and one that is no broadcast.\<close>

definition reading :: "JsonRpcRequest \<Rightarrow> bool" where
  "reading r \<longleftrightarrow> \<not> is_broadcast r"

definition asks_at :: "string \<Rightarrow> JsonRpcRequest \<Rightarrow> bool" where
  "asks_at tag r \<longleftrightarrow> reading r \<and>
     (case rpc_params r of
        [PCall c, PStr t] \<Rightarrow> t = tag
      | [PAddress a, PStr t] \<Rightarrow> t = tag
      | [PStr t, PBool full] \<Rightarrow> t = tag
      | [PFilter f] \<Rightarrow> flt_to_block f = tag
      | _ \<Rightarrow> False)"

lemma asks_at_reading: "asks_at tag r \<Longrightarrow> reading r"
  by (simp add: asks_at_def)

lemma obeys_reading: "obeys (asks (asks_at tag)) m \<Longrightarrow> obeys (asks reading) m"
  by (erule obeys_asks_mono) (rule asks_at_reading)

lemma rpc_call_asks: "(\<And>i. P (request method params i)) \<Longrightarrow> obeys (asks P) (rpc_call E url method params dec)"
  unfolding obeys_def rpc_call_eval snd_conv by (intro allI asksI) (auto intro!: refl)

lemma reading_request [simp]: "reading (request method params i) \<longleftrightarrow> method \<noteq> ''eth_sendRawTransaction''"
  by (simp add: reading_def)

lemma asks_at_request [simp]:
  "asks_at tag (request method [PCall c, PStr t] i) \<longleftrightarrow> method \<noteq> ''eth_sendRawTransaction'' \<and> t = tag"
  "asks_at tag (request method [PAddress a, PStr t] i) \<longleftrightarrow> method \<noteq> ''eth_sendRawTransaction'' \<and> t = tag"
  "asks_at tag (request method [PStr t, PBool b] i) \<longleftrightarrow> method \<noteq> ''eth_sendRawTransaction'' \<and> t = tag"
  "asks_at tag (request method [PFilter f] i) \<longleftrightarrow> method \<noteq> ''eth_sendRawTransaction'' \<and> flt_to_block f = tag"
  by (auto simp: asks_at_def request_def reading_def is_broadcast_def)

lemma rpc_asks [simp]:
  "obeys (asks reading) (rpc_chain_id E url)" "obeys (asks reading) (rpc_block_number E url)"
  "obeys (asks reading) (rpc_eth_call E url c t)" "obeys (asks reading) (rpc_get_logs E url flt)"
  "obeys (asks reading) (rpc_get_transaction_receipt E url h)"
  unfolding rpc_wrappers by (rule rpc_call_asks; simp)+

lemma rpc_asks_at [simp]:
  "obeys (asks (asks_at tag)) (rpc_eth_call E url c (Some tag))"
  "obeys (asks (asks_at tag)) (rpc_get_code E url a (Some tag))"
  "flt_to_block flt = tag \<Longrightarrow> obeys (asks (asks_at tag)) (rpc_get_logs E url flt)"
  unfolding rpc_wrappers tag_or_latest_def by (rule rpc_call_asks; simp)+

lemma block_timestamp_asks_at [simp]: "obeys (asks (asks_at (hex_tag n))) (rpc_block_timestamp E url n)"
  unfolding rpc_block_timestamp_def
  by (intro ak.obeys_bindM rpc_call_asks) (auto split: option.split json.split)

lemma with_msg_asks [intro, simp]: "obeys (asks P) m \<Longrightarrow> obeys (asks P) (with_msg f m)"
  by (auto simp: with_msg_def)

lemma attempt_asks [intro, simp]: "obeys (asks P) m \<Longrightarrow> obeys (asks P) (attempt m)"
  by (auto simp: attempt_def)

lemma sub_read_asks [intro, simp]:
  "obeys (asks P) m \<Longrightarrow> obeys (asks P) (sub_read f m u b)"
  "obeys (asks P) m \<Longrightarrow> obeys (asks P) (sub_read_value f m u b)"
  by (auto simp: sub_read_def sub_read_value_def)

lemma view_asks_at [simp]:
  "obeys (asks (asks_at tag)) (view_at E url to tag call dec)"
  "obeys (asks (asks_at tag)) (labelled_view E url to (Some tag) call dec label)"
  by (auto simp: view_at_def labelled_view_def)

lemma labelled_view_asks [simp]: "obeys (asks reading) (labelled_view E url to t call dec label)"
  by (auto simp: labelled_view_def)

lemma or_exit_asks [simp]: "obeys (asks P) (or_exit c r)"
  by (simp add: or_exit_def)

lemma exit_on_asks [intro, simp]: "obeys (asks P) m \<Longrightarrow> obeys (asks P) (exit_on c m)"
  by (auto simp: exit_on_def)

lemma rpc_new_asks [simp]: "obeys (asks P) (rpc_new E url)"
proof -
  have "asks P w (w\<lparr>next_id := 1\<rparr>)" for w :: world
    by (rule asksI [of _ "[]" _ _ 1]) simp_all
  then show ?thesis unfolding rpc_new_def by (intro ak.obeys_intros ak.obeys_modifyM)
qed

lemma start_asks [simp]:
  "obeys (asks P) (load_config E p)" "obeys (asks P) (parse_address E c s)"
  "obeys (asks P) (parse_optional_address E t)" "obeys (asks P) (parse_hash E s)" "obeys (asks P) (open_rpc E cfg)"
  by (auto simp: load_config_def parse_address_def parse_optional_address_def parse_hash_def open_rpc_def
      split: option.split)

section \<open>The contract of a read command\<close>

text \<open>Every number of the document is an unsigned 64-bit integer: no token amount is printed as a number.\<close>

fun u64_numbers :: "json \<Rightarrow> bool" where
  "u64_numbers (JNum n) = (0 \<le> n \<and> n < 2 ^ 64)"
| "u64_numbers (JArr js) = list_all u64_numbers js"
| "u64_numbers (JObj kvs) = list_all (\<lambda>kv. u64_numbers (snd kv)) kvs"
| "u64_numbers _ = True"

text \<open>
  The document on standard output: the header for chain \<open>c\<close> and block \<open>n\<close>, the partial flag equal to
  the presence of field errors, each field error an object of two strings.
\<close>

definition envelope_doc :: "u64 \<Rightarrow> u64 \<Rightarrow> json \<Rightarrow> bool" where
  "envelope_doc c n j \<longleftrightarrow>
     (\<exists>errs d.
        j = JObj [(''chain_id'', JU64 c), (''block_number'', JU64 n), (''source'', JStr ''json_rpc''),
                  (''network_env'', JStr (as_str (from_chain_id c))), (''partial'', JBool (errs \<noteq> [])),
                  (''errors'', JArr (map field_error_json errs)), (''data'', d)] \<and>
        u64_numbers j)"

definition failure_code :: "nat \<Rightarrow> bool" where
  "failure_code c \<longleftrightarrow> c \<in> {EXIT_INPUT_FAIL, EXIT_STARTUP_FAIL, EXIT_NOT_FOUND}"

text \<open>A step before the output: it only asks the node, and fails with one of the failure codes.\<close>

definition setup_step :: "'a cmd \<Rightarrow> bool" where
  "setup_step m \<longleftrightarrow> obeys (asks reading) m \<and> (\<forall>w c w'. m w = (Inl c, w') \<longrightarrow> failure_code c)"

definition read_contract :: "bool \<Rightarrow> nat cmd \<Rightarrow> bool" where
  "read_contract pretty m \<longleftrightarrow>
     (\<forall>w. case m w of
        (Inl c, w') \<Rightarrow> failure_code c \<and> asks reading w w'
      | (Inr c, w') \<Rightarrow> c = EXIT_OK \<and>
          (\<exists>w1 ch n j. asks reading w w1 \<and> envelope_doc ch n j \<and> w' = w1\<lparr>stdout := stdout w1 @ [(pretty, j)]\<rparr>))"

lemma u64_number_word [simp]:
  "uint (v :: u64) < 18446744073709551616" "uint (k :: u16) < 18446744073709551616" "uint (b :: u8) < 18446744073709551616"
  using uint_bounded [of v] uint_bounded [of k] uint_bounded [of b] by simp_all

lemma decimal_numbers [simp]:
  "u64_numbers (decimal_u256_json d)" "u64_numbers (decimal_u128_json e)" "u64_numbers (field_error_json f)"
  by (cases d, simp, cases e, simp, simp add: field_error_json_def)

lemma envelope_json_doc:
  assumes "\<And>d. u64_numbers (f d)"
  shows "envelope_doc (pb_chain_id b) (pb_block_number b) (envelope_json f (builder_finish b))"
  unfolding envelope_doc_def
  by (rule exI [of _ "pb_errors b"], rule exI [of _ "f (pb_data b)"])
     (simp add: envelope_json_def assms list_all_iff)

lemma failure_codes [simp]:
  "failure_code EXIT_INPUT_FAIL" "failure_code EXIT_STARTUP_FAIL" "failure_code EXIT_NOT_FOUND"
  by (simp_all add: failure_code_def)

lemma setup_stepI:
  "obeys (asks reading) m \<Longrightarrow> (\<And>w c w'. m w = (Inl c, w') \<Longrightarrow> failure_code c) \<Longrightarrow> setup_step m"
  by (simp add: setup_step_def)

lemma setup_asks: "setup_step m \<Longrightarrow> obeys (asks reading) m"
  by (simp add: setup_step_def)

lemma setup_fails: "setup_step m \<Longrightarrow> m w = (Inl c, w') \<Longrightarrow> failure_code c"
  unfolding setup_step_def by blast

lemma setup_or_exit [simp]: "failure_code c \<Longrightarrow> setup_step (or_exit c r)"
  by (auto simp: setup_step_def io_simps)

lemma setup_exit_on [intro, simp]: "obeys (asks reading) m \<Longrightarrow> failure_code c \<Longrightarrow> setup_step (exit_on c m)"
  by (auto simp: setup_step_def io_simps)

lemma setup_failM [simp]: "failure_code c \<Longrightarrow> setup_step (failM c)"
  by (auto simp: setup_step_def io_simps)

lemma setup_bindM [intro]: "setup_step m \<Longrightarrow> (\<And>x. setup_step (f x)) \<Longrightarrow> setup_step (bindM m f)"
  by (rule setup_stepI) (auto simp: io_simps intro: setup_asks dest: setup_fails)

lemma setup_attempt [intro, simp]: "obeys (asks reading) m \<Longrightarrow> setup_step (attempt m)"
  by (auto simp: setup_step_def io_simps)

lemma setup_start [simp]:
  "setup_step (load_config E p)" "failure_code c \<Longrightarrow> setup_step (parse_address E c s)"
  "setup_step (parse_optional_address E t)" "setup_step (parse_hash E s)" "setup_step (open_rpc E cfg)"
  by (auto simp: load_config_def parse_address_def parse_optional_address_def parse_hash_def open_rpc_def
      split: option.split)

lemma contract_bindM [intro]:
  assumes m: "setup_step m" and f: "\<And>w x w'. m w = (Inr x, w') \<Longrightarrow> read_contract p (f x)"
  shows "read_contract p (bindM m f)"
  unfolding read_contract_def
proof
  fix w
  show "case bindM m f w of
        (Inl c, w') \<Rightarrow> failure_code c \<and> asks reading w w'
      | (Inr c, w') \<Rightarrow> c = EXIT_OK \<and>
          (\<exists>w1 ch n j. asks reading w w1 \<and> envelope_doc ch n j \<and> w' = w1\<lparr>stdout := stdout w1 @ [(p, j)]\<rparr>)"
  proof (cases "m w")
    case (Pair r w1)
    have a: "asks reading w w1" using ak.obeysD [OF setup_asks [OF m] Pair] .
    show ?thesis
    proof (cases r)
      case (Inl c)
      then show ?thesis using setup_fails [OF m] Pair a by (auto simp: bindM_def)
    next
      case (Inr x)
      have "read_contract p (f x)" using f Pair Inr by blast
      from this [unfolded read_contract_def, rule_format, of w1] show ?thesis
        using Pair Inr a by (auto simp: bindM_def split: prod.splits sum.splits intro: asks_trans)
    qed
  qed
qed

lemma contract_fail [simp]: "failure_code c \<Longrightarrow> read_contract p (failM c)"
  by (simp add: read_contract_def failM_def asks_refl)

lemma contract_emit:
  assumes "\<And>d. u64_numbers (f d)"
  shows "read_contract p (emit_envelope f p (builder_finish b))"
  unfolding read_contract_def emit_envelope_def emit_def io_eval
proof (intro allI, simp, intro exI conjI)
  fix w
  show "asks reading w w" by (rule asks_refl)
  show "envelope_doc (pb_chain_id b) (pb_block_number b) (envelope_json f (builder_finish b))"
    by (rule envelope_json_doc) (rule assms)
qed (rule refl)

lemma contract_emits_once:
  assumes "read_contract p m" "finish m w = (c, w')"
  shows "broadcasts w' = broadcasts w" "files w' = files w" "locks w' = locks w" "audit_log w' = audit_log w"
    "if c = EXIT_OK then \<exists>ch n j. envelope_doc ch n j \<and> stdout w' = stdout w @ [(p, j)]
     else failure_code c \<and> stdout w' = stdout w"
proof -
  have nb: "broadcasts w2 = broadcasts w" if "asks reading w w2" for w2
    using that by (auto elim!: asksE simp: broadcasts_def reading_def filter_empty_conv list_all_iff)
  have ok: "\<not> failure_code EXIT_OK" by (simp add: failure_code_def EXIT_OK_def EXIT_INPUT_FAIL_def EXIT_STARTUP_FAIL_def EXIT_NOT_FOUND_def)
  obtain r where "m w = (r, w')" "c = (case r of Inl x \<Rightarrow> x | Inr x \<Rightarrow> x)"
    using assms(2) by (auto simp: finish_def split: prod.splits sum.splits)
  then have "(failure_code c \<and> asks reading w w') \<or>
      (c = EXIT_OK \<and> (\<exists>w1 ch n j. asks reading w w1 \<and> envelope_doc ch n j \<and> w' = w1\<lparr>stdout := stdout w1 @ [(p, j)]\<rparr>))"
    using assms(1) [unfolded read_contract_def, rule_format, of w] by (cases r) auto
  then have "(broadcasts w' = broadcasts w \<and> files w' = files w \<and> locks w' = locks w \<and> audit_log w' = audit_log w) \<and>
    (if c = EXIT_OK then \<exists>ch n j. envelope_doc ch n j \<and> stdout w' = stdout w @ [(p, j)]
     else failure_code c \<and> stdout w' = stdout w)"
  proof (elim disjE exE conjE)
    fix w1 ch n j
    assume c: "c = EXIT_OK" and a: "asks reading w w1" and d: "envelope_doc ch n j"
      and w': "w' = w1\<lparr>stdout := stdout w1 @ [(p, j)]\<rparr>"
    have "stdout w' = stdout w @ [(p, j)]" using asks_keeps(1) [OF a] w' by simp
    then show ?thesis using c d nb [OF a] asks_keeps [OF a] w' by (simp add: broadcasts_def) blast
  qed (use ok nb asks_keeps [of reading w w'] in \<open>auto\<close>)
  then show "broadcasts w' = broadcasts w" "files w' = files w" "locks w' = locks w" "audit_log w' = audit_log w"
    "if c = EXIT_OK then \<exists>ch n j. envelope_doc ch n j \<and> stdout w' = stdout w @ [(p, j)]
     else failure_code c \<and> stdout w' = stdout w"
    by blast+
qed

text \<open>What a computation returns, when it returns.\<close>

definition returns :: "('a \<Rightarrow> bool) \<Rightarrow> (world, 'e, 'a) io \<Rightarrow> bool" where
  "returns P m \<longleftrightarrow> (\<forall>w x w'. m w = (Inr x, w') \<longrightarrow> P x)"

lemma returnsD: "returns P m \<Longrightarrow> m w = (Inr x, w') \<Longrightarrow> P x"
  by (auto simp: returns_def)

lemma returns_retM [simp]: "returns P (retM x) \<longleftrightarrow> P x"
  by (simp add: returns_def io_simps)

lemma returns_bindM [intro]: "returns Q m \<Longrightarrow> (\<And>x. Q x \<Longrightarrow> returns P (f x)) \<Longrightarrow> returns P (bindM m f)"
  by (fastforce simp: returns_def io_simps)

lemma returns_any [simp]: "returns (\<lambda>_. True) m"
  by (simp add: returns_def)

text \<open>The envelope of a command is one the builder made, for the chain and block of its header.\<close>

definition header :: "u64 \<Rightarrow> u64 \<Rightarrow> 'd PartialBuilder \<Rightarrow> bool" where
  "header c n b \<longleftrightarrow> pb_chain_id b = c \<and> pb_block_number b = n"

definition from_builder :: "'d Envelope \<Rightarrow> bool" where
  "from_builder e \<longleftrightarrow> (\<exists>b. e = builder_finish b)"

lemma header_simps [simp]:
  "header c n (builder_new c n d)" "header c n (data_mut f b) = header c n b" "header c n (record_err s t b) = header c n b"
  by (simp_all add: header_def)

lemma from_builder_finish [simp]: "from_builder (builder_finish b)"
  by (auto simp: from_builder_def)

lemma returns_sub_read [intro]:
  "header c n b \<Longrightarrow> returns (header c n) (sub_read f m u b)"
  "header c n b \<Longrightarrow> returns (\<lambda>(v, b'). header c n b') (sub_read_value f m u b)"
  by (auto simp: returns_def sub_read_eval sub_read_value_eval split: prod.splits sum.splits)

lemma contract_emit_from:
  "from_builder e \<Longrightarrow> (\<And>d. u64_numbers (f d)) \<Longrightarrow> read_contract p (emit_envelope f p e)"
  by (auto simp: from_builder_def intro: contract_emit)

text \<open>
  A multi-read: two header requests, then only requests about the block number that the envelope
  reports.
\<close>

definition pinned_read :: "'d Envelope rmpc \<Rightarrow> bool" where
  "pinned_read m \<longleftrightarrow> obeys (asks reading) m \<and>
     (\<forall>w e w'. m w = (Inr e, w') \<longrightarrow> from_builder e \<and>
        (\<exists>i rs. w' = w\<lparr>next_id := i, sent := sent w @
              [request ''eth_chainId'' [] (next_id w), request ''eth_blockNumber'' [] (next_id w + 1)] @ rs\<rparr> \<and>
            list_all (asks_at (hex_tag (en_block_number e))) rs))"

definition made :: "u64 \<Rightarrow> u64 \<Rightarrow> 'd Envelope \<Rightarrow> bool" where
  "made c n e \<longleftrightarrow> (\<exists>b. header c n b \<and> e = builder_finish b)"

lemma made_finish [simp]: "header c n b \<Longrightarrow> made c n (builder_finish b)"
  by (auto simp: made_def)

lemma madeD: "made c n e \<Longrightarrow> from_builder e \<and> en_chain_id e = c \<and> en_block_number e = n"
  by (auto simp: made_def header_def)

lemma pinned_block_asks [simp]: "obeys (asks reading) (pinned_block E url)"
  by (auto simp: pinned_block_def intro!: ak.obeys_bindM)

lemma pinned_block_Inr:
  assumes "pinned_block E url w = (Inr cn, w')"
  shows "w' = w\<lparr>next_id := next_id w + 1 + 1, sent := sent w @
    [request ''eth_chainId'' [] (next_id w), request ''eth_blockNumber'' [] (next_id w + 1)]\<rparr>"
  using assms by (auto simp: pinned_block_def rpc_chain_id_def rpc_block_number_def io_simps)

lemma pinned_readI:
  assumes asks: "\<And>c n. obeys (asks (asks_at (hex_tag n))) (body (c, n))"
    and made: "\<And>c n. returns (made c n) (body (c, n))"
  shows "pinned_read (bindM (pinned_block E url) body)"
  unfolding pinned_read_def
proof (intro conjI allI impI)
  have "obeys (asks reading) (body cn)" for cn using obeys_reading [OF asks] by (cases cn) simp
  then show "obeys (asks reading) (bindM (pinned_block E url) body)" by (intro ak.obeys_bindM) simp
  fix w e w' assume "bindM (pinned_block E url) body w = (Inr e, w')"
  then obtain c n w1 where p: "pinned_block E url w = (Inr (c, n), w1)" and b: "body (c, n) w1 = (Inr e, w')"
    by (auto simp: io_simps)
  have e: "from_builder e" "en_block_number e = n" using madeD [OF returnsD [OF made b]] by auto
  obtain i rs where r: "list_all (asks_at (hex_tag n)) rs" "w' = w1\<lparr>next_id := i, sent := sent w1 @ rs\<rparr>"
    using ak.obeysD [OF asks b] by (rule asksE)
  show "from_builder e" by (fact e)
  show "\<exists>i rs. w' = w\<lparr>next_id := i, sent := sent w @
              [request ''eth_chainId'' [] (next_id w), request ''eth_blockNumber'' [] (next_id w + 1)] @ rs\<rparr> \<and>
            list_all (asks_at (hex_tag (en_block_number e))) rs"
    by (rule exI [of _ i], rule exI [of _ rs]) (simp add: r pinned_block_Inr [OF p] e)
qed

lemma pinned_contract:
  assumes "pinned_read m" "\<And>d. u64_numbers (f d)"
  shows "read_contract p (bindM (exit_on EXIT_STARTUP_FAIL m) (emit_envelope f p))"
proof (rule contract_bindM)
  show "setup_step (exit_on EXIT_STARTUP_FAIL m)" using assms(1) by (simp add: pinned_read_def)
  fix w e w' assume "exit_on EXIT_STARTUP_FAIL m w = (Inr e, w')"
  then have "from_builder e" using assms(1) unfolding pinned_read_def by (auto simp: io_simps)
  then show "read_contract p (emit_envelope f p e)" using assms(2) by (rule contract_emit_from)
qed

lemma returns_step:
  "returns (header c n) m \<Longrightarrow> (\<And>b. header c n b \<Longrightarrow> returns (made c n) (f b)) \<Longrightarrow> returns (made c n) (bindM m f)"
  by (rule returns_bindM)

lemma returns_step_value:
  assumes "header c n b" "\<And>v b'. header c n b' \<Longrightarrow> returns (made c n) (f (v, b'))"
  shows "returns (made c n) (bindM (sub_read_value s m u b) f)"
  by (rule returns_bindM [OF returns_sub_read(2) [OF assms(1)]]) (use assms(2) in auto)

lemmas returns_steps = returns_step returns_step_value returns_sub_read(1)

text \<open>The same for a whole command: its document names the block all its reads are about.\<close>

definition pinned_run :: "bool \<Rightarrow> nat cmd \<Rightarrow> bool" where
  "pinned_run p m \<longleftrightarrow>
     (\<forall>w c w'. m w = (Inr c, w') \<longrightarrow>
        (\<exists>ch n j i rs. envelope_doc ch n j \<and> stdout w' = stdout w @ [(p, j)] \<and>
           sent w' = sent w @ [request ''eth_chainId'' [] i, request ''eth_blockNumber'' [] (i + 1)] @ rs \<and>
           list_all (asks_at (hex_tag n)) rs))"

lemma pinned_run_bindM:
  assumes "obeys (asks (\<lambda>_. False)) m" "\<And>x. pinned_run p (f x)"
  shows "pinned_run p (bindM m f)"
  unfolding pinned_run_def
proof (intro allI impI)
  fix w c w' assume "bindM m f w = (Inr c, w')"
  then obtain x w1 where m: "m w = (Inr x, w1)" and f: "f x w1 = (Inr c, w')" by (auto simp: io_simps)
  obtain i rs where "list_all (\<lambda>_. False) rs" "w1 = w\<lparr>next_id := i, sent := sent w @ rs\<rparr>"
    using ak.obeysD [OF assms(1) m] by (rule asksE)
  then have same: "stdout w1 = stdout w" "sent w1 = sent w" by (cases rs; simp)+
  show "\<exists>ch n j i rs. envelope_doc ch n j \<and> stdout w' = stdout w @ [(p, j)] \<and>
           sent w' = sent w @ [request ''eth_chainId'' [] i, request ''eth_blockNumber'' [] (i + 1)] @ rs \<and>
           list_all (asks_at (hex_tag n)) rs"
    using assms(2) [of x, unfolded pinned_run_def, rule_format, OF f] unfolding same .
qed

lemma pinned_run_read:
  assumes "pinned_read m" "\<And>d. u64_numbers (f d)"
  shows "pinned_run p (bindM (exit_on EXIT_STARTUP_FAIL m) (emit_envelope f p))"
  unfolding pinned_run_def
proof (intro allI impI)
  fix w c w' assume "bindM (exit_on EXIT_STARTUP_FAIL m) (emit_envelope f p) w = (Inr c, w')"
  then obtain e w1 where m: "m w = (Inr e, w1)" and out: "w' = w1\<lparr>stdout := stdout w1 @ [(p, envelope_json f e)]\<rparr>"
    by (auto simp: io_simps emit_envelope_def)
  obtain i rs b where r: "e = builder_finish b" "list_all (asks_at (hex_tag (en_block_number e))) rs"
    "w1 = w\<lparr>next_id := i, sent := sent w @
       [request ''eth_chainId'' [] (next_id w), request ''eth_blockNumber'' [] (next_id w + 1)] @ rs\<rparr>"
    using assms(1) m unfolding pinned_read_def from_builder_def by blast
  have "envelope_doc (pb_chain_id b) (pb_block_number b) (envelope_json f e)"
    unfolding r(1) by (rule envelope_json_doc) (rule assms(2))
  then show "\<exists>ch n j i rs. envelope_doc ch n j \<and> stdout w' = stdout w @ [(p, j)] \<and>
           sent w' = sent w @ [request ''eth_chainId'' [] i, request ''eth_blockNumber'' [] (i + 1)] @ rs \<and>
           list_all (asks_at (hex_tag n)) rs"
    using r out
    by (intro exI [of _ "pb_chain_id b"] exI [of _ "pb_block_number b"] exI [of _ "envelope_json f e"]
        exI [of _ "next_id w"] exI [of _ rs]) simp
qed

section \<open>Answers of the node\<close>

text \<open>The world after one more request, and what a typed view answers as the request with id \<open>i\<close>.\<close>

definition asked :: "world \<Rightarrow> string \<Rightarrow> rpc_param list \<Rightarrow> world" where
  "asked w method params = w\<lparr>next_id := next_id w + 1, sent := sent w @ [request method params (next_id w)]\<rparr>"

definition view_result ::
    "env \<Rightarrow> string \<Rightarrow> address \<Rightarrow> string \<Rightarrow> sol_call \<Rightarrow> (bytes \<Rightarrow> string + 'a) \<Rightarrow> u64 \<Rightarrow> string + 'a" where
  "view_result E url to tag call dec i =
     (case answer E url ''eth_call'' [PCall (view_request E to call), PStr tag] (json_bytes E) i of
        Inl e \<Rightarrow> Inl (''eth_call failed: '' @ display e)
      | Inr out \<Rightarrow> map_err (\<lambda>e. ''abi decode: '' @ e) (dec out))"

definition labelled_result ::
    "env \<Rightarrow> string \<Rightarrow> address \<Rightarrow> string \<Rightarrow> sol_call \<Rightarrow> (bytes \<Rightarrow> string + 'a) \<Rightarrow> string \<Rightarrow> u64 \<Rightarrow> 'a result" where
  "labelled_result E url to tag call dec label i =
     (case answer E url ''eth_call'' [PCall (view_request E to call), PStr tag] (json_bytes E) i of
        Inl e \<Rightarrow> Inl e
      | Inr out \<Rightarrow> map_err (\<lambda>e. ErrRpcDecode (label @ e)) (dec out))"

lemma asked_simps [simp]:
  "next_id (asked w m ps) = next_id w + 1" "sent (asked w m ps) = sent w @ [request m ps (next_id w)]"
  by (simp_all add: asked_def)

lemma rpc_call_asked: "rpc_call E url m ps dec w = (answer E url m ps dec (next_id w), asked w m ps)"
  by (simp add: rpc_call_eval asked_def)

lemma view_at_eval:
  "view_at E url to tag call dec w =
     (view_result E url to tag call dec (next_id w), asked w ''eth_call'' [PCall (view_request E to call), PStr tag])"
  by (auto simp: view_at_def view_result_def rpc_eth_call_def tag_or_latest_def with_msg_def rpc_call_asked io_eval
      split: sum.split)

lemma labelled_view_eval:
  "labelled_view E url to (Some tag) call dec label w =
     (labelled_result E url to tag call dec label (next_id w), asked w ''eth_call'' [PCall (view_request E to call), PStr tag])"
  by (auto simp: labelled_view_def labelled_result_def rpc_eth_call_def tag_or_latest_def rpc_call_asked io_eval
      split: sum.split)

lemma get_logs_eval:
  "rpc_get_logs E url flt w = (answer E url ''eth_getLogs'' [PFilter flt] (json_raw_logs E) (next_id w),
     asked w ''eth_getLogs'' [PFilter flt])"
  by (simp add: rpc_get_logs_def rpc_call_asked)

lemma sub_read_Inr_iff:
  "sub_read s m u b w = (Inr b', w') \<longleftrightarrow>
     (\<exists>x. m w = (Inr x, w') \<and> b' = data_mut (u x) b) \<or> (\<exists>e. m w = (Inl e, w') \<and> b' = record_err s e b)"
  by (auto simp: sub_read_eval split: prod.split sum.split)

lemma sub_read_value_Inr_iff:
  "sub_read_value s m u b w = (Inr (v, b'), w') \<longleftrightarrow>
     (\<exists>x. m w = (Inr x, w') \<and> v = Some x \<and> b' = data_mut (u x) b) \<or>
     (\<exists>e. m w = (Inl e, w') \<and> v = None \<and> b' = record_err s e b)"
  by (auto simp: sub_read_value_eval split: prod.split sum.split)

lemma sub_read_note: "sub_read s m u b w = (case m w of (r, w') \<Rightarrow> (Inr (note_result s u r b), w'))"
  by (simp add: sub_read_def attempt_eval io_eval split: prod.split)

lemma sub_read_value_note:
  "sub_read_value s m u b w =
     (case m w of (r, w') \<Rightarrow> (Inr (case r of Inr x \<Rightarrow> Some x | Inl e \<Rightarrow> None, note_result s u r b), w'))"
  by (simp add: sub_read_value_def attempt_eval io_eval split: prod.split)

lemma note_result_data: "pb_data (note_result s u r b) = (case r of Inr x \<Rightarrow> u x (pb_data b) | Inl _ \<Rightarrow> pb_data b)"
  by (simp add: note_result_def split: sum.split)

lemma note_result_errors:
  "map fe_field (pb_errors (note_result s u r b)) = map fe_field (pb_errors b) @ (if isl r then [s] else [])"
  by (simp add: note_result_def split: sum.split)

lemma note_result_header [simp]:
  "pb_chain_id (note_result s u r b) = pb_chain_id b" "pb_block_number (note_result s u r b) = pb_block_number b"
  by (simp_all add: note_result_def split: sum.split)

lemma note_result_clean: "pb_errors (note_result s u r b) = [] \<longleftrightarrow> (\<exists>x. r = Inr x) \<and> pb_errors b = []"
  by (cases r) (simp_all add: note_result_def)

lemma pinned_block_eval:
  assumes "pinned_block E url w = (Inr (c, n), w')"
  shows "next_id w' = next_id w + 2"
    "answer E url ''eth_chainId'' [] (json_u64 E) (next_id w) = Inr c"
    "answer E url ''eth_blockNumber'' [] (json_u64 E) (next_id w + 1) = Inr n"
  using assms by (auto simp: pinned_block_def rpc_chain_id_def rpc_block_number_def io_simps)

text \<open>The header reads on the demonstration node.\<close>

lemma demo_pinned_block:
  "pinned_block demo_env url w =
     (Inr (31337, 7), asked (asked w ''eth_chainId'' []) ''eth_blockNumber'' [])"
  by (simp add: pinned_block_def rpc_chain_id_def rpc_block_number_def rpc_call_asked io_eval answer_def decode_reply_def
      is_success_def request_def demo_env_def demo_body_def Let_def)

end
