(* ===== verification/Read_Single.thy ===== *)
theory Read_Single
  imports Read_Output
begin

text \<open>
  The commands that answer from one read: \<open>get-balance\<close>, \<open>get-allowance\<close>, \<open>get-deposit\<close>,
  \<open>get-tx\<close> and \<open>status\<close> (\<open>commands/get_balance.rs\<close>, \<open>get_allowance.rs\<close>, \<open>get_deposit.rs\<close>,
  \<open>get_tx.rs\<close>, \<open>status.rs\<close>). Each loads the configuration, parses its arguments, reads the chain id
  and the block number, issues its read and prints one envelope.
\<close>

section \<open>get-balance\<close>

record BalanceData =
  bal_address :: string
  bal_token :: string
  bal_balance :: DecimalU256

definition balance_json :: "BalanceData \<Rightarrow> json" where
  "balance_json d =
     JObj [(''address'', JStr (bal_address d)), (''token'', JStr (bal_token d)),
           (''balance'', decimal_u256_json (bal_balance d))]"

definition call_balance_of :: "env \<Rightarrow> string \<Rightarrow> address \<Rightarrow> address \<Rightarrow> u256 rmpc" where
  "call_balance_of E url token holder =
     labelled_view E url token None (Erc20BalanceOf holder) (dec_u256 E) ''balanceOf decode: ''"

definition read_balance :: "env \<Rightarrow> string \<Rightarrow> address \<Rightarrow> address \<Rightarrow> BalanceData Envelope sub" where
  "read_balance E url token holder =
     bindM (with_msg (\<lambda>e. ''eth_chainId: '' @ display e) (rpc_chain_id E url)) (\<lambda>chain_id.
     bindM (with_msg (\<lambda>e. ''eth_blockNumber: '' @ display e) (rpc_block_number E url)) (\<lambda>block_number.
     bindM (with_msg (\<lambda>e. ''balanceOf: '' @ display e) (call_balance_of E url token holder)) (\<lambda>balance.
     retM (builder_finish (builder_new chain_id block_number
       \<lparr>bal_address = show_address E holder, bal_token = show_address E token, bal_balance = DecimalU256 balance\<rparr>)))))"

definition get_balance_run :: "env \<Rightarrow> string \<Rightarrow> string \<Rightarrow> bool \<Rightarrow> nat cmd" where
  "get_balance_run E config_path address_hex pretty =
     bindM (load_config E config_path) (\<lambda>cfg.
     bindM (parse_address E EXIT_INPUT_FAIL address_hex) (\<lambda>holder.
     bindM (parse_address E EXIT_STARTUP_FAIL (usdc_address cfg)) (\<lambda>token.
     bindM (open_rpc E cfg) (\<lambda>_.
     bindM (exit_on EXIT_STARTUP_FAIL (read_balance E (rpc_url cfg) token holder)) (\<lambda>env.
     emit_envelope balance_json pretty env)))))"

section \<open>get-allowance\<close>

record AllowanceData =
  alw_token :: string
  alw_owner :: string
  alw_spender :: string
  alw_allowance :: DecimalU256

definition allowance_json :: "AllowanceData \<Rightarrow> json" where
  "allowance_json d =
     JObj [(''token'', JStr (alw_token d)), (''owner'', JStr (alw_owner d)), (''spender'', JStr (alw_spender d)),
           (''allowance'', decimal_u256_json (alw_allowance d))]"

definition call_allowance :: "env \<Rightarrow> string \<Rightarrow> address \<Rightarrow> address \<Rightarrow> address \<Rightarrow> u256 rmpc" where
  "call_allowance E url token own spender =
     labelled_view E url token None (Erc20Allowance own spender) (dec_u256 E) ''allowance decode: ''"

definition read_allowance :: "env \<Rightarrow> string \<Rightarrow> address \<Rightarrow> address \<Rightarrow> address \<Rightarrow> AllowanceData Envelope sub" where
  "read_allowance E url token own spender =
     bindM (with_msg (\<lambda>e. ''eth_chainId: '' @ display e) (rpc_chain_id E url)) (\<lambda>chain_id.
     bindM (with_msg (\<lambda>e. ''eth_blockNumber: '' @ display e) (rpc_block_number E url)) (\<lambda>block_number.
     bindM (with_msg (\<lambda>e. ''allowance: '' @ display e) (call_allowance E url token own spender)) (\<lambda>allowed.
     retM (builder_finish (builder_new chain_id block_number
       \<lparr>alw_token = show_address E token, alw_owner = show_address E own, alw_spender = show_address E spender,
        alw_allowance = DecimalU256 allowed\<rparr>)))))"

definition get_allowance_run :: "env \<Rightarrow> string \<Rightarrow> string \<Rightarrow> string \<Rightarrow> bool \<Rightarrow> nat cmd" where
  "get_allowance_run E config_path owner_hex spender_hex pretty =
     bindM (load_config E config_path) (\<lambda>cfg.
     bindM (parse_address E EXIT_INPUT_FAIL owner_hex) (\<lambda>own.
     bindM (parse_address E EXIT_INPUT_FAIL spender_hex) (\<lambda>spender.
     bindM (parse_address E EXIT_STARTUP_FAIL (usdc_address cfg)) (\<lambda>token.
     bindM (open_rpc E cfg) (\<lambda>_.
     bindM (exit_on EXIT_STARTUP_FAIL (read_allowance E (rpc_url cfg) token own spender)) (\<lambda>env.
     emit_envelope allowance_json pretty env))))))"

section \<open>get-deposit\<close>

record DepositData =
  dd_deposit_id :: string
  dd_order_id :: string
  dd_agent :: string
  dd_share_receiver :: string
  dd_amount :: DecimalU256
  dd_shares_minted :: DecimalU256
  dd_window_id :: u64
  dd_log_block_number :: u64
  dd_tx_hash :: string

definition deposit_data_json :: "DepositData \<Rightarrow> json" where
  "deposit_data_json d =
     JObj [(''deposit_id'', JStr (dd_deposit_id d)), (''order_id'', JStr (dd_order_id d)), (''agent'', JStr (dd_agent d)),
           (''share_receiver'', JStr (dd_share_receiver d)), (''amount'', decimal_u256_json (dd_amount d)),
           (''shares_minted'', decimal_u256_json (dd_shares_minted d)), (''window_id'', JU64 (dd_window_id d)),
           (''log_block_number'', JU64 (dd_log_block_number d)), (''tx_hash'', JStr (dd_tx_hash d))]"

definition deposit_filter :: "env \<Rightarrow> address \<Rightarrow> b256 \<Rightarrow> LogFilter" where
  "deposit_filter E gateway_addr deposit_id =
     \<lparr>flt_address = gateway_addr, flt_from_block = ''earliest'', flt_to_block = ''latest'',
      flt_topics = [agent_deposit_topic E, deposit_id]\<rparr>"

definition deposit_outcome :: "env \<Rightarrow> string \<Rightarrow> address \<Rightarrow> b256 \<Rightarrow> DepositData Envelope option sub" where
  "deposit_outcome E url gateway_addr deposit_id =
     bindM (with_msg (\<lambda>e. ''eth_chainId: '' @ display e) (rpc_chain_id E url)) (\<lambda>chain_id.
     bindM (with_msg (\<lambda>e. ''eth_blockNumber: '' @ display e) (rpc_block_number E url)) (\<lambda>block_number.
     bindM (with_msg (\<lambda>e. ''eth_getLogs: '' @ display e) (rpc_get_logs E url (deposit_filter E gateway_addr deposit_id))) (\<lambda>logs.
     case logs of
       [] \<Rightarrow> retM None
     | raw # _ \<Rightarrow>
         bindM (liftR (map_err (\<lambda>e. ''AgentDeposit decode: '' @ e)
                  (dec_agent_deposit E (raw_topics raw) (raw_data raw)))) (\<lambda>decoded.
         retM (Some (builder_finish (builder_new chain_id block_number
           \<lparr>dd_deposit_id = show_b256 E (dep_paymentId decoded), dd_order_id = show_b256 E (dep_orderId decoded),
            dd_agent = show_address E (dep_agent decoded), dd_share_receiver = show_address E (dep_shareReceiver decoded),
            dd_amount = DecimalU256 (dep_amount decoded), dd_shares_minted = DecimalU256 (dep_sharesMinted decoded),
            dd_window_id = dep_windowId decoded, dd_log_block_number = raw_block_number raw,
            dd_tx_hash = show_b256 E (raw_transaction_hash raw)\<rparr>)))))))"

definition get_deposit_run :: "env \<Rightarrow> string \<Rightarrow> string \<Rightarrow> bool \<Rightarrow> nat cmd" where
  "get_deposit_run E config_path deposit_id_hex pretty =
     bindM (load_config E config_path) (\<lambda>cfg.
     bindM (parse_hash E deposit_id_hex) (\<lambda>deposit_id.
     bindM (parse_address E EXIT_STARTUP_FAIL (gateway_address cfg)) (\<lambda>gateway_addr.
     bindM (open_rpc E cfg) (\<lambda>_.
     bindM (attempt (deposit_outcome E (rpc_url cfg) gateway_addr deposit_id)) (\<lambda>outcome.
     case outcome of
       Inr (Some env) \<Rightarrow> emit_envelope deposit_data_json pretty env
     | Inr None \<Rightarrow> failM EXIT_NOT_FOUND
     | Inl msg \<Rightarrow> failM EXIT_STARTUP_FAIL)))))"

definition exit_code_for_outcome :: "string + DepositData Envelope option \<Rightarrow> nat" where
  "exit_code_for_outcome outcome =
     (case outcome of Inr (Some _) \<Rightarrow> EXIT_OK | Inr None \<Rightarrow> EXIT_NOT_FOUND | Inl _ \<Rightarrow> EXIT_STARTUP_FAIL)"

section \<open>get-tx\<close>

record TxData =
  td_tx_hash :: string
  td_status :: string
  td_block_number :: u64
  td_from :: string
  td_to :: "string option"
  td_gas_used :: DecimalU128
  td_effective_gas_price :: DecimalU256

definition tx_data_json :: "TxData \<Rightarrow> json" where
  "tx_data_json d =
     JObj [(''tx_hash'', JStr (td_tx_hash d)), (''status'', JStr (td_status d)), (''block_number'', JU64 (td_block_number d)),
           (''from'', JStr (td_from d)), (''to'', (case td_to d of None \<Rightarrow> JNull | Some a \<Rightarrow> JStr a)),
           (''gas_used'', decimal_u128_json (td_gas_used d)),
           (''effective_gas_price'', decimal_u256_json (td_effective_gas_price d))]"

definition tx_outcome :: "env \<Rightarrow> string \<Rightarrow> b256 \<Rightarrow> TxData Envelope option sub" where
  "tx_outcome E url h =
     bindM (with_msg (\<lambda>e. ''eth_chainId: '' @ display e) (rpc_chain_id E url)) (\<lambda>chain_id.
     bindM (with_msg (\<lambda>e. ''eth_blockNumber: '' @ display e) (rpc_block_number E url)) (\<lambda>block_number.
     bindM (with_msg (\<lambda>e. ''eth_getTransactionReceipt: '' @ display e) (rpc_get_transaction_receipt E url h)) (\<lambda>receipt.
     retM (case receipt of
       None \<Rightarrow> None
     | Some r \<Rightarrow> Some (builder_finish (builder_new chain_id block_number
         \<lparr>td_tx_hash = show_b256 E h, td_status = (if receipt_status r then ''success'' else ''reverted''),
          td_block_number = (case receipt_block_number r of Some n \<Rightarrow> n | None \<Rightarrow> 0),
          td_from = show_address E (receipt_from r), td_to = map_option (show_address E) (receipt_to r),
          td_gas_used = DecimalU128 (receipt_gas_used r),
          td_effective_gas_price = DecimalU256 (ucast (receipt_effective_gas_price r))\<rparr>))))))"

definition get_tx_run :: "env \<Rightarrow> string \<Rightarrow> string \<Rightarrow> bool \<Rightarrow> nat cmd" where
  "get_tx_run E config_path tx_hash_hex pretty =
     bindM (load_config E config_path) (\<lambda>cfg.
     bindM (parse_hash E tx_hash_hex) (\<lambda>h.
     bindM (open_rpc E cfg) (\<lambda>_.
     bindM (attempt (tx_outcome E (rpc_url cfg) h)) (\<lambda>outcome.
     case outcome of
       Inr (Some env) \<Rightarrow> emit_envelope tx_data_json pretty env
     | Inr None \<Rightarrow> failM EXIT_NOT_FOUND
     | Inl msg \<Rightarrow> failM EXIT_STARTUP_FAIL))))"

section \<open>status\<close>

record StatusFound =
  st_payment_id :: string
  st_order_id :: string
  st_agent :: string
  st_share_receiver :: string
  st_amount :: DecimalU256
  st_shares_minted :: DecimalU256
  st_block_number :: u64
  st_tx_hash :: string

record StatusNotFound =
  nf_payment_id :: string
  nf_status :: string

definition status_found_json :: "StatusFound \<Rightarrow> json" where
  "status_found_json d =
     JObj [(''payment_id'', JStr (st_payment_id d)), (''order_id'', JStr (st_order_id d)), (''agent'', JStr (st_agent d)),
           (''share_receiver'', JStr (st_share_receiver d)), (''amount'', decimal_u256_json (st_amount d)),
           (''shares_minted'', decimal_u256_json (st_shares_minted d)), (''block_number'', JU64 (st_block_number d)),
           (''tx_hash'', JStr (st_tx_hash d))]"

definition status_not_found_json :: "StatusNotFound \<Rightarrow> json" where
  "status_not_found_json d = JObj [(''payment_id'', JStr (nf_payment_id d)), (''status'', JStr (nf_status d))]"

definition status_outcome :: "env \<Rightarrow> string \<Rightarrow> address \<Rightarrow> b256 \<Rightarrow> ((u64 \<times> u64) \<times> StatusFound option) sub" where
  "status_outcome E url gateway_addr pid =
     bindM (with_msg (\<lambda>e. ''eth_chainId: '' @ display e) (rpc_chain_id E url)) (\<lambda>chain_id.
     bindM (with_msg (\<lambda>e. ''eth_blockNumber: '' @ display e) (rpc_block_number E url)) (\<lambda>block_number.
     bindM (with_msg (\<lambda>e. ''eth_getLogs: '' @ display e)
              (rpc_get_logs E url
                 \<lparr>flt_address = gateway_addr, flt_from_block = ''earliest'', flt_to_block = ''latest'',
                  flt_topics = [agent_deposit_topic E, pid]\<rparr>)) (\<lambda>logs.
     case logs of
       [] \<Rightarrow> retM ((chain_id, block_number), None)
     | raw # _ \<Rightarrow>
         bindM (liftR (map_err (\<lambda>e. ''AgentDeposit decode: '' @ e)
                  (dec_agent_deposit E (raw_topics raw) (raw_data raw)))) (\<lambda>decoded.
         retM ((chain_id, block_number), Some
           \<lparr>st_payment_id = show_b256 E (dep_paymentId decoded), st_order_id = show_b256 E (dep_orderId decoded),
            st_agent = show_address E (dep_agent decoded), st_share_receiver = show_address E (dep_shareReceiver decoded),
            st_amount = DecimalU256 (dep_amount decoded), st_shares_minted = DecimalU256 (dep_sharesMinted decoded),
            st_block_number = raw_block_number raw, st_tx_hash = show_b256 E (raw_transaction_hash raw)\<rparr>)))))"

definition status_run :: "env \<Rightarrow> string \<Rightarrow> string \<Rightarrow> bool \<Rightarrow> nat cmd" where
  "status_run E config_path payment_id_hex pretty =
     bindM (load_config E config_path) (\<lambda>cfg.
     bindM (parse_hash E payment_id_hex) (\<lambda>pid.
     bindM (parse_address E EXIT_STARTUP_FAIL (gateway_address cfg)) (\<lambda>gateway_addr.
     bindM (open_rpc E cfg) (\<lambda>_.
     let pid_hex = show_b256 E pid in
     bindM (attempt (status_outcome E (rpc_url cfg) gateway_addr pid)) (\<lambda>outcome.
     case outcome of
       Inr ((chain_id, block_number), Some found) \<Rightarrow>
         emit_envelope status_found_json pretty (builder_finish (builder_new chain_id block_number found))
     | Inr ((chain_id, block_number), None) \<Rightarrow>
         emit_envelope status_not_found_json pretty (builder_finish (builder_new chain_id block_number
           \<lparr>nf_payment_id = pid_hex, nf_status = ''not_found''\<rparr>))
     | Inl msg \<Rightarrow> failM EXIT_STARTUP_FAIL)))))"

section \<open>Lemmas\<close>

lemma single_numbers [simp]:
  "u64_numbers (balance_json a)" "u64_numbers (allowance_json b)" "u64_numbers (deposit_data_json c)"
  "u64_numbers (tx_data_json d)" "u64_numbers (status_found_json e)" "u64_numbers (status_not_found_json f)"
  by (simp_all add: balance_json_def allowance_json_def deposit_data_json_def tx_data_json_def status_found_json_def
      status_not_found_json_def split: option.split)

lemma single_asks [simp]:
  "obeys (asks reading) (read_balance E url t h)" "obeys (asks reading) (read_allowance E url t q s)"
  "obeys (asks reading) (deposit_outcome E url g i)" "obeys (asks reading) (tx_outcome E url x)"
  "obeys (asks reading) (status_outcome E url g i)"
  by (auto simp: read_balance_def read_allowance_def call_balance_of_def call_allowance_def deposit_outcome_def
      tx_outcome_def status_outcome_def intro!: ak.obeys_bindM split: list.split)

lemma single_returns:
  "returns from_builder (read_balance E url t h)"
  "returns from_builder (read_allowance E url t q s)"
  "returns (\<lambda>r. \<forall>e. r = Some e \<longrightarrow> from_builder e) (deposit_outcome E url g i)"
  "returns (\<lambda>r. \<forall>e. r = Some e \<longrightarrow> from_builder e) (tx_outcome E url x)"
  unfolding read_balance_def read_allowance_def deposit_outcome_def tx_outcome_def
  by (auto intro!: returns_bindM [OF returns_any] split: list.split option.split)

lemmas single_builder = single_returns [THEN returnsD] single_returns(3,4) [THEN returnsD, rule_format]

lemma get_balance_contract: "read_contract p (get_balance_run E path a p)"
  unfolding get_balance_run_def
  by (intro contract_bindM contract_emit_from) (auto simp: io_simps dest: single_builder)

lemma get_allowance_contract: "read_contract p (get_allowance_run E path a b p)"
  unfolding get_allowance_run_def
  by (intro contract_bindM contract_emit_from) (auto simp: io_simps dest: single_builder)

lemma get_deposit_contract: "read_contract p (get_deposit_run E path a p)"
  unfolding get_deposit_run_def
  by (intro contract_bindM) (auto simp: io_simps split: sum.split option.split intro: contract_emit_from single_builder)

lemma get_tx_contract: "read_contract p (get_tx_run E path a p)"
  unfolding get_tx_run_def
  by (intro contract_bindM) (auto simp: io_simps split: sum.split option.split intro: contract_emit_from single_builder)

lemma status_contract: "read_contract p (status_run E path a p)"
  unfolding status_run_def Let_def
  by (intro contract_bindM) (auto split: sum.split option.split prod.split intro: contract_emit)

section \<open>Two commands for one lookup\<close>

text \<open>The common start of \<open>get-deposit\<close> and \<open>status\<close>.\<close>

definition lookup_start :: "env \<Rightarrow> string \<Rightarrow> string \<Rightarrow> (Config \<times> b256 \<times> address) cmd" where
  "lookup_start E config_path id_hex =
     bindM (load_config E config_path) (\<lambda>cfg.
     bindM (parse_hash E id_hex) (\<lambda>i.
     bindM (parse_address E EXIT_STARTUP_FAIL (gateway_address cfg)) (\<lambda>g.
     bindM (open_rpc E cfg) (\<lambda>_. retM (cfg, i, g)))))"

definition deposit_tail :: "env \<Rightarrow> bool \<Rightarrow> Config \<times> b256 \<times> address \<Rightarrow> nat cmd" where
  "deposit_tail E p x =
     (case x of (cfg, i, g) \<Rightarrow>
        bindM (attempt (deposit_outcome E (rpc_url cfg) g i)) (\<lambda>outcome.
        case outcome of
          Inr (Some env) \<Rightarrow> emit_envelope deposit_data_json p env
        | Inr None \<Rightarrow> failM EXIT_NOT_FOUND
        | Inl msg \<Rightarrow> failM EXIT_STARTUP_FAIL))"

definition status_tail :: "env \<Rightarrow> bool \<Rightarrow> Config \<times> b256 \<times> address \<Rightarrow> nat cmd" where
  "status_tail E p x =
     (case x of (cfg, i, g) \<Rightarrow>
        bindM (attempt (status_outcome E (rpc_url cfg) g i)) (\<lambda>outcome.
        case outcome of
          Inr ((chain_id, block_number), Some found) \<Rightarrow>
            emit_envelope status_found_json p (builder_finish (builder_new chain_id block_number found))
        | Inr ((chain_id, block_number), None) \<Rightarrow>
            emit_envelope status_not_found_json p (builder_finish (builder_new chain_id block_number
              \<lparr>nf_payment_id = show_b256 E i, nf_status = ''not_found''\<rparr>))
        | Inl msg \<Rightarrow> failM EXIT_STARTUP_FAIL))"

lemma bindM_retM [simp]: "bindM (retM x) f = f x"
  by (simp add: bindM_def retM_def)

lemma lookup_runs:
  "get_deposit_run E path i p = bindM (lookup_start E path i) (deposit_tail E p)"
  "status_run E path i p = bindM (lookup_start E path i) (status_tail E p)"
  by (simp_all add: get_deposit_run_def status_run_def lookup_start_def deposit_tail_def status_tail_def bindM_assoc Let_def)

lemma lookup_start_quiet: "lookup_start E path i w = (r, w') \<Longrightarrow> stdout w' = stdout w"
proof -
  assume a: "lookup_start E path i w = (r, w')"
  have "obeys (asks reading) (lookup_start E path i)" unfolding lookup_start_def by (auto intro!: ak.obeys_bindM)
  from asks_keeps(1) [OF ak.obeysD [OF this a]] show ?thesis .
qed

lemma lookup_start_fails:
  "lookup_start E path i w = (Inl c, w') \<Longrightarrow> c \<in> {EXIT_INPUT_FAIL, EXIT_STARTUP_FAIL} \<and> stdout w' = stdout w"
  using lookup_start_quiet [of E path i w "Inl c" w']
  by (auto simp: lookup_start_def load_config_def parse_hash_def parse_address_def open_rpc_def io_simps)

text \<open>The two payloads describe one event.\<close>

definition same_deposit :: "DepositData \<Rightarrow> StatusFound \<Rightarrow> bool" where
  "same_deposit d f \<longleftrightarrow>
     dd_deposit_id d = st_payment_id f \<and> dd_order_id d = st_order_id f \<and> dd_agent d = st_agent f \<and>
     dd_share_receiver d = st_share_receiver f \<and> dd_amount d = st_amount f \<and> dd_shares_minted d = st_shares_minted f \<and>
     dd_log_block_number d = st_block_number f \<and> dd_tx_hash d = st_tx_hash f"

lemma outcomes_agree:
  obtains (failed) m w' where "status_outcome E url g i w = (Inl m, w')" "deposit_outcome E url g i w = (Inl m, w')"
  | (absent) ch n w' where "status_outcome E url g i w = (Inr ((ch, n), None), w')" "deposit_outcome E url g i w = (Inr None, w')"
  | (found) ch n f d w' where "status_outcome E url g i w = (Inr ((ch, n), Some f), w')"
      "deposit_outcome E url g i w = (Inr (Some (builder_finish (builder_new ch n d))), w')" "same_deposit d f"
proof -
  have *: "(\<exists>m w'. status_outcome E url g i w = (Inl m, w') \<and> deposit_outcome E url g i w = (Inl m, w')) \<or>
    (\<exists>ch n w'. status_outcome E url g i w = (Inr ((ch, n), None), w') \<and> deposit_outcome E url g i w = (Inr None, w')) \<or>
    (\<exists>ch n f d w'. status_outcome E url g i w = (Inr ((ch, n), Some f), w') \<and>
      deposit_outcome E url g i w = (Inr (Some (builder_finish (builder_new ch n d))), w') \<and> same_deposit d f)"
    by (auto simp: status_outcome_def deposit_outcome_def deposit_filter_def io_eval same_deposit_def
        split: prod.splits sum.splits list.splits)
  show thesis using * failed absent found by blast
qed

section \<open>Properties\<close>

text \<open>
  \<open>get-deposit\<close> and \<open>status\<close> are one lookup: run in the same state they send the same requests;
  when the event is found both exit with 0 and print its fields under the same header; when there
  is none \<open>get-deposit\<close> exits with 4 and prints nothing while \<open>status\<close> exits with 0 and prints
  \<open>not_found\<close>; otherwise both fail with the same code and print nothing.
\<close>

theorem get_deposit_agrees_with_status:
  "case (finish (get_deposit_run E path i p) w, finish (status_run E path i p) w) of ((c, u), (c', u')) \<Rightarrow>
     sent u = sent u' \<and>
     ((c = EXIT_OK \<and> c' = EXIT_OK \<and>
        (\<exists>ch n d f. same_deposit d f \<and>
           stdout u = stdout w @ [(p, envelope_json deposit_data_json (builder_finish (builder_new ch n d)))] \<and>
           stdout u' = stdout w @ [(p, envelope_json status_found_json (builder_finish (builder_new ch n f)))])) \<or>
      (c = EXIT_NOT_FOUND \<and> c' = EXIT_OK \<and> stdout u = stdout w \<and>
        (\<exists>ch n pid. stdout u' = stdout w @ [(p, envelope_json status_not_found_json
           (builder_finish (builder_new ch n \<lparr>nf_payment_id = pid, nf_status = ''not_found''\<rparr>)))])) \<or>
      (c = c' \<and> c \<in> {EXIT_INPUT_FAIL, EXIT_STARTUP_FAIL} \<and> stdout u = stdout w \<and> stdout u' = stdout w))"
proof (cases "lookup_start E path i w")
  case (Pair r w1)
  show ?thesis
  proof (cases r)
    case (Inl c)
    then show ?thesis using Pair lookup_start_fails [of E path i w c w1]
      by (simp add: lookup_runs finish_def bindM_eval)
  next
    case (Inr x)
    obtain cfg j g where x: "x = (cfg, j, g)" by (cases x)
    have q: "stdout w1 = stdout w" using lookup_start_quiet [OF Pair] .
    have s: "stdout w2 = stdout w1" if "status_outcome E (rpc_url cfg) g j w1 = (o2, w2)" for o2 w2
      using asks_keeps(1) [OF ak.obeysD [OF single_asks(5) that]] .
    show ?thesis
    proof (cases rule: outcomes_agree [of E "rpc_url cfg" g j w1])
      case (failed m w2)
      then show ?thesis using Pair Inr x q s
        by (simp add: lookup_runs finish_def bindM_eval deposit_tail_def status_tail_def attempt_eval failM_def)
    next
      case (absent ch n w2)
      then show ?thesis using Pair Inr x q s [OF absent(1)]
        by (auto simp: lookup_runs finish_def bindM_eval deposit_tail_def status_tail_def attempt_eval failM_def
            emit_envelope_def emit_def modifyM_def retM_def)
    next
      case (found ch n f d w2)
      then show ?thesis using Pair Inr x q s [OF found(1)]
        by (auto simp: lookup_runs finish_def bindM_eval deposit_tail_def status_tail_def attempt_eval failM_def
            emit_envelope_def emit_def modifyM_def retM_def)
    qed
  qed
qed

text \<open>The exit code of \<open>get-deposit\<close> is the one its mapping helper assigns to the outcome.\<close>

lemma deposit_tail_exit_code:
  "fst (finish (deposit_tail E p (cfg, i, g)) w) = exit_code_for_outcome (fst (deposit_outcome E (rpc_url cfg) g i w))"
  by (auto simp: deposit_tail_def finish_def exit_code_for_outcome_def attempt_eval emit_envelope_def emit_def io_eval
      split: prod.split sum.split option.split)

end
