(* ===== verification/Read_Gateway.thy ===== *)
theory Read_Gateway
  imports Read_Output
begin

text \<open>
  The commands that read several views of one contract at a pinned block: \<open>get-gateway\<close>,
  \<open>get-agent\<close>, \<open>get-roles\<close>, \<open>get-router\<close> and \<open>get-governance\<close> (\<open>commands/get_gateway.rs\<close>,
  \<open>get_agent.rs\<close>, \<open>get_roles.rs\<close>, \<open>get_router.rs\<close>, \<open>get_governance.rs\<close>). The header reads are
  mandatory; every later sub-read either fills its field or adds one entry to the error list.
\<close>

section \<open>get-gateway\<close>

record GatewayData =
  gd_address :: string
  gd_code_hash :: string
  gd_configured_code_hash :: string
  gd_usdc :: string
  gd_vault :: string
  gd_paused :: bool

definition gateway_data_json :: "GatewayData \<Rightarrow> json" where
  "gateway_data_json d =
     JObj [(''address'', JStr (gd_address d)), (''code_hash'', JStr (gd_code_hash d)),
           (''configured_code_hash'', JStr (gd_configured_code_hash d)), (''usdc'', JStr (gd_usdc d)),
           (''vault'', JStr (gd_vault d)), (''paused'', JBool (gd_paused d))]"

definition read_code_hash :: "env \<Rightarrow> string \<Rightarrow> address \<Rightarrow> string \<Rightarrow> GatewayData PartialBuilder \<Rightarrow> (world, 'e, GatewayData PartialBuilder) io" where
  "read_code_hash E url gateway_addr block_tag b =
     bindM (attempt (rpc_get_code E url gateway_addr (Some block_tag))) (\<lambda>r.
     retM (case r of
       Inr code \<Rightarrow>
         if code = [] then record_err ''code_hash'' ''eth_getCode returned 0x (no contract at address)'' b
         else data_mut (\<lambda>d. d\<lparr>gd_code_hash := ''0x'' @ hex_encode E (b256_bytes E (keccak256 E code))\<rparr>) b
     | Inl e \<Rightarrow> record_err ''code_hash'' (''eth_getCode failed: '' @ display e) b))"

definition call_view_address :: "env \<Rightarrow> string \<Rightarrow> address \<Rightarrow> string \<Rightarrow> sol_call \<Rightarrow> address sub" where
  "call_view_address E url to block_tag call = view_at E url to block_tag call (dec_address E)"

definition gateway_view_paused :: "env \<Rightarrow> string \<Rightarrow> address \<Rightarrow> string \<Rightarrow> bool sub" where
  "gateway_view_paused E url gateway block_tag = view_at E url gateway block_tag GwPaused (dec_bool E)"

definition read_gateway :: "env \<Rightarrow> Config \<Rightarrow> address \<Rightarrow> GatewayData Envelope rmpc" where
  "read_gateway E cfg gateway_addr =
     (let url = rpc_url cfg in
      bindM (pinned_block E url) (\<lambda>(chain_id, block_number).
      let block_tag = hex_tag block_number;
          data = \<lparr>gd_address = show_address E gateway_addr, gd_code_hash = [],
                  gd_configured_code_hash = gateway_runtime_hash cfg, gd_usdc = [], gd_vault = [], gd_paused = False\<rparr> in
      bindM (read_code_hash E url gateway_addr block_tag (builder_new chain_id block_number data)) (\<lambda>b.
      bindM (sub_read ''usdc'' (call_view_address E url gateway_addr block_tag GwUsdc)
               (\<lambda>a d. d\<lparr>gd_usdc := show_address E a\<rparr>) b) (\<lambda>b.
      bindM (sub_read ''vault'' (call_view_address E url gateway_addr block_tag GwVault)
               (\<lambda>a d. d\<lparr>gd_vault := show_address E a\<rparr>) b) (\<lambda>b.
      bindM (sub_read ''paused'' (gateway_view_paused E url gateway_addr block_tag)
               (\<lambda>p d. d\<lparr>gd_paused := p\<rparr>) b) (\<lambda>b.
      retM (builder_finish b)))))))"

definition get_gateway_run :: "env \<Rightarrow> string \<Rightarrow> bool \<Rightarrow> nat cmd" where
  "get_gateway_run E config_path pretty =
     bindM (load_config E config_path) (\<lambda>cfg.
     bindM (parse_address E EXIT_STARTUP_FAIL (gateway_address cfg)) (\<lambda>gateway_addr.
     bindM (open_rpc E cfg) (\<lambda>_.
     bindM (exit_on EXIT_STARTUP_FAIL (read_gateway E cfg gateway_addr)) (\<lambda>env.
     emit_envelope gateway_data_json pretty env))))"

section \<open>get-agent\<close>

record AgentData =
  ad_agent :: string
  ad_active :: bool
  ad_valid_until :: u64
  ad_max_per_payment :: DecimalU256
  ad_max_per_window :: DecimalU256
  ad_share_receiver :: string
  ad_asset_recipient :: string
  ad_max_withdraw_per_payment :: DecimalU256
  ad_max_withdraw_per_window :: DecimalU256
  ad_withdrawals_enabled :: bool
  ad_share_allowance :: DecimalU256
  ad_window_id :: u64
  ad_window_gross :: DecimalU256

definition agent_data_default :: "string \<Rightarrow> AgentData" where
  "agent_data_default agent =
     \<lparr>ad_agent = agent, ad_active = False, ad_valid_until = 0, ad_max_per_payment = DecimalU256 0,
      ad_max_per_window = DecimalU256 0, ad_share_receiver = [], ad_asset_recipient = [],
      ad_max_withdraw_per_payment = DecimalU256 0, ad_max_withdraw_per_window = DecimalU256 0,
      ad_withdrawals_enabled = False, ad_share_allowance = DecimalU256 0, ad_window_id = 0,
      ad_window_gross = DecimalU256 0\<rparr>"

definition agent_data_json :: "AgentData \<Rightarrow> json" where
  "agent_data_json d =
     JObj [(''agent'', JStr (ad_agent d)), (''active'', JBool (ad_active d)), (''valid_until'', JU64 (ad_valid_until d)),
           (''max_per_payment'', decimal_u256_json (ad_max_per_payment d)),
           (''max_per_window'', decimal_u256_json (ad_max_per_window d)),
           (''share_receiver'', JStr (ad_share_receiver d)), (''asset_recipient'', JStr (ad_asset_recipient d)),
           (''max_withdraw_per_payment'', decimal_u256_json (ad_max_withdraw_per_payment d)),
           (''max_withdraw_per_window'', decimal_u256_json (ad_max_withdraw_per_window d)),
           (''withdrawals_enabled'', JBool (ad_withdrawals_enabled d)),
           (''share_allowance'', decimal_u256_json (ad_share_allowance d)), (''window_id'', JU64 (ad_window_id d)),
           (''window_gross'', decimal_u256_json (ad_window_gross d))]"

definition call_agents :: "env \<Rightarrow> string \<Rightarrow> address \<Rightarrow> string \<Rightarrow> address \<Rightarrow> AgentPolicy sub" where
  "call_agents E url gateway block_tag agent = view_at E url gateway block_tag (GwAgents agent) (dec_agents E)"

definition call_share_allowance :: "env \<Rightarrow> string \<Rightarrow> address \<Rightarrow> string \<Rightarrow> address \<Rightarrow> address \<Rightarrow> u256 sub" where
  "call_share_allowance E url vault block_tag own spender =
     view_at E url vault block_tag (Erc20Allowance own spender) (dec_u256 E)"

definition call_window_gross :: "env \<Rightarrow> string \<Rightarrow> address \<Rightarrow> string \<Rightarrow> address \<Rightarrow> u64 \<Rightarrow> u256 sub" where
  "call_window_gross E url gateway block_tag agent window_id =
     view_at E url gateway block_tag (GwAgentWindowGross agent window_id) (dec_u256 E)"

definition agent_policy_fields :: "env \<Rightarrow> AgentPolicy \<Rightarrow> AgentData \<Rightarrow> AgentData" where
  "agent_policy_fields E t d =
     d\<lparr>ad_active := active t, ad_valid_until := validUntil t,
       ad_max_per_payment := DecimalU256 (maxPerPayment t), ad_max_per_window := DecimalU256 (maxPerWindow t),
       ad_share_receiver := show_address E (shareReceiver t), ad_asset_recipient := show_address E (assetRecipient t),
       ad_max_withdraw_per_payment := DecimalU256 (maxWithdrawPerPayment t),
       ad_max_withdraw_per_window := DecimalU256 (maxWithdrawPerWindow t),
       ad_withdrawals_enabled := (maxWithdrawPerPayment t \<noteq> 0)\<rparr>"

definition read_agent :: "env \<Rightarrow> string \<Rightarrow> address \<Rightarrow> address \<Rightarrow> address \<Rightarrow> AgentData Envelope rmpc" where
  "read_agent E url gateway vault agent =
     bindM (pinned_block E url) (\<lambda>(chain_id, block_number).
     let block_tag = hex_tag block_number in
     bindM (sub_read ''agents'' (call_agents E url gateway block_tag agent) (agent_policy_fields E)
              (builder_new chain_id block_number (agent_data_default (show_address E agent)))) (\<lambda>b.
     bindM (sub_read ''share_allowance'' (call_share_allowance E url vault block_tag agent gateway)
              (\<lambda>v d. d\<lparr>ad_share_allowance := DecimalU256 v\<rparr>) b) (\<lambda>b.
     bindM (sub_read_value ''window_id''
              (with_msg (\<lambda>e. ''eth_getBlockByNumber failed: '' @ display e) (rpc_block_timestamp E url block_number))
              (\<lambda>ts d. d\<lparr>ad_window_id := ts div WINDOW_SECONDS\<rparr>) b) (\<lambda>(ts, b).
     bindM (case map_option (\<lambda>t. t div WINDOW_SECONDS) ts of
              Some i \<Rightarrow> sub_read ''window_gross'' (call_window_gross E url gateway block_tag agent i)
                          (\<lambda>v d. d\<lparr>ad_window_gross := DecimalU256 v\<rparr>) b
            | None \<Rightarrow> retM b) (\<lambda>b.
     retM (builder_finish b))))))"

definition get_agent_run :: "env \<Rightarrow> string \<Rightarrow> string \<Rightarrow> bool \<Rightarrow> nat cmd" where
  "get_agent_run E config_path agent_hex pretty =
     bindM (load_config E config_path) (\<lambda>cfg.
     bindM (parse_address E EXIT_STARTUP_FAIL agent_hex) (\<lambda>agent.
     bindM (parse_address E EXIT_STARTUP_FAIL (gateway_address cfg)) (\<lambda>gateway_addr.
     bindM (parse_address E EXIT_STARTUP_FAIL (vault_address cfg)) (\<lambda>vault_addr.
     bindM (open_rpc E cfg) (\<lambda>_.
     bindM (exit_on EXIT_STARTUP_FAIL (read_agent E (rpc_url cfg) gateway_addr vault_addr agent)) (\<lambda>env.
     emit_envelope agent_data_json pretty env))))))"

section \<open>get-roles\<close>

record RoleEntry =
  re_name :: string
  re_hash :: string
  re_has_role :: bool

record RolesData =
  ro_address :: string
  ro_roles :: "RoleEntry list"

definition role_entry_json :: "RoleEntry \<Rightarrow> json" where
  "role_entry_json r =
     JObj [(''name'', JStr (re_name r)), (''hash'', JStr (re_hash r)), (''has_role'', JBool (re_has_role r))]"

definition roles_data_json :: "RolesData \<Rightarrow> json" where
  "roles_data_json d = JObj [(''address'', JStr (ro_address d)), (''roles'', JArr (map role_entry_json (ro_roles d)))]"

definition ROLES :: "string list" where
  "ROLES = [''DEFAULT_ADMIN_ROLE'', ''ADMIN_ROLE'', ''PAUSER_ROLE'', ''AGENT_ROLE'']"

definition role_getter :: "string \<Rightarrow> sol_call option" where
  "role_getter role =
     (if role = ''DEFAULT_ADMIN_ROLE'' then Some GwDefaultAdminRole
      else if role = ''ADMIN_ROLE'' then Some GwAdminRole
      else if role = ''PAUSER_ROLE'' then Some GwPauserRole
      else if role = ''AGENT_ROLE'' then Some GwAgentRole
      else None)"

definition read_role_hash :: "env \<Rightarrow> string \<Rightarrow> address \<Rightarrow> string \<Rightarrow> string \<Rightarrow> b256 sub" where
  "read_role_hash E url gateway block_tag role =
     (case role_getter role of
        None \<Rightarrow> failM (''unknown role getter: '' @ role)
      | Some call \<Rightarrow>
          bindM (with_msg (\<lambda>e. ''eth_call failed: '' @ display e)
                   (rpc_eth_call E url (view_request E gateway call) (Some block_tag))) (\<lambda>out.
          if length out \<noteq> 32 then failM (''expected 32 bytes, got '' @ show_nat (length out))
          else retM (b256_of_bytes E out)))"

definition call_has_role :: "env \<Rightarrow> string \<Rightarrow> address \<Rightarrow> string \<Rightarrow> b256 \<Rightarrow> address \<Rightarrow> bool sub" where
  "call_has_role E url gateway block_tag role account =
     view_at E url gateway block_tag (GwHasRole role account) (dec_bool E)"

definition set_role :: "nat \<Rightarrow> (RoleEntry \<Rightarrow> RoleEntry) \<Rightarrow> RolesData \<Rightarrow> RolesData" where
  "set_role idx f d = d\<lparr>ro_roles := (ro_roles d)[idx := f (ro_roles d ! idx)]\<rparr>"

fun read_role_rows ::
    "env \<Rightarrow> string \<Rightarrow> address \<Rightarrow> address \<Rightarrow> string \<Rightarrow> nat \<Rightarrow> string list \<Rightarrow> RolesData PartialBuilder \<Rightarrow>
     (world, 'e, RolesData PartialBuilder) io" where
  "read_role_rows E url gateway target block_tag idx [] b = retM b"
| "read_role_rows E url gateway target block_tag idx (name # names) b =
     bindM (attempt (read_role_hash E url gateway block_tag name)) (\<lambda>r.
     bindM (case r of
              Inr hash \<Rightarrow>
                sub_read (''role.'' @ name @ ''.has'') (call_has_role E url gateway block_tag hash target)
                  (\<lambda>v. set_role idx (\<lambda>e. e\<lparr>re_has_role := v\<rparr>))
                  (data_mut (set_role idx (\<lambda>e. e\<lparr>re_hash := show_b256 E hash\<rparr>)) b)
            | Inl e \<Rightarrow> retM (record_err (''role.'' @ name @ ''.hash'') e b)) (\<lambda>b.
     read_role_rows E url gateway target block_tag (Suc idx) names b))"

definition read_roles :: "env \<Rightarrow> string \<Rightarrow> address \<Rightarrow> address \<Rightarrow> RolesData Envelope rmpc" where
  "read_roles E url gateway target =
     bindM (pinned_block E url) (\<lambda>(chain_id, block_number).
     let block_tag = hex_tag block_number;
         data = \<lparr>ro_address = show_address E target,
                 ro_roles = map (\<lambda>n. \<lparr>re_name = n, re_hash = [], re_has_role = False\<rparr>) ROLES\<rparr> in
     bindM (read_role_rows E url gateway target block_tag 0 ROLES (builder_new chain_id block_number data)) (\<lambda>b.
     retM (builder_finish b)))"

definition get_roles_run :: "env \<Rightarrow> string \<Rightarrow> string \<Rightarrow> bool \<Rightarrow> nat cmd" where
  "get_roles_run E config_path address_hex pretty =
     bindM (load_config E config_path) (\<lambda>cfg.
     bindM (parse_address E EXIT_STARTUP_FAIL address_hex) (\<lambda>target.
     bindM (parse_address E EXIT_STARTUP_FAIL (gateway_address cfg)) (\<lambda>gateway_addr.
     bindM (open_rpc E cfg) (\<lambda>_.
     bindM (exit_on EXIT_STARTUP_FAIL (read_roles E (rpc_url cfg) gateway_addr target)) (\<lambda>env.
     emit_envelope roles_data_json pretty env)))))"

section \<open>get-router\<close>

record RouterWeightEntry =
  rw_vault :: string
  rw_weight_bps :: u64

record RouterData =
  rd_address :: string
  rd_weights :: "RouterWeightEntry list"
  rd_router_cap :: DecimalU256

definition router_weight_json :: "RouterWeightEntry \<Rightarrow> json" where
  "router_weight_json w = JObj [(''vault'', JStr (rw_vault w)), (''weight_bps'', JU64 (rw_weight_bps w))]"

definition router_data_json :: "RouterData \<Rightarrow> json" where
  "router_data_json d =
     JObj [(''address'', JStr (rd_address d)), (''weights'', JArr (map router_weight_json (rd_weights d))),
           (''router_cap'', decimal_u256_json (rd_router_cap d))]"

definition call_get_weights :: "env \<Rightarrow> string \<Rightarrow> address \<Rightarrow> string \<Rightarrow> (address list \<times> u256 list) rmpc" where
  "call_get_weights E url router block_tag =
     labelled_view E url router (Some block_tag) RouterGetWeights (dec_weights E) ''getWeights abi decode: ''"

definition call_router_cap :: "env \<Rightarrow> string \<Rightarrow> address \<Rightarrow> string \<Rightarrow> u256 sub" where
  "call_router_cap E url router block_tag = view_at E url router block_tag RouterCap (dec_u256 E)"

definition router_entries :: "env \<Rightarrow> address list \<Rightarrow> u256 list \<Rightarrow> RouterWeightEntry list" where
  "router_entries E vaults bps =
     map (\<lambda>(v, n). \<lparr>rw_vault = show_address E v, rw_weight_bps = saturating_to_u64 n\<rparr>) (zip vaults bps)"

definition read_router :: "env \<Rightarrow> string \<Rightarrow> address \<Rightarrow> RouterData Envelope rmpc" where
  "read_router E url router =
     bindM (pinned_block E url) (\<lambda>(chain_id, block_number).
     let block_tag = hex_tag block_number;
         data = \<lparr>rd_address = show_address E router, rd_weights = [], rd_router_cap = DecimalU256 0\<rparr> in
     bindM (sub_read ''weights'' (with_msg display (call_get_weights E url router block_tag))
              (\<lambda>(vaults, bps) d. d\<lparr>rd_weights := router_entries E vaults bps\<rparr>)
              (builder_new chain_id block_number data)) (\<lambda>b.
     bindM (sub_read ''router_cap'' (call_router_cap E url router block_tag)
              (\<lambda>cap d. d\<lparr>rd_router_cap := DecimalU256 cap\<rparr>) b) (\<lambda>b.
     retM (builder_finish b))))"

definition get_router_run :: "env \<Rightarrow> string \<Rightarrow> bool \<Rightarrow> nat cmd" where
  "get_router_run E config_path pretty =
     bindM (load_config E config_path) (\<lambda>cfg.
     bindM (parse_optional_address E (router_address cfg)) (\<lambda>router_addr.
     bindM (open_rpc E cfg) (\<lambda>_.
     bindM (exit_on EXIT_STARTUP_FAIL (read_router E (rpc_url cfg) router_addr)) (\<lambda>env.
     emit_envelope router_data_json pretty env))))"

section \<open>get-governance\<close>

record GovWeightEntry =
  gw_vault :: string
  gw_bps :: u64

record ProposalSummary =
  ps_id :: string
  ps_proposer :: string
  ps_proposed_vaults :: "string list"
  ps_proposed_bps :: "u64 list"
  ps_voting_deadline :: u64
  ps_executable_after :: u64
  ps_votes_for :: DecimalU256
  ps_executed :: bool

record GovernanceData =
  gov_address :: string
  gov_current_proposal_id :: DecimalU256
  gov_voting_period_secs :: u64
  gov_execution_delay_secs :: u64
  gov_quorum_threshold :: DecimalU256
  gov_total_voting_power :: DecimalU256
  gov_current_weights :: "GovWeightEntry list"
  gov_active_proposal :: "ProposalSummary option"

definition gov_weight_json :: "GovWeightEntry \<Rightarrow> json" where
  "gov_weight_json w = JObj [(''vault'', JStr (gw_vault w)), (''bps'', JU64 (gw_bps w))]"

definition proposal_json :: "ProposalSummary \<Rightarrow> json" where
  "proposal_json p =
     JObj [(''id'', JStr (ps_id p)), (''proposer'', JStr (ps_proposer p)),
           (''proposed_vaults'', JArr (map JStr (ps_proposed_vaults p))),
           (''proposed_bps'', JArr (map JU64 (ps_proposed_bps p))),
           (''voting_deadline'', JU64 (ps_voting_deadline p)), (''executable_after'', JU64 (ps_executable_after p)),
           (''votes_for'', decimal_u256_json (ps_votes_for p)), (''executed'', JBool (ps_executed p))]"

definition governance_data_json :: "GovernanceData \<Rightarrow> json" where
  "governance_data_json d =
     JObj ([(''address'', JStr (gov_address d)), (''current_proposal_id'', decimal_u256_json (gov_current_proposal_id d)),
            (''voting_period_secs'', JU64 (gov_voting_period_secs d)),
            (''execution_delay_secs'', JU64 (gov_execution_delay_secs d)),
            (''quorum_threshold'', decimal_u256_json (gov_quorum_threshold d)),
            (''total_voting_power'', decimal_u256_json (gov_total_voting_power d)),
            (''current_weights'', JArr (map gov_weight_json (gov_current_weights d)))] @
           opt_member ''active_proposal'' proposal_json (gov_active_proposal d))"

definition call_current_proposal_id :: "env \<Rightarrow> string \<Rightarrow> address \<Rightarrow> string \<Rightarrow> u256 rmpc" where
  "call_current_proposal_id E url governance block_tag =
     labelled_view E url governance (Some block_tag) GovCurrentProposalId (dec_u256 E) ''currentProposalId abi decode: ''"

definition call_cadence_params :: "env \<Rightarrow> string \<Rightarrow> address \<Rightarrow> string \<Rightarrow> CadenceParams rmpc" where
  "call_cadence_params E url governance block_tag =
     labelled_view E url governance (Some block_tag) GovCadenceParams (dec_cadence E) ''cadenceParams abi decode: ''"

definition call_current_weights :: "env \<Rightarrow> string \<Rightarrow> address \<Rightarrow> string \<Rightarrow> (address list \<times> u256 list) rmpc" where
  "call_current_weights E url governance block_tag =
     labelled_view E url governance (Some block_tag) GovCurrentWeights (dec_weights E) ''currentWeights abi decode: ''"

definition call_active_proposal :: "env \<Rightarrow> string \<Rightarrow> address \<Rightarrow> string \<Rightarrow> ProposalSummary sub" where
  "call_active_proposal E url governance block_tag =
     bindM (view_at E url governance block_tag GovActiveProposal (dec_proposal E)) (\<lambda>r.
     retM \<lparr>ps_id = show_word (prop_id r), ps_proposer = show_address E (prop_proposer r),
           ps_proposed_vaults = map (show_address E) (prop_vaults r),
           ps_proposed_bps = map saturating_to_u64 (prop_bps r), ps_voting_deadline = prop_votingDeadline r,
           ps_executable_after = prop_executableAfter r, ps_votes_for = DecimalU256 (prop_votesFor r),
           ps_executed = prop_executed r\<rparr>)"

definition governance_entries :: "env \<Rightarrow> address list \<Rightarrow> u256 list \<Rightarrow> GovWeightEntry list" where
  "governance_entries E vaults bps =
     map (\<lambda>(v, n). \<lparr>gw_vault = show_address E v, gw_bps = saturating_to_u64 n\<rparr>) (zip vaults bps)"

definition cadence_fields :: "CadenceParams \<Rightarrow> GovernanceData \<Rightarrow> GovernanceData" where
  "cadence_fields c d =
     d\<lparr>gov_voting_period_secs := votingPeriod c, gov_execution_delay_secs := executionDelay c,
       gov_quorum_threshold := DecimalU256 (quorumThreshold c), gov_total_voting_power := DecimalU256 (totalVotingPower c)\<rparr>"

definition read_governance :: "env \<Rightarrow> string \<Rightarrow> address \<Rightarrow> GovernanceData Envelope rmpc" where
  "read_governance E url governance =
     bindM (pinned_block E url) (\<lambda>(chain_id, block_number).
     let block_tag = hex_tag block_number;
         data = \<lparr>gov_address = show_address E governance, gov_current_proposal_id = DecimalU256 0,
                 gov_voting_period_secs = 0, gov_execution_delay_secs = 0, gov_quorum_threshold = DecimalU256 0,
                 gov_total_voting_power = DecimalU256 0, gov_current_weights = [], gov_active_proposal = None\<rparr> in
     bindM (sub_read_value ''current_proposal_id'' (with_msg display (call_current_proposal_id E url governance block_tag))
              (\<lambda>i d. d\<lparr>gov_current_proposal_id := DecimalU256 i\<rparr>) (builder_new chain_id block_number data)) (\<lambda>(pid, b).
     let proposal_id = (case pid of Some i \<Rightarrow> i | None \<Rightarrow> 0) in
     bindM (sub_read ''cadence_params'' (with_msg display (call_cadence_params E url governance block_tag))
              cadence_fields b) (\<lambda>b.
     bindM (sub_read ''current_weights'' (with_msg display (call_current_weights E url governance block_tag))
              (\<lambda>(vaults, bps) d. d\<lparr>gov_current_weights := governance_entries E vaults bps\<rparr>) b) (\<lambda>b.
     bindM (if proposal_id > 0
            then sub_read ''active_proposal'' (call_active_proposal E url governance block_tag)
                   (\<lambda>p d. d\<lparr>gov_active_proposal := Some p\<rparr>) b
            else retM b) (\<lambda>b.
     retM (builder_finish b))))))"

definition get_governance_run :: "env \<Rightarrow> string \<Rightarrow> bool \<Rightarrow> nat cmd" where
  "get_governance_run E config_path pretty =
     bindM (load_config E config_path) (\<lambda>cfg.
     bindM (parse_optional_address E (governance_address cfg)) (\<lambda>governance_addr.
     bindM (open_rpc E cfg) (\<lambda>_.
     bindM (exit_on EXIT_STARTUP_FAIL (read_governance E (rpc_url cfg) governance_addr)) (\<lambda>env.
     emit_envelope governance_data_json pretty env))))"

section \<open>Lemmas\<close>

lemma gateway_numbers [simp]:
  "u64_numbers (gateway_data_json a)" "u64_numbers (agent_data_json b)" "u64_numbers (roles_data_json c)"
  "u64_numbers (router_data_json d)" "u64_numbers (governance_data_json e)"
  by (auto simp: gateway_data_json_def agent_data_json_def roles_data_json_def role_entry_json_def router_data_json_def
      router_weight_json_def governance_data_json_def gov_weight_json_def proposal_json_def opt_member_def list_all_iff
      split: option.splits)

lemma gateway_calls_pinned [simp]:
  "obeys (asks (asks_at t)) (read_code_hash E url a t b)" "obeys (asks (asks_at t)) (call_view_address E url a t c)"
  "obeys (asks (asks_at t)) (gateway_view_paused E url a t)" "obeys (asks (asks_at t)) (call_agents E url a t g)"
  "obeys (asks (asks_at t)) (call_share_allowance E url a t g h)" "obeys (asks (asks_at t)) (call_window_gross E url a t g i)"
  "obeys (asks (asks_at t)) (read_role_hash E url a t r)" "obeys (asks (asks_at t)) (call_has_role E url a t v g)"
  "obeys (asks (asks_at t)) (call_get_weights E url a t)" "obeys (asks (asks_at t)) (call_router_cap E url a t)"
  "obeys (asks (asks_at t)) (call_current_proposal_id E url a t)" "obeys (asks (asks_at t)) (call_cadence_params E url a t)"
  "obeys (asks (asks_at t)) (call_current_weights E url a t)" "obeys (asks (asks_at t)) (call_active_proposal E url a t)"
  by (auto simp: read_code_hash_def call_view_address_def gateway_view_paused_def call_agents_def call_share_allowance_def
      call_window_gross_def read_role_hash_def call_has_role_def call_get_weights_def call_router_cap_def
      call_current_proposal_id_def call_cadence_params_def call_current_weights_def call_active_proposal_def
      intro!: ak.obeys_bindM split: option.split)

lemma read_role_rows_pinned [simp]: "obeys (asks (asks_at t)) (read_role_rows E url g a t i names b)"
  by (induction names arbitrary: i b) (auto intro!: ak.obeys_bindM split: sum.split)

lemma read_role_rows_header: "header c n b \<Longrightarrow> returns (header c n) (read_role_rows E url g a t i names b)"
proof (induction names arbitrary: i b)
  case (Cons name names)
  show ?case unfolding read_role_rows.simps
    by (rule returns_bindM [OF returns_any], rule returns_bindM [of "header c n"])
       (use Cons in \<open>auto intro!: returns_sub_read split: sum.split\<close>)
qed simp

lemma read_code_hash_header: "header c n b \<Longrightarrow> returns (header c n) (read_code_hash E url a t b)"
  unfolding read_code_hash_def by (auto intro!: returns_bindM [OF returns_any] split: sum.split)

lemma gateway_pinned:
  "pinned_read (read_gateway E cfg g)" "pinned_read (read_agent E url g v a)" "pinned_read (read_roles E url g a)"
  "pinned_read (read_router E url g)" "pinned_read (read_governance E url g)"
  unfolding read_gateway_def read_agent_def read_roles_def read_router_def read_governance_def Let_def
  by (rule pinned_readI;
      auto intro!: ak.obeys_bindM returns_steps read_role_rows_header read_code_hash_header split: option.split)+

lemma gateway_contracts:
  "read_contract p (get_gateway_run E path p)" "read_contract p (get_agent_run E path a p)"
  "read_contract p (get_roles_run E path a p)" "read_contract p (get_router_run E path p)"
  "read_contract p (get_governance_run E path p)"
  unfolding get_gateway_run_def get_agent_run_def get_roles_run_def get_router_run_def get_governance_run_def
  by (intro contract_bindM pinned_contract gateway_pinned; simp)+

lemma gateway_pinned_runs:
  "pinned_run p (get_gateway_run E path p)" "pinned_run p (get_agent_run E path a p)"
  "pinned_run p (get_roles_run E path a p)" "pinned_run p (get_router_run E path p)"
  "pinned_run p (get_governance_run E path p)"
  unfolding get_gateway_run_def get_agent_run_def get_roles_run_def get_router_run_def get_governance_run_def
  by (intro pinned_run_bindM pinned_run_read gateway_pinned; simp)+

text \<open>The answer to the timestamp read of a block.\<close>

definition block_timestamp_answer :: "env \<Rightarrow> string \<Rightarrow> u64 \<Rightarrow> u64 \<Rightarrow> u64 result" where
  "block_timestamp_answer E url n i =
     (case answer E url ''eth_getBlockByNumber'' [PStr (hex_tag n), PBool False] Inr i of
        Inl e \<Rightarrow> Inl e
      | Inr v \<Rightarrow>
          (case json_get ''timestamp'' v of
             Some (JStr ts) \<Rightarrow> map_err (\<lambda>e. ErrRpcDecode (''timestamp hex: '' @ e)) (u64_from_hex (trim_0x ts))
           | _ \<Rightarrow> Inl (ErrRpcDecode ''block has no timestamp'')))"

lemma block_timestamp_eval:
  "rpc_block_timestamp E url n w =
     (block_timestamp_answer E url n (next_id w), asked w ''eth_getBlockByNumber'' [PStr (hex_tag n), PBool False])"
  by (auto simp: rpc_block_timestamp_def block_timestamp_answer_def rpc_call_asked io_eval
      split: sum.split option.split json.split)

lemma with_msg_eval: "with_msg f m w = (case m w of (r, w') \<Rightarrow> (map_err f r, w'))"
  by (auto simp: with_msg_def io_eval split: prod.split sum.split)

definition agent_report :: "env \<Rightarrow> address \<Rightarrow> AgentPolicy \<Rightarrow> u256 \<Rightarrow> u64 \<Rightarrow> u256 \<Rightarrow> AgentData" where
  "agent_report E a t al ts gr =
     \<lparr>ad_agent = show_address E a, ad_active = active t, ad_valid_until = validUntil t,
      ad_max_per_payment = DecimalU256 (maxPerPayment t), ad_max_per_window = DecimalU256 (maxPerWindow t),
      ad_share_receiver = show_address E (shareReceiver t), ad_asset_recipient = show_address E (assetRecipient t),
      ad_max_withdraw_per_payment = DecimalU256 (maxWithdrawPerPayment t),
      ad_max_withdraw_per_window = DecimalU256 (maxWithdrawPerWindow t),
      ad_withdrawals_enabled = (maxWithdrawPerPayment t \<noteq> 0), ad_share_allowance = DecimalU256 al,
      ad_window_id = ts div 86400, ad_window_gross = DecimalU256 gr\<rparr>"

lemma read_agent_clean:
  assumes "read_agent E url g v a w = (Inr e, w')" "\<not> en_partial e"
  shows "\<exists>t al ts gr.
     view_result E url g (hex_tag (en_block_number e)) (GwAgents a) (dec_agents E) (next_id w + 2) = Inr t \<and>
     view_result E url v (hex_tag (en_block_number e)) (Erc20Allowance a g) (dec_u256 E) (next_id w + 3) = Inr al \<and>
     block_timestamp_answer E url (en_block_number e) (next_id w + 4) = Inr ts \<and>
     view_result E url g (hex_tag (en_block_number e)) (GwAgentWindowGross a (ts div 86400)) (dec_u256 E) (next_id w + 5) = Inr gr \<and>
     en_data e = agent_report E a t al ts gr"
proof -
  obtain c n w1 where p: "pinned_block E url w = (Inr (c, n), w1)" using assms(1) by (auto simp: read_agent_def io_simps)
  define P where "P = view_result E url g (hex_tag n) (GwAgents a) (dec_agents E) (next_id w + 2)"
  define A where "A = view_result E url v (hex_tag n) (Erc20Allowance a g) (dec_u256 E) (next_id w + 3)"
  define T where "T = block_timestamp_answer E url n (next_id w + 4)"
  define G where "G ts = view_result E url g (hex_tag n) (GwAgentWindowGross a (ts div 86400)) (dec_u256 E) (next_id w + 5)" for ts
  let ?b2 = "note_result ''share_allowance'' (\<lambda>v d. d\<lparr>ad_share_allowance := DecimalU256 v\<rparr>) A
     (note_result ''agents'' (agent_policy_fields E) P (builder_new c n (agent_data_default (show_address E a))))"
  let ?b3 = "note_result ''window_id'' (\<lambda>ts d. d\<lparr>ad_window_id := ts div 86400\<rparr>)
     (map_err (\<lambda>e. ''eth_getBlockByNumber failed: '' @ display e) T) ?b2"
  have e: "e = builder_finish (case T of Inl _ \<Rightarrow> ?b3
      | Inr ts \<Rightarrow> note_result ''window_gross'' (\<lambda>v d. d\<lparr>ad_window_gross := DecimalU256 v\<rparr>) (G ts) ?b3)"
    using assms(1) p pinned_block_eval(1) [OF p]
    by (auto simp: read_agent_def bindM_eval sub_read_note sub_read_value_note call_agents_def call_share_allowance_def
        call_window_gross_def view_at_eval with_msg_eval block_timestamp_eval P_def A_def T_def G_def Let_def retM_def
        WINDOW_SECONDS_def map_err_def add.assoc split: sum.splits)
  have n: "en_block_number e = n" by (simp add: e split: sum.split)
  from e assms(2) obtain t al ts gr where r: "P = Inr t" "A = Inr al" "T = Inr ts" "G ts = Inr gr"
    by (auto simp: note_result_clean map_err_def split: sum.splits)
  have "en_data e = agent_report E a t al ts gr"
    by (simp add: e r note_result_data map_err_def agent_policy_fields_def agent_data_default_def agent_report_def)
  then show ?thesis using r n by (auto simp: P_def A_def T_def G_def)
qed

section \<open>Properties\<close>

text \<open>
  A complete answer of \<open>get-agent\<close> is the chain's state at one block: when no sub-read failed,
  every field is the value the gateway and the vault returned for the reported block, the window
  is the day of that block's timestamp, and if withdrawals are reported as disabled then the
  withdrawal preflight refuses every positive amount under this policy.
\<close>

theorem get_agent_complete_answer:
  assumes "read_agent E url g v a w = (Inr e, w')" "\<not> en_partial e"
  shows "\<exists>t al ts gr.
     view_result E url g (hex_tag (en_block_number e)) (GwAgents a) (dec_agents E) (next_id w + 2) = Inr t \<and>
     view_result E url v (hex_tag (en_block_number e)) (Erc20Allowance a g) (dec_u256 E) (next_id w + 3) = Inr al \<and>
     block_timestamp_answer E url (en_block_number e) (next_id w + 4) = Inr ts \<and>
     view_result E url g (hex_tag (en_block_number e)) (GwAgentWindowGross a (ts div 86400)) (dec_u256 E) (next_id w + 5) = Inr gr \<and>
     en_data e = agent_report E a t al ts gr \<and>
     (ad_withdrawals_enabled (en_data e) \<or>
        (\<forall>E' p amt sn. sn_agent sn = t \<and> 0 < amt \<longrightarrow> \<not> withdraw_admissible E' p amt sn))"
proof -
  have "\<not> withdraw_admissible E' p amt sn"
    if "maxWithdrawPerPayment (sn_agent sn) = 0" "0 < amt" for E' p amt sn
    using that by (auto simp: withdraw_admissible_def within_caps_def)
  then show ?thesis using read_agent_clean [OF assms] by (fastforce simp: agent_report_def)
qed

definition stamp_env :: env where
  "stamp_env = demo_env\<lparr>json_response := (\<lambda>b. Inr \<lparr>resp_result =
     Some (if b = [0] then JObj [(''timestamp'', JStr ''0x15180'')] else JNum (uint (hd b))), resp_error = None\<rparr>)\<rparr>"

theorem get_agent_complete_answer_witness:
  "\<exists>e w'. read_agent stamp_env [] 1 3 8 world0 = (Inr e, w') \<and> \<not> en_partial e \<and> ad_window_id (en_data e) = 1 \<and>
     ad_max_withdraw_per_payment (en_data e) = DecimalU256 60"
proof -
  have p: "pinned_block stamp_env [] world0 = (Inr (31337, 7), asked (asked world0 ''eth_chainId'' []) ''eth_blockNumber'' [])"
    by (simp add: pinned_block_def rpc_chain_id_def rpc_block_number_def rpc_call_asked io_eval answer_def decode_reply_def
        is_success_def request_def stamp_env_def demo_env_def demo_body_def Let_def)
  have v: "view_result stamp_env [] to t (GwAgents x) (dec_agents stamp_env) i = Inr demo_policy"
    "view_result stamp_env [] to t (Erc20Allowance x y) (dec_u256 stamp_env) i = Inr 1000"
    "view_result stamp_env [] to t (GwAgentWindowGross x k) (dec_u256 stamp_env) i = Inr 1000" for to t x y k i
    by (simp_all add: view_result_def answer_def decode_reply_def is_success_def stamp_env_def demo_env_def demo_body_def
        request_def view_request_def map_err_def)
  have t: "block_timestamp_answer stamp_env [] n i = Inr 86400" for n i
    by (simp add: block_timestamp_answer_def answer_def decode_reply_def is_success_def stamp_env_def demo_env_def
        demo_body_def request_def map_err_def json_get_def u64_from_hex_def hex_digit_def)
  have run: "\<exists>e w'. read_agent stamp_env [] 1 3 8 world0 = (Inr e, w') \<and> \<not> en_partial e"
    by (simp add: read_agent_def p bindM_eval sub_read_note sub_read_value_note call_agents_def call_share_allowance_def
        call_window_gross_def view_at_eval with_msg_eval block_timestamp_eval v t Let_def retM_def map_err_def
        note_result_clean)
  then obtain e w' where e: "read_agent stamp_env [] 1 3 8 world0 = (Inr e, w')" "\<not> en_partial e" by blast
  then show ?thesis
    using get_agent_complete_answer [OF e] by (auto simp: v t agent_report_def demo_policy_def)
qed

end
