(* ===== verification/Read_Vault.thy ===== *)
theory Read_Vault
  imports Read_Output
begin

text \<open>
  The vault reads (\<open>commands/get_vault.rs\<close>, \<open>commands/get_vaults.rs\<close>): the pinned vault of the
  configuration, one vault of the registry, and the list of all registered vaults, each with its
  live accounting, and the share price computed from it in saturating 256-bit arithmetic.
\<close>

section \<open>get-vault\<close>

record VaultNotes =
  note_deposit_cap :: string
  note_paused :: string
  note_shutdown :: string
  note_adapters :: string
  note_fees :: string

definition vault_notes_default :: VaultNotes where
  "vault_notes_default =
     \<lparr>note_deposit_cap = ''not_onchain'', note_paused = ''not_onchain'', note_shutdown = ''not_onchain'',
      note_adapters = ''not_onchain'', note_fees = ''not_onchain''\<rparr>"

record VaultData =
  vd_address :: string
  vd_gateway_vault :: string
  vd_asset :: string
  vd_name :: string
  vd_symbol :: string
  vd_decimals :: u8
  vd_total_assets :: DecimalU256
  vd_total_supply :: DecimalU256
  vd_share_price :: "string option"
  vd_notes :: VaultNotes

record RegistryVaultData =
  rv_address :: string
  rv_name :: string
  rv_risk_label :: string
  rv_mandate :: string
  rv_status :: string
  rv_receipt_token_address :: string
  rv_deposit_cap :: DecimalU256
  rv_exit_fee_bps :: u16
  rv_registered_at :: u64
  rv_total_assets :: DecimalU256
  rv_total_supply :: DecimalU256
  rv_share_price :: "string option"
  rv_asset :: string
  rv_decimals :: u8

definition opt_string_json :: "string option \<Rightarrow> json" where
  "opt_string_json v = (case v of None \<Rightarrow> JNull | Some s \<Rightarrow> JStr s)"

definition vault_notes_json :: "VaultNotes \<Rightarrow> json" where
  "vault_notes_json n =
     JObj [(''deposit_cap'', JStr (note_deposit_cap n)), (''paused'', JStr (note_paused n)),
           (''shutdown'', JStr (note_shutdown n)), (''adapters'', JStr (note_adapters n)), (''fees'', JStr (note_fees n))]"

definition vault_data_json :: "VaultData \<Rightarrow> json" where
  "vault_data_json d =
     JObj [(''address'', JStr (vd_address d)), (''gateway_vault'', JStr (vd_gateway_vault d)), (''asset'', JStr (vd_asset d)),
           (''name'', JStr (vd_name d)), (''symbol'', JStr (vd_symbol d)), (''decimals'', JNum (uint (vd_decimals d))),
           (''total_assets'', decimal_u256_json (vd_total_assets d)), (''total_supply'', decimal_u256_json (vd_total_supply d)),
           (''share_price'', opt_string_json (vd_share_price d)), (''notes'', vault_notes_json (vd_notes d))]"

definition registry_vault_json :: "RegistryVaultData \<Rightarrow> json" where
  "registry_vault_json d =
     JObj [(''address'', JStr (rv_address d)), (''name'', JStr (rv_name d)), (''risk_label'', JStr (rv_risk_label d)),
           (''mandate'', JStr (rv_mandate d)), (''status'', JStr (rv_status d)),
           (''receipt_token_address'', JStr (rv_receipt_token_address d)),
           (''deposit_cap'', decimal_u256_json (rv_deposit_cap d)), (''exit_fee_bps'', JNum (uint (rv_exit_fee_bps d))),
           (''registered_at'', JU64 (rv_registered_at d)), (''total_assets'', decimal_u256_json (rv_total_assets d)),
           (''total_supply'', decimal_u256_json (rv_total_supply d)), (''share_price'', opt_string_json (rv_share_price d)),
           (''asset'', JStr (rv_asset d)), (''decimals'', JNum (uint (rv_decimals d)))]"

definition status_to_str :: "u8 \<Rightarrow> string" where
  "status_to_str s =
     (if s = 0 then ''active'' else if s = 1 then ''paused'' else if s = 2 then ''retired'' else ''unknown'')"

definition compute_share_price :: "u256 \<Rightarrow> u256 \<Rightarrow> u8 \<Rightarrow> string option" where
  "compute_share_price total_assets total_supply decimals =
     (if total_supply = 0 then None
      else let scale = 10 ^ unat decimals;
               numerator = saturating_mul total_assets scale;
               price = numerator div total_supply
           in Some (show_word price))"

definition call_vault_addr :: "env \<Rightarrow> string \<Rightarrow> address \<Rightarrow> string \<Rightarrow> address sub" where
  "call_vault_addr E url gateway block_tag = view_at E url gateway block_tag GwVault (dec_address E)"

definition call_asset :: "env \<Rightarrow> string \<Rightarrow> address \<Rightarrow> string \<Rightarrow> address sub" where
  "call_asset E url vault block_tag = view_at E url vault block_tag VaultAsset (dec_address E)"

definition call_decimals :: "env \<Rightarrow> string \<Rightarrow> address \<Rightarrow> string \<Rightarrow> u8 sub" where
  "call_decimals E url vault block_tag = view_at E url vault block_tag VaultDecimals (dec_u8 E)"

definition call_string :: "env \<Rightarrow> string \<Rightarrow> address \<Rightarrow> string \<Rightarrow> sol_call \<Rightarrow> string sub" where
  "call_string E url vault block_tag call = view_at E url vault block_tag call (dec_string E)"

definition call_u256_view :: "env \<Rightarrow> string \<Rightarrow> address \<Rightarrow> string \<Rightarrow> sol_call \<Rightarrow> u256 sub" where
  "call_u256_view E url vault block_tag call = view_at E url vault block_tag call (dec_u256 E)"

definition vault_get_vault :: "env \<Rightarrow> string \<Rightarrow> address \<Rightarrow> address \<Rightarrow> string \<Rightarrow> VaultRecord rmpc" where
  "vault_get_vault E url registry vault block_tag =
     labelled_view E url registry (Some block_tag) (RegGetVault vault) (dec_vault_record E) ''getVault abi decode: ''"

definition read_vault :: "env \<Rightarrow> string \<Rightarrow> address \<Rightarrow> address \<Rightarrow> VaultData Envelope rmpc" where
  "read_vault E url gateway vault =
     bindM (pinned_block E url) (\<lambda>(chain_id, block_number).
     let block_tag = hex_tag block_number;
         data = \<lparr>vd_address = show_address E vault, vd_gateway_vault = [], vd_asset = [], vd_name = [], vd_symbol = [],
                 vd_decimals = 0, vd_total_assets = DecimalU256 0, vd_total_supply = DecimalU256 0,
                 vd_share_price = None, vd_notes = vault_notes_default\<rparr> in
     bindM (sub_read ''gateway_vault'' (call_vault_addr E url gateway block_tag)
              (\<lambda>a d. d\<lparr>vd_gateway_vault := show_address E a\<rparr>) (builder_new chain_id block_number data)) (\<lambda>b.
     bindM (sub_read ''asset'' (call_asset E url vault block_tag) (\<lambda>a d. d\<lparr>vd_asset := show_address E a\<rparr>) b) (\<lambda>b.
     bindM (sub_read ''name'' (call_string E url vault block_tag VaultName) (\<lambda>s d. d\<lparr>vd_name := s\<rparr>) b) (\<lambda>b.
     bindM (sub_read ''symbol'' (call_string E url vault block_tag VaultSymbol) (\<lambda>s d. d\<lparr>vd_symbol := s\<rparr>) b) (\<lambda>b.
     bindM (sub_read ''decimals'' (call_decimals E url vault block_tag) (\<lambda>n d. d\<lparr>vd_decimals := n\<rparr>) b) (\<lambda>b.
     bindM (sub_read_value ''total_assets'' (call_u256_view E url vault block_tag VaultTotalAssets)
              (\<lambda>v d. d\<lparr>vd_total_assets := DecimalU256 v\<rparr>) b) (\<lambda>(total_assets, b).
     bindM (sub_read_value ''total_supply'' (call_u256_view E url vault block_tag VaultTotalSupply)
              (\<lambda>v d. d\<lparr>vd_total_supply := DecimalU256 v\<rparr>) b) (\<lambda>(total_supply, b).
     let b = (case (total_assets, total_supply) of
                (Some ta, Some ts) \<Rightarrow> data_mut (\<lambda>d. d\<lparr>vd_share_price := compute_share_price ta ts (vd_decimals d)\<rparr>) b
              | _ \<Rightarrow> b) in
     retM (builder_finish b)))))))))"

definition read_vault_from_registry :: "env \<Rightarrow> string \<Rightarrow> address \<Rightarrow> address \<Rightarrow> RegistryVaultData Envelope rmpc" where
  "read_vault_from_registry E url registry vault =
     bindM (pinned_block E url) (\<lambda>(chain_id, block_number).
     let block_tag = hex_tag block_number in
     bindM (vault_get_vault E url registry vault block_tag) (\<lambda>record.
     let data = \<lparr>rv_address = show_address E vault, rv_name = vr_name record, rv_risk_label = vr_riskLabel record,
                 rv_mandate = vr_mandate record, rv_status = status_to_str (vr_status record),
                 rv_receipt_token_address = show_address E (vr_receiptToken record),
                 rv_deposit_cap = DecimalU256 (vr_depositCap record), rv_exit_fee_bps = vr_exitFeeBps record,
                 rv_registered_at = vr_registeredAt record, rv_total_assets = DecimalU256 0,
                 rv_total_supply = DecimalU256 0, rv_share_price = None, rv_asset = [], rv_decimals = 0\<rparr> in
     bindM (sub_read ''asset'' (call_asset E url vault block_tag) (\<lambda>a d. d\<lparr>rv_asset := show_address E a\<rparr>)
              (builder_new chain_id block_number data)) (\<lambda>b.
     bindM (sub_read ''decimals'' (call_decimals E url vault block_tag) (\<lambda>n d. d\<lparr>rv_decimals := n\<rparr>) b) (\<lambda>b.
     bindM (sub_read_value ''total_assets'' (call_u256_view E url vault block_tag VaultTotalAssets)
              (\<lambda>v d. d\<lparr>rv_total_assets := DecimalU256 v\<rparr>) b) (\<lambda>(total_assets, b).
     bindM (sub_read_value ''total_supply'' (call_u256_view E url vault block_tag VaultTotalSupply)
              (\<lambda>v d. d\<lparr>rv_total_supply := DecimalU256 v\<rparr>) b) (\<lambda>(total_supply, b).
     let b = (case (total_assets, total_supply) of
                (Some ta, Some ts) \<Rightarrow> data_mut (\<lambda>d. d\<lparr>rv_share_price := compute_share_price ta ts (rv_decimals d)\<rparr>) b
              | _ \<Rightarrow> b) in
     retM (builder_finish b)))))))"

definition get_vault_run :: "env \<Rightarrow> string \<Rightarrow> string option \<Rightarrow> bool \<Rightarrow> nat cmd" where
  "get_vault_run E config_path addr pretty =
     bindM (load_config E config_path) (\<lambda>cfg.
     bindM (open_rpc E cfg) (\<lambda>_.
     case addr of
       Some addr_str \<Rightarrow>
         bindM (parse_address E EXIT_STARTUP_FAIL addr_str) (\<lambda>vault_addr.
         bindM (parse_optional_address E (registry_address cfg)) (\<lambda>registry_addr.
         bindM (exit_on EXIT_STARTUP_FAIL (read_vault_from_registry E (rpc_url cfg) registry_addr vault_addr)) (\<lambda>env.
         emit_envelope registry_vault_json pretty env)))
     | None \<Rightarrow>
         bindM (parse_address E EXIT_STARTUP_FAIL (gateway_address cfg)) (\<lambda>gateway_addr.
         bindM (parse_address E EXIT_STARTUP_FAIL (vault_address cfg)) (\<lambda>vault_addr.
         bindM (exit_on EXIT_STARTUP_FAIL (read_vault E (rpc_url cfg) gateway_addr vault_addr)) (\<lambda>env.
         emit_envelope vault_data_json pretty env)))))"

section \<open>get-vaults\<close>

record VaultEntry =
  ve_address :: string
  ve_name :: string
  ve_risk_label :: string
  ve_status :: string
  ve_total_assets :: DecimalU256
  ve_deposit_cap :: DecimalU256
  ve_exit_fee_bps :: u16
  ve_receipt_token_address :: string

record GetVaultsData =
  gv_registry :: string
  gv_vaults :: "VaultEntry list"

definition vault_entry_json :: "VaultEntry \<Rightarrow> json" where
  "vault_entry_json v =
     JObj [(''address'', JStr (ve_address v)), (''name'', JStr (ve_name v)), (''risk_label'', JStr (ve_risk_label v)),
           (''status'', JStr (ve_status v)), (''total_assets'', decimal_u256_json (ve_total_assets v)),
           (''deposit_cap'', decimal_u256_json (ve_deposit_cap v)), (''exit_fee_bps'', JNum (uint (ve_exit_fee_bps v))),
           (''receipt_token_address'', JStr (ve_receipt_token_address v))]"

definition get_vaults_json :: "GetVaultsData \<Rightarrow> json" where
  "get_vaults_json d = JObj [(''registry'', JStr (gv_registry d)), (''vaults'', JArr (map vault_entry_json (gv_vaults d)))]"

definition vault_status_to_str :: "u8 \<Rightarrow> string" where
  "vault_status_to_str s =
     (if s = 0 then ''active'' else if s = 1 then ''paused'' else if s = 2 then ''retired'' else ''unknown'')"

definition call_list_vaults :: "env \<Rightarrow> string \<Rightarrow> address \<Rightarrow> string \<Rightarrow> address list rmpc" where
  "call_list_vaults E url registry block_tag =
     labelled_view E url registry (Some block_tag) RegListVaults (dec_address_list E) ''listVaults abi decode: ''"

definition vaults_get_vault :: "env \<Rightarrow> string \<Rightarrow> address \<Rightarrow> address \<Rightarrow> string \<Rightarrow> VaultRecord rmpc" where
  "vaults_get_vault E url registry vault block_tag =
     labelled_view E url registry (Some block_tag) (RegGetVault vault) (dec_vault_record E) ''getVault abi decode: ''"

definition call_total_assets :: "env \<Rightarrow> string \<Rightarrow> address \<Rightarrow> string \<Rightarrow> u256 sub" where
  "call_total_assets E url vault block_tag = view_at E url vault block_tag VaultTotalAssets (dec_u256 E)"

definition vault_entry :: "env \<Rightarrow> address \<Rightarrow> VaultRecord option \<Rightarrow> u256 \<Rightarrow> VaultEntry" where
  "vault_entry E vault_addr record total_assets =
     (case record of
        Some rec \<Rightarrow>
          \<lparr>ve_address = show_address E vault_addr, ve_name = vr_name rec, ve_risk_label = vr_riskLabel rec,
           ve_status = vault_status_to_str (vr_status rec), ve_total_assets = DecimalU256 total_assets,
           ve_deposit_cap = DecimalU256 (vr_depositCap rec), ve_exit_fee_bps = vr_exitFeeBps rec,
           ve_receipt_token_address = show_address E (vr_receiptToken rec)\<rparr>
      | None \<Rightarrow>
          \<lparr>ve_address = show_address E vault_addr, ve_name = [], ve_risk_label = [], ve_status = [],
           ve_total_assets = DecimalU256 total_assets, ve_deposit_cap = DecimalU256 0, ve_exit_fee_bps = 0,
           ve_receipt_token_address = []\<rparr>)"

fun read_vault_rows ::
    "env \<Rightarrow> string \<Rightarrow> address \<Rightarrow> string \<Rightarrow> nat \<Rightarrow> address list \<Rightarrow> GetVaultsData PartialBuilder \<Rightarrow>
     (world, 'e, GetVaultsData PartialBuilder) io" where
  "read_vault_rows E url registry block_tag i [] b = retM b"
| "read_vault_rows E url registry block_tag i (vault_addr # vault_addrs) b =
     (let field = ''vaults['' @ show_nat i @ '']'' in
      bindM (sub_read_value (field @ ''.registry_record'')
               (with_msg display (vaults_get_vault E url registry vault_addr block_tag)) (\<lambda>_ d. d) b) (\<lambda>(record, b).
      bindM (sub_read_value (field @ ''.total_assets'') (call_total_assets E url vault_addr block_tag) (\<lambda>_ d. d) b) (\<lambda>(ta, b).
      let total_assets = (case ta of Some v \<Rightarrow> v | None \<Rightarrow> 0);
          entry = vault_entry E vault_addr record total_assets in
      read_vault_rows E url registry block_tag (Suc i) vault_addrs
        (data_mut (\<lambda>d. d\<lparr>gv_vaults := gv_vaults d @ [entry]\<rparr>) b))))"

definition read_vaults :: "env \<Rightarrow> string \<Rightarrow> address \<Rightarrow> GetVaultsData Envelope rmpc" where
  "read_vaults E url registry =
     bindM (pinned_block E url) (\<lambda>(chain_id, block_number).
     let block_tag = hex_tag block_number in
     bindM (call_list_vaults E url registry block_tag) (\<lambda>vault_addrs.
     let data = \<lparr>gv_registry = show_address E registry, gv_vaults = []\<rparr> in
     bindM (read_vault_rows E url registry block_tag 0 vault_addrs (builder_new chain_id block_number data)) (\<lambda>b.
     retM (builder_finish b))))"

definition get_vaults_run :: "env \<Rightarrow> string \<Rightarrow> bool \<Rightarrow> nat cmd" where
  "get_vaults_run E config_path pretty =
     bindM (load_config E config_path) (\<lambda>cfg.
     bindM (parse_optional_address E (registry_address cfg)) (\<lambda>registry_addr.
     bindM (open_rpc E cfg) (\<lambda>_.
     bindM (exit_on EXIT_STARTUP_FAIL (read_vaults E (rpc_url cfg) registry_addr)) (\<lambda>env.
     emit_envelope get_vaults_json pretty env))))"

section \<open>Lemmas\<close>

lemma vault_numbers [simp]:
  "u64_numbers (vault_data_json a)" "u64_numbers (registry_vault_json b)" "u64_numbers (get_vaults_json c)"
  by (simp_all add: vault_data_json_def registry_vault_json_def get_vaults_json_def vault_entry_json_def
      vault_notes_json_def opt_string_json_def list_all_iff split: option.split)

lemma vault_calls_pinned [simp]:
  "obeys (asks (asks_at t)) (call_vault_addr E url a t)" "obeys (asks (asks_at t)) (call_asset E url a t)"
  "obeys (asks (asks_at t)) (call_decimals E url a t)" "obeys (asks (asks_at t)) (call_string E url a t c)"
  "obeys (asks (asks_at t)) (call_u256_view E url a t c)" "obeys (asks (asks_at t)) (vault_get_vault E url a v t)"
  "obeys (asks (asks_at t)) (call_list_vaults E url a t)" "obeys (asks (asks_at t)) (vaults_get_vault E url a v t)"
  "obeys (asks (asks_at t)) (call_total_assets E url a t)"
  by (simp_all add: call_vault_addr_def call_asset_def call_decimals_def call_string_def call_u256_view_def
      vault_get_vault_def call_list_vaults_def vaults_get_vault_def call_total_assets_def)

lemma read_vault_rows_pinned [simp]: "obeys (asks (asks_at t)) (read_vault_rows E url r t i vs b)"
  by (induction vs arbitrary: i b) (auto simp: Let_def intro!: ak.obeys_bindM)

lemma read_vault_rows_header: "header c n b \<Longrightarrow> returns (header c n) (read_vault_rows E url r t i vs b)"
proof (induction vs arbitrary: i b)
  case (Cons v vs)
  then show ?case
    by (auto simp: Let_def intro!: returns_bindM [OF returns_sub_read(2) [of c n]])
qed simp

lemma vault_pinned:
  "pinned_read (read_vault E url g v)" "pinned_read (read_vault_from_registry E url g v)" "pinned_read (read_vaults E url g)"
  unfolding read_vault_def read_vault_from_registry_def read_vaults_def Let_def
  by (rule pinned_readI;
      auto intro!: ak.obeys_bindM returns_steps read_vault_rows_header
        returns_bindM [OF returns_any [of "vault_get_vault E url g v t" for t]]
        returns_bindM [OF returns_any [of "call_list_vaults E url g t" for t]] split: option.split)+

lemma vault_contracts:
  "read_contract p (get_vault_run E path a p)" "read_contract p (get_vaults_run E path p)"
  unfolding get_vault_run_def get_vaults_run_def
  by (auto intro!: contract_bindM pinned_contract vault_pinned split: option.split)

lemma vault_pinned_runs:
  "pinned_run p (get_vault_run E path a p)" "pinned_run p (get_vaults_run E path p)"
  unfolding get_vault_run_def get_vaults_run_def
  by (auto intro!: pinned_run_bindM pinned_run_read vault_pinned split: option.split)

lemma unat_ten_power: "k \<le> 77 \<Longrightarrow> unat (10 ^ k :: u256) = 10 ^ k"
proof -
  assume "k \<le> 77"
  then have "(10 :: nat) ^ k \<le> 10 ^ 77" by (rule power_increasing) simp
  also have "\<dots> < 2 ^ 256" by simp
  finally have "unat (of_nat (10 ^ k) :: u256) = 10 ^ k"
    by (simp add: unsigned_of_nat take_bit_nat_eq_self del: of_nat_power)
  then show ?thesis by simp
qed

text \<open>The rows of a listing: one per address, in order, and every error names one of them.\<close>

definition row_path :: "nat \<Rightarrow> string \<Rightarrow> string" where
  "row_path k member = ''vaults['' @ show_nat k @ '']'' @ member"

definition row_field :: "nat \<Rightarrow> nat \<Rightarrow> string \<Rightarrow> bool" where
  "row_field i n f \<longleftrightarrow>
     (\<exists>k. i \<le> k \<and> k < i + n \<and> (f = row_path k ''.registry_record'' \<or> f = row_path k ''.total_assets''))"

lemma row_field_Suc: "row_field (Suc i) n f \<Longrightarrow> row_field i (Suc n) f"
  unfolding row_field_def by (metis Suc_leD add_Suc add_Suc_right)

lemma row_field_first: "row_field i (Suc n) (row_path i ''.registry_record'')" "row_field i (Suc n) (row_path i ''.total_assets'')"
  unfolding row_field_def by (rule exI [of _ i], simp)+

lemma vault_entry_address [simp]: "ve_address (vault_entry E a r t) = show_address E a"
  by (simp add: vault_entry_def split: option.split)

lemma read_vault_rows_Inr:
  assumes "(read_vault_rows E url r t i vs b :: (world, 'e, GetVaultsData PartialBuilder) io) w = (Inr b', w')"
  shows "\<exists>rows errs. pb_data b' = (pb_data b)\<lparr>gv_vaults := gv_vaults (pb_data b) @ rows\<rparr> \<and>
           pb_errors b' = pb_errors b @ errs \<and> map ve_address rows = map (show_address E) vs \<and>
           (\<forall>e \<in> set errs. row_field i (length vs) (fe_field e))"
  using assms
proof (induction vs arbitrary: i b w)
  case (Cons v vs)
  from Cons.prems obtain r1 w1 r2 w2 where
    rec: "with_msg display (vaults_get_vault E url r v t) w = (r1, w1)" and ta: "call_total_assets E url v t w1 = (r2, w2)"
    by (metis surj_pair)
  define b2 where "b2 = note_result (row_path i ''.total_assets'') (\<lambda>_ d. d) r2 (note_result (row_path i ''.registry_record'') (\<lambda>_ d. d) r1 b)"
  define entry where "entry = vault_entry E v (case r1 of Inr x \<Rightarrow> Some x | Inl e \<Rightarrow> None)
    (case (case r2 of Inr x \<Rightarrow> Some x | Inl e \<Rightarrow> None) of Some x \<Rightarrow> x | None \<Rightarrow> 0)"
  have "(read_vault_rows E url r t (Suc i) vs (data_mut (\<lambda>d. d\<lparr>gv_vaults := gv_vaults d @ [entry]\<rparr>) b2) ::
      (world, 'e, GetVaultsData PartialBuilder) io) w2 = (Inr b', w')"
    using Cons.prems
    by (simp add: Let_def bindM_eval sub_read_value_note rec ta b2_def entry_def row_path_def)
  from Cons.IH [OF this] obtain rows errs where ih:
    "pb_data b' = (pb_data b2)\<lparr>gv_vaults := gv_vaults (pb_data b2) @ entry # rows\<rparr>" "pb_errors b' = pb_errors b2 @ errs"
    "map ve_address rows = map (show_address E) vs" "\<forall>e \<in> set errs. row_field (Suc i) (length vs) (fe_field e)"
    by auto
  obtain es where es: "pb_errors b2 = pb_errors b @ es" "\<forall>e \<in> set es. row_field i (Suc (length vs)) (fe_field e)"
    by (cases r1; cases r2) (auto simp: b2_def note_result_def row_field_first)
  have "pb_data b2 = pb_data b" by (cases r1; cases r2) (simp_all add: b2_def note_result_def)
  then show ?case using ih es row_field_Suc
    by (intro exI [of _ "entry # rows"] exI [of _ "es @ errs"]) (auto simp: entry_def)
qed (auto simp: io_simps intro!: exI [of _ "[]"])

lemma read_vault_rows_returns: "\<not> read_vault_rows E url r t i vs b w = (Inl e, w')"
  by (induction vs arbitrary: i b w) (auto simp: Let_def io_simps sub_read_value_eval split: prod.splits sum.splits)

lemma read_vaults_returns:
  assumes "pinned_block E url w = (Inr (c, n), w1)"
    and "labelled_result E url r (hex_tag n) RegListVaults (dec_address_list E) ''listVaults abi decode: '' (next_id w1) = Inr vs"
  shows "\<exists>e w'. read_vaults E url r w = (Inr e, w')"
proof (cases "read_vaults E url r w")
  case (Pair q w')
  have "\<not> read_vaults E url r w = (Inl x, w')" for x
    using assms read_vault_rows_returns
    by (simp add: read_vaults_def Let_def io_simps call_list_vaults_def labelled_view_eval)
  then show ?thesis using Pair by (cases q) auto
qed

section \<open>Properties\<close>

text \<open>
  For a vault with at most 77 decimals the share price is undefined exactly when there are no
  shares, and otherwise it is the assets scaled by the power of ten, capped at the largest 256-bit
  value, divided by the supply and printed in decimal.
\<close>

theorem share_price_exact:
  assumes "decimals \<le> 77"
  shows "compute_share_price total_assets total_supply decimals =
     (if total_supply = 0 then None
      else Some (show_nat (min (unat total_assets * 10 ^ unat decimals) (2 ^ 256 - 1) div unat total_supply)))"
proof -
  have "unat decimals \<le> 77" using assms by (simp add: word_le_nat_alt)
  from unat_ten_power [OF this] show ?thesis
    by (simp add: compute_share_price_def Let_def show_word_def unat_div unat_saturating_mul)
qed

theorem share_price_exact_witness:
  "compute_share_price 2000000 1000000 6 = Some (show_nat 2000000)"
  using share_price_exact [of 6 2000000 1000000] by simp

text \<open>
  With more decimals the power of ten itself wraps around before the saturating product: at 255
  decimals one asset per share is priced at half the range, not at its top.
\<close>

theorem share_price_scale_wraps:
  "compute_share_price 1 1 255 = Some (show_word (2 ^ 255 :: u256))"
proof -
  have "(of_int (10 ^ 255) :: u256) = of_int (2 ^ 255)"
    by (simp only: word_of_int_eq_iff take_bit_eq_mod) simp
  then have "(10 :: u256) ^ 255 = 2 ^ 255" by (simp only: of_int_power of_int_numeral)
  moreover have "unat (255 :: u8) = 255" by simp
  ultimately show ?thesis
    unfolding compute_share_price_def Let_def by (simp only: saturating_mul_def) simp
qed

text \<open>
  A vault listing that is printed has one row for every address the registry listed, in the
  registry's order, whatever failed on the way; each field error names the registry record or the
  total assets of one of these rows.
\<close>

theorem get_vaults_lists_every_vault:
  assumes "read_vaults E url registry w = (Inr e, w')"
  shows "\<exists>vs. labelled_result E url registry (hex_tag (en_block_number e)) RegListVaults (dec_address_list E)
             ''listVaults abi decode: '' (next_id w + 2) = Inr vs \<and>
           map ve_address (gv_vaults (en_data e)) = map (show_address E) vs \<and>
           (\<forall>err \<in> set (en_errors e). row_field 0 (length vs) (fe_field err))"
proof -
  obtain c n w1 vs w2 b where p: "pinned_block E url w = (Inr (c, n), w1)"
    and l: "call_list_vaults E url registry (hex_tag n) w1 = (Inr vs, w2)"
    and rows: "(read_vault_rows E url registry (hex_tag n) 0 vs
      (builder_new c n \<lparr>gv_registry = show_address E registry, gv_vaults = []\<rparr>) :: GetVaultsData PartialBuilder rmpc) w2 = (Inr b, w')"
    and e: "e = builder_finish b"
    using assms by (auto simp: read_vaults_def Let_def io_simps)
  have n: "en_block_number e = n" using returnsD [OF read_vault_rows_header rows, of c n] e by (simp add: header_def)
  have "labelled_result E url registry (hex_tag n) RegListVaults (dec_address_list E) ''listVaults abi decode: '' (next_id w + 2) = Inr vs"
    using l pinned_block_eval(1) [OF p] by (simp add: call_list_vaults_def labelled_view_eval)
  then show ?thesis using read_vault_rows_Inr [OF rows] e n by auto
qed

theorem get_vaults_lists_every_vault_witness:
  "\<exists>e w'. read_vaults demo_env [] 1 world0 = (Inr e, w') \<and>
     map ve_address (gv_vaults (en_data e)) = [show_word (3 :: address), show_word (13 :: address)]"
proof -
  have l: "labelled_result demo_env [] 1 t RegListVaults (dec_address_list demo_env) m i = Inr [3, 13]" for t m i
    by (simp add: labelled_result_def answer_def decode_reply_def is_success_def demo_env_def demo_body_def request_def
        view_request_def map_err_def)
  obtain e w' where run: "read_vaults demo_env [] 1 world0 = (Inr e, w')"
    using read_vaults_returns [OF demo_pinned_block l] by blast
  have sh: "show_address demo_env = show_word" by (simp add: demo_env_def)
  show ?thesis using get_vaults_lists_every_vault [OF run] run by (simp add: l sh)
qed

end
