(* ===== verification/Read_Timelock.thy ===== *)
theory Read_Timelock
  imports Read_Output
begin

text \<open>
  The timelock read (\<open>commands/get_timelock.rs\<close>): minimum delay, the members of the proposer and
  executor roles reconstructed from the grant and revoke logs, and the scheduled operations that
  are still pending. The iteration order of the hash set of operation ids is the parameter
  \<open>hashset_iter\<close>.
\<close>

section \<open>Definitions\<close>

definition DONE_TIMESTAMP :: u64 where
  "DONE_TIMESTAMP = 1"

record PendingOp =
  po_operation_id :: string
  po_ready_timestamp :: u64

record TimelockData =
  tl_address :: string
  tl_min_delay_secs :: u64
  tl_proposers :: "string list"
  tl_executors :: "string list"
  tl_pending_ops :: "PendingOp list"

definition pending_op_json :: "PendingOp \<Rightarrow> json" where
  "pending_op_json p =
     JObj [(''operation_id'', JStr (po_operation_id p)), (''ready_timestamp'', JU64 (po_ready_timestamp p))]"

definition timelock_data_json :: "TimelockData \<Rightarrow> json" where
  "timelock_data_json d =
     JObj [(''address'', JStr (tl_address d)), (''min_delay_secs'', JU64 (tl_min_delay_secs d)),
           (''proposers'', JArr (map JStr (tl_proposers d))), (''executors'', JArr (map JStr (tl_executors d))),
           (''pending_ops'', JArr (map pending_op_json (tl_pending_ops d)))]"

definition call_get_min_delay :: "env \<Rightarrow> string \<Rightarrow> address \<Rightarrow> string \<Rightarrow> u64 rmpc" where
  "call_get_min_delay E url timelock block_tag =
     bindM (labelled_view E url timelock (Some block_tag) TlGetMinDelay (dec_u256 E) ''getMinDelay abi decode: '') (\<lambda>r.
     retM (saturating_to_u64 r))"

definition call_proposer_role :: "env \<Rightarrow> string \<Rightarrow> address \<Rightarrow> string \<Rightarrow> b256 rmpc" where
  "call_proposer_role E url timelock block_tag =
     labelled_view E url timelock (Some block_tag) TlProposerRole (dec_b256 E) ''PROPOSER_ROLE abi decode: ''"

definition call_executor_role :: "env \<Rightarrow> string \<Rightarrow> address \<Rightarrow> string \<Rightarrow> b256 rmpc" where
  "call_executor_role E url timelock block_tag =
     labelled_view E url timelock (Some block_tag) TlExecutorRole (dec_b256 E) ''EXECUTOR_ROLE abi decode: ''"

definition call_get_timestamp :: "env \<Rightarrow> string \<Rightarrow> address \<Rightarrow> string \<Rightarrow> b256 \<Rightarrow> u64 rmpc" where
  "call_get_timestamp E url timelock block_tag i =
     bindM (labelled_view E url timelock (Some block_tag) (TlGetTimestamp i) (dec_u256 E) ''getTimestamp abi decode: '') (\<lambda>r.
     retM (saturating_to_u64 r))"

definition timelock_filter :: "address \<Rightarrow> string \<Rightarrow> b256 list \<Rightarrow> LogFilter" where
  "timelock_filter timelock block_tag topics =
     \<lparr>flt_address = timelock, flt_from_block = ''earliest'', flt_to_block = block_tag, flt_topics = topics\<rparr>"

text \<open>\<open>log.topics.get(2)\<close>, then the last 20 of its 32 bytes.\<close>

definition topic_account :: "RawLog \<Rightarrow> address option" where
  "topic_account l = (if 2 < length (raw_topics l) then Some (ucast (raw_topics l ! 2)) else None)"

fun insert_accounts :: "RawLog list \<Rightarrow> address set \<Rightarrow> address set" where
  "insert_accounts [] members = members"
| "insert_accounts (l # ls) members =
     insert_accounts ls (case topic_account l of Some a \<Rightarrow> insert a members | None \<Rightarrow> members)"

fun remove_accounts :: "RawLog list \<Rightarrow> address set \<Rightarrow> address set" where
  "remove_accounts [] members = members"
| "remove_accounts (l # ls) members =
     remove_accounts ls (case topic_account l of Some a \<Rightarrow> members - {a} | None \<Rightarrow> members)"

definition role_members :: "RawLog list \<Rightarrow> RawLog list \<Rightarrow> address list" where
  "role_members granted_logs revoked_logs =
     sorted_list_of_set (remove_accounts revoked_logs (insert_accounts granted_logs {}))"

definition fetch_role_members :: "env \<Rightarrow> string \<Rightarrow> address \<Rightarrow> b256 \<Rightarrow> b256 \<Rightarrow> b256 \<Rightarrow> string \<Rightarrow> address list sub" where
  "fetch_role_members E url timelock role granted_topic0 revoked_topic0 block_tag =
     bindM (with_msg (\<lambda>e. ''eth_getLogs(RoleGranted) failed: '' @ display e)
              (rpc_get_logs E url (timelock_filter timelock block_tag [granted_topic0, role]))) (\<lambda>granted_logs.
     bindM (with_msg (\<lambda>e. ''eth_getLogs(RoleRevoked) failed: '' @ display e)
              (rpc_get_logs E url (timelock_filter timelock block_tag [revoked_topic0, role]))) (\<lambda>revoked_logs.
     retM (role_members granted_logs revoked_logs)))"

fun pending_loop :: "env \<Rightarrow> string \<Rightarrow> address \<Rightarrow> string \<Rightarrow> b256 list \<Rightarrow> PendingOp list \<Rightarrow> (world, 'e, PendingOp list) io" where
  "pending_loop E url timelock block_tag [] pending = retM pending"
| "pending_loop E url timelock block_tag (op_id # ops) pending =
     bindM (attempt (call_get_timestamp E url timelock block_tag op_id)) (\<lambda>r.
     let ts = (case r of Inr t \<Rightarrow> t | Inl _ \<Rightarrow> 0) in
     pending_loop E url timelock block_tag ops
       (if ts > DONE_TIMESTAMP
        then pending @ [\<lparr>po_operation_id = show_b256 E op_id, po_ready_timestamp = ts\<rparr>] else pending))"

definition scheduled_ids :: "RawLog list \<Rightarrow> b256 set" where
  "scheduled_ids logs = set (map (\<lambda>l. raw_topics l ! 1) (filter (\<lambda>l. 1 < length (raw_topics l)) logs))"

definition fetch_pending_ops :: "env \<Rightarrow> string \<Rightarrow> address \<Rightarrow> b256 \<Rightarrow> string \<Rightarrow> PendingOp list sub" where
  "fetch_pending_ops E url timelock scheduled_topic0 block_tag =
     bindM (with_msg (\<lambda>e. ''eth_getLogs(CallScheduled) failed: '' @ display e)
              (rpc_get_logs E url (timelock_filter timelock block_tag [scheduled_topic0]))) (\<lambda>logs.
     bindM (pending_loop E url timelock block_tag (hashset_iter E (scheduled_ids logs)) []) (\<lambda>pending.
     retM (sort_key po_ready_timestamp pending)))"

definition read_timelock :: "env \<Rightarrow> string \<Rightarrow> address \<Rightarrow> TimelockData Envelope rmpc" where
  "read_timelock E url timelock =
     bindM (pinned_block E url) (\<lambda>(chain_id, block_number).
     let block_tag = hex_tag block_number;
         data = \<lparr>tl_address = show_address E timelock, tl_min_delay_secs = 0, tl_proposers = [], tl_executors = [],
                 tl_pending_ops = []\<rparr>;
         granted_topic0 = keccak256 E (str_bytes ''RoleGranted(bytes32,address,address)'');
         revoked_topic0 = keccak256 E (str_bytes ''RoleRevoked(bytes32,address,address)'');
         scheduled_topic0 =
           keccak256 E (str_bytes ''CallScheduled(bytes32,uint256,address,uint256,bytes,bytes32,uint256)'') in
     bindM (sub_read ''min_delay'' (with_msg display (call_get_min_delay E url timelock block_tag))
              (\<lambda>s d. d\<lparr>tl_min_delay_secs := s\<rparr>) (builder_new chain_id block_number data)) (\<lambda>b.
     bindM (sub_read_value ''proposer_role'' (with_msg display (call_proposer_role E url timelock block_tag)) (\<lambda>_ d. d) b)
       (\<lambda>(proposer_role, b).
     bindM (sub_read_value ''executor_role'' (with_msg display (call_executor_role E url timelock block_tag)) (\<lambda>_ d. d) b)
       (\<lambda>(executor_role, b).
     bindM (case proposer_role of
              Some pr \<Rightarrow> sub_read ''proposers'' (fetch_role_members E url timelock pr granted_topic0 revoked_topic0 block_tag)
                          (\<lambda>ms d. d\<lparr>tl_proposers := map (show_address E) ms\<rparr>) b
            | None \<Rightarrow> retM b) (\<lambda>b.
     bindM (case executor_role of
              Some er \<Rightarrow> sub_read ''executors'' (fetch_role_members E url timelock er granted_topic0 revoked_topic0 block_tag)
                          (\<lambda>ms d. d\<lparr>tl_executors := map (show_address E) ms\<rparr>) b
            | None \<Rightarrow> retM b) (\<lambda>b.
     bindM (sub_read ''pending_ops'' (fetch_pending_ops E url timelock scheduled_topic0 block_tag)
              (\<lambda>ops d. d\<lparr>tl_pending_ops := ops\<rparr>) b) (\<lambda>b.
     retM (builder_finish b))))))))"

definition get_timelock_run :: "env \<Rightarrow> string \<Rightarrow> bool \<Rightarrow> nat cmd" where
  "get_timelock_run E config_path pretty =
     bindM (load_config E config_path) (\<lambda>cfg.
     bindM (parse_optional_address E (timelock_address cfg)) (\<lambda>timelock_addr.
     bindM (open_rpc E cfg) (\<lambda>_.
     bindM (exit_on EXIT_STARTUP_FAIL (read_timelock E (rpc_url cfg) timelock_addr)) (\<lambda>env.
     emit_envelope timelock_data_json pretty env))))"

section \<open>Lemmas\<close>

lemma timelock_numbers [simp]: "u64_numbers (timelock_data_json d)"
  by (simp add: timelock_data_json_def pending_op_json_def list_all_iff)

lemma timelock_calls_pinned [simp]:
  "obeys (asks (asks_at t)) (call_get_min_delay E url a t)" "obeys (asks (asks_at t)) (call_proposer_role E url a t)"
  "obeys (asks (asks_at t)) (call_executor_role E url a t)" "obeys (asks (asks_at t)) (call_get_timestamp E url a t i)"
  "obeys (asks (asks_at t)) (fetch_role_members E url a r g v t)"
  by (auto simp: call_get_min_delay_def call_proposer_role_def call_executor_role_def call_get_timestamp_def
      fetch_role_members_def timelock_filter_def intro!: ak.obeys_bindM)

lemma pending_loop_pinned [simp]: "obeys (asks (asks_at t)) (pending_loop E url a t ops ps)"
  by (induction ops arbitrary: ps) (auto simp: Let_def intro!: ak.obeys_bindM)

lemma pending_ops_pinned [simp]: "obeys (asks (asks_at t)) (fetch_pending_ops E url a s t)"
  by (auto simp: fetch_pending_ops_def timelock_filter_def intro!: ak.obeys_bindM)

lemma read_timelock_pinned: "pinned_read (read_timelock E url a)"
  unfolding read_timelock_def
  by (rule pinned_readI)
     (auto simp: Let_def intro!: ak.obeys_bindM returns_steps split: option.split)

lemma get_timelock_contract: "read_contract p (get_timelock_run E path p)"
  unfolding get_timelock_run_def by (intro contract_bindM pinned_contract read_timelock_pinned) auto

lemma get_timelock_pinned_run: "pinned_run p (get_timelock_run E path p)"
  unfolding get_timelock_run_def by (intro pinned_run_bindM pinned_run_read read_timelock_pinned) auto

text \<open>A role's history on chain, oldest event first, and the accounts that hold it at the end.\<close>

datatype role_event = Granted address | Revoked address

fun apply_role_event :: "address set \<Rightarrow> role_event \<Rightarrow> address set" where
  "apply_role_event s (Granted a) = insert a s"
| "apply_role_event s (Revoked a) = s - {a}"

definition role_holders :: "role_event list \<Rightarrow> address set" where
  "role_holders hist = foldl apply_role_event {} hist"

text \<open>The two log queries return one log per grant and per revocation.\<close>

fun grants :: "role_event list \<Rightarrow> address list" where
  "grants [] = []"
| "grants (Granted a # es) = a # grants es"
| "grants (Revoked a # es) = grants es"

fun revocations :: "role_event list \<Rightarrow> address list" where
  "revocations [] = []"
| "revocations (Granted a # es) = revocations es"
| "revocations (Revoked a # es) = a # revocations es"

lemma insert_accounts_eq: "map topic_account ls = map Some as \<Longrightarrow> insert_accounts ls s = s \<union> set as"
  by (induction ls arbitrary: as s) (auto simp: Cons_eq_map_conv)

lemma remove_accounts_eq: "map topic_account ls = map Some as \<Longrightarrow> remove_accounts ls s = s - set as"
  by (induction ls arbitrary: as s) (auto simp: Cons_eq_map_conv)

lemma foldl_role_events:
  "foldl apply_role_event s es \<subseteq> s \<union> set (grants es)"
  "(s \<union> set (grants es)) - set (revocations es) \<subseteq> foldl apply_role_event s es"
proof (induction es arbitrary: s)
  case (Cons e es)
  { case 1 show ?case using Cons.IH(1) [of "apply_role_event s e"] by (cases e) auto }
  { case 2 show ?case using Cons.IH(2) [of "apply_role_event s e"] by (cases e) auto }
qed auto

lemma role_members_holders:
  assumes "map topic_account gl = map Some (grants hist)" "map topic_account rl = map Some (revocations hist)"
  shows "role_members gl rl = sorted_list_of_set (role_holders hist - set (revocations hist))"
proof -
  have "set (grants hist) - set (revocations hist) = role_holders hist - set (revocations hist)"
    using foldl_role_events [of "{}" hist] by (auto simp: role_holders_def)
  then show ?thesis
    by (simp add: role_members_def insert_accounts_eq [OF assms(1)] remove_accounts_eq [OF assms(2)])
qed

lemma finite_role_holders [simp]: "finite (role_holders hist)"
  using foldl_role_events(1) [of "{}" hist] by (simp add: role_holders_def finite_subset)

text \<open>The answer to a \<open>getTimestamp\<close> read.\<close>

definition timestamp_answer :: "env \<Rightarrow> string \<Rightarrow> address \<Rightarrow> string \<Rightarrow> b256 \<Rightarrow> u64 \<Rightarrow> u64 result" where
  "timestamp_answer E url timelock tag op i =
     (case labelled_result E url timelock tag (TlGetTimestamp op) (dec_u256 E) ''getTimestamp abi decode: '' i of
        Inl e \<Rightarrow> Inl e | Inr v \<Rightarrow> Inr (saturating_to_u64 v))"

lemma get_timestamp_eval:
  "call_get_timestamp E url a tag op w =
     (timestamp_answer E url a tag op (next_id w), asked w ''eth_call'' [PCall (view_request E a (TlGetTimestamp op)), PStr tag])"
  by (auto simp: call_get_timestamp_def labelled_view_eval timestamp_answer_def io_eval split: sum.split)

definition pending_entry :: "env \<Rightarrow> b256 \<Rightarrow> u64 result \<Rightarrow> PendingOp list" where
  "pending_entry E op r =
     (case r of Inl _ \<Rightarrow> [] | Inr t \<Rightarrow> if 1 < t then [\<lparr>po_operation_id = show_b256 E op, po_ready_timestamp = t\<rparr>] else [])"

lemma set_pending_entry:
  "x \<in> set (pending_entry E op r) \<longleftrightarrow>
     (\<exists>t. r = Inr t \<and> 1 < t \<and> x = \<lparr>po_operation_id = show_b256 E op, po_ready_timestamp = t\<rparr>)"
  by (auto simp: pending_entry_def split: sum.split)

lemma pending_loop_eval:
  "\<exists>w'. pending_loop E url a tag ops ps w =
     (Inr (ps @ concat (map (\<lambda>(k, op). pending_entry E op (timestamp_answer E url a tag op (next_id w + of_nat k)))
        (enumerate 0 ops))), w')"
proof (induction ops arbitrary: ps w)
  case (Cons op ops)
  let ?r = "timestamp_answer E url a tag op (next_id w)"
  let ?w1 = "asked w ''eth_call'' [PCall (view_request E a (TlGetTimestamp op)), PStr tag]"
  have step: "pending_loop E url a tag (op # ops) ps w = pending_loop E url a tag ops (ps @ pending_entry E op ?r) ?w1"
    by (auto simp: bindM_eval attempt_eval get_timestamp_eval Let_def pending_entry_def DONE_TIMESTAMP_def split: sum.split)
  have shift: "concat (map (\<lambda>(k, p). pending_entry E p (timestamp_answer E url a tag p (next_id w + of_nat k))) (enumerate (Suc 0) ops)) =
      concat (map (\<lambda>(k, p). pending_entry E p (timestamp_answer E url a tag p (next_id ?w1 + of_nat k))) (enumerate 0 ops))"
    by (simp add: enumerate_Suc_eq [of 0] comp_def case_prod_unfold ac_simps)
  show ?case using Cons.IH [of "ps @ pending_entry E op ?r" ?w1]
    by (simp add: step shift del: pending_loop.simps)
qed (simp add: retM_def)

section \<open>Properties\<close>

text \<open>
  The members \<open>get-timelock\<close> prints for a role are the accounts that hold it at the end of its
  on-chain history and were never revoked: the list is sorted, but an account that was revoked
  once and granted the role again is missing from it, so it is the set of current holders exactly
  when no holder was ever revoked.
\<close>

theorem timelock_members_miss_regranted:
  assumes "answer E url ''eth_getLogs'' [PFilter (timelock_filter timelock tag [granted, role])] (json_raw_logs E) (next_id w) = Inr gl"
    and "answer E url ''eth_getLogs'' [PFilter (timelock_filter timelock tag [revoked, role])] (json_raw_logs E) (next_id w + 1) = Inr rl"
    and "map topic_account gl = map Some (grants hist)" "map topic_account rl = map Some (revocations hist)"
  shows "\<exists>ms w'. fetch_role_members E url timelock role granted revoked tag w = (Inr ms, w') \<and>
           sorted ms \<and> set ms = role_holders hist - set (revocations hist) \<and>
           (set ms = role_holders hist \<longleftrightarrow> role_holders hist \<inter> set (revocations hist) = {})"
proof -
  have "fst (fetch_role_members E url timelock role granted revoked tag w) =
      Inr (sorted_list_of_set (role_holders hist - set (revocations hist)))"
    using assms(1,2) role_members_holders [OF assms(3,4)]
    by (simp add: fetch_role_members_def with_msg_def get_logs_eval io_eval)
  then obtain w' where run: "fetch_role_members E url timelock role granted revoked tag w =
      (Inr (sorted_list_of_set (role_holders hist - set (revocations hist))), w')" by (metis prod.collapse)
  have "set (sorted_list_of_set (role_holders hist - set (revocations hist))) = role_holders hist - set (revocations hist)"
    by simp
  then show ?thesis using run by (metis Diff_triv Diff_disjoint Int_commute sorted_list_of_set(2))
qed

definition regrant_log :: RawLog where
  "regrant_log = \<lparr>raw_address = 6, raw_topics = [1, 3, 5], raw_data = [], raw_block_number = 1, raw_transaction_hash = 0\<rparr>"

definition regrant_env :: env where
  "regrant_env = demo_env
     \<lparr>http_post := (\<lambda>_ r. HttpReply 200 (case rpc_params r of [PFilter f] \<Rightarrow> [if flt_topics f = [1, 3] then 1 else 2] | _ \<Rightarrow> [0])),
      json_raw_logs := (\<lambda>v. Inr (if v = JNum 1 then [regrant_log, regrant_log] else [regrant_log]))\<rparr>"

theorem timelock_members_miss_regranted_witness:
  "\<exists>ms w'. fetch_role_members regrant_env [] 6 3 1 2 ''latest'' world0 = (Inr ms, w') \<and> sorted ms \<and>
     set ms = role_holders [Granted 5, Revoked 5, Granted 5] - {5} \<and> role_holders [Granted 5, Revoked 5, Granted 5] = {5}"
proof -
  have a: "answer regrant_env [] ''eth_getLogs'' [PFilter (timelock_filter 6 ''latest'' [1, 3])] (json_raw_logs regrant_env) i =
      Inr [regrant_log, regrant_log]"
    "answer regrant_env [] ''eth_getLogs'' [PFilter (timelock_filter 6 ''latest'' [2, 3])] (json_raw_logs regrant_env) i =
      Inr [regrant_log]" for i
    by (simp_all add: answer_def decode_reply_def is_success_def regrant_env_def demo_env_def request_def timelock_filter_def
        map_err_def)
  show ?thesis
    using timelock_members_miss_regranted [of regrant_env "[]" 6 "''latest''" 1 3 world0 "[regrant_log, regrant_log]" 2
        "[regrant_log]" "[Granted 5, Revoked 5, Granted 5]", OF a]
    by (auto simp: regrant_log_def topic_account_def role_holders_def)
qed

text \<open>
  Once the log query for scheduled operations has answered, \<open>get-timelock\<close> lists exactly the
  operations whose own timestamp read succeeded with a value above the done mark, in ascending
  order of the time they become executable. An operation whose timestamp cannot be read is left
  out without a field error: the query as a whole still succeeds.
\<close>

theorem pending_ops_drop_unreadable:
  assumes "answer E url ''eth_getLogs'' [PFilter (timelock_filter timelock tag [topic0])] (json_raw_logs E) (next_id w) = Inr logs"
  shows "\<exists>ops w'. fetch_pending_ops E url timelock topic0 tag w = (Inr ops, w') \<and>
           sorted (map po_ready_timestamp ops) \<and>
           set ops = {\<lparr>po_operation_id = show_b256 E op, po_ready_timestamp = t\<rparr> | op t k.
             (k, op) \<in> set (enumerate 0 (hashset_iter E (scheduled_ids logs))) \<and>
             timestamp_answer E url timelock tag op (next_id w + 1 + of_nat k) = Inr t \<and> 1 < t}"
proof -
  let ?ids = "enumerate 0 (hashset_iter E (scheduled_ids logs))"
  let ?w1 = "asked w ''eth_getLogs'' [PFilter (timelock_filter timelock tag [topic0])]"
  let ?ps = "concat (map (\<lambda>(k, op). pending_entry E op (timestamp_answer E url timelock tag op (next_id ?w1 + of_nat k))) ?ids)"
  obtain w' where "(pending_loop E url timelock tag (hashset_iter E (scheduled_ids logs)) [] :: PendingOp list sub) ?w1 = (Inr ?ps, w')"
    using pending_loop_eval [of E url timelock tag "hashset_iter E (scheduled_ids logs)" "[]" ?w1] by auto
  then have run: "fetch_pending_ops E url timelock topic0 tag w = (Inr (sort_key po_ready_timestamp ?ps), w')"
    using assms by (simp add: fetch_pending_ops_def with_msg_def get_logs_eval io_eval)
  have "set ?ps = {\<lparr>po_operation_id = show_b256 E op, po_ready_timestamp = t\<rparr> | op t k. (k, op) \<in> set ?ids \<and>
             timestamp_answer E url timelock tag op (next_id w + 1 + of_nat k) = Inr t \<and> 1 < t}"
    by (auto simp: set_pending_entry)
  then show ?thesis using run by (intro exI conjI) (assumption, simp, simp)
qed

definition schedule_env :: env where
  "schedule_env = demo_env\<lparr>json_raw_logs := (\<lambda>_. Inr [regrant_log])\<rparr>"

theorem pending_ops_drop_unreadable_witness:
  "\<exists>ops w'. fetch_pending_ops schedule_env [] 6 9 ''latest'' world0 = (Inr ops, w') \<and>
     set ops = {\<lparr>po_operation_id = show_word (3 :: b256), po_ready_timestamp = 1000\<rparr>}"
proof -
  have a: "answer schedule_env [] ''eth_getLogs'' [PFilter (timelock_filter 6 ''latest'' [9])] (json_raw_logs schedule_env) i =
      Inr [regrant_log]" for i
    by (simp add: answer_def decode_reply_def is_success_def schedule_env_def demo_env_def request_def map_err_def)
  have ids: "hashset_iter schedule_env (scheduled_ids [regrant_log]) = [3]"
    by (simp add: schedule_env_def demo_env_def scheduled_ids_def regrant_log_def)
  have t: "timestamp_answer schedule_env [] 6 ''latest'' 3 i = Inr 1000" for i
    by (simp add: timestamp_answer_def labelled_result_def answer_def decode_reply_def is_success_def schedule_env_def
        demo_env_def demo_body_def request_def view_request_def map_err_def saturating_to_u64_def)
  have sh: "show_b256 schedule_env = show_word" by (simp add: schedule_env_def demo_env_def)
  show ?thesis
    using pending_ops_drop_unreadable [of schedule_env "[]" 6 "''latest''" 9 world0 "[regrant_log]", OF a]
    by (auto simp: ids t sh)
qed

end
