(* ===== verification/Audit_Sink.thy ===== *)
theory Audit_Sink
  imports Command Demo_Env
begin

text \<open>
  The audit file (\<open>logging.rs\<close>): opening it, appending one line per audit record, and the
  size-based rotation that renames \<open>audit.log\<close> to \<open>audit.log.1\<close>, \<open>audit.log.1\<close> to \<open>audit.log.2\<close>
  and so on. The log directory maps names to files and the sink keeps an open handle, which follows
  a file through a rename. Every file-system call may fail. The second part states what the sink is
  for, a bounded log of segments, and shows that on a working file system the file operations
  implement it.
\<close>

section \<open>Definitions\<close>

definition AUDIT_LOG_FILENAME :: string where
  "AUDIT_LOG_FILENAME = ''audit.log''"

record log_fs =
  lf_names :: "string \<rightharpoonup> nat"
  lf_data :: "nat \<Rightarrow> string"
  lf_next :: nat
  lf_ops :: nat

record AuditSink =
  as_path :: string
  as_file :: nat
  as_rotate_size_bytes :: u64
  as_keep_files :: u32

type_synonym 'a lio = "(log_fs, io_error, 'a) io"

text \<open>The calls of the standard library the sink uses.\<close>

definition log_op :: "env \<Rightarrow> fs_op \<Rightarrow> string \<Rightarrow> unit lio" where
  "log_op E op path = (\<lambda>fs.
     (case fs_fault E (lf_ops fs) op path of Some e \<Rightarrow> Inl e | None \<Rightarrow> Inr (), fs\<lparr>lf_ops := Suc (lf_ops fs)\<rparr>))"

definition open_append :: "env \<Rightarrow> string \<Rightarrow> nat lio" where
  "open_append E path =
     bindM (log_op E OpOpen path) (\<lambda>_.
     bindM (getM (\<lambda>fs. (lf_names fs path, lf_next fs))) (\<lambda>(present, fresh).
     case present of
       Some ino \<Rightarrow> retM ino
     | None \<Rightarrow>
         bindM (modifyM (\<lambda>fs. fs\<lparr>lf_names := (lf_names fs)(path \<mapsto> fresh), lf_data := (lf_data fs)(fresh := []),
                  lf_next := Suc fresh\<rparr>)) (\<lambda>_.
         retM fresh)))"

definition not_found :: "string \<Rightarrow> io_error" where
  "not_found path = IoError OtherKind (path @ '': No such file or directory (os error 2)'')"

definition remove_file :: "env \<Rightarrow> string \<Rightarrow> unit lio" where
  "remove_file E path =
     bindM (log_op E OpRemove path) (\<lambda>_.
     bindM (getM (\<lambda>fs. lf_names fs path)) (\<lambda>present.
     if present = None then failM (not_found path)
     else modifyM (\<lambda>fs. fs\<lparr>lf_names := (lf_names fs)(path := None)\<rparr>)))"

definition rename_file :: "env \<Rightarrow> string \<Rightarrow> string \<Rightarrow> unit lio" where
  "rename_file E from to =
     bindM (log_op E OpRename from) (\<lambda>_.
     bindM (getM (\<lambda>fs. lf_names fs from)) (\<lambda>present.
     case present of
       None \<Rightarrow> failM (not_found from)
     | Some ino \<Rightarrow> modifyM (\<lambda>fs. fs\<lparr>lf_names := (lf_names fs)(from := None, to \<mapsto> ino)\<rparr>)))"

definition file_exists :: "env \<Rightarrow> string \<Rightarrow> bool lio" where
  "file_exists E path =
     handleM (bindM (log_op E OpStat path) (\<lambda>_. getM (\<lambda>fs. lf_names fs path \<noteq> None))) (\<lambda>_. retM False)"

text \<open>\<open>let _ = \<dots>\<close>\<close>

definition ignore :: "unit lio \<Rightarrow> unit lio" where
  "ignore m = handleM m (\<lambda>_. retM ())"

text \<open>A failed write may have written a prefix.\<close>

definition write_handle :: "env \<Rightarrow> string \<Rightarrow> nat \<Rightarrow> string \<Rightarrow> unit lio" where
  "write_handle E path ino text = (\<lambda>fs.
     case log_op E OpWrite path fs of
       (Inl e, fs') \<Rightarrow>
         (Inl e, fs'\<lparr>lf_data := (lf_data fs')(ino := lf_data fs' ino @ take (write_progress E (lf_ops fs)) text)\<rparr>)
     | (Inr _, fs') \<Rightarrow> (Inr (), fs'\<lparr>lf_data := (lf_data fs')(ino := lf_data fs' ino @ text)\<rparr>))"

definition rolled :: "AuditSink \<Rightarrow> nat \<Rightarrow> string" where
  "rolled s i = as_path s @ ''.'' @ show_nat i"

definition sink_open :: "env \<Rightarrow> string \<Rightarrow> u32 \<Rightarrow> u32 \<Rightarrow> AuditSink lio" where
  "sink_open E dir size_mb keep =
     bindM (log_op E OpCreateDir dir) (\<lambda>_.
     let path = path_join dir AUDIT_LOG_FILENAME in
     bindM (open_append E path) (\<lambda>ino.
     retM \<lparr>as_path = path, as_file = ino, as_rotate_size_bytes = ucast size_mb * 1024 * 1024,
           as_keep_files = keep\<rparr>))"

text \<open>\<open>for i in (1..keep_files).rev()\<close>, from \<open>i\<close> down to 1.\<close>

fun shift_files :: "env \<Rightarrow> AuditSink \<Rightarrow> nat \<Rightarrow> unit lio" where
  "shift_files E s 0 = retM ()"
| "shift_files E s (Suc i) =
     bindM (file_exists E (rolled s (Suc i))) (\<lambda>present.
     bindM (if present then ignore (rename_file E (rolled s (Suc i)) (rolled s (Suc (Suc i)))) else retM ()) (\<lambda>_.
     shift_files E s i))"

definition sink_rotate :: "env \<Rightarrow> AuditSink \<Rightarrow> AuditSink lio" where
  "sink_rotate E s =
     (let keep = unat (as_keep_files s) in
      bindM (if keep > 0
             then bindM (ignore (remove_file E (rolled s keep))) (\<lambda>_.
                  bindM (shift_files E s (keep - 1)) (\<lambda>_.
                  rename_file E (as_path s) (rolled s 1)))
             else remove_file E (as_path s)) (\<lambda>_.
      bindM (open_append E (as_path s)) (\<lambda>ino.
      retM (s\<lparr>as_file := ino\<rparr>))))"

definition write_line :: "env \<Rightarrow> AuditSink \<Rightarrow> string \<Rightarrow> AuditSink lio" where
  "write_line E s line =
     bindM (ignore (write_handle E (as_path s) (as_file s) (line @ [CHR 0x0A]))) (\<lambda>_.
     bindM (ignore (log_op E OpFlush (as_path s))) (\<lambda>_.
     bindM (handleM (bindM (log_op E OpStat (as_path s)) (\<lambda>_. getM (\<lambda>fs. Some (length (lf_data fs (as_file s))))))
              (\<lambda>_. retM None)) (\<lambda>len.
     case len of
       None \<Rightarrow> retM s
     | Some n \<Rightarrow>
         if n > unat (as_rotate_size_bytes s) then handleM (sink_rotate E s) (\<lambda>_. retM s) else retM s)))"

text \<open>
  The process-global logger state: whether the diagnostic logger was started, and the sink.
\<close>

record log_state =
  logger_started :: bool
  audit_sink :: "AuditSink option"
  log_files :: log_fs

definition logging_init :: "env \<Rightarrow> LogConfig \<Rightarrow> log_state \<Rightarrow> (string + string) \<times> log_state" where
  "logging_init E cfg st =
     (if logger_started st then (Inr (log_dir cfg), st)
      else case log_op E OpCreateDir (log_dir cfg) (log_files st) of
        (Inl e, fs) \<Rightarrow>
          (Inl (''logging: failed to create log dir '' @ log_dir cfg @ '': '' @ io_text e), st\<lparr>log_files := fs\<rparr>)
      | (Inr _, fs) \<Rightarrow>
          if \<not> level_filter_ok E (log_level cfg)
          then (Inl (''logging: invalid level '' @ [CHR 0x22] @ log_level cfg @ [CHR 0x22] @
                  '' (try one of error/warn/info/debug/trace)''), st\<lparr>log_files := fs\<rparr>)
          else case flexi_logger_start E cfg of
            Inl e \<Rightarrow> (Inl (''logging: flexi_logger start: '' @ e), st\<lparr>log_files := fs\<rparr>)
          | Inr _ \<Rightarrow>
              (case sink_open E (log_dir cfg) (rotate_size_mb cfg) (keep_files cfg) fs of
                 (Inl e, fs') \<Rightarrow>
                   (Inl (''logging: open audit log: '' @ io_text e), st\<lparr>logger_started := True, log_files := fs'\<rparr>)
               | (Inr s, fs') \<Rightarrow>
                   (Inr (log_dir cfg), st\<lparr>logger_started := True, audit_sink := Some s, log_files := fs'\<rparr>)))"

definition default_log_dir :: "(string \<rightharpoonup> string) \<Rightarrow> string" where
  "default_log_dir vars =
     (case vars ''XDG_STATE_HOME'' of
        Some (c # cs) \<Rightarrow> path_join (c # cs) ''rust-payment-client/logs''
      | _ \<Rightarrow>
          (case vars ''HOME'' of
             Some (c # cs) \<Rightarrow> path_join (c # cs) ''.local/state/rust-payment-client/logs''
           | _ \<Rightarrow> ''./rust-payment-client-logs''))"

text \<open>\<open>record_audit\<close>: the line goes to the sink when there is one.\<close>

definition sink_record :: "env \<Rightarrow> AuditRecord \<Rightarrow> log_state \<Rightarrow> log_state" where
  "sink_record E rec st =
     (case audit_to_json E rec of
        Inl _ \<Rightarrow> st
      | Inr json \<Rightarrow>
          (case audit_sink st of
             None \<Rightarrow> st
           | Some s \<Rightarrow>
               (case write_line E s json (log_files st) of
                  (Inl _, fs) \<Rightarrow> st\<lparr>log_files := fs\<rparr>
                | (Inr s', fs) \<Rightarrow> st\<lparr>audit_sink := Some s', log_files := fs\<rparr>)))"

section \<open>The bounded log\<close>

text \<open>
  The specification: a list of closed segments, newest first, of which only \<open>keep\<close> are kept, and
  the active segment; a line is appended to the active segment, which is closed when it has grown
  over the limit.
\<close>

type_synonym bounded_log = "string option list \<times> string"

definition bounded_write :: "nat \<Rightarrow> nat \<Rightarrow> string \<Rightarrow> bounded_log \<Rightarrow> bounded_log" where
  "bounded_write limit keep line lg =
     (case lg of (segs, act) \<Rightarrow>
        let act' = act @ line @ [CHR 0x0A] in
        if limit < length act' then (take keep (Some act' # segs), []) else (segs, act'))"

definition retained :: "bounded_log \<Rightarrow> string" where
  "retained lg = concat (rev (map (case_option [] id) (fst lg))) @ snd lg"

text \<open>The log that the files hold.\<close>

definition log_of :: "AuditSink \<Rightarrow> log_fs \<Rightarrow> bounded_log" where
  "log_of s fs =
     (map (\<lambda>i. map_option (lf_data fs) (lf_names fs (rolled s i))) [1..<Suc (unat (as_keep_files s))],
      lf_data fs (as_file s))"

text \<open>The handle is the file named \<open>audit.log\<close> and none of the rolled ones; new files are new.\<close>

definition sink_ok :: "AuditSink \<Rightarrow> log_fs \<Rightarrow> bool" where
  "sink_ok s fs \<longleftrightarrow>
     lf_names fs (as_path s) = Some (as_file s) \<and>
     (\<forall>i. lf_names fs (rolled s i) \<noteq> Some (as_file s)) \<and>
     (\<forall>p i. lf_names fs p = Some i \<longrightarrow> i < lf_next fs)"

definition works :: "env \<Rightarrow> bool" where
  "works E \<longleftrightarrow> (\<forall>k op p. fs_fault E k op p = None)"

section \<open>Lemmas\<close>

lemma rolled_inj [simp]: "rolled s i = rolled s j \<longleftrightarrow> i = j"
  using show_nat_inj by (auto simp: rolled_def)

lemma rolled_not_path [simp]: "rolled s i \<noteq> as_path s" "as_path s \<noteq> rolled s i"
  by (simp_all add: rolled_def)

lemma rolled_handle [simp]: "rolled (s\<lparr>as_file := k\<rparr>) i = rolled s i"
  by (simp add: rolled_def)

lemma log_op_works: "works E \<Longrightarrow> log_op E op p fs = (Inr (), fs\<lparr>lf_ops := Suc (lf_ops fs)\<rparr>)"
  by (simp add: log_op_def works_def)

lemma rename_works:
  "works E \<Longrightarrow> lf_names fs a = Some i \<Longrightarrow>
     rename_file E a b fs = (Inr (), fs\<lparr>lf_ops := Suc (lf_ops fs), lf_names := (lf_names fs)(a := None, b \<mapsto> i)\<rparr>)"
  by (simp add: rename_file_def log_op_works io_eval)

lemma shift_step:
  assumes "works E" "lf_names fs (rolled s (Suc (Suc n))) = None"
  shows "\<exists>k. shift_files E s (Suc n) fs =
    shift_files E s n (fs\<lparr>lf_ops := k, lf_names := (lf_names fs)
      (rolled s (Suc n) := None, rolled s (Suc (Suc n)) := lf_names fs (rolled s (Suc n)))\<rparr>)"
proof (cases "lf_names fs (rolled s (Suc n))")
  case None
  then have "(lf_names fs)(rolled s (Suc n) := None, rolled s (Suc (Suc n)) := None) = lf_names fs"
    using assms(2) by (auto simp: fun_eq_iff)
  then show ?thesis using None assms(1)
    by (auto simp: file_exists_def log_op_works io_eval intro!: exI [of _ "Suc (lf_ops fs)"])
next
  case (Some i)
  then show ?thesis using assms(1)
    by (auto simp: file_exists_def log_op_works ignore_def rename_works io_eval intro!: exI [of _ "Suc (Suc (lf_ops fs))"])
qed

lemma shift_files_works:
  assumes "works E" "lf_names fs (rolled s (Suc n)) = None"
  shows "\<exists>k names. shift_files E s n fs = (Inr (), fs\<lparr>lf_ops := k, lf_names := names\<rparr>) \<and>
     names (rolled s 1) = None \<and> (\<forall>j. 1 \<le> j \<and> j \<le> n \<longrightarrow> names (rolled s (Suc j)) = lf_names fs (rolled s j)) \<and>
     (\<forall>p. (\<forall>j. 1 \<le> j \<and> j \<le> Suc n \<longrightarrow> p \<noteq> rolled s j) \<longrightarrow> names p = lf_names fs p)"
  using assms
proof (induction n arbitrary: fs)
  case 0
  then show ?case by (intro exI [of _ "lf_ops fs"] exI [of _ "lf_names fs"]) (simp add: retM_def)
next
  case (Suc n)
  obtain k where step: "shift_files E s (Suc n) fs = shift_files E s n (fs\<lparr>lf_ops := k, lf_names := (lf_names fs)
      (rolled s (Suc n) := None, rolled s (Suc (Suc n)) := lf_names fs (rolled s (Suc n)))\<rparr>)"
    using shift_step [OF Suc.prems] by blast
  let ?fs1 = "fs\<lparr>lf_ops := k, lf_names := (lf_names fs)
      (rolled s (Suc n) := None, rolled s (Suc (Suc n)) := lf_names fs (rolled s (Suc n)))\<rparr>"
  obtain k' names where ih: "shift_files E s n ?fs1 = (Inr (), ?fs1\<lparr>lf_ops := k', lf_names := names\<rparr>)"
    "names (rolled s 1) = None" "\<forall>j. 1 \<le> j \<and> j \<le> n \<longrightarrow> names (rolled s (Suc j)) = lf_names ?fs1 (rolled s j)"
    "\<forall>p. (\<forall>j. 1 \<le> j \<and> j \<le> Suc n \<longrightarrow> p \<noteq> rolled s j) \<longrightarrow> names p = lf_names ?fs1 p"
    using Suc.IH [of ?fs1] Suc.prems(1) by auto
  have "names (rolled s (Suc j)) = lf_names fs (rolled s j)" if "1 \<le> j" "j \<le> Suc n" for j
  proof (cases "j = Suc n")
    case True
    then show ?thesis using ih(4) [rule_format, of "rolled s (Suc (Suc n))"] by auto
  qed (use that ih(3) in auto)
  moreover have "names p = lf_names fs p" if "\<forall>j. 1 \<le> j \<and> j \<le> Suc (Suc n) \<longrightarrow> p \<noteq> rolled s j" for p
    using ih(4) [rule_format, of p] that by auto
  ultimately show ?case using ih(1,2) step by (intro exI [of _ k'] exI [of _ names]) auto
qed

lemma open_append_fresh:
  "works E \<Longrightarrow> lf_names fs p = None \<Longrightarrow>
     open_append E p fs = (Inr (lf_next fs), fs\<lparr>lf_ops := Suc (lf_ops fs), lf_names := (lf_names fs)(p \<mapsto> lf_next fs),
       lf_data := (lf_data fs)(lf_next fs := []), lf_next := Suc (lf_next fs)\<rparr>)"
  by (simp add: open_append_def log_op_works io_eval)

lemma ignore_remove_works:
  "works E \<Longrightarrow> \<exists>k. ignore (remove_file E p) fs = (Inr (), fs\<lparr>lf_ops := k, lf_names := (lf_names fs)(p := None)\<rparr>)"
  by (cases "lf_names fs p")
     (auto simp: ignore_def remove_file_def log_op_works io_eval fun_upd_idem intro!: exI [of _ "Suc (lf_ops fs)"])

text \<open>Closing the active file: what the names are when it has become \<open>audit.log.1\<close>.\<close>

definition closed_names :: "AuditSink \<Rightarrow> (string \<rightharpoonup> nat) \<Rightarrow> (string \<rightharpoonup> nat) \<Rightarrow> bool" where
  "closed_names s names0 names \<longleftrightarrow>
     names (as_path s) = None \<and> ran names \<subseteq> ran names0 \<and>
     (0 < unat (as_keep_files s) \<longrightarrow> names (rolled s 1) = names0 (as_path s)) \<and>
     (\<forall>i. 1 \<le> i \<and> i < unat (as_keep_files s) \<longrightarrow> names (rolled s (Suc i)) = names0 (rolled s i))"

lemma close_keeping:
  assumes "works E" "sink_ok s fs" "unat (as_keep_files s) = Suc n"
  shows "\<exists>k names. bindM (ignore (remove_file E (rolled s (Suc n)))) (\<lambda>_. bindM (shift_files E s n) (\<lambda>_.
            rename_file E (as_path s) (rolled s 1))) fs = (Inr (), fs\<lparr>lf_ops := k, lf_names := names\<rparr>) \<and>
          closed_names s (lf_names fs) names"
proof -
  obtain k0 where r: "ignore (remove_file E (rolled s (Suc n))) fs =
      (Inr (), fs\<lparr>lf_ops := k0, lf_names := (lf_names fs)(rolled s (Suc n) := None)\<rparr>)"
    using ignore_remove_works [OF assms(1)] by blast
  let ?fs0 = "fs\<lparr>lf_ops := k0, lf_names := (lf_names fs)(rolled s (Suc n) := None)\<rparr>"
  obtain k1 names where sh: "shift_files E s n ?fs0 = (Inr (), ?fs0\<lparr>lf_ops := k1, lf_names := names\<rparr>)"
    "\<forall>j. 1 \<le> j \<and> j \<le> n \<longrightarrow> names (rolled s (Suc j)) = lf_names ?fs0 (rolled s j)"
    "\<forall>p. (\<forall>j. 1 \<le> j \<and> j \<le> Suc n \<longrightarrow> p \<noteq> rolled s j) \<longrightarrow> names p = lf_names ?fs0 p" "names (rolled s 1) = None"
    using shift_files_works [OF assms(1), of ?fs0 s n] by auto
  have path: "names (as_path s) = Some (as_file s)" using sh(3) assms(2) by (simp add: sink_ok_def)
  have old: "names p \<noteq> None \<Longrightarrow> names p \<in> range (lf_names fs)" for p
  proof (cases "\<exists>j. 1 \<le> j \<and> j \<le> Suc n \<and> p = rolled s j")
    case True
    then obtain j where j: "1 \<le> j" "j \<le> Suc n" "p = rolled s j" by blast
    assume "names p \<noteq> None"
    then have "j \<noteq> 1" using j sh(4) by auto
    then have "1 \<le> j - 1 \<and> j - 1 \<le> n \<and> Suc (j - 1) = j" using j by linarith
    then have "names p = lf_names ?fs0 (rolled s (j - 1))" using sh(2) j(3) by metis
    then show ?thesis using \<open>names p \<noteq> None\<close> by (auto split: if_splits)
  next
    case False
    assume "names p \<noteq> None"
    then show ?thesis using sh(3) [rule_format, of p] False by (auto split: if_splits)
  qed
  let ?names = "names(as_path s := None, rolled s 1 \<mapsto> as_file s)"
  have old': "names p = Some x \<Longrightarrow> \<exists>q. lf_names fs q = Some x" for p x
    using old [of p] by (auto simp: image_iff)
  have "ran ?names \<subseteq> ran (lf_names fs)"
    using old' path by (auto simp: ran_def split: if_splits)
  then have "closed_names s (lf_names fs) ?names"
    using sh(2) assms(2,3) by (auto simp: closed_names_def sink_ok_def)
  then show ?thesis
    using r sh(1) path by (auto simp: bindM_eval rename_works [OF assms(1)])
qed

lemma close_dropping:
  assumes "works E" "sink_ok s fs" "unat (as_keep_files s) = 0"
  shows "\<exists>k names. remove_file E (as_path s) fs = (Inr (), fs\<lparr>lf_ops := k, lf_names := names\<rparr>) \<and>
          closed_names s (lf_names fs) names"
  using assms
  by (auto simp: remove_file_def log_op_works io_eval sink_ok_def closed_names_def ran_def split: if_splits
      intro!: exI [of _ "Suc (lf_ops fs)"] exI [of _ "(lf_names fs)(as_path s := None)"])

lemma sink_rotate_works:
  assumes "works E" "sink_ok s fs"
  shows "\<exists>ino fs'. sink_rotate E s fs = (Inr (s\<lparr>as_file := ino\<rparr>), fs') \<and> sink_ok (s\<lparr>as_file := ino\<rparr>) fs' \<and>
           log_of (s\<lparr>as_file := ino\<rparr>) fs' =
             (take (unat (as_keep_files s)) (Some (snd (log_of s fs)) # fst (log_of s fs)), [])"
proof -
  let ?keep = "unat (as_keep_files s)"
  let ?close = "if ?keep > 0 then bindM (ignore (remove_file E (rolled s ?keep))) (\<lambda>_. bindM (shift_files E s (?keep - 1)) (\<lambda>_.
                  rename_file E (as_path s) (rolled s 1))) else remove_file E (as_path s)"
  obtain k names where c: "?close fs = (Inr (), fs\<lparr>lf_ops := k, lf_names := names\<rparr>)" "closed_names s (lf_names fs) names"
    using close_keeping [OF assms] close_dropping [OF assms] by (cases ?keep) auto
  have run: "sink_rotate E s fs = (Inr (s\<lparr>as_file := lf_next fs\<rparr>), fs\<lparr>lf_ops := Suc k,
      lf_names := names(as_path s \<mapsto> lf_next fs), lf_data := (lf_data fs)(lf_next fs := []), lf_next := Suc (lf_next fs)\<rparr>)"
    (is "_ = (_, ?fs')")
    using c by (simp add: sink_rotate_def Let_def bindM_eval open_append_fresh [OF assms(1)] closed_names_def retM_def)
  have low: "names p = Some i \<Longrightarrow> i < lf_next fs" for p i
    using c(2) assms(2) by (auto simp: closed_names_def sink_ok_def ran_def)
  have ok: "sink_ok (s\<lparr>as_file := lf_next fs\<rparr>) ?fs'"
    using low by (fastforce simp: sink_ok_def dest: less_SucI split: if_splits)
  have seg: "map_option (lf_data ?fs') (lf_names ?fs' (rolled s i)) = map_option (lf_data fs) (names (rolled s i))" for i
    using low [of "rolled s i"] by (cases "names (rolled s i)") auto
  have "fst (log_of (s\<lparr>as_file := lf_next fs\<rparr>) ?fs') = take ?keep (Some (snd (log_of s fs)) # fst (log_of s fs))"
  proof (rule nth_equalityI)
    fix i assume i: "i < length (fst (log_of (s\<lparr>as_file := lf_next fs\<rparr>) ?fs'))"
    show "fst (log_of (s\<lparr>as_file := lf_next fs\<rparr>) ?fs') ! i = take ?keep (Some (snd (log_of s fs)) # fst (log_of s fs)) ! i"
      using i c(2) assms(2) seg
      by (cases i) (auto simp: log_of_def closed_names_def sink_ok_def nth_append simp del: upt_Suc)
  qed (simp add: log_of_def del: upt_Suc)
  then show ?thesis using run ok by (auto simp: log_of_def)
qed

lemma write_line_works:
  assumes "works E" "sink_ok s fs"
  shows "\<exists>ino fs'. write_line E s line fs = (Inr (s\<lparr>as_file := ino\<rparr>), fs') \<and> sink_ok (s\<lparr>as_file := ino\<rparr>) fs' \<and>
           log_of (s\<lparr>as_file := ino\<rparr>) fs' =
             bounded_write (unat (as_rotate_size_bytes s)) (unat (as_keep_files s)) line (log_of s fs)"
proof -
  let ?act = "lf_data fs (as_file s) @ line @ [CHR 0x0A]"
  let ?fs1 = "fs\<lparr>lf_data := (lf_data fs)(as_file s := ?act), lf_ops := Suc (Suc (Suc (lf_ops fs)))\<rparr>"
  have run: "write_line E s line fs =
      (if unat (as_rotate_size_bytes s) < length ?act then handleM (sink_rotate E s) (\<lambda>_. retM s) ?fs1 else (Inr s, ?fs1))"
    by (simp add: write_line_def ignore_def write_handle_def log_op_works [OF assms(1)] io_eval)
  have ok: "sink_ok s ?fs1" using assms(2) by (simp add: sink_ok_def)
  have "map_option (lf_data ?fs1) (lf_names ?fs1 (rolled s i)) = map_option (lf_data fs) (lf_names fs (rolled s i))" for i
    using assms(2) by (cases "lf_names fs (rolled s i)") (auto simp: sink_ok_def)
  then have lg: "log_of s ?fs1 = (fst (log_of s fs), ?act)" by (simp add: log_of_def)
  show ?thesis
  proof (cases "unat (as_rotate_size_bytes s) < length ?act")
    case True
    obtain ino fs' where r: "sink_rotate E s ?fs1 = (Inr (s\<lparr>as_file := ino\<rparr>), fs')" "sink_ok (s\<lparr>as_file := ino\<rparr>) fs'"
      "log_of (s\<lparr>as_file := ino\<rparr>) fs' = (take (unat (as_keep_files s)) (Some ?act # fst (log_of s fs)), [])"
      using sink_rotate_works [OF assms(1) ok] lg by auto
    then show ?thesis using True run
      by (intro exI [of _ ino] exI [of _ fs']) (simp add: handleM_def bounded_write_def log_of_def split_def)
  next
    case False
    then show ?thesis using run ok lg
      by (intro exI [of _ "as_file s"] exI [of _ ?fs1]) (simp add: bounded_write_def log_of_def split_def)
  qed
qed

text \<open>A run of records, and the same run on the specification.\<close>

fun write_lines :: "env \<Rightarrow> AuditSink \<Rightarrow> string list \<Rightarrow> AuditSink lio" where
  "write_lines E s [] = retM s"
| "write_lines E s (l # ls) = bindM (write_line E s l) (\<lambda>s'. write_lines E s' ls)"

lemma write_lines_works:
  assumes "works E" "sink_ok s fs"
  shows "\<exists>ino fs'. write_lines E s ls fs = (Inr (s\<lparr>as_file := ino\<rparr>), fs') \<and> sink_ok (s\<lparr>as_file := ino\<rparr>) fs' \<and>
           log_of (s\<lparr>as_file := ino\<rparr>) fs' =
             foldl (\<lambda>lg l. bounded_write (unat (as_rotate_size_bytes s)) (unat (as_keep_files s)) l lg) (log_of s fs) ls"
  using assms(2)
proof (induction ls arbitrary: s fs)
  case Nil
  then show ?case by (intro exI [of _ "as_file s"] exI [of _ fs]) (simp add: retM_def)
next
  case (Cons l ls)
  obtain ino fs1 where 1: "write_line E s l fs = (Inr (s\<lparr>as_file := ino\<rparr>), fs1)" "sink_ok (s\<lparr>as_file := ino\<rparr>) fs1"
    "log_of (s\<lparr>as_file := ino\<rparr>) fs1 = bounded_write (unat (as_rotate_size_bytes s)) (unat (as_keep_files s)) l (log_of s fs)"
    using write_line_works [OF assms(1) Cons.prems] by blast
  show ?case using Cons.IH [OF 1(2)] 1(1,3) by (auto simp: bindM_eval)
qed

text \<open>What the specification keeps.\<close>

lemma retained_write:
  assumes "length (fst lg) \<le> keep"
  shows "suffix (retained (bounded_write limit keep l lg)) (retained lg @ l @ [CHR 0x0A])"
    "length (fst (bounded_write limit keep l lg)) \<le> keep"
proof -
  obtain segs act where lg: "lg = (segs, act)" by (cases lg)
  let ?t = "case_option [] id"
  let ?all = "Some (act @ l @ [CHR 0x0A]) # segs"
  have "concat (rev (map ?t ?all)) =
      concat (rev (map ?t (drop keep ?all))) @ concat (rev (map ?t (take keep ?all)))"
    by (subst append_take_drop_id [symmetric, of ?all keep]) (simp only: map_append rev_append concat_append)
  then have "suffix (concat (rev (map ?t (take keep ?all)))) (concat (rev (map ?t ?all)))"
    by (metis suffixI)
  then show "suffix (retained (bounded_write limit keep l lg)) (retained lg @ l @ [CHR 0x0A])"
    by (simp add: lg bounded_write_def retained_def Let_def)
  show "length (fst (bounded_write limit keep l lg)) \<le> keep"
    using assms by (auto simp: lg bounded_write_def Let_def)
qed

lemma retained_writes:
  assumes "length (fst lg) \<le> keep"
  shows "suffix (retained (foldl (\<lambda>lg l. bounded_write limit keep l lg) lg ls))
     (retained lg @ concat (map (\<lambda>l. l @ [CHR 0x0A]) ls))"
  using assms
proof (induction ls arbitrary: lg)
  case (Cons l ls)
  let ?lg = "bounded_write limit keep l lg"
  have "suffix (retained (foldl (\<lambda>lg l. bounded_write limit keep l lg) ?lg ls))
      (retained ?lg @ concat (map (\<lambda>l. l @ [CHR 0x0A]) ls))"
    using Cons.IH [of ?lg] retained_write(2) [OF Cons.prems] by blast
  also have "suffix \<dots> ((retained lg @ l @ [CHR 0x0A]) @ concat (map (\<lambda>l. l @ [CHR 0x0A]) ls))"
    using retained_write(1) [OF Cons.prems] by (auto simp: suffix_def)
  finally show ?case by simp
qed simp

lemma active_bounded:
  "length (snd lg) \<le> limit \<Longrightarrow> length (snd (foldl (\<lambda>lg l. bounded_write limit keep l lg) lg ls)) \<le> limit"
  by (induction ls arbitrary: lg) (auto simp: bounded_write_def Let_def split: prod.splits)

section \<open>Properties\<close>

text \<open>
  C37. On a working file system the rotating audit file implements the bounded log: after any
  sequence of records the files hold exactly what the specification holds, in which the retained
  text is the newest part of everything ever written, with nothing missing inside it, and the
  active file stays within its size limit.
\<close>

theorem audit_sink_refines_bounded_log:
  assumes "works E" "sink_ok s fs"
  shows "\<exists>s' fs'. write_lines E s ls fs = (Inr s', fs') \<and> sink_ok s' fs' \<and>
     log_of s' fs' = foldl (\<lambda>lg l. bounded_write (unat (as_rotate_size_bytes s)) (unat (as_keep_files s)) l lg) (log_of s fs) ls \<and>
     suffix (retained (log_of s' fs')) (retained (log_of s fs) @ concat (map (\<lambda>l. l @ [CHR 0x0A]) ls)) \<and>
     (length (snd (log_of s fs)) \<le> unat (as_rotate_size_bytes s) \<longrightarrow>
        length (snd (log_of s' fs')) \<le> unat (as_rotate_size_bytes s))"
proof -
  have "length (fst (log_of s fs)) \<le> unat (as_keep_files s)" by (simp add: log_of_def)
  then show ?thesis
    using write_lines_works [OF assms, of ls] retained_writes active_bounded by metis
qed

definition fresh_sink :: AuditSink where
  "fresh_sink = \<lparr>as_path = ''/l/audit.log'', as_file = 0, as_rotate_size_bytes = 3, as_keep_files = 1\<rparr>"

definition fresh_log_fs :: log_fs where
  "fresh_log_fs = \<lparr>lf_names = [''/l/audit.log'' \<mapsto> 0], lf_data = (\<lambda>_. []), lf_next = 1, lf_ops = 0\<rparr>"

theorem audit_sink_refines_bounded_log_witness:
  "\<exists>s' fs'. write_lines demo_env fresh_sink [''aa'', ''bbb'', ''c''] fresh_log_fs = (Inr s', fs') \<and>
     log_of s' fs' = ([Some (''aa'' @ [CHR 0x0A] @ ''bbb'' @ [CHR 0x0A])], ''c'' @ [CHR 0x0A])"
proof -
  have w: "works demo_env" by (simp add: works_def demo_env_def)
  have ok: "sink_ok fresh_sink fresh_log_fs" by (simp add: sink_ok_def fresh_sink_def fresh_log_fs_def rolled_def)
  have lg: "log_of fresh_sink fresh_log_fs = ([None], [])"
    by (simp add: log_of_def fresh_sink_def fresh_log_fs_def rolled_def)
  have size: "unat (as_rotate_size_bytes fresh_sink) = 3" "unat (as_keep_files fresh_sink) = 1"
    by (simp_all add: fresh_sink_def)
  show ?thesis
    using audit_sink_refines_bounded_log [OF w ok, of "[''aa'', ''bbb'', ''c'']"]
    unfolding lg size by (auto simp: bounded_write_def simp del: write_lines.simps)
qed

section \<open>With and without a sink\<close>

text \<open>
  When the logger cannot be started, for example because the configured level is not a level, no
  sink is installed and every record of the run is dropped.
\<close>

lemma failed_logger_drops_audit_records:
  assumes "\<not> level_filter_ok E (log_level cfg)" "\<not> logger_started st" "audit_sink st = None"
  shows "\<exists>msg st'. logging_init E cfg st = (Inl msg, st') \<and>
     lf_names (log_files st') = lf_names (log_files st) \<and> lf_data (log_files st') = lf_data (log_files st) \<and>
     foldl (\<lambda>x r. sink_record E r x) st' recs = st'"
proof -
  have drop: "foldl (\<lambda>x r. sink_record E r x) st' recs = st'" if "audit_sink st' = None" for st'
    using that by (induction recs) (auto simp: sink_record_def split: sum.split)
  show ?thesis using assms drop
    by (auto simp: logging_init_def log_op_def split: option.split)
qed

text \<open>A log directory: distinct names are distinct files, and new files are new.\<close>

definition fs_ok :: "log_fs \<Rightarrow> bool" where
  "fs_ok fs \<longleftrightarrow> inj_on (lf_names fs) (dom (lf_names fs)) \<and> (\<forall>p i. lf_names fs p = Some i \<longrightarrow> i < lf_next fs)"

lemma inj_names: "inj_on m (dom m) \<Longrightarrow> m p = Some i \<Longrightarrow> m q = Some i \<Longrightarrow> p = q"
  by (metis domI inj_onD)

lemma open_append_present:
  "works E \<Longrightarrow> lf_names fs p = Some i \<Longrightarrow> open_append E p fs = (Inr i, fs\<lparr>lf_ops := Suc (lf_ops fs)\<rparr>)"
  by (simp add: open_append_def log_op_works io_eval)

lemma sink_open_works:
  assumes "works E" "fs_ok fs"
  shows "\<exists>s fs'. sink_open E dir mb keep fs = (Inr s, fs') \<and> sink_ok s fs' \<and> as_keep_files s = keep"
proof -
  define path where "path = path_join dir AUDIT_LOG_FILENAME"
  let ?fs = "fs\<lparr>lf_ops := Suc (lf_ops fs)\<rparr>"
  let ?s = "\<lambda>i. \<lparr>as_path = path, as_file = i, as_rotate_size_bytes = ucast mb * 1024 * 1024, as_keep_files = keep\<rparr>"
  have run: "sink_open E dir mb keep fs = (case open_append E path ?fs of (Inl e, fs') \<Rightarrow> (Inl e, fs') | (Inr i, fs') \<Rightarrow> (Inr (?s i), fs'))"
    by (simp add: sink_open_def Let_def bindM_eval log_op_works [OF assms(1)] path_def retM_def split: prod.split sum.split)
  have low: "lf_names fs p = Some i \<Longrightarrow> i < lf_next fs" for p i using assms(2) by (simp add: fs_ok_def)
  show ?thesis
  proof (cases "lf_names fs path")
    case None
    then have "sink_ok (?s (lf_next fs)) (?fs\<lparr>lf_ops := Suc (Suc (lf_ops fs)), lf_names := (lf_names fs)(path \<mapsto> lf_next fs),
        lf_data := (lf_data fs)(lf_next fs := []), lf_next := Suc (lf_next fs)\<rparr>)"
      using low by (force simp: sink_ok_def rolled_def less_Suc_eq)
    then show ?thesis using None run by (simp add: open_append_fresh [OF assms(1)])
  next
    case (Some i)
    have "lf_names fs (path @ CHR ''.'' # t) \<noteq> Some i" for t
    proof
      assume "lf_names fs (path @ CHR ''.'' # t) = Some i"
      then have "path @ CHR ''.'' # t = path" using Some assms(2) inj_names [of "lf_names fs"] by (auto simp: fs_ok_def)
      then show False by simp
    qed
    then have "sink_ok (?s i) (?fs\<lparr>lf_ops := Suc (Suc (lf_ops fs))\<rparr>)"
      using low Some by (simp add: sink_ok_def rolled_def)
    then show ?thesis using Some run by (simp add: open_append_present [OF assms(1)])
  qed
qed

lemma logging_init_works:
  assumes "works E" "fs_ok (log_files st)" "level_filter_ok E (log_level cfg)" "flexi_logger_start E cfg = Inr ()"
    and "\<not> logger_started st"
  shows "\<exists>s st'. logging_init E cfg st = (Inr (log_dir cfg), st') \<and> audit_sink st' = Some s \<and>
     sink_ok s (log_files st') \<and> as_keep_files s = keep_files cfg"
proof -
  let ?fs = "(log_files st)\<lparr>lf_ops := Suc (lf_ops (log_files st))\<rparr>"
  have "fs_ok ?fs" using assms(2) by (simp add: fs_ok_def)
  then obtain s fs' where "sink_open E (log_dir cfg) (rotate_size_mb cfg) (keep_files cfg) ?fs = (Inr s, fs')"
    "sink_ok s fs'" "as_keep_files s = keep_files cfg"
    using sink_open_works [OF assms(1)] by blast
  then show ?thesis using assms by (auto simp: logging_init_def log_op_works)
qed

lemma retained_last_line:
  "0 < keep \<Longrightarrow> suffix (l @ [CHR 0x0A]) (retained (bounded_write limit keep l lg))"
proof -
  assume "0 < keep"
  then obtain k where "keep = Suc k" by (cases keep) auto
  then show ?thesis
    by (auto simp: bounded_write_def retained_def Let_def suffix_def split: prod.split)
qed

lemma sink_record_last:
  assumes "works E" "audit_sink st = Some s" "sink_ok s (log_files st)" "0 < unat (as_keep_files s)"
    and "audit_to_json E rec = Inr line"
  shows "\<exists>s' st'. sink_record E rec st = st' \<and> audit_sink st' = Some s' \<and>
     suffix (line @ [CHR 0x0A]) (retained (log_of s' (log_files st')))"
proof -
  obtain ino fs' where "write_line E s line (log_files st) = (Inr (s\<lparr>as_file := ino\<rparr>), fs')"
    "log_of (s\<lparr>as_file := ino\<rparr>) fs' =
       bounded_write (unat (as_rotate_size_bytes s)) (unat (as_keep_files s)) line (log_of s (log_files st))"
    using write_line_works [OF assms(1,3)] by blast
  then show ?thesis using assms retained_last_line [OF assms(4)] by (auto simp: sink_record_def)
qed

end
