(* ===== verification/Client_Main.thy ===== *)
theory Client_Main
  imports Withdraw Read_Single Read_Gateway Read_Vault Read_Timelock Audit_Sink
begin

text \<open>
  The \<open>rmpc\<close> program (\<open>main.rs\<close>, \<open>cli.rs\<close>): the parsed command line, the start of the loggers and
  the dispatch to the command. Parsing the command line is the \<open>clap\<close> library's work; a run starts
  from the parsed value. The audit records a command emits reach the audit file through the sink
  the loggers installed; since a command never reads the audit file, writing the records of a run
  after it, in their order, leaves the same files as writing each at once.
\<close>

section \<open>Definitions\<close>

datatype Command =
    Deposit string string string "string option" u64 u64 u64 "u64 option" bool
  | Status string string bool
  | SelfCheck string bool
  | GetVault string "string option" bool
  | GetVaults string bool
  | GetRouter string bool
  | GetGovernance string bool
  | GetTimelock string bool
  | GetGateway string bool
  | GetAgent string string bool
  | GetRoles string string bool
  | GetBalance string string bool
  | GetAllowance string string string bool
  | GetDeposit string string bool
  | GetTx string string bool
  | Withdraw string string string string "string option" u64 u64 u64 "u64 option" bool

fun command_config :: "Command \<Rightarrow> string" where
  "command_config (Deposit config _ _ _ _ _ _ _ _) = config"
| "command_config (Status config _ _) = config"
| "command_config (SelfCheck config _) = config"
| "command_config (GetVault config _ _) = config"
| "command_config (GetVaults config _) = config"
| "command_config (GetRouter config _) = config"
| "command_config (GetGovernance config _) = config"
| "command_config (GetTimelock config _) = config"
| "command_config (GetGateway config _) = config"
| "command_config (GetAgent config _ _) = config"
| "command_config (GetRoles config _ _) = config"
| "command_config (GetBalance config _ _) = config"
| "command_config (GetAllowance config _ _ _) = config"
| "command_config (GetDeposit config _ _) = config"
| "command_config (GetTx config _ _) = config"
| "command_config (Withdraw config _ _ _ _ _ _ _ _ _) = config"

fun dispatch :: "env \<Rightarrow> Command \<Rightarrow> world \<Rightarrow> nat \<times> world" where
  "dispatch E (Deposit config amt order idem secs wait gas cap p) =
     deposit_run E \<lparr>config_path = config, arg_amount = amt, arg_order_id = order, arg_idempotency_key = idem,
       deadline_secs = secs, receipt_timeout_secs = wait, gas_limit = gas, fee_cap_wei = cap, pretty = p\<rparr>"
| "dispatch E (SelfCheck config p) = finish (self_check_run E config p)"
| "dispatch E (Status config pid p) = finish (status_run E config pid p)"
| "dispatch E (GetVault config a p) = finish (get_vault_run E config a p)"
| "dispatch E (GetVaults config p) = finish (get_vaults_run E config p)"
| "dispatch E (GetRouter config p) = finish (get_router_run E config p)"
| "dispatch E (GetGovernance config p) = finish (get_governance_run E config p)"
| "dispatch E (GetTimelock config p) = finish (get_timelock_run E config p)"
| "dispatch E (GetGateway config p) = finish (get_gateway_run E config p)"
| "dispatch E (GetAgent config a p) = finish (get_agent_run E config a p)"
| "dispatch E (GetRoles config a p) = finish (get_roles_run E config a p)"
| "dispatch E (GetBalance config a p) = finish (get_balance_run E config a p)"
| "dispatch E (GetAllowance config own spender p) = finish (get_allowance_run E config own spender p)"
| "dispatch E (GetDeposit config i p) = finish (get_deposit_run E config i p)"
| "dispatch E (GetTx config h p) = finish (get_tx_run E config h p)"
| "dispatch E (Withdraw config shares vault order idem secs wait gas cap p) =
     withdraw_run E \<lparr>wa_config_path = config, wa_shares = shares, wa_source_vault = vault, wa_order_id = order,
       wa_idempotency_key = idem, wa_deadline_secs = secs, wa_receipt_timeout_secs = wait, wa_gas_limit = gas,
       wa_fee_cap_wei = cap, wa_pretty = p\<rparr>"

definition effective_log_config :: "env \<Rightarrow> string \<Rightarrow> LogConfig" where
  "effective_log_config E path =
     with_env_overrides (env_vars E)
       (case from_path E path of Inr c \<Rightarrow> log c | Inl _ \<Rightarrow> default_log_config (default_log_dir (env_vars E)))"

definition init_logging_best_effort :: "env \<Rightarrow> string \<Rightarrow> log_state \<Rightarrow> log_state" where
  "init_logging_best_effort E path st = snd (logging_init E (effective_log_config E path) st)"

definition new_records :: "world \<Rightarrow> world \<Rightarrow> AuditRecord list" where
  "new_records w w' = drop (length (audit_log w)) (audit_log w')"

definition main_run :: "env \<Rightarrow> Command \<Rightarrow> log_state \<times> world \<Rightarrow> nat \<times> log_state \<times> world" where
  "main_run E cmd sw =
     (case sw of (st, w) \<Rightarrow>
        let st1 = init_logging_best_effort E (command_config cmd) st in
        (case dispatch E cmd w of (code, w') \<Rightarrow>
           (code, foldl (\<lambda>x r. sink_record E r x) st1 (new_records w w'), w')))"

section \<open>Lemmas\<close>

text \<open>The commands that only read, those of them that pin a block, and the two that pay.\<close>

fun is_read :: "Command \<Rightarrow> bool" where
  "is_read (Deposit _ _ _ _ _ _ _ _ _) = False"
| "is_read (Withdraw _ _ _ _ _ _ _ _ _ _) = False"
| "is_read (SelfCheck _ _) = False"
| "is_read _ = True"

fun is_multi_read :: "Command \<Rightarrow> bool" where
  "is_multi_read (GetVault _ _ _) = True"
| "is_multi_read (GetVaults _ _) = True"
| "is_multi_read (GetRouter _ _) = True"
| "is_multi_read (GetGovernance _ _) = True"
| "is_multi_read (GetTimelock _ _) = True"
| "is_multi_read (GetGateway _ _) = True"
| "is_multi_read (GetAgent _ _ _) = True"
| "is_multi_read (GetRoles _ _ _) = True"
| "is_multi_read _ = False"

fun is_payment :: "Command \<Rightarrow> bool" where
  "is_payment (Deposit _ _ _ _ _ _ _ _ _) = True"
| "is_payment (Withdraw _ _ _ _ _ _ _ _ _ _) = True"
| "is_payment _ = False"

fun pretty_of :: "Command \<Rightarrow> bool" where
  "pretty_of (Deposit _ _ _ _ _ _ _ _ p) = p"
| "pretty_of (Status _ _ p) = p"
| "pretty_of (SelfCheck _ p) = p"
| "pretty_of (GetVault _ _ p) = p"
| "pretty_of (GetVaults _ p) = p"
| "pretty_of (GetRouter _ p) = p"
| "pretty_of (GetGovernance _ p) = p"
| "pretty_of (GetTimelock _ p) = p"
| "pretty_of (GetGateway _ p) = p"
| "pretty_of (GetAgent _ _ p) = p"
| "pretty_of (GetRoles _ _ p) = p"
| "pretty_of (GetBalance _ _ p) = p"
| "pretty_of (GetAllowance _ _ _ p) = p"
| "pretty_of (GetDeposit _ _ p) = p"
| "pretty_of (GetTx _ _ p) = p"
| "pretty_of (Withdraw _ _ _ _ _ _ _ _ _ p) = p"

lemma dispatch_read_contract:
  assumes "is_read c"
  obtains m where "dispatch E c = finish m" "read_contract (pretty_of c) m"
proof -
  have "\<exists>m. dispatch E c = finish m \<and> read_contract (pretty_of c) m"
    using assms
    by (cases c) (simp_all, (rule exI, rule conjI, rule refl,
          rule status_contract vault_contracts gateway_contracts get_timelock_contract get_balance_contract
            get_allowance_contract get_deposit_contract get_tx_contract)+)
  then show thesis using that by blast
qed

lemma dispatch_pinned_run:
  assumes "is_multi_read c"
  obtains m where "dispatch E c = finish m" "pinned_run (pretty_of c) m" "read_contract (pretty_of c) m"
proof -
  have "\<exists>m. dispatch E c = finish m \<and> pinned_run (pretty_of c) m \<and> read_contract (pretty_of c) m"
    using assms
    by (cases c) (simp_all, (rule exI, rule conjI, rule refl, rule conjI,
          rule vault_pinned_runs gateway_pinned_runs get_timelock_pinned_run,
          rule vault_contracts gateway_contracts get_timelock_contract)+)
  then show thesis using that by blast
qed

lemma payment_records:
  assumes "is_payment c" "dispatch E c w = (EXIT_OK, w')"
  obtains x where "new_records w w' = [x]" "aud_decision x = Signed"
proof -
  have body: "\<exists>x. new_records w w' = [x] \<and> aud_decision x = Signed"
    if rep: "reports (success_report p) m" and fin: "finish m w = (EXIT_OK, w')" for p m
  proof -
    obtain r where r: "m w = (r, w')" "(case r of Inl k \<Rightarrow> k | Inr k \<Rightarrow> k) = EXIT_OK"
      using fin by (auto simp: finish_def split: prod.splits sum.splits)
    then show ?thesis using reportsD [OF rep r(1)]
      by (cases r) (auto simp: new_records_def added_def success_report_def fail_report_def EXIT_OK_def EXIT_REFUSAL_def
          EXIT_STARTUP_FAIL_def)
  qed
  have "\<exists>x. new_records w w' = [x] \<and> aud_decision x = Signed"
    using assms by (cases c) (auto simp: deposit_run_def withdraw_run_def intro: body [OF reports_deposit_body] body [OF reports_withdraw_body])
  then show thesis using that by blast
qed

section \<open>Properties\<close>

text \<open>
  Every read command changes nothing: whatever the node answers, no transaction is sent, no
  file and no lock is touched and no audit record is written. It prints exactly one document when
  it exits with 0, and nothing when it exits with 2, 3 or 4, its only other codes.
\<close>

theorem read_commands_change_nothing:
  assumes "is_read c" "dispatch E c w = (code, w')"
  shows "broadcasts w' = broadcasts w \<and> files w' = files w \<and> locks w' = locks w \<and> audit_log w' = audit_log w \<and>
     (if code = EXIT_OK then \<exists>j. stdout w' = stdout w @ [(pretty_of c, j)]
      else code \<in> {2, 3, 4} \<and> stdout w' = stdout w)"
proof -
  obtain m where "dispatch E c = finish m" "read_contract (pretty_of c) m" using dispatch_read_contract [OF assms(1)] .
  then show ?thesis using contract_emits_once [of "pretty_of c" m w code w'] assms(2)
    by (auto simp: failure_code_def EXIT_INPUT_FAIL_def EXIT_STARTUP_FAIL_def EXIT_NOT_FOUND_def split: if_splits)
qed

theorem read_commands_change_nothing_witness:
  "\<exists>code w'. dispatch demo_env (GetTx ''c'' ''0x04'' True) world0 = (code, w') \<and> broadcasts w' = [] \<and> audit_log w' = []"
proof -
  obtain code w' where run: "dispatch demo_env (GetTx ''c'' ''0x04'' True) world0 = (code, w')" by force
  show ?thesis using read_commands_change_nothing [OF _ run] run by (simp add: world0_def broadcasts_def del: dispatch.simps)
qed

text \<open>
  C36. The output contract, for all thirteen read commands, \<open>status\<close> among them (its code emits the envelope, although
  \<open>read_output.rs\<close> and the contract document still describe it as predating the envelope): a document that is printed is the shared
  envelope, with the chain id and its network label, a block number, the source \<open>json_rpc\<close>, a
  partial flag that is set exactly when the error list is not empty, and every number in it, at any
  depth, an unsigned 64-bit integer: balances, allowances, caps and fees of 128 and 256 bits appear
  as decimal strings only.
\<close>

theorem read_output_is_typed_envelope:
  assumes "is_read c" "dispatch E c w = (EXIT_OK, w')"
  shows "\<exists>ch n j. stdout w' = stdout w @ [(pretty_of c, j)] \<and> envelope_doc ch n j"
proof -
  obtain m where "dispatch E c = finish m" "read_contract (pretty_of c) m" using dispatch_read_contract [OF assms(1)] .
  then show ?thesis using contract_emits_once(5) [of "pretty_of c" m w EXIT_OK w'] assms(2) by auto
qed

lemma demo_get_tx: "\<exists>w'. dispatch demo_env (GetTx ''c'' ''0x04'' True) world0 = (EXIT_OK, w')"
  by (simp add: get_tx_run_def load_config_def parse_hash_def open_rpc_def rpc_new_def tx_outcome_def with_msg_def finish_def
      rpc_wrappers rpc_call_asked attempt_eval emit_envelope_def emit_def or_exit_def exit_on_def from_path_def io_eval
      answer_def decode_reply_def is_success_def request_def demo_env_def demo_body_def Let_def)

theorem read_output_is_typed_envelope_witness:
  "\<exists>w' ch n j. dispatch demo_env (GetTx ''c'' ''0x04'' True) world0 = (EXIT_OK, w') \<and> stdout w' = [(True, j)] \<and> envelope_doc ch n j"
proof -
  obtain w' where run: "dispatch demo_env (GetTx ''c'' ''0x04'' True) world0 = (EXIT_OK, w')" using demo_get_tx by blast
  show ?thesis using read_output_is_typed_envelope [OF _ run] run by (auto simp: world0_def simp del: dispatch.simps)
qed

text \<open>
  C35. The eight multi-read commands answer about one block: the two header requests come first,
  and every later request, whether a call, a code read, a block read or a log query, names the block
  number that the printed document reports, so no sub-read can see a later state of the chain.
\<close>

theorem multi_reads_pin_one_block:
  assumes "is_multi_read c" "dispatch E c w = (EXIT_OK, w')"
  shows "\<exists>ch n j i rs. stdout w' = stdout w @ [(pretty_of c, j)] \<and> envelope_doc ch n j \<and>
     sent w' = sent w @ [request ''eth_chainId'' [] i, request ''eth_blockNumber'' [] (i + 1)] @ rs \<and>
     list_all (asks_at (hex_tag n)) rs"
proof -
  obtain m where m: "dispatch E c = finish m" "pinned_run (pretty_of c) m" "read_contract (pretty_of c) m"
    using dispatch_pinned_run [OF assms(1)] .
  obtain r where r: "m w = (r, w')" "(case r of Inl k \<Rightarrow> k | Inr k \<Rightarrow> k) = EXIT_OK"
    using assms(2) m(1) by (auto simp: finish_def split: prod.splits sum.splits)
  have "\<not> failure_code EXIT_OK"
    by (simp add: failure_code_def EXIT_OK_def EXIT_INPUT_FAIL_def EXIT_STARTUP_FAIL_def EXIT_NOT_FOUND_def)
  then obtain k where "r = Inr k" using m(3) [unfolded read_contract_def, rule_format, of w] r by (cases r) auto
  then show ?thesis using m(2) r(1) unfolding pinned_run_def by blast
qed

definition router_env :: env where
  "router_env = demo_env\<lparr>toml_config := (\<lambda>_. Inr (demo_cfg\<lparr>router_address := Some ''r''\<rparr>))\<rparr>"

lemma demo_get_router: "\<exists>w'. dispatch router_env (GetRouter ''c'' False) world0 = (EXIT_OK, w')"
proof -
  have p: "pinned_block router_env url w = (Inr (31337, 7), asked (asked w ''eth_chainId'' []) ''eth_blockNumber'' [])" for url w
    by (simp add: pinned_block_def rpc_chain_id_def rpc_block_number_def rpc_call_asked io_eval answer_def decode_reply_def
        is_success_def request_def router_env_def demo_env_def demo_body_def Let_def)
  have s: "load_config router_env x w = (Inr (demo_cfg\<lparr>router_address := Some ''r''\<rparr>), w)"
    "open_rpc router_env cfg w = (Inr (), w\<lparr>next_id := 1\<rparr>)" "parse_optional_address router_env (Some t) w = (Inr a, w) \<longleftrightarrow> address_from_str router_env t = Inr a"
    for x w cfg t a
    by (auto simp: load_config_def open_rpc_def rpc_new_def parse_optional_address_def parse_address_def or_exit_def exit_on_def
        from_path_def io_eval router_env_def demo_env_def)
  have a: "parse_optional_address router_env (Some ''r'') w = (Inr 1, w)" for w
    unfolding s(3) by (simp add: router_env_def demo_env_def demo_cfg_def)
  show ?thesis
    by (simp add: get_router_run_def bindM_eval s(1,2) a finish_def exit_on_def handleM_eval read_router_def p sub_read_note
        Let_def emit_envelope_def emit_def modifyM_def retM_def split: prod.split)
qed

theorem multi_reads_pin_one_block_witness:
  "\<exists>w' ch n j i rs. dispatch router_env (GetRouter ''c'' False) world0 = (EXIT_OK, w') \<and> envelope_doc ch n j \<and>
     sent w' = [request ''eth_chainId'' [] i, request ''eth_blockNumber'' [] (i + 1)] @ rs \<and> list_all (asks_at (hex_tag n)) rs"
proof -
  obtain w' where run: "dispatch router_env (GetRouter ''c'' False) world0 = (EXIT_OK, w')" using demo_get_router by blast
  show ?thesis using multi_reads_pin_one_block [OF _ run] run by (auto simp: world0_def simp del: dispatch.simps)
qed

text \<open>
  C22. With working loggers every successful payment is on file: when a deposit or withdrawal exits
  with 0, it emitted exactly one audit record, marked as signed, and the text retained in the audit
  files ends with the line of that record, whether or not the write caused a rotation.
\<close>

theorem successful_payment_is_on_file:
  assumes "works E" "fs_ok (log_files st)" "\<not> logger_started st"
    and "level_filter_ok E (log_level (effective_log_config E (command_config c)))"
    and "flexi_logger_start E (effective_log_config E (command_config c)) = Inr ()"
    and "0 < keep_files (effective_log_config E (command_config c))"
    and "\<forall>r. \<exists>line. audit_to_json E r = Inr line"
    and "is_payment c" "main_run E c (st, w) = (EXIT_OK, st', w')"
  shows "\<exists>x line s. new_records w w' = [x] \<and> aud_decision x = Signed \<and> audit_to_json E x = Inr line \<and>
     audit_sink st' = Some s \<and> suffix (line @ [CHR 0x0A]) (retained (log_of s (log_files st')))"
proof -
  let ?cfg = "effective_log_config E (command_config c)"
  obtain s st1 where i: "logging_init E ?cfg st = (Inr (log_dir ?cfg), st1)" "audit_sink st1 = Some s"
    "sink_ok s (log_files st1)" "as_keep_files s = keep_files ?cfg"
    using logging_init_works [OF assms(1,2,4,5,3)] by blast
  have d: "dispatch E c w = (EXIT_OK, w')"
    and st': "st' = foldl (\<lambda>x r. sink_record E r x) st1 (new_records w w')"
    using assms(9) i(1) by (auto simp: main_run_def init_logging_best_effort_def Let_def split: prod.splits)
  obtain x where x: "new_records w w' = [x]" "aud_decision x = Signed" using payment_records [OF assms(8) d] .
  obtain line where line: "audit_to_json E x = Inr line" using assms(7) by blast
  have "0 < unat (as_keep_files s)" using assms(6) i(4) by (simp add: word_less_nat_alt)
  from sink_record_last [OF assms(1) i(2,3) this line] show ?thesis using x line st' by auto
qed

theorem successful_payment_is_on_file_witness:
  "\<exists>st' w' x line s. main_run demo_env (Deposit ''c'' ''50'' ''4'' None 900 2 100000 None False)
       (\<lparr>logger_started = False, audit_sink = None, log_files = fresh_log_fs\<rparr>, world0) = (EXIT_OK, st', w') \<and>
     new_records world0 w' = [x] \<and> audit_to_json demo_env x = Inr line \<and> audit_sink st' = Some s \<and>
     suffix (line @ [CHR 0x0A]) (retained (log_of s (log_files st')))"
proof -
  let ?st = "\<lparr>logger_started = False, audit_sink = None, log_files = fresh_log_fs\<rparr>"
  let ?c = "Deposit ''c'' ''50'' ''4'' None 900 2 100000 None False"
  have cfg: "effective_log_config demo_env ''c'' = default_log_config []"
    by (simp add: effective_log_config_def from_path_def demo_env_def demo_cfg_def base_cfg_def with_env_overrides_def
        andThen_def map_err_def)
  have ok: "works demo_env" "fs_ok fresh_log_fs" "flexi_logger_start demo_env l = Inr ()" "level_filter_ok demo_env ''info''"
    "\<forall>r. \<exists>line. audit_to_json demo_env r = Inr line" for l
    by (simp_all add: works_def fs_ok_def fresh_log_fs_def demo_env_def)
  obtain w' where "dispatch demo_env ?c world0 = (EXIT_OK, w')"
    using demo_deposit_succeeds by (auto simp: demo_args_def)
  then obtain st' where run: "main_run demo_env ?c (?st, world0) = (EXIT_OK, st', w')"
    by (simp add: main_run_def del: dispatch.simps)
  show ?thesis
    using successful_payment_is_on_file [OF ok(1) _ _ _ _ _ ok(5) _ run] run ok cfg
    by (auto simp: default_log_config_def)
qed

text \<open>
  A logger that cannot start does not stop a payment: when the effective log level is not a
  level, the program still runs the command with the same exit code and effects, and none of its
  audit records reaches the audit file, which keeps its contents.
\<close>

theorem payment_without_audit_trail:
  assumes "\<not> level_filter_ok E (log_level (effective_log_config E (command_config c)))"
    and "\<not> logger_started st" "audit_sink st = None" "main_run E c (st, w) = (code, st', w')"
  shows "dispatch E c w = (code, w') \<and> audit_sink st' = None \<and>
     lf_names (log_files st') = lf_names (log_files st) \<and> lf_data (log_files st') = lf_data (log_files st)"
proof -
  let ?cfg = "effective_log_config E (command_config c)"
  have keep: "audit_sink (snd (logging_init E ?cfg st)) = None"
    using assms(1-3) by (auto simp: logging_init_def split: prod.split sum.split)
  obtain recs where "dispatch E c w = (code, w')" "st' = foldl (\<lambda>x r. sink_record E r x) (snd (logging_init E ?cfg st)) recs"
    using assms(4) by (auto simp: main_run_def init_logging_best_effort_def Let_def split: prod.splits)
  then show ?thesis using failed_logger_drops_audit_records [OF assms(1-3), of recs] keep by auto
qed

theorem payment_without_audit_trail_witness:
  "\<exists>code st' w'. main_run (demo_env\<lparr>level_filter_ok := (\<lambda>_. False)\<rparr>) (Deposit ''c'' ''50'' ''4'' None 900 2 100000 None False)
       (\<lparr>logger_started = False, audit_sink = None, log_files = fresh_log_fs\<rparr>, world0) = (code, st', w') \<and>
     audit_sink st' = None \<and> lf_data (log_files st') = lf_data fresh_log_fs"
proof -
  let ?E = "demo_env\<lparr>level_filter_ok := (\<lambda>_. False)\<rparr>"
  let ?st = "\<lparr>logger_started = False, audit_sink = None, log_files = fresh_log_fs\<rparr>"
  let ?c = "Deposit ''c'' ''50'' ''4'' None 900 2 100000 None False"
  obtain code st' w' where run: "main_run ?E ?c (?st, world0) = (code, st', w')" by (metis prod_cases3)
  show ?thesis using payment_without_audit_trail [OF _ _ _ run] run by simp
qed

end
