(* ===== verification/Deposit_Retry.thy ===== *)
theory Deposit_Retry
  imports Withdraw
begin

text \<open>
  Retries of a deposit: what the replay cache remembers of a transaction that was sent, over any number of
  later runs of the client, and what it does not when its file could not be written.
\<close>

section \<open>Definitions\<close>

text \<open>The cache file at a path knows a payment.\<close>

definition knows :: "env \<Rightarrow> string \<Rightarrow> string \<Rightarrow> world \<Rightarrow> bool" where
  "knows E path k w \<longleftrightarrow> (\<exists>m. parse_cache E (file_content path w) = Inr m \<and> map_of m k \<noteq> None)"

text \<open>A run that sent a transaction and recorded no broadcast failure: the node acknowledged it.\<close>

definition sent_and_accepted :: "world \<Rightarrow> world \<Rightarrow> bool" where
  "sent_and_accepted w w' \<longleftrightarrow> broadcasts w' \<noteq> broadcasts w \<and>
     list_all (\<lambda>r. aud_decision r \<noteq> BroadcastFailed) (drop (length (audit_log w)) (audit_log w'))"

text \<open>
  What may happen between a run and a later one: deposits with any arguments, and anything that leaves the
  replay documents in place.
\<close>

inductive afterwards :: "env \<Rightarrow> world \<Rightarrow> world \<Rightarrow> bool" for E w where
  now: "afterwards E w w"
| another_deposit: "afterwards E w w' \<Longrightarrow> afterwards E w (snd (deposit_run E args w'))"
| elsewhere: "afterwards E w w' \<Longrightarrow> \<forall>dir. file_content (replay_path dir) w'' = file_content (replay_path dir) w' \<Longrightarrow>
    afterwards E w w''"

text \<open>A step changes at most one file.\<close>

definition only_file :: "string \<Rightarrow> world \<Rightarrow> world \<Rightarrow> bool" where
  "only_file path w w' \<longleftrightarrow> (\<forall>q. q \<noteq> path \<longrightarrow> files w' q = files w q)"

section \<open>Lemmas\<close>

interpretation ofl: effect_discipline "only_file path" for path
  by unfold_locales (auto simp: only_file_def)

lemma insert_entry_only_file:
  "obeys (only_file path) (insert_entry E path c g a ord m i d t)"
proof -
  have w: "obeys (only_file path) (write_all E path s)" for s
    by (auto simp: obeys_def write_all_def only_file_def split: option.splits)
  have f: "obeys (only_file path) (fs_call E op path (f :: io_error \<Rightarrow> RmpcError))" for op f
    by (auto simp: obeys_def fs_call_def only_file_def)
  have u: "obeys (only_file path) (modifyM (\<lambda>w. w\<lparr>files := (files w)(path \<mapsto> F w)\<rparr>) :: unit rmpc)" for F
    by (auto simp: obeys_def modifyM_def only_file_def)
  show ?thesis
    unfolding insert_entry_def with_locked_file_def write_back_def Let_def
    by (intro ofl.obeys_bindM w f u) simp_all
qed

lemma acquire_content:
  assumes "acquire E dir agent w = (r, w')"
  shows "file_content q w' = file_content q w"
  using assms
  by (cases r) (auto simp: acquire_def Let_def io_simps file_content_def split: option.splits if_splits)

definition same_content :: "world \<Rightarrow> world \<Rightarrow> bool" where
  "same_content w w' \<longleftrightarrow> (\<forall>q. file_content q w' = file_content q w)"

interpretation sc: effect_discipline same_content
  by unfold_locales (auto simp: same_content_def)

lemma same_files_content: "obeys same_files m \<Longrightarrow> obeys same_content m"
  by (simp add: obeys_def same_files_def same_content_def file_content_def)

lemma holding_lock_same_content:
  assumes "\<And>e. obeys same_content (on_err e)" and "obeys same_content body"
  shows "obeys same_content (holding_lock E dir agent on_err body)"
proof (unfold obeys_def, intro allI)
  fix w
  obtain r w' where run: "holding_lock E dir agent on_err body w = (r, w')" by force
  from run have "same_content w w'"
  proof (cases rule: holding_lock_cases)
    case (refused e w1)
    then show ?thesis using acquire_content [OF refused(1)] sc.obeysD [OF assms(1) refused(2)] by (simp add: same_content_def)
  next
    case (entered a w1 w2)
    then show ?thesis
      using acquire_content [OF entered(1)] sc.obeysD [OF assms(2) entered(2)]
      by (simp add: same_content_def file_content_def drop_guard_def)
  qed
  then show "same_content w (snd (holding_lock E dir agent on_err body w))" by (simp add: run)
qed

lemma knows_document:
  "knows E path k w \<longleftrightarrow> (\<exists>rf. document E (file_content path w) = Inr rf \<and> rf_find rf k \<noteq> None)"
  by (auto simp: knows_def parse_cache_document rf_find_def andThen_def map_err_def split: sum.splits)

text \<open>With a working file and codec, recording a payment makes it known and forgets none.\<close>

definition cache_works :: "env \<Rightarrow> bool" where
  "cache_works E \<longleftrightarrow> codec_ok E \<and> (\<forall>dir. no_faults E (replay_path dir)) \<and> (\<forall>rf. \<exists>s. replay_to_json E rf = Inr s)"

abbreviation ctx_payment :: "env \<Rightarrow> deposit_ctx \<Rightarrow> SoftwareSigner \<Rightarrow> string \<Rightarrow> PaymentIdInputs" where
  "ctx_payment E c sg t \<equiv> \<lparr>pi_chain_id = cfg_chain_id (c_cfg c), pi_gateway = c_gateway c, pi_agent = signer_addr sg,
    pi_order_id = c_order_id c, pi_amount = c_amount c, pi_idempotency_key = c_idempotency_key c,
    pi_deadline = c_deadline c, pi_tx_hash = t\<rparr>"

lemma insert_knows:
  assumes "cache_works E" and "document E (file_content (replay_path dir) w) = Inr rf"
  shows "\<exists>w'. insert_inputs E (replay_path dir) p w = (Inr (), w') \<and>
    document E (file_content (replay_path dir) w') = Inr (rf_enter (entry_of E p) rf)"
proof -
  obtain json where json: "replay_to_json E (rf_enter (entry_of E p) rf) = Inr json"
    using assms(1) unfolding cache_works_def by blast
  have "no_faults E (replay_path dir)" using assms(1) by (simp add: cache_works_def)
  from insert_inputs_Inr_I [OF this assms(2) json] obtain w' where
    w': "insert_inputs E (replay_path dir) p w = (Inr (), w')" "files w' = (files w)(replay_path dir \<mapsto> json)"
    by blast
  have "replay_from_json E json = Inr (rf_enter (entry_of E p) rf)" "\<not> is_blank json"
    using assms(1) json unfolding cache_works_def codec_ok_def by blast+
  then have "document E (file_content (replay_path dir) w') = Inr (rf_enter (entry_of E p) rf)"
    using w'(2) by (simp add: document_def file_content_def map_err_def)
  then show ?thesis using w'(1) by blast
qed

lemma deposit_record_insert:
  "deposit_record E c sg replay t w = (Inr (), snd (insert_inputs E replay (ctx_payment E c sg t) w))"
  by (simp add: deposit_record_def insert_inputs_def handleM_def retM_def split: prod.split sum.split)

lemma record_makes_known:
  assumes "cache_works E" and "document E (file_content (replay_path dir) w) = Inr rf"
    and "deposit_record E c sg (replay_path dir) t w = (r, w')"
  shows "document E (file_content (replay_path dir) w') = Inr (rf_enter (entry_of E (ctx_payment E c sg t)) rf)"
  using insert_knows [OF assms(1,2), of "ctx_payment E c sg t"] assms(3) by (auto simp: deposit_record_insert)

lemma ctx_key_payment: "payment_key E (ctx_payment E c sg t) = ctx_key E c sg"
  by (simp add: payment_key_def ctx_key_def)

lemma settle_after_record:
  assumes "deposit_settle E args c sg replay h w = (r, w')"
  shows "files w' = files (snd (deposit_record E c sg replay (show_b256 E h) w))"
proof -
  let ?au = "(deposit_audit E c sg)\<lparr>ab_tx_hash := Some (show_b256 E h)\<rparr>"
  obtain w1 where w1: "deposit_record E c sg replay (show_b256 E h) w = (Inr (), w1)"
    by (simp add: deposit_record_insert)
  have "obeys same_files (bindM (deposit_receipt E args c sg ?au h) (\<lambda>receipt. deposit_event E args c sg ?au h receipt))"
    by (intro sf.obeys_bindM) simp_all
  moreover have "bindM (deposit_receipt E args c sg ?au h) (\<lambda>receipt. deposit_event E args c sg ?au h receipt) w1 = (r, w')"
    using assms w1 by (simp add: deposit_settle_def Let_def bindM_def)
  ultimately have "same_files w1 w'" by (rule sf.obeysD)
  then show ?thesis using w1 by (simp add: same_files_def)
qed

text \<open>
  How the part of a run under the lock ends: before anything was sent, with a transaction the node did not
  acknowledge, or with one it did, which is then recorded.
\<close>

lemma deposit_locked_outcomes:
  assumes "deposit_locked E args c sg dir w = (r, w')"
  obtains (unsent) "files w' = files w" "broadcasts w' = broadcasts w" "isl r"
  | (unacknowledged) xs x where "files w' = files w" "isl r" "audit_log w' = audit_log w @ xs @ [x]"
      "aud_decision x = BroadcastFailed"
  | (acknowledged) w2 h rf where "files w2 = files w" "document E (file_content (replay_path dir) w2) = Inr rf"
      "deposit_settle E args c sg (replay_path dir) h w2 = (r, w')" "broadcasts w' \<noteq> broadcasts w"
  using assms unfolding deposit_locked_def
proof (cases rule: bindM_cases)
  case (failed e)
  then show thesis
    using unsent nb.obeysD [OF deposit_prepare_obeys(1)] sf.obeysD [OF deposit_prepare_obeys(2)]
    by (auto simp: no_broadcast_iff same_files_def)
next
  case (continued x w1)
  obtain replay report raw where x: "x = (replay, report, raw)" by (cases x)
  note prep = continued(1) [unfolded x]
  have w1: "files w1 = files w" "broadcasts w1 = broadcasts w" "prefix (audit_log w) (audit_log w1)" "replay = replay_path dir"
    using nb.obeysD [OF deposit_prepare_obeys(1) prep] sf.obeysD [OF deposit_prepare_obeys(2) prep]
      reportsD [OF phase_deposit_prepare prep] deposit_prepare_Inr_D [OF prep]
    by (auto simp: no_broadcast_iff same_files_def added_def)
  obtain q w2 where b: "deposit_broadcast E args c sg report raw w1 = (q, w2)" by force
  have w2: "files w2 = files w" "broadcasts w2 \<noteq> broadcasts w"
    using sf.obeysD [OF deposit_broadcast_obeys(1) b] deposit_broadcast_sends [OF b] w1 by (auto simp: same_files_def)
  show thesis
  proof (cases q)
    case (Inl e)
    then have r: "r = Inl e" "w' = w2" using continued(2) x b by (auto simp: bindM_def)
    from b Inl obtain y where "audit_log w2 = audit_log w1 @ [y]" "aud_decision y = BroadcastFailed"
      by (auto simp: deposit_broadcast_def deposit_refuse_def emit_refusal_def record_audit_def emit_def io_simps build_def)
    then show thesis using unacknowledged r w1(3) w2(1) by (auto elim!: prefixE)
  next
    case (Inr h)
    then have settle: "deposit_settle E args c sg (replay_path dir) h w2 = (r, w')"
      using continued(2) x b w1(4) by (simp add: bindM_def)
    obtain m where "parse_cache E (file_content (replay_path dir) w2) = Inr m"
      using deposit_prepare_Inr_D [OF prep] w2(1) by (auto simp: file_content_def)
    then obtain rf where "document E (file_content (replay_path dir) w2) = Inr rf"
      by (auto simp: parse_cache_document io_simps)
    moreover have "broadcasts w' \<noteq> broadcasts w"
      using nb.obeysD [OF deposit_settle_obeys(1) settle] w2(2) by (simp add: no_broadcast_iff)
    ultimately show thesis using acknowledged w2(1) settle by blast
  qed
qed

lemma deposit_locked_keeps_known:
  assumes "cache_works E" and "knows E (replay_path d) k w" and "deposit_locked E args c sg dir w = (r, w')"
  shows "knows E (replay_path d) k w'"
  using assms(3)
proof (cases rule: deposit_locked_outcomes)
  case (acknowledged w2 h rf)
  obtain w3 where rec: "deposit_record E c sg (replay_path dir) (show_b256 E h) w2 = (Inr (), w3)"
    by (simp add: deposit_record_insert)
  have f3: "files w' = files w3" using settle_after_record [OF acknowledged(3)] rec by simp
  have k2: "knows E (replay_path d) k w2" using assms(2) acknowledged(1) by (simp add: knows_def file_content_def)
  show ?thesis
  proof (cases "replay_path d = replay_path dir")
    case True
    have "document E (file_content (replay_path dir) w') =
        Inr (rf_enter (entry_of E (ctx_payment E c sg (show_b256 E h))) rf)"
      using record_makes_known [OF assms(1) acknowledged(2) rec] f3 by (simp add: file_content_def)
    then show ?thesis
      using k2 acknowledged(2) True by (auto simp: knows_document rc.find_enter)
  next
    case False
    have "only_file (replay_path dir) w2 w3"
      using ofl.obeysD [OF insert_entry_only_file] rec unfolding deposit_record_insert insert_inputs_def
      by (metis prod.inject surjective_pairing)
    then show ?thesis using k2 False f3 by (simp add: knows_def file_content_def only_file_def)
  qed
qed (use assms(2) in \<open>simp_all add: knows_def file_content_def\<close>)

lemma deposit_run_body: "snd (deposit_run E args w) = snd (deposit_body E args w)"
  by (simp add: deposit_run_def finish_def split: prod.split sum.split)

lemma deposit_run_keeps_known:
  assumes "cache_works E" and "knows E (replay_path d) k w"
  shows "knows E (replay_path d) k (snd (deposit_run E args w))"
proof -
  obtain r w' where run: "deposit_body E args w = (r, w')" by force
  from run have "knows E (replay_path d) k w'"
  proof (cases rule: deposit_body_cases)
    case early
    then show ?thesis using assms(2) by (simp add: knows_def file_content_def same_files_def)
  next
    case (refused c sg dir e w1)
    then show ?thesis
      using assms(2) acquire_content [OF refused(1)] sf.obeysD [OF deposit_lock_err_obeys(2) refused(2)]
      by (simp add: knows_def file_content_def same_files_def)
  next
    case (entered c sg dir a w1 w2)
    have "knows E (replay_path d) k w1" using assms(2) acquire_content [OF entered(5)] by (simp add: knows_def file_content_def)
    from deposit_locked_keeps_known [OF assms(1) this entered(6)] show ?thesis
      by (simp add: entered(7) knows_def file_content_def drop_guard_def)
  qed
  then show ?thesis by (simp add: deposit_run_body run)
qed

lemma afterwards_knows:
  assumes "afterwards E w w'" and "cache_works E" and "knows E (replay_path d) k w"
  shows "knows E (replay_path d) k w'"
  using assms(1,3)
proof (induction rule: afterwards.induct)
  case (another_deposit w' args)
  then show ?case using deposit_run_keeps_known [OF assms(2)] by blast
qed (auto simp: knows_def)

lemma deposit_inputs_agree:
  assumes "fst (deposit_inputs E args w) = Inr c" and "fst (deposit_inputs E args' w') = Inr c'"
    and "config_path args' = config_path args" "arg_amount args' = arg_amount args"
      "arg_order_id args' = arg_order_id args" "arg_idempotency_key args' = arg_idempotency_key args"
  shows "c_cfg c' = c_cfg c \<and> c_amount c' = c_amount c \<and> c_order_id c' = c_order_id c \<and>
    c_idempotency_key c' = c_idempotency_key c \<and> c_gateway c' = c_gateway c"
proof -
  obtain w1 w2 where "deposit_inputs E args w = (Inr c, w1)" "deposit_inputs E args' w' = (Inr c', w2)"
    using assms(1,2) by (metis prod.collapse)
  then show ?thesis
    using assms(3-6) by (auto simp: deposit_inputs_def Let_def io_simps split: option.splits)
qed

lemma unlocked_fun: "unlocked E cfg sg \<Longrightarrow> unlocked E cfg sg' \<Longrightarrow> sg' = sg"
  by (auto simp: unlocked_def)

text \<open>A run whose transaction the node acknowledged got as far as recording it.\<close>

lemma deposit_acknowledged:
  assumes "deposit_run E args w = (code, w')" and "code = EXIT_OK \<or> sent_and_accepted w w'"
  obtains c sg dir r h rf w2 where "fst (deposit_inputs E args w) = Inr c" "unlocked E (c_cfg c) sg"
    "resolve_state_dir (env_vars E) (c_cfg c) = Inr dir"
    "document E (file_content (replay_path dir) w2) = Inr rf"
    "files w' = files (snd (deposit_record E c sg (replay_path dir) (show_b256 E h) w2))"
    "broadcasts w' \<noteq> broadcasts w"
proof -
  obtain r where run: "deposit_body E args w = (r, w')"
    using assms(1) by (cases "deposit_body E args w") (auto simp: deposit_run_def finish_def split: sum.splits)
  have code: "\<not> isl r" if "code = EXIT_OK"
    using reportsD [OF reports_deposit_body run] assms(1) run that
    by (cases r) (auto simp: deposit_run_def finish_def fail_report_def EXIT_OK_def EXIT_REFUSAL_def EXIT_STARTUP_FAIL_def)
  from run show thesis
  proof (cases rule: deposit_body_cases)
    case early
    then show thesis using assms(2) code by (auto simp: sent_and_accepted_def no_broadcast_iff)
  next
    case (refused c sg dir e w1)
    have "isl r" using refused(2) by (cases r) (auto simp: deposit_lock_err_def io_simps split: RmpcError.splits)
    moreover have "broadcasts w' = broadcasts w"
      using nb.obeysD [OF deposit_lock_err_obeys(1) refused(2)] nb.obeysD [OF acquire_obeys(1) refused(1)]
      by (auto simp: no_broadcast_iff broadcasts_def)
    ultimately show thesis using assms(2) code by (auto simp: sent_and_accepted_def)
  next
    case (entered c sg dir a w1 w2)
    have w1: "broadcasts w1 = broadcasts w" "audit_log w1 = audit_log w"
      using nb.obeysD [OF acquire_obeys(1) entered(5)] acquire_Inr_D(5) [OF entered(5)]
      by (simp_all add: no_broadcast_iff broadcasts_def)
    have w': "files w' = files w2" "broadcasts w' = broadcasts w2" "audit_log w' = audit_log w2"
      by (simp_all add: entered(7) drop_guard_def broadcasts_def)
    from entered(6) show thesis
    proof (cases rule: deposit_locked_outcomes)
      case unsent
      then show thesis using assms(2) code w1 w' by (auto simp: sent_and_accepted_def)
    next
      case (unacknowledged xs x)
      then show thesis using assms(2) code w1 w' by (auto simp: sent_and_accepted_def)
    next
      case (acknowledged w3 h rf)
      then show thesis using that entered(1,3,4) w1 w' settle_after_record [OF acknowledged(3)] by metis
    qed
  qed
qed

text \<open>A withdrawal leaves every replay document in place.\<close>

lemma withdraw_phases_keep_files:
  "obeys same_files (withdraw_inputs E args)" "obeys same_files (withdraw_signer E args c)"
  "obeys same_files (withdraw_locked E args c sg)" "obeys same_files (withdraw_lock_err E args c sg e)"
proof -
  show "obeys same_files (withdraw_inputs E args)"
    unfolding withdraw_inputs_def Let_def by (auto intro!: sf.obeys_bindM split: option.split)
  show "obeys same_files (withdraw_signer E args c)"
    unfolding withdraw_signer_def Let_def
    by (auto intro!: sf.obeys_bindM split: option.split sum.split SignerError.split)
  have "obeys same_files (withdraw_broadcast E args c sg report raw)" for report raw
    unfolding withdraw_broadcast_def by (auto intro!: sf.obeys_handleM)
  moreover have "obeys same_files (withdraw_settle E args c sg h)" for h
    unfolding withdraw_settle_def withdraw_receipt_def withdraw_event_def Let_def
    by (auto intro!: sf.obeys_bindM sf.obeys_handleM split: option.split)
  ultimately show "obeys same_files (withdraw_locked E args c sg)"
    unfolding withdraw_locked_def by (auto intro!: sf.obeys_bindM split: prod.split)
  show "obeys same_files (withdraw_lock_err E args c sg e)"
    by (simp add: withdraw_lock_err_def split: RmpcError.split)
qed

lemma withdraw_body_same_content: "obeys same_content (withdraw_body E args)"
  unfolding withdraw_body_def
  by (intro sc.obeys_bindM holding_lock_same_content same_files_content withdraw_phases_keep_files) simp

lemma afterwards_withdraw:
  assumes "afterwards E w w'"
  shows "afterwards E w (snd (withdraw_run E args w'))"
proof -
  have "snd (withdraw_run E args w') = snd (withdraw_body E args w')"
    by (simp add: withdraw_run_def finish_def split: prod.split sum.split)
  then show ?thesis
    using elsewhere [OF assms] withdraw_body_same_content [of E args] by (simp add: obeys_def same_content_def)
qed

section \<open>Properties\<close>

text \<open>
  C2. No double spend on retry, while the cache works: if a deposit exited with 0, or sent its transaction and
  recorded no broadcast failure (the wait for the receipt may have timed out), then the same request, with any deadline, gas or fee
  options, sends no transaction however many deposits of any payments were run in between. This assumes that
  the replay document can be serialised and reads back, that no operation on the cache file fails, and
  that nothing else than the client changes the cache file (a withdrawal never does, \<open>afterwards_withdraw\<close>).
\<close>

theorem deposit_retry_not_sent:
  assumes "deposit_run E args w = (code, w1)" and "code = EXIT_OK \<or> sent_and_accepted w w1"
    and "cache_works E" and "afterwards E w1 w2"
    and "config_path args' = config_path args" "arg_amount args' = arg_amount args"
      "arg_order_id args' = arg_order_id args" "arg_idempotency_key args' = arg_idempotency_key args"
  shows "broadcasts (snd (deposit_run E args' w2)) = broadcasts w2"
proof -
  from deposit_acknowledged [OF assms(1,2)] obtain c sg dir h rf w3 where
    c: "fst (deposit_inputs E args w) = Inr c" "unlocked E (c_cfg c) sg" "resolve_state_dir (env_vars E) (c_cfg c) = Inr dir"
      "document E (file_content (replay_path dir) w3) = Inr rf"
      "files w1 = files (snd (deposit_record E c sg (replay_path dir) (show_b256 E h) w3))"
    by metis
  obtain r w4 where rec: "deposit_record E c sg (replay_path dir) (show_b256 E h) w3 = (r, w4)" by force
  have "knows E (replay_path dir) (ctx_key E c sg) w1"
    using record_makes_known [OF assms(3) c(4) rec] c(5) rec
    by (simp add: knows_document file_content_def rc.find_enter ctx_key_payment)
  then have k: "knows E (replay_path dir) (ctx_key E c sg) w2" using afterwards_knows [OF assms(4,3)] by blast
  have "\<not> deposit_authorised E args' w2 c' sg' dir' raw" for c' sg' dir' raw
  proof
    assume a: "deposit_authorised E args' w2 c' sg' dir' raw"
    note agree = deposit_inputs_agree [OF c(1) _ assms(5-8), of w2 c']
    have "ctx_key E c' sg' = ctx_key E c sg" "dir' = dir"
      using a agree c(2,3) unlocked_fun [of E "c_cfg c" sg sg'] by (auto simp: deposit_authorised_def ctx_key_def)
    then show False using a k by (auto simp: deposit_authorised_def knows_def)
  qed
  moreover obtain q w' where run: "deposit_body E args' w2 = (q, w')" by force
  ultimately have "broadcasts w' = broadcasts w2" using deposit_body_authorised [OF run] by blast
  then show ?thesis by (simp add: deposit_run_body run)
qed

lemma demo_cache_works: "cache_works demo_env"
  using demo_codec_ok by (simp add: cache_works_def demo_env_def)

text \<open>Between the two runs of the demonstration another payment is deposited.\<close>

theorem deposit_retry_not_sent_witness:
  "let w1 = snd (deposit_run demo_env demo_args world0);
       w2 = snd (deposit_run demo_env (demo_args\<lparr>arg_order_id := ''5''\<rparr>) w1) in
   broadcasts (snd (deposit_run demo_env (demo_args\<lparr>deadline_secs := 60\<rparr>) w2)) = broadcasts w2"
proof -
  obtain w1 where w1: "deposit_run demo_env demo_args world0 = (EXIT_OK, w1)" using demo_deposit_succeeds by blast
  have "afterwards demo_env w1 (snd (deposit_run demo_env (demo_args\<lparr>arg_order_id := ''5''\<rparr>) w1))"
    by (rule another_deposit [OF now])
  from deposit_retry_not_sent [OF w1 _ demo_cache_works this, of "demo_args\<lparr>deadline_secs := 60\<rparr>"]
  show ?thesis by (simp add: w1 Let_def)
qed



end
