(* ===== verification/Keystore_Import.thy ===== *)
theory Keystore_Import
  imports Keystore
begin

text \<open>
  The helper program \<open>rmpc-keystore-import\<close> (\<open>bin/rmpc_keystore_import.rs\<close>): from a private key in the environment to a
  keystore file. The result is the exit code and the line printed on standard output.
\<close>

definition PRIVKEY_ENV_VAR :: string where
  "PRIVKEY_ENV_VAR = ''RMPC_IMPORT_PRIVKEY_HEX''"

definition keystore_import ::
    "env \<Rightarrow> string list \<Rightarrow> bytes \<Rightarrow> bytes \<Rightarrow> world \<Rightarrow> (nat \<times> string option) \<times> world" where
  "keystore_import E args salt nonce_bytes w =
     (case args of
        [] \<Rightarrow> ((2, None), w)
      | out_path # _ \<Rightarrow>
     (case env_vars E PRIVKEY_ENV_VAR of
        None \<Rightarrow> ((2, None), w)
      | Some privkey_hex \<Rightarrow>
     (case env_vars E PASSPHRASE_ENV_VAR of
        None \<Rightarrow> ((2, None), w)
      | Some passphrase \<Rightarrow>
     (case hex_decode E (trim_0x (trim privkey_hex)) of
        Inl _ \<Rightarrow> ((2, None), w)
      | Inr privkey \<Rightarrow>
          if length privkey \<noteq> 32 then ((2, None), w)
          else (case create_keystore E out_path privkey (str_bytes passphrase) salt nonce_bytes w of
                  (Inr ks, w') \<Rightarrow> ((0, Some (ks_address ks)), w')
                | (Inl _, w') \<Rightarrow> ((3, None), w'))))))"

section \<open>Lemmas\<close>

lemma created_on_file:
  assumes "create_keystore E path priv pw salt nonce w = (Inr ks, w')"
  shows "\<exists>doc. keystore_to_json E ks = Inr doc \<and> files w' path = Some doc"
proof -
  have "files u' path = Some doc" if "fs_write E path doc u = (Inr x, u')" for doc x u u'
    using that by (auto simp: fs_write_def fs_call_def write_all_def io_simps split: option.splits)
  then show ?thesis
    using assms by (auto simp: create_keystore_def Let_def io_simps)
qed

text \<open>
  An import that exits with 0 leaves a file that reads back as a keystore which the passphrase of the
  environment unlocks to the imported key, and it printed the address of that key; it exits with 2 without
  touching anything, or with 3. Used of the crates: what the round trip of the keystore uses, and that a
  serialised keystore reads back.
\<close>

theorem import_unlocks:
  assumes "keystore_import E args salt nonce w = ((0, out), w')"
    and "\<forall>bs. hex_decode E (hex_encode E bs) = Inr bs"
    and "\<forall>k n a p c. aes_gcm_encrypt E k n a p = Inr c \<longrightarrow> aes_gcm_decrypt E k n a c = Inr p"
    and "\<forall>ad. length (address_bytes E ad) = 20 \<and> address_of_bytes E (address_bytes E ad) = ad"
    and "\<forall>ks doc. keystore_to_json E ks = Inr doc \<longrightarrow> json_keystore E doc = Inr ks"
    and "length salt = 16" and "length nonce = 12"
  shows "\<exists>path rest hex priv pw doc ks. args = path # rest \<and> env_vars E PRIVKEY_ENV_VAR = Some hex \<and>
    hex_decode E (trim_0x (trim hex)) = Inr priv \<and> env_vars E PASSPHRASE_ENV_VAR = Some pw \<and>
    files w' path = Some doc \<and> json_keystore E doc = Inr ks \<and> out = Some (ks_address ks) \<and>
    from_keystore E ks (str_bytes pw) = Inr \<lparr>signing_key = priv, signer_addr = address_from_signing_key E priv\<rparr>"
proof -
  from assms(1) obtain path rest hex priv pw ks where run: "args = path # rest" "env_vars E PRIVKEY_ENV_VAR = Some hex"
      "hex_decode E (trim_0x (trim hex)) = Inr priv" "env_vars E PASSPHRASE_ENV_VAR = Some pw" "length priv = 32"
      "out = Some (ks_address ks)" "create_keystore E path priv (str_bytes pw) salt nonce w = (Inr ks, w')"
    by (auto simp: keystore_import_def split: list.splits option.splits sum.splits if_splits prod.splits)
  obtain doc where "keystore_to_json E ks = Inr doc" "files w' path = Some doc"
    using created_on_file [OF run(7)] by blast
  then show ?thesis
    using created_unlocks [OF run(7) assms(2,3) _ _ assms(6,7) run(5)] assms(4,5) run by blast
qed

end
