(* ===== verification/Explorer_Rpc.thy ===== *)
theory Explorer_Rpc
  imports Rpc
begin

text \<open>
  The explorer indexer's JSON-RPC client (\<open>services/explorer-indexer/src/rpc.rs\<close>) and the
  contract events it decodes (\<open>abi.rs\<close>). The parameters of the indexer (the node, the hex and JSON
  crates, the event decoders the \<open>sol!\<close> macro generates, the faults of the database) are the
  record \<open>ienv\<close>. JSON values are those of the payment client's model. The node answers by the number
  of requests sent before, so that its view of the chain may change between two requests.
\<close>

section \<open>Contract events\<close>

record IxAgentDeposit =
  ad_paymentId :: b256
  ad_orderId :: b256
  ad_agent :: address
  ad_shareReceiver :: address
  ad_amount :: u256
  ad_sharesMinted :: u256
  ad_windowId :: u64

record IxAgentDepositRouted =
  ar_paymentId :: b256
  ar_orderId :: b256
  ar_agent :: address
  ar_shareReceiver :: address
  ar_router :: address
  ar_amount :: u256
  ar_sharesPerLeg :: "u256 list"
  ar_windowId :: u64

record IxAgentAuthorized =
  aa_agent :: address
  aa_owner :: address
  aa_validUntil :: u64
  aa_maxPerPayment :: u256
  aa_maxPerWindow :: u256
  aa_shareReceiver :: address

record IxAgentRevoked =
  rv_agent :: address
  rv_owner :: address

record IxRouterDeposit =
  rd_depositor :: address
  rd_vault :: address
  rd_amount :: u256
  rd_shares :: u256
  rd_weightBps :: u256

record IxVaultRegistered =
  vr_vault :: address
  vr_name :: string
  vr_asset :: address

record IxVaultStatusChanged =
  vs_vault :: address
  vs_newStatus :: u8
  vs_timestamp :: u256

record IxProposalCreated =
  pc_proposalId :: u256
  pc_proposer :: address
  pc_vaults :: "address list"
  pc_bps :: "u256 list"
  pc_votingDeadline :: u64

record IxVoteCast =
  vc_proposalId :: u256
  vc_voter :: address
  vc_power :: u256
  vc_totalFor :: u256

record IxProposalExecuted =
  pe_proposalId :: u256
  pe_executor :: address

record IxWeightsApplied =
  wa_proposalId :: u256
  wa_vaults :: "address list"
  wa_bps :: "u256 list"

datatype vault_read = TotalAssetsCall | TotalSupplyCall | ExitFeeBpsCall | TvlCapCall | PausedCall

section \<open>The indexer's environment\<close>

datatype ix_reply = NotSent string | Unreadable string | Body json

type_synonym 'a event_decoder = "address \<Rightarrow> b256 list \<Rightarrow> bytes \<Rightarrow> string + 'a"

record ienv =
  ix_post :: "nat \<Rightarrow> string \<Rightarrow> json \<Rightarrow> ix_reply"
  ix_hex_decode :: "string \<Rightarrow> string + bytes"
  ix_hex_encode :: "bytes \<Rightarrow> string"
  ix_fmt_address :: "address \<Rightarrow> string"
  ix_fmt_b256 :: "b256 \<Rightarrow> string"
  ix_json_text :: "json \<Rightarrow> string"
  ix_serde_error :: "string \<Rightarrow> json \<Rightarrow> string"
  ix_keccak :: "string \<Rightarrow> b256"
  ix_abi_encode :: "vault_read \<Rightarrow> bytes"
  ix_feature_flags_var :: "string option"
  ix_agent_deposit :: "IxAgentDeposit event_decoder"
  ix_agent_deposit_routed :: "IxAgentDepositRouted event_decoder"
  ix_agent_authorized :: "IxAgentAuthorized event_decoder"
  ix_agent_revoked :: "IxAgentRevoked event_decoder"
  ix_router_deposit :: "IxRouterDeposit event_decoder"
  ix_vault_registered :: "IxVaultRegistered event_decoder"
  ix_vault_status_changed :: "IxVaultStatusChanged event_decoder"
  ix_proposal_created :: "IxProposalCreated event_decoder"
  ix_vote_cast :: "IxVoteCast event_decoder"
  ix_proposal_executed :: "IxProposalExecuted event_decoder"
  ix_weights_applied :: "IxWeightsApplied event_decoder"
  ix_db_fault :: "nat \<Rightarrow> string option"

text \<open>The part of the state the client changes: the requests sent so far.\<close>

record iworld =
  rpc_sent :: "(string \<times> json) list"

section \<open>Data\<close>

datatype RpcError = RpcTransport string | RpcServer string string | RpcDecode string string

record BlockHeader =
  bh_number :: u64
  bh_hash :: b256
  bh_parent_hash :: b256
  bh_timestamp :: u64

record LogEntry =
  le_address :: address
  le_topics :: "b256 list"
  le_data :: bytes
  le_block_number :: u64
  le_block_hash :: b256
  le_tx_hash :: b256
  le_tx_index :: u32
  le_log_index :: u32

record TxRow =
  tr_tx_hash :: b256
  tr_tx_index :: u32
  tr_from :: address
  tr_to :: "address option"
  tr_status :: u8

section \<open>Parsing\<close>

text \<open>Big-endian bytes as a word (\<open>B256::from\<close>, \<open>Address::from_slice\<close>, \<open>U256::from_be_slice\<close>).\<close>

definition be_word :: "bytes \<Rightarrow> 'a::len word" where
  "be_word bs = of_nat (foldl (\<lambda>a b. 256 * a + unat b) 0 bs)"

definition ix_parse_u64_hex :: "string \<Rightarrow> string \<Rightarrow> RpcError + u64" where
  "ix_parse_u64_hex method s = map_err (RpcDecode method) (u64_from_hex (trim_0x s))"

definition ix_parse_b256 :: "ienv \<Rightarrow> string \<Rightarrow> string \<Rightarrow> RpcError + b256" where
  "ix_parse_b256 E method s =
     andThen (map_err (RpcDecode method) (ix_hex_decode E (trim_0x s))) (\<lambda>bs.
     if length bs \<noteq> 32 then Inl (RpcDecode method (''b256 wrong length '' @ show_nat (length bs)))
     else Inr (be_word bs))"

definition ix_parse_address :: "ienv \<Rightarrow> string \<Rightarrow> string \<Rightarrow> RpcError + address" where
  "ix_parse_address E method s =
     andThen (map_err (RpcDecode method) (ix_hex_decode E (trim_0x s))) (\<lambda>bs.
     if length bs \<noteq> 20 then Inl (RpcDecode method (''address wrong length '' @ show_nat (length bs)))
     else Inr (be_word bs))"

definition ix_decode_hex_bytes :: "ienv \<Rightarrow> string \<Rightarrow> string \<Rightarrow> RpcError + bytes" where
  "ix_decode_hex_bytes E method s = map_err (RpcDecode method) (ix_hex_decode E (trim_0x s))"

text \<open>\<open>v.get(k).and_then(as_str)\<close>, and the same with \<open>unwrap_or(d)\<close>.\<close>

definition str_member :: "string \<Rightarrow> json \<Rightarrow> string option" where
  "str_member k v = (case json_get k v of Some (JStr s) \<Rightarrow> Some s | _ \<Rightarrow> None)"

definition str_or :: "string \<Rightarrow> string \<Rightarrow> json \<Rightarrow> string" where
  "str_or d k v = (case str_member k v of Some s \<Rightarrow> s | None \<Rightarrow> d)"

definition arr_member :: "string \<Rightarrow> json \<Rightarrow> json list option" where
  "arr_member k v = (case json_get k v of Some (JArr xs) \<Rightarrow> Some xs | _ \<Rightarrow> None)"

text \<open>\<open>iter().map(f).collect::<Result<Vec<_>, _>>()\<close> and a loop that pushes results.\<close>

fun collectR :: "('a \<Rightarrow> 'e + 'b) \<Rightarrow> 'a list \<Rightarrow> 'e + 'b list" where
  "collectR f [] = Inr []"
| "collectR f (x # xs) = andThen (f x) (\<lambda>y. andThen (collectR f xs) (\<lambda>ys. Inr (y # ys)))"

fun collectM :: "('a \<Rightarrow> ('s, 'e, 'b) io) \<Rightarrow> 'a list \<Rightarrow> ('s, 'e, 'b list) io" where
  "collectM f [] = retM []"
| "collectM f (x # xs) = bindM (f x) (\<lambda>y. bindM (collectM f xs) (\<lambda>ys. retM (y # ys)))"

text \<open>\<open>match m { Ok(x) => .., Err(e) => .. }\<close> with effects on both branches.\<close>

definition matchM ::
    "('s, 'e, 'a) io \<Rightarrow> ('a \<Rightarrow> ('s, 'f, 'b) io) \<Rightarrow> ('e \<Rightarrow> ('s, 'f, 'b) io) \<Rightarrow> ('s, 'f, 'b) io" where
  "matchM m f h = (\<lambda>s. case m s of (Inr x, s') \<Rightarrow> f x s' | (Inl e, s') \<Rightarrow> h e s')"

definition parse_header :: "ienv \<Rightarrow> json \<Rightarrow> RpcError + BlockHeader" where
  "parse_header E v =
     andThen (ix_parse_u64_hex ''eth_getBlockByNumber.number'' (str_or ''0x0'' ''number'' v)) (\<lambda>num.
     andThen (ix_parse_b256 E ''eth_getBlockByNumber.hash'' (str_or ''0x'' ''hash'' v)) (\<lambda>h.
     andThen (ix_parse_b256 E ''eth_getBlockByNumber.parentHash'' (str_or ''0x'' ''parentHash'' v)) (\<lambda>p.
     andThen (ix_parse_u64_hex ''eth_getBlockByNumber.timestamp'' (str_or ''0x0'' ''timestamp'' v)) (\<lambda>t.
     Inr \<lparr>bh_number = num, bh_hash = h, bh_parent_hash = p, bh_timestamp = t\<rparr>))))"

definition parse_topic :: "ienv \<Rightarrow> json \<Rightarrow> RpcError + b256" where
  "parse_topic E t =
     (case t of JStr s \<Rightarrow> ix_parse_b256 E ''log.topic'' s
      | _ \<Rightarrow> Inl (RpcDecode ''eth_getLogs'' ''topic not string''))"

definition parse_log :: "ienv \<Rightarrow> json \<Rightarrow> RpcError + LogEntry" where
  "parse_log E r =
     andThen (ix_parse_address E ''log.address'' (str_or ''0x'' ''address'' r)) (\<lambda>addr.
     andThen (collectR (parse_topic E) (case arr_member ''topics'' r of Some ts \<Rightarrow> ts | None \<Rightarrow> [])) (\<lambda>topics.
     andThen (ix_decode_hex_bytes E ''log.data'' (str_or ''0x'' ''data'' r)) (\<lambda>data.
     andThen (ix_parse_u64_hex ''log.blockNumber'' (str_or ''0x0'' ''blockNumber'' r)) (\<lambda>bn.
     andThen (ix_parse_b256 E ''log.blockHash'' (str_or ''0x'' ''blockHash'' r)) (\<lambda>bh.
     andThen (ix_parse_b256 E ''log.transactionHash'' (str_or ''0x'' ''transactionHash'' r)) (\<lambda>th.
     andThen (ix_parse_u64_hex ''log.transactionIndex'' (str_or ''0x0'' ''transactionIndex'' r)) (\<lambda>ti.
     andThen (ix_parse_u64_hex ''log.logIndex'' (str_or ''0x0'' ''logIndex'' r)) (\<lambda>li.
     Inr \<lparr>le_address = addr, le_topics = topics, le_data = data, le_block_number = bn, le_block_hash = bh,
          le_tx_hash = th, le_tx_index = ucast ti, le_log_index = ucast li\<rparr>))))))))"

section \<open>Requests\<close>

definition classify :: "ienv \<Rightarrow> string \<Rightarrow> ix_reply \<Rightarrow> RpcError + json" where
  "classify E method reply =
     (case reply of
        NotSent e \<Rightarrow> Inl (RpcTransport (method @ '': '' @ e))
      | Unreadable e \<Rightarrow> Inl (RpcTransport (method @ '': read body: '' @ e))
      | Body resp \<Rightarrow>
          (case json_get ''error'' resp of
             Some err \<Rightarrow> Inl (RpcServer method (ix_json_text E err))
           | None \<Rightarrow>
               (case json_get ''result'' resp of
                  None \<Rightarrow> Inl (RpcServer method ''no result field'')
                | Some r \<Rightarrow> Inr r)))"

definition ix_call :: "ienv \<Rightarrow> string \<Rightarrow> json list \<Rightarrow> ('z iworld_scheme, RpcError, json) io" where
  "ix_call E method params = (\<lambda>w.
     (classify E method (ix_post E (length (rpc_sent w)) method (JArr params)),
      w\<lparr>rpc_sent := rpc_sent w @ [(method, JArr params)]\<rparr>))"

text \<open>\<open>serde_json::from_value\<close> into a string and into a vector of values.\<close>

definition as_string :: "ienv \<Rightarrow> string \<Rightarrow> json \<Rightarrow> RpcError + string" where
  "as_string E method v =
     (case v of JStr s \<Rightarrow> Inr s | _ \<Rightarrow> Inl (RpcDecode method (ix_serde_error E ''a string'' v)))"

definition as_values :: "ienv \<Rightarrow> string \<Rightarrow> json \<Rightarrow> RpcError + json list" where
  "as_values E method v =
     (case v of JArr xs \<Rightarrow> Inr xs | _ \<Rightarrow> Inl (RpcDecode method (ix_serde_error E ''a sequence'' v)))"

definition ix_chain_id :: "ienv \<Rightarrow> ('z iworld_scheme, RpcError, u64) io" where
  "ix_chain_id E =
     bindM (ix_call E ''eth_chainId'' []) (\<lambda>v.
     liftR (andThen (as_string E ''eth_chainId'' v) (ix_parse_u64_hex ''eth_chainId'')))"

definition ix_block_number :: "ienv \<Rightarrow> ('z iworld_scheme, RpcError, u64) io" where
  "ix_block_number E =
     bindM (ix_call E ''eth_blockNumber'' []) (\<lambda>v.
     liftR (andThen (as_string E ''eth_blockNumber'' v) (ix_parse_u64_hex ''eth_blockNumber'')))"

definition ix_block_header :: "ienv \<Rightarrow> u64 \<Rightarrow> ('z iworld_scheme, RpcError, BlockHeader option) io" where
  "ix_block_header E n =
     bindM (ix_call E ''eth_getBlockByNumber'' [JStr (hex_tag n), JBool False]) (\<lambda>v.
     if v = JNull then retM None
     else liftR (andThen (parse_header E v) (\<lambda>h. Inr (Some h))))"

definition ix_tx_status :: "ienv \<Rightarrow> b256 \<Rightarrow> ('z iworld_scheme, RpcError, u8) io" where
  "ix_tx_status E h =
     bindM (ix_call E ''eth_getTransactionReceipt'' [JStr (ix_fmt_b256 E h)]) (\<lambda>v.
     if v = JNull then retM 0
     else liftR (andThen (ix_parse_u64_hex ''receipt.status'' (str_or ''0x0'' ''status'' v)) (\<lambda>n. Inr (ucast n))))"

definition ix_tx_row :: "ienv \<Rightarrow> json \<Rightarrow> ('z iworld_scheme, RpcError, TxRow) io" where
  "ix_tx_row E t =
     bindM (liftR (ix_parse_b256 E ''tx.hash'' (str_or ''0x'' ''hash'' t))) (\<lambda>h.
     bindM (liftR (ix_parse_u64_hex ''tx.transactionIndex'' (str_or ''0x0'' ''transactionIndex'' t))) (\<lambda>i.
     bindM (liftR (ix_parse_address E ''tx.from'' (str_or ''0x'' ''from'' t))) (\<lambda>from.
     bindM (liftR (case str_member ''to'' t of
                     None \<Rightarrow> Inr None
                   | Some s \<Rightarrow> if s = [] then Inr None
                               else andThen (ix_parse_address E ''tx.to'' s) (\<lambda>a. Inr (Some a)))) (\<lambda>to.
     bindM (ix_tx_status E h) (\<lambda>status.
     retM \<lparr>tr_tx_hash = h, tr_tx_index = ucast i, tr_from = from, tr_to = to, tr_status = status\<rparr>)))))"

definition ix_block_with_txs :: "ienv \<Rightarrow> u64 \<Rightarrow> ('z iworld_scheme, RpcError, BlockHeader \<times> TxRow list) io" where
  "ix_block_with_txs E n =
     bindM (ix_call E ''eth_getBlockByNumber'' [JStr (hex_tag n), JBool True]) (\<lambda>v.
     if v = JNull then failM (RpcServer ''eth_getBlockByNumber'' (''block '' @ show_word n @ '' missing''))
     else
       bindM (liftR (parse_header E v)) (\<lambda>header.
       bindM (collectM (ix_tx_row E) (case arr_member ''transactions'' v of Some ts \<Rightarrow> ts | None \<Rightarrow> [])) (\<lambda>txs.
       retM (header, txs))))"

definition ix_get_logs ::
    "ienv \<Rightarrow> u64 \<Rightarrow> u64 \<Rightarrow> address list \<Rightarrow> b256 list \<Rightarrow> ('z iworld_scheme, RpcError, LogEntry list) io" where
  "ix_get_logs E from_block to_block addrs topic0 =
     bindM (ix_call E ''eth_getLogs''
       [JObj [(''fromBlock'', JStr (hex_tag from_block)),
              (''toBlock'', JStr (hex_tag to_block)),
              (''address'', JArr (map (\<lambda>a. JStr (ix_fmt_address E a)) addrs)),
              (''topics'', JArr [JArr (map (\<lambda>t. JStr (ix_fmt_b256 E t)) topic0)])]]) (\<lambda>v.
     liftR (andThen (as_values E ''eth_getLogs'' v) (collectR (parse_log E))))"

definition ix_eth_call_at :: "ienv \<Rightarrow> address \<Rightarrow> bytes \<Rightarrow> u64 \<Rightarrow> ('z iworld_scheme, RpcError, bytes) io" where
  "ix_eth_call_at E to data block =
     bindM (ix_call E ''eth_call''
       [JObj [(''to'', JStr (ix_fmt_address E to)), (''data'', JStr (''0x'' @ ix_hex_encode E data))],
        JStr (hex_tag block)]) (\<lambda>v.
     liftR (andThen (as_string E ''eth_call'' v) (ix_decode_hex_bytes E ''eth_call'')))"

section \<open>Topic hashes\<close>

record Topics =
  t_agent_authorized :: b256
  t_agent_revoked :: b256
  t_agent_deposit :: b256
  t_agent_deposit_routed :: b256
  t_paused :: b256
  t_unpaused :: b256
  t_vault_allocated :: b256
  t_vault_pulled :: b256
  t_vault_rebalanced :: b256
  t_vault_exit_fee_charged :: b256
  t_vault_registered :: b256
  t_vault_status_changed :: b256
  t_proposal_created :: b256
  t_vote_cast :: b256
  t_proposal_executed :: b256
  t_weights_applied :: b256
  t_router_deposit :: b256
  t_erc4626_deposit :: b256
  t_erc4626_withdraw :: b256

definition topics_new :: "ienv \<Rightarrow> Topics" where
  "topics_new E =
     \<lparr>t_agent_authorized = ix_keccak E ''AgentAuthorized(address,address,uint64,uint256,uint256,address)'',
      t_agent_revoked = ix_keccak E ''AgentRevoked(address,address)'',
      t_agent_deposit = ix_keccak E ''AgentDeposit(bytes32,bytes32,address,address,uint256,uint256,uint64)'',
      t_agent_deposit_routed = ix_keccak E
        ''AgentDepositRouted(bytes32,bytes32,address,address,address,uint256,uint256[],uint64)'',
      t_paused = ix_keccak E ''Paused(address)'',
      t_unpaused = ix_keccak E ''Unpaused(address)'',
      t_vault_allocated = ix_keccak E ''Allocated(uint256,address,uint256)'',
      t_vault_pulled = ix_keccak E ''Pulled(uint256,address,uint256)'',
      t_vault_rebalanced = ix_keccak E ''Rebalanced(uint256)'',
      t_vault_exit_fee_charged = ix_keccak E ''ExitFeeCharged(address,address,uint256,uint256,uint256)'',
      t_vault_registered = ix_keccak E ''VaultRegistered(address,string,address)'',
      t_vault_status_changed = ix_keccak E ''VaultStatusChanged(address,uint8,uint256)'',
      t_proposal_created = ix_keccak E ''ProposalCreated(uint256,address,address[],uint256[],uint64)'',
      t_vote_cast = ix_keccak E ''VoteCast(uint256,address,uint256,uint256)'',
      t_proposal_executed = ix_keccak E ''ProposalExecuted(uint256,address)'',
      t_weights_applied = ix_keccak E ''WeightsApplied(uint256,address[],uint256[])'',
      t_router_deposit = ix_keccak E ''RouterDeposit(address,address,uint256,uint256,uint256)'',
      t_erc4626_deposit = ix_keccak E ''Deposit(address,address,uint256,uint256)'',
      t_erc4626_withdraw = ix_keccak E ''Withdraw(address,address,address,uint256,uint256)''\<rparr>"

definition all_topic0 :: "Topics \<Rightarrow> b256 list" where
  "all_topic0 t =
     [t_agent_authorized t, t_agent_revoked t, t_agent_deposit t, t_agent_deposit_routed t,
      t_paused t, t_unpaused t, t_vault_allocated t, t_vault_pulled t, t_vault_rebalanced t,
      t_vault_exit_fee_charged t, t_vault_registered t, t_vault_status_changed t,
      t_proposal_created t, t_vote_cast t, t_proposal_executed t, t_weights_applied t,
      t_router_deposit t, t_erc4626_deposit t, t_erc4626_withdraw t]"

section \<open>Lemmas\<close>

text \<open>A request changes nothing but the list of requests.\<close>

definition rpc_only :: "'z iworld_scheme \<Rightarrow> 'z iworld_scheme \<Rightarrow> bool" where
  "rpc_only w w' \<longleftrightarrow> iworld.more w' = iworld.more w \<and> prefix (rpc_sent w) (rpc_sent w')"

interpretation ro: effect_discipline rpc_only
  by unfold_locales (auto simp: rpc_only_def intro: prefix_order.trans)

context effect_discipline
begin

lemma obeys_collectM: "(\<And>x. obeys R (f x)) \<Longrightarrow> obeys R (collectM f xs)"
  by (induction xs) (auto intro!: obeys_bindM)

lemma obeys_matchM:
  assumes "obeys R m" and "\<And>x. obeys R (f x)" and "\<And>e. obeys R (h e)"
  shows "obeys R (matchM m f h)"
proof -
  have "R s (snd (matchM m f h s))" for s
  proof (cases "m s")
    case (Pair r s')
    have m: "R s s'" using assms(1) Pair by (metis obeys_def snd_conv)
    have "R s' (snd (case r of Inr x \<Rightarrow> f x s' | Inl e \<Rightarrow> h e s'))"
      using assms(2,3) by (simp add: obeys_def split: sum.splits)
    then show ?thesis
      using Pair m discipline_trans by (cases r) (auto simp: matchM_def)
  qed
  then show ?thesis by (simp add: obeys_def)
qed

lemma obeys_option:
  "obeys R m \<Longrightarrow> (\<And>x. obeys R (f x)) \<Longrightarrow> obeys R (case opt of None \<Rightarrow> m | Some x \<Rightarrow> f x)"
  by (cases opt) auto

lemma obeys_if: "obeys R m \<Longrightarrow> obeys R k \<Longrightarrow> obeys R (if c then m else k)"
  by simp

end

lemma matchM_cases:
  assumes "matchM m f h w = (r, w')"
  obtains (ok) x w1 where "m w = (Inr x, w1)" "f x w1 = (r, w')"
  | (err) e w1 where "m w = (Inl e, w1)" "h e w1 = (r, w')"
  using assms by (auto simp: matchM_def split: prod.splits sum.splits)

text \<open>What the node answers to the \<open>k\<close>-th request.\<close>

definition ix_answer :: "ienv \<Rightarrow> nat \<Rightarrow> string \<Rightarrow> json list \<Rightarrow> RpcError + json" where
  "ix_answer E k method params = classify E method (ix_post E k method (JArr params))"

lemma ix_call_iff [io_simps]:
  "ix_call E method params w = (r, w') \<longleftrightarrow>
     ix_answer E (length (rpc_sent w)) method params = r \<and>
     w' = w\<lparr>rpc_sent := rpc_sent w @ [(method, JArr params)]\<rparr>"
  by (auto simp: ix_call_def ix_answer_def)

text \<open>The node's answer to the \<open>k\<close>-th request, when it asks for the header of block \<open>n\<close>.\<close>

definition header_answer :: "ienv \<Rightarrow> nat \<Rightarrow> u64 \<Rightarrow> RpcError + BlockHeader option" where
  "header_answer E k n =
     andThen (ix_answer E k ''eth_getBlockByNumber'' [JStr (hex_tag n), JBool False]) (\<lambda>v.
       if v = JNull then Inr None else andThen (parse_header E v) (\<lambda>h. Inr (Some h)))"

definition header_request :: "u64 \<Rightarrow> string \<times> json" where
  "header_request n = (''eth_getBlockByNumber'', JArr [JStr (hex_tag n), JBool False])"

lemma ix_block_header_eval:
  "ix_block_header E n w =
     (header_answer E (length (rpc_sent w)) n, w\<lparr>rpc_sent := rpc_sent w @ [header_request n]\<rparr>)"
  by (auto simp: ix_block_header_def header_answer_def header_request_def ix_answer_def ix_call_def bindM_def
      andThen_def retM_def liftR_def split: sum.splits)

text \<open>Likewise for the number of the newest block and for the logs of a range.\<close>

definition number_answer :: "ienv \<Rightarrow> nat \<Rightarrow> RpcError + u64" where
  "number_answer E k =
     andThen (ix_answer E k ''eth_blockNumber'' []) (\<lambda>v.
       andThen (as_string E ''eth_blockNumber'' v) (ix_parse_u64_hex ''eth_blockNumber''))"

lemma ix_block_number_eval:
  "ix_block_number E w =
     (number_answer E (length (rpc_sent w)), w\<lparr>rpc_sent := rpc_sent w @ [(''eth_blockNumber'', JArr [])]\<rparr>)"
  by (auto simp: ix_block_number_def number_answer_def ix_answer_def ix_call_def bindM_def andThen_def liftR_def
      split: sum.splits)

definition logs_params :: "ienv \<Rightarrow> u64 \<Rightarrow> u64 \<Rightarrow> address list \<Rightarrow> b256 list \<Rightarrow> json list" where
  "logs_params E a b addrs topic0 =
     [JObj [(''fromBlock'', JStr (hex_tag a)), (''toBlock'', JStr (hex_tag b)),
            (''address'', JArr (map (\<lambda>a. JStr (ix_fmt_address E a)) addrs)),
            (''topics'', JArr [JArr (map (\<lambda>t. JStr (ix_fmt_b256 E t)) topic0)])]]"

definition logs_answer :: "ienv \<Rightarrow> nat \<Rightarrow> u64 \<Rightarrow> u64 \<Rightarrow> address list \<Rightarrow> b256 list \<Rightarrow> RpcError + LogEntry list" where
  "logs_answer E k a b addrs topic0 =
     andThen (ix_answer E k ''eth_getLogs'' (logs_params E a b addrs topic0)) (\<lambda>v.
       andThen (as_values E ''eth_getLogs'' v) (collectR (parse_log E)))"

lemma ix_get_logs_eval:
  "ix_get_logs E a b addrs topic0 w =
     (logs_answer E (length (rpc_sent w)) a b addrs topic0,
      w\<lparr>rpc_sent := rpc_sent w @ [(''eth_getLogs'', JArr (logs_params E a b addrs topic0))]\<rparr>)"
  by (auto simp: ix_get_logs_def logs_answer_def logs_params_def ix_answer_def ix_call_def bindM_def andThen_def
      liftR_def split: sum.splits)

lemma rpc_only_sent [simp]: "rpc_only w (w\<lparr>rpc_sent := rpc_sent w @ xs\<rparr>)"
  by (cases w) (simp add: rpc_only_def)

lemma ix_call_obeys [simp]: "obeys rpc_only (ix_call E method params)"
  by (simp add: obeys_def ix_call_def)

lemma ix_obeys [simp]:
  "obeys rpc_only (ix_chain_id E)" "obeys rpc_only (ix_block_number E)"
  "obeys rpc_only (ix_block_header E n)" "obeys rpc_only (ix_tx_status E h)"
  "obeys rpc_only (ix_get_logs E a b addrs ts)" "obeys rpc_only (ix_eth_call_at E to data n)"
  by (auto simp: ix_chain_id_def ix_block_number_def ix_block_header_def ix_tx_status_def
      ix_get_logs_def ix_eth_call_at_def intro!: ro.obeys_bindM ro.obeys_if)

lemma ix_tx_row_obeys [simp]: "obeys rpc_only (ix_tx_row E t)"
  unfolding ix_tx_row_def by (intro ro.obeys_bindM ro.obeys_intros) simp_all

lemma ix_block_with_txs_obeys [simp]: "obeys rpc_only (ix_block_with_txs E n)"
  unfolding ix_block_with_txs_def
  by (auto intro!: ro.obeys_bindM ro.obeys_if ro.obeys_collectM)

text \<open>Hexadecimal block tags.\<close>

lemma hex_digits_append:
  "hex_digits (xs @ ys) acc = andThen (hex_digits xs acc) (\<lambda>n. hex_digits ys n)"
  by (induction xs arbitrary: acc) (auto simp: andThen_def split: option.splits)

lemma nibble_cases: "(d::nat) < 16 \<Longrightarrow> d \<in> {0, 1, 2, 3, 4, 5, 6, 7, 8, 9, 10, 11, 12, 13, 14, 15}"
  by (simp only: insert_iff empty_iff) presburger

lemma hex_digit_nth: "d < 16 \<Longrightarrow> hex_digit (''0123456789abcdef'' ! d) = Some d"
  by (drule nibble_cases, elim insertE emptyE; simp add: hex_digit_def)

lemma hex_digits_show: "n < 2 ^ 64 \<Longrightarrow> hex_digits (show_hex_nat n) 0 = Inr n"
proof (induction n rule: show_hex_nat.induct)
  case (1 n)
  show ?case
  proof (cases "n < 16")
    case True
    then show ?thesis by (subst show_hex_nat.simps) (simp add: hex_digit_nth)
  next
    case False
    then have "hex_digits (show_hex_nat (n div 16)) 0 = Inr (n div 16)"
      using 1 by simp
    then show ?thesis
      using False 1(2) by (subst show_hex_nat.simps) (simp add: hex_digits_append andThen_def hex_digit_nth)
  qed
qed

lemma show_hex_nat_chars: "c \<in> set (show_hex_nat n) \<Longrightarrow> \<exists>d < 16. c = ''0123456789abcdef'' ! d"
proof (induction n rule: show_hex_nat.induct)
  case (1 n)
  then consider "n < 16" "c = ''0123456789abcdef'' ! n"
    | "\<not> n < 16" "c \<in> set (show_hex_nat (n div 16))" | "c = ''0123456789abcdef'' ! (n mod 16)"
    by (subst (asm) (2) show_hex_nat.simps) (auto simp del: nth_Cons_numeral split: if_splits)
  then show ?case
  proof cases
    case 3
    then show ?thesis by (intro exI [of _ "n mod 16"]) simp
  qed (use 1 in blast)+
qed

lemma show_hex_nat_nonempty [simp]: "show_hex_nat n \<noteq> []"
  by (subst show_hex_nat.simps) simp

lemma trim_0x_id: "(\<And>c. c \<in> set s \<Longrightarrow> c \<noteq> CHR ''x'') \<Longrightarrow> trim_0x s = s"
  by (cases s rule: trim_0x.cases) auto

lemma hex_digit_chars: "d < 16 \<Longrightarrow> ''0123456789abcdef'' ! d \<notin> {CHR ''x'', CHR ''+''}"
  by (drule nibble_cases, elim insertE emptyE; simp)

lemma show_hex_nat_plain:
  assumes "c \<in> set (show_hex_nat n)"
  shows "c \<noteq> CHR ''x'' \<and> c \<noteq> CHR ''+''"
proof -
  obtain d where "d < 16" "c = ''0123456789abcdef'' ! d"
    using show_hex_nat_chars [OF assms] by auto
  then show ?thesis using hex_digit_chars [of d] by simp
qed

lemma trim_hex_tag: "trim_0x (hex_tag n) = show_hex_nat (unat n)"
proof -
  have "trim_0x (show_hex_nat (unat n)) = show_hex_nat (unat n)"
    by (rule trim_0x_id) (simp add: show_hex_nat_plain)
  then show ?thesis by (simp add: hex_tag_def)
qed

lemma parse_hex_tag: "ix_parse_u64_hex method (hex_tag n) = Inr n"
proof -
  have "hd (show_hex_nat (unat n)) \<noteq> CHR ''+''"
    using show_hex_nat_plain [OF hd_in_set] by simp
  moreover have "unat n < 2 ^ 64" using unsigned_less [of n] by simp
  ultimately show ?thesis
    by (simp add: ix_parse_u64_hex_def trim_hex_tag u64_from_hex_def hex_digits_show map_err_def)
qed

end
