(* ===== verification/Explorer_Db.thy ===== *)
theory Explorer_Db
  imports Explorer_Rpc
begin

text \<open>
  The explorer database (\<open>services/explorer-indexer/src/db.rs\<close>, schema in \<open>migrations/\<close>): each table is
  the list of its rows, each statement of \<open>db.rs\<close> a function on the tables. Primary keys are the ones of
  the \<open>ON CONFLICT\<close> clauses, foreign keys those of the schema; columns the database fills from its own
  clock (\<open>indexed_at\<close>, \<open>created_at\<close>, \<open>started_at\<close>) are left out. A 64-bit signed column is an integer
  within the range the casts below produce. Any statement may fail for a reason outside the model
  (the parameter \<open>ix_db_fault\<close>, by the number of the statement); a failed statement changes nothing and
  a failed transaction is rolled back. The locale \<open>keyed_table\<close> states what inserting with
  \<open>ON CONFLICT DO NOTHING\<close> promises; it is interpreted on every table.
\<close>

section \<open>Rows\<close>

record chain_row =
  ch_chain_id :: int
  ch_name :: string
  ch_rpc_label :: string

record contract_row =
  co_chain_id :: int
  co_address :: address
  co_kind :: string
  co_deployed_block :: "int option"

record block_row =
  bl_chain_id :: int
  bl_block_number :: int
  bl_hash :: b256
  bl_parent_hash :: b256
  bl_timestamp :: int

record transaction_row =
  xa_chain_id :: int
  xa_tx_hash :: b256
  xa_block_number :: int
  xa_tx_index :: int
  xa_from :: address
  xa_to :: "address option"
  xa_status :: int

record deposit_row =
  ds_chain_id :: int
  ds_block_number :: int
  ds_log_index :: int
  ds_tx_hash :: b256
  ds_payment_id :: b256
  ds_order_id :: b256
  ds_agent :: address
  ds_share_receiver :: address
  ds_amount :: u256
  ds_shares_minted :: u256
  ds_window_id :: int
  ds_vault :: "address option"

record leg_row =
  lg_chain_id :: int
  lg_block_number :: int
  lg_log_index :: int
  lg_tx_hash :: b256
  lg_payment_id :: b256
  lg_depositor :: address
  lg_vault :: address
  lg_amount :: u256
  lg_shares :: u256
  lg_weight_bps :: u256

record policy_row =
  po_chain_id :: int
  po_block_number :: int
  po_log_index :: int
  po_tx_hash :: b256
  po_agent :: address
  po_revoked :: bool
  po_valid_until :: "int option"
  po_max_per_payment :: "u256 option"
  po_max_per_window :: "u256 option"
  po_share_receiver :: "address option"

record snapshot_row =
  sn_chain_id :: int
  sn_contract :: address
  sn_block_number :: int
  sn_total_assets :: u256
  sn_total_supply :: u256
  sn_exit_fee_bps :: int
  sn_tvl_cap :: u256
  sn_paused :: bool

record position_row =
  wp_chain_id :: int
  wp_contract :: address
  wp_owner :: address
  wp_block_number :: int
  wp_shares :: u256

record vault_row =
  va_chain_id :: int
  va_address :: address
  va_name :: string
  va_risk_label :: string
  va_deposit_cap :: u256
  va_status :: int
  va_registered_at :: int
  va_registered_block :: int
  va_registered_tx :: b256
  va_status_changed_at :: "int option"

record proposal_row =
  pr_chain_id :: int
  pr_proposal_id :: int
  pr_block_number :: int
  pr_log_index :: int
  pr_tx_hash :: b256
  pr_proposer :: address
  pr_description :: string
  pr_created_at :: int
  pr_deadline_block :: int
  pr_status :: int
  pr_executed_block :: "int option"
  pr_votes_for :: int
  pr_votes_against :: int

record vote_row =
  vo_chain_id :: int
  vo_proposal_id :: int
  vo_voter :: address
  vo_block_number :: int
  vo_log_index :: int
  vo_tx_hash :: b256
  vo_support :: bool
  vo_weight :: u256

record weight_row =
  we_chain_id :: int
  we_router :: address
  we_block_number :: int
  we_log_index :: int
  we_tx_hash :: b256
  we_vaults :: "address list"
  we_bps :: "int list"

record RunRow =
  run_id :: int
  run_chain_id :: int
  run_finished :: bool
  run_from_block :: int
  run_to_block :: "int option"
  run_last_indexed_block :: "int option"
  run_reorg_count :: int
  run_rows_inserted :: int
  run_error :: "string option"

record explorer_db =
  chains :: "chain_row list"
  contracts :: "contract_row list"
  blocks :: "block_row list"
  transactions :: "transaction_row list"
  agent_deposits :: "deposit_row list"
  router_deposit_legs :: "leg_row list"
  agent_policies :: "policy_row list"
  vault_snapshots :: "snapshot_row list"
  wallet_positions :: "position_row list"
  vaults :: "vault_row list"
  governance_proposals :: "proposal_row list"
  governance_votes :: "vote_row list"
  router_weight_snapshots :: "weight_row list"
  indexer_runs :: "RunRow list"
  run_seq :: int

record dworld = iworld +
  db_stmts :: nat
  db :: explorer_db

datatype DbError = Sqlx string

section \<open>Primary and foreign keys\<close>

definition block_key :: "block_row \<Rightarrow> int \<times> int" where
  "block_key r = (bl_chain_id r, bl_block_number r)"

definition contract_key :: "contract_row \<Rightarrow> int \<times> address" where
  "contract_key r = (co_chain_id r, co_address r)"

definition transaction_key :: "transaction_row \<Rightarrow> int \<times> b256" where
  "transaction_key r = (xa_chain_id r, xa_tx_hash r)"

definition deposit_key :: "deposit_row \<Rightarrow> int \<times> int \<times> int" where
  "deposit_key r = (ds_chain_id r, ds_block_number r, ds_log_index r)"

definition leg_key :: "leg_row \<Rightarrow> int \<times> int \<times> int" where
  "leg_key r = (lg_chain_id r, lg_block_number r, lg_log_index r)"

definition policy_key :: "policy_row \<Rightarrow> int \<times> int \<times> int" where
  "policy_key r = (po_chain_id r, po_block_number r, po_log_index r)"

definition snapshot_key :: "snapshot_row \<Rightarrow> int \<times> address \<times> int" where
  "snapshot_key r = (sn_chain_id r, sn_contract r, sn_block_number r)"

definition position_key :: "position_row \<Rightarrow> int \<times> address \<times> address \<times> int" where
  "position_key r = (wp_chain_id r, wp_contract r, wp_owner r, wp_block_number r)"

definition vault_key :: "vault_row \<Rightarrow> int \<times> address" where
  "vault_key r = (va_chain_id r, va_address r)"

definition proposal_key :: "proposal_row \<Rightarrow> int \<times> int" where
  "proposal_key r = (pr_chain_id r, pr_proposal_id r)"

definition vote_key :: "vote_row \<Rightarrow> int \<times> int \<times> address" where
  "vote_key r = (vo_chain_id r, vo_proposal_id r, vo_voter r)"

definition weight_key :: "weight_row \<Rightarrow> int \<times> address \<times> int \<times> int" where
  "weight_key r = (we_chain_id r, we_router r, we_block_number r, we_log_index r)"

definition known_chain :: "int \<Rightarrow> explorer_db \<Rightarrow> bool" where
  "known_chain c d \<longleftrightarrow> c \<in> ch_chain_id ` set (chains d)"

definition known_contract :: "int \<Rightarrow> address \<Rightarrow> explorer_db \<Rightarrow> bool" where
  "known_contract c a d \<longleftrightarrow> (c, a) \<in> contract_key ` set (contracts d)"

definition known_proposal :: "int \<Rightarrow> int \<Rightarrow> explorer_db \<Rightarrow> bool" where
  "known_proposal c p d \<longleftrightarrow> (c, p) \<in> proposal_key ` set (governance_proposals d)"

section \<open>Statements\<close>

text \<open>
  One statement: it may fail for outside reasons, or by a constraint (\<open>Inl\<close>), and then leaves the
  tables alone.
\<close>

definition stmt :: "ienv \<Rightarrow> (explorer_db \<Rightarrow> string + 'a \<times> explorer_db) \<Rightarrow> (dworld, DbError, 'a) io" where
  "stmt E f = (\<lambda>w.
     let w1 = w\<lparr>db_stmts := Suc (db_stmts w)\<rparr> in
     case ix_db_fault E (db_stmts w) of
       Some e \<Rightarrow> (Inl (Sqlx e), w1)
     | None \<Rightarrow>
         (case f (db w) of
            Inl e \<Rightarrow> (Inl (Sqlx e), w1)
          | Inr (x, d) \<Rightarrow> (Inr x, w1\<lparr>db := d\<rparr>)))"

text \<open>\<open>begin\<close>, the body, \<open>commit\<close>; dropping an uncommitted transaction rolls it back.\<close>

definition in_tx :: "ienv \<Rightarrow> (dworld, DbError, 'a) io \<Rightarrow> (dworld, DbError, 'a) io" where
  "in_tx E m = (\<lambda>w.
     case bindM (stmt E (\<lambda>d. Inr ((), d))) (\<lambda>_.
          bindM m (\<lambda>x.
          bindM (stmt E (\<lambda>d. Inr ((), d))) (\<lambda>_. retM x))) w of
       (Inl e, w') \<Rightarrow> (Inl e, w'\<lparr>db := db w\<rparr>)
     | (Inr x, w') \<Rightarrow> (Inr x, w'))"

text \<open>
  \<open>INSERT ... ON CONFLICT (key) DO NOTHING\<close>, with the number of rows affected; foreign keys are
  checked for a row that is really inserted. \<open>UPDATE\<close> and \<open>DELETE\<close> likewise count their rows.
\<close>

definition put ::
    "('d \<Rightarrow> 'r list) \<Rightarrow> (('r list \<Rightarrow> 'r list) \<Rightarrow> 'd \<Rightarrow> 'd) \<Rightarrow> ('r \<Rightarrow> 'k) \<Rightarrow> ('d \<Rightarrow> bool) \<Rightarrow> 'r \<Rightarrow> 'd
     \<Rightarrow> string + nat \<times> 'd" where
  "put get upd key refs r d =
     (if key r \<in> key ` set (get d) then Inr (0, d)
      else if \<not> refs d then Inl ''insert or update on table violates foreign key constraint''
      else Inr (1, upd (\<lambda>t. t @ [r]) d))"

definition update_where ::
    "('d \<Rightarrow> 'r list) \<Rightarrow> (('r list \<Rightarrow> 'r list) \<Rightarrow> 'd \<Rightarrow> 'd) \<Rightarrow> ('r \<Rightarrow> bool) \<Rightarrow> ('r \<Rightarrow> 'r) \<Rightarrow> 'd \<Rightarrow> nat \<times> 'd" where
  "update_where get upd P f d =
     (length (filter P (get d)), upd (map (\<lambda>r. if P r then f r else r)) d)"

definition delete_where ::
    "('d \<Rightarrow> 'r list) \<Rightarrow> (('r list \<Rightarrow> 'r list) \<Rightarrow> 'd \<Rightarrow> 'd) \<Rightarrow> ('r \<Rightarrow> bool) \<Rightarrow> 'd \<Rightarrow> nat \<times> 'd" where
  "delete_where get upd P d = (length (filter P (get d)), upd (filter (\<lambda>r. \<not> P r)) d)"

section \<open>Operations\<close>

definition upsert_chain :: "ienv \<Rightarrow> int \<Rightarrow> string \<Rightarrow> string \<Rightarrow> (dworld, DbError, nat) io" where
  "upsert_chain E c nam label =
     stmt E (put chains chains_update ch_chain_id (\<lambda>_. True)
       \<lparr>ch_chain_id = c, ch_name = nam, ch_rpc_label = label\<rparr>)"

definition upsert_contract :: "ienv \<Rightarrow> int \<Rightarrow> address \<Rightarrow> string \<Rightarrow> int option \<Rightarrow> (dworld, DbError, nat) io" where
  "upsert_contract E c a k deployed =
     stmt E (put contracts contracts_update contract_key (known_chain c)
       \<lparr>co_chain_id = c, co_address = a, co_kind = k, co_deployed_block = deployed\<rparr>)"

definition insert_block :: "ienv \<Rightarrow> int \<Rightarrow> int \<Rightarrow> b256 \<Rightarrow> b256 \<Rightarrow> int \<Rightarrow> (dworld, DbError, nat) io" where
  "insert_block E c n h p t =
     stmt E (put blocks blocks_update block_key (known_chain c)
       \<lparr>bl_chain_id = c, bl_block_number = n, bl_hash = h, bl_parent_hash = p, bl_timestamp = t\<rparr>)"

definition stored_hash :: "explorer_db \<Rightarrow> int \<Rightarrow> int \<Rightarrow> b256 option" where
  "stored_hash d c n = map_option bl_hash (List.find (\<lambda>r. bl_chain_id r = c \<and> bl_block_number r = n) (blocks d))"

definition get_block_hash :: "ienv \<Rightarrow> int \<Rightarrow> int \<Rightarrow> (dworld, DbError, b256 option) io" where
  "get_block_hash E c n = stmt E (\<lambda>d. Inr (stored_hash d c n, d))"

text \<open>The loop of \<open>delete_above_block\<close>: one \<open>DELETE\<close> per table, in the order of the source.\<close>

definition delete_proposals :: "int \<Rightarrow> int \<Rightarrow> explorer_db \<Rightarrow> string + nat \<times> explorer_db" where
  "delete_proposals c root d =
     (let gone = (\<lambda>r. pr_chain_id r = c \<and> root < pr_block_number r) in
      if \<exists>v \<in> set (governance_votes d). \<exists>r \<in> set (governance_proposals d).
           gone r \<and> (vo_chain_id v, vo_proposal_id v) = proposal_key r
      then Inl ''update or delete on table violates foreign key constraint''
      else Inr (delete_where governance_proposals governance_proposals_update gone d))"

definition delete_statements :: "int \<Rightarrow> int \<Rightarrow> (explorer_db \<Rightarrow> string + nat \<times> explorer_db) list" where
  "delete_statements c root =
     [\<lambda>d. Inr (delete_where wallet_positions wallet_positions_update
                 (\<lambda>r. wp_chain_id r = c \<and> root < wp_block_number r) d),
      \<lambda>d. Inr (delete_where vault_snapshots vault_snapshots_update
                 (\<lambda>r. sn_chain_id r = c \<and> root < sn_block_number r) d),
      \<lambda>d. Inr (delete_where agent_deposits agent_deposits_update
                 (\<lambda>r. ds_chain_id r = c \<and> root < ds_block_number r) d),
      \<lambda>d. Inr (delete_where agent_policies agent_policies_update
                 (\<lambda>r. po_chain_id r = c \<and> root < po_block_number r) d),
      \<lambda>d. Inr (delete_where governance_votes governance_votes_update
                 (\<lambda>r. vo_chain_id r = c \<and> root < vo_block_number r) d),
      delete_proposals c root,
      \<lambda>d. Inr (delete_where router_weight_snapshots router_weight_snapshots_update
                 (\<lambda>r. we_chain_id r = c \<and> root < we_block_number r) d),
      \<lambda>d. Inr (delete_where router_deposit_legs router_deposit_legs_update
                 (\<lambda>r. lg_chain_id r = c \<and> root < lg_block_number r) d),
      \<lambda>d. Inr (delete_where transactions transactions_update
                 (\<lambda>r. xa_chain_id r = c \<and> root < xa_block_number r) d),
      \<lambda>d. Inr (delete_where blocks blocks_update
                 (\<lambda>r. bl_chain_id r = c \<and> root < bl_block_number r) d)]"

fun sum_stmts :: "ienv \<Rightarrow> (explorer_db \<Rightarrow> string + nat \<times> explorer_db) list \<Rightarrow> nat \<Rightarrow> (dworld, DbError, nat) io" where
  "sum_stmts E [] acc = retM acc"
| "sum_stmts E (f # fs) acc = bindM (stmt E f) (\<lambda>n. sum_stmts E fs (acc + n))"

definition delete_above_block :: "ienv \<Rightarrow> int \<Rightarrow> int \<Rightarrow> (dworld, DbError, nat) io" where
  "delete_above_block E c root = in_tx E (sum_stmts E (delete_statements c root) 0)"

definition insert_transaction ::
    "ienv \<Rightarrow> int \<Rightarrow> b256 \<Rightarrow> int \<Rightarrow> int \<Rightarrow> address \<Rightarrow> address option \<Rightarrow> int \<Rightarrow> (dworld, DbError, nat) io" where
  "insert_transaction E c h n i from to st =
     stmt E (put transactions transactions_update transaction_key (known_chain c)
       \<lparr>xa_chain_id = c, xa_tx_hash = h, xa_block_number = n, xa_tx_index = i, xa_from = from, xa_to = to,
        xa_status = st\<rparr>)"

definition insert_agent_deposit :: "ienv \<Rightarrow> deposit_row \<Rightarrow> (dworld, DbError, nat) io" where
  "insert_agent_deposit E r =
     stmt E (put agent_deposits agent_deposits_update deposit_key (known_chain (ds_chain_id r)) r)"

definition insert_router_deposit_leg :: "ienv \<Rightarrow> leg_row \<Rightarrow> (dworld, DbError, nat) io" where
  "insert_router_deposit_leg E r =
     stmt E (put router_deposit_legs router_deposit_legs_update leg_key (known_chain (lg_chain_id r)) r)"

definition insert_agent_policy :: "ienv \<Rightarrow> policy_row \<Rightarrow> (dworld, DbError, nat) io" where
  "insert_agent_policy E r =
     stmt E (put agent_policies agent_policies_update policy_key (known_chain (po_chain_id r)) r)"

definition insert_vault_snapshot :: "ienv \<Rightarrow> snapshot_row \<Rightarrow> (dworld, DbError, nat) io" where
  "insert_vault_snapshot E r =
     stmt E (put vault_snapshots vault_snapshots_update snapshot_key
       (\<lambda>d. known_chain (sn_chain_id r) d \<and> known_contract (sn_chain_id r) (sn_contract r) d) r)"

definition insert_wallet_position :: "ienv \<Rightarrow> position_row \<Rightarrow> (dworld, DbError, nat) io" where
  "insert_wallet_position E r =
     stmt E (put wallet_positions wallet_positions_update position_key
       (\<lambda>d. known_chain (wp_chain_id r) d \<and> known_contract (wp_chain_id r) (wp_contract r) d) r)"

definition upsert_vault ::
    "ienv \<Rightarrow> int \<Rightarrow> address \<Rightarrow> string \<Rightarrow> string \<Rightarrow> u256 \<Rightarrow> int \<Rightarrow> int \<Rightarrow> int \<Rightarrow> b256 \<Rightarrow> (dworld, DbError, nat) io" where
  "upsert_vault E c a nam label cap st at n h =
     stmt E (put vaults vaults_update vault_key (known_chain c)
       \<lparr>va_chain_id = c, va_address = a, va_name = nam, va_risk_label = label, va_deposit_cap = cap,
        va_status = st, va_registered_at = at, va_registered_block = n, va_registered_tx = h,
        va_status_changed_at = None\<rparr>)"

definition update_vault_status :: "ienv \<Rightarrow> int \<Rightarrow> address \<Rightarrow> int \<Rightarrow> int \<Rightarrow> (dworld, DbError, nat) io" where
  "update_vault_status E c a st at =
     stmt E (\<lambda>d. Inr (update_where vaults vaults_update (\<lambda>r. va_chain_id r = c \<and> va_address r = a)
       (\<lambda>r. r\<lparr>va_status := st, va_status_changed_at := Some at\<rparr>) d))"

definition insert_proposal ::
    "ienv \<Rightarrow> int \<Rightarrow> int \<Rightarrow> int \<Rightarrow> int \<Rightarrow> b256 \<Rightarrow> address \<Rightarrow> string \<Rightarrow> int \<Rightarrow> int \<Rightarrow> (dworld, DbError, nat) io" where
  "insert_proposal E c p n i h proposer descr at dl =
     stmt E (put governance_proposals governance_proposals_update proposal_key (known_chain c)
       \<lparr>pr_chain_id = c, pr_proposal_id = p, pr_block_number = n, pr_log_index = i, pr_tx_hash = h,
        pr_proposer = proposer, pr_description = descr, pr_created_at = at, pr_deadline_block = dl,
        pr_status = 0, pr_executed_block = None, pr_votes_for = 0, pr_votes_against = 0\<rparr>)"

definition tally :: "bool \<Rightarrow> proposal_row \<Rightarrow> proposal_row" where
  "tally support r = (if support then r\<lparr>pr_votes_for := pr_votes_for r + 1\<rparr>
                      else r\<lparr>pr_votes_against := pr_votes_against r + 1\<rparr>)"

definition insert_vote :: "ienv \<Rightarrow> vote_row \<Rightarrow> (dworld, DbError, nat) io" where
  "insert_vote E r =
     in_tx E (
       bindM (stmt E (put governance_votes governance_votes_update vote_key
                (\<lambda>d. known_chain (vo_chain_id r) d \<and> known_proposal (vo_chain_id r) (vo_proposal_id r) d) r)) (\<lambda>n.
       if n = 1 then
         bindM (stmt E (\<lambda>d. Inr (update_where governance_proposals governance_proposals_update
                  (\<lambda>p. pr_chain_id p = vo_chain_id r \<and> pr_proposal_id p = vo_proposal_id r)
                  (tally (vo_support r)) d))) (\<lambda>_. retM n)
       else retM n))"

definition execute_proposal :: "ienv \<Rightarrow> int \<Rightarrow> int \<Rightarrow> int \<Rightarrow> (dworld, DbError, nat) io" where
  "execute_proposal E c p n =
     stmt E (\<lambda>d. Inr (update_where governance_proposals governance_proposals_update
       (\<lambda>r. pr_chain_id r = c \<and> pr_proposal_id r = p \<and> pr_status r < 2)
       (\<lambda>r. r\<lparr>pr_status := 2, pr_executed_block := Some n\<rparr>) d))"

definition insert_router_weight_snapshot :: "ienv \<Rightarrow> weight_row \<Rightarrow> (dworld, DbError, nat) io" where
  "insert_router_weight_snapshot E r =
     stmt E (put router_weight_snapshots router_weight_snapshots_update weight_key (known_chain (we_chain_id r)) r)"

definition start_run :: "ienv \<Rightarrow> int \<Rightarrow> int \<Rightarrow> (dworld, DbError, int) io" where
  "start_run E c from =
     stmt E (\<lambda>d.
       if \<not> known_chain c d then Inl ''insert or update on table violates foreign key constraint''
       else Inr (run_seq d,
         d\<lparr>run_seq := run_seq d + 1,
           indexer_runs := indexer_runs d @
             [\<lparr>run_id = run_seq d, run_chain_id = c, run_finished = False, run_from_block = from,
               run_to_block = None, run_last_indexed_block = None, run_reorg_count = 0,
               run_rows_inserted = 0, run_error = None\<rparr>]\<rparr>))"

definition finish_run ::
    "ienv \<Rightarrow> int \<Rightarrow> int option \<Rightarrow> int option \<Rightarrow> int \<Rightarrow> int \<Rightarrow> string option \<Rightarrow> (dworld, DbError, unit) io" where
  "finish_run E rid to_blk lst reorgs rows err =
     stmt E (\<lambda>d. Inr ((), snd (update_where indexer_runs indexer_runs_update (\<lambda>r. run_id r = rid)
       (\<lambda>r. r\<lparr>run_finished := True, run_to_block := to_blk, run_last_indexed_block := lst,
              run_reorg_count := reorgs, run_rows_inserted := rows, run_error := err\<rparr>) d)))"

text \<open>\<open>MAX\<close> of a nullable column: \<open>NULL\<close> when no row has a value.\<close>

definition sql_max :: "int list \<Rightarrow> int option" where
  "sql_max xs = (if xs = [] then None else Some (foldr max xs (hd xs)))"

definition cursor :: "explorer_db \<Rightarrow> int \<Rightarrow> int option" where
  "cursor d c =
     sql_max (List.map_filter run_last_indexed_block
       (filter (\<lambda>r. run_chain_id r = c \<and> run_error r = None) (indexer_runs d)))"

definition last_indexed_block :: "ienv \<Rightarrow> int \<Rightarrow> (dworld, DbError, int option) io" where
  "last_indexed_block E c = stmt E (\<lambda>d. Inr (cursor d c, d))"

definition latest_run :: "ienv \<Rightarrow> int \<Rightarrow> (dworld, DbError, RunRow option) io" where
  "latest_run E c = stmt E (\<lambda>d. Inr (
     (let rs = filter (\<lambda>r. run_chain_id r = c) (indexer_runs d) in
      case sql_max (map run_id rs) of None \<Rightarrow> None | Some m \<Rightarrow> List.find (\<lambda>r. run_id r = m) rs), d))"

datatype CountTable = Chains | Contracts | Blocks | Transactions | AgentDeposits | AgentPolicies
  | VaultSnapshots | WalletPositions | IndexerRuns | Vaults | GovernanceProposals | GovernanceVotes
  | RouterWeightSnapshots | RouterDepositLegs

fun count_rows :: "CountTable \<Rightarrow> explorer_db \<Rightarrow> nat" where
  "count_rows Chains d = length (chains d)"
| "count_rows Contracts d = length (contracts d)"
| "count_rows Blocks d = length (blocks d)"
| "count_rows Transactions d = length (transactions d)"
| "count_rows AgentDeposits d = length (agent_deposits d)"
| "count_rows AgentPolicies d = length (agent_policies d)"
| "count_rows VaultSnapshots d = length (vault_snapshots d)"
| "count_rows WalletPositions d = length (wallet_positions d)"
| "count_rows IndexerRuns d = length (indexer_runs d)"
| "count_rows Vaults d = length (vaults d)"
| "count_rows GovernanceProposals d = length (governance_proposals d)"
| "count_rows GovernanceVotes d = length (governance_votes d)"
| "count_rows RouterWeightSnapshots d = length (router_weight_snapshots d)"
| "count_rows RouterDepositLegs d = length (router_deposit_legs d)"

definition count_table :: "ienv \<Rightarrow> CountTable \<Rightarrow> (dworld, DbError, nat) io" where
  "count_table E t = stmt E (\<lambda>d. Inr (count_rows t d, d))"

section \<open>The interface of a keyed table\<close>

text \<open>
  A table is a component of the database with a reading and an updating function. What inserting,
  updating and deleting do to it is proved once.
\<close>

locale keyed_table =
  fixes get :: "'d \<Rightarrow> 'r list"
    and upd :: "('r list \<Rightarrow> 'r list) \<Rightarrow> 'd \<Rightarrow> 'd"
    and key :: "'r \<Rightarrow> 'k"
  assumes get_upd: "get (upd f d) = f (get d)"
begin

lemma put_Inr_iff:
  "put get upd key refs r d = Inr (n, d') \<longleftrightarrow>
     (key r \<in> key ` set (get d) \<and> n = 0 \<and> d' = d) \<or>
     (key r \<notin> key ` set (get d) \<and> refs d \<and> n = 1 \<and> d' = upd (\<lambda>t. t @ [r]) d)"
  by (auto simp: put_def)

lemma put_keys:
  "put get upd key refs r d = Inr (n, d') \<Longrightarrow> key ` set (get d') = insert (key r) (key ` set (get d))"
  by (auto simp: put_Inr_iff get_upd)

lemma put_present: "key r \<in> key ` set (get d) \<Longrightarrow> put get upd key refs r d = Inr (0, d)"
  by (simp add: put_def)

lemma put_unique:
  "put get upd key refs r d = Inr (n, d') \<Longrightarrow> distinct (map key (get d)) \<Longrightarrow> distinct (map key (get d'))"
  by (auto simp: put_Inr_iff get_upd)

lemma put_rows: "put get upd key refs r d = Inr (n, d') \<Longrightarrow> length (get d') = length (get d) + n"
  by (auto simp: put_Inr_iff get_upd)

lemma delete_rows:
  "delete_where get upd P d = (n, d') \<Longrightarrow>
     get d' = filter (\<lambda>r. \<not> P r) (get d) \<and> n + length (get d') = length (get d)"
  by (auto simp: delete_where_def get_upd sum_length_filter_compl)

lemma update_unique:
  assumes "update_where get upd P f d = (n, d')" and "\<And>r. key (f r) = key r"
  shows "map key (get d') = map key (get d)"
  using assms by (auto simp: update_where_def get_upd)

end

interpretation tb_chains: keyed_table chains chains_update ch_chain_id by unfold_locales simp
interpretation tb_contracts: keyed_table contracts contracts_update contract_key by unfold_locales simp
interpretation tb_blocks: keyed_table blocks blocks_update block_key by unfold_locales simp
interpretation tb_transactions: keyed_table transactions transactions_update transaction_key by unfold_locales simp
interpretation tb_deposits: keyed_table agent_deposits agent_deposits_update deposit_key by unfold_locales simp
interpretation tb_legs: keyed_table router_deposit_legs router_deposit_legs_update leg_key by unfold_locales simp
interpretation tb_policies: keyed_table agent_policies agent_policies_update policy_key by unfold_locales simp
interpretation tb_snapshots: keyed_table vault_snapshots vault_snapshots_update snapshot_key by unfold_locales simp
interpretation tb_positions: keyed_table wallet_positions wallet_positions_update position_key by unfold_locales simp
interpretation tb_vaults: keyed_table vaults vaults_update vault_key by unfold_locales simp
interpretation tb_proposals: keyed_table governance_proposals governance_proposals_update proposal_key
  by unfold_locales simp
interpretation tb_votes: keyed_table governance_votes governance_votes_update vote_key by unfold_locales simp
interpretation tb_weights: keyed_table router_weight_snapshots router_weight_snapshots_update weight_key
  by unfold_locales simp
interpretation tb_runs: keyed_table indexer_runs indexer_runs_update run_id by unfold_locales simp

lemmas put_iffs = tb_chains.put_Inr_iff tb_contracts.put_Inr_iff tb_blocks.put_Inr_iff
  tb_transactions.put_Inr_iff tb_deposits.put_Inr_iff tb_legs.put_Inr_iff tb_policies.put_Inr_iff
  tb_snapshots.put_Inr_iff tb_positions.put_Inr_iff tb_vaults.put_Inr_iff tb_proposals.put_Inr_iff
  tb_votes.put_Inr_iff tb_weights.put_Inr_iff

section \<open>Laws of statements and transactions\<close>

lemma stmt_Inr_iff [io_simps]:
  "stmt E f w = (Inr x, w') \<longleftrightarrow>
     ix_db_fault E (db_stmts w) = None \<and>
     (\<exists>d. f (db w) = Inr (x, d) \<and> w' = w\<lparr>db_stmts := Suc (db_stmts w), db := d\<rparr>)"
  by (auto simp: stmt_def Let_def split: option.splits sum.splits)

lemma stmt_Inl_iff [io_simps]:
  "stmt E f w = (Inl e, w') \<longleftrightarrow>
     ((\<exists>m. ix_db_fault E (db_stmts w) = Some m \<and> e = Sqlx m) \<or>
      (ix_db_fault E (db_stmts w) = None \<and> (\<exists>m. f (db w) = Inl m \<and> e = Sqlx m))) \<and>
     w' = w\<lparr>db_stmts := Suc (db_stmts w)\<rparr>"
  by (auto simp: stmt_def Let_def split: option.splits sum.splits)

text \<open>
  Disciplines on the database: a preorder on the tables that every statement of a computation
  respects is respected by the whole computation, requests to the node and rollbacks included.
\<close>

definition on_db :: "(explorer_db \<Rightarrow> explorer_db \<Rightarrow> bool) \<Rightarrow> dworld \<Rightarrow> dworld \<Rightarrow> bool" where
  "on_db Q w w' \<longleftrightarrow> Q (db w) (db w')"

locale db_discipline =
  fixes Q :: "explorer_db \<Rightarrow> explorer_db \<Rightarrow> bool"
  assumes Q_refl: "Q d d"
    and Q_trans: "Q d d1 \<Longrightarrow> Q d1 d2 \<Longrightarrow> Q d d2"

sublocale db_discipline \<subseteq> effect_discipline "on_db Q"
  by unfold_locales (auto simp: on_db_def intro: Q_refl Q_trans)

context db_discipline
begin

lemma stmt_obeys:
  assumes "\<And>d x d'. f d = Inr (x, d') \<Longrightarrow> Q d d'"
  shows "obeys (on_db Q) (stmt E f)"
  using assms by (auto simp: obeys_def on_db_def stmt_def Let_def Q_refl split: option.splits sum.splits)

lemma read_obeys: "obeys (on_db Q) (stmt E (\<lambda>d. Inr (g d, d)))"
  by (rule stmt_obeys) (auto simp: Q_refl)

lemma put_obeys:
  assumes "\<And>d. key r \<notin> key ` set (get d) \<Longrightarrow> refs d \<Longrightarrow> Q d (upd (\<lambda>t. t @ [r]) d)"
  shows "obeys (on_db Q) (stmt E (put get upd key refs r))"
  by (rule stmt_obeys) (auto simp: put_def Q_refl assms split: if_splits)

lemma update_obeys:
  assumes "\<And>d. Q d (upd (map (\<lambda>r. if P r then f r else r)) d)"
  shows "obeys (on_db Q) (stmt E (\<lambda>d. Inr (update_where get upd P f d)))"
  by (rule stmt_obeys) (auto simp: update_where_def assms)

lemma rpc_only_obeys: "obeys rpc_only m \<Longrightarrow> obeys (on_db Q) m"
proof -
  assume m: "obeys rpc_only m"
  have "Q (db w) (db (snd (m w)))" for w :: dworld
  proof -
    have "iworld.more (snd (m w)) = iworld.more w" using m by (simp add: obeys_def rpc_only_def)
    then have "db (snd (m w)) = db w" by (cases w, cases "snd (m w)") simp
    then show ?thesis by (simp add: Q_refl)
  qed
  then show ?thesis by (simp add: obeys_def on_db_def)
qed

lemma in_tx_obeys:
  assumes "obeys (on_db Q) m"
  shows "obeys (on_db Q) (in_tx E m)"
proof -
  let ?b = "\<lambda>d. Inr ((), d) :: string + unit \<times> explorer_db"
  have "obeys (on_db Q) (bindM (stmt E ?b) (\<lambda>_. bindM m (\<lambda>x. bindM (stmt E ?b) (\<lambda>_. retM x))))"
    using assms by (auto intro!: obeys_bindM stmt_obeys Q_refl)
  then show ?thesis
    unfolding obeys_def in_tx_def on_db_def by (auto split: prod.splits sum.splits) (metis Q_refl snd_conv)+
qed

lemma sum_stmts_obeys:
  assumes "\<forall>f \<in> set fs. \<forall>d n d'. f d = Inr (n, d') \<longrightarrow> Q d d'"
  shows "obeys (on_db Q) (sum_stmts E fs acc)"
  using assms by (induction fs arbitrary: acc) (auto intro!: obeys_bindM stmt_obeys)

end

section \<open>Reorg recovery\<close>

text \<open>What the database holds after the rows above a block were removed, and how many rows that is.\<close>

definition reorg_cut :: "int \<Rightarrow> int \<Rightarrow> explorer_db \<Rightarrow> explorer_db" where
  "reorg_cut c root d = d\<lparr>
     wallet_positions := filter (\<lambda>r. \<not> (wp_chain_id r = c \<and> root < wp_block_number r)) (wallet_positions d),
     vault_snapshots := filter (\<lambda>r. \<not> (sn_chain_id r = c \<and> root < sn_block_number r)) (vault_snapshots d),
     agent_deposits := filter (\<lambda>r. \<not> (ds_chain_id r = c \<and> root < ds_block_number r)) (agent_deposits d),
     agent_policies := filter (\<lambda>r. \<not> (po_chain_id r = c \<and> root < po_block_number r)) (agent_policies d),
     governance_votes := filter (\<lambda>r. \<not> (vo_chain_id r = c \<and> root < vo_block_number r)) (governance_votes d),
     governance_proposals :=
       filter (\<lambda>r. \<not> (pr_chain_id r = c \<and> root < pr_block_number r)) (governance_proposals d),
     router_weight_snapshots :=
       filter (\<lambda>r. \<not> (we_chain_id r = c \<and> root < we_block_number r)) (router_weight_snapshots d),
     router_deposit_legs :=
       filter (\<lambda>r. \<not> (lg_chain_id r = c \<and> root < lg_block_number r)) (router_deposit_legs d),
     transactions := filter (\<lambda>r. \<not> (xa_chain_id r = c \<and> root < xa_block_number r)) (transactions d),
     blocks := filter (\<lambda>r. \<not> (bl_chain_id r = c \<and> root < bl_block_number r)) (blocks d)\<rparr>"

definition block_rows :: "explorer_db \<Rightarrow> nat" where
  "block_rows d = length (wallet_positions d) + length (vault_snapshots d) + length (agent_deposits d) +
     length (agent_policies d) + length (governance_votes d) + length (governance_proposals d) +
     length (router_weight_snapshots d) + length (router_deposit_legs d) + length (transactions d) +
     length (blocks d)"

text \<open>A vote that stays although the proposal it refers to would go.\<close>

definition orphaned_vote :: "int \<Rightarrow> int \<Rightarrow> explorer_db \<Rightarrow> bool" where
  "orphaned_vote c root d \<longleftrightarrow>
     (\<exists>v \<in> set (governance_votes d). vo_chain_id v = c \<and> vo_block_number v \<le> root \<and>
        (\<exists>p \<in> set (governance_proposals d). pr_chain_id p = c \<and> root < pr_block_number p \<and>
           pr_proposal_id p = vo_proposal_id v))"

lemma in_tx_Inl_db: "in_tx E m w = (Inl e, w') \<Longrightarrow> db w' = db w"
  by (auto simp: in_tx_def split: prod.splits sum.splits)

lemma in_tx_Inr_iff [io_simps]:
  "in_tx E m w = (Inr x, w') \<longleftrightarrow>
     (\<exists>w1. ix_db_fault E (db_stmts w) = None \<and>
        m (w\<lparr>db_stmts := Suc (db_stmts w)\<rparr>) = (Inr x, w1) \<and> ix_db_fault E (db_stmts w1) = None \<and>
        w' = w1\<lparr>db_stmts := Suc (db_stmts w1)\<rparr>)"
  by (auto simp: in_tx_def io_simps split: prod.splits sum.splits)

lemma length_filter_compl: "length (filter P xs) + length (filter (\<lambda>r. \<not> P r) xs) = length xs"
  by (rule sum_length_filter_compl)

lemma sum_stmts_rows:
  assumes "sum_stmts E fs acc w = (Inr n, w')"
    and "\<forall>f \<in> set fs. \<forall>d k d'. f d = Inr (k, d') \<longrightarrow> k + block_rows d' = block_rows d"
  shows "n + block_rows (db w') = acc + block_rows (db w)"
  using assms
proof (induction fs arbitrary: acc w)
  case Nil
  then show ?case by (simp add: io_simps)
next
  case (Cons f fs)
  from Cons.prems(1) obtain k d where k: "f (db w) = Inr (k, d)"
    "sum_stmts E fs (acc + k) (w\<lparr>db_stmts := Suc (db_stmts w), db := d\<rparr>) = (Inr n, w')"
    by (auto simp: io_simps)
  have "n + block_rows (db w') = acc + k + block_rows d"
    using Cons.IH [OF k(2)] Cons.prems(2) by simp
  moreover have "k + block_rows d = block_rows (db w)" using k(1) Cons.prems(2) by simp
  ultimately show ?case by simp
qed

lemma delete_statement_rows:
  assumes "f \<in> set (delete_statements c root)" and "f d = Inr (k, d')"
  shows "k + block_rows d' = block_rows d"
  using assms
  by (auto simp: delete_statements_def delete_where_def delete_proposals_def block_rows_def Let_def
      length_filter_compl simp del: de_Morgan_conj split: if_splits)

lemma delete_above_block_Inr:
  assumes "delete_above_block E c root w = (Inr n, w')"
  shows "db w' = reorg_cut c root (db w)" and "n + block_rows (db w') = block_rows (db w)"
proof -
  show "db w' = reorg_cut c root (db w)"
    using assms
    by (auto simp: delete_above_block_def delete_statements_def io_simps delete_where_def
        delete_proposals_def reorg_cut_def Let_def simp del: de_Morgan_conj split: if_splits)
  show "n + block_rows (db w') = block_rows (db w)"
    using assms sum_stmts_rows delete_statement_rows
    by (fastforce simp: delete_above_block_def in_tx_Inr_iff)
qed

lemma in_tx_Inl_iff:
  "in_tx E m w = (Inl e, w') \<longleftrightarrow>
     (\<exists>w1. bindM (stmt E (\<lambda>d. Inr ((), d))) (\<lambda>_. bindM m (\<lambda>x.
        bindM (stmt E (\<lambda>d. Inr ((), d))) (\<lambda>_. retM x))) w = (Inl e, w1) \<and> w' = w1\<lparr>db := db w\<rparr>)"
  by (auto simp: in_tx_def split: prod.splits sum.splits)

lemma delete_above_block_Inl:
  assumes "delete_above_block E c root w = (Inl e, w')" and "\<And>k. ix_db_fault E k = None"
  shows "orphaned_vote c root (db w)"
proof -
  have "\<exists>d. delete_proposals c root d = Inl m \<and>
      governance_votes d = filter (\<lambda>r. \<not> (vo_chain_id r = c \<and> root < vo_block_number r)) (governance_votes (db w)) \<and>
      governance_proposals d = governance_proposals (db w)"
    if "e = Sqlx m" for m
    using assms that
    by (auto simp: delete_above_block_def delete_statements_def in_tx_Inl_iff io_simps delete_where_def
        simp del: de_Morgan_conj)
  then obtain d m where "delete_proposals c root d = Inl m"
      "governance_votes d = filter (\<lambda>r. \<not> (vo_chain_id r = c \<and> root < vo_block_number r)) (governance_votes (db w))"
      "governance_proposals d = governance_proposals (db w)"
    by (cases e) blast
  then show ?thesis
    by (fastforce simp: delete_proposals_def orphaned_vote_def Let_def proposal_key_def split: if_splits)
qed

end
