(* ===== verification/Explorer_Integrity.thy ===== *)
theory Explorer_Integrity
  imports Explorer_Db
begin

text \<open>
  The integrity of the explorer database: primary keys are unique and foreign keys refer to rows that
  exist. Every operation of \<open>db.rs\<close> keeps both, as a discipline on the database, so that every
  composed computation of the indexer does.
\<close>

section \<open>Integrity of the database\<close>

text \<open>Primary keys are unique; run ids have been handed out by the sequence.\<close>

definition keys_unique :: "explorer_db \<Rightarrow> bool" where
  "keys_unique d \<longleftrightarrow>
     distinct (map ch_chain_id (chains d)) \<and> distinct (map contract_key (contracts d)) \<and>
     distinct (map block_key (blocks d)) \<and> distinct (map transaction_key (transactions d)) \<and>
     distinct (map deposit_key (agent_deposits d)) \<and> distinct (map leg_key (router_deposit_legs d)) \<and>
     distinct (map policy_key (agent_policies d)) \<and> distinct (map snapshot_key (vault_snapshots d)) \<and>
     distinct (map position_key (wallet_positions d)) \<and> distinct (map vault_key (vaults d)) \<and>
     distinct (map proposal_key (governance_proposals d)) \<and> distinct (map vote_key (governance_votes d)) \<and>
     distinct (map weight_key (router_weight_snapshots d)) \<and> distinct (map run_id (indexer_runs d)) \<and>
     (\<forall>r \<in> set (indexer_runs d). run_id r < run_seq d)"

text \<open>Foreign keys refer to rows that exist.\<close>

definition refs_ok :: "explorer_db \<Rightarrow> bool" where
  "refs_ok d \<longleftrightarrow>
     (\<forall>r \<in> set (contracts d). known_chain (co_chain_id r) d) \<and>
     (\<forall>r \<in> set (blocks d). known_chain (bl_chain_id r) d) \<and>
     (\<forall>r \<in> set (transactions d). known_chain (xa_chain_id r) d) \<and>
     (\<forall>r \<in> set (agent_deposits d). known_chain (ds_chain_id r) d) \<and>
     (\<forall>r \<in> set (router_deposit_legs d). known_chain (lg_chain_id r) d) \<and>
     (\<forall>r \<in> set (agent_policies d). known_chain (po_chain_id r) d) \<and>
     (\<forall>r \<in> set (vault_snapshots d). known_chain (sn_chain_id r) d \<and> known_contract (sn_chain_id r) (sn_contract r) d) \<and>
     (\<forall>r \<in> set (wallet_positions d). known_chain (wp_chain_id r) d \<and> known_contract (wp_chain_id r) (wp_contract r) d) \<and>
     (\<forall>r \<in> set (vaults d). known_chain (va_chain_id r) d) \<and>
     (\<forall>r \<in> set (governance_proposals d). known_chain (pr_chain_id r) d) \<and>
     (\<forall>r \<in> set (governance_votes d). known_chain (vo_chain_id r) d \<and> known_proposal (vo_chain_id r) (vo_proposal_id r) d) \<and>
     (\<forall>r \<in> set (router_weight_snapshots d). known_chain (we_chain_id r) d) \<and>
     (\<forall>r \<in> set (indexer_runs d). known_chain (run_chain_id r) d)"

definition keeps :: "(explorer_db \<Rightarrow> bool) \<Rightarrow> explorer_db \<Rightarrow> explorer_db \<Rightarrow> bool" where
  "keeps I d d' \<longleftrightarrow> (I d \<longrightarrow> I d')"

interpretation ku: db_discipline "keeps keys_unique"
  by unfold_locales (auto simp: keeps_def)

interpretation rf: db_discipline "keeps refs_ok"
  by unfold_locales (auto simp: keeps_def)

lemmas db_op_defs = upsert_chain_def upsert_contract_def insert_block_def get_block_hash_def
  insert_transaction_def insert_agent_deposit_def insert_router_deposit_leg_def insert_agent_policy_def
  insert_vault_snapshot_def insert_wallet_position_def upsert_vault_def update_vault_status_def
  insert_proposal_def execute_proposal_def insert_router_weight_snapshot_def last_indexed_block_def

lemma tally_keys [simp]:
  "proposal_key (tally s r) = proposal_key r" "pr_chain_id (tally s r) = pr_chain_id r"
  "pr_status (tally s r) = pr_status r" "pr_proposal_id (tally s r) = pr_proposal_id r"
  by (simp_all add: tally_def proposal_key_def)

lemma row_updates [simp]:
  "vault_key (if b then v\<lparr>va_status := st, va_status_changed_at := t\<rparr> else v) = vault_key v"
  "va_chain_id (if b then v\<lparr>va_status := st, va_status_changed_at := t\<rparr> else v) = va_chain_id v"
  "proposal_key (if b then p\<lparr>pr_status := st, pr_executed_block := x\<rparr> else p) = proposal_key p"
  "pr_chain_id (if b then p\<lparr>pr_status := st, pr_executed_block := x\<rparr> else p) = pr_chain_id p"
  "proposal_key (if b then tally sp p else p) = proposal_key p"
  "pr_chain_id (if b then tally sp p else p) = pr_chain_id p"
  "run_id (if b then r\<lparr>run_finished := fin, run_to_block := tb, run_last_indexed_block := lst,
     run_reorg_count := k, run_rows_inserted := n, run_error := e\<rparr> else r) = run_id r"
  "run_chain_id (if b then r\<lparr>run_finished := fin, run_to_block := tb, run_last_indexed_block := lst,
     run_reorg_count := k, run_rows_inserted := n, run_error := e\<rparr> else r) = run_chain_id r"
  by (simp_all add: vault_key_def proposal_key_def)

lemma keys_unique_inserts:
  "obeys (on_db (keeps keys_unique)) (upsert_chain E c nam label)"
  "obeys (on_db (keeps keys_unique)) (upsert_contract E c a kd dep)"
  "obeys (on_db (keeps keys_unique)) (insert_block E c n h p t)"
  "obeys (on_db (keeps keys_unique)) (insert_transaction E c h n i fr to st)"
  "obeys (on_db (keeps keys_unique)) (insert_agent_deposit E dr)"
  "obeys (on_db (keeps keys_unique)) (insert_router_deposit_leg E lr)"
  "obeys (on_db (keeps keys_unique)) (insert_agent_policy E pr)"
  "obeys (on_db (keeps keys_unique)) (insert_vault_snapshot E sr)"
  "obeys (on_db (keeps keys_unique)) (insert_wallet_position E wr)"
  "obeys (on_db (keeps keys_unique)) (upsert_vault E c a nam label cap st t n h)"
  "obeys (on_db (keeps keys_unique)) (insert_proposal E c q n i h a descr t dl)"
  "obeys (on_db (keeps keys_unique)) (insert_router_weight_snapshot E er)"
  unfolding db_op_defs
  by ((rule ku.put_obeys, simp add: keeps_def keys_unique_def)+)

lemma distinct_filter_map: "distinct (map key rs) \<Longrightarrow> distinct (map key (filter P rs))"
  by (simp add: distinct_map_filter)

lemma keys_unique_updates:
  "obeys (on_db (keeps keys_unique)) (update_vault_status E c a st t)"
  "obeys (on_db (keeps keys_unique)) (execute_proposal E c q n)"
  "obeys (on_db (keeps keys_unique)) (finish_run E rid tb lst k rows err)"
  "obeys (on_db (keeps keys_unique)) (start_run E c n)"
proof -
  show "obeys (on_db (keeps keys_unique)) (update_vault_status E c a st t)"
    unfolding db_op_defs
    by (rule ku.update_obeys) (simp add: keeps_def keys_unique_def comp_def del: if_image_distrib)
  show "obeys (on_db (keeps keys_unique)) (execute_proposal E c q n)"
    unfolding db_op_defs
    by (rule ku.update_obeys) (simp add: keeps_def keys_unique_def comp_def del: if_image_distrib)
  show "obeys (on_db (keeps keys_unique)) (finish_run E rid tb lst k rows err)"
    unfolding finish_run_def update_where_def
    by (rule ku.stmt_obeys) (auto simp: keeps_def keys_unique_def comp_def simp del: if_image_distrib)
  show "obeys (on_db (keeps keys_unique)) (start_run E c n)"
    unfolding start_run_def by (rule ku.stmt_obeys) (auto simp: keeps_def keys_unique_def split: if_splits)
qed

lemma keys_unique_reads:
  "obeys (on_db (keeps keys_unique)) (get_block_hash E c n)"
  "obeys (on_db (keeps keys_unique)) (last_indexed_block E c)"
  unfolding db_op_defs by (rule ku.read_obeys)+

lemma keys_unique_vote: "obeys (on_db (keeps keys_unique)) (insert_vote E r)"
  unfolding insert_vote_def
  by (auto intro!: ku.in_tx_obeys ku.obeys_bindM ku.put_obeys ku.update_obeys
      simp: keeps_def keys_unique_def comp_def simp del: if_image_distrib)

lemma keys_unique_delete: "obeys (on_db (keeps keys_unique)) (delete_above_block E c root)"
  unfolding delete_above_block_def
  by (rule ku.in_tx_obeys, rule ku.sum_stmts_obeys)
     (auto simp: delete_statements_def delete_where_def delete_proposals_def keeps_def keys_unique_def Let_def
       distinct_filter_map split: if_splits)

lemmas keys_unique_ops = keys_unique_inserts keys_unique_updates keys_unique_reads keys_unique_vote
  keys_unique_delete

lemma refs_ok_inserts:
  "obeys (on_db (keeps refs_ok)) (upsert_chain E c nam label)"
  "obeys (on_db (keeps refs_ok)) (upsert_contract E c a kd dep)"
  "obeys (on_db (keeps refs_ok)) (insert_block E c n h p t)"
  "obeys (on_db (keeps refs_ok)) (insert_transaction E c h n i fr to st)"
  "obeys (on_db (keeps refs_ok)) (insert_agent_deposit E dr)"
  "obeys (on_db (keeps refs_ok)) (insert_router_deposit_leg E lr)"
  "obeys (on_db (keeps refs_ok)) (insert_agent_policy E pr)"
  "obeys (on_db (keeps refs_ok)) (insert_vault_snapshot E sr)"
  "obeys (on_db (keeps refs_ok)) (insert_wallet_position E wr)"
  "obeys (on_db (keeps refs_ok)) (upsert_vault E c a nam label cap st t n h)"
  "obeys (on_db (keeps refs_ok)) (insert_proposal E c q n i h a descr t dl)"
  "obeys (on_db (keeps refs_ok)) (insert_router_weight_snapshot E er)"
  unfolding db_op_defs
  by ((rule rf.put_obeys, simp add: keeps_def refs_ok_def known_chain_def known_contract_def known_proposal_def)+)

lemma refs_ok_updates:
  "obeys (on_db (keeps refs_ok)) (update_vault_status E c a st t)"
  "obeys (on_db (keeps refs_ok)) (execute_proposal E c q n)"
  "obeys (on_db (keeps refs_ok)) (finish_run E rid tb lst k rows err)"
  "obeys (on_db (keeps refs_ok)) (start_run E c n)"
proof -
  show "obeys (on_db (keeps refs_ok)) (update_vault_status E c a st t)"
    unfolding db_op_defs
    by (rule rf.update_obeys)
       (simp add: keeps_def refs_ok_def known_chain_def known_contract_def known_proposal_def
         del: if_image_distrib)
  show "obeys (on_db (keeps refs_ok)) (execute_proposal E c q n)"
    unfolding db_op_defs
    by (rule rf.update_obeys)
       (simp add: keeps_def refs_ok_def known_chain_def known_contract_def known_proposal_def image_image
         del: if_image_distrib)
  show "obeys (on_db (keeps refs_ok)) (finish_run E rid tb lst k rows err)"
    unfolding finish_run_def update_where_def
    by (rule rf.stmt_obeys)
       (auto simp: keeps_def refs_ok_def known_chain_def known_contract_def known_proposal_def simp del: if_image_distrib)
  show "obeys (on_db (keeps refs_ok)) (start_run E c n)"
    unfolding start_run_def
    by (rule rf.stmt_obeys)
       (auto simp: keeps_def refs_ok_def known_chain_def known_contract_def known_proposal_def split: if_splits)
qed

lemma refs_ok_reads:
  "obeys (on_db (keeps refs_ok)) (get_block_hash E c n)"
  "obeys (on_db (keeps refs_ok)) (last_indexed_block E c)"
  unfolding db_op_defs by (rule rf.read_obeys)+

lemma refs_ok_vote: "obeys (on_db (keeps refs_ok)) (insert_vote E r)"
  unfolding insert_vote_def
  by (auto intro!: rf.in_tx_obeys rf.obeys_bindM rf.put_obeys rf.update_obeys
      simp: keeps_def refs_ok_def known_chain_def known_contract_def known_proposal_def image_image
      simp del: if_image_distrib)

text \<open>
  Deleting keeps the references: votes are deleted before the proposals they refer to, and the
  statement that would leave a vote behind is refused.
\<close>

lemma delete_proposals_refs:
  assumes "delete_proposals c root d = Inr (n, d')" and "refs_ok d"
  shows "refs_ok d'"
proof -
  have "(vo_chain_id v, vo_proposal_id v) \<in> proposal_key ` {p \<in> set (governance_proposals d).
      \<not> (pr_chain_id p = c \<and> root < pr_block_number p)}" if v: "v \<in> set (governance_votes d)" for v
  proof -
    obtain p where "p \<in> set (governance_proposals d)" "(vo_chain_id v, vo_proposal_id v) = proposal_key p"
      using assms(2) v by (auto simp: refs_ok_def known_proposal_def)
    then show ?thesis using assms(1) v by (auto simp: delete_proposals_def Let_def split: if_splits)
  qed
  then show ?thesis
    using assms
    by (auto simp: delete_proposals_def delete_where_def Let_def refs_ok_def known_chain_def known_contract_def
        known_proposal_def simp del: de_Morgan_conj split: if_splits)
qed

lemma refs_ok_delete: "obeys (on_db (keeps refs_ok)) (delete_above_block E c root)"
  unfolding delete_above_block_def
proof (rule rf.in_tx_obeys, rule rf.sum_stmts_obeys, intro ballI allI impI)
  fix f d n d'
  assume f: "f \<in> set (delete_statements c root)" and d: "f d = Inr (n, d')"
  show "keeps refs_ok d d'"
  proof (cases "f = delete_proposals c root")
    case True
    then show ?thesis using d delete_proposals_refs by (simp add: keeps_def)
  next
    case False
    then show ?thesis
      using f d
      by (auto simp: delete_statements_def delete_where_def keeps_def simp del: de_Morgan_conj)
         (simp_all add: refs_ok_def known_chain_def known_contract_def known_proposal_def)
  qed
qed

lemmas refs_ok_ops = refs_ok_inserts refs_ok_updates refs_ok_reads refs_ok_vote refs_ok_delete

end
