(* ===== verification/Explorer_Indexer.thy ===== *)
theory Explorer_Indexer
  imports Explorer_Integrity "HOL-Library.Product_Lexorder"
begin

unbundle bit_operations_syntax

text \<open>
  One tick of the explorer indexer (\<open>services/explorer-indexer/src/indexer.rs\<close>, with
  \<open>feature_flags.rs\<close> and the loop of \<open>main.rs\<close>): bookkeeping rows, the reorg check, the range of blocks to
  ingest, the log handlers, the state snapshots, and the run record. Integer casts (\<open>as i64\<close>,
  \<open>as u64\<close>) and the wrap-around of release builds are written out.
\<close>

section \<open>Feature flags\<close>

definition MULTI_VAULT_ENABLED :: nat where "MULTI_VAULT_ENABLED = 0"
definition PORTFOLIO_ROUTER_ENABLED :: nat where "PORTFOLIO_ROUTER_ENABLED = 1"
definition INDEXER_MULTI_VAULT_EVENTS :: nat where "INDEXER_MULTI_VAULT_EVENTS = 2"

definition is_enabled :: "nat \<Rightarrow> u64 \<Rightarrow> bool" where
  "is_enabled flag_id bitmap \<longleftrightarrow> drop_bit flag_id bitmap AND 1 = 1"

text \<open>\<open>str::parse::<u64>().ok()\<close>\<close>

fun dec_digits :: "string \<Rightarrow> nat \<Rightarrow> nat option" where
  "dec_digits [] acc = Some acc"
| "dec_digits (ch # cs) acc =
     (let n = of_char ch :: nat in
      if 48 \<le> n \<and> n \<le> 57 \<and> 10 * acc + (n - 48) < 2 ^ 64 then dec_digits cs (10 * acc + (n - 48)) else None)"

definition parse_u64 :: "string \<Rightarrow> u64 option" where
  "parse_u64 s =
     (let ds = (if s \<noteq> [] \<and> hd s = CHR ''+'' then tl s else s) in
      if ds = [] then None else map_option of_nat (dec_digits ds 0))"

definition bitmap_from_env :: "ienv \<Rightarrow> u64" where
  "bitmap_from_env E =
     (case Option.bind (ix_feature_flags_var E) parse_u64 of Some b \<Rightarrow> b | None \<Rightarrow> 0)"

section \<open>Configuration and results\<close>

record IndexerConfig =
  ic_chain_id :: int
  ic_chain_name :: string
  ic_rpc_label :: string
  ic_gateway :: address
  ic_vault :: address
  ic_registry :: "address option"
  ic_router_governance :: "address option"
  ic_max_blocks_per_tick :: u64
  ic_end_block :: "u64 option"
  ic_feature_flags :: u64

definition watched_addresses :: "IndexerConfig \<Rightarrow> address list" where
  "watched_addresses cfg =
     [ic_gateway cfg, ic_vault cfg] @
     (if is_enabled INDEXER_MULTI_VAULT_EVENTS (ic_feature_flags cfg)
      then (case ic_registry cfg of Some reg \<Rightarrow> [reg] | None \<Rightarrow> []) else []) @
     (case ic_router_governance cfg of Some gov \<Rightarrow> [gov] | None \<Rightarrow> [])"

record IndexerOutcome =
  oc_run_id :: int
  oc_from_block :: int
  oc_to_block :: "int option"
  oc_last_indexed_block :: "int option"
  oc_rows_inserted :: int
  oc_reorg_detected :: bool
  oc_error :: "string option"

datatype IndexerError = IxRpc RpcError | IxDb DbError | IxDecode string

fun show_rpc_error :: "RpcError \<Rightarrow> string" where
  "show_rpc_error (RpcTransport e) = ''transport: '' @ e"
| "show_rpc_error (RpcServer m e) = ''rpc '' @ m @ '': '' @ e"
| "show_rpc_error (RpcDecode m e) = ''decode '' @ m @ '': '' @ e"

fun show_indexer_error :: "IndexerError \<Rightarrow> string" where
  "show_indexer_error (IxRpc e) = show_rpc_error e"
| "show_indexer_error (IxDb (Sqlx e)) = ''sqlx: '' @ e"
| "show_indexer_error (IxDecode e) = ''decode: '' @ e"

type_synonym 'a ix = "(dworld, IndexerError, 'a) io"

text \<open>The conversions the \<open>?\<close> operator inserts.\<close>

definition dbM :: "(dworld, DbError, 'a) io \<Rightarrow> 'a ix" where
  "dbM m = handleM m (\<lambda>e. failM (IxDb e))"

definition rpcM :: "(dworld, RpcError, 'a) io \<Rightarrow> 'a ix" where
  "rpcM m = handleM m (\<lambda>e. failM (IxRpc e))"

text \<open>A loop that adds up affected rows.\<close>

fun sumM :: "('a \<Rightarrow> nat ix) \<Rightarrow> 'a list \<Rightarrow> nat \<Rightarrow> nat ix" where
  "sumM f [] acc = retM acc"
| "sumM f (x # xs) acc = bindM (f x) (\<lambda>n. sumM f xs (acc + n))"

definition CONFIRMATIONS :: u64 where "CONFIRMATIONS = 5"
definition SNAPSHOT_HEARTBEAT_BLOCKS :: int where "SNAPSHOT_HEARTBEAT_BLOCKS = 7200"

definition as_i64 :: "u64 \<Rightarrow> int" where "as_i64 n = sint n"
definition as_u64 :: "int \<Rightarrow> u64" where "as_u64 n = word_of_int n"
definition as_i32 :: "u32 \<Rightarrow> int" where "as_i32 n = sint n"
definition wrap_i64 :: "int \<Rightarrow> int" where "wrap_i64 n = sint (word_of_int n :: 64 word)"

text \<open>\<open>v.try_into().unwrap_or(d)\<close> from \<open>U256\<close> to \<open>i64\<close>.\<close>

definition u256_to_i64_or :: "int \<Rightarrow> u256 \<Rightarrow> int" where
  "u256_to_i64_or d v = (if unat v < 2 ^ 63 then int (unat v) else d)"

definition I64_MAX :: int where "I64_MAX = 2 ^ 63 - 1"

section \<open>Log handlers\<close>

definition decoded :: "string \<Rightarrow> 'a event_decoder \<Rightarrow> LogEntry \<Rightarrow> ('a \<Rightarrow> nat ix) \<Rightarrow> nat ix" where
  "decoded nam dec lg k =
     bindM (liftR (map_err (\<lambda>e. IxDecode (nam @ '': '' @ e)) (dec (le_address lg) (le_topics lg) (le_data lg)))) k"

definition log_block :: "LogEntry \<Rightarrow> int" where
  "log_block lg = as_i64 (le_block_number lg)"

definition deposit_of_log :: "IndexerConfig \<Rightarrow> LogEntry \<Rightarrow> IxAgentDeposit \<Rightarrow> deposit_row" where
  "deposit_of_log cfg lg e =
     \<lparr>ds_chain_id = ic_chain_id cfg, ds_block_number = log_block lg, ds_log_index = as_i32 (le_log_index lg),
      ds_tx_hash = le_tx_hash lg, ds_payment_id = ad_paymentId e, ds_order_id = ad_orderId e,
      ds_agent = ad_agent e, ds_share_receiver = ad_shareReceiver e, ds_amount = ad_amount e,
      ds_shares_minted = ad_sharesMinted e, ds_window_id = as_i64 (ad_windowId e), ds_vault = Some (ic_vault cfg)\<rparr>"

definition routed_of_log :: "IndexerConfig \<Rightarrow> LogEntry \<Rightarrow> IxAgentDepositRouted \<Rightarrow> deposit_row" where
  "routed_of_log cfg lg e =
     \<lparr>ds_chain_id = ic_chain_id cfg, ds_block_number = log_block lg, ds_log_index = as_i32 (le_log_index lg),
      ds_tx_hash = le_tx_hash lg, ds_payment_id = ar_paymentId e, ds_order_id = ar_orderId e,
      ds_agent = ar_agent e, ds_share_receiver = ar_shareReceiver e, ds_amount = ar_amount e,
      ds_shares_minted = foldl saturating_add 0 (ar_sharesPerLeg e), ds_window_id = as_i64 (ar_windowId e),
      ds_vault = None\<rparr>"

definition authorized_of_log :: "IndexerConfig \<Rightarrow> LogEntry \<Rightarrow> IxAgentAuthorized \<Rightarrow> policy_row" where
  "authorized_of_log cfg lg e =
     \<lparr>po_chain_id = ic_chain_id cfg, po_block_number = log_block lg, po_log_index = as_i32 (le_log_index lg),
      po_tx_hash = le_tx_hash lg, po_agent = aa_agent e, po_revoked = False,
      po_valid_until = Some (as_i64 (aa_validUntil e)), po_max_per_payment = Some (aa_maxPerPayment e),
      po_max_per_window = Some (aa_maxPerWindow e), po_share_receiver = Some (aa_shareReceiver e)\<rparr>"

definition revoked_of_log :: "IndexerConfig \<Rightarrow> LogEntry \<Rightarrow> IxAgentRevoked \<Rightarrow> policy_row" where
  "revoked_of_log cfg lg e =
     \<lparr>po_chain_id = ic_chain_id cfg, po_block_number = log_block lg, po_log_index = as_i32 (le_log_index lg),
      po_tx_hash = le_tx_hash lg, po_agent = rv_agent e, po_revoked = True, po_valid_until = None,
      po_max_per_payment = None, po_max_per_window = None, po_share_receiver = None\<rparr>"

definition leg_of_log :: "IndexerConfig \<Rightarrow> LogEntry \<Rightarrow> IxRouterDeposit \<Rightarrow> leg_row" where
  "leg_of_log cfg lg e =
     \<lparr>lg_chain_id = ic_chain_id cfg, lg_block_number = log_block lg, lg_log_index = as_i32 (le_log_index lg),
      lg_tx_hash = le_tx_hash lg, lg_payment_id = le_tx_hash lg, lg_depositor = rd_depositor e,
      lg_vault = rd_vault e, lg_amount = rd_amount e, lg_shares = rd_shares e, lg_weight_bps = rd_weightBps e\<rparr>"

definition vote_of_log :: "IndexerConfig \<Rightarrow> LogEntry \<Rightarrow> IxVoteCast \<Rightarrow> vote_row" where
  "vote_of_log cfg lg e =
     \<lparr>vo_chain_id = ic_chain_id cfg, vo_proposal_id = u256_to_i64_or I64_MAX (vc_proposalId e),
      vo_voter = vc_voter e, vo_block_number = log_block lg, vo_log_index = as_i32 (le_log_index lg),
      vo_tx_hash = le_tx_hash lg, vo_support = True, vo_weight = vc_power e\<rparr>"

definition weights_of_log :: "IndexerConfig \<Rightarrow> LogEntry \<Rightarrow> IxWeightsApplied \<Rightarrow> weight_row" where
  "weights_of_log cfg lg e =
     \<lparr>we_chain_id = ic_chain_id cfg, we_router = le_address lg, we_block_number = log_block lg,
      we_log_index = as_i32 (le_log_index lg), we_tx_hash = le_tx_hash lg, we_vaults = wa_vaults e,
      we_bps = map (u256_to_i64_or I64_MAX) (wa_bps e)\<rparr>"

definition handle_log :: "ienv \<Rightarrow> IndexerConfig \<Rightarrow> Topics \<Rightarrow> LogEntry \<Rightarrow> nat ix" where
  "handle_log E cfg ts lg =
     (case le_topics lg of [] \<Rightarrow> retM 0 | topic0 # _ \<Rightarrow>
        if topic0 = t_agent_deposit ts then
          decoded ''AgentDeposit'' (ix_agent_deposit E) lg (\<lambda>e.
            dbM (insert_agent_deposit E (deposit_of_log cfg lg e)))
        else if topic0 = t_agent_deposit_routed ts then
          decoded ''AgentDepositRouted'' (ix_agent_deposit_routed E) lg (\<lambda>e.
            dbM (insert_agent_deposit E (routed_of_log cfg lg e)))
        else if topic0 = t_agent_authorized ts then
          decoded ''AgentAuthorized'' (ix_agent_authorized E) lg (\<lambda>e.
            dbM (insert_agent_policy E (authorized_of_log cfg lg e)))
        else if topic0 = t_agent_revoked ts then
          decoded ''AgentRevoked'' (ix_agent_revoked E) lg (\<lambda>e.
            dbM (insert_agent_policy E (revoked_of_log cfg lg e)))
        else if topic0 = t_router_deposit ts then
          decoded ''RouterDeposit'' (ix_router_deposit E) lg (\<lambda>e.
            dbM (insert_router_deposit_leg E (leg_of_log cfg lg e)))
        else if topic0 \<in> {t_vault_allocated ts, t_vault_pulled ts, t_vault_rebalanced ts,
                          t_vault_exit_fee_charged ts, t_paused ts, t_unpaused ts} then retM 0
        else if topic0 = t_vault_registered ts then
          decoded ''VaultRegistered'' (ix_vault_registered E) lg (\<lambda>e.
            bindM (dbM (upsert_contract E (ic_chain_id cfg) (vr_vault e) ''vault'' None)) (\<lambda>_.
            dbM (upsert_vault E (ic_chain_id cfg) (vr_vault e) (vr_name e) ''stable-yield'' 0 0
                   (log_block lg) (log_block lg) (le_tx_hash lg))))
        else if topic0 = t_vault_status_changed ts then
          decoded ''VaultStatusChanged'' (ix_vault_status_changed E) lg (\<lambda>e.
            dbM (update_vault_status E (ic_chain_id cfg) (vs_vault e) (int (unat (vs_newStatus e)))
                   (u256_to_i64_or I64_MAX (vs_timestamp e))))
        else if topic0 = t_proposal_created ts then
          decoded ''ProposalCreated'' (ix_proposal_created E) lg (\<lambda>e.
            dbM (insert_proposal E (ic_chain_id cfg) (u256_to_i64_or I64_MAX (pc_proposalId e)) (log_block lg)
                   (as_i32 (le_log_index lg)) (le_tx_hash lg) (pc_proposer e) '''' (log_block lg)
                   (as_i64 (pc_votingDeadline e))))
        else if topic0 = t_vote_cast ts then
          decoded ''VoteCast'' (ix_vote_cast E) lg (\<lambda>e. dbM (insert_vote E (vote_of_log cfg lg e)))
        else if topic0 = t_proposal_executed ts then
          decoded ''ProposalExecuted'' (ix_proposal_executed E) lg (\<lambda>e.
            dbM (execute_proposal E (ic_chain_id cfg) (u256_to_i64_or I64_MAX (pe_proposalId e)) (log_block lg)))
        else if topic0 = t_weights_applied ts then
          decoded ''WeightsApplied'' (ix_weights_applied E) lg (\<lambda>e.
            dbM (insert_router_weight_snapshot E (weights_of_log cfg lg e)))
        else retM 0)"

section \<open>State snapshots\<close>

definition call_u256 :: "ienv \<Rightarrow> address \<Rightarrow> vault_read \<Rightarrow> u64 \<Rightarrow> u256 ix" where
  "call_u256 E to rd block =
     bindM (rpcM (ix_eth_call_at E to (ix_abi_encode E rd) block)) (\<lambda>bs.
     if length bs < 32 then
       failM (IxDecode (''u256 read: short response ('' @ show_nat (length bs) @ '' bytes)''))
     else retM (be_word (take 32 bs)))"

definition call_bool :: "ienv \<Rightarrow> address \<Rightarrow> vault_read \<Rightarrow> u64 \<Rightarrow> bool ix" where
  "call_bool E to rd block = bindM (call_u256 E to rd block) (\<lambda>v. retM (v \<noteq> 0))"

definition unwrap_orM :: "'a ix \<Rightarrow> 'a \<Rightarrow> 'a ix" where
  "unwrap_orM m d = handleM m (\<lambda>_. retM d)"

definition snapshot_vault_address :: "ienv \<Rightarrow> int \<Rightarrow> address \<Rightarrow> u64 \<Rightarrow> nat ix" where
  "snapshot_vault_address E c vault block =
     bindM (call_u256 E vault TotalAssetsCall block) (\<lambda>assets.
     bindM (call_u256 E vault TotalSupplyCall block) (\<lambda>supply.
     bindM (unwrap_orM (call_u256 E vault ExitFeeBpsCall block) 0) (\<lambda>fee.
     bindM (unwrap_orM (call_u256 E vault TvlCapCall block) 0) (\<lambda>cap.
     bindM (unwrap_orM (call_bool E vault PausedCall block) False) (\<lambda>p.
     dbM (insert_vault_snapshot E
       \<lparr>sn_chain_id = c, sn_contract = vault, sn_block_number = as_i64 block, sn_total_assets = assets,
        sn_total_supply = supply, sn_exit_fee_bps = u256_to_i64_or 0 fee, sn_tvl_cap = cap, sn_paused = p\<rparr>))))))"

section \<open>Reorg check\<close>

function walk_back_to_match :: "ienv \<Rightarrow> int \<Rightarrow> int \<Rightarrow> int ix" where
  "walk_back_to_match E c n =
     (if n < 0 then retM (- 1)
      else
        bindM (dbM (get_block_hash E c n)) (\<lambda>stored.
        case stored of
          None \<Rightarrow> walk_back_to_match E c (n - 1)
        | Some h \<Rightarrow>
            bindM (rpcM (ix_block_header E (as_u64 n))) (\<lambda>header.
            if map_option bh_hash header = Some h then retM n
            else walk_back_to_match E c (n - 1))))"
  by pat_completeness auto
termination by (relation "measure (\<lambda>(E, c, n). nat (n + 1))") auto

declare walk_back_to_match.simps [simp del]

definition reorg_check :: "ienv \<Rightarrow> IndexerConfig \<Rightarrow> int option \<Rightarrow> (bool \<times> int option) ix" where
  "reorg_check E cfg last_indexed =
     (case last_indexed of
        None \<Rightarrow> retM (False, None)
      | Some li \<Rightarrow>
          bindM (dbM (get_block_hash E (ic_chain_id cfg) li)) (\<lambda>stored.
          case stored of
            None \<Rightarrow> retM (False, Some li)
          | Some h \<Rightarrow>
              bindM (rpcM (ix_block_header E (as_u64 li))) (\<lambda>header.
              case header of
                None \<Rightarrow> retM (False, Some li)
              | Some hdr \<Rightarrow>
                  if bh_hash hdr \<noteq> h then
                    bindM (walk_back_to_match E (ic_chain_id cfg) li) (\<lambda>root.
                    bindM (dbM (delete_above_block E (ic_chain_id cfg) root)) (\<lambda>_.
                    retM (True, if root < 0 then None else Some root)))
                  else retM (False, Some li))))"

section \<open>Ingestion\<close>

definition next_block :: "int option \<Rightarrow> int" where
  "next_block li = (case li of Some x \<Rightarrow> wrap_i64 (x + 1) | None \<Rightarrow> 0)"

text \<open>The last block of the tick, \<open>None\<close> when there is nothing to ingest.\<close>

definition tick_target :: "IndexerConfig \<Rightarrow> u64 \<Rightarrow> u64 \<Rightarrow> u64 option" where
  "tick_target cfg from tip =
     (let safe_head = saturating_sub tip CONFIRMATIONS in
      if safe_head < from then None
      else
        (let target1 = (case ic_end_block cfg of Some e \<Rightarrow> min safe_head e | None \<Rightarrow> safe_head);
             max_advance = saturating_add from (ic_max_blocks_per_tick cfg - 1);
             target = min target1 max_advance
         in if target < from then None else Some target))"

definition insert_header :: "ienv \<Rightarrow> IndexerConfig \<Rightarrow> u64 \<Rightarrow> BlockHeader \<Rightarrow> nat ix" where
  "insert_header E cfg bn header =
     dbM (insert_block E (ic_chain_id cfg) (as_i64 bn) (bh_hash header) (bh_parent_hash header)
            (as_i64 (bh_timestamp header)))"

definition ingest_block :: "ienv \<Rightarrow> IndexerConfig \<Rightarrow> u64 \<Rightarrow> nat ix" where
  "ingest_block E cfg bn =
     bindM (rpcM (ix_block_with_txs E bn)) (\<lambda>(header, txs).
     bindM (insert_header E cfg bn header) (\<lambda>r.
     sumM (\<lambda>t. dbM (insert_transaction E (ic_chain_id cfg) (tr_tx_hash t) (as_i64 bn)
       (as_i32 (tr_tx_index t)) (tr_from t) (tr_to t) (int (unat (tr_status t))))) txs r))"

definition ingest_cursor_header :: "ienv \<Rightarrow> IndexerConfig \<Rightarrow> u64 list \<Rightarrow> u64 \<Rightarrow> nat ix" where
  "ingest_cursor_header E cfg with_events target =
     (if target \<in> set with_events then retM 0
      else bindM (rpcM (ix_block_header E target)) (\<lambda>header.
           case header of None \<Rightarrow> retM 0 | Some hdr \<Rightarrow> insert_header E cfg target hdr))"

definition heartbeat_vaults :: "IndexerConfig \<Rightarrow> explorer_db \<Rightarrow> address list" where
  "heartbeat_vaults cfg d =
     fold (\<lambda>a vs. if a \<in> set vs then vs else vs @ [a])
       (sort (map va_address (filter (\<lambda>r. va_chain_id r = ic_chain_id cfg \<and> va_status r = 0) (vaults d))))
       [ic_vault cfg]"

definition last_snapshot :: "int \<Rightarrow> address \<Rightarrow> explorer_db \<Rightarrow> int option" where
  "last_snapshot c a d =
     sql_max (map sn_block_number (filter (\<lambda>r. sn_chain_id r = c \<and> sn_contract r = a) (vault_snapshots d)))"

definition heartbeat :: "ienv \<Rightarrow> IndexerConfig \<Rightarrow> u64 \<Rightarrow> address \<Rightarrow> nat ix" where
  "heartbeat E cfg target vault =
     bindM (dbM (stmt E (\<lambda>d. Inr (last_snapshot (ic_chain_id cfg) vault d, d)))) (\<lambda>newest.
     if (case newest of Some prev \<Rightarrow> SNAPSHOT_HEARTBEAT_BLOCKS \<le> wrap_i64 (as_i64 target - prev) | None \<Rightarrow> True)
     then snapshot_vault_address E (ic_chain_id cfg) vault target
     else retM 0)"

definition event_blocks :: "LogEntry list \<Rightarrow> u64 list" where
  "event_blocks logs = sort (remdups (map le_block_number logs))"

definition event_blocks_per_contract :: "LogEntry list \<Rightarrow> (u64 \<times> address) list" where
  "event_blocks_per_contract logs = sort (remdups (map (\<lambda>l. (le_block_number l, le_address l)) logs))"

definition ingest_logs :: "ienv \<Rightarrow> IndexerConfig \<Rightarrow> Topics \<Rightarrow> u64 \<Rightarrow> LogEntry list \<Rightarrow> nat ix" where
  "ingest_logs E cfg ts target logs =
     bindM (sumM (ingest_block E cfg) (event_blocks logs) 0) (\<lambda>r1.
     bindM (ingest_cursor_header E cfg (event_blocks logs) target) (\<lambda>r2.
     bindM (sumM (handle_log E cfg ts) logs (r1 + r2)) (\<lambda>r3.
     bindM (sumM (\<lambda>(bn, contract).
              if contract = ic_vault cfg then snapshot_vault_address E (ic_chain_id cfg) (ic_vault cfg) bn
              else retM 0) (event_blocks_per_contract logs) r3) (\<lambda>r4.
     bindM (dbM (stmt E (\<lambda>d. Inr (heartbeat_vaults cfg d, d)))) (\<lambda>vs.
     sumM (heartbeat E cfg target) vs r4)))))"

definition ingest_range :: "ienv \<Rightarrow> IndexerConfig \<Rightarrow> u64 \<Rightarrow> u64 \<Rightarrow> nat ix" where
  "ingest_range E cfg from target =
     bindM (rpcM (ix_get_logs E from target (watched_addresses cfg) (all_topic0 (topics_new E)))) (\<lambda>logs.
     ingest_logs E cfg (topics_new E) target logs)"

definition outcome :: "int option \<Rightarrow> int option \<Rightarrow> int \<Rightarrow> bool \<Rightarrow> IndexerOutcome" where
  "outcome tb li rows reorg =
     \<lparr>oc_run_id = 0, oc_from_block = 0, oc_to_block = tb, oc_last_indexed_block = li,
      oc_rows_inserted = rows, oc_reorg_detected = reorg, oc_error = None\<rparr>"

definition ix_run_inner :: "ienv \<Rightarrow> IndexerConfig \<Rightarrow> int option \<Rightarrow> IndexerOutcome ix" where
  "ix_run_inner E cfg last0 =
     bindM (reorg_check E cfg last0) (\<lambda>(reorg, li).
     let from = as_u64 (next_block li) in
     bindM (rpcM (ix_block_number E)) (\<lambda>tip.
     case tick_target cfg from tip of
       None \<Rightarrow> retM (outcome None li 0 reorg)
     | Some target \<Rightarrow>
         bindM (ingest_range E cfg from target) (\<lambda>rows.
         retM (outcome (Some (as_i64 target)) (Some (as_i64 target)) (int rows) reorg))))"

definition register_contracts :: "ienv \<Rightarrow> IndexerConfig \<Rightarrow> unit ix" where
  "register_contracts E cfg =
     (let c = ic_chain_id cfg in
      bindM (dbM (upsert_chain E c (ic_chain_name cfg) (ic_rpc_label cfg))) (\<lambda>_.
      bindM (dbM (upsert_contract E c (ic_gateway cfg) ''gateway'' None)) (\<lambda>_.
      bindM (dbM (upsert_contract E c (ic_vault cfg) ''vault'' None)) (\<lambda>_.
      bindM (case ic_registry cfg of None \<Rightarrow> retM 0
             | Some reg \<Rightarrow> dbM (upsert_contract E c reg ''vault_registry'' None)) (\<lambda>_.
      bindM (case ic_router_governance cfg of None \<Rightarrow> retM 0
             | Some gov \<Rightarrow> dbM (upsert_contract E c gov ''router_governance'' None)) (\<lambda>_.
      retM ()))))))"

text \<open>The work of the tick and the closing of its run record.\<close>

definition recorded_run :: "ienv \<Rightarrow> IndexerConfig \<Rightarrow> int option \<Rightarrow> int \<Rightarrow> IndexerOutcome ix" where
  "recorded_run E cfg li rid =
     matchM (ix_run_inner E cfg li)
       (\<lambda>o1.
         bindM (dbM (finish_run E rid (oc_to_block o1) (oc_last_indexed_block o1)
                  (if oc_reorg_detected o1 then 1 else 0) (oc_rows_inserted o1) None)) (\<lambda>_.
         retM (o1\<lparr>oc_run_id := rid, oc_from_block := next_block li\<rparr>)))
       (\<lambda>e.
         bindM (dbM (finish_run E rid None li 0 0 (Some (show_indexer_error e)))) (\<lambda>_.
         retM \<lparr>oc_run_id = rid, oc_from_block = next_block li, oc_to_block = None, oc_last_indexed_block = li,
               oc_rows_inserted = 0, oc_reorg_detected = False, oc_error = Some (show_indexer_error e)\<rparr>))"

definition run_once :: "ienv \<Rightarrow> IndexerConfig \<Rightarrow> IndexerOutcome ix" where
  "run_once E cfg =
     bindM (register_contracts E cfg) (\<lambda>_.
     bindM (dbM (last_indexed_block E (ic_chain_id cfg))) (\<lambda>li.
     bindM (dbM (start_run E (ic_chain_id cfg) (next_block li))) (\<lambda>rid.
     recorded_run E cfg li rid)))"

section \<open>The poll loop\<close>

datatype loop_action = ReturnOk | ReturnErr IndexerError | TickAgain

definition after_tick :: "bool \<Rightarrow> IndexerConfig \<Rightarrow> IndexerError + IndexerOutcome \<Rightarrow> loop_action" where
  "after_tick once cfg r =
     (case r of
        Inr o1 \<Rightarrow>
          if once then ReturnOk
          else (case (ic_end_block cfg, oc_last_indexed_block o1) of
                  (Some end_b, Some li) \<Rightarrow> if end_b \<le> as_u64 li then ReturnOk else TickAgain
                | _ \<Rightarrow> TickAgain)
      | Inl e \<Rightarrow> if once then ReturnErr e else TickAgain)"

section \<open>Disciplines of a tick\<close>

text \<open>
  A property of the database that every statement of an ingestion keeps is kept by the whole
  ingestion; one that reorg recovery keeps too is kept by the work of a tick; one that the run record
  keeps is kept by the tick. The statements are those the indexer issues for its own chain \<open>c\<close> and
  for blocks in \<open>B\<close>.
\<close>

locale ingest_discipline = db_discipline Q for Q +
  fixes E :: ienv and c :: int and B :: "int set"
  assumes op_chain: "obeys (on_db Q) (upsert_chain E c nam label)"
    and op_contract: "obeys (on_db Q) (upsert_contract E c a kd dep)"
    and op_block: "n \<in> B \<Longrightarrow> obeys (on_db Q) (insert_block E c n h p t)"
    and op_transaction: "n \<in> B \<Longrightarrow> obeys (on_db Q) (insert_transaction E c h n i fr to st)"
    and op_deposit: "ds_chain_id dr = c \<Longrightarrow> ds_block_number dr \<in> B \<Longrightarrow> obeys (on_db Q) (insert_agent_deposit E dr)"
    and op_leg: "lg_chain_id lr = c \<Longrightarrow> lg_block_number lr \<in> B \<Longrightarrow> obeys (on_db Q) (insert_router_deposit_leg E lr)"
    and op_policy: "po_chain_id pr = c \<Longrightarrow> po_block_number pr \<in> B \<Longrightarrow> obeys (on_db Q) (insert_agent_policy E pr)"
    and op_snapshot: "sn_chain_id sr = c \<Longrightarrow> sn_block_number sr \<in> B \<Longrightarrow> obeys (on_db Q) (insert_vault_snapshot E sr)"
    and op_vault: "obeys (on_db Q) (upsert_vault E c a nam label cap st t n h)"
    and op_status: "obeys (on_db Q) (update_vault_status E c a st t)"
    and op_proposal: "n \<in> B \<Longrightarrow> obeys (on_db Q) (insert_proposal E c q n i h a descr t dl)"
    and op_vote: "vo_chain_id vr = c \<Longrightarrow> vo_block_number vr \<in> B \<Longrightarrow> obeys (on_db Q) (insert_vote E vr)"
    and op_execute: "obeys (on_db Q) (execute_proposal E c q n)"
    and op_weights: "we_chain_id er = c \<Longrightarrow> we_block_number er \<in> B \<Longrightarrow> obeys (on_db Q) (insert_router_weight_snapshot E er)"
begin

lemma dbM_obeys: "obeys (on_db Q) m \<Longrightarrow> obeys (on_db Q) (dbM m)"
  unfolding dbM_def by (rule obeys_handleM) auto

lemma rpcM_obeys: "obeys rpc_only m \<Longrightarrow> obeys (on_db Q) (rpcM m)"
  unfolding rpcM_def by (rule obeys_handleM) (auto intro: rpc_only_obeys)

lemma sumM_obeys: "(\<And>x. x \<in> set xs \<Longrightarrow> obeys (on_db Q) (f x)) \<Longrightarrow> obeys (on_db Q) (sumM f xs acc)"
  by (induction xs arbitrary: acc) (auto intro!: obeys_bindM)

lemma select_obeys: "obeys (on_db Q) (dbM (stmt E (\<lambda>d. Inr (g d, d))))"
  by (intro dbM_obeys read_obeys)

lemma get_block_hash_obeys: "obeys (on_db Q) (dbM (get_block_hash E c n))"
  unfolding get_block_hash_def by (rule select_obeys)

lemma decoded_obeys: "(\<And>e. obeys (on_db Q) (k e)) \<Longrightarrow> obeys (on_db Q) (decoded nam dec lg k)"
  unfolding decoded_def by (intro obeys_bindM obeys_liftR)

lemma handle_log_obeys:
  assumes cfg: "ic_chain_id cfg = c" and blk: "log_block lg \<in> B"
  shows "obeys (on_db Q) (handle_log E cfg ts lg)"
proof (cases "le_topics lg")
  case Nil
  then show ?thesis by (simp add: handle_log_def)
next
  case (Cons t0 rest)
  have "ds_chain_id (deposit_of_log cfg lg e1) = c" "ds_chain_id (routed_of_log cfg lg e2) = c"
    "po_chain_id (authorized_of_log cfg lg e3) = c" "po_chain_id (revoked_of_log cfg lg e4) = c"
    "lg_chain_id (leg_of_log cfg lg e5) = c" "vo_chain_id (vote_of_log cfg lg e6) = c"
    "we_chain_id (weights_of_log cfg lg e7) = c"
    "ds_block_number (deposit_of_log cfg lg e1) \<in> B" "ds_block_number (routed_of_log cfg lg e2) \<in> B"
    "po_block_number (authorized_of_log cfg lg e3) \<in> B" "po_block_number (revoked_of_log cfg lg e4) \<in> B"
    "lg_block_number (leg_of_log cfg lg e5) \<in> B" "vo_block_number (vote_of_log cfg lg e6) \<in> B"
    "we_block_number (weights_of_log cfg lg e7) \<in> B" for e1 e2 e3 e4 e5 e6 e7
    using blk
    by (simp_all add: cfg deposit_of_log_def routed_of_log_def authorized_of_log_def revoked_of_log_def
        leg_of_log_def vote_of_log_def weights_of_log_def)
  note rows = this blk
  show ?thesis
    unfolding handle_log_def Cons list.case cfg
    by (intro obeys_if decoded_obeys obeys_bindM obeys_retM dbM_obeys op_deposit op_policy op_leg op_contract op_vault
        op_status op_proposal op_vote op_execute op_weights rows)
qed

lemma call_u256_obeys: "obeys (on_db Q) (call_u256 E to rd n)"
  unfolding call_u256_def by (intro obeys_bindM rpcM_obeys obeys_if) auto

lemma snapshot_obeys: "as_i64 n \<in> B \<Longrightarrow> obeys (on_db Q) (snapshot_vault_address E c v n)"
  unfolding snapshot_vault_address_def unwrap_orM_def call_bool_def
  by (intro obeys_bindM obeys_handleM call_u256_obeys obeys_retM dbM_obeys op_snapshot) simp_all

lemma insert_header_obeys:
  assumes cfg: "ic_chain_id cfg = c" and "as_i64 bn \<in> B"
  shows "obeys (on_db Q) (insert_header E cfg bn h)"
  unfolding insert_header_def cfg by (intro dbM_obeys op_block assms(2))

lemma ingest_block_obeys:
  assumes cfg: "ic_chain_id cfg = c" and "as_i64 bn \<in> B"
  shows "obeys (on_db Q) (ingest_block E cfg bn)"
  unfolding ingest_block_def cfg case_prod_beta
  by (intro obeys_bindM rpcM_obeys insert_header_obeys assms sumM_obeys dbM_obeys op_transaction ix_block_with_txs_obeys)

lemma cursor_header_obeys:
  assumes "ic_chain_id cfg = c" and "as_i64 t \<in> B"
  shows "obeys (on_db Q) (ingest_cursor_header E cfg bs t)"
  unfolding ingest_cursor_header_def
  by (intro obeys_if obeys_retM obeys_bindM obeys_option rpcM_obeys insert_header_obeys assms ix_obeys)

lemma heartbeat_obeys:
  assumes cfg: "ic_chain_id cfg = c" and "as_i64 t \<in> B"
  shows "obeys (on_db Q) (heartbeat E cfg t v)"
  unfolding heartbeat_def cfg by (intro obeys_bindM select_obeys obeys_if obeys_retM snapshot_obeys assms(2))

lemma ingest_logs_obeys:
  assumes cfg: "ic_chain_id cfg = c" and t: "as_i64 t \<in> B" and logs: "\<forall>lg \<in> set logs. log_block lg \<in> B"
  shows "obeys (on_db Q) (ingest_logs E cfg ts t logs)"
proof -
  have "as_i64 bn \<in> B" if "bn \<in> set (event_blocks logs)" for bn
    using logs that by (auto simp: event_blocks_def log_block_def)
  moreover have "as_i64 (fst x) \<in> B" if "x \<in> set (event_blocks_per_contract logs)" for x
    using logs that by (auto simp: event_blocks_per_contract_def log_block_def)
  moreover have "log_block lg \<in> B" if "lg \<in> set logs" for lg using logs that by simp
  ultimately show ?thesis
    unfolding ingest_logs_def cfg case_prod_beta
    by (intro obeys_bindM rpcM_obeys sumM_obeys ingest_block_obeys cursor_header_obeys handle_log_obeys
        select_obeys heartbeat_obeys cfg ix_obeys obeys_if obeys_retM snapshot_obeys t)
qed

lemma ingest_range_obeys:
  assumes "ic_chain_id cfg = c" and "B = UNIV"
  shows "obeys (on_db Q) (ingest_range E cfg a b)"
  unfolding ingest_range_def
  by (intro obeys_bindM rpcM_obeys ix_obeys ingest_logs_obeys) (simp_all add: assms)

lemma register_obeys:
  assumes cfg: "ic_chain_id cfg = c"
  shows "obeys (on_db Q) (register_contracts E cfg)"
  unfolding register_contracts_def Let_def cfg
  by (intro obeys_bindM dbM_obeys op_chain op_contract obeys_option obeys_retM)

end

locale tick_discipline = ingest_discipline +
  assumes op_delete: "obeys (on_db Q) (delete_above_block E c root)"
begin

lemma walk_back_obeys: "obeys (on_db Q) (walk_back_to_match E c n)"
proof (induction "nat (n + 1)" arbitrary: n)
  case 0
  then show ?case by (subst walk_back_to_match.simps) simp
next
  case (Suc k)
  then have "obeys (on_db Q) (walk_back_to_match E c (n - 1))" by simp
  then show ?case
    by (subst walk_back_to_match.simps)
       (auto intro!: obeys_if obeys_bindM get_block_hash_obeys obeys_option rpcM_obeys)
qed

lemma reorg_check_obeys:
  assumes cfg: "ic_chain_id cfg = c"
  shows "obeys (on_db Q) (reorg_check E cfg li)"
  unfolding reorg_check_def cfg
  by (intro obeys_option obeys_bindM obeys_retM get_block_hash_obeys rpcM_obeys obeys_if walk_back_obeys
      dbM_obeys op_delete ix_obeys)

lemma tick_inner_obeys:
  assumes cfg: "ic_chain_id cfg = c" "B = UNIV"
  shows "obeys (on_db Q) (ix_run_inner E cfg li)"
  unfolding ix_run_inner_def Let_def case_prod_beta
  by (intro obeys_bindM reorg_check_obeys rpcM_obeys obeys_option ingest_range_obeys cfg obeys_retM ix_obeys)

end

locale run_discipline = tick_discipline +
  assumes op_start: "obeys (on_db Q) (start_run E c n)"
    and op_finish: "obeys (on_db Q) (finish_run E rid tb li k rows err)"
begin

lemma run_once_obeys:
  assumes cfg: "ic_chain_id cfg = c" and B: "B = UNIV"
  shows "obeys (on_db Q) (run_once E cfg)"
  unfolding run_once_def recorded_run_def last_indexed_block_def cfg
  by (intro obeys_bindM register_obeys select_obeys obeys_matchM dbM_obeys tick_inner_obeys obeys_retM cfg B
      op_start op_finish)

end

interpretation uniq: run_discipline "keeps keys_unique" E c UNIV for E c
  by unfold_locales (rule keys_unique_ops)+

interpretation refs: run_discipline "keeps refs_ok" E c UNIV for E c
  by unfold_locales (rule refs_ok_ops)+

end
