(* ===== verification/Explorer_Demo.thy ===== *)
theory Explorer_Demo
  imports Explorer_Indexer
begin

text \<open>
  A concrete node and database environment on which the witnesses of the explorer properties run: a chain
  whose blocks change hash from block 1 on after the twelfth request (a reorg), a deposit in block 3
  of the new chain, and byte codecs that read one character. No statement fails.
\<close>

definition demo_hex :: "string \<Rightarrow> string + bytes" where
  "demo_hex s =
     (case s of [] \<Rightarrow> Inr []
      | [a] \<Rightarrow> Inl ''odd length''
      | a # b # _ \<Rightarrow>
          Inr (replicate (if a = CHR ''a'' then 19 else 31) 0 @ [of_char b]))"

definition demo_tag_of :: "json \<Rightarrow> nat" where
  "demo_tag_of v = (case v of JStr s \<Rightarrow> (case u64_from_hex (trim_0x s) of Inr n \<Rightarrow> unat n | Inl _ \<Rightarrow> 0) | _ \<Rightarrow> 0)"

definition demo_hash :: "nat \<Rightarrow> nat \<Rightarrow> string" where
  "demo_hash k n = (if 12 \<le> k \<and> 1 \<le> n then ''hN'' else ''hO'')"

definition demo_block :: "nat \<Rightarrow> json \<Rightarrow> json" where
  "demo_block k tag =
     JObj [(''number'', tag), (''hash'', JStr (demo_hash k (demo_tag_of tag))),
           (''parentHash'', JStr ''hP''), (''timestamp'', tag), (''transactions'', JArr [])]"

definition demo_deposit_log :: json where
  "demo_deposit_log =
     JObj [(''address'', JStr ''aG''), (''topics'', JArr [JStr ''hD'']), (''data'', JStr ''hZ''),
           (''blockNumber'', JStr ''0x3''), (''blockHash'', JStr ''hN''), (''transactionHash'', JStr ''hT''),
           (''transactionIndex'', JStr ''0x0''), (''logIndex'', JStr ''0x0'')]"

definition demo_logs :: "nat \<Rightarrow> json \<Rightarrow> json list" where
  "demo_logs k flt =
     (case (json_get ''fromBlock'' flt, json_get ''toBlock'' flt) of
        (Some a, Some b) \<Rightarrow>
          if 12 \<le> k \<and> demo_tag_of a \<le> 3 \<and> 3 \<le> demo_tag_of b then [demo_deposit_log] else []
      | _ \<Rightarrow> [])"

definition demo_node :: "nat \<Rightarrow> string \<Rightarrow> json \<Rightarrow> ix_reply" where
  "demo_node k method params =
     Body (JObj [(''result'',
       if method = ''eth_blockNumber'' then JStr ''0x8''
       else if method = ''eth_getBlockByNumber'' then
         (case params of JArr (tag # _) \<Rightarrow> demo_block k tag | _ \<Rightarrow> JNull)
       else if method = ''eth_getLogs'' then
         (case params of JArr (flt # _) \<Rightarrow> JArr (demo_logs k flt) | _ \<Rightarrow> JNull)
       else JStr ''hV'')])"

definition demo_deposit_event :: IxAgentDeposit where
  "demo_deposit_event =
     \<lparr>ad_paymentId = 1, ad_orderId = 2, ad_agent = 3, ad_shareReceiver = 4, ad_amount = 5, ad_sharesMinted = 5,
      ad_windowId = 0\<rparr>"

definition demo_topic :: "string \<Rightarrow> b256" where
  "demo_topic s = (if s = ''AgentDeposit(bytes32,bytes32,address,address,uint256,uint256,uint64)''
     then of_char (CHR ''D'')
     else if s = ''ProposalCreated(uint256,address,address[],uint256[],uint64)'' then of_char (CHR ''P'')
     else if s = ''VoteCast(uint256,address,uint256,uint256)'' then of_char (CHR ''V'')
     else if s = ''VaultStatusChanged(address,uint8,uint256)'' then of_char (CHR ''S'')
     else of_char (CHR ''?''))"

definition demo_ienv :: ienv where
  "demo_ienv =
     \<lparr>ix_post = demo_node, ix_hex_decode = demo_hex, ix_hex_encode = (\<lambda>_. ''''),
      ix_fmt_address = (\<lambda>_. ''a''), ix_fmt_b256 = (\<lambda>_. ''h''), ix_json_text = (\<lambda>_. ''json''),
      ix_serde_error = (\<lambda>expected _. ''expected '' @ expected), ix_keccak = demo_topic,
      ix_abi_encode = (\<lambda>_. [0]), ix_feature_flags_var = None,
      ix_agent_deposit = (\<lambda>_ _ _. Inr demo_deposit_event),
      ix_agent_deposit_routed = (\<lambda>_ _ _. Inl ''not decoded''),
      ix_agent_authorized = (\<lambda>_ _ _. Inl ''not decoded''),
      ix_agent_revoked = (\<lambda>_ _ _. Inl ''not decoded''),
      ix_router_deposit = (\<lambda>_ _ _. Inl ''not decoded''),
      ix_vault_registered = (\<lambda>_ _ _. Inl ''not decoded''),
      ix_vault_status_changed = (\<lambda>_ _ _. Inr \<lparr>vs_vault = 1, vs_newStatus = 1, vs_timestamp = 9\<rparr>),
      ix_proposal_created = (\<lambda>_ _ _.
        Inr \<lparr>pc_proposalId = 7, pc_proposer = 1, pc_vaults = [], pc_bps = [], pc_votingDeadline = 100\<rparr>),
      ix_vote_cast = (\<lambda>_ _ _. Inr \<lparr>vc_proposalId = 7, vc_voter = 2, vc_power = 10, vc_totalFor = 10\<rparr>),
      ix_proposal_executed = (\<lambda>_ _ _. Inl ''not decoded''),
      ix_weights_applied = (\<lambda>_ _ _. Inl ''not decoded''),
      ix_db_fault = (\<lambda>_. None)\<rparr>"

definition demo_icfg :: IndexerConfig where
  "demo_icfg =
     \<lparr>ic_chain_id = 8453, ic_chain_name = ''base'', ic_rpc_label = ''demo'', ic_gateway = 1, ic_vault = 2,
      ic_registry = None, ic_router_governance = None, ic_max_blocks_per_tick = 3, ic_end_block = None,
      ic_feature_flags = 0\<rparr>"

definition empty_db :: explorer_db where
  "empty_db =
     \<lparr>chains = [], contracts = [], blocks = [], transactions = [], agent_deposits = [], router_deposit_legs = [],
      agent_policies = [], vault_snapshots = [], wallet_positions = [], vaults = [], governance_proposals = [],
      governance_votes = [], router_weight_snapshots = [], indexer_runs = [], run_seq = 1\<rparr>"

definition iworld0 :: dworld where
  "iworld0 = \<lparr>rpc_sent = [], db_stmts = 0, db = empty_db\<rparr>"

fun ticks :: "nat \<Rightarrow> ienv \<Rightarrow> IndexerConfig \<Rightarrow> dworld \<Rightarrow> dworld" where
  "ticks 0 E cfg w = w"
| "ticks (Suc n) E cfg w = ticks n E cfg (snd (run_once E cfg w))"

text \<open>The tables the demonstration runs produce.\<close>

definition demo_db :: "block_row list \<Rightarrow> RunRow list \<Rightarrow> int \<Rightarrow> explorer_db" where
  "demo_db bs rs q = empty_db\<lparr>
     chains := [\<lparr>ch_chain_id = 8453, ch_name = ''base'', ch_rpc_label = ''demo''\<rparr>],
     contracts := [\<lparr>co_chain_id = 8453, co_address = 1, co_kind = ''gateway'', co_deployed_block = None\<rparr>,
                   \<lparr>co_chain_id = 8453, co_address = 2, co_kind = ''vault'', co_deployed_block = None\<rparr>],
     blocks := bs,
     vault_snapshots := [\<lparr>sn_chain_id = 8453, sn_contract = 2, sn_block_number = 2, sn_total_assets = 86,
       sn_total_supply = 86, sn_exit_fee_bps = 86, sn_tvl_cap = 86, sn_paused = True\<rparr>],
     indexer_runs := rs, run_seq := q\<rparr>"

definition demo_header_row :: "int \<Rightarrow> b256 \<Rightarrow> block_row" where
  "demo_header_row n h = \<lparr>bl_chain_id = 8453, bl_block_number = n, bl_hash = h, bl_parent_hash = 80, bl_timestamp = n\<rparr>"

definition demo_run :: "int \<Rightarrow> int \<Rightarrow> int option \<Rightarrow> int \<Rightarrow> int \<Rightarrow> int \<Rightarrow> RunRow" where
  "demo_run i fb tb li reorgs rows = \<lparr>run_id = i, run_chain_id = 8453, run_finished = True, run_from_block = fb,
     run_to_block = tb, run_last_indexed_block = Some li, run_reorg_count = reorgs, run_rows_inserted = rows,
     run_error = None\<rparr>"

section \<open>Answers of the demonstration node\<close>

lemma demo_ienv_sel [simp]:
  "ix_post demo_ienv = demo_node" "ix_hex_decode demo_ienv = demo_hex" "ix_db_fault demo_ienv k = None"
  "ix_keccak demo_ienv = demo_topic" "ix_agent_deposit demo_ienv = (\<lambda>_ _ _. Inr demo_deposit_event)"
  by (simp_all add: demo_ienv_def)

lemma demo_icfg_sel [simp]:
  "ic_chain_id demo_icfg = 8453" "ic_gateway demo_icfg = 1" "ic_vault demo_icfg = 2" "ic_registry demo_icfg = None"
  "ic_router_governance demo_icfg = None" "ic_max_blocks_per_tick demo_icfg = 3" "ic_end_block demo_icfg = None"
  "ic_chain_name demo_icfg = ''base''" "ic_rpc_label demo_icfg = ''demo''"
  by (simp_all add: demo_icfg_def)

lemma demo_tag_of_tag [simp]: "demo_tag_of (JStr (hex_tag n)) = unat n"
  using parse_hex_tag [of "[]" n] by (auto simp: demo_tag_of_def ix_parse_u64_hex_def map_err_def split: sum.splits)

lemma demo_word: "trim_0x (CHR ''h'' # s) = CHR ''h'' # s" "trim_0x (CHR ''a'' # s) = CHR ''a'' # s"
  by simp_all

lemma be_word_last: "be_word (replicate n 0 @ [b]) = of_nat (unat b)"
proof -
  have "foldl (\<lambda>a b. 256 * a + unat b) 0 (replicate n (0::8 word)) = 0" by (induction n) simp_all
  then show ?thesis by (simp add: be_word_def)
qed

lemma demo_b256 [simp]: "ix_parse_b256 demo_ienv m (CHR ''h'' # ch # s) = Inr (of_nat (unat (of_char ch :: 8 word)))"
  by (simp add: ix_parse_b256_def demo_word demo_hex_def andThen_def map_err_def be_word_last del: replicate.simps)

lemma demo_address [simp]: "ix_parse_address demo_ienv m (CHR ''a'' # ch # s) = Inr (of_nat (unat (of_char ch :: 8 word)))"
  by (simp add: ix_parse_address_def demo_word demo_hex_def andThen_def map_err_def be_word_last del: replicate.simps)

lemma demo_header [simp]:
  "header_answer demo_ienv k n =
     Inr (Some \<lparr>bh_number = n, bh_hash = (if 12 \<le> k \<and> 1 \<le> unat n then 78 else 79), bh_parent_hash = 80,
       bh_timestamp = n\<rparr>)"
  by (simp add: header_answer_def ix_answer_def classify_def demo_node_def json_get_def parse_header_def
      demo_block_def str_or_def str_member_def parse_hex_tag andThen_def demo_hash_def)

lemma demo_number [simp]: "number_answer demo_ienv k = Inr 8"
  by (simp add: number_answer_def ix_answer_def classify_def demo_node_def json_get_def as_string_def andThen_def
      ix_parse_u64_hex_def u64_from_hex_def hex_digit_def map_err_def)

definition demo_log :: LogEntry where
  "demo_log = \<lparr>le_address = 71, le_topics = [68], le_data = replicate 31 0 @ [90], le_block_number = 3,
     le_block_hash = 78, le_tx_hash = 84, le_tx_index = 0, le_log_index = 0\<rparr>"

lemma demo_log_parsed: "parse_log demo_ienv demo_deposit_log = Inr demo_log"
  by (simp add: parse_log_def demo_deposit_log_def str_or_def str_member_def arr_member_def json_get_def parse_topic_def
      andThen_def ix_decode_hex_bytes_def demo_word demo_hex_def map_err_def ix_parse_u64_hex_def u64_from_hex_def
      hex_digit_def demo_log_def del: replicate.simps)

lemma demo_logs_answer [simp]:
  "logs_answer demo_ienv k a b addrs ts = Inr (if 12 \<le> k \<and> unat a \<le> 3 \<and> 3 \<le> unat b then [demo_log] else [])"
  by (simp add: logs_answer_def ix_answer_def logs_params_def classify_def demo_node_def json_get_def as_values_def
      andThen_def demo_logs_def demo_log_parsed)

lemma demo_call [simp]:
  "call_u256 demo_ienv to rd n w = (Inr 86, w\<lparr>rpc_sent := rpc_sent w @
     [(''eth_call'', JArr [JObj [(''to'', JStr ''a''), (''data'', JStr ''0x'')], JStr (hex_tag n)])]\<rparr>)"
  by (simp add: call_u256_def rpcM_def ix_eth_call_at_def ix_call_def classify_def demo_node_def json_get_def as_string_def
      bindM_def handleM_def liftR_def retM_def andThen_def ix_decode_hex_bytes_def demo_word demo_hex_def map_err_def
      be_word_last demo_ienv_def del: replicate.simps)

section \<open>Three ticks\<close>

text \<open>
  The first tick indexes up to block 2, the second block 3. Then the node reports other hashes: the
  third tick finds no stored block confirmed, deletes everything and indexes up to block 2 again.
\<close>

lemmas tick_eval = run_once_def recorded_run_def register_contracts_def upsert_chain_def upsert_contract_def
  last_indexed_block_def start_run_def finish_run_def ix_run_inner_def reorg_check_def get_block_hash_def
  ingest_range_def ingest_logs_def ingest_cursor_header_def insert_header_def insert_block_def heartbeat_def
  snapshot_vault_address_def insert_vault_snapshot_def call_bool_def unwrap_orM_def dbM_def rpcM_def matchM_def
  stmt_def put_def update_where_def io_eval ix_block_header_eval ix_block_number_eval ix_get_logs_eval
  tick_target_def saturating_sub_def saturating_add_def CONFIRMATIONS_def
  event_blocks_def event_blocks_per_contract_def heartbeat_vaults_def last_snapshot_def sql_max_def cursor_def
  List.map_filter_def outcome_def next_block_def known_chain_def known_contract_def contract_key_def block_key_def
  snapshot_key_def stored_hash_def wrap_i64_def as_i64_def as_u64_def u256_to_i64_or_def SNAPSHOT_HEARTBEAT_BLOCKS_def

lemmas cut_eval = delete_above_block_def delete_statements_def in_tx_def delete_where_def delete_proposals_def

lemma walk_back_done: "walk_back_to_match E c (-1) = retM (- 1)"
  by (subst walk_back_to_match.simps) simp

lemmas demo_db_defs = demo_db_def demo_header_row_def demo_run_def empty_db_def

abbreviation demo_tick :: "dworld \<Rightarrow> (IndexerError + IndexerOutcome) \<times> dworld" where
  "demo_tick \<equiv> run_once demo_ienv demo_icfg"

lemma demo_tick1:
  assumes "db w = empty_db" "length (rpc_sent w) = 0"
  shows "db (snd (demo_tick w)) = demo_db [demo_header_row 2 79] [demo_run 1 0 (Some 2) 2 0 2] 2"
    and "length (rpc_sent (snd (demo_tick w))) = 8"
    and "fst (demo_tick w) = Inr \<lparr>oc_run_id = 1, oc_from_block = 0, oc_to_block = Some 2,
      oc_last_indexed_block = Some 2, oc_rows_inserted = 2, oc_reorg_detected = False, oc_error = None\<rparr>"
  using assms by (simp_all add: tick_eval demo_db_defs)

lemma demo_tick2:
  assumes "db w = demo_db [demo_header_row 2 79] [demo_run 1 0 (Some 2) 2 0 2] 2" "length (rpc_sent w) = 8"
  shows "db (snd (demo_tick w)) = demo_db [demo_header_row 2 79, demo_header_row 3 79]
      [demo_run 1 0 (Some 2) 2 0 2, demo_run 2 3 (Some 3) 3 0 1] 3"
    and "length (rpc_sent (snd (demo_tick w))) = 12"
  using assms by (simp_all add: tick_eval demo_db_defs)

lemma demo_tick3:
  assumes "db w = demo_db [demo_header_row 2 79, demo_header_row 3 79]
      [demo_run 1 0 (Some 2) 2 0 2, demo_run 2 3 (Some 3) 3 0 1] 3" "length (rpc_sent w) = 12"
  shows "db (snd (demo_tick w)) = demo_db [demo_header_row 2 78]
      [demo_run 1 0 (Some 2) 2 0 2, demo_run 2 3 (Some 3) 3 0 1, demo_run 3 4 (Some 2) 2 1 2] 4"
    and "12 \<le> length (rpc_sent (snd (demo_tick w)))"
  using assms
  by (simp_all add: tick_eval demo_db_defs cut_eval walk_back_done walk_back_to_match.simps [of _ _ 3]
      walk_back_to_match.simps [of _ _ 2] walk_back_to_match.simps [of _ _ 1] walk_back_to_match.simps [of _ _ 0])

end
