(* ===== verification/Explorer_Recovery.thy ===== *)
theory Explorer_Recovery
  imports Explorer_Demo
begin

text \<open>
  Reorg recovery and the run record of the explorer indexer: the walk back to the last block the node
  still confirms, the deletion above it, the range of a tick, and the cursor the next tick starts from.
\<close>

section \<open>The walk back\<close>

text \<open>
  The walk asks the node only for heights with a stored hash, from \<open>start\<close> downwards, so the height \<open>m\<close> is
  the subject of request number \<open>probe_index\<close>.
\<close>

definition stored_above :: "explorer_db \<Rightarrow> int \<Rightarrow> int \<Rightarrow> int \<Rightarrow> nat" where
  "stored_above d c m start = card {h \<in> {m<..start}. stored_hash d c h \<noteq> None}"

definition confirmed :: "ienv \<Rightarrow> explorer_db \<Rightarrow> int \<Rightarrow> nat \<Rightarrow> int \<Rightarrow> int \<Rightarrow> bool" where
  "confirmed E d c k start m \<longleftrightarrow>
     (\<exists>hdr. header_answer E (k + stored_above d c m start) (as_u64 m) = Inr (Some hdr) \<and>
        stored_hash d c m = Some (bh_hash hdr))"

definition highest_confirmed :: "ienv \<Rightarrow> explorer_db \<Rightarrow> int \<Rightarrow> nat \<Rightarrow> int \<Rightarrow> int \<Rightarrow> bool" where
  "highest_confirmed E d c k start root \<longleftrightarrow>
     (\<forall>m \<in> {max 0 (root + 1)..start}. \<not> confirmed E d c k start m) \<and>
     (root = - 1 \<or> 0 \<le> root \<and> root \<le> start \<and> confirmed E d c k start root)"

lemma stored_above_self [simp]: "stored_above d c n n = 0"
  by (simp add: stored_above_def)

lemma stored_above_pred:
  assumes "m < n"
  shows "stored_above d c m n = stored_above d c m (n - 1) + (if stored_hash d c n = None then 0 else 1)"
proof -
  have "{h \<in> {m<..n}. stored_hash d c h \<noteq> None} =
      {h \<in> {m<..n - 1}. stored_hash d c h \<noteq> None} \<union> (if stored_hash d c n = None then {} else {n})"
    using assms by (auto simp: less_le)
  moreover have "finite {h \<in> {m<..n - 1}. stored_hash d c h \<noteq> None}"
    by (rule finite_subset [of _ "{m<..n - 1}"]) auto
  moreover have "n \<notin> {h \<in> {m<..n - 1}. stored_hash d c h \<noteq> None}" by simp
  ultimately show ?thesis by (simp only: stored_above_def) (simp add: card_insert_if del: greaterThanAtMost_iff mem_Collect_eq)
qed

lemma confirmed_pred:
  "m < n \<Longrightarrow> confirmed E d c k n m \<longleftrightarrow>
     confirmed E d c (k + (if stored_hash d c n = None then 0 else 1)) (n - 1) m"
  by (simp add: confirmed_def stored_above_pred ac_simps)

lemma highest_confirmed_pred:
  assumes "0 \<le> n" and "\<not> confirmed E d c k n n"
    and "highest_confirmed E d c (k + (if stored_hash d c n = None then 0 else 1)) (n - 1) root"
  shows "highest_confirmed E d c k n root"
proof -
  let ?k = "k + (if stored_hash d c n = None then 0 else 1)"
  have "\<not> confirmed E d c k n m" if m: "m \<in> {max 0 (root + 1)..n}" for m
  proof (cases "m = n")
    case True
    then show ?thesis using assms(2) by simp
  next
    case False
    then have "m < n" "m \<in> {max 0 (root + 1)..n - 1}" using m by auto
    then show ?thesis using assms(3) by (simp add: highest_confirmed_def confirmed_pred)
  qed
  moreover have "root = - 1 \<or> 0 \<le> root \<and> root \<le> n \<and> confirmed E d c k n root"
    using assms(3) confirmed_pred [of root n E d c k] by (auto simp: highest_confirmed_def)
  ultimately show ?thesis by (simp add: highest_confirmed_def)
qed

text \<open>The reasons for which a walk can end without an answer.\<close>

definition outside_failure :: "ienv \<Rightarrow> bool" where
  "outside_failure E \<longleftrightarrow> (\<exists>k e. ix_db_fault E k = Some e) \<or> (\<exists>k n e. header_answer E k n = Inl e)"

lemma get_block_hash_cases:
  assumes "dbM (get_block_hash E c n) w = (r, w')"
  shows "db w' = db w \<and> rpc_sent w' = rpc_sent w \<and>
    (r = Inr (stored_hash (db w) c n) \<or> (\<exists>e. r = Inl e) \<and> outside_failure E)"
proof (cases r)
  case (Inl e)
  then show ?thesis
    using assms by (auto simp: dbM_def get_block_hash_def io_simps outside_failure_def)
next
  case (Inr x)
  then show ?thesis
    using assms by (auto simp: dbM_def get_block_hash_def io_simps)
qed

lemma header_cases:
  assumes "rpcM (ix_block_header E n) w = (r, w')"
  shows "db w' = db w \<and> length (rpc_sent w') = Suc (length (rpc_sent w)) \<and>
    ((\<exists>e. r = Inl e) \<and> outside_failure E \<or>
     (\<exists>hdr. r = Inr hdr \<and> header_answer E (length (rpc_sent w)) n = Inr hdr))"
  using assms
  by (auto simp: rpcM_def handleM_def ix_block_header_eval failM_def outside_failure_def split: sum.splits)

definition walk_ok :: "ienv \<Rightarrow> int \<Rightarrow> int \<Rightarrow> dworld \<Rightarrow> (IndexerError + int) \<Rightarrow> dworld \<Rightarrow> bool" where
  "walk_ok E c start w r w' \<longleftrightarrow> db w' = db w \<and>
     (case r of Inr root \<Rightarrow> highest_confirmed E (db w) c (length (rpc_sent w)) start root
      | Inl e \<Rightarrow> outside_failure E)"

lemma walk_ok_pred:
  assumes "0 \<le> n" and "\<not> confirmed E (db w) c (length (rpc_sent w)) n n" and "db w1 = db w"
    and "length (rpc_sent w1) = length (rpc_sent w) + (if stored_hash (db w) c n = None then 0 else 1)"
    and "walk_ok E c (n - 1) w1 r w'"
  shows "walk_ok E c n w r w'"
  using assms highest_confirmed_pred [OF assms(1,2)] by (auto simp: walk_ok_def split: sum.splits)

lemma walk_back_step:
  "0 \<le> n \<Longrightarrow> walk_back_to_match E c n =
     bindM (dbM (get_block_hash E c n)) (\<lambda>stored. case stored of
       None \<Rightarrow> walk_back_to_match E c (n - 1)
     | Some h \<Rightarrow> bindM (rpcM (ix_block_header E (as_u64 n))) (\<lambda>header.
         if map_option bh_hash header = Some h then retM n else walk_back_to_match E c (n - 1)))"
  by (subst walk_back_to_match.simps) simp

lemma walk_back_ok:
  "walk_back_to_match E c n w = (r, w') \<Longrightarrow> walk_ok E c n w r w'"
proof (induction "nat (n + 1)" arbitrary: n w)
  case 0
  then show ?case
    by (subst (asm) walk_back_to_match.simps) (auto simp: io_simps walk_ok_def highest_confirmed_def)
next
  case (Suc j)
  then have n: "0 \<le> n" and j: "j = nat (n - 1 + 1)" by simp_all
  from Suc.prems [unfolded walk_back_step [OF n]] show ?case
  proof (cases rule: bindM_cases)
    case (failed e)
    then show ?thesis using get_block_hash_cases by (fastforce simp: walk_ok_def)
  next
    case (continued stored w1)
    then have w1: "db w1 = db w" "rpc_sent w1 = rpc_sent w" "stored = stored_hash (db w) c n"
      using get_block_hash_cases [OF continued(1)] by auto
    show ?thesis
    proof (cases stored)
      case None
      then have "walk_back_to_match E c (n - 1) w1 = (r, w')" using continued(2) by simp
      from Suc.hyps(1) [OF j this] show ?thesis
        by (intro walk_ok_pred [OF n _ w1(1)]) (use None w1 in \<open>auto simp: confirmed_def\<close>)
    next
      case (Some h)
      from continued(2) [unfolded Some option.case] show ?thesis
      proof (cases rule: bindM_cases)
        case (failed e)
        then show ?thesis using header_cases w1 by (fastforce simp: walk_ok_def)
      next
        case (continued header w2)
        then have w2: "db w2 = db w" "length (rpc_sent w2) = Suc (length (rpc_sent w))"
            "header_answer E (length (rpc_sent w)) (as_u64 n) = Inr header"
          using header_cases [OF continued(1)] w1 by auto
        show ?thesis
        proof (cases "map_option bh_hash header = Some h")
          case True
          then have "confirmed E (db w) c (length (rpc_sent w)) n n"
            using w2 Some w1 by (auto simp: confirmed_def)
          then show ?thesis
            using continued(2) True n w2 by (auto simp: io_simps walk_ok_def highest_confirmed_def)
        next
          case False
          then have "walk_back_to_match E c (n - 1) w2 = (r, w')" using continued(2) by (simp only: if_False)
          from Suc.hyps(1) [OF j this] show ?thesis
            by (intro walk_ok_pred [OF n _ w2(1)]) (use False Some w1 w2 in \<open>auto simp: confirmed_def\<close>)
        qed
      qed
    qed
  qed
qed

section \<open>Block numbers\<close>

lemma as_i64_small:
  assumes "unat (t::u64) < 2 ^ 63"
  shows "as_i64 t = int (unat t)"
proof -
  have "uint t < 2 ^ 63" using assms by (metis of_nat_less_iff of_nat_numeral of_nat_power of_nat_unat)
  moreover have "- (2 ^ 63) \<le> uint t" by (rule order_trans [OF _ uint_ge_0]) simp
  ultimately have "signed_take_bit 63 (uint t) = uint t" by (intro signed_take_bit_int_eq_self)
  then show ?thesis unfolding as_i64_def sint_uint by simp
qed

lemma wrap_i64_small:
  assumes "0 \<le> l" "l < 2 ^ 63"
  shows "wrap_i64 l = l"
proof -
  have "signed_take_bit 63 l = l" using assms by (intro signed_take_bit_int_eq_self) linarith+
  then show ?thesis unfolding wrap_i64_def by (subst signed_of_int) simp
qed

lemma as_u64_block: "0 \<le> l \<Longrightarrow> l < 2 ^ 64 \<Longrightarrow> unat (as_u64 l) = nat l"
  by (simp add: as_u64_def unat_eq_nat_uint uint_word_of_int)

section \<open>Disciplines\<close>

text \<open>The run records are untouched; no row outside given blocks appears; other chains are untouched.\<close>

definition same_runs :: "explorer_db \<Rightarrow> explorer_db \<Rightarrow> bool" where
  "same_runs d d' \<longleftrightarrow> indexer_runs d' = indexer_runs d \<and> run_seq d' = run_seq d"

definition block_tags :: "explorer_db \<Rightarrow> (int \<times> int) set" where
  "block_tags d =
     (\<lambda>r. (bl_chain_id r, bl_block_number r)) ` set (blocks d) \<union>
     (\<lambda>r. (xa_chain_id r, xa_block_number r)) ` set (transactions d) \<union>
     (\<lambda>r. (ds_chain_id r, ds_block_number r)) ` set (agent_deposits d) \<union>
     (\<lambda>r. (lg_chain_id r, lg_block_number r)) ` set (router_deposit_legs d) \<union>
     (\<lambda>r. (po_chain_id r, po_block_number r)) ` set (agent_policies d) \<union>
     (\<lambda>r. (sn_chain_id r, sn_block_number r)) ` set (vault_snapshots d) \<union>
     (\<lambda>r. (wp_chain_id r, wp_block_number r)) ` set (wallet_positions d) \<union>
     (\<lambda>r. (pr_chain_id r, pr_block_number r)) ` set (governance_proposals d) \<union>
     (\<lambda>r. (vo_chain_id r, vo_block_number r)) ` set (governance_votes d) \<union>
     (\<lambda>r. (we_chain_id r, we_block_number r)) ` set (router_weight_snapshots d)"

definition adds_within :: "int \<Rightarrow> int set \<Rightarrow> explorer_db \<Rightarrow> explorer_db \<Rightarrow> bool" where
  "adds_within c B d d' \<longleftrightarrow> block_tags d' \<subseteq> block_tags d \<union> {c} \<times> B"

definition foreign :: "int \<Rightarrow> explorer_db \<Rightarrow> explorer_db" where
  "foreign c d =
     \<lparr>chains = filter (\<lambda>r. ch_chain_id r \<noteq> c) (chains d), contracts = filter (\<lambda>r. co_chain_id r \<noteq> c) (contracts d),
      blocks = filter (\<lambda>r. bl_chain_id r \<noteq> c) (blocks d), transactions = filter (\<lambda>r. xa_chain_id r \<noteq> c) (transactions d),
      agent_deposits = filter (\<lambda>r. ds_chain_id r \<noteq> c) (agent_deposits d),
      router_deposit_legs = filter (\<lambda>r. lg_chain_id r \<noteq> c) (router_deposit_legs d),
      agent_policies = filter (\<lambda>r. po_chain_id r \<noteq> c) (agent_policies d),
      vault_snapshots = filter (\<lambda>r. sn_chain_id r \<noteq> c) (vault_snapshots d),
      wallet_positions = filter (\<lambda>r. wp_chain_id r \<noteq> c) (wallet_positions d),
      vaults = filter (\<lambda>r. va_chain_id r \<noteq> c) (vaults d),
      governance_proposals = filter (\<lambda>r. pr_chain_id r \<noteq> c) (governance_proposals d),
      governance_votes = filter (\<lambda>r. vo_chain_id r \<noteq> c) (governance_votes d),
      router_weight_snapshots = filter (\<lambda>r. we_chain_id r \<noteq> c) (router_weight_snapshots d),
      indexer_runs = filter (\<lambda>r. run_chain_id r \<noteq> c) (indexer_runs d), run_seq = 0\<rparr>"

definition same_foreign :: "int \<Rightarrow> explorer_db \<Rightarrow> explorer_db \<Rightarrow> bool" where
  "same_foreign c d d' \<longleftrightarrow> foreign c d' = foreign c d"

interpretation sr: db_discipline same_runs
  by unfold_locales (auto simp: same_runs_def)

interpretation aw: db_discipline "adds_within c B" for c B
  by unfold_locales (auto simp: adds_within_def)

interpretation fo: db_discipline "same_foreign c" for c
  by unfold_locales (auto simp: same_foreign_def)

lemma filter_map_if: "(\<And>r. P r \<Longrightarrow> \<not> S r \<and> \<not> S (f r)) \<Longrightarrow> filter S (map (\<lambda>r. if P r then f r else r) rs) = filter S rs"
  by (induction rs) auto

lemma tally_block [simp]: "pr_block_number (tally s p) = pr_block_number p"
  by (simp add: tally_def)

lemma proposal_tags [simp]:
  "pr_block_number (if b then tally s p else p) = pr_block_number p"
  "pr_block_number (if b then p\<lparr>pr_status := st, pr_executed_block := x\<rparr> else p) = pr_block_number p"
  by simp_all

definition cast_vote :: "vote_row \<Rightarrow> explorer_db \<Rightarrow> explorer_db" where
  "cast_vote r d = governance_proposals_update (map (\<lambda>p.
       if pr_chain_id p = vo_chain_id r \<and> pr_proposal_id p = vo_proposal_id r then tally (vo_support r) p else p))
     (governance_votes_update (\<lambda>t. t @ [r]) d)"

lemma insert_vote_Inr:
  assumes "insert_vote E r w = (Inr n, w')"
  shows "vote_key r \<in> vote_key ` set (governance_votes (db w)) \<and> n = 0 \<and> db w' = db w \<or>
    vote_key r \<notin> vote_key ` set (governance_votes (db w)) \<and> known_chain (vo_chain_id r) (db w) \<and>
    known_proposal (vo_chain_id r) (vo_proposal_id r) (db w) \<and> n = 1 \<and> db w' = cast_vote r (db w)"
proof -
  let ?w = "w\<lparr>db_stmts := Suc (db_stmts w)\<rparr>"
  let ?refs = "\<lambda>d. known_chain (vo_chain_id r) d \<and> known_proposal (vo_chain_id r) (vo_proposal_id r) d"
  obtain w1 where db: "db w' = db w1" and body: "bindM (stmt E (put governance_votes governance_votes_update vote_key ?refs r))
      (\<lambda>n. if n = 1 then bindM (stmt E (\<lambda>d. Inr (update_where governance_proposals governance_proposals_update
         (\<lambda>p. pr_chain_id p = vo_chain_id r \<and> pr_proposal_id p = vo_proposal_id r) (tally (vo_support r)) d)))
         (\<lambda>_. retM n) else retM n) ?w = (Inr n, w1)"
    using assms unfolding insert_vote_def in_tx_Inr_iff by auto
  from body show ?thesis
  proof (cases rule: bindM_cases)
    case (continued k w2)
    from continued(1) obtain d where d: "put governance_votes governance_votes_update vote_key ?refs r (db w) = Inr (k, d)"
        "db w2 = d" by (auto simp: stmt_Inr_iff)
    from continued(2) d db show ?thesis
      by (auto simp: tb_votes.put_Inr_iff io_simps update_where_def cast_vote_def split: if_splits)
  qed simp
qed

lemma insert_vote_Inl: "insert_vote E r w = (Inl e, w') \<Longrightarrow> db w' = db w"
  unfolding insert_vote_def by (rule in_tx_Inl_db)

lemma delete_above_Inl: "delete_above_block E c root w = (Inl e, w') \<Longrightarrow> db w' = db w"
  unfolding delete_above_block_def by (rule in_tx_Inl_db)

context db_discipline
begin

lemma obeys_by_cases:
  assumes "\<And>w x w'. m w = (Inr x, w') \<Longrightarrow> Q (db w) (db w')" and "\<And>w e w'. m w = (Inl e, w') \<Longrightarrow> db w' = db w"
  shows "obeys (on_db Q) m"
proof -
  have "Q (db w) (db (snd (m w)))" for w
    using assms [of w] Q_refl [of "db w"] by (cases "m w"; cases "fst (m w)") auto
  then show ?thesis by (simp add: obeys_def on_db_def)
qed

lemma delete_obeys: "(\<And>d. Q d (reorg_cut c root d)) \<Longrightarrow> obeys (on_db Q) (delete_above_block E c root)"
  by (rule obeys_by_cases) (auto dest: delete_above_block_Inr(1) delete_above_Inl)

lemma vote_obeys:
  assumes "\<And>d. vote_key r \<notin> vote_key ` set (governance_votes d) \<Longrightarrow> known_chain (vo_chain_id r) d \<Longrightarrow>
    known_proposal (vo_chain_id r) (vo_proposal_id r) d \<Longrightarrow> Q d (cast_vote r d)"
  shows "obeys (on_db Q) (insert_vote E r)"
  by (rule obeys_by_cases) (auto dest!: insert_vote_Inr insert_vote_Inl simp: assms Q_refl)

end

interpretation sr: tick_discipline same_runs E c UNIV for E c
proof
qed (auto simp: db_op_defs same_runs_def cast_vote_def reorg_cut_def
    intro!: sr.put_obeys sr.update_obeys sr.vote_obeys sr.delete_obeys)

lemma adds_within_ops:
  "obeys (on_db (adds_within c B)) (upsert_chain E c nam label)"
  "obeys (on_db (adds_within c B)) (upsert_contract E c a kd dep)"
  "n \<in> B \<Longrightarrow> obeys (on_db (adds_within c B)) (insert_block E c n h p t)"
  "n \<in> B \<Longrightarrow> obeys (on_db (adds_within c B)) (insert_transaction E c h n i fr to st)"
  "ds_chain_id dr = c \<Longrightarrow> ds_block_number dr \<in> B \<Longrightarrow> obeys (on_db (adds_within c B)) (insert_agent_deposit E dr)"
  "lg_chain_id lr = c \<Longrightarrow> lg_block_number lr \<in> B \<Longrightarrow> obeys (on_db (adds_within c B)) (insert_router_deposit_leg E lr)"
  "po_chain_id pr = c \<Longrightarrow> po_block_number pr \<in> B \<Longrightarrow> obeys (on_db (adds_within c B)) (insert_agent_policy E pr)"
  "sn_chain_id sr = c \<Longrightarrow> sn_block_number sr \<in> B \<Longrightarrow> obeys (on_db (adds_within c B)) (insert_vault_snapshot E sr)"
  "obeys (on_db (adds_within c B)) (upsert_vault E c a nam label cap st t n h)"
  "n \<in> B \<Longrightarrow> obeys (on_db (adds_within c B)) (insert_proposal E c q n i h a descr t dl)"
  "we_chain_id er = c \<Longrightarrow> we_block_number er \<in> B \<Longrightarrow> obeys (on_db (adds_within c B)) (insert_router_weight_snapshot E er)"
  unfolding db_op_defs
  by (rule aw.put_obeys; auto simp: adds_within_def block_tags_def)+

lemma block_tags_cast_vote [simp]:
  "block_tags (cast_vote r d) = insert (vo_chain_id r, vo_block_number r) (block_tags d)"
  by (simp add: block_tags_def cast_vote_def image_image del: if_image_distrib)

lemma block_tags_updates [simp]:
  "block_tags (vaults_update f d) = block_tags d"
  "block_tags (governance_proposals_update (map (\<lambda>r. if P r then r\<lparr>pr_status := st, pr_executed_block := x\<rparr> else r)) d) =
     block_tags d"
  by (simp_all add: block_tags_def image_image del: if_image_distrib)

lemma block_tags_cut: "block_tags (reorg_cut c root d) \<subseteq> block_tags d"
  unfolding block_tags_def reorg_cut_def by (intro Un_mono image_mono) auto

lemma adds_within_updates:
  "obeys (on_db (adds_within c B)) (update_vault_status E c a st t)"
  "obeys (on_db (adds_within c B)) (execute_proposal E c q n)"
  unfolding db_op_defs by (rule aw.update_obeys, simp add: adds_within_def le_supI1)+

lemma adds_within_vote:
  "vo_chain_id vr = c \<Longrightarrow> vo_block_number vr \<in> B \<Longrightarrow> obeys (on_db (adds_within c B)) (insert_vote E vr)"
  by (rule aw.vote_obeys) (auto simp: adds_within_def)

lemma adds_within_delete: "obeys (on_db (adds_within c B)) (delete_above_block E c root)"
  by (rule aw.delete_obeys) (simp add: adds_within_def block_tags_cut le_supI1)

interpretation aw: tick_discipline "adds_within c B" E c B for E c B
  by unfold_locales (rule adds_within_ops adds_within_updates adds_within_vote adds_within_delete; assumption)+

lemma foreign_inserts:
  "obeys (on_db (same_foreign c)) (upsert_chain E c nam label)"
  "obeys (on_db (same_foreign c)) (upsert_contract E c a kd dep)"
  "obeys (on_db (same_foreign c)) (insert_block E c n h p t)"
  "obeys (on_db (same_foreign c)) (insert_transaction E c h n i fr to st)"
  "ds_chain_id dr = c \<Longrightarrow> obeys (on_db (same_foreign c)) (insert_agent_deposit E dr)"
  "lg_chain_id lr = c \<Longrightarrow> obeys (on_db (same_foreign c)) (insert_router_deposit_leg E lr)"
  "po_chain_id pr = c \<Longrightarrow> obeys (on_db (same_foreign c)) (insert_agent_policy E pr)"
  "sn_chain_id sr = c \<Longrightarrow> obeys (on_db (same_foreign c)) (insert_vault_snapshot E sr)"
  "obeys (on_db (same_foreign c)) (upsert_vault E c a nam label cap st t n h)"
  "obeys (on_db (same_foreign c)) (insert_proposal E c q n i h a descr t dl)"
  "we_chain_id er = c \<Longrightarrow> obeys (on_db (same_foreign c)) (insert_router_weight_snapshot E er)"
  unfolding db_op_defs by (rule fo.put_obeys, simp add: same_foreign_def foreign_def)+

lemma foreign_updates:
  "obeys (on_db (same_foreign c)) (update_vault_status E c a st t)"
  "obeys (on_db (same_foreign c)) (execute_proposal E c q n)"
  unfolding db_op_defs by (rule fo.update_obeys, simp add: same_foreign_def foreign_def, rule filter_map_if, simp)+

lemma foreign_vote: "vo_chain_id vr = c \<Longrightarrow> obeys (on_db (same_foreign c)) (insert_vote E vr)"
  by (rule fo.vote_obeys) (simp add: same_foreign_def foreign_def cast_vote_def, rule filter_map_if, simp)

lemma foreign_delete: "obeys (on_db (same_foreign c)) (delete_above_block E c root)"
  by (rule fo.delete_obeys)
     (simp add: same_foreign_def foreign_def reorg_cut_def, intro conjI; rule filter_cong; auto)

interpretation fo: tick_discipline "same_foreign c" E c UNIV for E c
  by unfold_locales (rule foreign_inserts foreign_updates foreign_vote foreign_delete; assumption)+

section \<open>The run record\<close>

text \<open>What one tick writes into the run table.\<close>

definition run_of_outcome :: "IndexerConfig \<Rightarrow> IndexerOutcome \<Rightarrow> RunRow" where
  "run_of_outcome cfg o1 =
     \<lparr>run_id = oc_run_id o1, run_chain_id = ic_chain_id cfg, run_finished = True, run_from_block = oc_from_block o1,
      run_to_block = oc_to_block o1, run_last_indexed_block = oc_last_indexed_block o1,
      run_reorg_count = (if oc_reorg_detected o1 then 1 else 0), run_rows_inserted = oc_rows_inserted o1,
      run_error = oc_error o1\<rparr>"

lemma map_if_fresh:
  "\<forall>r \<in> set rs. run_id r < rid \<Longrightarrow> map (\<lambda>r. if run_id r = rid then f r else r) rs = rs"
  by (rule map_idI) auto

lemma dbM_Inr_iff [io_simps]: "dbM m w = (Inr x, w') \<longleftrightarrow> m w = (Inr x, w')"
  by (auto simp: dbM_def io_simps)

lemma run_inner_runs:
  assumes "ix_run_inner E cfg li w = (r, w')"
  shows "indexer_runs (db w') = indexer_runs (db w) \<and> run_seq (db w') = run_seq (db w)"
  using sr.obeysD [OF sr.tick_inner_obeys [OF refl refl] assms] by (simp add: on_db_def same_runs_def)

lemma register_runs:
  assumes "register_contracts E cfg w = (r, w')"
  shows "indexer_runs (db w') = indexer_runs (db w) \<and> run_seq (db w') = run_seq (db w)"
  using sr.obeysD [OF sr.register_obeys [OF refl] assms] by (simp add: on_db_def same_runs_def)

lemma run_inner_no_error: "ix_run_inner E cfg li w = (Inr o1, w') \<Longrightarrow> oc_error o1 = None"
  by (auto simp: ix_run_inner_def Let_def io_simps outcome_def split: prod.splits option.splits)

lemma finish_run_Inr:
  "finish_run E rid tb li k rows err w = (Inr u, w') \<Longrightarrow>
     db w' = indexer_runs_update (map (\<lambda>r. if run_id r = rid then
       r\<lparr>run_finished := True, run_to_block := tb, run_last_indexed_block := li, run_reorg_count := k,
         run_rows_inserted := rows, run_error := err\<rparr> else r)) (db w)"
  by (auto simp: finish_run_def io_simps update_where_def)

definition opened :: "int \<Rightarrow> int \<Rightarrow> explorer_db \<Rightarrow> explorer_db" where
  "opened c fb d = d\<lparr>run_seq := run_seq d + 1, indexer_runs := indexer_runs d @
     [\<lparr>run_id = run_seq d, run_chain_id = c, run_finished = False, run_from_block = fb, run_to_block = None,
       run_last_indexed_block = None, run_reorg_count = 0, run_rows_inserted = 0, run_error = None\<rparr>]\<rparr>"

definition closing_outcome :: "int \<Rightarrow> int option \<Rightarrow> IndexerError + IndexerOutcome \<Rightarrow> IndexerOutcome" where
  "closing_outcome rid li r =
     (case r of
        Inr o1 \<Rightarrow> o1\<lparr>oc_run_id := rid, oc_from_block := next_block li\<rparr>
      | Inl e \<Rightarrow> \<lparr>oc_run_id = rid, oc_from_block = next_block li, oc_to_block = None, oc_last_indexed_block = li,
          oc_rows_inserted = 0, oc_reorg_detected = False, oc_error = Some (show_indexer_error e)\<rparr>)"

lemma start_run_Inr:
  "start_run E c fb w = (Inr rid, w') \<Longrightarrow> rid = run_seq (db w) \<and> db w' = opened c fb (db w)"
  by (auto simp: start_run_def stmt_Inr_iff opened_def split: if_splits)

lemma run_once_cases:
  assumes "run_once E cfg w = (Inr out, w')"
  obtains (run) w1 w2 w3 w4 r li where "register_contracts E cfg w = (Inr (), w1)"
    "li = cursor (db w) (ic_chain_id cfg)" "db (w2::dworld) = db w1"
    "db w3 = opened (ic_chain_id cfg) (next_block li) (db w2)"
    "ix_run_inner E cfg li w3 = (r, w4)" "out = closing_outcome (run_seq (db w2)) li r"
    "finish_run E (run_seq (db w2)) (oc_to_block out) (oc_last_indexed_block out)
      (if oc_reorg_detected out then 1 else 0) (oc_rows_inserted out) (oc_error out) w4 = (Inr (), w')"
proof -
  let ?c = "ic_chain_id cfg"
  from assms obtain w1 w2 w3 li rid where reg: "register_contracts E cfg w = (Inr (), w1)"
    and last1: "last_indexed_block E ?c w1 = (Inr li, w2)" and start: "start_run E ?c (next_block li) w2 = (Inr rid, w3)"
    and rest: "recorded_run E cfg li rid w3 = (Inr out, w')"
    by (auto simp: run_once_def bindM_Inr_iff dbM_Inr_iff)
  from last1 have w2: "db w2 = db w1" "li = cursor (db w1) ?c"
    by (auto simp: last_indexed_block_def stmt_Inr_iff)
  have li: "li = cursor (db w) ?c"
    using register_runs [OF reg] w2 by (simp add: cursor_def)
  have rid: "rid = run_seq (db w2)" and w3: "db w3 = opened ?c (next_block li) (db w2)"
    using start_run_Inr [OF start] by simp_all
  note known = run [OF reg li w2(1) w3]
  from rest [unfolded recorded_run_def] show thesis
  proof (cases rule: matchM_cases)
    case (ok o1 w4)
    then show ?thesis
      using run_inner_no_error [OF ok(1)] rid
      by (intro known [OF ok(1)]) (auto simp: io_simps closing_outcome_def)
  next
    case (err e w4)
    then show ?thesis
      using rid by (intro known [OF err(1)]) (auto simp: io_simps closing_outcome_def)
  qed
qed

lemma run_once_records:
  assumes "run_once E cfg w = (Inr out, w')" and "keys_unique (db w)"
  shows "indexer_runs (db w') = indexer_runs (db w) @ [run_of_outcome cfg out] \<and> oc_run_id out = run_seq (db w) \<and>
    oc_from_block out = next_block (cursor (db w) (ic_chain_id cfg))"
  using assms(1)
proof (cases rule: run_once_cases)
  case (run w1 w2 w3 w4 r li)
  have runs: "indexer_runs (db w2) = indexer_runs (db w)" "run_seq (db w2) = run_seq (db w)"
    using register_runs [OF run(1)] run(3) by simp_all
  have out: "oc_run_id out = run_seq (db w)" "oc_from_block out = next_block (cursor (db w) (ic_chain_id cfg))"
    using run(2,6) runs by (auto simp: closing_outcome_def split: sum.splits)
  have "\<forall>r \<in> set (indexer_runs (db w)). run_id r < run_seq (db w)"
    using assms(2) by (simp add: keys_unique_def)
  then have "indexer_runs (db w') = indexer_runs (db w) @ [run_of_outcome cfg out]"
    using finish_run_Inr [OF run(7)] run_inner_runs [OF run(5)] run(2,4) runs out
    by (simp add: map_if_fresh run_of_outcome_def opened_def)
  with out show ?thesis by simp
qed

section \<open>The cursor\<close>

lemma sql_max_None [simp]: "sql_max xs = None \<longleftrightarrow> xs = []"
  by (simp add: sql_max_def)

lemma foldr_max: "foldr max xs (a::int) = Max (insert a (set xs))"
  by (induction xs) (auto simp: insert_commute)

lemma sql_max_Some: "sql_max xs = Some m \<longleftrightarrow> xs \<noteq> [] \<and> m = Max (set xs)"
proof (cases xs)
  case (Cons x ys)
  have "foldr max xs (hd xs) = Max (set xs)" using Cons by (simp only: foldr_max) simp
  then show ?thesis using Cons by (auto simp: sql_max_def)
qed (simp add: sql_max_def)

definition max_opt :: "int option \<Rightarrow> int option \<Rightarrow> int option" where
  "max_opt a b = (case (a, b) of (Some x, Some y) \<Rightarrow> Some (max x y) | (None, _) \<Rightarrow> b | (_, None) \<Rightarrow> a)"

lemma sql_max_snoc: "sql_max (xs @ [x]) = max_opt (sql_max xs) (Some x)"
proof (cases "xs = []")
  case False
  then have "sql_max xs = Some (Max (set xs))" "sql_max (xs @ [x]) = Some (Max (set (xs @ [x])))"
    by (simp_all add: sql_max_Some)
  then show ?thesis using False by (simp add: max_opt_def max.commute)
qed (simp add: sql_max_def max_opt_def)

lemma cursor_snoc:
  assumes "indexer_runs d' = indexer_runs d @ [r]"
  shows "cursor d' c = (if run_chain_id r = c \<and> run_error r = None
    then max_opt (cursor d c) (run_last_indexed_block r) else cursor d c)"
proof (cases "run_last_indexed_block r")
  case None
  then show ?thesis using assms by (auto simp: cursor_def List.map_filter_def max_opt_def split: option.splits)
next
  case (Some x)
  then show ?thesis using assms by (simp add: cursor_def List.map_filter_def sql_max_snoc)
qed

section \<open>The range of a tick\<close>

lemma unat_pred: "(n::'a::len word) \<noteq> 0 \<Longrightarrow> unat (n - 1) = unat n - 1"
  by (simp add: unat_minus_one)

lemma tick_target_le: "tick_target cfg a tip = Some t \<Longrightarrow> a \<le> t \<and> t \<le> saturating_sub tip CONFIRMATIONS"
  by (auto simp: tick_target_def Let_def not_less min.coboundedI1 split: if_splits option.splits)

lemma tick_target_cap:
  assumes "tick_target cfg a tip = Some t" and "ic_max_blocks_per_tick cfg \<noteq> 0"
  shows "unat t < unat a + unat (ic_max_blocks_per_tick cfg)"
proof -
  have "t \<le> saturating_add a (ic_max_blocks_per_tick cfg - 1)"
    using assms(1) by (auto simp: tick_target_def Let_def split: if_splits option.splits)
  then have "unat t \<le> unat a + (unat (ic_max_blocks_per_tick cfg) - 1)"
    using unat_pred [OF assms(2)] by (simp add: word_le_nat_alt unat_saturating_add)
  moreover have "0 < unat (ic_max_blocks_per_tick cfg)" using assms(2) by (simp add: unat_gt_0)
  ultimately show ?thesis by linarith
qed

text \<open>What \<open>eth_getLogs\<close> promises: only logs of the range asked for.\<close>

definition logs_in_range :: "ienv \<Rightarrow> bool" where
  "logs_in_range E \<longleftrightarrow> (\<forall>k a b addrs ts logs. logs_answer E k a b addrs ts = Inr logs \<longrightarrow>
     (\<forall>lg \<in> set logs. a \<le> le_block_number lg \<and> le_block_number lg \<le> b))"

text \<open>
  The blocks with at least five confirmations under some head the node reported, and block 0: the subtraction of the
  indexer saturates, so block 0 is taken under any head.
\<close>

definition confirmed_blocks :: "ienv \<Rightarrow> int set" where
  "confirmed_blocks E = {as_i64 n |n k tip. number_answer E k = Inr tip \<and> (unat n + 5 \<le> unat tip \<or> n = 0)}"

lemma below_head:
  assumes "number_answer E k = Inr tip" and "t \<le> saturating_sub tip CONFIRMATIONS" and "n \<le> t"
  shows "as_i64 n \<in> confirmed_blocks E"
proof -
  have "unat n \<le> unat tip - 5"
    using assms(2,3) by (simp add: word_le_nat_alt unat_saturating_sub CONFIRMATIONS_def)
  then have "unat n + 5 \<le> unat tip \<or> n = 0" by (cases "5 \<le> unat tip") (auto simp: unat_eq_0)
  then show ?thesis using assms(1) by (auto simp: confirmed_blocks_def)
qed

lemma rpcM_Inr_iff [io_simps]: "rpcM m w = (Inr x, w') \<longleftrightarrow> m w = (Inr x, w')"
  by (auto simp: rpcM_def io_simps)

interpretation same: db_discipline "\<lambda>d d'. d' = d"
  by unfold_locales auto

lemma rpc_only_db:
  assumes "obeys rpc_only m" and "rpcM m w = (r, w')"
  shows "db w' = db w"
proof -
  have "obeys (on_db (\<lambda>d d'. d' = d)) (rpcM m)"
    unfolding rpcM_def using assms(1) by (intro same.obeys_handleM same.rpc_only_obeys same.obeys_failM)
  from same.obeysD [OF this assms(2)] show ?thesis by (simp add: on_db_def)
qed

text \<open>
  How the work of a tick goes: the reorg check fails; it passes and nothing is ingested; or the blocks from the one after the
  cursor to the target are, and rows are added for them only.
\<close>

lemma run_inner_cases:
  assumes "logs_in_range E" and "ix_run_inner E cfg li w = (r, w')"
  obtains (check_failed) e where "reorg_check E cfg li w = (Inl e, w')" "r = Inl e"
  | (stopped) reorg li1 w1 where "reorg_check E cfg li w = (Inr (reorg, li1), w1)" "db w' = db w1"
      "\<And>o1. r = Inr o1 \<Longrightarrow> oc_last_indexed_block o1 = li1 \<and> oc_reorg_detected o1 = reorg"
  | (advanced) reorg li1 w1 k tip t where "reorg_check E cfg li w = (Inr (reorg, li1), w1)" "number_answer E k = Inr tip"
      "tick_target cfg (as_u64 (next_block li1)) tip = Some t"
      "adds_within (ic_chain_id cfg) (as_i64 ` {as_u64 (next_block li1)..t}) (db w1) (db w')"
      "\<And>o1. r = Inr o1 \<Longrightarrow> oc_last_indexed_block o1 = Some (as_i64 t) \<and> oc_reorg_detected o1 = reorg"
  using assms(2) unfolding ix_run_inner_def
proof (cases rule: bindM_cases)
  case (failed e)
  then show thesis using check_failed by blast
next
  case (continued x w1)
  obtain reorg li1 where x: "x = (reorg, li1)" by (cases x)
  let ?from = "as_u64 (next_block li1)"
  note check = continued(1) [unfolded x]
  from continued(2) [unfolded x prod.case Let_def] show thesis
  proof (cases rule: bindM_cases)
    case (failed e)
    then show thesis using rpc_only_db [OF ix_obeys(2)] stopped [OF check] by simp
  next
    case (continued tip w2)
    then have w2: "db w2 = db w1" and tip: "number_answer E (length (rpc_sent w1)) = Inr tip"
      by (auto simp: rpcM_Inr_iff ix_block_number_eval)
    show thesis
    proof (cases "tick_target cfg ?from tip")
      case None
      then show thesis using continued(2) w2 by (intro stopped [OF check]) (auto simp: io_simps outcome_def)
    next
      case (Some t)
      note t = tick_target_le [OF Some]
      obtain r2 w3 where run: "ingest_range E cfg ?from t w2 = (r2, w3)" by fastforce
      have w3: "db w' = db w3" "\<And>o1. r = Inr o1 \<Longrightarrow> oc_last_indexed_block o1 = Some (as_i64 t) \<and> oc_reorg_detected o1 = reorg"
        using continued(2) [unfolded Some option.case] run by (auto simp: bindM_def retM_def outcome_def split: sum.splits)
      have "adds_within (ic_chain_id cfg) (as_i64 ` {?from..t}) (db w2) (db w3)"
        using run unfolding ingest_range_def
      proof (cases rule: bindM_cases)
        case (failed e)
        then show ?thesis using rpc_only_db [OF ix_obeys(5)] aw.Q_refl by metis
      next
        case (continued logs w4)
        have logs: "logs_answer E (length (rpc_sent w2)) ?from t (watched_addresses cfg) (all_topic0 (topics_new E)) = Inr logs"
          and w4: "db w4 = db w2"
          using continued(1) by (auto simp: rpcM_Inr_iff ix_get_logs_eval)
        have "log_block lg \<in> as_i64 ` {?from..t}" if "lg \<in> set logs" for lg
          using assms(1) logs that by (auto simp: logs_in_range_def log_block_def)
        then show ?thesis
          using aw.obeysD [OF aw.ingest_logs_obeys [OF refl] continued(2)] t w4
          by (auto simp: on_db_def)
      qed
      then show thesis using advanced [OF check tip Some] w2 w3 by simp
    qed
  qed
qed

lemma adds_within_mono: "adds_within c B d d' \<Longrightarrow> B \<subseteq> B' \<Longrightarrow> adds_within c B' d d'"
  by (auto simp: adds_within_def)

lemma run_inner_within:
  assumes "logs_in_range E" and "ix_run_inner E cfg li w = (r, w')"
  shows "adds_within (ic_chain_id cfg) (confirmed_blocks E) (db w) (db w')"
  using assms
proof (cases rule: run_inner_cases)
  case (check_failed e)
  then show ?thesis using aw.obeysD [OF aw.reorg_check_obeys [OF refl]] by (simp add: on_db_def)
next
  case (stopped reorg li1 w1)
  then show ?thesis using aw.obeysD [OF aw.reorg_check_obeys [OF refl] stopped(1)] by (simp add: on_db_def)
next
  case (advanced reorg li1 w1 k tip t)
  have "as_i64 ` {as_u64 (next_block li1)..t} \<subseteq> confirmed_blocks E"
    using below_head [OF advanced(2)] tick_target_le [OF advanced(3)] by auto
  moreover have "adds_within (ic_chain_id cfg) (confirmed_blocks E) (db w) (db w1)"
    using aw.obeysD [OF aw.reorg_check_obeys [OF refl] advanced(1)] by (simp add: on_db_def)
  ultimately show ?thesis using adds_within_mono [OF advanced(4)] aw.Q_trans by blast
qed

lemma opened_tags [simp]: "block_tags (opened c n d) = block_tags d"
  by (simp add: block_tags_def opened_def)

text \<open>Every way a tick can end, as far as the tables are concerned.\<close>

definition closed :: "int \<Rightarrow> (RunRow \<Rightarrow> RunRow) \<Rightarrow> explorer_db \<Rightarrow> explorer_db" where
  "closed rid f d = indexer_runs_update (map (\<lambda>r. if run_id r = rid then f r else r)) d"

definition run_closer :: "(RunRow \<Rightarrow> RunRow) \<Rightarrow> bool" where
  "run_closer f \<longleftrightarrow> (\<forall>r. run_chain_id (f r) = run_chain_id r)"

lemma dbM_db:
  assumes "dbM m w = (r, w')"
  shows "\<exists>r1. m w = (r1, w')"
  using assms by (auto simp: dbM_def handleM_def failM_def split: prod.splits sum.splits)

lemma dbM_Inl: "dbM m w = (Inl e, w') \<Longrightarrow> \<exists>e1. m w = (Inl e1, w')"
  by (auto simp: dbM_def handleM_def failM_def split: prod.splits sum.splits)

lemma finish_run_db:
  assumes "bindM (dbM (finish_run E rid tb li k rows err)) (\<lambda>_. retM x) w = (r, w')"
  shows "db w' = db w \<or> (\<exists>o1 f. r = Inr o1 \<and> run_closer f \<and> db w' = closed rid f (db w))"
proof -
  obtain r1 where "finish_run E rid tb li k rows err w = (r1, w')" and ok: "\<forall>u. r1 = Inr u \<longrightarrow> r = Inr x"
    using assms by (cases rule: bindM_cases) (auto simp: io_simps dest!: dbM_Inl)
  then show ?thesis
  proof (cases r1)
    case (Inr u)
    then have "db w' = closed rid (\<lambda>r. r\<lparr>run_finished := True, run_to_block := tb, run_last_indexed_block := li,
        run_reorg_count := k, run_rows_inserted := rows, run_error := err\<rparr>) (db w)"
      using finish_run_Inr \<open>finish_run E rid tb li k rows err w = (r1, w')\<close> by (simp add: closed_def)
    then show ?thesis using ok Inr by (intro disjI2 exI conjI) (auto simp: run_closer_def)
  qed (auto simp: finish_run_def io_simps)
qed

lemma run_once_ends:
  assumes "run_once E cfg w = (r, w')"
  obtains (early) w1 r1 where "register_contracts E cfg w = (r1, w1)" "db w' = db w1"
  | (ran) w1 w3 w4 r2 li where "register_contracts E cfg w = (Inr (), w1)"
      "db w3 = opened (ic_chain_id cfg) (next_block li) (db w1)" "ix_run_inner E cfg li w3 = (r2, w4)"
      "db w' = db w4 \<or> (\<exists>o1 f. r = Inr o1 \<and> run_closer f \<and> db w' = closed (run_seq (db w1)) f (db w4))"
  using assms unfolding run_once_def
proof (cases rule: bindM_cases)
  case (failed e)
  then show ?thesis using early by blast
next
  case (continued u w1)
  note reg = continued(1)
  from continued(2) show ?thesis
  proof (cases rule: bindM_cases)
    case (failed e)
    then have "db w' = db w1"
      by (auto dest!: dbM_Inl simp: last_indexed_block_def stmt_Inl_iff)
    then show ?thesis using early reg by blast
  next
    case (continued li w2)
    then have w2: "db w2 = db w1" by (auto simp: io_simps last_indexed_block_def)
    from continued(2) show ?thesis
    proof (cases rule: bindM_cases)
      case (failed e)
      then have "db w' = db w2"
        by (auto dest!: dbM_Inl simp: start_run_def stmt_Inl_iff)
      then show ?thesis using early reg w2 by simp
    next
      case (continued rid w3)
      then have w3: "rid = run_seq (db w1)" "db w3 = opened (ic_chain_id cfg) (next_block li) (db w1)"
        using w2 by (auto simp: dbM_Inr_iff dest: start_run_Inr)
      from continued(2) [unfolded recorded_run_def] show ?thesis
      proof (cases rule: matchM_cases)
        case (ok o1 w4)
        show ?thesis using ran [OF _ w3(2) ok(1)] reg finish_run_db [OF ok(2)] w3(1) by simp
      next
        case (err e w4)
        show ?thesis using ran [OF _ w3(2) err(1)] reg finish_run_db [OF err(2)] w3(1) by simp
      qed
    qed
  qed
qed

lemma closed_tags [simp]: "block_tags (closed rid f d) = block_tags d"
  by (simp add: block_tags_def closed_def)

lemma foreign_opened: "foreign c (opened c n d) = foreign c d"
  by (simp add: foreign_def opened_def)

lemma foreign_closed:
  assumes "run_closer f" and "\<forall>r \<in> set (indexer_runs d). run_id r = rid \<longrightarrow> run_chain_id r = c"
  shows "foreign c (closed rid f d) = foreign c d"
proof -
  have "filter (\<lambda>r. run_chain_id r \<noteq> c) (map (\<lambda>r. if run_id r = rid then f r else r) rs) =
      filter (\<lambda>r. run_chain_id r \<noteq> c) rs" if "\<forall>r \<in> set rs. run_id r = rid \<longrightarrow> run_chain_id r = c" for rs
    using that assms(1) by (induction rs) (auto simp: run_closer_def)
  then show ?thesis using assms(2) by (simp add: foreign_def closed_def)
qed

lemma run_once_foreign:
  assumes "keys_unique (db w)" and "run_once E cfg w = (r, w')"
  shows "foreign (ic_chain_id cfg) (db w') = foreign (ic_chain_id cfg) (db w)"
  using assms(2)
proof (cases rule: run_once_ends)
  case (early w1 r1)
  then show ?thesis
    using fo.obeysD [OF fo.register_obeys [OF refl] early(1)] by (simp add: on_db_def same_foreign_def)
next
  case (ran w1 w3 w4 r2 li)
  let ?c = "ic_chain_id cfg"
  have w1: "foreign ?c (db w1) = foreign ?c (db w)"
    using fo.obeysD [OF fo.register_obeys [OF refl] ran(1)] by (simp add: on_db_def same_foreign_def)
  have w4: "foreign ?c (db w4) = foreign ?c (db w)"
    using fo.obeysD [OF fo.tick_inner_obeys [OF refl refl] ran(3)] w1 ran(2)
    by (simp add: on_db_def same_foreign_def foreign_opened)
  have "\<forall>r \<in> set (indexer_runs (db w1)). run_id r < run_seq (db w1)"
    using assms(1) register_runs [OF ran(1)] by (simp add: keys_unique_def)
  then have "\<forall>r \<in> set (indexer_runs (db w4)). run_id r = run_seq (db w1) \<longrightarrow> run_chain_id r = ?c"
    using run_inner_runs [OF ran(3)] ran(2) by (auto simp: opened_def)
  then show ?thesis using ran(4) w4 foreign_closed by auto
qed

lemma run_once_within:
  assumes "logs_in_range E" and "run_once E cfg w = (r, w')"
  shows "block_tags (db w') \<subseteq> block_tags (db w) \<union> {ic_chain_id cfg} \<times> confirmed_blocks E"
  using assms(2)
proof (cases rule: run_once_ends)
  case (early w1 r1)
  then show ?thesis
    using aw.obeysD [OF aw.register_obeys [OF refl] early(1)] by (auto simp: on_db_def adds_within_def)
next
  case (ran w1 w3 w4 r2 li)
  have w1: "block_tags (db w1) \<subseteq> block_tags (db w) \<union> {ic_chain_id cfg} \<times> confirmed_blocks E"
    using aw.obeysD [OF aw.register_obeys [OF refl] ran(1)] by (simp add: on_db_def adds_within_def)
  have "block_tags (db w') = block_tags (db w4)" using ran(4) by auto
  then show ?thesis
    using run_inner_within [OF assms(1) ran(3)] w1 ran(2) by (auto simp: adds_within_def)
qed

section \<open>Properties\<close>

text \<open>
  C24. Reorg recovery is exact: deleting above a block removes precisely the rows of that chain with a
  higher block number from the ten tables that carry one, reports their number, and leaves everything
  else alone; it happens completely or not at all, and, the database itself being available, it is refused
  only when a vote would outlive the proposal it refers to.
\<close>

theorem delete_above_block_exact:
  "case delete_above_block E c root w of
     (Inr n, w') \<Rightarrow> db w' = reorg_cut c root (db w) \<and> n + block_rows (db w') = block_rows (db w)
   | (Inl e, w') \<Rightarrow> db w' = db w \<and> ((\<exists>k m. ix_db_fault E k = Some m) \<or> orphaned_vote c root (db w))"
proof (cases "delete_above_block E c root w")
  case (Pair r w')
  show ?thesis
  proof (cases r)
    case (Inl e)
    have "orphaned_vote c root (db w)" if none: "\<not> (\<exists>k m. ix_db_fault E k = Some m)"
    proof (rule delete_above_block_Inl)
      show "delete_above_block E c root w = (Inl e, w')" using Pair Inl by simp
      show "ix_db_fault E k = None" for k using none by (cases "ix_db_fault E k") auto
    qed
    then show ?thesis using Pair Inl delete_above_Inl [of E c root w e w'] by (simp, blast)
  next
    case (Inr n)
    then show ?thesis using Pair delete_above_block_Inr [of E c root w n w'] by simp
  qed
qed

text \<open>
  C25. The walk back ends with the highest block, at or below where it starts, whose stored hash the node
  confirms at that moment, and with \<open>-1\<close> when there is none; heights that were never stored are passed
  over without asking the node; the tables are untouched. It gives no answer only when the database or the
  node fails.
\<close>

theorem walk_back_highest_confirmed:
  "case walk_back_to_match E c start w of
     (Inr root, w') \<Rightarrow> db w' = db w \<and> highest_confirmed E (db w) c (length (rpc_sent w)) start root
   | (Inl e, w') \<Rightarrow> db w' = db w \<and> outside_failure E"
  using walk_back_ok [of E c start w] by (auto simp: walk_ok_def split: prod.splits sum.splits)

text \<open>
  C23. A tick never stores data of a block above 0 with fewer than five confirmations: with a node that answers
  \<open>eth_getLogs\<close> within the range asked for, every row a tick adds to a table with a block number belongs to
  the indexer's chain and either to a block at least five below a head the node reported or to block 0, whether the tick
  succeeds or fails.
\<close>

theorem tick_stays_below_head:
  assumes "logs_in_range E"
  shows "block_tags (db (snd (run_once E cfg w))) \<subseteq>
    block_tags (db w) \<union> {ic_chain_id cfg} \<times> {as_i64 n |n k tip. number_answer E k = Inr tip \<and> (unat n + 5 \<le> unat tip \<or> n = 0)}"
  using run_once_within [OF assms, of cfg w "fst (run_once E cfg w)" "snd (run_once E cfg w)"]
  by (simp add: confirmed_blocks_def)

text \<open>Witness: the demonstration node keeps to the range, and its first tick stores block 2.\<close>

lemma demo_logs_in_range: "logs_in_range demo_ienv"
  by (auto simp: logs_in_range_def demo_log_def word_le_nat_alt split: if_splits)

theorem tick_stays_below_head_witness:
  "logs_in_range demo_ienv \<and> (8453, 2) \<in> block_tags (db (snd (demo_tick iworld0))) \<and>
   block_tags (db (snd (demo_tick iworld0))) \<subseteq> {8453} \<times> {as_i64 n |n. unat n + 5 \<le> 8 \<or> n = 0}"
proof -
  have t1: "db iworld0 = empty_db" "length (rpc_sent iworld0) = 0" by (simp_all add: iworld0_def)
  have "(8453, 2) \<in> block_tags (db (snd (demo_tick iworld0)))"
    using demo_tick1(1) [OF t1] by (simp add: block_tags_def demo_db_defs)
  moreover have "block_tags (db (snd (demo_tick iworld0))) \<subseteq> {8453} \<times> {as_i64 n |n. unat n + 5 \<le> 8 \<or> n = 0}"
    using tick_stays_below_head [OF demo_logs_in_range, of demo_icfg iworld0] t1(1)
    by (simp add: block_tags_def empty_db_def)
  ultimately show ?thesis using demo_logs_in_range by simp
qed

text \<open>
  Block 0 is the exception: the subtraction saturates, so a first tick takes block 0 although the head the node reports is
  less than five blocks past it.
\<close>

theorem block_zero_taken_unconfirmed:
  assumes "unat tip < 5"
  shows "tick_target cfg (as_u64 (next_block None)) tip = Some 0"
proof -
  have "saturating_sub tip CONFIRMATIONS = 0"
    using assms by (simp add: unat_eq_0 [symmetric] unat_saturating_sub CONFIRMATIONS_def)
  then show ?thesis by (simp add: tick_target_def Let_def next_block_def as_u64_def split: option.split)
qed

theorem block_zero_taken_unconfirmed_witness:
  "tick_target demo_icfg 0 0 = Some 0"
  using block_zero_taken_unconfirmed [of 0 demo_icfg] by (simp add: next_block_def as_u64_def)

text \<open>
  The range of a tick: it starts at the block after the cursor, ends at or below the reported head less five (0 when the head
  is below five) and not beyond the configured end, and spans at most \<open>max_blocks_per_tick\<close> blocks. The cap
  needs a positive \<open>max_blocks_per_tick\<close>: at 0 the subtraction wraps and there is no cap.
\<close>

theorem tick_range_bounds:
  "tick_target cfg a tip = Some t \<longrightarrow>
     unat a \<le> unat t \<and> unat t \<le> unat tip - 5 \<and> (\<forall>e. ic_end_block cfg = Some e \<longrightarrow> t \<le> e) \<and>
     (ic_max_blocks_per_tick cfg \<noteq> 0 \<longrightarrow> unat t < unat a + unat (ic_max_blocks_per_tick cfg)) \<and>
     (ic_max_blocks_per_tick cfg = 0 \<and> ic_end_block cfg = None \<and> unat a = 0 \<longrightarrow> unat t = unat tip - 5)"
proof (intro impI)
  assume t: "tick_target cfg a tip = Some t"
  have "t \<le> e" if "ic_end_block cfg = Some e" for e
    using t that by (auto simp: tick_target_def Let_def min.coboundedI1 split: if_splits)
  moreover have "unat t = unat tip - 5"
    if "ic_max_blocks_per_tick cfg = 0" "ic_end_block cfg = None" "unat a = 0"
  proof -
    have "a = 0" using that(3) by (simp add: unat_eq_0)
    then have "t = saturating_sub tip CONFIRMATIONS"
      using t that(1,2) by (simp add: tick_target_def Let_def saturating_add_def)
    then show ?thesis by (simp add: unat_saturating_sub CONFIRMATIONS_def)
  qed
  ultimately show "unat a \<le> unat t \<and> unat t \<le> unat tip - 5 \<and> (\<forall>e. ic_end_block cfg = Some e \<longrightarrow> t \<le> e) \<and>
     (ic_max_blocks_per_tick cfg \<noteq> 0 \<longrightarrow> unat t < unat a + unat (ic_max_blocks_per_tick cfg)) \<and>
     (ic_max_blocks_per_tick cfg = 0 \<and> ic_end_block cfg = None \<and> unat a = 0 \<longrightarrow> unat t = unat tip - 5)"
    using tick_target_le [OF t] tick_target_cap [OF t]
    by (simp add: word_le_nat_alt unat_saturating_sub CONFIRMATIONS_def)
qed

text \<open>Witness.\<close>

theorem tick_range_bounds_witness:
  "tick_target demo_icfg 0 8 = Some 2 \<and> unat (2::u64) \<le> unat (8::u64) - 5 \<and> unat (2::u64) < unat (0::u64) + 3"
proof -
  have "tick_target demo_icfg 0 8 = Some 2"
    by (simp add: tick_target_def Let_def saturating_sub_def saturating_add_def CONFIRMATIONS_def)
  then show ?thesis using tick_range_bounds [of demo_icfg 0 8 2] by simp
qed

text \<open>
  C28. Every tick that returns adds exactly one row to the run table, finished and equal to the outcome it
  returns, with a fresh id and starting after the cursor. The cursor of the chain then is the larger of the
  old cursor and the block the tick reports, and unchanged when the tick failed: it is never lowered, not even
  by a tick that rolled blocks back.
\<close>

theorem tick_records_and_cursor:
  assumes "run_once E cfg w = (Inr out, w')" and "keys_unique (db w)"
  shows "indexer_runs (db w') = indexer_runs (db w) @ [run_of_outcome cfg out] \<and> oc_run_id out = run_seq (db w) \<and>
    oc_from_block out = next_block (cursor (db w) (ic_chain_id cfg)) \<and>
    (\<forall>c. cursor (db w') c =
       (if c = ic_chain_id cfg \<and> oc_error out = None
        then max_opt (cursor (db w) c) (oc_last_indexed_block out) else cursor (db w) c))"
proof -
  note rec = run_once_records [OF assms]
  then have "indexer_runs (db w') = indexer_runs (db w) @ [run_of_outcome cfg out]" by simp
  from cursor_snoc [OF this] show ?thesis using rec by (auto simp: run_of_outcome_def)
qed

text \<open>Witness: the first tick of the demonstration.\<close>

theorem tick_records_and_cursor_witness:
  "keys_unique (db iworld0) \<and> oc_last_indexed_block (projr (fst (demo_tick iworld0))) = Some 2 \<and>
   cursor (db (snd (demo_tick iworld0))) 8453 = Some 2 \<and> cursor (db (snd (demo_tick iworld0))) 1 = None"
proof -
  have t1: "db iworld0 = empty_db" "length (rpc_sent iworld0) = 0" by (simp_all add: iworld0_def)
  have u: "keys_unique (db iworld0)" by (simp add: t1 empty_db_def keys_unique_def)
  let ?o = "\<lparr>oc_run_id = 1, oc_from_block = 0, oc_to_block = Some 2,
      oc_last_indexed_block = Some 2, oc_rows_inserted = 2, oc_reorg_detected = False, oc_error = None\<rparr>"
  have "demo_tick iworld0 = (Inr ?o, snd (demo_tick iworld0))"
    using demo_tick1(3) [OF t1] by (simp add: prod_eq_iff)
  moreover have "cursor (db iworld0) c = None" for c
    by (simp add: t1 empty_db_def cursor_def List.map_filter_def)
  ultimately show ?thesis
    using tick_records_and_cursor [of demo_ienv demo_icfg iworld0 ?o "snd (demo_tick iworld0)"] u demo_tick1(3) [OF t1]
    by (simp add: max_opt_def)
qed

text \<open>
  Chains do not interfere: a tick, successful or not, leaves every row of every other chain as it was,
  in all fourteen tables.
\<close>

theorem tick_keeps_other_chains:
  assumes "keys_unique (db w)"
  shows "foreign (ic_chain_id cfg) (db (snd (run_once E cfg w))) = foreign (ic_chain_id cfg) (db w)"
  using run_once_foreign [OF assms, of E cfg "fst (run_once E cfg w)" "snd (run_once E cfg w)"] by simp

text \<open>Witness: a database that also serves another chain.\<close>

definition demo_two_chains :: dworld where
  "demo_two_chains = iworld0\<lparr>db := empty_db\<lparr>chains := [\<lparr>ch_chain_id = 1, ch_name = ''main'', ch_rpc_label = ''x''\<rparr>],
     blocks := [\<lparr>bl_chain_id = 1, bl_block_number = 9, bl_hash = 5, bl_parent_hash = 4, bl_timestamp = 0\<rparr>]\<rparr>\<rparr>"

theorem tick_keeps_other_chains_witness:
  "keys_unique (db demo_two_chains) \<and> length (blocks (foreign 8453 (db (snd (demo_tick demo_two_chains))))) = 1"
proof -
  have u: "keys_unique (db demo_two_chains)"
    by (simp add: demo_two_chains_def iworld0_def empty_db_def keys_unique_def)
  then show ?thesis
    using tick_keeps_other_chains [OF u, of demo_icfg demo_ienv]
    by (simp add: demo_two_chains_def iworld0_def empty_db_def foreign_def)
qed

text \<open>
  The database stays sound: a tick, successful or not, keeps primary keys unique and foreign keys
  pointing at rows that exist.
\<close>

theorem tick_keeps_integrity:
  assumes "keys_unique (db w)" and "refs_ok (db w)"
  shows "keys_unique (db (snd (run_once E cfg w))) \<and> refs_ok (db (snd (run_once E cfg w)))"
  using assms uniq.run_once_obeys [OF refl refl, of E cfg] refs.run_once_obeys [OF refl refl, of E cfg]
  by (simp add: obeys_def on_db_def keeps_def)

text \<open>Witness.\<close>

theorem tick_keeps_integrity_witness:
  "refs_ok (db iworld0) \<and> length (vault_snapshots (db (snd (demo_tick iworld0)))) = 1 \<and>
   refs_ok (db (snd (demo_tick iworld0)))"
proof -
  have t1: "db iworld0 = empty_db" "length (rpc_sent iworld0) = 0" by (simp_all add: iworld0_def)
  have ok: "keys_unique (db iworld0)" "refs_ok (db iworld0)"
    by (simp_all add: t1 empty_db_def keys_unique_def refs_ok_def)
  then show ?thesis
    using tick_keeps_integrity [OF ok, of demo_ienv demo_icfg] demo_tick1(1) [OF t1] by (simp add: demo_db_defs)
qed

end
