(* ===== verification/Explorer_Gap.thy ===== *)
theory Explorer_Gap
  imports Explorer_Recovery
begin

text \<open>
  The gap a reorganisation can leave. Recovery deletes the rows above the root and the tick goes on from there, but the next
  tick starts after the cursor, which is the maximum over all successful runs. When the tick does not reach the old cursor,
  the blocks in between are not ingested again.
\<close>

section \<open>Definitions\<close>

text \<open>No row of the chain has a block number in the set.\<close>

definition no_rows :: "int \<Rightarrow> int set \<Rightarrow> explorer_db \<Rightarrow> bool" where
  "no_rows c B d \<longleftrightarrow> block_tags d \<inter> {c} \<times> B = {}"

section \<open>Lemmas\<close>

lemma as_i64_large:
  assumes "2 ^ 63 \<le> unat (t::u64)"
  shows "as_i64 t < 0"
proof -
  have u: "2 ^ 63 \<le> uint t" using assms by (metis of_nat_le_iff of_nat_numeral of_nat_power of_nat_unat)
  have l: "uint t < 2 ^ 64" using uint_lt2p [of t] by (simp only: len_num1 len_bit0 len_of_numeral_defs) simp
  have "uint t div 2 ^ 63 = 1" by (rule int_div_pos_eq [where r = "uint t - 2 ^ 63"]) (use u l in simp_all)
  then have "bit (uint t) 63" by (simp only: bit_iff_odd) simp
  then show ?thesis unfolding as_i64_def sint_uint by (simp add: signed_take_bit_negative_iff)
qed

lemma as_i64_mono: "m \<le> t \<Longrightarrow> 0 \<le> as_i64 t \<Longrightarrow> as_i64 m \<le> as_i64 t \<and> as_i64 t = int (unat t)"
  using as_i64_large [of t] as_i64_small [of t] as_i64_small [of m] iffD1 [OF word_le_def, of m t]
  by (cases "unat t < 2 ^ 63") (simp_all add: word_le_nat_alt)

text \<open>A block after the cursor is above it, or has a number the column cannot hold.\<close>

lemma next_block_above:
  assumes "0 \<le> l" "l < 2 ^ 63" "as_u64 (next_block (Some l)) \<le> m"
  shows "l < as_i64 m \<or> as_i64 m < 0"
proof (cases "unat m < 2 ^ 63")
  case True
  have "l + 1 \<noteq> 2 ^ 63"
  proof
    assume "l + 1 = 2 ^ 63"
    then have "as_u64 (next_block (Some l)) = 2 ^ 63" by (simp add: next_block_def wrap_i64_def as_u64_def)
    then show False using assms(3) True by (simp add: word_le_nat_alt)
  qed
  then have n: "l + 1 < 2 ^ 63" using assms(2) by simp
  then have "unat (as_u64 (next_block (Some l))) = nat (l + 1)"
    using as_u64_block [of "l + 1"] wrap_i64_small [of "l + 1"] assms(1) by (simp add: next_block_def)
  then have "nat (l + 1) \<le> unat m" using assms(3) by (simp add: word_le_nat_alt)
  then show ?thesis using as_i64_small [OF True] by linarith
next
  case False
  then show ?thesis using as_i64_large [of m] by simp
qed

lemma no_rows_adds:
  assumes "adds_within c B d d'" "no_rows c G d" "B \<inter> G = {}"
  shows "no_rows c G d'"
  using assms by (auto simp: adds_within_def no_rows_def)

lemma no_rows_cut: "root \<le> n \<Longrightarrow> no_rows c {n<..l} (reorg_cut c root d)"
  by (auto simp: no_rows_def block_tags_def reorg_cut_def)

lemma no_rows_hash: "no_rows c G d \<Longrightarrow> n \<in> G \<Longrightarrow> stored_hash d c n = None"
  by (auto simp: no_rows_def block_tags_def stored_hash_def find_None_iff)

text \<open>A check that finds a reorganisation has cut the tables above a root at or below the cursor.\<close>

lemma reorg_check_found:
  assumes "reorg_check E cfg li w = (Inr (True, li1), w1)"
  obtains l root where "li = Some l" "root = - 1 \<or> 0 \<le> root \<and> root \<le> l"
    "db w1 = reorg_cut (ic_chain_id cfg) root (db w)" "li1 = (if root < 0 then None else Some root)"
proof -
  let ?c = "ic_chain_id cfg"
  obtain l where l: "li = Some l" using assms by (cases li) (auto simp: reorg_check_def io_simps)
  obtain stored wa where hash: "dbM (get_block_hash E ?c l) w = (Inr stored, wa)"
    and rest: "(case stored of None \<Rightarrow> retM (False, Some l)
        | Some h \<Rightarrow> bindM (rpcM (ix_block_header E (as_u64 l))) (\<lambda>header. case header of None \<Rightarrow> retM (False, Some l)
          | Some hdr \<Rightarrow> if bh_hash hdr \<noteq> h then
              bindM (walk_back_to_match E ?c l) (\<lambda>root. bindM (dbM (delete_above_block E ?c root)) (\<lambda>_.
              retM (True, if root < 0 then None else Some root))) else retM (False, Some l))) wa = (Inr (True, li1), w1)"
    using assms unfolding reorg_check_def l option.case bindM_Inr_iff by blast
  obtain h header w2 where head: "rpcM (ix_block_header E (as_u64 l)) wa = (Inr header, w2)"
    and rest2: "(case header of None \<Rightarrow> retM (False, Some l)
          | Some hdr \<Rightarrow> if bh_hash hdr \<noteq> h then
              bindM (walk_back_to_match E ?c l) (\<lambda>root. bindM (dbM (delete_above_block E ?c root)) (\<lambda>_.
              retM (True, if root < 0 then None else Some root))) else retM (False, Some l)) w2 = (Inr (True, li1), w1)"
    using rest by (cases stored) (auto simp: retM_iff bindM_Inr_iff)
  obtain root w3 k where walk: "walk_back_to_match E ?c l w2 = (Inr root, w3)"
    and cut: "delete_above_block E ?c root w3 = (Inr k, w1)" and li1: "li1 = (if root < 0 then None else Some root)"
    using rest2 by (cases header) (auto simp: retM_iff bindM_Inr_iff dbM_Inr_iff split: if_split_asm)
  have w2: "db w2 = db w" using get_block_hash_cases [OF hash] rpc_only_db [OF ix_obeys(3) head] by simp
  have "db w3 = db w2" "root = - 1 \<or> 0 \<le> root \<and> root \<le> l"
    using walk_back_ok [of E ?c l w2] walk by (auto simp: walk_ok_def highest_confirmed_def)
  then show thesis using that l delete_above_block_Inr(1) [OF cut] w2 li1 by simp
qed

text \<open>A cursor block without a stored hash is not checked.\<close>

lemma reorg_check_skipped:
  assumes "stored_hash (db w) (ic_chain_id cfg) l = None" "reorg_check E cfg (Some l) w = (r, w1)"
  shows "db w1 = db w \<and> (\<forall>x. r = Inr x \<longrightarrow> x = (False, Some l))"
proof -
  obtain q wa where hash: "dbM (get_block_hash E (ic_chain_id cfg) l) w = (q, wa)" by fastforce
  show ?thesis
    using get_block_hash_cases [OF hash] assms hash
    by (auto simp: reorg_check_def bindM_def retM_def split: sum.splits)
qed

text \<open>What the two ticks do with the rows between the block the first one reached and the old cursor.\<close>

lemma rolled_back_inner:
  assumes "logs_in_range E" "ix_run_inner E cfg (Some l) w = (Inr o1, w')" "oc_reorg_detected o1"
    and "oc_last_indexed_block o1 = Some n" "0 \<le> n" "l < 2 ^ 63"
  shows "no_rows (ic_chain_id cfg) {n<..l} (db w')"
  using assms(1,2)
proof (cases rule: run_inner_cases)
  case (stopped reorg li1 w1)
  then have "reorg_check E cfg (Some l) w = (Inr (True, Some n), w1)" using assms(3,4) by fastforce
  then obtain root where "db w1 = reorg_cut (ic_chain_id cfg) root (db w)" "Some n = (if root < 0 then None else Some root)"
    by (rule reorg_check_found)
  then show ?thesis using stopped(2) no_rows_cut [of root n] by (auto split: if_splits)
next
  case (advanced reorg li1 w1 k tip t)
  have o: "n = as_i64 t" "reorg" using advanced(5) [OF refl] assms(3,4) by auto
  obtain root where root: "root = - 1 \<or> 0 \<le> root \<and> root \<le> l" "db w1 = reorg_cut (ic_chain_id cfg) root (db w)"
      "li1 = (if root < 0 then None else Some root)"
    using advanced(1) unfolding o(2) [THEN eqTrueI] by (rule reorg_check_found) auto
  let ?from = "as_u64 (next_block li1)"
  have "?from \<le> t" using tick_target_le [OF advanced(3)] by simp
  then have "root \<le> n" using next_block_above [of root t] root assms(5,6) o(1) by auto
  then have "no_rows (ic_chain_id cfg) {n<..l} (db w1)" using no_rows_cut root(2) by simp
  moreover have "as_i64 ` {?from..t} \<inter> {n<..l} = {}" using as_i64_mono [of _ t] assms(5) o(1) by fastforce
  ultimately show ?thesis using no_rows_adds [OF advanced(4)] by blast
qed simp

lemma skipped_inner:
  assumes "logs_in_range E" "ix_run_inner E cfg (Some l) w = (r, w')" "no_rows (ic_chain_id cfg) {n<..l} (db w)"
    and "0 \<le> n" "n < l" "l < 2 ^ 63"
  shows "no_rows (ic_chain_id cfg) {n<..l} (db w') \<and> (\<forall>o1. r = Inr o1 \<longrightarrow> \<not> oc_reorg_detected o1)"
proof -
  have "stored_hash (db w) (ic_chain_id cfg) l = None" using no_rows_hash [OF assms(3)] assms(5) by simp
  note check = reorg_check_skipped [OF this]
  from assms(1,2) show ?thesis
  proof (cases rule: run_inner_cases)
    case (check_failed e)
    then show ?thesis using check [OF check_failed(1)] assms(3) by simp
  next
    case (stopped reorg li1 w1)
    then show ?thesis using check [OF stopped(1)] assms(3) by auto
  next
    case (advanced reorg li1 w1 k tip t)
    have c: "db w1 = db w" "li1 = Some l" "\<not> reorg" using check [OF advanced(1)] by auto
    have "as_i64 ` {as_u64 (next_block li1)..t} \<inter> {n<..l} = {}"
      using next_block_above [of l] assms(4-6) c(2) by fastforce
    then have "no_rows (ic_chain_id cfg) {n<..l} (db w')"
      using no_rows_adds [OF advanced(4)] assms(3) c(1) by simp
    then show ?thesis using advanced(5) c(3) by auto
  qed
qed

lemma finish_run_tags: "finish_run E rid tb li k rows err w = (Inr (), w') \<Longrightarrow> block_tags (db w') = block_tags (db w)"
  by (drule finish_run_Inr) (simp add: block_tags_def)

lemma register_no_rows:
  assumes "register_contracts E cfg w = (Inr (), w1)" "no_rows (ic_chain_id cfg) G (db w)"
  shows "no_rows (ic_chain_id cfg) G (db w1)"
  using aw.obeysD [OF aw.register_obeys [OF refl, of _ "{}"] assms(1)] no_rows_adds [OF _ assms(2)]
  by (simp add: on_db_def)

section \<open>Properties\<close>

text \<open>
  C29. A reorganisation leaves a gap. Let a tick detect one, roll back and end, without error, at a block below the cursor it
  started from. Then the cursor is still the old one and no table has a row of the chain between the two blocks; and the next
  tick starts after the old cursor, detects nothing (the hash it would compare is deleted) and, whether it succeeds or not,
  adds no row in between either, whatever logs the node reports there.
\<close>

theorem reorg_leaves_gap:
  assumes "keys_unique (db w)" and "logs_in_range E" and "run_once E cfg w = (Inr out, w1)"
    and "oc_reorg_detected out" and "oc_error out = None"
    and "cursor (db w) (ic_chain_id cfg) = Some l" and "l < 2 ^ 63"
    and "oc_last_indexed_block out = Some n" and "0 \<le> n" and "n < l"
  shows "cursor (db w1) (ic_chain_id cfg) = Some l \<and> no_rows (ic_chain_id cfg) {n<..l} (db w1) \<and>
    (\<forall>out2 w2. run_once E cfg w1 = (Inr out2, w2) \<longrightarrow>
       oc_from_block out2 = next_block (Some l) \<and> \<not> oc_reorg_detected out2 \<and> no_rows (ic_chain_id cfg) {n<..l} (db w2))"
proof -
  let ?c = "ic_chain_id cfg"
  have "indexer_runs (db w1) = indexer_runs (db w) @ [run_of_outcome cfg out]" using run_once_records [OF assms(3,1)] by simp
  from cursor_snoc [OF this] have cur: "cursor (db w1) ?c = Some l"
    using assms(5,6,8,10) by (simp add: run_of_outcome_def max_opt_def)
  have gap: "no_rows ?c {n<..l} (db w1)"
    using assms(3)
  proof (cases rule: run_once_cases)
    case (run wa wb wc wd r li)
    obtain o1 where r: "r = Inr o1" using run(6) assms(5) by (cases r) (auto simp: closing_outcome_def)
    have "no_rows ?c {n<..l} (db wd)"
      using rolled_back_inner [OF assms(2) run(5) [unfolded r run(2) assms(6)]] run(6) r assms(4,7,8,9) by (simp add: closing_outcome_def)
    then show ?thesis using finish_run_tags [OF run(7)] by (simp add: no_rows_def)
  qed
  have "oc_from_block out2 = next_block (Some l) \<and> \<not> oc_reorg_detected out2 \<and> no_rows ?c {n<..l} (db w2)"
    if "run_once E cfg w1 = (Inr out2, w2)" for out2 w2
    using that
  proof (cases rule: run_once_cases)
    case (run wa wb wc wd r li)
    have "no_rows ?c {n<..l} (db wc)"
      using register_no_rows [OF run(1) gap] run(3,4) by (simp add: no_rows_def)
    from skipped_inner [OF assms(2) run(5) [unfolded run(2) cur] this assms(9,10,7)] show ?thesis
      using run(2,6) cur finish_run_tags [OF run(7)] by (auto simp: closing_outcome_def no_rows_def split: sum.splits)
  qed
  then show ?thesis using cur gap by blast
qed

text \<open>
  Witness: the third tick of the demonstration, which finds every block replaced, starts again at block 0 and reaches block 2; the
  node reports a deposit in block 3, where the cursor stays.
\<close>

lemma demo_tick3_outcome:
  assumes "db w = demo_db [demo_header_row 2 79, demo_header_row 3 79]
      [demo_run 1 0 (Some 2) 2 0 2, demo_run 2 3 (Some 3) 3 0 1] 3" "length (rpc_sent w) = 12"
  shows "fst (demo_tick w) = Inr \<lparr>oc_run_id = 3, oc_from_block = 4, oc_to_block = Some 2,
      oc_last_indexed_block = Some 2, oc_rows_inserted = 2, oc_reorg_detected = True, oc_error = None\<rparr>"
  using assms
  by (simp add: tick_eval demo_db_defs cut_eval walk_back_done walk_back_to_match.simps [of _ _ 3]
      walk_back_to_match.simps [of _ _ 2] walk_back_to_match.simps [of _ _ 1] walk_back_to_match.simps [of _ _ 0])

theorem reorg_leaves_gap_witness:
  "let w3 = ticks 3 demo_ienv demo_icfg iworld0 in
     cursor (db w3) 8453 = Some 3 \<and> no_rows 8453 {3} (db w3) \<and>
     logs_answer demo_ienv 12 3 3 (watched_addresses demo_icfg) (all_topic0 (topics_new demo_ienv)) = Inr [demo_log]"
proof -
  have t1: "db iworld0 = empty_db" "length (rpc_sent iworld0) = 0" by (simp_all add: iworld0_def)
  note t2 = demo_tick2 [OF demo_tick1(1,2) [OF t1]]
  let ?w = "snd (demo_tick (snd (demo_tick iworld0)))"
  have w: "ticks 3 demo_ienv demo_icfg iworld0 = snd (demo_tick ?w)" by (simp add: numeral_eq_Suc)
  let ?o = "\<lparr>oc_run_id = 3, oc_from_block = 4, oc_to_block = Some 2, oc_last_indexed_block = Some 2, oc_rows_inserted = 2,
      oc_reorg_detected = True, oc_error = None\<rparr>"
  have run: "demo_tick ?w = (Inr ?o, snd (demo_tick ?w))" using demo_tick3_outcome [OF t2] by (simp add: prod_eq_iff)
  have u: "keys_unique (db ?w)" and c: "cursor (db ?w) (ic_chain_id demo_icfg) = Some 3"
    unfolding t2(1) by (simp_all add: keys_unique_def demo_db_defs cursor_def sql_max_def List.map_filter_def block_key_def contract_key_def)
  have "{2<..3} = {3::int}" by auto
  then show ?thesis
    using reorg_leaves_gap [OF u demo_logs_in_range run _ _ c, of 2] unfolding w Let_def by simp
qed

end
