(* ===== verification/Indexer_Main.thy ===== *)
theory Indexer_Main
  imports Explorer_Recovery
begin

text \<open>
  The indexer as a program (\<open>main.rs\<close>): the configuration from the command line, the start and the poll
  loop, and that the loop reaches its end block although ticks may fail.
\<close>

section \<open>Start-up\<close>

record Cli =
  cli_database_url :: string
  cli_rpc_url :: string
  cli_chain_id :: int
  cli_chain_name :: string
  cli_rpc_label :: string
  cli_gateway :: string
  cli_vault :: string
  cli_registry :: "string option"
  cli_router_governance :: "string option"
  cli_tick_seconds :: u64
  cli_max_blocks_per_tick :: u64
  cli_end_block :: "u64 option"
  cli_once :: bool

text \<open>What the start relies on: the logging facade, the database and the address parser.\<close>

record start_env =
  se_logging :: "string + unit"
  se_connect :: "string \<Rightarrow> string + unit"
  se_migrate :: "string + unit"
  se_address :: "string \<Rightarrow> string + address"

definition optional_address :: "start_env \<Rightarrow> string option \<Rightarrow> string + address option" where
  "optional_address S s =
     (case s of
        None \<Rightarrow> Inr None
      | Some t \<Rightarrow> if trim t = [] then Inr None else andThen (se_address S (trim_0x (trim t))) (\<lambda>a. Inr (Some a)))"

definition indexer_config :: "start_env \<Rightarrow> ienv \<Rightarrow> Cli \<Rightarrow> string + IndexerConfig" where
  "indexer_config S E cli =
     andThen (optional_address S (cli_registry cli)) (\<lambda>registry.
     andThen (optional_address S (cli_router_governance cli)) (\<lambda>governance.
     andThen (se_address S (trim_0x (cli_gateway cli))) (\<lambda>gateway.
     andThen (se_address S (trim_0x (cli_vault cli))) (\<lambda>vault.
     Inr \<lparr>ic_chain_id = cli_chain_id cli, ic_chain_name = cli_chain_name cli, ic_rpc_label = cli_rpc_label cli,
          ic_gateway = gateway, ic_vault = vault, ic_registry = registry, ic_router_governance = governance,
          ic_max_blocks_per_tick = cli_max_blocks_per_tick cli, ic_end_block = cli_end_block cli,
          ic_feature_flags = bitmap_from_env E\<rparr>))))"

section \<open>The poll loop\<close>

text \<open>\<open>None\<close>: the loop does not end.\<close>

partial_function (option) poll_loop ::
    "ienv \<Rightarrow> bool \<Rightarrow> IndexerConfig \<Rightarrow> dworld \<Rightarrow> ((IndexerError + unit) \<times> dworld) option" where
  "poll_loop E once cfg w =
     (case after_tick once cfg (fst (run_once E cfg w)) of
        ReturnOk \<Rightarrow> Some (Inr (), snd (run_once E cfg w))
      | ReturnErr e \<Rightarrow> Some (Inl e, snd (run_once E cfg w))
      | TickAgain \<Rightarrow> poll_loop E once cfg (snd (run_once E cfg w)))"

definition indexer_main :: "start_env \<Rightarrow> ienv \<Rightarrow> Cli \<Rightarrow> dworld \<Rightarrow> ((string + unit) \<times> dworld) option" where
  "indexer_main S E cli w =
     (case andThen (se_logging S) (\<lambda>_. andThen (se_connect S (cli_database_url cli)) (\<lambda>_.
             andThen (se_migrate S) (\<lambda>_. indexer_config S E cli))) of
        Inl e \<Rightarrow> Some (Inl e, w)
      | Inr cfg \<Rightarrow>
          map_option (\<lambda>(r, w'). (map_err show_indexer_error r, w')) (poll_loop E (cli_once cli) cfg w))"

section \<open>Ticks in sequence\<close>

lemma ticks_Suc: "ticks (Suc n) E cfg w = snd (run_once E cfg (ticks n E cfg w))"
  by (induction n arbitrary: w) simp_all

lemma loop_returns:
  assumes "\<forall>k < n. after_tick once cfg (fst (run_once E cfg (ticks k E cfg w))) = TickAgain"
    and "after_tick once cfg (fst (run_once E cfg (ticks n E cfg w))) = a"
  shows "a = ReturnOk \<Longrightarrow> poll_loop E once cfg w = Some (Inr (), ticks (Suc n) E cfg w)"
    and "a = ReturnErr e \<Longrightarrow> poll_loop E once cfg w = Some (Inl e, ticks (Suc n) E cfg w)"
  using assms
proof (induction n arbitrary: w)
  case 0
  {
    case 1 then show ?case by (subst poll_loop.simps) simp
  next
    case 2 then show ?case by (subst poll_loop.simps) simp
  }
next
  case (Suc n)
  have first: "poll_loop E once cfg w = poll_loop E once cfg (snd (run_once E cfg w))"
    if "\<forall>k < Suc n. after_tick once cfg (fst (run_once E cfg (ticks k E cfg w))) = TickAgain" for w
    using that [rule_format, of 0] by (subst poll_loop.simps) simp
  {
    case 1 then show ?case using Suc(1) [of "snd (run_once E cfg w)"] first [of w] by fastforce
  next
    case 2 then show ?case using Suc(2) [of "snd (run_once E cfg w)"] first [of w] by fastforce
  }
qed

section \<open>The cursor along the ticks\<close>

lemma run_once_error_cursor:
  assumes "run_once E cfg w = (Inl e, w')"
  shows "cursor (db w') c = cursor (db w) c"
  using assms
proof (cases rule: run_once_ends)
  case (early w1 r1)
  then show ?thesis using register_runs [OF early(1)] by (simp add: cursor_def)
next
  case (ran w1 w3 w4 r2 li)
  then have "indexer_runs (db w') = indexer_runs (db w3)" using run_inner_runs [OF ran(3)] by simp
  then show ?thesis
    using ran(2) register_runs [OF ran(1)] by (simp add: cursor_def opened_def List.map_filter_def)
qed

lemma run_once_ok_cursor:
  assumes "run_once E cfg w = (Inr out, w')" and "keys_unique (db w)"
  shows "cursor (db w') (ic_chain_id cfg) =
    (if oc_error out = None then max_opt (cursor (db w) (ic_chain_id cfg)) (oc_last_indexed_block out)
     else cursor (db w) (ic_chain_id cfg))"
proof -
  have "indexer_runs (db w') = indexer_runs (db w) @ [run_of_outcome cfg out]"
    using run_once_records [OF assms] by simp
  from cursor_snoc [OF this] show ?thesis by (simp add: run_of_outcome_def)
qed

text \<open>What a tick reports: nothing new, a block of the range it was given, or, after a failure, the old cursor.\<close>

lemma reorg_check_Inr:
  assumes "reorg_check E cfg li w = (Inr (reorg, li1), w')"
  shows "(\<not> reorg \<and> li1 = li) \<or> (reorg \<and> (\<exists>l. li = Some l \<and> (\<forall>root. li1 = Some root \<longrightarrow> 0 \<le> root \<and> root \<le> l)))"
proof (cases li)
  case None
  then show ?thesis using assms by (simp add: reorg_check_def io_simps)
next
  case (Some l)
  have low: "root \<le> l" if "walk_back_to_match E (ic_chain_id cfg) l u = (Inr root, u')" "0 \<le> root" for root u u'
    using walk_back_ok [OF that(1)] that(2) by (auto simp: walk_ok_def highest_confirmed_def confirmed_def)
  from assms Some obtain stored w1 where "get_block_hash E (ic_chain_id cfg) l w = (Inr stored, w1)"
    and more: "(case stored of None \<Rightarrow> retM (False, Some l)
       | Some h \<Rightarrow> bindM (rpcM (ix_block_header E (as_u64 l))) (\<lambda>header.
           case header of None \<Rightarrow> retM (False, Some l)
           | Some hdr \<Rightarrow> if bh_hash hdr \<noteq> h then
               bindM (walk_back_to_match E (ic_chain_id cfg) l) (\<lambda>root.
               bindM (dbM (delete_above_block E (ic_chain_id cfg) root)) (\<lambda>_.
               retM (True, if root < 0 then None else Some root)))
             else retM (False, Some l))) w1 = (Inr (reorg, li1), w')"
    by (auto simp: reorg_check_def bindM_Inr_iff dbM_Inr_iff)
  show ?thesis
  proof (cases stored)
    case None
    then show ?thesis using more Some by (simp add: io_simps)
  next
    case (Some h)
    from more [unfolded Some option.case] show ?thesis
    proof (cases rule: bindM_cases)
      case (continued header w2)
      then show ?thesis
        using \<open>li = Some l\<close> low by (cases header) (fastforce simp: bindM_Inr_iff retM_def split: if_splits)+
    qed simp
  qed
qed

lemma run_inner_Inr:
  assumes "ix_run_inner E cfg li w = (Inr out, w')"
  obtains reorg li1 k tip where "number_answer E k = Inr tip" "oc_reorg_detected out = reorg" "oc_error out = None"
    "(\<not> reorg \<and> li1 = li) \<or> (reorg \<and> (\<exists>l. li = Some l \<and> (\<forall>root. li1 = Some root \<longrightarrow> 0 \<le> root \<and> root \<le> l)))"
    "oc_last_indexed_block out =
       (case tick_target cfg (as_u64 (next_block li1)) tip of None \<Rightarrow> li1 | Some t \<Rightarrow> Some (as_i64 t))"
proof -
  from assms obtain reorg li1 w1 tip w2 where rc: "reorg_check E cfg li w = (Inr (reorg, li1), w1)"
    and tip: "ix_block_number E w1 = (Inr tip, w2)"
    and rest: "(case tick_target cfg (as_u64 (next_block li1)) tip of
         None \<Rightarrow> retM (outcome None li1 0 reorg)
       | Some target \<Rightarrow> bindM (ingest_range E cfg (as_u64 (next_block li1)) target) (\<lambda>rows.
           retM (outcome (Some (as_i64 target)) (Some (as_i64 target)) (int rows) reorg))) w2 = (Inr out, w')"
    by (auto simp: ix_run_inner_def io_simps Let_def)
  have "number_answer E (length (rpc_sent w1)) = Inr tip" using tip by (simp add: ix_block_number_eval)
  from that [OF this _ _ reorg_check_Inr [OF rc]] rest show thesis
    by (auto simp: io_simps outcome_def split: option.splits)
qed

text \<open>A cursor that is a block number, with a successor in \<open>i64\<close>.\<close>

definition block_cursor :: "int option \<Rightarrow> bool" where
  "block_cursor li \<longleftrightarrow> (\<forall>l. li = Some l \<longrightarrow> 0 \<le> l \<and> l < I64_MAX)"

definition height :: "int option \<Rightarrow> int" where
  "height li = (case li of None \<Rightarrow> 0 | Some l \<Rightarrow> l + 1)"

lemma height_bounds: "block_cursor li \<Longrightarrow> 0 \<le> height li \<and> height li < 2 ^ 63"
  by (auto simp: height_def block_cursor_def I64_MAX_def split: option.splits)

lemma next_block_height:
  assumes "block_cursor li"
  shows "unat (as_u64 (next_block li)) = nat (height li)"
proof (cases li)
  case (Some l)
  then have b: "0 \<le> l + 1" "l + 1 < 2 ^ 63" using assms by (simp_all add: block_cursor_def I64_MAX_def)
  then show ?thesis using Some wrap_i64_small [of "l + 1"] by (simp add: next_block_def height_def as_u64_block)
qed (simp add: next_block_def height_def as_u64_def)

lemma tick_target_le_end: "tick_target cfg a tip = Some t \<Longrightarrow> ic_end_block cfg = Some e \<Longrightarrow> t \<le> e"
  by (auto simp: tick_target_def Let_def min.coboundedI1 split: if_splits)

lemma unat_less_top: "unat (a::u64) < 2 ^ 64"
  using unsigned_less [of a] by simp

lemma tick_target_to_end:
  assumes "ic_end_block cfg = Some e" and "unat e + 5 \<le> unat tip" and "unat a \<le> unat e"
  shows "\<exists>t. tick_target cfg a tip = Some t \<and> unat a \<le> unat t \<and> unat t \<le> unat e"
proof -
  have s: "e \<le> saturating_sub tip CONFIRMATIONS"
    using assms(2) by (simp add: word_le_nat_alt unat_saturating_sub CONFIRMATIONS_def)
  then have m: "min (saturating_sub tip CONFIRMATIONS) e = e" by (simp add: min_def)
  have adv: "a \<le> saturating_add a (ic_max_blocks_per_tick cfg - 1)"
    using unat_less_top [of a] by (simp add: word_le_nat_alt unat_saturating_add)
  have ae: "a \<le> e" using assms(3) by (simp add: word_le_nat_alt)
  then have "tick_target cfg a tip = Some (min e (saturating_add a (ic_max_blocks_per_tick cfg - 1)))"
    using assms(1) m s adv by (auto simp: tick_target_def Let_def not_less min_def)
  then show ?thesis using adv ae by (auto simp: word_le_nat_alt min_def)
qed

section \<open>Progress\<close>

text \<open>A tick that did its work: no error, no reorganisation.\<close>

definition clean_tick :: "IndexerError + IndexerOutcome \<Rightarrow> bool" where
  "clean_tick r \<longleftrightarrow> (\<exists>out. r = Inr out \<and> oc_error out = None \<and> \<not> oc_reorg_detected out)"

text \<open>A node whose head stays at least five blocks past the end block.\<close>

definition head_past :: "ienv \<Rightarrow> u64 \<Rightarrow> bool" where
  "head_past E e \<longleftrightarrow> (\<forall>k tip. number_answer E k = Inr tip \<longrightarrow> unat e + 5 \<le> unat tip)"

lemma height_max_opt: "block_cursor a \<Longrightarrow> block_cursor b \<Longrightarrow> height (max_opt a b) = max (height a) (height b)"
  by (auto simp: height_def max_opt_def block_cursor_def split: option.splits)

lemma block_cursor_max_opt: "block_cursor a \<Longrightarrow> block_cursor b \<Longrightarrow> block_cursor (max_opt a b)"
  by (auto simp: max_opt_def block_cursor_def split: option.splits)

lemma tick_reports:
  assumes "run_once E cfg w = (Inr out, w')" and "li = cursor (db w) (ic_chain_id cfg)"
  shows "oc_error out \<noteq> None \<and> oc_last_indexed_block out = li \<or>
    (\<exists>li1 k tip. number_answer E k = Inr tip \<and> oc_error out = None \<and>
      ((\<not> oc_reorg_detected out \<and> li1 = li) \<or>
       (oc_reorg_detected out \<and> (\<exists>l. li = Some l \<and> (\<forall>root. li1 = Some root \<longrightarrow> 0 \<le> root \<and> root \<le> l)))) \<and>
      oc_last_indexed_block out =
        (case tick_target cfg (as_u64 (next_block li1)) tip of None \<Rightarrow> li1 | Some t \<Rightarrow> Some (as_i64 t)))"
  using assms(1)
proof (cases rule: run_once_cases)
  case (run w1 w2 w3 w4 r li')
  then have li: "li' = li" using assms(2) by simp
  show ?thesis
  proof (cases r)
    case (Inl e)
    then show ?thesis using run(6) li by (simp add: closing_outcome_def)
  next
    case (Inr o1)
    then have out: "oc_error out = oc_error o1" "oc_reorg_detected out = oc_reorg_detected o1"
      "oc_last_indexed_block out = oc_last_indexed_block o1"
      using run(6) by (simp_all add: closing_outcome_def)
    from run(5) [unfolded Inr] show ?thesis
      by (rule run_inner_Inr) (use out li in auto)
  qed
qed

text \<open>The reported block stays a block number, and a clean tick reports the end block or a higher block than before.\<close>

lemma tick_reports_block:
  assumes "run_once E cfg w = (Inr out, w')" and "block_cursor (cursor (db w) (ic_chain_id cfg))"
    and "ic_end_block cfg = Some e" and "int (unat e) < I64_MAX"
  shows "block_cursor (oc_last_indexed_block out)"
proof -
  have small: "block_cursor (Some (as_i64 t))" if "tick_target cfg a tip = Some t" for a t tip
  proof -
    have "t \<le> e" using tick_target_le_end [OF that assms(3)] .
    then have "int (unat t) < I64_MAX" using assms(4) by (simp add: word_le_nat_alt del: of_nat_unat)
    then show ?thesis using as_i64_small [of t] by (simp add: block_cursor_def I64_MAX_def del: of_nat_unat)
  qed
  from tick_reports [OF assms(1) refl] show ?thesis
  proof (elim disjE exE conjE)
    fix li1 k tip
    assume "oc_last_indexed_block out =
      (case tick_target cfg (as_u64 (next_block li1)) tip of None \<Rightarrow> li1 | Some t \<Rightarrow> Some (as_i64 t))"
      and "\<not> oc_reorg_detected out" "li1 = cursor (db w) (ic_chain_id cfg)"
    then show ?thesis using assms(2) small by (auto split: option.splits)
  next
    fix li1 k tip l
    assume "oc_last_indexed_block out =
      (case tick_target cfg (as_u64 (next_block li1)) tip of None \<Rightarrow> li1 | Some t \<Rightarrow> Some (as_i64 t))"
      and "cursor (db w) (ic_chain_id cfg) = Some l" "\<forall>root. li1 = Some root \<longrightarrow> 0 \<le> root \<and> root \<le> l"
    then show ?thesis using assms(2) small by (auto simp: block_cursor_def split: option.splits)
  qed (use assms(2) in simp)
qed

lemma clean_tick_advances:
  assumes "run_once E cfg w = (Inr out, w')" and "clean_tick (Inr out)" and "head_past E e"
    and "block_cursor (cursor (db w) (ic_chain_id cfg))" and "ic_end_block cfg = Some e" and "int (unat e) < I64_MAX"
  shows "height (cursor (db w) (ic_chain_id cfg)) < height (oc_last_indexed_block out) \<or>
    int (unat e) < height (oc_last_indexed_block out)"
proof -
  let ?li = "cursor (db w) (ic_chain_id cfg)"
  from tick_reports [OF assms(1) refl] assms(2) obtain k tip where tip: "number_answer E k = Inr tip"
    and last: "oc_last_indexed_block out =
      (case tick_target cfg (as_u64 (next_block ?li)) tip of None \<Rightarrow> ?li | Some t \<Rightarrow> Some (as_i64 t))"
    by (auto simp: clean_tick_def)
  have far: "unat e + 5 \<le> unat tip" using assms(3) tip by (simp add: head_past_def)
  have from1: "int (unat (as_u64 (next_block ?li))) = height ?li" "0 \<le> height ?li"
    using next_block_height [OF assms(4)] height_bounds [OF assms(4)] by (simp_all del: of_nat_unat)
  show ?thesis
  proof (cases "tick_target cfg (as_u64 (next_block ?li)) tip")
    case None
    then have "\<not> unat (as_u64 (next_block ?li)) \<le> unat e" using tick_target_to_end [OF assms(5) far] by force
    then show ?thesis using last None from1 by (simp del: of_nat_unat)
  next
    case (Some t)
    then have "unat (as_u64 (next_block ?li)) \<le> unat t" "t \<le> e"
      using tick_target_le [OF Some] tick_target_le_end [OF Some assms(5)] by (simp_all add: word_le_nat_alt)
    moreover from this(2) have "as_i64 t = int (unat t)"
      using as_i64_small [of t] assms(6) by (simp add: word_le_nat_alt I64_MAX_def del: of_nat_unat)
    ultimately show ?thesis using last Some from1 by (simp add: height_def del: of_nat_unat)
  qed
qed

text \<open>What every tick keeps: unique keys, a cursor that is a block number and never falls.\<close>

lemma tick_keeps:
  assumes "keys_unique (db w)" and "block_cursor (cursor (db w) (ic_chain_id cfg))"
    and "ic_end_block cfg = Some e" and "int (unat e) < I64_MAX"
    and w'_def: "w' = snd (run_once E cfg w)"
  shows "keys_unique (db w')" "block_cursor (cursor (db w') (ic_chain_id cfg))"
    "height (cursor (db w) (ic_chain_id cfg)) \<le> height (cursor (db w') (ic_chain_id cfg))"
proof -
  show "keys_unique (db w')"
    using assms(1) uniq.run_once_obeys [OF refl refl, of E cfg] by (simp add: w'_def obeys_def on_db_def keeps_def)
  let ?c = "ic_chain_id cfg"
  have "block_cursor (cursor (db w') ?c) \<and> height (cursor (db w) ?c) \<le> height (cursor (db w') ?c)"
  proof (cases "fst (run_once E cfg w)")
    case (Inl e1)
    then have "run_once E cfg w = (Inl e1, w')" by (simp add: w'_def prod_eq_iff)
    from run_once_error_cursor [OF this] show ?thesis using assms(2) by simp
  next
    case (Inr out)
    then have run: "run_once E cfg w = (Inr out, w')" by (simp add: w'_def prod_eq_iff)
    show ?thesis
      using run_once_ok_cursor [OF run assms(1)] tick_reports_block [OF run assms(2-4)] assms(2)
      by (simp add: height_max_opt block_cursor_max_opt)
  qed
  then show "block_cursor (cursor (db w') ?c)" "height (cursor (db w) ?c) \<le> height (cursor (db w') ?c)" by simp_all
qed

lemma ticks_keep:
  assumes "keys_unique (db w)" and "block_cursor (cursor (db w) (ic_chain_id cfg))"
    and "ic_end_block cfg = Some e" and "int (unat e) < I64_MAX"
  shows "keys_unique (db (ticks n E cfg w)) \<and> block_cursor (cursor (db (ticks n E cfg w)) (ic_chain_id cfg))"
proof (induction n)
  case (Suc n)
  then show ?case using tick_keeps(1,2) [OF _ _ assms(3,4) refl, of "ticks n E cfg w" E] by (simp add: ticks_Suc del: ticks.simps)
qed (use assms in simp)

text \<open>The loop stops at a tick that reports the end block or a later one.\<close>

lemma stops_at_end:
  assumes "block_cursor (oc_last_indexed_block out)" and "ic_end_block cfg = Some e"
  shows "after_tick False cfg (Inr out) = ReturnOk \<longleftrightarrow> int (unat e) < height (oc_last_indexed_block out)"
proof (cases "oc_last_indexed_block out")
  case (Some l)
  then have l: "0 \<le> l" "l < 2 ^ 64" using assms(1) by (auto simp: block_cursor_def I64_MAX_def)
  then have "e \<le> as_u64 l \<longleftrightarrow> unat e \<le> nat l" by (simp add: word_le_nat_alt as_u64_block)
  then show ?thesis using Some assms(2) l by (simp add: after_tick_def height_def nat_le_iff le_nat_iff del: of_nat_unat)
qed (simp add: after_tick_def height_def assms(2))

lemma loop_action_cases: "after_tick False cfg r = ReturnOk \<or> after_tick False cfg r = TickAgain"
  by (auto simp: after_tick_def split: sum.splits option.splits)

lemma stopped_past_end:
  assumes "after_tick False cfg (fst (run_once E cfg w)) = ReturnOk" and "keys_unique (db w)"
    and "block_cursor (cursor (db w) (ic_chain_id cfg))" and "ic_end_block cfg = Some e" and "int (unat e) < I64_MAX"
  shows "int (unat e) < height (cursor (db (snd (run_once E cfg w))) (ic_chain_id cfg))"
proof -
  obtain out where run: "run_once E cfg w = (Inr out, snd (run_once E cfg w))"
    using assms(1) by (cases "fst (run_once E cfg w)") (auto simp: after_tick_def prod_eq_iff)
  note block = tick_reports_block [OF run assms(3-5)]
  have "after_tick False cfg (Inr out) = ReturnOk" using assms(1) run by (metis fst_conv)
  then have past: "int (unat e) < height (oc_last_indexed_block out)" using stops_at_end [OF block assms(4)] by simp
  have "oc_last_indexed_block out = cursor (db w) (ic_chain_id cfg)" if "oc_error out \<noteq> None"
    using tick_reports [OF run refl] that by auto
  then show ?thesis
    using run_once_ok_cursor [OF run assms(2)] past height_max_opt [OF assms(3) block] by (auto simp del: of_nat_unat)
qed

lemma clean_tick_gain:
  assumes "clean_tick (fst (run_once E cfg w))" and "after_tick False cfg (fst (run_once E cfg w)) = TickAgain"
    and "head_past E e" and "keys_unique (db w)" and "block_cursor (cursor (db w) (ic_chain_id cfg))"
    and "ic_end_block cfg = Some e" and "int (unat e) < I64_MAX"
  shows "height (cursor (db w) (ic_chain_id cfg)) < height (cursor (db (snd (run_once E cfg w))) (ic_chain_id cfg)) \<and>
    height (cursor (db w) (ic_chain_id cfg)) \<le> int (unat e)"
proof -
  obtain out where run: "run_once E cfg w = (Inr out, snd (run_once E cfg w))" and out: "clean_tick (Inr out)"
    using assms(1) by (auto simp: clean_tick_def prod_eq_iff)
  note block = tick_reports_block [OF run assms(5-7)]
  have "after_tick False cfg (Inr out) = TickAgain" using assms(2) run by (metis fst_conv)
  then have "\<not> int (unat e) < height (oc_last_indexed_block out)" using stops_at_end [OF block assms(6)] by simp
  moreover note clean_tick_advances [OF run out assms(3,5-7)]
  moreover have "oc_error out = None" using out by (simp add: clean_tick_def)
  ultimately show ?thesis
    using run_once_ok_cursor [OF run assms(4)] height_max_opt [OF assms(5) block] by (simp del: of_nat_unat)
qed

text \<open>
  C26. The poll loop ends: with an end block, a node whose head stays at least five blocks past it and ticks of
  which, as long as the loop goes on, one sooner or later does its work (it may fail, or meet
  reorganisations, any number of times in between), the loop returns without error, and the cursor is at the
  end block or past it.
\<close>

theorem poll_loop_reaches_end_block:
  assumes "ic_end_block cfg = Some e" and "int (unat e) < I64_MAX" and "head_past E e"
    and "keys_unique (db w)" and "block_cursor (cursor (db w) (ic_chain_id cfg))"
    and "\<forall>n. (\<forall>k < n. after_tick False cfg (fst (run_once E cfg (ticks k E cfg w))) = TickAgain) \<longrightarrow>
           (\<exists>k \<ge> n. clean_tick (fst (run_once E cfg (ticks k E cfg w))))"
  shows "\<exists>w' l. poll_loop E False cfg w = Some (Inr (), w') \<and>
    cursor (db w') (ic_chain_id cfg) = Some l \<and> int (unat e) \<le> l"
proof -
  let ?W = "\<lambda>n. ticks n E cfg w"
  let ?a = "\<lambda>n. after_tick False cfg (fst (run_once E cfg (?W n)))"
  let ?h = "\<lambda>n. height (cursor (db (?W n)) (ic_chain_id cfg))"
  note kept = ticks_keep [OF assms(4,5,1,2), of _ E]
  have step: "?h n \<le> ?h (Suc n)" for n
    using tick_keeps(3) [OF _ _ assms(1,2) refl, of "?W n" E] kept [of n] by (simp add: ticks_Suc del: ticks.simps)
  then have mono: "n \<le> m \<Longrightarrow> ?h n \<le> ?h m" for n m by (rule lift_Suc_mono_le)
  have gain: "?h k < ?h (Suc k) \<and> ?h k \<le> int (unat e)" if "clean_tick (fst (run_once E cfg (?W k)))" "?a k = TickAgain" for k
    using clean_tick_gain [OF that assms(3) _ _ assms(1,2)] kept [of k] by (simp add: ticks_Suc del: ticks.simps of_nat_unat)
  have "\<exists>n. ?a n \<noteq> TickAgain"
  proof (rule ccontr)
    assume "\<not> ?thesis"
    then have again: "?a n = TickAgain" for n by blast
    then have fair: "\<exists>k \<ge> n. clean_tick (fst (run_once E cfg (?W k)))" for n using assms(6) by blast
    have "\<exists>n. int m \<le> ?h n" for m :: nat
    proof (induction m)
      case 0
      then show ?case using height_bounds kept by auto
    next
      case (Suc m)
      then obtain n where n: "int m \<le> ?h n" ..
      obtain k where "n \<le> k" "clean_tick (fst (run_once E cfg (?W k)))" using fair by blast
      then have "int (Suc m) \<le> ?h (Suc k)" using gain [OF _ again, of k] mono [of n k] n by linarith
      then show ?case by blast
    qed
    then obtain n where n: "int (unat e + 1) \<le> ?h n" by blast
    obtain k where "n \<le> k" "clean_tick (fst (run_once E cfg (?W k)))" using fair by blast
    then show False using gain [OF _ again, of k] mono [of n k] n by linarith
  qed
  then obtain n where n: "?a n \<noteq> TickAgain" "\<forall>k < n. ?a k = TickAgain"
    using exists_least_iff [of "\<lambda>n. ?a n \<noteq> TickAgain"] by blast
  then have ok: "?a n = ReturnOk" using loop_action_cases by metis
  have "int (unat e) < ?h (Suc n)"
    using stopped_past_end [OF ok _ _ assms(1,2)] kept [of n] by (simp add: ticks_Suc del: ticks.simps of_nat_unat)
  then show ?thesis
    using loop_returns(1) [OF n(2) ok refl] by (auto simp: height_def simp del: of_nat_unat ticks.simps split: option.splits)
qed

text \<open>Witness: the demonstration node, whose head is block 8, up to block 3, in two ticks.\<close>

definition end_icfg :: IndexerConfig where
  "end_icfg = demo_icfg\<lparr>ic_end_block := Some 3\<rparr>"

lemma end_icfg_sel [simp]:
  "ic_chain_id end_icfg = 8453" "ic_gateway end_icfg = 1" "ic_vault end_icfg = 2" "ic_registry end_icfg = None"
  "ic_router_governance end_icfg = None" "ic_max_blocks_per_tick end_icfg = 3" "ic_end_block end_icfg = Some 3"
  "ic_chain_name end_icfg = ''base''" "ic_rpc_label end_icfg = ''demo''"
  by (simp_all add: end_icfg_def)

lemma end_tick1:
  assumes "db w = empty_db" "length (rpc_sent w) = 0"
  shows "db (snd (run_once demo_ienv end_icfg w)) = demo_db [demo_header_row 2 79] [demo_run 1 0 (Some 2) 2 0 2] 2"
    and "length (rpc_sent (snd (run_once demo_ienv end_icfg w))) = 8"
    and "fst (run_once demo_ienv end_icfg w) = Inr \<lparr>oc_run_id = 1, oc_from_block = 0, oc_to_block = Some 2,
      oc_last_indexed_block = Some 2, oc_rows_inserted = 2, oc_reorg_detected = False, oc_error = None\<rparr>"
  using assms by (simp_all add: tick_eval demo_db_defs)

lemma end_tick2:
  assumes "db w = demo_db [demo_header_row 2 79] [demo_run 1 0 (Some 2) 2 0 2] 2" "length (rpc_sent w) = 8"
  shows "fst (run_once demo_ienv end_icfg w) = Inr \<lparr>oc_run_id = 2, oc_from_block = 3, oc_to_block = Some 3,
      oc_last_indexed_block = Some 3, oc_rows_inserted = 1, oc_reorg_detected = False, oc_error = None\<rparr>"
  using assms by (simp_all add: tick_eval demo_db_defs)

theorem poll_loop_reaches_end_block_witness:
  "\<exists>w' l. poll_loop demo_ienv False end_icfg iworld0 = Some (Inr (), w') \<and> cursor (db w') 8453 = Some l \<and> 3 \<le> l"
proof -
  have t1: "db iworld0 = empty_db" "length (rpc_sent iworld0) = 0" by (simp_all add: iworld0_def)
  note r1 = end_tick1 [OF t1] and r2 = end_tick2 [OF end_tick1(1,2) [OF t1]]
  have clean: "clean_tick (fst (run_once demo_ienv end_icfg (ticks k demo_ienv end_icfg iworld0)))" if "k < 2" for k
    using that r1(3) r2 by (auto simp: clean_tick_def less_2_cases_iff)
  have "after_tick False end_icfg (fst (run_once demo_ienv end_icfg (ticks 1 demo_ienv end_icfg iworld0))) = ReturnOk"
    using r2 by (simp add: after_tick_def as_u64_def)
  then have stop: "n < 2" if "\<forall>k < n. after_tick False end_icfg
      (fst (run_once demo_ienv end_icfg (ticks k demo_ienv end_icfg iworld0))) = TickAgain" for n
    using that [rule_format, of 1] by (cases "1 < n") auto
  have keys: "keys_unique (db iworld0)" "block_cursor (cursor (db iworld0) (ic_chain_id end_icfg))"
    by (simp_all add: t1 empty_db_def keys_unique_def cursor_def List.map_filter_def sql_max_def block_cursor_def)
  have "head_past demo_ienv 3" "int (unat (3::u64)) < I64_MAX" by (simp_all add: head_past_def I64_MAX_def)
  note main = poll_loop_reaches_end_block [OF end_icfg_sel(7) this(2,1) keys]
  have "\<exists>w' l. poll_loop demo_ienv False end_icfg iworld0 = Some (Inr (), w') \<and>
      cursor (db w') (ic_chain_id end_icfg) = Some l \<and> int (unat (3::u64)) \<le> l"
    by (rule main) (use clean stop in blast)
  then show ?thesis by simp
qed

text \<open>
  The exit of a single tick (\<open>--once\<close>): the run of the program succeeds whenever the tick could close its run
  record, also when the tick itself failed and its error stands only in that record.
\<close>

definition dead_ienv :: ienv where
  "dead_ienv = demo_ienv\<lparr>ix_post := \<lambda>_ _ _. NotSent ''refused''\<rparr>"

lemma dead_sel [simp]:
  "number_answer dead_ienv k = Inl (RpcTransport ''eth_blockNumber: refused'')" "ix_db_fault dead_ienv k = None"
  by (simp_all add: dead_ienv_def demo_ienv_def number_answer_def ix_answer_def classify_def andThen_def)

theorem once_hides_failed_tick:
  "\<exists>w'. poll_loop dead_ienv True demo_icfg iworld0 = Some (Inr (), w') \<and>
     map run_error (indexer_runs (db w')) = [Some ''transport: eth_blockNumber: refused'']"
proof -
  let ?r = "run_once dead_ienv demo_icfg iworld0"
  have "\<exists>out. fst ?r = Inr out" "map run_error (indexer_runs (db (snd ?r))) = [Some ''transport: eth_blockNumber: refused'']"
    by (simp_all add: tick_eval demo_db_defs iworld0_def)
  then show ?thesis using loop_returns(1) [of 0 True demo_icfg dead_ienv iworld0] by (auto simp: after_tick_def)
qed

end
