(* ===== verification/Api_Query.thy ===== *)
theory Api_Query
  imports Explorer_Indexer "HOL-Library.Multiset"
begin

text \<open>
  The ground of the explorer API (\<open>clients/explorer-api/src\<close>: \<open>error.rs\<close>, \<open>state.rs\<close>, the wire types of
  \<open>model.rs\<close> and the helpers of \<open>routes.rs\<close>). A handler is a computation of the monad \<open>io\<close> over the
  numbers of statements sent and clock readings made; statement \<open>k\<close> reads the tables \<open>ap_db E k\<close>, so
  the indexer may write between two statements of one request. A selection scans the rows that meet its
  condition in an order the database chooses (\<open>ap_plan\<close>), sorts them by its \<open>ORDER BY\<close> key, which leaves
  rows with equal keys in scan order, and cuts the result at its limit. The columns \<open>indexed_at\<close> and
  \<open>finished_at\<close>, filled by the database clock, are the values \<open>ap_time\<close> of a row.
\<close>

section \<open>Environment\<close>

datatype stamped =
    OfDeposit deposit_row | OfSnapshot snapshot_row | OfTransaction transaction_row | OfVault vault_row
  | OfWeights weight_row | OfProposal proposal_row | OfPosition position_row | OfRun RunRow

record aenv =
  ap_db :: "nat \<Rightarrow> explorer_db"
  ap_fault :: "nat \<Rightarrow> string option"
  ap_plan :: "nat \<Rightarrow> nat \<Rightarrow> nat list"
  ap_time :: "nat \<Rightarrow> stamped \<Rightarrow> int"
  ap_now :: "nat \<Rightarrow> int"
  ap_hex_decode :: "string \<Rightarrow> bytes option"
  ap_hex_encode :: "bytes \<Rightarrow> string"
  ap_quotient :: "nat \<Rightarrow> nat \<Rightarrow> nat"

record aworld =
  aw_statements :: nat
  aw_clock :: nat

datatype ApiError = NotFound | BadRequest string | Database string

type_synonym 'a api = "(aworld, ApiError, 'a) io"

text \<open>A plan visits every row once.\<close>

definition plans_ok :: "aenv \<Rightarrow> bool" where
  "plans_ok E \<longleftrightarrow> (\<forall>k n. distinct (ap_plan E k n) \<and> set (ap_plan E k n) = {..<n})"

record AppState =
  st_chain_id :: int

section \<open>Statements\<close>

definition scan :: "aenv \<Rightarrow> nat \<Rightarrow> 'r list \<Rightarrow> 'r list" where
  "scan E k rows = map (\<lambda>i. rows ! i) (filter (\<lambda>i. i < length rows) (ap_plan E k (length rows)))"

lemma set_scan_subset: "set (scan E k rows) \<subseteq> set rows"
  by (auto simp: scan_def)

lemma mset_scan:
  assumes "plans_ok E"
  shows "mset (scan E k rows) = mset rows"
proof -
  let ?p = "ap_plan E k (length rows)"
  have "distinct ?p" "set ?p = set [0..<length rows]" using assms by (auto simp: plans_ok_def)
  then have "mset ?p = mset [0..<length rows]" by (metis distinct_upt mset_set_set)
  moreover have "filter (\<lambda>i. i < length rows) ?p = ?p" using \<open>set ?p = _\<close> by (simp add: filter_id_conv)
  ultimately have "mset (scan E k rows) = mset (map (\<lambda>i. rows ! i) [0..<length rows])"
    by (simp add: scan_def)
  then show ?thesis by (simp add: map_nth)
qed

lemma set_scan: "plans_ok E \<Longrightarrow> set (scan E k rows) = set rows"
  by (metis mset_scan set_mset_mset)

fun limit :: "nat option \<Rightarrow> 'r list \<Rightarrow> 'r list" where
  "limit None rows = rows"
| "limit (Some n) rows = take n rows"

text \<open>One statement: it fails for outside reasons or answers from the tables as they are then.\<close>

definition query :: "aenv \<Rightarrow> (nat \<Rightarrow> explorer_db \<Rightarrow> 'a) \<Rightarrow> 'a api" where
  "query E f = (\<lambda>w.
     let k = aw_statements w; w1 = w\<lparr>aw_statements := Suc k\<rparr> in
     case ap_fault E k of Some e \<Rightarrow> (Inl (Database e), w1) | None \<Rightarrow> (Inr (f k (ap_db E k)), w1))"

text \<open>\<open>SELECT .. FROM .. WHERE .. ORDER BY .. LIMIT ..\<close>: the rows with their time stamps.\<close>

definition select ::
    "aenv \<Rightarrow> ('r \<Rightarrow> stamped) \<Rightarrow> (explorer_db \<Rightarrow> 'r list) \<Rightarrow> ('r \<Rightarrow> 'k::linorder) \<Rightarrow> nat option \<Rightarrow> ('r \<times> int) list api" where
  "select E st rows key lim =
     query E (\<lambda>k d. map (\<lambda>r. (r, ap_time E k (st r))) (limit lim (sort_key key (scan E k (rows d)))))"

text \<open>\<open>DISTINCT ON\<close> keeps the first row of every group.\<close>

fun distinct_on :: "('r \<Rightarrow> 'k) \<Rightarrow> 'r list \<Rightarrow> 'r list" where
  "distinct_on key [] = []"
| "distinct_on key (r # rows) = r # distinct_on key (filter (\<lambda>x. key x \<noteq> key r) rows)"

lemma set_distinct_on: "set (distinct_on key rows) \<subseteq> set rows"
  by (induction key rows rule: distinct_on.induct) auto

definition first_row :: "'r list \<Rightarrow> 'r option" where
  "first_row rows = (case rows of [] \<Rightarrow> None | r # _ \<Rightarrow> Some r)"

definition last_row :: "'r list \<Rightarrow> 'r option" where
  "last_row rows = (if rows = [] then None else Some (last rows))"

text \<open>\<open>Utc::now()\<close>\<close>

definition utc_now :: "aenv \<Rightarrow> int api" where
  "utc_now E = (\<lambda>w. (Inr (ap_now E (aw_clock w)), w\<lparr>aw_clock := Suc (aw_clock w)\<rparr>))"

definition ok_or :: "'e \<Rightarrow> 'a option \<Rightarrow> ('s, 'e, 'a) io" where
  "ok_or e r = (case r of None \<Rightarrow> failM e | Some x \<Rightarrow> retM x)"

section \<open>Encoding\<close>

text \<open>The \<open>BYTEA\<close> value of a word.\<close>

definition be_bytes :: "nat \<Rightarrow> 'a::len word \<Rightarrow> bytes" where
  "be_bytes n v = rev (map (\<lambda>i. of_nat (unat v div 256 ^ i)) [0..<n])"

definition addr_bytea :: "address \<Rightarrow> bytes" where
  "addr_bytea a = be_bytes 20 a"

definition hash_bytea :: "b256 \<Rightarrow> bytes" where
  "hash_bytea h = be_bytes 32 h"

definition addr_to_hex :: "aenv \<Rightarrow> bytes \<Rightarrow> string" where
  "addr_to_hex E b = ''0x'' @ ap_hex_encode E b"

definition hash_to_hex :: "aenv \<Rightarrow> bytes \<Rightarrow> string" where
  "hash_to_hex E b = addr_to_hex E b"

definition decode_address_param :: "aenv \<Rightarrow> string \<Rightarrow> ApiError + bytes" where
  "decode_address_param E s0 =
     (let s = trim s0 in
      if \<not> prefix ''0x'' s \<or> length s \<noteq> 42 then Inl (BadRequest ''invalid address'')
      else case ap_hex_decode E (drop 2 s) of
             None \<Rightarrow> Inl (BadRequest ''invalid address hex'') | Some b \<Rightarrow> Inr b)"

definition decode_hash_param :: "aenv \<Rightarrow> string \<Rightarrow> ApiError + bytes" where
  "decode_hash_param E s0 =
     (let s = trim s0 in
      if \<not> prefix ''0x'' s \<or> length s \<noteq> 66 then Inl (BadRequest ''invalid hash'')
      else case ap_hex_decode E (drop 2 s) of
             None \<Rightarrow> Inl (BadRequest ''invalid hash hex'') | Some b \<Rightarrow> Inr b)"

text \<open>A \<open>NUMERIC(78, 0)\<close> column has scale 0, so its decimal string is that of the integer.\<close>

definition dec_to_string :: "u256 \<Rightarrow> string" where
  "dec_to_string v = show_nat (unat v)"

definition proposal_status_label :: "int \<Rightarrow> string" where
  "proposal_status_label status =
     (if status = 0 then ''open'' else if status = 1 then ''passed'' else if status = 2 then ''executed''
      else ''expired'')"

section \<open>Wire types\<close>

record Freshness =
  fr_block_number :: int
  fr_indexed_at :: int

record Health =
  hl_status :: string
  hl_last_indexed_block :: "int option"
  hl_reorg_count :: int

record ApiContract =
  ac_chain_id :: int
  ac_address :: string
  ac_kind :: string
  ac_label :: "string option"

record ContractsResponse =
  cr_chain_id :: int
  cr_contracts :: "ApiContract list"
  cr_freshness :: Freshness

record VaultSnapshot =
  vn_chain_id :: int
  vn_contract :: string
  vn_block_number :: int
  vn_total_assets :: string
  vn_total_supply :: string
  vn_indexed_at :: int

record VaultSnapshotsResponse =
  vs_snapshots :: "VaultSnapshot list"
  vs_freshness :: Freshness

record ApiAgentPolicy =
  ap_agent :: string
  ap_authorized :: bool
  ap_cap :: "string option"
  ap_block_number :: int

record AgentResponse =
  ar_policy :: "ApiAgentPolicy option"
  ar_freshness :: Freshness

record ApiDeposit =
  de_chain_id :: int
  de_block_number :: int
  de_log_index :: int
  de_tx_hash :: string
  de_payment_id :: string
  de_agent :: string
  de_share_receiver :: string
  de_amount :: string
  de_indexed_at :: int

record DepositsResponse =
  dr_deposits :: "ApiDeposit list"
  dr_freshness :: Freshness

record DepositResponse =
  d1_deposit :: ApiDeposit
  d1_freshness :: Freshness

record ApiTransaction =
  tx_chain_id :: int
  tx_tx_hash :: string
  tx_block_number :: int
  tx_from_address :: string
  tx_to_address :: "string option"
  tx_status :: int
  tx_indexed_at :: int

record TransactionResponse =
  tp_transaction :: ApiTransaction
  tp_freshness :: Freshness

record ApiVault =
  vt_chain_id :: int
  vt_address :: string
  vt_name :: string
  vt_risk_label :: string
  vt_status :: int
  vt_deposit_cap :: string
  vt_total_assets :: "string option"
  vt_exit_fee_bps :: "int option"
  vt_indexed_at :: int

record VaultsResponse =
  vl_vaults :: "ApiVault list"
  vl_freshness :: Freshness

record VaultTvlPoint =
  tv_block_number :: int
  tv_total_assets :: string
  tv_total_supply :: string
  tv_indexed_at :: int

record VaultDetail =
  vd_chain_id :: int
  vd_address :: string
  vd_name :: string
  vd_risk_label :: string
  vd_status :: int
  vd_deposit_cap :: string
  vd_tvl_history :: "VaultTvlPoint list"
  vd_indexed_at :: int

record VaultDetailResponse =
  vx_vault :: VaultDetail
  vx_freshness :: Freshness

record VaultWeight =
  vw_vault :: string
  vw_bps :: int

record WeightHistoryEntry =
  wh_block_number :: int
  wh_tx_hash :: string
  wh_weights :: "VaultWeight list"
  wh_indexed_at :: int

record RouterWeightsResponse =
  rw_current_weights :: "VaultWeight list"
  rw_history :: "WeightHistoryEntry list"
  rw_freshness :: Freshness

record ProposalSummary =
  ps_chain_id :: int
  ps_proposal_id :: int
  ps_proposer :: string
  ps_description :: string
  ps_created_at :: int
  ps_deadline_block :: int
  ps_status :: string
  ps_votes_for :: int
  ps_votes_against :: int
  ps_block_number :: int
  ps_indexed_at :: int

record ProposalsResponse =
  pl_proposals :: "ProposalSummary list"
  pl_freshness :: Freshness

record VoteEntry =
  ve_voter :: string
  ve_support :: bool
  ve_weight :: string
  ve_block_number :: int
  ve_tx_hash :: string

record ProposalDetail =
  pd_chain_id :: int
  pd_proposal_id :: int
  pd_proposer :: string
  pd_description :: string
  pd_created_at :: int
  pd_deadline_block :: int
  pd_status :: string
  pd_votes_for :: int
  pd_votes_against :: int
  pd_executed_block :: "int option"
  pd_block_number :: int
  pd_indexed_at :: int
  pd_votes :: "VoteEntry list"

record ProposalDetailResponse =
  px_proposal :: ProposalDetail
  px_freshness :: Freshness

record ActivityEvent =
  ae_chain_id :: int
  ae_block_number :: int
  ae_log_index :: int
  ae_tx_hash :: string
  ae_vault :: string
  ae_agent :: string
  ae_share_receiver :: string
  ae_amount :: string
  ae_indexed_at :: int

record StatsResponse =
  ss_total_tvl :: string
  ss_unique_depositors :: nat
  ss_activity_feed :: "ActivityEvent list"
  ss_freshness :: Freshness

record RouterStateResponse =
  rs_current_weights :: "VaultWeight list"
  rs_history :: "WeightHistoryEntry list"
  rs_freshness :: Freshness

record VaultPosition =
  vp_vault :: string
  vp_shares :: string
  vp_usdc_value :: "string option"
  vp_block_number :: int
  vp_indexed_at :: int

record AccountPositionsResponse =
  pp_address :: string
  pp_positions :: "VaultPosition list"
  pp_freshness :: Freshness

datatype EventKind = DepositEvent

record AccountHistoryEntry =
  hi_kind :: EventKind
  hi_chain_id :: int
  hi_block_number :: int
  hi_log_index :: int
  hi_tx_hash :: string
  hi_vault :: string
  hi_agent :: string
  hi_amount :: string
  hi_indexed_at :: int

record AccountHistoryResponse =
  ah_address :: string
  ah_events :: "AccountHistoryEntry list"
  ah_freshness :: Freshness

end
