(* ===== verification/Api_Routes.thy ===== *)
theory Api_Routes
  imports Api_Query
begin

text \<open>
  The handlers of the explorer API (\<open>clients/explorer-api/src/routes.rs\<close>) in the order of the source, the
  route table and the error responses. The statements of a handler are sent one after another outside a
  transaction. Path parameters arrive as strings; the parsed query string of the snapshot list is a record.
\<close>

section \<open>Freshness\<close>

definition runs_newest_first :: "aenv \<Rightarrow> (RunRow \<times> int) list api" where
  "runs_newest_first E = select E OfRun indexer_runs (\<lambda>r. - run_id r) (Some 1)"

text \<open>The clock is read for a missing column, and once more for the discarded default.\<close>

definition latest_freshness :: "aenv \<Rightarrow> Freshness api" where
  "latest_freshness E =
     bindM (runs_newest_first E) (\<lambda>rows.
     case first_row rows of
       None \<Rightarrow> bindM (utc_now E) (\<lambda>now. retM \<lparr>fr_block_number = 0, fr_indexed_at = now\<rparr>)
     | Some (r, finished_at) \<Rightarrow>
         bindM (if run_finished r then retM finished_at else utc_now E) (\<lambda>t.
         bindM (utc_now E) (\<lambda>_.
         retM \<lparr>fr_block_number = (case run_last_indexed_block r of Some b \<Rightarrow> b | None \<Rightarrow> 0),
               fr_indexed_at = t\<rparr>)))"

definition current_freshness :: "aenv \<Rightarrow> int \<Rightarrow> Freshness api" where
  "current_freshness E chain_id = latest_freshness E"

text \<open>The freshness of the row a list ends (or begins) with, else that of the newest run.\<close>

definition freshness_of :: "aenv \<Rightarrow> (int \<times> int) option \<Rightarrow> Freshness api" where
  "freshness_of E row =
     (case row of Some (n, t) \<Rightarrow> retM \<lparr>fr_block_number = n, fr_indexed_at = t\<rparr> | None \<Rightarrow> latest_freshness E)"

section \<open>Health, contracts, snapshots\<close>

definition health :: "aenv \<Rightarrow> Health api" where
  "health E =
     bindM (runs_newest_first E) (\<lambda>rows.
     retM (case first_row rows of
             Some (r, _) \<Rightarrow> \<lparr>hl_status = ''ok'', hl_last_indexed_block = run_last_indexed_block r,
                           hl_reorg_count = run_reorg_count r\<rparr>
           | None \<Rightarrow> \<lparr>hl_status = ''ok'', hl_last_indexed_block = None, hl_reorg_count = 0\<rparr>))"

definition list_contracts :: "aenv \<Rightarrow> int \<Rightarrow> ContractsResponse api" where
  "list_contracts E chain_id =
     bindM (query E (\<lambda>k d. sort_key co_address (scan E k (filter (\<lambda>r. co_chain_id r = chain_id) (contracts d))))) (\<lambda>rows.
     bindM (current_freshness E chain_id) (\<lambda>fresh.
     retM \<lparr>cr_chain_id = chain_id,
           cr_contracts = map (\<lambda>r. \<lparr>ac_chain_id = chain_id, ac_address = addr_to_hex E (addr_bytea (co_address r)),
             ac_kind = co_kind r, ac_label = None\<rparr>) rows,
           cr_freshness = fresh\<rparr>))"

definition snapshot_of_row :: "aenv \<Rightarrow> snapshot_row \<times> int \<Rightarrow> VaultSnapshot" where
  "snapshot_of_row E rt = (case rt of (r, t) \<Rightarrow>
     \<lparr>vn_chain_id = sn_chain_id r, vn_contract = addr_to_hex E (addr_bytea (sn_contract r)),
      vn_block_number = sn_block_number r, vn_total_assets = dec_to_string (sn_total_assets r),
      vn_total_supply = dec_to_string (sn_total_supply r), vn_indexed_at = t\<rparr>)"

definition latest_vault_snapshot :: "aenv \<Rightarrow> VaultSnapshotsResponse api" where
  "latest_vault_snapshot E =
     bindM (select E OfSnapshot vault_snapshots (\<lambda>r. - sn_block_number r) (Some 1)) (\<lambda>rows.
     case first_row rows of
       None \<Rightarrow> failM NotFound
     | Some rt \<Rightarrow>
         (let snap = snapshot_of_row E rt in
          retM \<lparr>vs_snapshots = [snap],
                vs_freshness = \<lparr>fr_block_number = vn_block_number snap, fr_indexed_at = vn_indexed_at snap\<rparr>\<rparr>))"

record SnapshotsQuery =
  sq_from_block :: "int option"
  sq_to_block :: "int option"
  sq_chain_id :: "int option"
  sq_contract :: "string option"

definition snapshots_contract :: "aenv \<Rightarrow> SnapshotsQuery \<Rightarrow> ApiError + bytes option" where
  "snapshots_contract E q =
     (case sq_contract q of None \<Rightarrow> Inr None | Some s \<Rightarrow> andThen (decode_address_param E s) (\<lambda>b. Inr (Some b)))"

definition list_vault_snapshots :: "aenv \<Rightarrow> SnapshotsQuery \<Rightarrow> VaultSnapshotsResponse api" where
  "list_vault_snapshots E q =
     (let from_block = (case sq_from_block q of Some n \<Rightarrow> n | None \<Rightarrow> 0);
          to_block = (case sq_to_block q of Some n \<Rightarrow> n | None \<Rightarrow> I64_MAX) in
      if to_block < from_block then failM (BadRequest ''to_block must be >= from_block'')
      else
        bindM (liftR (snapshots_contract E q)) (\<lambda>contract.
        bindM (select E OfSnapshot
                (\<lambda>d. filter (\<lambda>r. from_block \<le> sn_block_number r \<and> sn_block_number r \<le> to_block \<and>
                       (case sq_chain_id q of None \<Rightarrow> True | Some c \<Rightarrow> sn_chain_id r = c) \<and>
                       (case contract of None \<Rightarrow> True | Some b \<Rightarrow> addr_bytea (sn_contract r) = b)) (vault_snapshots d))
                sn_block_number (Some 500)) (\<lambda>rows.
        bindM (freshness_of E (map_option (\<lambda>(r, t). (sn_block_number r, t)) (last_row rows))) (\<lambda>fresh.
        retM \<lparr>vs_snapshots = map (snapshot_of_row E) rows, vs_freshness = fresh\<rparr>))))"

section \<open>Agents, deposits, transactions\<close>

definition get_agent :: "aenv \<Rightarrow> AppState \<Rightarrow> string \<Rightarrow> AgentResponse api" where
  "get_agent E st address =
     bindM (liftR (decode_address_param E address)) (\<lambda>b.
     bindM (query E (\<lambda>k d. first_row (sort_key (\<lambda>r. (- po_block_number r, - po_log_index r))
              (scan E k (filter (\<lambda>r. po_chain_id r = st_chain_id st \<and> addr_bytea (po_agent r) = b)
                (agent_policies d)))))) (\<lambda>row.
     bindM (latest_freshness E) (\<lambda>fresh.
     retM \<lparr>ar_policy = map_option (\<lambda>r. \<lparr>ap_agent = addr_to_hex E b, ap_authorized = (\<not> po_revoked r),
             ap_cap = map_option dec_to_string (po_max_per_window r), ap_block_number = po_block_number r\<rparr>) row,
           ar_freshness = fresh\<rparr>)))"

definition deposit_from_row :: "aenv \<Rightarrow> deposit_row \<times> int \<Rightarrow> ApiDeposit" where
  "deposit_from_row E rt = (case rt of (r, t) \<Rightarrow>
     \<lparr>de_chain_id = ds_chain_id r, de_block_number = ds_block_number r, de_log_index = ds_log_index r,
      de_tx_hash = hash_to_hex E (hash_bytea (ds_tx_hash r)),
      de_payment_id = hash_to_hex E (hash_bytea (ds_payment_id r)),
      de_agent = addr_to_hex E (addr_bytea (ds_agent r)),
      de_share_receiver = addr_to_hex E (addr_bytea (ds_share_receiver r)),
      de_amount = dec_to_string (ds_amount r), de_indexed_at = t\<rparr>)"

definition list_agent_deposits :: "aenv \<Rightarrow> AppState \<Rightarrow> string \<Rightarrow> DepositsResponse api" where
  "list_agent_deposits E st address =
     bindM (liftR (decode_address_param E address)) (\<lambda>b.
     bindM (select E OfDeposit
             (\<lambda>d. filter (\<lambda>r. ds_chain_id r = st_chain_id st \<and> addr_bytea (ds_agent r) = b) (agent_deposits d))
             (\<lambda>r. (- ds_block_number r, - ds_log_index r)) (Some 500)) (\<lambda>rows.
     bindM (freshness_of E (map_option (\<lambda>(r, t). (ds_block_number r, t)) (first_row rows))) (\<lambda>fresh.
     retM \<lparr>dr_deposits = map (deposit_from_row E) rows, dr_freshness = fresh\<rparr>)))"

definition get_transaction :: "aenv \<Rightarrow> AppState \<Rightarrow> string \<Rightarrow> TransactionResponse api" where
  "get_transaction E st hash =
     bindM (liftR (decode_hash_param E hash)) (\<lambda>b.
     bindM (select E OfTransaction
             (\<lambda>d. filter (\<lambda>r. xa_chain_id r = st_chain_id st \<and> hash_bytea (xa_tx_hash r) = b) (transactions d))
             (\<lambda>_. ()) (Some 1)) (\<lambda>rows.
     bindM (ok_or NotFound (first_row rows)) (\<lambda>(r, t).
     retM \<lparr>tp_transaction =
             \<lparr>tx_chain_id = xa_chain_id r, tx_tx_hash = hash_to_hex E b, tx_block_number = xa_block_number r,
              tx_from_address = addr_to_hex E (addr_bytea (xa_from r)),
              tx_to_address = map_option (addr_to_hex E \<circ> addr_bytea) (xa_to r), tx_status = xa_status r,
              tx_indexed_at = t\<rparr>,
           tp_freshness = \<lparr>fr_block_number = xa_block_number r, fr_indexed_at = t\<rparr>\<rparr>)))"

definition get_deposit :: "aenv \<Rightarrow> AppState \<Rightarrow> string \<Rightarrow> DepositResponse api" where
  "get_deposit E st deposit_id =
     bindM (liftR (decode_hash_param E deposit_id)) (\<lambda>b.
     bindM (select E OfDeposit
             (\<lambda>d. filter (\<lambda>r. ds_chain_id r = st_chain_id st \<and> hash_bytea (ds_payment_id r) = b) (agent_deposits d))
             (\<lambda>_. ()) (Some 1)) (\<lambda>rows.
     bindM (ok_or NotFound (first_row rows)) (\<lambda>(r, t).
     retM \<lparr>d1_deposit = deposit_from_row E (r, t),
           d1_freshness = \<lparr>fr_block_number = ds_block_number r, fr_indexed_at = t\<rparr>\<rparr>)))"

section \<open>Vaults\<close>

text \<open>The lateral join: the newest snapshot of a contract.\<close>

definition newest_snapshot :: "explorer_db \<Rightarrow> int \<Rightarrow> address \<Rightarrow> snapshot_row option" where
  "newest_snapshot d c a =
     first_row (sort_key (\<lambda>s. - sn_block_number s)
       (filter (\<lambda>s. sn_chain_id s = c \<and> sn_contract s = a) (vault_snapshots d)))"

definition list_vaults :: "aenv \<Rightarrow> AppState \<Rightarrow> VaultsResponse api" where
  "list_vaults E st =
     bindM (query E (\<lambda>k d.
       map (\<lambda>v. let s = newest_snapshot d (va_chain_id v) (va_address v) in
             \<lparr>vt_chain_id = va_chain_id v, vt_address = addr_to_hex E (addr_bytea (va_address v)),
              vt_name = va_name v, vt_risk_label = va_risk_label v, vt_status = va_status v,
              vt_deposit_cap = dec_to_string (va_deposit_cap v),
              vt_total_assets = map_option (dec_to_string \<circ> sn_total_assets) s,
              vt_exit_fee_bps = map_option sn_exit_fee_bps s, vt_indexed_at = ap_time E k (OfVault v)\<rparr>)
         (sort_key va_address (scan E k (filter (\<lambda>v. va_chain_id v = st_chain_id st) (vaults d)))))) (\<lambda>vs.
     bindM (latest_freshness E) (\<lambda>fresh.
     retM \<lparr>vl_vaults = vs, vl_freshness = fresh\<rparr>))"

definition get_vault :: "aenv \<Rightarrow> AppState \<Rightarrow> string \<Rightarrow> VaultDetailResponse api" where
  "get_vault E st address =
     bindM (liftR (decode_address_param E address)) (\<lambda>b.
     bindM (select E OfVault
             (\<lambda>d. filter (\<lambda>v. va_chain_id v = st_chain_id st \<and> addr_bytea (va_address v) = b) (vaults d))
             (\<lambda>_. ()) (Some 1)) (\<lambda>rows.
     bindM (ok_or NotFound (first_row rows)) (\<lambda>(v, t).
     bindM (select E OfSnapshot
             (\<lambda>d. filter (\<lambda>s. sn_chain_id s = st_chain_id st \<and> addr_bytea (sn_contract s) = b) (vault_snapshots d))
             sn_block_number (Some 500)) (\<lambda>tvl.
     bindM (freshness_of E (map_option (\<lambda>(s, ts). (sn_block_number s, ts)) (last_row tvl))) (\<lambda>fresh.
     retM \<lparr>vx_vault =
             \<lparr>vd_chain_id = st_chain_id st, vd_address = addr_to_hex E (addr_bytea (va_address v)),
              vd_name = va_name v, vd_risk_label = va_risk_label v, vd_status = va_status v,
              vd_deposit_cap = dec_to_string (va_deposit_cap v),
              vd_tvl_history = map (\<lambda>(s, ts). \<lparr>tv_block_number = sn_block_number s,
                tv_total_assets = dec_to_string (sn_total_assets s),
                tv_total_supply = dec_to_string (sn_total_supply s), tv_indexed_at = ts\<rparr>) tvl,
              vd_indexed_at = t\<rparr>,
           vx_freshness = fresh\<rparr>)))))"

section \<open>Governance\<close>

definition weight_entry :: "aenv \<Rightarrow> weight_row \<times> int \<Rightarrow> WeightHistoryEntry" where
  "weight_entry E rt = (case rt of (r, t) \<Rightarrow>
     \<lparr>wh_block_number = we_block_number r, wh_tx_hash = hash_to_hex E (hash_bytea (we_tx_hash r)),
      wh_weights = map (\<lambda>(v, b). \<lparr>vw_vault = addr_to_hex E (addr_bytea v), vw_bps = b\<rparr>) (zip (we_vaults r) (we_bps r)),
      wh_indexed_at = t\<rparr>)"

definition weight_rows :: "aenv \<Rightarrow> AppState \<Rightarrow> (weight_row \<times> int) list api" where
  "weight_rows E st =
     select E OfWeights (\<lambda>d. filter (\<lambda>r. we_chain_id r = st_chain_id st) (router_weight_snapshots d))
       (\<lambda>r. (we_block_number r, we_log_index r)) (Some 500)"

definition last_weights :: "WeightHistoryEntry list \<Rightarrow> VaultWeight list" where
  "last_weights history = (case last_row history of Some e \<Rightarrow> wh_weights e | None \<Rightarrow> [])"

definition entry_stamp :: "WeightHistoryEntry \<Rightarrow> int \<times> int" where
  "entry_stamp e = (wh_block_number e, wh_indexed_at e)"

definition get_router_weights :: "aenv \<Rightarrow> AppState \<Rightarrow> RouterWeightsResponse api" where
  "get_router_weights E st =
     bindM (weight_rows E st) (\<lambda>rows.
     let history0 = map (weight_entry E) rows;
         current_weights = last_weights history0;
         history = sort_key wh_block_number history0 in
     bindM (freshness_of E (map_option entry_stamp (last_row history))) (\<lambda>fresh.
     retM \<lparr>rw_current_weights = current_weights, rw_history = history, rw_freshness = fresh\<rparr>))"

definition list_proposals :: "aenv \<Rightarrow> AppState \<Rightarrow> ProposalsResponse api" where
  "list_proposals E st =
     bindM (select E OfProposal (\<lambda>d. filter (\<lambda>r. pr_chain_id r = st_chain_id st) (governance_proposals d))
             (\<lambda>r. (- pr_block_number r, - pr_proposal_id r)) (Some 500)) (\<lambda>rows.
     bindM (freshness_of E (map_option (\<lambda>(r, t). (pr_block_number r, t)) (first_row rows))) (\<lambda>fresh.
     retM \<lparr>pl_proposals = map (\<lambda>(r, t).
             \<lparr>ps_chain_id = pr_chain_id r, ps_proposal_id = pr_proposal_id r,
              ps_proposer = addr_to_hex E (addr_bytea (pr_proposer r)), ps_description = pr_description r,
              ps_created_at = pr_created_at r, ps_deadline_block = pr_deadline_block r,
              ps_status = proposal_status_label (pr_status r), ps_votes_for = pr_votes_for r,
              ps_votes_against = pr_votes_against r, ps_block_number = pr_block_number r, ps_indexed_at = t\<rparr>) rows,
           pl_freshness = fresh\<rparr>))"

definition vote_entry :: "aenv \<Rightarrow> vote_row \<Rightarrow> VoteEntry" where
  "vote_entry E v =
     \<lparr>ve_voter = addr_to_hex E (addr_bytea (vo_voter v)), ve_support = vo_support v,
      ve_weight = dec_to_string (vo_weight v), ve_block_number = vo_block_number v,
      ve_tx_hash = hash_to_hex E (hash_bytea (vo_tx_hash v))\<rparr>"

definition get_proposal :: "aenv \<Rightarrow> AppState \<Rightarrow> int \<Rightarrow> ProposalDetailResponse api" where
  "get_proposal E st i =
     bindM (select E OfProposal
             (\<lambda>d. filter (\<lambda>r. pr_chain_id r = st_chain_id st \<and> pr_proposal_id r = i) (governance_proposals d))
             (\<lambda>_. ()) (Some 1)) (\<lambda>rows.
     bindM (ok_or NotFound (first_row rows)) (\<lambda>(r, t).
     bindM (query E (\<lambda>k d. sort_key (\<lambda>v. (vo_block_number v, vo_voter v))
              (scan E k (filter (\<lambda>v. vo_chain_id v = st_chain_id st \<and> vo_proposal_id v = pr_proposal_id r)
                (governance_votes d))))) (\<lambda>vs.
     retM \<lparr>px_proposal =
             \<lparr>pd_chain_id = pr_chain_id r, pd_proposal_id = pr_proposal_id r,
              pd_proposer = addr_to_hex E (addr_bytea (pr_proposer r)), pd_description = pr_description r,
              pd_created_at = pr_created_at r, pd_deadline_block = pr_deadline_block r,
              pd_status = proposal_status_label (pr_status r), pd_votes_for = pr_votes_for r,
              pd_votes_against = pr_votes_against r, pd_executed_block = pr_executed_block r,
              pd_block_number = pr_block_number r, pd_indexed_at = t, pd_votes = map (vote_entry E) vs\<rparr>,
           px_freshness = \<lparr>fr_block_number = pr_block_number r, fr_indexed_at = t\<rparr>\<rparr>)))"

section \<open>Protocol statistics\<close>

text \<open>
  \<open>SUM\<close> over the newest snapshot of every contract; \<open>NULL\<close> without rows. The sum is a \<open>NUMERIC\<close> value, without
  the bound of a 256-bit word.
\<close>

definition latest_per_contract :: "int \<Rightarrow> explorer_db \<Rightarrow> snapshot_row list" where
  "latest_per_contract c d =
     distinct_on (\<lambda>s. (sn_chain_id s, sn_contract s))
       (sort_key (\<lambda>s. (sn_chain_id s, sn_contract s, - sn_block_number s))
         (filter (\<lambda>s. sn_chain_id s = c) (vault_snapshots d)))"

definition sum_total_assets :: "int \<Rightarrow> explorer_db \<Rightarrow> nat option" where
  "sum_total_assets c d =
     (let rows = latest_per_contract c d in
      if rows = [] then None else Some (sum_list (map (unat \<circ> sn_total_assets) rows)))"

definition deposit_vault :: "deposit_row \<Rightarrow> address" where
  "deposit_vault r = (case ds_vault r of Some v \<Rightarrow> v | None \<Rightarrow> ds_share_receiver r)"

definition get_stats :: "aenv \<Rightarrow> AppState \<Rightarrow> StatsResponse api" where
  "get_stats E st =
     bindM (query E (\<lambda>k d. sum_total_assets (st_chain_id st) d)) (\<lambda>tvl.
     bindM (query E (\<lambda>k d. card (ds_share_receiver ` set (filter (\<lambda>r. ds_chain_id r = st_chain_id st) (agent_deposits d))))) (\<lambda>n.
     bindM (select E OfDeposit (\<lambda>d. filter (\<lambda>r. ds_chain_id r = st_chain_id st) (agent_deposits d))
             (\<lambda>r. (- ds_block_number r, - ds_log_index r)) (Some 50)) (\<lambda>rows.
     bindM (latest_freshness E) (\<lambda>fresh.
     retM \<lparr>ss_total_tvl = (case tvl of Some v \<Rightarrow> show_nat v | None \<Rightarrow> ''0''), ss_unique_depositors = n,
           ss_activity_feed = map (\<lambda>(r, t).
             \<lparr>ae_chain_id = ds_chain_id r, ae_block_number = ds_block_number r, ae_log_index = ds_log_index r,
              ae_tx_hash = hash_to_hex E (hash_bytea (ds_tx_hash r)),
              ae_vault = addr_to_hex E (addr_bytea (deposit_vault r)),
              ae_agent = addr_to_hex E (addr_bytea (ds_agent r)),
              ae_share_receiver = addr_to_hex E (addr_bytea (ds_share_receiver r)),
              ae_amount = dec_to_string (ds_amount r), ae_indexed_at = t\<rparr>) rows,
           ss_freshness = fresh\<rparr>))))"

definition get_router_state :: "aenv \<Rightarrow> AppState \<Rightarrow> RouterStateResponse api" where
  "get_router_state E st =
     bindM (weight_rows E st) (\<lambda>rows.
     let history = map (weight_entry E) rows in
     bindM (freshness_of E (map_option entry_stamp (last_row history))) (\<lambda>fresh.
     retM \<lparr>rs_current_weights = last_weights history, rs_history = history, rs_freshness = fresh\<rparr>))"

section \<open>Accounts\<close>

text \<open>The newest position of the owner per contract, each with the newest snapshot of the contract.\<close>

definition position_rows :: "int \<Rightarrow> bytes \<Rightarrow> explorer_db \<Rightarrow> (position_row \<times> snapshot_row option) list" where
  "position_rows c b d =
     map (\<lambda>p. (p, newest_snapshot d (wp_chain_id p) (wp_contract p)))
       (sort_key wp_contract
         (distinct_on (\<lambda>p. (wp_chain_id p, wp_contract p))
           (sort_key (\<lambda>p. (wp_chain_id p, wp_contract p, - wp_block_number p))
             (filter (\<lambda>p. wp_chain_id p = c \<and> addr_bytea (wp_owner p) = b) (wallet_positions d)))))"

definition usdc_value :: "aenv \<Rightarrow> u256 \<Rightarrow> snapshot_row option \<Rightarrow> string option" where
  "usdc_value E shares s =
     (case s of
        Some r \<Rightarrow>
          if sn_total_supply r \<noteq> 0
          then Some (show_nat (ap_quotient E (unat shares * unat (sn_total_assets r)) (unat (sn_total_supply r))))
          else None
      | None \<Rightarrow> None)"

definition get_account_positions :: "aenv \<Rightarrow> AppState \<Rightarrow> string \<Rightarrow> AccountPositionsResponse api" where
  "get_account_positions E st address =
     bindM (liftR (decode_address_param E address)) (\<lambda>b.
     bindM (query E (\<lambda>k d. map (\<lambda>(p, s).
              \<lparr>vp_vault = addr_to_hex E (addr_bytea (wp_contract p)), vp_shares = dec_to_string (wp_shares p),
               vp_usdc_value = usdc_value E (wp_shares p) s, vp_block_number = wp_block_number p,
               vp_indexed_at = ap_time E k (OfPosition p)\<rparr>) (position_rows (st_chain_id st) b d))) (\<lambda>ps.
     bindM (freshness_of E (map_option (\<lambda>p. (vp_block_number p, vp_indexed_at p)) (first_row ps))) (\<lambda>fresh.
     retM \<lparr>pp_address = addr_to_hex E b, pp_positions = ps, pp_freshness = fresh\<rparr>)))"

definition get_account_history :: "aenv \<Rightarrow> AppState \<Rightarrow> string \<Rightarrow> AccountHistoryResponse api" where
  "get_account_history E st address =
     bindM (liftR (decode_address_param E address)) (\<lambda>b.
     bindM (select E OfDeposit
             (\<lambda>d. filter (\<lambda>r. ds_chain_id r = st_chain_id st \<and> addr_bytea (ds_share_receiver r) = b) (agent_deposits d))
             (\<lambda>r. (ds_block_number r, ds_log_index r)) (Some 500)) (\<lambda>rows.
     bindM (freshness_of E (map_option (\<lambda>(r, t). (ds_block_number r, t)) (last_row rows))) (\<lambda>fresh.
     retM \<lparr>ah_address = addr_to_hex E b,
           ah_events = map (\<lambda>(r, t).
             \<lparr>hi_kind = DepositEvent, hi_chain_id = ds_chain_id r, hi_block_number = ds_block_number r,
              hi_log_index = ds_log_index r, hi_tx_hash = hash_to_hex E (hash_bytea (ds_tx_hash r)),
              hi_vault = addr_to_hex E (addr_bytea (deposit_vault r)),
              hi_agent = addr_to_hex E (addr_bytea (ds_agent r)), hi_amount = dec_to_string (ds_amount r),
              hi_indexed_at = t\<rparr>) rows,
           ah_freshness = fresh\<rparr>)))"

section \<open>Routes and responses\<close>

datatype Endpoint =
    EHealth | EContracts string | ELatestSnapshot | ESnapshots | EAgent string | EAgentDeposits string
  | ETransaction string | EDeposit string | EVaults | EVault string | EWeights | EProposals | EProposal string
  | EStats | ERouterState | EPositions string | EHistory string

text \<open>The route table over the segments of the path; a parameter segment is not empty.\<close>

definition routes :: "string list \<Rightarrow> Endpoint option" where
  "routes segs =
     (if segs = [''health''] then Some EHealth
      else if segs = [''v1'', ''vault'', ''snapshot'', ''latest''] then Some ELatestSnapshot
      else if segs = [''v1'', ''vault'', ''snapshots''] then Some ESnapshots
      else if segs = [''v1'', ''vaults''] then Some EVaults
      else if segs = [''v1'', ''router'', ''weights''] then Some EWeights
      else if segs = [''v1'', ''governance'', ''proposals''] then Some EProposals
      else if segs = [''v1'', ''stats''] then Some EStats
      else if segs = [''v1'', ''router'', ''state''] then Some ERouterState
      else
        case segs of
          [v, res, p] \<Rightarrow>
            if v \<noteq> ''v1'' \<or> p = [] then None
            else if res = ''agents'' then Some (EAgent p)
            else if res = ''transactions'' then Some (ETransaction p)
            else if res = ''deposits'' then Some (EDeposit p)
            else if res = ''vaults'' then Some (EVault p)
            else None
        | [v, res, p, q] \<Rightarrow>
            if v \<noteq> ''v1'' then None
            else if res = ''chains'' \<and> q = ''contracts'' \<and> p \<noteq> [] then Some (EContracts p)
            else if res = ''agents'' \<and> q = ''deposits'' \<and> p \<noteq> [] then Some (EAgentDeposits p)
            else if res = ''governance'' \<and> p = ''proposals'' \<and> q \<noteq> [] then Some (EProposal q)
            else if res = ''accounts'' \<and> q = ''positions'' \<and> p \<noteq> [] then Some (EPositions p)
            else if res = ''accounts'' \<and> q = ''history'' \<and> p \<noteq> [] then Some (EHistory p)
            else None
        | _ \<Rightarrow> None)"

datatype ApiBody =
    BHealth Health | BContracts ContractsResponse | BSnapshots VaultSnapshotsResponse | BAgent AgentResponse
  | BDeposits DepositsResponse | BTransaction TransactionResponse | BDeposit DepositResponse | BVaults VaultsResponse
  | BVault VaultDetailResponse | BWeights RouterWeightsResponse | BProposals ProposalsResponse
  | BProposal ProposalDetailResponse | BStats StatsResponse | BRouterState RouterStateResponse
  | BPositions AccountPositionsResponse | BHistory AccountHistoryResponse
  | BError string string | BRejection | BEmpty

text \<open>\<open>str::parse::<i64>()\<close>, as the path extractor applies it.\<close>

definition parse_i64 :: "string \<Rightarrow> int option" where
  "parse_i64 s =
     (let neg = (s \<noteq> [] \<and> hd s = CHR ''-''); ds = (if s \<noteq> [] \<and> hd s \<in> {CHR ''-'', CHR ''+''} then tl s else s) in
      if ds = [] then None
      else case dec_digits ds 0 of
             None \<Rightarrow> None
           | Some n \<Rightarrow>
               if neg then (if n \<le> 2 ^ 63 then Some (- int n) else None)
               else (if n < 2 ^ 63 then Some (int n) else None))"

definition mapM :: "('a \<Rightarrow> 'b) \<Rightarrow> ('s, 'e, 'a) io \<Rightarrow> ('s, 'e, 'b) io" where
  "mapM f m = bindM m (\<lambda>x. retM (f x))"

text \<open>\<open>Path<i64>\<close>: a segment that is no number is rejected before the handler runs.\<close>

definition with_i64 :: "string \<Rightarrow> (int \<Rightarrow> ApiBody api) \<Rightarrow> ApiBody api" where
  "with_i64 s k = (case parse_i64 s of None \<Rightarrow> retM BRejection | Some n \<Rightarrow> k n)"

fun handler :: "aenv \<Rightarrow> AppState \<Rightarrow> SnapshotsQuery \<Rightarrow> Endpoint \<Rightarrow> ApiBody api" where
  "handler E st q EHealth = mapM BHealth (health E)"
| "handler E st q (EContracts p) = with_i64 p (\<lambda>c. mapM BContracts (list_contracts E c))"
| "handler E st q ELatestSnapshot = mapM BSnapshots (latest_vault_snapshot E)"
| "handler E st q ESnapshots = mapM BSnapshots (list_vault_snapshots E q)"
| "handler E st q (EAgent p) = mapM BAgent (get_agent E st p)"
| "handler E st q (EAgentDeposits p) = mapM BDeposits (list_agent_deposits E st p)"
| "handler E st q (ETransaction p) = mapM BTransaction (get_transaction E st p)"
| "handler E st q (EDeposit p) = mapM BDeposit (get_deposit E st p)"
| "handler E st q EVaults = mapM BVaults (list_vaults E st)"
| "handler E st q (EVault p) = mapM BVault (get_vault E st p)"
| "handler E st q EWeights = mapM BWeights (get_router_weights E st)"
| "handler E st q EProposals = mapM BProposals (list_proposals E st)"
| "handler E st q (EProposal p) = with_i64 p (\<lambda>i. mapM BProposal (get_proposal E st i))"
| "handler E st q EStats = mapM BStats (get_stats E st)"
| "handler E st q ERouterState = mapM BRouterState (get_router_state E st)"
| "handler E st q (EPositions p) = mapM BPositions (get_account_positions E st p)"
| "handler E st q (EHistory p) = mapM BHistory (get_account_history E st p)"

record Response =
  re_status :: nat
  re_body :: ApiBody

fun into_response :: "ApiError \<Rightarrow> Response" where
  "into_response NotFound = \<lparr>re_status = 404, re_body = BError ''not_found'' ''resource not found''\<rparr>"
| "into_response (BadRequest m) = \<lparr>re_status = 400, re_body = BError ''bad_request'' m\<rparr>"
| "into_response (Database err) = \<lparr>re_status = 500, re_body = BError ''internal_error'' ''internal error''\<rparr>"

definition ok_response :: "ApiBody \<Rightarrow> Response" where
  "ok_response b = \<lparr>re_status = (if b = BRejection then 400 else 200), re_body = b\<rparr>"

definition not_found :: Response where
  "not_found = \<lparr>re_status = 404, re_body = BError ''not_found'' ''no such resource''\<rparr>"

datatype Method = GET | HEAD | OtherMethod

text \<open>
  A route made by \<open>get\<close> also answers \<open>HEAD\<close>, without the body; another method on a known path is refused.
\<close>

definition answered :: "ApiError + ApiBody \<Rightarrow> Response" where
  "answered r = (case r of Inl err \<Rightarrow> into_response err | Inr b \<Rightarrow> ok_response b)"

definition without_body :: "Method \<Rightarrow> Response \<Rightarrow> Response" where
  "without_body m r = (if m = HEAD then r\<lparr>re_body := BEmpty\<rparr> else r)"

definition router :: "aenv \<Rightarrow> AppState \<Rightarrow> Method \<Rightarrow> string list \<Rightarrow> SnapshotsQuery \<Rightarrow> aworld \<Rightarrow> Response \<times> aworld" where
  "router E st m segs q w =
     (case routes segs of
        None \<Rightarrow> (without_body m not_found, w)
      | Some e \<Rightarrow>
          if m = OtherMethod then (\<lparr>re_status = 405, re_body = BEmpty\<rparr>, w)
          else (case handler E st q e w of (r, w') \<Rightarrow> (without_body m (answered r), w')))"

end
