(* ===== verification/Api_Scope.thy ===== *)
theory Api_Scope
  imports Api_Routes
begin

text \<open>
  What an answer of the explorer API depends on. The locale \<open>request_pair\<close> relates the runs of one request
  against two environments; its lemmas carry the relation through every handler. Interpreted on the
  environment with only the rows of the configured chain it shows that the scoped endpoints never see
  another chain; interpreted on the environment whose database errors have no text it shows that no answer
  carries an error message of the database.
\<close>

section \<open>Two runs of a request\<close>

definition sim :: "(aworld \<Rightarrow> aworld \<Rightarrow> bool) \<Rightarrow> (ApiError \<Rightarrow> ApiError \<Rightarrow> bool) \<Rightarrow> ('a \<Rightarrow> 'b \<Rightarrow> bool) \<Rightarrow> 'a api \<Rightarrow> 'b api \<Rightarrow> bool" where
  "sim W X R m m' \<longleftrightarrow> (\<forall>w w'. W w w' \<longrightarrow> rel_prod (rel_sum X R) W (m w) (m' w'))"

lemma sim_bindM:
  assumes "sim W X R m m'" and "\<And>x x'. R x x' \<Longrightarrow> sim W X S (k x) (k' x')"
  shows "sim W X S (bindM m k) (bindM m' k')"
proof -
  have "rel_prod (rel_sum X S) W (bindM m k w) (bindM m' k' w')" if "W w w'" for w w'
  proof (cases "m w"; cases "m' w'")
    fix r v r' v'
    assume runs: "m w = (r, v)" "m' w' = (r', v')"
    have rel: "rel_sum X R r r'" "W v v'" using assms(1) that runs by (force simp: sim_def)+
    then show ?thesis
      using assms(2) by (cases rule: rel_sum.cases) (auto simp: bindM_def runs sim_def)
  qed
  then show ?thesis by (simp add: sim_def)
qed

lemma sim_retM: "R x x' \<Longrightarrow> sim W X R (retM x) (retM x')"
  by (simp add: sim_def retM_def)

lemma sim_failM: "X e e' \<Longrightarrow> sim W X R (failM e) (failM e')"
  by (simp add: sim_def failM_def)

lemma sim_mono: "sim W X R m m' \<Longrightarrow> (\<And>x x'. R x x' \<Longrightarrow> S x x') \<Longrightarrow> sim W X S m m'"
  by (fastforce simp: sim_def rel_prod_sel elim: sum.rel_mono_strong)

lemma sim_if: "sim W X R m m' \<Longrightarrow> sim W X R k k' \<Longrightarrow> sim W X R (if b then m else k) (if b then m' else k')"
  by simp

lemma sim_eq_bindM:
  "sim W X (=) m m' \<Longrightarrow> (\<And>x. sim W X S (k x) (k' x)) \<Longrightarrow> sim W X S (bindM m k) (bindM m' k')"
  by (rule sim_bindM [where R = "(=)"]) auto

text \<open>A response without its freshness, and its freshness.\<close>

definition stale :: Freshness where "stale = \<lparr>fr_block_number = 0, fr_indexed_at = 0\<rparr>"

fun set_fresh :: "Freshness \<Rightarrow> ApiBody \<Rightarrow> ApiBody" where
  "set_fresh f (BContracts r) = BContracts (r\<lparr>cr_freshness := f\<rparr>)"
| "set_fresh f (BSnapshots r) = BSnapshots (r\<lparr>vs_freshness := f\<rparr>)"
| "set_fresh f (BAgent r) = BAgent (r\<lparr>ar_freshness := f\<rparr>)"
| "set_fresh f (BDeposits r) = BDeposits (r\<lparr>dr_freshness := f\<rparr>)"
| "set_fresh f (BTransaction r) = BTransaction (r\<lparr>tp_freshness := f\<rparr>)"
| "set_fresh f (BDeposit r) = BDeposit (r\<lparr>d1_freshness := f\<rparr>)"
| "set_fresh f (BVaults r) = BVaults (r\<lparr>vl_freshness := f\<rparr>)"
| "set_fresh f (BVault r) = BVault (r\<lparr>vx_freshness := f\<rparr>)"
| "set_fresh f (BWeights r) = BWeights (r\<lparr>rw_freshness := f\<rparr>)"
| "set_fresh f (BProposals r) = BProposals (r\<lparr>pl_freshness := f\<rparr>)"
| "set_fresh f (BProposal r) = BProposal (r\<lparr>px_freshness := f\<rparr>)"
| "set_fresh f (BStats r) = BStats (r\<lparr>ss_freshness := f\<rparr>)"
| "set_fresh f (BRouterState r) = BRouterState (r\<lparr>rs_freshness := f\<rparr>)"
| "set_fresh f (BPositions r) = BPositions (r\<lparr>pp_freshness := f\<rparr>)"
| "set_fresh f (BHistory r) = BHistory (r\<lparr>ah_freshness := f\<rparr>)"
| "set_fresh f b = b"

abbreviation forget :: "ApiBody \<Rightarrow> ApiBody" where
  "forget \<equiv> set_fresh stale"

fun body_freshness :: "ApiBody \<Rightarrow> Freshness option" where
  "body_freshness (BContracts r) = Some (cr_freshness r)"
| "body_freshness (BSnapshots r) = Some (vs_freshness r)"
| "body_freshness (BAgent r) = Some (ar_freshness r)"
| "body_freshness (BDeposits r) = Some (dr_freshness r)"
| "body_freshness (BTransaction r) = Some (tp_freshness r)"
| "body_freshness (BDeposit r) = Some (d1_freshness r)"
| "body_freshness (BVaults r) = Some (vl_freshness r)"
| "body_freshness (BVault r) = Some (vx_freshness r)"
| "body_freshness (BWeights r) = Some (rw_freshness r)"
| "body_freshness (BProposals r) = Some (pl_freshness r)"
| "body_freshness (BProposal r) = Some (px_freshness r)"
| "body_freshness (BStats r) = Some (ss_freshness r)"
| "body_freshness (BRouterState r) = Some (rs_freshness r)"
| "body_freshness (BPositions r) = Some (pp_freshness r)"
| "body_freshness (BHistory r) = Some (ah_freshness r)"
| "body_freshness b = None"

definition same_body :: "(Freshness \<Rightarrow> Freshness \<Rightarrow> bool) \<Rightarrow> ApiBody \<Rightarrow> ApiBody \<Rightarrow> bool" where
  "same_body T b b' \<longleftrightarrow> forget b = forget b' \<and> rel_option T (body_freshness b) (body_freshness b')"

text \<open>The endpoints whose handler takes the configured chain.\<close>

fun scoped :: "Endpoint \<Rightarrow> bool" where
  "scoped EHealth = False"
| "scoped (EContracts p) = False"
| "scoped ELatestSnapshot = False"
| "scoped ESnapshots = False"
| "scoped e = True"

locale request_pair =
  fixes E E' :: aenv and W :: "aworld \<Rightarrow> aworld \<Rightarrow> bool" and X :: "ApiError \<Rightarrow> ApiError \<Rightarrow> bool"
    and T :: "Freshness \<Rightarrow> Freshness \<Rightarrow> bool" and c :: int
  assumes statements: "W w w' \<Longrightarrow> aw_statements w = aw_statements w'"
    and next_statement: "W w w' \<Longrightarrow> W (w\<lparr>aw_statements := Suc n\<rparr>) (w'\<lparr>aw_statements := Suc n\<rparr>)"
    and same_error: "X e e"
    and faults: "rel_option (\<lambda>e e'. X (Database e) (Database e')) (ap_fault E k) (ap_fault E' k)"
    and same_env: "ap_plan E' = ap_plan E" "ap_time E' = ap_time E" "ap_hex_decode E' = ap_hex_decode E"
      "ap_hex_encode E' = ap_hex_encode E" "ap_quotient E' = ap_quotient E"
    and fresh: "sim W X T (latest_freshness E) (latest_freshness E')"
    and same_fresh: "T f f"
    and view: "filter (\<lambda>r. po_chain_id r = c) (agent_policies (ap_db E' k)) =
        filter (\<lambda>r. po_chain_id r = c) (agent_policies (ap_db E k))"
      "filter (\<lambda>r. ds_chain_id r = c) (agent_deposits (ap_db E' k)) =
        filter (\<lambda>r. ds_chain_id r = c) (agent_deposits (ap_db E k))"
      "filter (\<lambda>r. xa_chain_id r = c) (transactions (ap_db E' k)) = filter (\<lambda>r. xa_chain_id r = c) (transactions (ap_db E k))"
      "filter (\<lambda>r. va_chain_id r = c) (vaults (ap_db E' k)) = filter (\<lambda>r. va_chain_id r = c) (vaults (ap_db E k))"
      "filter (\<lambda>r. sn_chain_id r = c) (vault_snapshots (ap_db E' k)) =
        filter (\<lambda>r. sn_chain_id r = c) (vault_snapshots (ap_db E k))"
      "filter (\<lambda>r. we_chain_id r = c) (router_weight_snapshots (ap_db E' k)) =
        filter (\<lambda>r. we_chain_id r = c) (router_weight_snapshots (ap_db E k))"
      "filter (\<lambda>r. pr_chain_id r = c) (governance_proposals (ap_db E' k)) =
        filter (\<lambda>r. pr_chain_id r = c) (governance_proposals (ap_db E k))"
      "filter (\<lambda>r. vo_chain_id r = c) (governance_votes (ap_db E' k)) =
        filter (\<lambda>r. vo_chain_id r = c) (governance_votes (ap_db E k))"
      "filter (\<lambda>r. wp_chain_id r = c) (wallet_positions (ap_db E' k)) =
        filter (\<lambda>r. wp_chain_id r = c) (wallet_positions (ap_db E k))"
begin

lemma sim_query:
  assumes "\<And>k. f k (ap_db E k) = f' k (ap_db E' k)"
  shows "sim W X (=) (query E f) (query E' f')"
proof -
  have "rel_prod (rel_sum X (=)) W (query E f w) (query E' f' w')" if w: "W w w'" for w w'
    using faults [of "aw_statements w"] assms next_statement [OF w] statements [OF w]
    by (cases "ap_fault E (aw_statements w)"; cases "ap_fault E' (aw_statements w)")
       (simp_all add: query_def Let_def)
  then show ?thesis by (simp add: sim_def)
qed

lemma scan_same [simp]: "scan E' = scan E"
  by (simp add: fun_eq_iff scan_def same_env)

lemma sim_select:
  "(\<And>k. rows (ap_db E' k) = rows (ap_db E k)) \<Longrightarrow> sim W X (=) (select E st rows key lim) (select E' st rows key lim)"
  unfolding select_def by (rule sim_query) (simp add: same_env)

lemma sim_liftR: "sim W X (=) (liftR r) (liftR r)"
  using same_error by (cases r) (auto simp: sim_def liftR_def)

lemma sim_ok_or: "sim W X (=) (ok_or e r) (ok_or e r)"
  using same_error by (cases r) (auto simp: ok_or_def intro: sim_retM sim_failM)

lemma sim_freshness_of: "sim W X T (freshness_of E row) (freshness_of E' row)"
  using fresh same_fresh by (auto simp: freshness_of_def intro: sim_retM split: option.split)

lemma sim_fresh_bindM:
  "(\<And>f f'. T f f' \<Longrightarrow> sim W X S (k f) (k' f')) \<Longrightarrow> sim W X S (bindM (latest_freshness E) k) (bindM (latest_freshness E') k')"
  "(\<And>f f'. T f f' \<Longrightarrow> sim W X S (k f) (k' f')) \<Longrightarrow> sim W X S (bindM (freshness_of E r) k) (bindM (freshness_of E' r) k')"
  using sim_bindM fresh sim_freshness_of by blast+

lemma hex_same [simp]: "addr_to_hex E' = addr_to_hex E" "hash_to_hex E' = hash_to_hex E"
  "decode_address_param E' = decode_address_param E" "decode_hash_param E' = decode_hash_param E"
  "usdc_value E' = usdc_value E" "deposit_from_row E' = deposit_from_row E" "weight_entry E' = weight_entry E"
  "vote_entry E' = vote_entry E"
  by (intro ext; simp only: addr_to_hex_def hash_to_hex_def decode_address_param_def decode_hash_param_def
      usdc_value_def deposit_from_row_def weight_entry_def vote_entry_def same_env)+

lemma filter_view:
  assumes "filter P ys = filter P xs"
  shows "filter (\<lambda>r. P r \<and> Q r) ys = filter (\<lambda>r. P r \<and> Q r) xs"
proof -
  have "filter Q (filter P ys) = filter Q (filter P xs)" by (simp only: assms)
  then show ?thesis by (simp add: conj_commute)
qed

lemmas views = view view [THEN filter_view]

lemma newest_same: "newest_snapshot (ap_db E' k) c a = newest_snapshot (ap_db E k) c a"
  by (simp add: newest_snapshot_def views)

lemmas sim_rules = sim_eq_bindM [OF sim_liftR] sim_eq_bindM [OF sim_query] sim_eq_bindM [OF sim_select]
  sim_eq_bindM [OF sim_ok_or] sim_fresh_bindM sim_retM

lemma newest_same_scanned:
  assumes "v \<in> set (scan E k (filter (\<lambda>v. va_chain_id v = c) (vaults (ap_db E k))))"
  shows "newest_snapshot (ap_db E' k) (va_chain_id v) a = newest_snapshot (ap_db E k) (va_chain_id v) a"
proof -
  have "va_chain_id v = c" using subsetD [OF set_scan_subset assms] by simp
  then show ?thesis by (simp add: newest_same)
qed

lemma newest_same_position:
  assumes "p \<in> set (distinct_on f (sort_key g (filter (\<lambda>p. wp_chain_id p = c \<and> addr_bytea (wp_owner p) = b) xs)))"
  shows "newest_snapshot (ap_db E' k) (wp_chain_id p) a = newest_snapshot (ap_db E k) (wp_chain_id p) a"
proof -
  have "wp_chain_id p = c" using subsetD [OF set_distinct_on assms] by simp
  then show ?thesis by (simp add: newest_same)
qed

lemma positions_same: "position_rows c b (ap_db E' k) = position_rows c b (ap_db E k)"
  unfolding position_rows_def views
proof (rule map_cong [OF refl], goal_cases)
  case (1 p)
  then show ?case by (auto dest: newest_same_position [where k = k and a = "wp_contract p"])
qed

lemmas sim_same = same_body_def views same_fresh same_env newest_same newest_same_scanned positions_same

lemma sim_agent:
  assumes st: "st_chain_id st = c"
  shows "sim W X (\<lambda>r r'. same_body T (BAgent r) (BAgent r')) (get_agent E st p) (get_agent E' st p)"
    and "sim W X (\<lambda>r r'. same_body T (BDeposits r) (BDeposits r')) (list_agent_deposits E st p) (list_agent_deposits E' st p)"
    and "sim W X (\<lambda>r r'. same_body T (BTransaction r) (BTransaction r')) (get_transaction E st p) (get_transaction E' st p)"
    and "sim W X (\<lambda>r r'. same_body T (BDeposit r) (BDeposit r')) (get_deposit E st p) (get_deposit E' st p)"
  unfolding get_agent_def list_agent_deposits_def get_transaction_def get_deposit_def st case_prod_beta hex_same
  by (intro sim_rules; simp add: sim_same)+

lemma sim_vault:
  assumes st: "st_chain_id st = c"
  shows "sim W X (\<lambda>r r'. same_body T (BVaults r) (BVaults r')) (list_vaults E st) (list_vaults E' st)"
    and "sim W X (\<lambda>r r'. same_body T (BVault r) (BVault r')) (get_vault E st p) (get_vault E' st p)"
  unfolding list_vaults_def get_vault_def st case_prod_beta Let_def hex_same
  by (intro sim_rules; simp add: sim_same)+

lemma sim_governance:
  assumes st: "st_chain_id st = c"
  shows "sim W X (\<lambda>r r'. same_body T (BWeights r) (BWeights r')) (get_router_weights E st) (get_router_weights E' st)"
    and "sim W X (\<lambda>r r'. same_body T (BRouterState r) (BRouterState r')) (get_router_state E st) (get_router_state E' st)"
    and "sim W X (\<lambda>r r'. same_body T (BProposals r) (BProposals r')) (list_proposals E st) (list_proposals E' st)"
    and "sim W X (\<lambda>r r'. same_body T (BProposal r) (BProposal r')) (get_proposal E st i) (get_proposal E' st i)"
  unfolding get_router_weights_def get_router_state_def weight_rows_def list_proposals_def get_proposal_def st
    case_prod_beta Let_def hex_same
  by (intro sim_rules; simp add: sim_same)+

lemma sim_account:
  assumes st: "st_chain_id st = c"
  shows "sim W X (\<lambda>r r'. same_body T (BStats r) (BStats r')) (get_stats E st) (get_stats E' st)"
    and "sim W X (\<lambda>r r'. same_body T (BPositions r) (BPositions r')) (get_account_positions E st p) (get_account_positions E' st p)"
    and "sim W X (\<lambda>r r'. same_body T (BHistory r) (BHistory r')) (get_account_history E st p) (get_account_history E' st p)"
  unfolding get_stats_def get_account_positions_def get_account_history_def sum_total_assets_def latest_per_contract_def st
    case_prod_beta Let_def hex_same
  by (intro sim_rules; simp add: sim_same)+

lemma sim_mapM: "sim W X (\<lambda>r r'. same_body T (f r) (f r')) m m' \<Longrightarrow> sim W X (same_body T) (mapM f m) (mapM f m')"
  unfolding mapM_def by (erule sim_bindM) (rule sim_retM)

lemma sim_with_i64:
  "(\<And>n. sim W X (same_body T) (k n) (k' n)) \<Longrightarrow> sim W X (same_body T) (with_i64 s k) (with_i64 s k')"
  by (auto simp: with_i64_def same_body_def intro: sim_retM split: option.split)

lemma sim_scoped_handler:
  assumes st: "st_chain_id st = c" and "scoped e"
  shows "sim W X (same_body T) (handler E st q e) (handler E' st q e)"
  using assms(2)
  by (cases e) (simp_all add: sim_mapM sim_with_i64 sim_agent [OF st] sim_vault [OF st] sim_governance [OF st] sim_account [OF st])

end

text \<open>When the two environments have the same tables, all endpoints are related.\<close>

locale same_tables = request_pair +
  assumes same_db: "ap_db E' = ap_db E"
begin

lemma sim_unscoped:
  shows "sim W X (\<lambda>r r'. same_body T (BHealth r) (BHealth r')) (health E) (health E')"
    and "sim W X (\<lambda>r r'. same_body T (BContracts r) (BContracts r')) (list_contracts E n) (list_contracts E' n)"
    and "sim W X (\<lambda>r r'. same_body T (BSnapshots r) (BSnapshots r')) (list_vault_snapshots E q) (list_vault_snapshots E' q)"
  unfolding health_def runs_newest_first_def list_contracts_def current_freshness_def list_vault_snapshots_def
    snapshots_contract_def snapshot_of_row_def case_prod_beta Let_def hex_same
  by (intro sim_if sim_rules sim_failM same_error; simp add: same_body_def same_db)+

lemma sim_latest:
  "sim W X (\<lambda>r r'. same_body T (BSnapshots r) (BSnapshots r')) (latest_vault_snapshot E) (latest_vault_snapshot E')"
  unfolding latest_vault_snapshot_def snapshot_of_row_def case_prod_beta Let_def hex_same
proof (rule sim_eq_bindM [OF sim_select], goal_cases)
  case (2 rows)
  show ?case
    by (cases "first_row rows") (simp_all add: sim_failM sim_retM same_error same_body_def same_fresh)
qed (simp add: same_db)

lemma sim_handler:
  assumes st: "st_chain_id st = c"
  shows "sim W X (same_body T) (handler E st q e) (handler E' st q e)"
proof (cases "scoped e")
  case True
  then show ?thesis by (rule sim_scoped_handler [OF st])
next
  case False
  then show ?thesis by (cases e) (simp_all add: sim_mapM sim_with_i64 sim_unscoped sim_latest)
qed

end

section \<open>The configured chain\<close>

definition home :: "int \<Rightarrow> explorer_db \<Rightarrow> explorer_db" where
  "home c d =
     \<lparr>chains = filter (\<lambda>r. ch_chain_id r = c) (chains d), contracts = filter (\<lambda>r. co_chain_id r = c) (contracts d),
      blocks = filter (\<lambda>r. bl_chain_id r = c) (blocks d), transactions = filter (\<lambda>r. xa_chain_id r = c) (transactions d),
      agent_deposits = filter (\<lambda>r. ds_chain_id r = c) (agent_deposits d),
      router_deposit_legs = filter (\<lambda>r. lg_chain_id r = c) (router_deposit_legs d),
      agent_policies = filter (\<lambda>r. po_chain_id r = c) (agent_policies d),
      vault_snapshots = filter (\<lambda>r. sn_chain_id r = c) (vault_snapshots d),
      wallet_positions = filter (\<lambda>r. wp_chain_id r = c) (wallet_positions d),
      vaults = filter (\<lambda>r. va_chain_id r = c) (vaults d),
      governance_proposals = filter (\<lambda>r. pr_chain_id r = c) (governance_proposals d),
      governance_votes = filter (\<lambda>r. vo_chain_id r = c) (governance_votes d),
      router_weight_snapshots = filter (\<lambda>r. we_chain_id r = c) (router_weight_snapshots d),
      indexer_runs = filter (\<lambda>r. run_chain_id r = c) (indexer_runs d), run_seq = run_seq d\<rparr>"

definition only_chain :: "int \<Rightarrow> aenv \<Rightarrow> aenv" where
  "only_chain c E = E\<lparr>ap_db := \<lambda>k. home c (ap_db E k)\<rparr>"

definition same_count :: "aworld \<Rightarrow> aworld \<Rightarrow> bool" where
  "same_count w w' \<longleftrightarrow> aw_statements w = aw_statements w'"

text \<open>Reading the freshness takes one statement, whatever the tables hold.\<close>

lemma latest_freshness_count:
  "rel_prod (rel_sum (=) (\<lambda>_ _. True)) same_count (latest_freshness E w)
     (case ap_fault E (aw_statements w) of Some e \<Rightarrow> Inl (Database e) | None \<Rightarrow> Inr stale, w\<lparr>aw_statements := Suc (aw_statements w)\<rparr>)"
  by (auto simp: latest_freshness_def runs_newest_first_def select_def query_def utc_now_def bindM_def retM_def Let_def
      same_count_def split: option.split)

interpretation own: request_pair E "only_chain c E" same_count "(=)" "\<lambda>_ _. True" c for E c
proof
  show "sim same_count (=) (\<lambda>_ _. True) (latest_freshness E) (latest_freshness (only_chain c E))"
  proof -
    have "rel_prod (rel_sum (=) (\<lambda>_ _. True)) same_count (latest_freshness E w) (latest_freshness (only_chain c E) w')"
      if "same_count w w'" for w w'
      using latest_freshness_count [of E w] latest_freshness_count [of "only_chain c E" w'] that
      by (auto simp: only_chain_def same_count_def rel_prod_sel rel_sum_simps split: option.splits
          elim!: rel_sum.cases)
    then show ?thesis by (simp add: sim_def)
  qed
qed (simp_all add: only_chain_def home_def same_count_def option.rel_refl)

text \<open>What a client sees of a response but its freshness.\<close>

definition seen :: "Response \<Rightarrow> nat \<times> ApiBody" where
  "seen r = (re_status r, forget (re_body r))"

lemma forget_rejection: "forget b = BRejection \<longleftrightarrow> b = BRejection"
  by (cases b) auto

lemma seen_answered:
  assumes "rel_sum (=) (same_body T) r r'"
  shows "seen (without_body m (answered r)) = seen (without_body m (answered r'))"
  using assms
proof cases
  case (2 b b')
  then have "forget b = forget b'" by (simp add: same_body_def)
  moreover from this have "b = BRejection \<longleftrightarrow> b' = BRejection" by (metis forget_rejection)
  ultimately show ?thesis using 2 by (simp add: seen_def without_body_def answered_def ok_response_def)
qed simp

text \<open>
  C31. Chain scoping: for the thirteen endpoints whose handler takes the configured chain, the answer is the
  one an instance would give whose database holds the rows of that chain only, whatever the indexer writes
  between the statements of the request. Only the freshness header, taken from the newest run of any chain when the
  answer has no row of its own, may differ.
\<close>

theorem scoped_endpoints_see_own_chain:
  assumes "routes segs = Some e" and "scoped e"
  shows "seen (fst (router E st m segs q w)) = seen (fst (router (only_chain (st_chain_id st) E) st m segs q w))"
proof (cases "m = OtherMethod")
  case False
  have "rel_prod (rel_sum (=) (same_body (\<lambda>_ _. True))) same_count (handler E st q e w)
      (handler (only_chain (st_chain_id st) E) st q e w)"
    using own.sim_scoped_handler [OF refl assms(2)] by (simp add: sim_def same_count_def)
  then show ?thesis
    using False assms(1) by (auto simp: router_def intro: seen_answered elim!: rel_prod.cases split: prod.split)
qed (simp add: router_def assms(1))

section \<open>A demonstration instance\<close>

definition nibble :: "nat \<Rightarrow> char" where
  "nibble n = ''0123456789abcdef'' ! n"

definition demo_hex_encode :: "bytes \<Rightarrow> string" where
  "demo_hex_encode bs = concat (map (\<lambda>b. [nibble (unat b div 16), nibble (unat b mod 16)]) bs)"

fun demo_hex_decode :: "string \<Rightarrow> bytes option" where
  "demo_hex_decode [] = Some []"
| "demo_hex_decode [x] = None"
| "demo_hex_decode (x # y # s) =
     (case (hex_digit x, hex_digit y, demo_hex_decode s) of
        (Some a, Some b, Some bs) \<Rightarrow> Some (of_nat (16 * a + b) # bs) | _ \<Rightarrow> None)"

definition demo_api :: "explorer_db \<Rightarrow> aenv" where
  "demo_api d =
     \<lparr>ap_db = (\<lambda>_. d), ap_fault = (\<lambda>_. None), ap_plan = (\<lambda>_ n. [0..<n]), ap_time = (\<lambda>_ _. 7), ap_now = (\<lambda>_. 9),
      ap_hex_decode = demo_hex_decode, ap_hex_encode = demo_hex_encode, ap_quotient = (\<lambda>a b. a div b)\<rparr>"

definition no_rows :: explorer_db where
  "no_rows =
     \<lparr>chains = [], contracts = [], blocks = [], transactions = [], agent_deposits = [], router_deposit_legs = [],
      agent_policies = [], vault_snapshots = [], wallet_positions = [], vaults = [], governance_proposals = [],
      governance_votes = [], router_weight_snapshots = [], indexer_runs = [], run_seq = 1\<rparr>"

definition demo_snapshot :: "int \<Rightarrow> int \<Rightarrow> u256 \<Rightarrow> snapshot_row" where
  "demo_snapshot c n v = \<lparr>sn_chain_id = c, sn_contract = 2, sn_block_number = n, sn_total_assets = v, sn_total_supply = v,
     sn_exit_fee_bps = 0, sn_tvl_cap = 0, sn_paused = False\<rparr>"

definition demo_shared :: explorer_db where
  "demo_shared = no_rows\<lparr>vault_snapshots := [demo_snapshot 8453 5 100, demo_snapshot 1 9 4]\<rparr>"

abbreviation no_query :: SnapshotsQuery where
  "no_query \<equiv> \<lparr>sq_from_block = None, sq_to_block = None, sq_chain_id = None, sq_contract = None\<rparr>"

abbreviation aworld0 :: aworld where
  "aworld0 \<equiv> \<lparr>aw_statements = 0, aw_clock = 0\<rparr>"

lemma scan_demo [simp]: "scan (demo_api d) k rows = rows"
proof -
  have "filter (\<lambda>i. i < length rows) [0..<length rows] = [0..<length rows]" by (simp add: filter_id_conv)
  then show ?thesis by (simp add: scan_def demo_api_def map_nth)
qed

lemma demo_api_sel [simp]: "ap_db (demo_api d) k = d" "ap_fault (demo_api d) k = None" "ap_time (demo_api d) k r = 7"
  "ap_now (demo_api d) k = 9" "ap_hex_encode (demo_api d) = demo_hex_encode" "ap_hex_decode (demo_api d) = demo_hex_decode"
  by (simp_all add: demo_api_def)

lemmas api_eval = router_def routes_def without_body_def answered_def ok_response_def mapM_def io_eval select_def
  query_def Let_def first_row_def last_row_def ok_or_def

text \<open>
  The four remaining endpoints are not scoped, although the module header of \<open>state.rs\<close> says every query is:
  in a database with two chains, an instance for chain 8453 answers the newest snapshot of chain 1, and a
  request parameter selects that chain too.
\<close>

theorem unscoped_endpoints_show_other_chains:
  "(\<exists>r. fst (router (demo_api demo_shared) \<lparr>st_chain_id = 8453\<rparr> GET [''v1'', ''vault'', ''snapshot'', ''latest'']
          no_query aworld0) = \<lparr>re_status = 200, re_body = BSnapshots r\<rparr> \<and> map vn_chain_id (vs_snapshots r) = [1]) \<and>
   (\<exists>r. fst (router (demo_api demo_shared) \<lparr>st_chain_id = 8453\<rparr> GET [''v1'', ''vault'', ''snapshots'']
          (no_query\<lparr>sq_chain_id := Some 1\<rparr>) aworld0) = \<lparr>re_status = 200, re_body = BSnapshots r\<rparr> \<and>
          map vn_chain_id (vs_snapshots r) = [1])"
  by (simp add: api_eval latest_vault_snapshot_def list_vault_snapshots_def demo_shared_def no_rows_def demo_snapshot_def
      snapshot_of_row_def snapshots_contract_def freshness_of_def I64_MAX_def)

text \<open>Witness: the vault list of the shared database.\<close>

theorem scoped_endpoints_see_own_chain_witness:
  "routes [''v1'', ''stats''] = Some EStats \<and> scoped EStats \<and>
   seen (fst (router (demo_api demo_shared) \<lparr>st_chain_id = 8453\<rparr> GET [''v1'', ''stats''] no_query aworld0)) =
   seen (fst (router (only_chain 8453 (demo_api demo_shared)) \<lparr>st_chain_id = 8453\<rparr> GET [''v1'', ''stats''] no_query aworld0))"
proof -
  have "routes [''v1'', ''stats''] = Some EStats" "scoped EStats" by (simp_all add: routes_def)
  then show ?thesis
    using scoped_endpoints_see_own_chain [of "[''v1'', ''stats'']" EStats "demo_api demo_shared" "\<lparr>st_chain_id = 8453\<rparr>" GET
      no_query aworld0] by simp
qed

section \<open>Errors of the database\<close>

definition mute :: "aenv \<Rightarrow> aenv" where
  "mute E = E\<lparr>ap_fault := \<lambda>k. map_option (\<lambda>_. []) (ap_fault E k)\<rparr>"

definition same_response :: "ApiError \<Rightarrow> ApiError \<Rightarrow> bool" where
  "same_response e e' \<longleftrightarrow> into_response e = into_response e'"

interpretation muted: same_tables E "mute E" "(=)" same_response "(=)" c for E c
proof
  show "sim (=) same_response (=) (latest_freshness E) (latest_freshness (mute E))"
    by (auto simp: sim_def mute_def same_response_def latest_freshness_def runs_newest_first_def select_def query_def
        utc_now_def bindM_def retM_def Let_def scan_def split: option.split)
  show "rel_option (\<lambda>e e'. same_response (Database e) (Database e')) (ap_fault E k) (ap_fault (mute E) k)" for k
    by (cases "ap_fault E k") (simp_all add: mute_def same_response_def)
qed (simp_all add: mute_def same_response_def)

lemma set_fresh_twice: "set_fresh f (set_fresh g b) = set_fresh f b"
  by (cases b) simp_all

lemma set_fresh_own: "(case body_freshness b of Some f \<Rightarrow> set_fresh f b | None \<Rightarrow> set_fresh stale b) = b"
  by (cases b) simp_all

lemma same_body_eq:
  assumes "same_body (=) b b'"
  shows "b = b'"
proof -
  have f: "forget b = forget b'" and h: "body_freshness b' = body_freshness b"
    using assms by (simp_all add: same_body_def option.rel_eq)
  have "set_fresh g b = set_fresh g b'" for g
    using arg_cong [OF f, of "set_fresh g"] by (simp add: set_fresh_twice)
  then show ?thesis
    using set_fresh_own [of b] set_fresh_own [of b'] h by (cases "body_freshness b") simp_all
qed

text \<open>
  C34. No error text of the database reaches a client: the response to any request, freshness included, is the same
  when every database error is stripped of its text.
\<close>

theorem database_errors_not_leaked:
  "fst (router (mute E) st m segs q w) = fst (router E st m segs q w)"
proof (cases "routes segs")
  case (Some e)
  have "rel_prod (rel_sum same_response (same_body (=))) (=) (handler E st q e w) (handler (mute E) st q e w)"
    using muted.sim_handler [OF refl] by (simp add: sim_def)
  then show ?thesis
    using Some by (auto simp: router_def answered_def same_response_def dest!: same_body_eq elim!: rel_prod.cases rel_sum.cases
        split: prod.split)
qed (simp add: router_def)

end
