(* ===== verification/Explorer_Ingest.thy ===== *)
theory Explorer_Ingest
  imports Explorer_Recovery
begin

text \<open>
  What the explorer stores of a sequence of logs: handling the same logs again changes no row (the reason
  the indexer may re-read a range), and the running vote counters of proposals agree with the stored votes.
\<close>

section \<open>Idempotence\<close>

text \<open>Every primary key stays taken.\<close>

definition grows :: "explorer_db \<Rightarrow> explorer_db \<Rightarrow> bool" where
  "grows d d' \<longleftrightarrow>
     contract_key ` set (contracts d) \<subseteq> contract_key ` set (contracts d') \<and>
     deposit_key ` set (agent_deposits d) \<subseteq> deposit_key ` set (agent_deposits d') \<and>
     leg_key ` set (router_deposit_legs d) \<subseteq> leg_key ` set (router_deposit_legs d') \<and>
     policy_key ` set (agent_policies d) \<subseteq> policy_key ` set (agent_policies d') \<and>
     vault_key ` set (vaults d) \<subseteq> vault_key ` set (vaults d') \<and>
     proposal_key ` set (governance_proposals d) \<subseteq> proposal_key ` set (governance_proposals d') \<and>
     vote_key ` set (governance_votes d) \<subseteq> vote_key ` set (governance_votes d') \<and>
     weight_key ` set (router_weight_snapshots d) \<subseteq> weight_key ` set (router_weight_snapshots d')"

text \<open>
  The tables without the columns that later events overwrite: the status of a vault and the execution
  mark of a proposal.
\<close>

definition frozen :: "explorer_db \<Rightarrow> explorer_db" where
  "frozen d = d\<lparr>vaults := map (\<lambda>r. r\<lparr>va_status := 0, va_status_changed_at := None\<rparr>) (vaults d),
     governance_proposals := map (\<lambda>r. r\<lparr>pr_status := 0, pr_executed_block := None\<rparr>) (governance_proposals d)\<rparr>"

interpretation gr: db_discipline grows
proof
  show "grows d d" for d by (simp add: grows_def)
  show "grows d d2" if "grows d d1" "grows d1 d2" for d d1 d2
    using that unfolding grows_def by (elim conjE, intro conjI) (erule (1) subset_trans)+
qed

lemma grows_inserts:
  "obeys (on_db grows) (upsert_chain E c nam label)"
  "obeys (on_db grows) (upsert_contract E c a kd dep)"
  "obeys (on_db grows) (insert_block E c n h p t)"
  "obeys (on_db grows) (insert_transaction E c h n i fr to st)"
  "obeys (on_db grows) (insert_agent_deposit E dr)"
  "obeys (on_db grows) (insert_router_deposit_leg E lr)"
  "obeys (on_db grows) (insert_agent_policy E pr)"
  "obeys (on_db grows) (insert_vault_snapshot E sr)"
  "obeys (on_db grows) (upsert_vault E c a nam label cap st t n h)"
  "obeys (on_db grows) (insert_proposal E c q n i h a descr t dl)"
  "obeys (on_db grows) (insert_router_weight_snapshot E er)"
  unfolding db_op_defs by (rule gr.put_obeys, simp add: grows_def subset_insertI)+

lemma grows_updates:
  "obeys (on_db grows) (update_vault_status E c a st t)"
  "obeys (on_db grows) (execute_proposal E c q n)"
  unfolding db_op_defs by (rule gr.update_obeys, simp add: grows_def image_image del: if_image_distrib)+

lemma grows_vote: "obeys (on_db grows) (insert_vote E r)"
  by (rule gr.vote_obeys) (simp add: grows_def cast_vote_def image_image subset_insertI del: if_image_distrib)

interpretation gr: ingest_discipline grows E c UNIV for E c
  by unfold_locales (rule grows_inserts grows_updates grows_vote)+

text \<open>
  A computation is absorbed at a database when running it there, or at any database with more keys, leaves
  the tables alone; it is absorbing when it is absorbed once it has succeeded.
\<close>

definition absorbed :: "(dworld, 'e, 'a) io \<Rightarrow> explorer_db \<Rightarrow> bool" where
  "absorbed m d \<longleftrightarrow> (\<forall>w. grows d (db w) \<longrightarrow> frozen (db (snd (m w))) = frozen (db w))"

definition absorbing :: "(dworld, 'e, 'a) io \<Rightarrow> bool" where
  "absorbing m \<longleftrightarrow> obeys (on_db grows) m \<and> (\<forall>w x w'. m w = (Inr x, w') \<longrightarrow> absorbed m (db w'))"

lemma absorbed_mono: "absorbed m d \<Longrightarrow> grows d d' \<Longrightarrow> absorbed m d'"
  by (meson absorbed_def gr.Q_trans)

lemma grows_run: "absorbing m \<Longrightarrow> grows (db w) (db (snd (m w)))"
  by (simp add: absorbing_def obeys_def on_db_def)

lemma absorbing_retM [simp]: "absorbing (retM x)"
  by (simp add: absorbing_def absorbed_def retM_def obeys_def on_db_def gr.Q_refl)

lemma absorbing_if: "absorbing m \<Longrightarrow> absorbing k \<Longrightarrow> absorbing (if c then m else k)"
  by simp

lemma absorbed_bindM:
  assumes "absorbing m" "absorbed m d" "\<And>x. absorbing (k x)" "\<And>x. absorbed (k x) d"
  shows "absorbed (bindM m k) d"
proof -
  have "frozen (db (snd (bindM m k w))) = frozen (db w)" if g: "grows d (db w)" for w
  proof (cases "m w")
    case (Pair r w1)
    have m: "frozen (db w1) = frozen (db w)" using assms(2) g Pair by (metis absorbed_def snd_conv)
    have "grows d (db w1)" using grows_run [OF assms(1), of w] Pair g gr.Q_trans by (metis snd_conv)
    then show ?thesis
      using Pair m assms(4) by (cases r) (auto simp: bindM_def absorbed_def)
  qed
  then show ?thesis by (simp add: absorbed_def)
qed

lemma absorbing_bindM:
  assumes m: "absorbing m" and k: "\<And>x. absorbing (k x)" and same: "\<And>x y. k x = k y"
  shows "absorbing (bindM m k)"
proof -
  have "obeys (on_db grows) (bindM m k)"
    using m k by (intro gr.obeys_bindM) (simp_all add: absorbing_def)
  moreover have "absorbed (bindM m k) (db w')" if "bindM m k w = (Inr y, w')" for w y w'
  proof -
    from that obtain x w1 where 1: "m w = (Inr x, w1)" "k x w1 = (Inr y, w')" by (auto simp: io_simps)
    have "absorbed m (db w1)" "absorbed (k x) (db w')" using m k 1 by (auto simp: absorbing_def)
    moreover have "grows (db w1) (db w')" using grows_run [OF k, of w1 x] 1 by simp
    ultimately have mk: "absorbed m (db w')" "absorbed (k x) (db w')" by (auto intro: absorbed_mono)
    have "absorbed (k z) (db w')" for z using mk(2) same [of z x] by simp
    then show ?thesis by (intro absorbed_bindM m k mk(1))
  qed
  ultimately show ?thesis by (simp add: absorbing_def)
qed

lemma dbM_snd: "snd (dbM m w) = snd (m w)"
  by (auto simp: dbM_def handleM_def failM_def split: prod.splits sum.splits)

lemma absorbing_dbM: "absorbing m \<Longrightarrow> absorbing (dbM m)"
  by (auto simp: absorbing_def absorbed_def dbM_snd dbM_Inr_iff obeys_def)

lemma absorbing_decoded:
  assumes "\<And>e. absorbing (k e)"
  shows "absorbing (decoded nam dec lg k)"
  using assms
  by (cases "dec (le_address lg) (le_topics lg) (le_data lg)")
     (auto simp: decoded_def absorbing_def absorbed_def bindM_def liftR_def map_err_def obeys_def on_db_def gr.Q_refl)

lemma absorbing_put:
  assumes "obeys (on_db grows) (stmt E (put get upd key refs r))"
    and "\<And>d d'. grows d d' \<Longrightarrow> key ` set (get d) \<subseteq> key ` set (get d')"
    and "\<And>f d. get (upd f d) = f (get d)"
  shows "absorbing (stmt E (put get upd key refs r))"
proof -
  have "absorbed (stmt E (put get upd key refs r)) (db w')" if "stmt E (put get upd key refs r) w = (Inr n, w')" for w n w'
  proof -
    have key: "key r \<in> key ` set (get (db w'))"
      using that assms(3) by (auto simp: stmt_Inr_iff put_def split: if_splits)
    have "db (snd (stmt E (put get upd key refs r) w1)) = db w1" if "grows (db w') (db w1)" for w1
    proof -
      have "put get upd key refs r (db w1) = Inr (0, db w1)"
        using key assms(2) [OF that] by (auto simp: put_def)
      then show ?thesis by (simp add: stmt_def Let_def split: option.splits)
    qed
    then show ?thesis by (simp add: absorbed_def)
  qed
  then show ?thesis using assms(1) by (simp add: absorbing_def)
qed

lemma absorbing_inserts:
  "absorbing (upsert_contract E c a kd dep)"
  "absorbing (insert_agent_deposit E dr)"
  "absorbing (insert_router_deposit_leg E lr)"
  "absorbing (insert_agent_policy E pr)"
  "absorbing (upsert_vault E c a nam label cap st t n h)"
  "absorbing (insert_proposal E c q n i h a descr t dl)"
  "absorbing (insert_router_weight_snapshot E er)"
  using grows_inserts unfolding db_op_defs by (intro absorbing_put; simp add: grows_def)+

lemma absorbing_updates:
  "absorbing (update_vault_status E c a st t)"
  "absorbing (execute_proposal E c q n)"
  using grows_updates
  by (auto simp: absorbing_def absorbed_def db_op_defs stmt_def Let_def update_where_def frozen_def
      split: option.splits)

lemma absorbing_vote: "absorbing (insert_vote E r)"
proof -
  have "absorbed (insert_vote E r) (db w')" if "insert_vote E r w = (Inr n, w')" for w n w'
  proof -
    have key: "vote_key r \<in> vote_key ` set (governance_votes (db w'))"
      using insert_vote_Inr [OF that] by (auto simp: cast_vote_def)
    have "db (snd (insert_vote E r w1)) = db w1" if "grows (db w') (db w1)" for w1
    proof (cases "insert_vote E r w1")
      case (Pair q w2)
      have "vote_key r \<in> vote_key ` set (governance_votes (db w1))" using key that by (auto simp: grows_def)
      then show ?thesis using Pair insert_vote_Inr insert_vote_Inl by (cases q) fastforce+
    qed
    then show ?thesis by (simp add: absorbed_def)
  qed
  then show ?thesis using grows_vote by (simp add: absorbing_def)
qed

lemma absorbing_handle_log: "absorbing (handle_log E cfg ts lg)"
proof (cases "le_topics lg")
  case (Cons t0 rest)
  show ?thesis
    unfolding handle_log_def Cons list.case
    by (intro absorbing_if absorbing_decoded absorbing_bindM absorbing_dbM absorbing_inserts absorbing_updates
        absorbing_vote absorbing_retM refl)
qed (simp add: handle_log_def)

lemma absorbing_sumM: "(\<And>x. absorbing (f x)) \<Longrightarrow> sumM f xs acc w = (Inr n, w') \<Longrightarrow> absorbed (sumM f xs acc') (db w')"
proof (induction xs arbitrary: acc acc' w)
  case Nil
  then show ?case by (simp add: absorbed_def retM_def)
next
  case (Cons x xs)
  from Cons.prems(2) obtain k w1 where 1: "f x w = (Inr k, w1)" "sumM f xs (acc + k) w1 = (Inr n, w')"
    by (auto simp: io_simps)
  have sums: "obeys (on_db grows) (sumM f xs a)" for a
    using Cons.prems(1) by (intro gr.sumM_obeys) (simp add: absorbing_def)
  have "absorbed (f x) (db w1)" using Cons.prems(1) 1(1) by (auto simp: absorbing_def)
  moreover have "grows (db w1) (db w')"
    using gr.obeysD [OF sums 1(2)] by (simp add: on_db_def)
  ultimately have fx: "absorbed (f x) (db w')" by (rule absorbed_mono)
  have rest: "absorbed (sumM f xs a) (db w')" for a by (rule Cons.IH [OF Cons.prems(1) 1(2)])
  have "frozen (db (snd (sumM f (x # xs) acc' w2))) = frozen (db w2)" if g: "grows (db w') (db w2)" for w2
  proof (cases "f x w2")
    case (Pair r w3)
    have "frozen (db w3) = frozen (db w2)" using fx g Pair by (metis absorbed_def snd_conv)
    moreover have "grows (db w') (db w3)"
      using grows_run [OF Cons.prems(1), of w2 x] Pair g gr.Q_trans by (metis snd_conv)
    ultimately show ?thesis using Pair rest by (cases r) (auto simp: bindM_def absorbed_def)
  qed
  then show ?case by (simp add: absorbed_def)
qed

text \<open>
  C27. Re-indexing a range is harmless: once a sequence of logs has been handled, handling it again, or
  any run of the second pass that stops early, adds, removes and changes no row, apart from the status of
  vaults and the execution mark of proposals, which are set again by the events that set them.
\<close>

theorem reingest_changes_nothing:
  assumes "sumM (handle_log E cfg ts) logs acc w = (Inr n, w1)" and "db w2 = db w1"
  shows "frozen (db (snd (sumM (handle_log E cfg ts) logs acc' w2))) = frozen (db w1)"
  using absorbing_sumM [OF absorbing_handle_log assms(1), of acc'] assms(2) by (simp add: absorbed_def gr.Q_refl)

text \<open>Witness: the deposit log of the demonstration, handled twice.\<close>

definition demo_known :: dworld where
  "demo_known = iworld0\<lparr>db := empty_db\<lparr>chains := [\<lparr>ch_chain_id = 8453, ch_name = ''base'', ch_rpc_label = ''demo''\<rparr>]\<rparr>\<rparr>"

lemma demo_handle_deposit:
  "handle_log demo_ienv demo_icfg (topics_new demo_ienv) demo_log w =
     dbM (insert_agent_deposit demo_ienv (deposit_of_log demo_icfg demo_log demo_deposit_event)) w"
  by (simp add: handle_log_def demo_log_def topics_new_def demo_topic_def decoded_def io_eval)

theorem reingest_changes_nothing_witness:
  "\<exists>w1. sumM (handle_log demo_ienv demo_icfg (topics_new demo_ienv)) [demo_log] 0 demo_known = (Inr 1, w1) \<and>
     length (agent_deposits (db w1)) = 1 \<and>
     frozen (db (snd (sumM (handle_log demo_ienv demo_icfg (topics_new demo_ienv)) [demo_log] 0 w1))) = frozen (db w1)"
proof -
  let ?run = "sumM (handle_log demo_ienv demo_icfg (topics_new demo_ienv)) [demo_log] 0"
  let ?w1 = "snd (?run demo_known)"
  have first: "?run demo_known = (Inr 1, ?w1)" and one: "length (agent_deposits (db ?w1)) = 1"
    by (simp_all add: demo_handle_deposit demo_known_def iworld0_def empty_db_def insert_agent_deposit_def dbM_def
        io_eval stmt_def put_def known_chain_def deposit_of_log_def)
  show ?thesis using first one reingest_changes_nothing [OF first refl] by blast
qed

section \<open>Vote counters\<close>

definition votes_on :: "explorer_db \<Rightarrow> int \<times> int \<Rightarrow> bool \<Rightarrow> nat" where
  "votes_on d k s = length (filter (\<lambda>v. (vo_chain_id v, vo_proposal_id v) = k \<and> vo_support v = s) (governance_votes d))"

text \<open>The counters of every proposal are the numbers of stored votes for and against it.\<close>

definition tally_ok :: "explorer_db \<Rightarrow> bool" where
  "tally_ok d \<longleftrightarrow> (\<forall>p \<in> set (governance_proposals d).
     pr_votes_for p = int (votes_on d (proposal_key p) True) \<and>
     pr_votes_against p = int (votes_on d (proposal_key p) False))"

definition counted :: "explorer_db \<Rightarrow> bool" where
  "counted d \<longleftrightarrow> refs_ok d \<and> tally_ok d"

interpretation ct: db_discipline "keeps counted"
  by unfold_locales (auto simp: keeps_def)

definition same_governance :: "explorer_db \<Rightarrow> explorer_db \<Rightarrow> bool" where
  "same_governance d d' \<longleftrightarrow> governance_votes d' = governance_votes d \<and> governance_proposals d' = governance_proposals d"

interpretation gv: db_discipline same_governance
  by unfold_locales (auto simp: same_governance_def)

lemma same_governance_ops:
  "obeys (on_db same_governance) (upsert_chain E c nam label)"
  "obeys (on_db same_governance) (upsert_contract E c a kd dep)"
  "obeys (on_db same_governance) (insert_block E c n h p t)"
  "obeys (on_db same_governance) (insert_transaction E c h n i fr to st)"
  "obeys (on_db same_governance) (insert_agent_deposit E dr)"
  "obeys (on_db same_governance) (insert_router_deposit_leg E lr)"
  "obeys (on_db same_governance) (insert_agent_policy E pr)"
  "obeys (on_db same_governance) (insert_vault_snapshot E sr)"
  "obeys (on_db same_governance) (upsert_vault E c a nam label cap st t n h)"
  "obeys (on_db same_governance) (insert_router_weight_snapshot E er)"
  "obeys (on_db same_governance) (update_vault_status E c a st t)"
  unfolding db_op_defs
  by (rule gv.put_obeys gv.update_obeys, simp add: same_governance_def)+

lemma counted_both:
  assumes "obeys (on_db (keeps refs_ok)) m" and "obeys (on_db same_governance) m"
  shows "obeys (on_db (keeps counted)) m"
  using assms by (simp add: obeys_def on_db_def keeps_def counted_def same_governance_def tally_ok_def votes_on_def)

lemmas counted_rows = counted_both [OF refs_ok_inserts(1) same_governance_ops(1)]
  counted_both [OF refs_ok_inserts(2) same_governance_ops(2)]
  counted_both [OF refs_ok_inserts(3) same_governance_ops(3)]
  counted_both [OF refs_ok_inserts(4) same_governance_ops(4)]
  counted_both [OF refs_ok_inserts(5) same_governance_ops(5)]
  counted_both [OF refs_ok_inserts(6) same_governance_ops(6)]
  counted_both [OF refs_ok_inserts(7) same_governance_ops(7)]
  counted_both [OF refs_ok_inserts(8) same_governance_ops(8)]
  counted_both [OF refs_ok_inserts(10) same_governance_ops(9)]
  counted_both [OF refs_ok_inserts(12) same_governance_ops(10)]
  counted_both [OF refs_ok_updates(1) same_governance_ops(11)]

lemma votes_on_proposals [simp]: "votes_on (governance_proposals_update f d) k s = votes_on d k s"
  by (simp add: votes_on_def)

text \<open>A proposal that is new has no votes yet, since a vote refers to a proposal that is stored.\<close>

lemma no_votes_on_unknown: "refs_ok d \<Longrightarrow> k \<notin> proposal_key ` set (governance_proposals d) \<Longrightarrow> votes_on d k s = 0"
  by (force simp: refs_ok_def known_proposal_def votes_on_def filter_empty_conv)

lemma counted_via_refs:
  assumes "obeys (on_db (keeps refs_ok)) m" and "\<And>w x w'. m w = (Inr x, w') \<Longrightarrow> counted (db w) \<Longrightarrow> tally_ok (db w')"
    and "\<And>w e w'. m w = (Inl e, w') \<Longrightarrow> db w' = db w"
  shows "obeys (on_db (keeps counted)) m"
proof (rule ct.obeys_by_cases)
  fix w x w'
  assume run: "m w = (Inr x, w')"
  show "keeps counted (db w) (db w')"
    using rf.obeysD [OF assms(1) run] assms(2) [OF run] by (auto simp: on_db_def keeps_def counted_def)
qed (rule assms(3))

lemma counted_proposal: "obeys (on_db (keeps counted)) (insert_proposal E c q n i h a descr t dl)"
proof (rule counted_via_refs [OF refs_ok_inserts(11)])
  fix w x w'
  assume "insert_proposal E c q n i h a descr t dl w = (Inr x, w')" and ok: "counted (db w)"
  then show "tally_ok (db w')"
    using no_votes_on_unknown [of "db w" "(c, q)"]
    by (auto simp: insert_proposal_def stmt_Inr_iff tb_proposals.put_Inr_iff tally_ok_def counted_def)
       (simp_all add: proposal_key_def)
qed (auto simp: insert_proposal_def stmt_Inl_iff)

lemma counted_execute: "obeys (on_db (keeps counted)) (execute_proposal E c q n)"
proof (rule counted_via_refs [OF refs_ok_updates(2)])
  fix w x w'
  assume "execute_proposal E c q n w = (Inr x, w')" and ok: "counted (db w)"
  then show "tally_ok (db w')"
    by (auto simp: execute_proposal_def stmt_Inr_iff update_where_def tally_ok_def counted_def proposal_key_def)
qed (auto simp: execute_proposal_def stmt_Inl_iff)

lemma cast_vote_tally:
  assumes "tally_ok d"
  shows "tally_ok (cast_vote r d)"
proof -
  have votes: "votes_on (cast_vote r d) k s =
      votes_on d k s + (if (vo_chain_id r, vo_proposal_id r) = k \<and> vo_support r = s then 1 else 0)" for k s
    by (simp add: votes_on_def cast_vote_def)
  have "pr_votes_for q = int (votes_on (cast_vote r d) (proposal_key q) True) \<and>
      pr_votes_against q = int (votes_on (cast_vote r d) (proposal_key q) False)"
    if q: "q \<in> set (governance_proposals (cast_vote r d))" for q
  proof -
    from q obtain p where p: "p \<in> set (governance_proposals d)"
        "q = (if pr_chain_id p = vo_chain_id r \<and> pr_proposal_id p = vo_proposal_id r then tally (vo_support r) p else p)"
      by (auto simp: cast_vote_def)
    then show ?thesis
      using assms unfolding votes by (auto simp: tally_ok_def proposal_key_def tally_def)
  qed
  then show ?thesis by (simp add: tally_ok_def)
qed

lemma counted_vote: "obeys (on_db (keeps counted)) (insert_vote E r)"
  by (rule counted_via_refs [OF refs_ok_vote])
     (auto dest!: insert_vote_Inr insert_vote_Inl simp: counted_def cast_vote_tally)

interpretation ct: ingest_discipline "keeps counted" E c UNIV for E c
  by unfold_locales (rule counted_rows counted_proposal counted_execute counted_vote)+

text \<open>
  Handling any sequence of logs keeps the vote counters of every proposal equal to the numbers of
  votes stored for and against it, also when a log is malformed or a statement fails on the way.
\<close>

theorem ingestion_keeps_tallies:
  assumes "refs_ok (db w)" and "tally_ok (db w)"
  shows "tally_ok (db (snd (sumM (handle_log E cfg ts) logs acc w)))"
proof -
  have "obeys (on_db (keeps counted)) (sumM (handle_log E cfg ts) logs acc)"
    by (rule ct.sumM_obeys, rule ct.handle_log_obeys [OF refl UNIV_I])
  then show ?thesis using assms by (auto simp: obeys_def on_db_def keeps_def counted_def)
qed

text \<open>Witness: a proposal is made and voted on in one range.\<close>

definition demo_proposed :: LogEntry where "demo_proposed = demo_log\<lparr>le_topics := [80], le_block_number := 1\<rparr>"
definition demo_voted :: LogEntry where "demo_voted = demo_log\<lparr>le_topics := [86]\<rparr>"

definition demo_poll :: "int \<Rightarrow> int \<Rightarrow> proposal_row" where
  "demo_poll yes no = \<lparr>pr_chain_id = 8453, pr_proposal_id = 7, pr_block_number = 1, pr_log_index = 0, pr_tx_hash = 84,
     pr_proposer = 1, pr_description = '''', pr_created_at = 1, pr_deadline_block = 100, pr_status = 0,
     pr_executed_block = None, pr_votes_for = yes, pr_votes_against = no\<rparr>"

definition demo_vote :: vote_row where
  "demo_vote = \<lparr>vo_chain_id = 8453, vo_proposal_id = 7, vo_voter = 2, vo_block_number = 3, vo_log_index = 0,
     vo_tx_hash = 84, vo_support = True, vo_weight = 10\<rparr>"

definition demo_polled :: "int \<Rightarrow> vote_row list \<Rightarrow> explorer_db" where
  "demo_polled yes vs = (db demo_known)\<lparr>governance_proposals := [demo_poll yes 0], governance_votes := vs\<rparr>"

lemma demo_governance_decoders [simp]:
  "ix_proposal_created demo_ienv = (\<lambda>_ _ _.
     Inr \<lparr>pc_proposalId = 7, pc_proposer = 1, pc_vaults = [], pc_bps = [], pc_votingDeadline = 100\<rparr>)"
  "ix_vote_cast demo_ienv = (\<lambda>_ _ _. Inr \<lparr>vc_proposalId = 7, vc_voter = 2, vc_power = 10, vc_totalFor = 10\<rparr>)"
  by (simp_all add: demo_ienv_def)

lemma demo_handle_proposed:
  "handle_log demo_ienv demo_icfg (topics_new demo_ienv) demo_proposed w =
     dbM (insert_proposal demo_ienv 8453 7 1 0 84 1 '''' 1 100) w"
  by (simp add: handle_log_def demo_proposed_def demo_log_def topics_new_def demo_topic_def decoded_def io_eval
      u256_to_i64_or_def log_block_def as_i64_def as_i32_def)

lemma demo_handle_voted:
  "handle_log demo_ienv demo_icfg (topics_new demo_ienv) demo_voted w = dbM (insert_vote demo_ienv demo_vote) w"
  by (simp add: handle_log_def demo_voted_def demo_log_def topics_new_def demo_topic_def decoded_def io_eval
      u256_to_i64_or_def log_block_def as_i64_def as_i32_def vote_of_log_def demo_vote_def)

lemma demo_propose:
  assumes "db w = db demo_known"
  shows "\<exists>w'. dbM (insert_proposal demo_ienv 8453 7 1 0 84 1 '''' 1 100) w = (Inr 1, w') \<and> db w' = demo_polled 0 []"
  using assms
  by (simp add: insert_proposal_def dbM_def io_eval stmt_def put_def known_chain_def demo_polled_def demo_poll_def
      demo_known_def empty_db_def iworld0_def)

text \<open>A vote that is not stored adds a row and counts once more, whatever the counter was.\<close>

lemma demo_vote_counts:
  assumes "db w = demo_polled n []"
  shows "\<exists>w'. dbM (insert_vote demo_ienv demo_vote) w = (Inr 1, w') \<and> db w' = demo_polled (n + 1) [demo_vote]"
  using assms
  by (simp add: insert_vote_def in_tx_def dbM_def io_eval stmt_def put_def known_chain_def known_proposal_def
      demo_polled_def demo_poll_def demo_known_def empty_db_def iworld0_def demo_vote_def update_where_def
      proposal_key_def tally_def)

theorem ingestion_keeps_tallies_witness:
  "refs_ok (db demo_known) \<and> tally_ok (db demo_known) \<and>
   (\<exists>w'. sumM (handle_log demo_ienv demo_icfg (topics_new demo_ienv)) [demo_proposed, demo_voted] 0 demo_known = (Inr 2, w') \<and>
      governance_proposals (db w') = [demo_poll 1 0] \<and> tally_ok (db w'))"
proof -
  let ?run = "sumM (handle_log demo_ienv demo_icfg (topics_new demo_ienv)) [demo_proposed, demo_voted] 0"
  have ok: "refs_ok (db demo_known)" "tally_ok (db demo_known)"
    by (simp_all add: demo_known_def empty_db_def refs_ok_def tally_ok_def)
  obtain w1 where 1: "dbM (insert_proposal demo_ienv 8453 7 1 0 84 1 '''' 1 100) demo_known = (Inr 1, w1)"
      "db w1 = demo_polled 0 []"
    using demo_propose [OF refl] by blast
  obtain w2 where 2: "dbM (insert_vote demo_ienv demo_vote) w1 = (Inr 1, w2)" "db w2 = demo_polled 1 [demo_vote]"
    using demo_vote_counts [OF 1(2)] by auto
  have "?run demo_known = (Inr 2, w2)"
    by (simp add: demo_handle_proposed demo_handle_voted 1 2 io_eval)
  then show ?thesis
    using ok ingestion_keeps_tallies [OF ok, of demo_ienv demo_icfg "topics_new demo_ienv" "[demo_proposed, demo_voted]" 0]
    by (auto simp: 2(2) demo_polled_def)
qed

text \<open>
  The counters do not survive a reorganisation. A proposal of block 1 with one vote of block 3 is cut
  back to block 2: the vote goes, the proposal stays with its counter, and the same vote, ingested again from
  the new chain, is counted twice although one vote is stored.
\<close>

theorem reorg_recounts_votes:
  "\<exists>w1 w2. delete_above_block demo_ienv 8453 2 (demo_known\<lparr>db := demo_polled 1 [demo_vote]\<rparr>) = (Inr 1, w1) \<and>
     tally_ok (demo_polled 1 [demo_vote]) \<and>
     handle_log demo_ienv demo_icfg (topics_new demo_ienv) demo_voted w1 = (Inr 1, w2) \<and>
     governance_votes (db w2) = [demo_vote] \<and> governance_proposals (db w2) = [demo_poll 2 0] \<and> \<not> tally_ok (db w2)"
proof -
  have cut: "\<exists>w1. delete_above_block demo_ienv 8453 2 (demo_known\<lparr>db := demo_polled 1 [demo_vote]\<rparr>) = (Inr 1, w1) \<and>
      db w1 = demo_polled 1 []"
    by (simp add: delete_above_block_def in_tx_def delete_statements_def io_eval stmt_def delete_where_def
        delete_proposals_def Let_def demo_polled_def demo_poll_def demo_known_def empty_db_def iworld0_def demo_vote_def)
  then obtain w1 where 1: "delete_above_block demo_ienv 8453 2 (demo_known\<lparr>db := demo_polled 1 [demo_vote]\<rparr>) = (Inr 1, w1)"
      "db w1 = demo_polled 1 []"
    by blast
  obtain w2 where 2: "dbM (insert_vote demo_ienv demo_vote) w1 = (Inr 1, w2)" "db w2 = demo_polled 2 [demo_vote]"
    using demo_vote_counts [OF 1(2)] by auto
  have bad: "\<not> tally_ok (demo_polled 2 [demo_vote])" and fine: "tally_ok (demo_polled 1 [demo_vote])"
    by (simp_all add: tally_ok_def demo_polled_def demo_poll_def votes_on_def proposal_key_def demo_vote_def)
  show ?thesis
    using 1 2 bad fine by (auto simp: demo_handle_voted demo_polled_def)
qed

end
