(* ===== verification/Api_Correct.thy ===== *)
theory Api_Correct
  imports Api_Scope Explorer_Ingest
begin

text \<open>
  What the explorer API answers, over the tables the indexer writes: the newest row of a sorted selection, the total
  value locked, the weight history, the policy of an agent, a deposit from its log to the response, and the freshness
  header while a tick runs.
\<close>

section \<open>Sorted selections\<close>

lemma first_row_None [simp]: "first_row rows = None \<longleftrightarrow> rows = []"
  by (simp add: first_row_def split: list.split)

lemma sort_key_Nil [simp]: "sort_key f rows = [] \<longleftrightarrow> rows = []"
  by (metis length_0_conv length_sort)

lemma first_row_sorted:
  assumes "first_row (sort_key f rows) = Some r"
  shows "r \<in> set rows" and "x \<in> set rows \<Longrightarrow> f r \<le> f x"
proof -
  obtain ys where ys: "sort_key f rows = r # ys" using assms by (auto simp: first_row_def split: list.splits)
  have "set (r # ys) = set rows" using ys by (metis set_sort)
  moreover have "sorted (map f (r # ys))" using ys by (metis sorted_sort_key)
  ultimately show "r \<in> set rows" and "x \<in> set rows \<Longrightarrow> f r \<le> f x" by force+
qed

lemma first_row_least:
  assumes "r \<in> set rows" and "\<And>x. x \<in> set rows \<Longrightarrow> x \<noteq> r \<Longrightarrow> f r < f x"
  shows "first_row (sort_key f rows) = Some r"
proof (cases "first_row (sort_key f rows)")
  case None
  then show ?thesis using assms(1) by auto
next
  case (Some x)
  then show ?thesis
    using first_row_sorted [OF Some] assms by (metis leD)
qed

lemma insort_key_same_order:
  "(\<And>y. y \<in> set ys \<Longrightarrow> f x \<le> f y \<longleftrightarrow> g x \<le> g y) \<Longrightarrow> insort_key f x ys = insort_key g x ys"
  by (induction ys) auto

lemma sort_key_same_order:
  "(\<And>x y. x \<in> set xs \<Longrightarrow> y \<in> set xs \<Longrightarrow> f x \<le> f y \<longleftrightarrow> g x \<le> g y) \<Longrightarrow> sort_key f xs = sort_key g xs"
  by (induction xs) (auto intro: insort_key_same_order)

lemma sort_key_sorted: "sorted (map f xs) \<Longrightarrow> sort_key f xs = xs"
  by (induction xs) (auto simp: insort_is_Cons)

section \<open>The newest row of every group\<close>

lemma sum_distinct_on:
  fixes v :: "'r \<Rightarrow> nat"
  shows "sum_list (map v (distinct_on g rows)) = (\<Sum>a \<in> g ` set rows. v (hd (filter (\<lambda>x. g x = a) rows)))"
proof (induction g rows rule: distinct_on.induct)
  case (2 g r rows)
  let ?rest = "filter (\<lambda>x. g x \<noteq> g r) rows"
  have split: "g ` set (r # rows) = insert (g r) (g ` set ?rest)" by auto
  have "(\<Sum>a \<in> g ` set (r # rows). v (hd (filter (\<lambda>x. g x = a) (r # rows)))) =
      v r + (\<Sum>a \<in> g ` set ?rest. v (hd (filter (\<lambda>x. g x = a) (r # rows))))"
    unfolding split by (subst sum.insert) auto
  also have "(\<Sum>a \<in> g ` set ?rest. v (hd (filter (\<lambda>x. g x = a) (r # rows)))) =
      (\<Sum>a \<in> g ` set ?rest. v (hd (filter (\<lambda>x. g x = a) ?rest)))"
  proof (rule sum.cong [OF refl])
    fix a
    assume "a \<in> g ` set ?rest"
    then have "a \<noteq> g r" by auto
    then have "filter (\<lambda>x. g x = a) (r # rows) = filter (\<lambda>x. g x = a) ?rest" by (auto intro!: filter_cong)
    then show "v (hd (filter (\<lambda>x. g x = a) (r # rows))) = v (hd (filter (\<lambda>x. g x = a) ?rest))" by simp
  qed
  finally show ?case using 2 by simp
qed simp

definition snapshot_contracts :: "int \<Rightarrow> explorer_db \<Rightarrow> address set" where
  "snapshot_contracts c d = sn_contract ` {s \<in> set (vault_snapshots d). sn_chain_id s = c}"

lemma newest_by_contract:
  "filter (\<lambda>s. (sn_chain_id s, sn_contract s) = (c, a))
     (sort_key (\<lambda>s. (sn_chain_id s, sn_contract s, - sn_block_number s)) (filter (\<lambda>s. sn_chain_id s = c) (vault_snapshots d))) =
   sort_key (\<lambda>s. - sn_block_number s) (filter (\<lambda>s. sn_chain_id s = c \<and> sn_contract s = a) (vault_snapshots d))"
proof -
  have "filter (\<lambda>s. (sn_chain_id s, sn_contract s) = (c, a)) (filter (\<lambda>s. sn_chain_id s = c) (vault_snapshots d)) =
      filter (\<lambda>s. sn_chain_id s = c \<and> sn_contract s = a) (vault_snapshots d)"
    by (auto intro!: filter_cong)
  then show ?thesis by (auto simp: filter_sort intro!: sort_key_same_order)
qed

lemma newest_of_contract:
  assumes "a \<in> snapshot_contracts c d"
  shows "newest_snapshot d c a = Some (hd (sort_key (\<lambda>s. - sn_block_number s)
     (filter (\<lambda>s. sn_chain_id s = c \<and> sn_contract s = a) (vault_snapshots d))))"
proof -
  let ?rows = "filter (\<lambda>s. sn_chain_id s = c \<and> sn_contract s = a) (vault_snapshots d)"
  have "?rows \<noteq> []" using assms by (auto simp: snapshot_contracts_def filter_empty_conv)
  then obtain s ys where "sort_key (\<lambda>s. - sn_block_number s) ?rows = s # ys"
    by (meson neq_Nil_conv sort_key_Nil)
  then show ?thesis by (simp only: newest_snapshot_def first_row_def list.case list.sel)
qed

lemma snapshot_groups:
  "(\<lambda>s. (sn_chain_id s, sn_contract s)) ` {s \<in> set (vault_snapshots d). sn_chain_id s = c} = Pair c ` snapshot_contracts c d"
  unfolding snapshot_contracts_def image_image by (rule image_cong) simp_all

lemma latest_per_contract_Nil: "latest_per_contract c d = [] \<longleftrightarrow> snapshot_contracts c d = {}"
proof -
  have "distinct_on f xs = [] \<longleftrightarrow> set xs = {}" for f :: "snapshot_row \<Rightarrow> int \<times> address" and xs
    by (cases xs) simp_all
  then show ?thesis by (simp add: latest_per_contract_def snapshot_contracts_def filter_empty_conv) blast
qed

text \<open>
  The total value locked that \<open>/v1/stats\<close> reports is the sum, over all contracts of the chain with a snapshot, of
  the total assets in the newest snapshot, the row the vault list shows; it does not matter whether the contract is a
  registered or an active vault. Without any snapshot there is no sum.
\<close>

theorem stats_tvl_sums_newest_snapshots:
  "sum_total_assets c d =
     (if snapshot_contracts c d = {} then None
      else Some (\<Sum>a \<in> snapshot_contracts c d. unat (sn_total_assets (the (newest_snapshot d c a)))))"
proof -
  have "sum_list (map (unat \<circ> sn_total_assets) (latest_per_contract c d)) =
      (\<Sum>a \<in> snapshot_contracts c d. unat (sn_total_assets (the (newest_snapshot d c a))))"
    unfolding latest_per_contract_def sum_distinct_on set_sort set_filter snapshot_groups
    by (subst sum.reindex) (auto simp: inj_on_def newest_by_contract newest_of_contract simp del: prod.inject
        intro!: sum.cong)
  then show ?thesis by (simp add: sum_total_assets_def Let_def latest_per_contract_Nil)
qed

section \<open>The weight history\<close>

lemma weight_history_sorted:
  assumes "weight_rows E st w = (Inr rows, w')"
  shows "sort_key wh_block_number (map (weight_entry E) rows) = map (weight_entry E) rows"
proof -
  let ?key = "\<lambda>r. (we_block_number r, we_log_index r)"
  obtain k xs where rows: "rows = map (\<lambda>r. (r, ap_time E k (OfWeights r))) (take 500 (sort_key ?key xs))"
    using assms by (auto simp: weight_rows_def select_def query_def Let_def split: option.splits)
  have "sorted (map ?key (take 500 (sort_key ?key xs)))" by (simp add: take_map [symmetric] sorted_wrt_take)
  then have "sorted (map we_block_number (take 500 (sort_key ?key xs)))"
    by (auto simp: sorted_map less_eq_prod_def elim!: sorted_wrt_mono_rel [rotated])
  then show ?thesis
    by (intro sort_key_sorted) (simp add: rows weight_entry_def comp_def)
qed

text \<open>
  The two weight endpoints agree: \<open>/v1/router/state\<close> answers the weights, the history and the freshness that
  \<open>/v1/router/weights\<close> answers, which sorts a second time what the statement has already sorted.
\<close>

theorem router_state_is_router_weights:
  "get_router_state E st w =
     mapM (\<lambda>r. \<lparr>rs_current_weights = rw_current_weights r, rs_history = rw_history r, rs_freshness = rw_freshness r\<rparr>)
       (get_router_weights E st) w"
proof (cases "weight_rows E st w")
  case (Pair r w1)
  show ?thesis
  proof (cases r)
    case (Inr rows)
    then show ?thesis
      using Pair weight_history_sorted [of E st w rows w1]
      by (auto simp: get_router_state_def get_router_weights_def mapM_def bindM_def retM_def Let_def
          split: prod.split sum.split)
  qed (simp add: Pair get_router_state_def get_router_weights_def mapM_def bindM_def)
qed

lemma cut_sorted:
  assumes "mset ys = mset rows" and "sorted (map f ys)" and "500 < length rows" and "distinct (map f rows)"
  shows "f (ys ! 499) < f (ys ! 500)" and "take 500 ys \<noteq> []" and "last (take 500 ys) = ys ! 499"
proof -
  have len: "length ys = length rows" using assms(1) by (rule mset_eq_length)
  have "mset (map f ys) = mset (map f rows)" by (simp add: assms(1))
  then have "distinct (map f ys)" using assms(4) by (metis mset_eq_imp_distinct_iff)
  then have "sorted_wrt (<) (map f ys)" using assms(2) by (simp add: strict_sorted_iff)
  from sorted_wrt_nth_less [OF this, of 499 500] show "f (ys ! 499) < f (ys ! 500)" using len assms(3) by simp
  show "take 500 ys \<noteq> []" using len assms(3) by auto
  then show "last (take 500 ys) = ys ! 499" using len assms(3) by (simp add: last_conv_nth)
qed

lemma weight_rows_ok:
  assumes "get_router_state E st w = (Inr resp, w')"
  shows "weight_rows E st w =
     (Inr (map (\<lambda>r. (r, ap_time E (aw_statements w) (OfWeights r)))
        (take 500 (sort_key (\<lambda>r. (we_block_number r, we_log_index r)) (scan E (aw_statements w)
          (filter (\<lambda>r. we_chain_id r = st_chain_id st) (router_weight_snapshots (ap_db E (aw_statements w)))))))),
      w\<lparr>aw_statements := Suc (aw_statements w)\<rparr>)"
proof -
  have "ap_fault E (aw_statements w) = None"
    using assms by (cases "ap_fault E (aw_statements w)") (auto simp: get_router_state_def weight_rows_def select_def
        query_def bindM_def Let_def)
  then show ?thesis by (simp add: weight_rows_def select_def query_def Let_def)
qed

text \<open>
  The endpoints read the five hundred oldest weight changes. Once a chain has more, with distinct log
  positions, the weights reported as current are not the newest: a later change is stored.
\<close>

theorem current_weights_stale_after_limit:
  assumes plan: "plans_ok E" and run: "get_router_state E st w = (Inr resp, w')"
    and rows: "rows = filter (\<lambda>r. we_chain_id r = st_chain_id st) (router_weight_snapshots (ap_db E (aw_statements w)))"
    and many: "500 < length rows" and distinct: "distinct (map (\<lambda>r. (we_block_number r, we_log_index r)) rows)"
  shows "\<exists>r \<in> set rows. \<exists>newer \<in> set rows. (we_block_number r, we_log_index r) < (we_block_number newer, we_log_index newer) \<and>
     (\<exists>t. rs_current_weights resp = wh_weights (weight_entry E (r, t)))"
proof -
  let ?key = "\<lambda>r. (we_block_number r, we_log_index r)"
  let ?k = "aw_statements w"
  define ys where "ys = sort_key ?key (scan E ?k rows)"
  have "mset ys = mset rows" by (simp add: ys_def mset_scan [OF plan])
  note ys = cut_sorted [OF this _ many distinct] mset_eq_setD [OF this] mset_eq_length [OF this]
  have strict: "?key (ys ! 499) < ?key (ys ! 500)" and last: "take 500 ys \<noteq> []" "last (take 500 ys) = ys ! 499"
    using ys(1-3) by (simp_all add: ys_def)
  have mem: "ys ! 499 \<in> set rows" "ys ! 500 \<in> set rows"
    using nth_mem [of 499 ys] nth_mem [of 500 ys] ys(4,5) many by simp_all
  have "weight_rows E st w = (Inr (map (\<lambda>r. (r, ap_time E ?k (OfWeights r))) (take 500 ys)), w\<lparr>aw_statements := Suc ?k\<rparr>)"
    using weight_rows_ok [OF run] by (simp add: ys_def rows)
  then have "rs_current_weights resp = last_weights (map (weight_entry E) (map (\<lambda>r. (r, ap_time E ?k (OfWeights r))) (take 500 ys)))"
    using run by (auto simp: get_router_state_def io_simps Let_def)
  also have "\<dots> = wh_weights (weight_entry E (ys ! 499, ap_time E ?k (OfWeights (ys ! 499))))"
    using last by (simp add: last_weights_def last_row_def last_map)
  finally show ?thesis using strict mem by blast
qed

text \<open>Witness: a chain with five hundred and one weight changes, one per block.\<close>

definition demo_weight :: "nat \<Rightarrow> weight_row" where
  "demo_weight n = \<lparr>we_chain_id = 8453, we_router = 1, we_block_number = int n, we_log_index = 0, we_tx_hash = 0,
     we_vaults = [2], we_bps = [int n]\<rparr>"

definition demo_changes :: nat where "demo_changes = 501"

definition demo_weights :: explorer_db where
  "demo_weights = no_rows\<lparr>router_weight_snapshots := map demo_weight [0..<demo_changes]\<rparr>"

lemma plans_ok_demo: "plans_ok (demo_api d)"
  by (auto simp: plans_ok_def demo_api_def)

lemma latest_freshness_total: "\<exists>f w'. latest_freshness (demo_api d) w = (Inr f, w')"
  by (auto simp: latest_freshness_def runs_newest_first_def select_def query_def Let_def utc_now_def bindM_def retM_def
      split: option.split)

lemma router_state_total: "\<exists>resp w'. get_router_state (demo_api d) st w = (Inr resp, w')"
proof -
  obtain rows w1 where rows: "weight_rows (demo_api d) st w = (Inr rows, w1)"
    by (simp add: weight_rows_def select_def query_def Let_def)
  let ?last = "map_option entry_stamp (last_row (map (weight_entry (demo_api d)) rows))"
  have "\<exists>f w2. freshness_of (demo_api d) ?last w1 = (Inr f, w2)"
    using latest_freshness_total [of d w1] by (auto simp: freshness_of_def retM_def split: option.split prod.split)
  then show ?thesis using rows by (auto simp: get_router_state_def io_simps Let_def)
qed

theorem current_weights_stale_after_limit_witness:
  "\<exists>resp w' r newer. get_router_state (demo_api demo_weights) \<lparr>st_chain_id = 8453\<rparr> aworld0 = (Inr resp, w') \<and>
     r \<in> set (router_weight_snapshots demo_weights) \<and> newer \<in> set (router_weight_snapshots demo_weights) \<and>
     we_block_number r < we_block_number newer \<and>
     (\<exists>t. rs_current_weights resp = wh_weights (weight_entry (demo_api demo_weights) (r, t)))"
proof -
  let ?E = "demo_api demo_weights" and ?st = "\<lparr>st_chain_id = 8453\<rparr>" and ?rows = "map demo_weight [0..<demo_changes]"
  have rows: "?rows = filter (\<lambda>r. we_chain_id r = st_chain_id ?st) (router_weight_snapshots (ap_db ?E (aw_statements aworld0)))"
    by (simp add: demo_weights_def filter_id_conv demo_weight_def)
  have "distinct (map (\<lambda>r. (we_block_number r, we_log_index r)) ?rows)"
    by (simp add: demo_weight_def distinct_map inj_on_def comp_def)
  moreover obtain resp w' where run: "get_router_state ?E ?st aworld0 = (Inr resp, w')"
    using router_state_total [of "demo_weights" ?st aworld0] by blast
  moreover have "500 < length ?rows" by (simp add: demo_changes_def)
  ultimately have "\<exists>r \<in> set ?rows. \<exists>newer \<in> set ?rows.
      (we_block_number r, we_log_index r) < (we_block_number newer, we_log_index newer) \<and>
      (\<exists>t. rs_current_weights resp = wh_weights (weight_entry ?E (r, t)))"
    by (intro current_weights_stale_after_limit [OF plans_ok_demo run rows])
  then obtain r newer where "r \<in> set ?rows" "newer \<in> set ?rows"
      "(we_block_number r, we_log_index r) < (we_block_number newer, we_log_index newer)"
      "\<exists>t. rs_current_weights resp = wh_weights (weight_entry ?E (r, t))"
    by blast
  moreover have "we_log_index x = 0" if "x \<in> set ?rows" for x using that by (auto simp: demo_weight_def)
  moreover have "router_weight_snapshots demo_weights = ?rows" by (simp add: demo_weights_def)
  ultimately show ?thesis using run by (auto simp: less_prod_def simp del: set_map)
qed

section \<open>The policy of an agent\<close>

definition policy_events :: "explorer_db \<Rightarrow> int \<Rightarrow> bytes \<Rightarrow> policy_row list" where
  "policy_events d c b = filter (\<lambda>r. po_chain_id r = c \<and> addr_bytea (po_agent r) = b) (agent_policies d)"

text \<open>
  C33. \<open>/v1/agents/:address\<close> answers the policy of the newest event of the agent on the chain, in the order of blocks and
  log positions: authorised when that event is no revocation, with its cap; and no policy exactly when no event of the
  agent is stored. The plan of the database does not matter.
\<close>

theorem agent_policy_is_newest_event:
  assumes plan: "plans_ok E" and run: "get_agent E st p w = (Inr resp, w')"
  shows "\<exists>b. decode_address_param E p = Inr b \<and>
     (case ar_policy resp of
        None \<Rightarrow> policy_events (ap_db E (aw_statements w)) (st_chain_id st) b = []
      | Some pol \<Rightarrow> \<exists>r \<in> set (policy_events (ap_db E (aw_statements w)) (st_chain_id st) b).
          pol = \<lparr>ap_agent = addr_to_hex E b, ap_authorized = (\<not> po_revoked r),
                 ap_cap = map_option dec_to_string (po_max_per_window r), ap_block_number = po_block_number r\<rparr> \<and>
          (\<forall>x \<in> set (policy_events (ap_db E (aw_statements w)) (st_chain_id st) b).
             (po_block_number x, po_log_index x) \<le> (po_block_number r, po_log_index r)))"
proof -
  let ?key = "\<lambda>r. (- po_block_number r, - po_log_index r)"
  from run obtain b where b: "decode_address_param E p = Inr b"
    by (auto simp: get_agent_def io_simps)
  let ?events = "policy_events (ap_db E (aw_statements w)) (st_chain_id st) b"
  let ?row = "first_row (sort_key ?key (scan E (aw_statements w) ?events))"
  have ok: "ap_fault E (aw_statements w) = None"
    using run b by (cases "ap_fault E (aw_statements w)") (auto simp: get_agent_def io_simps query_def Let_def)
  have pol: "ar_policy resp = map_option (\<lambda>r. \<lparr>ap_agent = addr_to_hex E b, ap_authorized = (\<not> po_revoked r),
        ap_cap = map_option dec_to_string (po_max_per_window r), ap_block_number = po_block_number r\<rparr>) ?row"
    using run b ok by (auto simp: get_agent_def io_simps query_def Let_def policy_events_def)
  have scan: "set (scan E (aw_statements w) ?events) = set ?events" by (rule set_scan [OF plan])
  show ?thesis
  proof (cases ?row)
    case None
    then have "?events = []" using scan by simp
    moreover have "ar_policy resp = None" using pol unfolding None by simp
    ultimately show ?thesis using b by simp
  next
    case (Some r)
    note newest = first_row_sorted [OF Some, unfolded scan]
    have "\<forall>x \<in> set ?events. (po_block_number x, po_log_index x) \<le> (po_block_number r, po_log_index r)"
      using newest(2) by (fastforce simp: less_eq_prod_def)
    moreover note pol [unfolded Some]
    ultimately show ?thesis using b newest(1) by auto
  qed
qed

text \<open>Witness: an authorisation followed by a revocation.\<close>

definition demo_policy_event :: "int \<Rightarrow> bool \<Rightarrow> policy_row" where
  "demo_policy_event n gone = \<lparr>po_chain_id = 8453, po_block_number = n, po_log_index = 0, po_tx_hash = 0, po_agent = 0,
     po_revoked = gone, po_valid_until = None, po_max_per_payment = None, po_max_per_window = None, po_share_receiver = None\<rparr>"

definition demo_policies :: explorer_db where
  "demo_policies = no_rows\<lparr>agent_policies := [demo_policy_event 4 False, demo_policy_event 6 True]\<rparr>"

definition demo_agent_param :: string where
  "demo_agent_param = ''0x'' @ replicate 40 (CHR ''0'')"

lemma be_bytes_0: "be_bytes n (0 :: 'a::len word) = replicate n 0"
  by (simp add: be_bytes_def map_replicate_const rev_replicate)

lemma hex_decode_zeros: "demo_hex_decode (replicate (2 * n) (CHR ''0'')) = Some (replicate n 0)"
  by (induction n) (simp_all add: hex_digit_def)

lemma demo_agent_decoded: "decode_address_param (demo_api d) demo_agent_param = Inr (replicate 20 0)"
proof -
  have "trim demo_agent_param = demo_agent_param"
    by (simp add: trim_def demo_agent_param_def is_space_def rev_replicate del: replicate.simps)
  then show ?thesis
    using hex_decode_zeros [of 20] by (simp add: decode_address_param_def demo_agent_param_def Let_def del: replicate.simps)
qed

theorem agent_policy_is_newest_event_witness:
  "\<exists>resp w' pol. get_agent (demo_api demo_policies) \<lparr>st_chain_id = 8453\<rparr> demo_agent_param aworld0 = (Inr resp, w') \<and>
     ar_policy resp = Some pol \<and> \<not> ap_authorized pol \<and> ap_block_number pol = 6"
proof -
  let ?E = "demo_api demo_policies" and ?st = "\<lparr>st_chain_id = 8453\<rparr>"
  have events: "policy_events demo_policies 8453 (replicate 20 0) = [demo_policy_event 4 False, demo_policy_event 6 True]"
    by (simp add: policy_events_def demo_policies_def demo_policy_event_def addr_bytea_def be_bytes_0 del: replicate.simps)
  obtain f w2 where fresh: "latest_freshness ?E \<lparr>aw_statements = 1, aw_clock = 0\<rparr> = (Inr f, w2)"
    using latest_freshness_total by blast
  obtain resp w' where run: "get_agent ?E ?st demo_agent_param aworld0 = (Inr resp, w')"
    by (simp add: get_agent_def demo_agent_decoded liftR_def query_def Let_def bindM_def retM_def fresh [unfolded One_nat_def]
        del: replicate.simps)
  from agent_policy_is_newest_event [OF plans_ok_demo run]
  have "\<exists>pol. ar_policy resp = Some pol \<and> \<not> ap_authorized pol \<and> ap_block_number pol = 6"
    by (auto simp: demo_agent_decoded events demo_policy_event_def less_eq_prod_def split: option.splits
        simp del: replicate.simps)
  then show ?thesis using run by blast
qed

section \<open>From a log to the response\<close>

text \<open>What the API relies on of the \<open>hex\<close> crate.\<close>

definition hex_ok :: "aenv \<Rightarrow> bool" where
  "hex_ok E \<longleftrightarrow> (\<forall>b. ap_hex_decode E (ap_hex_encode E b) = Some b \<and> length (ap_hex_encode E b) = 2 * length b \<and>
     list_all (\<lambda>ch. \<not> is_space ch) (ap_hex_encode E b))"

lemma foldl_be_bytes:
  "foldl (\<lambda>a b. 256 * a + unat b) acc (be_bytes n v) = acc * 256 ^ n + unat v mod 256 ^ n"
proof (induction n arbitrary: acc)
  case (Suc n)
  have "unat v mod 256 ^ Suc n = 256 ^ n * (unat v div 256 ^ n mod 256) + unat v mod 256 ^ n"
    using mod_mult2_eq [of "unat v" "256 ^ n" 256] by (simp add: mult.commute)
  moreover have "be_bytes (Suc n) v = of_nat (unat v div 256 ^ n) # be_bytes n v" by (simp add: be_bytes_def)
  ultimately show ?case using Suc by (simp add: unat_of_nat algebra_simps)
qed (simp add: be_bytes_def)

lemma hash_bytea_inj: "hash_bytea a = hash_bytea b \<longleftrightarrow> a = b"
proof
  assume "hash_bytea a = hash_bytea b"
  then have "unat a mod 256 ^ 32 = unat b mod 256 ^ 32"
    using foldl_be_bytes [of 0 32 a] foldl_be_bytes [of 0 32 b] by (simp add: hash_bytea_def)
  moreover have "unat v < 256 ^ 32" for v :: b256 using unsigned_less [of v] by simp
  ultimately show "a = b" by (metis mod_less unsigned_word_eqI)
qed simp

lemma trim_solid: "list_all (\<lambda>ch. \<not> is_space ch) s \<Longrightarrow> trim s = s"
proof -
  assume solid: "list_all (\<lambda>ch. \<not> is_space ch) s"
  have "dropWhile is_space t = t" if "\<forall>ch \<in> set t. \<not> is_space ch" for t using that by (cases t) simp_all
  from this [of s] this [of "rev s"] show ?thesis using solid by (simp add: trim_def list_all_iff)
qed

lemma decode_hash_encoded: "hex_ok E \<Longrightarrow> decode_hash_param E (hash_to_hex E (hash_bytea h)) = Inr (hash_bytea h)"
  by (simp add: decode_hash_param_def hash_to_hex_def addr_to_hex_def hex_ok_def trim_solid is_space_def Let_def)
     (simp add: hash_bytea_def be_bytes_def)

lemma scan_only_row:
  assumes "plans_ok E" and "r \<in> set rows" and "\<And>x. x \<in> set rows \<Longrightarrow> x = r"
  shows "\<exists>ys. scan E k rows = r # ys"
proof (cases "scan E k rows")
  case Nil
  then show ?thesis using set_scan [OF assms(1), of k rows] assms(2) by simp
next
  case (Cons x ys)
  then have "x \<in> set rows" using set_scan [OF assms(1), of k rows] by (metis list.set_intros(1))
  then show ?thesis using Cons assms(3) by blast
qed

lemma deposit_selection:
  assumes plan: "plans_ok E" and ok: "ap_fault E (aw_statements w) = None"
    and hash: "decode_hash_param E p = Inr (hash_bytea h)"
    and r: "r \<in> set (agent_deposits (ap_db E (aw_statements w)))" "ds_chain_id r = st_chain_id st" "ds_payment_id r = h"
    and only: "\<And>x. x \<in> set (agent_deposits (ap_db E (aw_statements w))) \<Longrightarrow> ds_chain_id x = st_chain_id st \<Longrightarrow>
      ds_payment_id x = h \<Longrightarrow> x = r"
  shows "\<exists>t. get_deposit E st p w =
     (Inr \<lparr>d1_deposit = deposit_from_row E (r, t), d1_freshness = \<lparr>fr_block_number = ds_block_number r, fr_indexed_at = t\<rparr>\<rparr>,
      w\<lparr>aw_statements := Suc (aw_statements w)\<rparr>)"
proof -
  let ?k = "aw_statements w"
  let ?rows = "filter (\<lambda>x. ds_chain_id x = st_chain_id st \<and> hash_bytea (ds_payment_id x) = hash_bytea h) (agent_deposits (ap_db E ?k))"
  have "r \<in> set ?rows" using r by simp
  moreover have "x = r" if "x \<in> set ?rows" for x using that by (intro only) (simp_all add: hash_bytea_inj)
  ultimately have "\<exists>ys. scan E ?k ?rows = r # ys" by (rule scan_only_row [OF plan])
  then obtain ys where ys: "scan E ?k ?rows = r # ys" by (elim exE)
  have "select E OfDeposit (\<lambda>d. filter (\<lambda>x. ds_chain_id x = st_chain_id st \<and> hash_bytea (ds_payment_id x) = hash_bytea h)
      (agent_deposits d)) (\<lambda>_. ()) (Some 1) w = (Inr [(r, ap_time E ?k (OfDeposit r))], w\<lparr>aw_statements := Suc ?k\<rparr>)"
    by (simp add: select_def query_def Let_def ok ys sort_key_const)
  then show ?thesis
    by (simp add: get_deposit_def hash liftR_def bindM_def retM_def ok_or_def first_row_def)
qed

text \<open>
  C32. A deposit goes from its log to the response: after the indexer has stored an \<open>AgentDeposit\<close> log as a new row, with a
  payment id not stored for the chain before, \<open>/v1/deposits/:id\<close> with the hexadecimal payment id answers that deposit,
  whatever the plan of the database, as long as the row stays.
\<close>

theorem ingested_deposit_is_served:
  assumes stored: "handle_log I cfg ts lg w = (Inr 1, w')"
    and topic: "le_topics lg = t_agent_deposit ts # rest" "ix_agent_deposit I (le_address lg) (le_topics lg) (le_data lg) = Inr e"
    and fresh: "\<forall>x \<in> set (agent_deposits (db w)). ds_chain_id x = ic_chain_id cfg \<longrightarrow> ds_payment_id x \<noteq> ad_paymentId e"
    and api: "plans_ok E" "hex_ok E" "ap_fault E (aw_statements v) = None" "ap_db E (aw_statements v) = db w'"
      "st_chain_id st = ic_chain_id cfg"
  shows "\<exists>t. get_deposit E st (hash_to_hex E (hash_bytea (ad_paymentId e))) v =
     (Inr \<lparr>d1_deposit = deposit_from_row E (deposit_of_log cfg lg e, t),
           d1_freshness = \<lparr>fr_block_number = log_block lg, fr_indexed_at = t\<rparr>\<rparr>, v\<lparr>aw_statements := Suc (aw_statements v)\<rparr>)"
proof -
  let ?r = "deposit_of_log cfg lg e"
  have row: "ds_chain_id ?r = ic_chain_id cfg" "ds_payment_id ?r = ad_paymentId e" "ds_block_number ?r = log_block lg"
    by (simp_all add: deposit_of_log_def)
  have "dbM (insert_agent_deposit I ?r) w = (Inr 1, w')"
    using stored topic by (simp add: handle_log_def decoded_def liftR_def map_err_def bindM_def)
  then have rows: "agent_deposits (db w') = agent_deposits (db w) @ [?r]"
    by (auto simp: dbM_Inr_iff insert_agent_deposit_def stmt_Inr_iff tb_deposits.put_Inr_iff)
  have "?r \<in> set (agent_deposits (ap_db E (aw_statements v)))" by (simp add: api(4) rows)
  moreover have "x = ?r" if "x \<in> set (agent_deposits (ap_db E (aw_statements v)))" "ds_chain_id x = st_chain_id st"
      "ds_payment_id x = ad_paymentId e" for x
    using that fresh by (auto simp: api(4,5) rows)
  ultimately show ?thesis
    using deposit_selection [OF api(1,3) decode_hash_encoded [OF api(2)], of ?r st "ad_paymentId e"] row(1,2)
    unfolding row(3) api(5) by blast
qed

text \<open>Witness: the deposit log of the indexer's demonstration, served by the demonstration instance.\<close>

lemma hex_digit_nibble: "n < 16 \<Longrightarrow> hex_digit (nibble n) = Some n"
  unfolding nibble_def by (rule hex_digit_nth)

lemma demo_hex_roundtrip: "demo_hex_decode (demo_hex_encode bs) = Some bs"
proof (induction bs)
  case (Cons b bs)
  have "unat b < 256" using unsigned_less [of b] by simp
  then have "hex_digit (nibble (unat b div 16)) = Some (unat b div 16)" "hex_digit (nibble (unat b mod 16)) = Some (unat b mod 16)"
    by (simp_all add: hex_digit_nibble)
  then show ?case using Cons by (simp add: demo_hex_encode_def)
qed (simp add: demo_hex_encode_def)

lemma hex_ok_demo: "hex_ok (demo_api d)"
proof -
  have "\<not> is_space (nibble n)" if "n < 16" for n
    using hex_digit_nibble [OF that] by (auto simp: is_space_def hex_digit_def Let_def split: if_splits)
  moreover have "unat b div 16 < 16" "unat b mod 16 < 16" for b :: byte
    using unsigned_less [where 'a = nat, of b] by simp_all
  ultimately have "list_all (\<lambda>ch. \<not> is_space ch) (demo_hex_encode bs)" for bs
    by (induction bs) (simp_all add: demo_hex_encode_def)
  moreover have "length (demo_hex_encode bs) = 2 * length bs" for bs by (induction bs) (simp_all add: demo_hex_encode_def)
  ultimately show ?thesis by (simp add: hex_ok_def demo_hex_roundtrip)
qed

theorem ingested_deposit_is_served_witness:
  "\<exists>w' resp v'. handle_log demo_ienv demo_icfg (topics_new demo_ienv) demo_log demo_known = (Inr 1, w') \<and>
     get_deposit (demo_api (db w')) \<lparr>st_chain_id = 8453\<rparr> (hash_to_hex (demo_api (db w')) (hash_bytea 1)) aworld0 = (Inr resp, v') \<and>
     de_block_number (d1_deposit resp) = 3 \<and> de_amount (d1_deposit resp) = ''5''"
proof -
  let ?lg = "demo_log" and ?cfg = "demo_icfg" and ?ts = "topics_new demo_ienv"
  obtain w' where run: "handle_log demo_ienv ?cfg ?ts ?lg demo_known = (Inr 1, w')"
    by (simp add: demo_handle_deposit demo_known_def iworld0_def empty_db_def insert_agent_deposit_def dbM_def io_eval stmt_def
        put_def known_chain_def deposit_of_log_def)
  have topic: "le_topics ?lg = t_agent_deposit ?ts # []" by (simp add: demo_log_def topics_new_def demo_topic_def)
  have dec: "ix_agent_deposit demo_ienv (le_address ?lg) (le_topics ?lg) (le_data ?lg) = Inr demo_deposit_event" by simp
  have new: "\<forall>x \<in> set (agent_deposits (db demo_known)). ds_chain_id x = ic_chain_id ?cfg \<longrightarrow> ds_payment_id x \<noteq> ad_paymentId demo_deposit_event"
    by (simp add: demo_known_def empty_db_def)
  have chain: "st_chain_id \<lparr>st_chain_id = 8453\<rparr> = ic_chain_id ?cfg" by simp
  obtain t where "get_deposit (demo_api (db w')) \<lparr>st_chain_id = 8453\<rparr>
      (hash_to_hex (demo_api (db w')) (hash_bytea (ad_paymentId demo_deposit_event))) aworld0 =
    (Inr \<lparr>d1_deposit = deposit_from_row (demo_api (db w')) (deposit_of_log ?cfg ?lg demo_deposit_event, t),
          d1_freshness = \<lparr>fr_block_number = log_block ?lg, fr_indexed_at = t\<rparr>\<rparr>, \<lparr>aw_statements = 1, aw_clock = 0\<rparr>)"
    using ingested_deposit_is_served [OF run topic dec new plans_ok_demo hex_ok_demo demo_api_sel(2) demo_api_sel(1) chain, of aworld0]
    by auto
  moreover have "ad_paymentId demo_deposit_event = 1" by (simp add: demo_deposit_event_def)
  moreover have "de_block_number (deposit_from_row E (deposit_of_log ?cfg ?lg demo_deposit_event, t)) = 3"
      "de_amount (deposit_from_row E (deposit_of_log ?cfg ?lg demo_deposit_event, t)) = ''5''" for E t
    by (simp_all add: deposit_from_row_def deposit_of_log_def log_block_def demo_log_def as_i64_def demo_deposit_event_def
        dec_to_string_def show_nat.simps digit_char_def char_of_def bit_0)
  ultimately show ?thesis using run by simp
qed

section \<open>Freshness while a tick runs\<close>

text \<open>
  While a tick runs, the freshness header names block 0: the run the tick has opened is the newest and has no block yet.
  The header is documented as the most recent cursor of the indexer.
\<close>

theorem freshness_zero_during_tick:
  assumes "keys_unique (db w)" and "start_run I c n w = (Inr rid, w')"
    and "plans_ok E" and "ap_fault E (aw_statements v) = None" and "ap_db E (aw_statements v) = db w'"
  shows "\<exists>t v'. latest_freshness E v = (Inr \<lparr>fr_block_number = 0, fr_indexed_at = t\<rparr>, v')"
proof -
  let ?k = "aw_statements v"
  obtain new where new: "indexer_runs (db w') = indexer_runs (db w) @ [new]" "run_id new = run_seq (db w)"
      "run_last_indexed_block new = None"
    using assms(2) by (auto simp: start_run_def stmt_Inr_iff split: if_splits)
  have "first_row (sort_key (\<lambda>r. - run_id r) (scan E ?k (indexer_runs (db w')))) = Some new"
    using assms(1) new by (intro first_row_least) (auto simp: set_scan [OF assms(3)] keys_unique_def)
  then obtain ys where "sort_key (\<lambda>r. - run_id r) (scan E ?k (indexer_runs (db w'))) = new # ys"
    by (auto simp: first_row_def split: list.splits)
  then have "runs_newest_first E v = (Inr [(new, ap_time E ?k (OfRun new))], v\<lparr>aw_statements := Suc ?k\<rparr>)"
    by (simp add: runs_newest_first_def select_def query_def Let_def assms(4,5))
  then show ?thesis
    by (simp add: latest_freshness_def bindM_def retM_def first_row_def utc_now_def new(3))
qed

text \<open>Witness: the first tick of a fresh chain.\<close>

theorem freshness_zero_during_tick_witness:
  "\<exists>w' t v'. start_run demo_ienv 8453 0 demo_known = (Inr 1, w') \<and>
     latest_freshness (demo_api (db w')) aworld0 = (Inr \<lparr>fr_block_number = 0, fr_indexed_at = t\<rparr>, v')"
proof -
  have "keys_unique (db demo_known)" by (simp add: demo_known_def empty_db_def keys_unique_def)
  moreover obtain w' where "start_run demo_ienv 8453 0 demo_known = (Inr 1, w')"
    by (simp add: start_run_def stmt_def demo_known_def empty_db_def known_chain_def Let_def)
  ultimately show ?thesis
    using freshness_zero_during_tick [of demo_known demo_ienv 8453 0 1 w' "demo_api (db w')" aworld0] plans_ok_demo
    by fastforce
qed

end
