(* ===== verification/Api_Main.thy ===== *)
theory Api_Main
  imports Api_Routes
begin

text \<open>
  The start of the explorer API (\<open>main.rs\<close>): the environment variables and the list of allowed origins.
\<close>

text \<open>What the start relies on: logging, environment, parsers of the standard library and of the \<open>http\<close> crate.\<close>

record api_start =
  sa_logging :: "string + unit"
  sa_vars :: "string \<rightharpoonup> string"
  sa_socket :: "string \<Rightarrow> string + unit"
  sa_connect :: "string \<Rightarrow> string + unit"
  sa_header_value :: "string \<Rightarrow> bool"
  sa_listen :: "string \<Rightarrow> string + unit"

fun split_comma :: "string \<Rightarrow> string list" where
  "split_comma [] = [[]]"
| "split_comma (c # s) =
     (if c = CHR '','' then [] # split_comma s
      else (case split_comma s of x # xs \<Rightarrow> (c # x) # xs | [] \<Rightarrow> [[c]]))"

definition build_cors_layer :: "api_start \<Rightarrow> string + string list option" where
  "build_cors_layer S =
     (case sa_vars S ''EXPLORER_API_ALLOW_ORIGINS'' of
        None \<Rightarrow> Inr None
      | Some raw \<Rightarrow>
          if trim raw = [] then Inr None
          else (let origins = filter (\<lambda>s. s \<noteq> []) (map trim (split_comma raw)) in
            case find (\<lambda>s. \<not> sa_header_value S s) origins of
              Some s \<Rightarrow> Inl (''invalid origin in EXPLORER_API_ALLOW_ORIGINS: '' @ s)
            | None \<Rightarrow> Inr (if origins = [] then None else Some origins)))"

text \<open>The state and the allowed origins with which the server listens.\<close>

definition api_main :: "api_start \<Rightarrow> string + AppState \<times> string list option" where
  "api_main S =
     andThen (sa_logging S) (\<lambda>_.
     case sa_vars S ''DATABASE_URL'' of None \<Rightarrow> Inl ''DATABASE_URL not set'' | Some database_url \<Rightarrow>
     (case sa_vars S ''EXPLORER_API_CHAIN_ID'' of None \<Rightarrow> Inl ''EXPLORER_API_CHAIN_ID not set'' | Some id_text \<Rightarrow>
     (case parse_i64 id_text of None \<Rightarrow> Inl ''EXPLORER_API_CHAIN_ID must be a valid integer'' | Some chain_id \<Rightarrow>
     (let bind_to = (case sa_vars S ''EXPLORER_API_BIND'' of Some b \<Rightarrow> b | None \<Rightarrow> ''0.0.0.0:8080'') in
     andThen (map_err (\<lambda>_. ''EXPLORER_API_BIND invalid'') (sa_socket S bind_to)) (\<lambda>_.
     andThen (map_err (\<lambda>_. ''connecting to Postgres'') (sa_connect S database_url)) (\<lambda>_.
     andThen (build_cors_layer S) (\<lambda>cors.
     andThen (sa_listen S bind_to) (\<lambda>_.
     Inr (\<lparr>st_chain_id = chain_id\<rparr>, cors)))))))))"

section \<open>Lemmas\<close>

lemma split_comma_append:
  "CHR '','' \<notin> set x \<Longrightarrow> split_comma (x @ CHR '','' # s) = x # split_comma s"
  "CHR '','' \<notin> set x \<Longrightarrow> split_comma x = [x]"
  by (induction x) auto

fun join_comma :: "string list \<Rightarrow> string" where
  "join_comma [] = []"
| "join_comma [x] = x"
| "join_comma (x # y # xs) = x @ CHR '','' # join_comma (y # xs)"

lemma split_join:
  "xs \<noteq> [] \<Longrightarrow> list_all (\<lambda>x. CHR '','' \<notin> set x) xs \<Longrightarrow> split_comma (join_comma xs) = xs"
  by (induction xs rule: join_comma.induct) (simp_all add: split_comma_append)

lemma trim_blank: "trim s = [] \<longleftrightarrow> list_all is_space s"
proof -
  have "trim s = [] \<longleftrightarrow> list_all is_space (dropWhile is_space s)"
    by (simp add: trim_def dropWhile_eq_Nil_conv list_all_iff)
  also have "\<dots> \<longleftrightarrow> dropWhile is_space s = []"
    using hd_dropWhile [of is_space s]
    by (cases "dropWhile is_space s") (auto simp del: dropWhile_eq_Nil_conv)
  finally show ?thesis by (simp add: dropWhile_eq_Nil_conv list_all_iff)
qed

lemma join_comma_set: "x \<in> set xs \<Longrightarrow> set x \<subseteq> set (join_comma xs)"
  by (induction xs rule: join_comma.induct) auto

lemma find_first: "find P xs = (case filter P xs of [] \<Rightarrow> None | x # _ \<Rightarrow> Some x)"
  by (induction xs) auto

text \<open>
  Every origin of the variable is allowed, in order and without the white space around it, and no other; the first text the \<open>http\<close> crate
  refuses stops the start.
\<close>

theorem cors_origins_exact:
  assumes "xs \<noteq> []" and "list_all (\<lambda>x. CHR '','' \<notin> set x) xs"
    and "sa_vars S ''EXPLORER_API_ALLOW_ORIGINS'' = Some (join_comma xs)"
  shows "build_cors_layer S =
    (let os = filter (\<lambda>s. s \<noteq> []) (map trim xs) in
     case filter (\<lambda>s. \<not> sa_header_value S s) os of
       [] \<Rightarrow> Inr (if os = [] then None else Some os)
     | s # _ \<Rightarrow> Inl (''invalid origin in EXPLORER_API_ALLOW_ORIGINS: '' @ s))"
proof (cases "trim (join_comma xs) = []")
  case True
  then have "list_all is_space x" if "x \<in> set xs" for x
    using join_comma_set [OF that] by (auto simp: trim_blank list_all_iff)
  then have "filter (\<lambda>s. s \<noteq> []) (map trim xs) = []" by (auto simp: trim_blank filter_empty_conv)
  then show ?thesis using True assms(3) by (simp add: build_cors_layer_def)
next
  case False
  then show ?thesis
    using assms(3) by (simp add: build_cors_layer_def split_join [OF assms(1,2)] find_first split: list.split)
qed

end
