(* ===== verification/Solidity.thy ===== *)
theory Solidity
  imports Rmpc_Prelude
begin

text \<open>
  What the contract models share: the transaction and block a call runs in, arithmetic that reverts on overflow (Solidity
  0.8), calls to other contracts, and transactions, which leave no trace when they revert. A contract is a record whose
  outside part, the state of the contracts it calls, has a type of its own.
\<close>

record tx_ctx =
  msg_sender :: address
  block_timestamp :: u256
  block_number :: u256
  block_chainid :: u256

definition checked_add :: "'e \<Rightarrow> 'a::len word \<Rightarrow> 'a word \<Rightarrow> ('s, 'e, 'a word) io" where
  "checked_add panic a b = (if unat a + unat b < 2 ^ LENGTH('a) then retM (a + b) else failM panic)"

definition checked_sub :: "'e \<Rightarrow> 'a::len word \<Rightarrow> 'a word \<Rightarrow> ('s, 'e, 'a word) io" where
  "checked_sub panic a b = (if b \<le> a then retM (a - b) else failM panic)"

definition checked_mul :: "'e \<Rightarrow> 'a::len word \<Rightarrow> 'a word \<Rightarrow> ('s, 'e, 'a word) io" where
  "checked_mul panic a b = (if unat a * unat b < 2 ^ LENGTH('a) then retM (a * b) else failM panic)"

definition transact :: "('s, 'e, 'a) io \<Rightarrow> ('s, 'e, 'a) io" where
  "transact m = (\<lambda>s. case m s of (Inr v, s') \<Rightarrow> (Inr v, s') | (Inl e, _) \<Rightarrow> (Inl e, s))"

text \<open>A call that acts on the outside part of the state through a getter and a setter.\<close>

definition call_outside ::
    "('s \<Rightarrow> 'x) \<Rightarrow> ('x \<Rightarrow> 's \<Rightarrow> 's) \<Rightarrow> (string \<Rightarrow> 'e) \<Rightarrow> ('x \<Rightarrow> string + 'a \<times> 'x) \<Rightarrow> ('s, 'e, 'a) io" where
  "call_outside out put failed f = (\<lambda>s.
     case f (out s) of
       Inl e \<Rightarrow> (Inl (failed e), s)
     | Inr (v, x) \<Rightarrow> (Inr v, put x s))"

section \<open>Laws\<close>

lemma checked_add_Inr_iff [io_simps]:
  fixes a b :: "'a::len word"
  shows "checked_add p a b s = (Inr c, t) \<longleftrightarrow> unat a + unat b < 2 ^ LENGTH('a) \<and> c = a + b \<and> t = s"
  by (auto simp: checked_add_def io_simps)

lemma checked_sub_Inr_iff [io_simps]:
  "checked_sub p a b s = (Inr c, t) \<longleftrightarrow> b \<le> a \<and> c = a - b \<and> t = s"
  by (auto simp: checked_sub_def io_simps)

lemma checked_mul_Inr_iff [io_simps]:
  fixes a b :: "'a::len word"
  shows "checked_mul p a b s = (Inr c, t) \<longleftrightarrow> unat a * unat b < 2 ^ LENGTH('a) \<and> c = a * b \<and> t = s"
  by (auto simp: checked_mul_def io_simps)

lemma checked_add_Inl_iff [io_simps]:
  fixes a b :: "'a::len word"
  shows "checked_add p a b s = (Inl e, t) \<longleftrightarrow> 2 ^ LENGTH('a) \<le> unat a + unat b \<and> e = p \<and> t = s"
  by (auto simp: checked_add_def io_simps not_less)

lemma checked_sub_Inl_iff [io_simps]:
  "checked_sub p a b s = (Inl e, t) \<longleftrightarrow> a < b \<and> e = p \<and> t = s"
  by (auto simp: checked_sub_def io_simps not_le)

lemma unat_checked:
  fixes a b :: "'a::len word"
  shows "unat a + unat b < 2 ^ LENGTH('a) \<Longrightarrow> unat (a + b) = unat a + unat b"
  by (simp add: unat_word_ariths)

lemma unat_checked_mul:
  fixes a b :: "'a::len word"
  shows "unat a * unat b < 2 ^ LENGTH('a) \<Longrightarrow> unat (a * b) = unat a * unat b"
  by (simp add: unat_word_ariths)

lemma transact_Inl: "transact m s = (Inl e, s') \<Longrightarrow> s' = s"
  by (auto simp: transact_def split: prod.splits sum.splits)

lemma transact_Inr: "transact m s = (Inr v, s') \<longleftrightarrow> m s = (Inr v, s')"
  by (auto simp: transact_def split: prod.splits sum.splits)

context effect_discipline
begin

lemma obeys_checked [intro, simp]: "obeys R (checked_add p a b)" "obeys R (checked_sub p a b)" "obeys R (checked_mul p a b)"
  by (simp_all add: checked_add_def checked_sub_def checked_mul_def)

lemma obeys_call_outside:
  "(\<And>s v x. f (out s) = Inr (v, x) \<Longrightarrow> R s (put x s)) \<Longrightarrow> obeys R (call_outside out put failed f)"
  by (auto simp: obeys_def call_outside_def discipline_refl split: sum.splits)

lemma obeys_transact: "obeys R m \<Longrightarrow> transact m s = (r, t) \<Longrightarrow> R s t"
  by (cases r) (auto simp: transact_Inr discipline_refl dest: transact_Inl obeysD)

end

end
