(* ===== verification/Gateway_Contract.thy ===== *)
theory Gateway_Contract
  imports External Solidity
begin

text \<open>
  The on-chain gateway (\<open>contracts/gateway/RobotMoneyGateway.sol\<close>, \<open>AccessRoles.sol\<close>, the types of \<open>IGateway.sol\<close>): storage
  as a record, every entry point as a computation that may revert, and a transaction that rolls back
  when it does. The tokens, the vault, the router and the role table of OpenZeppelin's \<open>AccessControl\<close> are
  outside: their state is of a type of its own, and the operations of the record \<open>externals\<close> act on it. A call to
  them returns without entering the gateway again. Additions and subtractions are checked, as in Solidity 0.8.
\<close>

section \<open>Types\<close>

record FullPolicy = AgentPolicy +
  allowedDestinations :: "address list"
  allowedSourceVaults :: "address list"

datatype role = DEFAULT_ADMIN_ROLE | ADMIN_ROLE | PAUSER_ROLE | AGENT_ROLE | OtherRole b256

datatype gw_error =
    ZeroAddress | AssetMismatch | PausedError | NotPaused | InvalidAmount | AmountExceedsPerPaymentCap
  | DeadlineExpired | DeadlineTooFar | AgentNotAuthorized | AgentPolicyExpired | WindowCapExceeded
  | PaymentIdAlreadyUsed | FeeOnTransferDetected | ShareCustodyInvariantViolated | InvalidShareReceiver
  | InvalidValidUntil | NotAgentOwner | AgentAlreadyOwned | CommitmentNotFound | CommitmentExpired
  | CommitmentOwnerMismatch | CommitmentHashMismatch | CommitmentTooRecent | InvalidDestination
  | WithdrawalNotEnabled | SharesExceedWithdrawPerPaymentCap | WithdrawWindowCapExceeded | InvalidSourceVault
  | InvalidAssetRecipient | UnexpectedAssetsReceived
  | RoleSeparationViolated
  | AccessControlUnauthorizedAccount address role
  | Panic
  | CallFailed string

datatype gw_event =
    CommitSubmitted address b256 u64
  | CommitRevealed address b256 address
  | AgentAuthorizedEvent address address u64 u256 u256 address
  | AgentRevokedEvent address address
  | PausedEvent address
  | UnpausedEvent address
  | AgentDepositEvent b256 b256 address address u256 u256 u64
  | AgentDepositRoutedEvent b256 b256 address address address u256 "u256 list" u64
  | AgentWithdrawalEvent b256 b256 address address u256 u256 address u64

record Commitment =
  committer :: address
  blockNumber :: u64

record DepositWindow =
  dw_windowStart :: u64
  dw_gross :: u256

record WithdrawWindow =
  ww_windowStart :: u64
  ww_gross :: u256

text \<open>The immutables and the address of the contract.\<close>

record gateway_code =
  gw_this :: address
  usdcToken :: address
  vaultContract :: address
  routerContract :: address

record 'x externals =
  xs_has_role :: "'x \<Rightarrow> role \<Rightarrow> address \<Rightarrow> bool"
  xs_grant_role :: "role \<Rightarrow> address \<Rightarrow> 'x \<Rightarrow> 'x"
  xs_revoke_role :: "role \<Rightarrow> address \<Rightarrow> 'x \<Rightarrow> 'x"
  xs_balance_of :: "address \<Rightarrow> address \<Rightarrow> 'x \<Rightarrow> u256"
  xs_allowance :: "address \<Rightarrow> address \<Rightarrow> address \<Rightarrow> 'x \<Rightarrow> u256"
  xs_transfer_from :: "address \<Rightarrow> address \<Rightarrow> address \<Rightarrow> address \<Rightarrow> u256 \<Rightarrow> 'x \<Rightarrow> string + unit \<times> 'x"
  xs_force_approve :: "address \<Rightarrow> address \<Rightarrow> address \<Rightarrow> u256 \<Rightarrow> 'x \<Rightarrow> string + unit \<times> 'x"
  xs_vault_asset :: "address \<Rightarrow> 'x \<Rightarrow> address"
  xs_vault_deposit :: "address \<Rightarrow> address \<Rightarrow> u256 \<Rightarrow> address \<Rightarrow> 'x \<Rightarrow> string + u256 \<times> 'x"
  xs_vault_redeem :: "address \<Rightarrow> address \<Rightarrow> u256 \<Rightarrow> address \<Rightarrow> address \<Rightarrow> 'x \<Rightarrow> string + u256 \<times> 'x"
  xs_router_deposit_for :: "address \<Rightarrow> address \<Rightarrow> address \<Rightarrow> u256 \<Rightarrow> u256 list \<Rightarrow> 'x \<Rightarrow> string + u256 list \<times> 'x"
  xs_commit_hash :: "address \<Rightarrow> address \<Rightarrow> b256 \<Rightarrow> b256"

record 'x gateway =
  gw_commitments :: "b256 \<Rightarrow> Commitment"
  gw_agents :: "address \<Rightarrow> FullPolicy"
  gw_agentOwner :: "address \<Rightarrow> address"
  gw_agentDepositWindow :: "address \<Rightarrow> DepositWindow"
  gw_agentWithdrawWindow :: "address \<Rightarrow> WithdrawWindow"
  gw_usedPaymentIds :: "b256 \<Rightarrow> bool"
  gw_paused :: bool
  gw_events :: "gw_event list"
  gw_outside :: 'x

type_synonym ('x, 'a) sol = "('x gateway, gw_error, 'a) io"

section \<open>Events and calls\<close>

definition emit_event :: "gw_event \<Rightarrow> ('x, unit) sol" where
  "emit_event e = modifyM (\<lambda>s. s\<lparr>gw_events := gw_events s @ [e]\<rparr>)"

definition external_call :: "('x \<Rightarrow> string + 'a \<times> 'x) \<Rightarrow> ('x, 'a) sol" where
  "external_call f = call_outside gw_outside (\<lambda>x s. s\<lparr>gw_outside := x\<rparr>) CallFailed f"

definition balance_of :: "'x externals \<Rightarrow> address \<Rightarrow> address \<Rightarrow> ('x, u256) sol" where
  "balance_of X token account = getM (\<lambda>s. xs_balance_of X token account (gw_outside s))"

section \<open>Roles\<close>

definition has_role :: "'x externals \<Rightarrow> 'x gateway \<Rightarrow> role \<Rightarrow> address \<Rightarrow> bool" where
  "has_role X s r a = xs_has_role X (gw_outside s) r a"

definition only_role :: "'x externals \<Rightarrow> tx_ctx \<Rightarrow> role \<Rightarrow> ('x, unit) sol" where
  "only_role X ctx r =
     bindM (getM (\<lambda>s. has_role X s r (msg_sender ctx))) (\<lambda>ok.
     refuse_if (\<not> ok) (AccessControlUnauthorizedAccount (msg_sender ctx) r))"

definition conflicting_roles :: "role \<Rightarrow> role list" where
  "conflicting_roles r =
     (case r of
        AGENT_ROLE \<Rightarrow> [ADMIN_ROLE, PAUSER_ROLE]
      | ADMIN_ROLE \<Rightarrow> [AGENT_ROLE, PAUSER_ROLE]
      | PAUSER_ROLE \<Rightarrow> [AGENT_ROLE, ADMIN_ROLE]
      | _ \<Rightarrow> [])"

definition grant_role :: "'x externals \<Rightarrow> role \<Rightarrow> address \<Rightarrow> ('x, unit) sol" where
  "grant_role X r account =
     bindM (getM (\<lambda>s. list_ex (\<lambda>q. has_role X s q account) (conflicting_roles r))) (\<lambda>overlap.
     bindM (refuse_if overlap RoleSeparationViolated) (\<lambda>_.
     modifyM (\<lambda>s. s\<lparr>gw_outside := xs_grant_role X r account (gw_outside s)\<rparr>)))"

definition revoke_role :: "'x externals \<Rightarrow> role \<Rightarrow> address \<Rightarrow> ('x, unit) sol" where
  "revoke_role X r account = modifyM (\<lambda>s. s\<lparr>gw_outside := xs_revoke_role X r account (gw_outside s)\<rparr>)"

definition assert_role_separation :: "'x externals \<Rightarrow> address \<Rightarrow> ('x, unit) sol" where
  "assert_role_separation X account =
     bindM (getM (\<lambda>s. length (filter (\<lambda>r. has_role X s r account) [ADMIN_ROLE, PAUSER_ROLE, AGENT_ROLE]))) (\<lambda>count.
     refuse_if (count > 1) RoleSeparationViolated)"

section \<open>Constants, views and windows\<close>

definition GW_WINDOW_SECONDS :: nat where "GW_WINDOW_SECONDS = 86400"
definition GW_MAX_DEADLINE_SKEW :: u256 where "GW_MAX_DEADLINE_SKEW = 600"
definition COMMIT_EXPIRY_BLOCKS :: nat where "COMMIT_EXPIRY_BLOCKS = 256"

definition window_over :: "u64 \<Rightarrow> u256 \<Rightarrow> bool" where
  "window_over anchor now = (anchor = 0 \<or> unat anchor + GW_WINDOW_SECONDS \<le> unat now)"

definition effectiveWithdrawWindowGross :: "tx_ctx \<Rightarrow> address \<Rightarrow> 'x gateway \<Rightarrow> u256" where
  "effectiveWithdrawWindowGross ctx agent s =
     (let ww = gw_agentWithdrawWindow s agent in
      if window_over (ww_windowStart ww) (block_timestamp ctx) then 0 else ww_gross ww)"

definition effectiveDepositWindowGross :: "tx_ctx \<Rightarrow> address \<Rightarrow> 'x gateway \<Rightarrow> u256" where
  "effectiveDepositWindowGross ctx agent s =
     (let dw = gw_agentDepositWindow s agent in
      if window_over (dw_windowStart dw) (block_timestamp ctx) then 0 else dw_gross dw)"

definition accrueRollingWithdraw :: "tx_ctx \<Rightarrow> address \<Rightarrow> u256 \<Rightarrow> u256 \<Rightarrow> ('x, unit) sol" where
  "accrueRollingWithdraw ctx agent shares cap =
     bindM (getM (\<lambda>s. gw_agentWithdrawWindow s agent)) (\<lambda>ww.
     let over = window_over (ww_windowStart ww) (block_timestamp ctx);
         anchor = (if over then ucast (block_timestamp ctx) else ww_windowStart ww);
         priorGross = (if over then 0 else ww_gross ww) in
     bindM (checked_add Panic priorGross shares) (\<lambda>projected.
     bindM (refuse_if (cap < projected) WithdrawWindowCapExceeded) (\<lambda>_.
     modifyM (\<lambda>s. s\<lparr>gw_agentWithdrawWindow := (gw_agentWithdrawWindow s)(agent :=
       \<lparr>ww_windowStart = anchor, ww_gross = projected\<rparr>)\<rparr>))))"

definition accrueRollingDeposit :: "tx_ctx \<Rightarrow> address \<Rightarrow> u256 \<Rightarrow> u256 \<Rightarrow> ('x, unit) sol" where
  "accrueRollingDeposit ctx agent amt cap =
     bindM (getM (\<lambda>s. gw_agentDepositWindow s agent)) (\<lambda>dw.
     let over = window_over (dw_windowStart dw) (block_timestamp ctx);
         anchor = (if over then ucast (block_timestamp ctx) else dw_windowStart dw);
         priorGross = (if over then 0 else dw_gross dw) in
     bindM (checked_add Panic priorGross amt) (\<lambda>projected.
     bindM (refuse_if (cap < projected) WindowCapExceeded) (\<lambda>_.
     modifyM (\<lambda>s. s\<lparr>gw_agentDepositWindow := (gw_agentDepositWindow s)(agent :=
       \<lparr>dw_windowStart = anchor, dw_gross = projected\<rparr>)\<rparr>))))"

section \<open>Agents\<close>

definition commitAuthorization :: "tx_ctx \<Rightarrow> b256 \<Rightarrow> ('x, unit) sol" where
  "commitAuthorization ctx commitHash =
     bindM (modifyM (\<lambda>s. s\<lparr>gw_commitments := (gw_commitments s)(commitHash :=
       \<lparr>committer = msg_sender ctx, blockNumber = ucast (block_number ctx)\<rparr>)\<rparr>)) (\<lambda>_.
     emit_event (CommitSubmitted (msg_sender ctx) commitHash (ucast (block_number ctx))))"

definition validatePolicy :: "tx_ctx \<Rightarrow> FullPolicy \<Rightarrow> ('x, unit) sol" where
  "validatePolicy ctx p =
     bindM (refuse_if (shareReceiver p = 0) InvalidShareReceiver) (\<lambda>_.
     bindM (refuse_if (\<not> active p) InvalidValidUntil) (\<lambda>_.
     bindM (refuse_if (unat (validUntil p) < unat (block_timestamp ctx)) InvalidValidUntil) (\<lambda>_.
     bindM (refuse_if (maxPerPayment p = 0 \<or> maxPerWindow p = 0) InvalidAmount) (\<lambda>_.
     bindM (refuse_if (maxPerWindow p < maxPerPayment p) InvalidAmount) (\<lambda>_.
     if 0 < maxWithdrawPerPayment p then
       bindM (refuse_if (assetRecipient p = 0) InvalidAssetRecipient) (\<lambda>_.
       bindM (refuse_if (maxWithdrawPerWindow p = 0) InvalidAmount) (\<lambda>_.
       refuse_if (maxWithdrawPerWindow p < maxWithdrawPerPayment p) InvalidAmount))
     else retM ())))))"

definition emit_authorized :: "tx_ctx \<Rightarrow> address \<Rightarrow> FullPolicy \<Rightarrow> ('x, unit) sol" where
  "emit_authorized ctx agent p =
     emit_event (AgentAuthorizedEvent agent (msg_sender ctx) (validUntil p) (maxPerPayment p) (maxPerWindow p) (shareReceiver p))"

definition authorizeAgentInternal :: "'x externals \<Rightarrow> tx_ctx \<Rightarrow> address \<Rightarrow> FullPolicy \<Rightarrow> ('x, unit) sol" where
  "authorizeAgentInternal X ctx agent p =
     bindM (refuse_if (agent = 0) ZeroAddress) (\<lambda>_.
     bindM (getM (\<lambda>s. gw_agentOwner s agent)) (\<lambda>owner.
     bindM (refuse_if (owner \<noteq> 0) AgentAlreadyOwned) (\<lambda>_.
     bindM (validatePolicy ctx p) (\<lambda>_.
     bindM (modifyM (\<lambda>s. s\<lparr>gw_agentOwner := (gw_agentOwner s)(agent := msg_sender ctx),
                          gw_agents := (gw_agents s)(agent := p)\<rparr>)) (\<lambda>_.
     bindM (grant_role X AGENT_ROLE agent) (\<lambda>_.
     bindM (assert_role_separation X agent) (\<lambda>_.
     emit_authorized ctx agent p)))))))"

definition authorizeAgent :: "'x externals \<Rightarrow> tx_ctx \<Rightarrow> address \<Rightarrow> FullPolicy \<Rightarrow> ('x, unit) sol" where
  "authorizeAgent X ctx agent p = authorizeAgentInternal X ctx agent p"

definition no_commitment :: Commitment where
  "no_commitment = \<lparr>committer = 0, blockNumber = 0\<rparr>"

definition revealAuthorization :: "'x externals \<Rightarrow> tx_ctx \<Rightarrow> address \<Rightarrow> b256 \<Rightarrow> FullPolicy \<Rightarrow> ('x, unit) sol" where
  "revealAuthorization X ctx agent salt p =
     (let commitHash = xs_commit_hash X agent (msg_sender ctx) salt in
      bindM (getM (\<lambda>s. gw_commitments s commitHash)) (\<lambda>c.
      bindM (refuse_if (committer c = 0) CommitmentNotFound) (\<lambda>_.
      bindM (refuse_if (committer c \<noteq> msg_sender ctx) CommitmentOwnerMismatch) (\<lambda>_.
      bindM (refuse_if (unat (block_number ctx) \<le> unat (blockNumber c)) CommitmentTooRecent) (\<lambda>_.
      bindM (refuse_if (unat (blockNumber c) + COMMIT_EXPIRY_BLOCKS < unat (block_number ctx)) CommitmentExpired) (\<lambda>_.
      bindM (modifyM (\<lambda>s. s\<lparr>gw_commitments := (gw_commitments s)(commitHash := no_commitment)\<rparr>)) (\<lambda>_.
      bindM (emit_event (CommitRevealed (msg_sender ctx) commitHash agent)) (\<lambda>_.
      authorizeAgentInternal X ctx agent p))))))))"

definition setPolicy :: "tx_ctx \<Rightarrow> address \<Rightarrow> FullPolicy \<Rightarrow> ('x, unit) sol" where
  "setPolicy ctx agent p =
     bindM (refuse_if (agent = 0) ZeroAddress) (\<lambda>_.
     bindM (getM (\<lambda>s. gw_agentOwner s agent)) (\<lambda>owner.
     bindM (refuse_if (owner \<noteq> msg_sender ctx) NotAgentOwner) (\<lambda>_.
     bindM (validatePolicy ctx p) (\<lambda>_.
     bindM (modifyM (\<lambda>s. s\<lparr>gw_agents := (gw_agents s)(agent := p)\<rparr>)) (\<lambda>_.
     emit_authorized ctx agent p)))))"

text \<open>A deleted policy.\<close>

definition no_policy :: FullPolicy where
  "no_policy = \<lparr>active = False, validUntil = 0, maxPerPayment = 0, maxPerWindow = 0, shareReceiver = 0,
     assetRecipient = 0, maxWithdrawPerPayment = 0, maxWithdrawPerWindow = 0,
     allowedDestinations = [], allowedSourceVaults = []\<rparr>"

definition revokeAgent :: "'x externals \<Rightarrow> tx_ctx \<Rightarrow> address \<Rightarrow> ('x, unit) sol" where
  "revokeAgent X ctx agent =
     bindM (refuse_if (agent = 0) ZeroAddress) (\<lambda>_.
     bindM (getM (\<lambda>s. gw_agentOwner s agent)) (\<lambda>owner.
     bindM (refuse_if (owner \<noteq> msg_sender ctx) NotAgentOwner) (\<lambda>_.
     bindM (modifyM (\<lambda>s. s\<lparr>gw_agents := (gw_agents s)(agent := no_policy),
                          gw_agentOwner := (gw_agentOwner s)(agent := 0)\<rparr>)) (\<lambda>_.
     bindM (getM (\<lambda>s. has_role X s AGENT_ROLE agent)) (\<lambda>held.
     bindM (if held then revoke_role X AGENT_ROLE agent else retM ()) (\<lambda>_.
     emit_event (AgentRevokedEvent agent owner)))))))"

definition pause :: "'x externals \<Rightarrow> tx_ctx \<Rightarrow> ('x, unit) sol" where
  "pause X ctx =
     bindM (only_role X ctx PAUSER_ROLE) (\<lambda>_.
     bindM (getM gw_paused) (\<lambda>pd.
     bindM (refuse_if pd PausedError) (\<lambda>_.
     bindM (modifyM (\<lambda>s. s\<lparr>gw_paused := True\<rparr>)) (\<lambda>_.
     emit_event (PausedEvent (msg_sender ctx))))))"

definition unpause :: "'x externals \<Rightarrow> tx_ctx \<Rightarrow> ('x, unit) sol" where
  "unpause X ctx =
     bindM (only_role X ctx ADMIN_ROLE) (\<lambda>_.
     bindM (getM gw_paused) (\<lambda>pd.
     bindM (refuse_if (\<not> pd) NotPaused) (\<lambda>_.
     bindM (modifyM (\<lambda>s. s\<lparr>gw_paused := False\<rparr>)) (\<lambda>_.
     emit_event (UnpausedEvent (msg_sender ctx))))))"

section \<open>Payments\<close>

definition payment_hash :: "env \<Rightarrow> gateway_code \<Rightarrow> tx_ctx \<Rightarrow> b256 \<Rightarrow> u256 \<Rightarrow> b256 \<Rightarrow> b256" where
  "payment_hash E I ctx orderId amt idempotencyKey =
     keccak256 E (abi_encode_sequence E
       (block_chainid ctx, gw_this I, msg_sender ctx, orderId, amt, idempotencyKey))"

definition window_id :: "tx_ctx \<Rightarrow> u64" where
  "window_id ctx = of_nat (unat (block_timestamp ctx) div GW_WINDOW_SECONDS)"

text \<open>The deadline and expiry checks the three payment entry points share.\<close>

definition check_deadline :: "tx_ctx \<Rightarrow> u64 \<Rightarrow> ('x, unit) sol" where
  "check_deadline ctx dl =
     bindM (refuse_if (unat dl < unat (block_timestamp ctx)) DeadlineExpired) (\<lambda>_.
     bindM (checked_add Panic (block_timestamp ctx) GW_MAX_DEADLINE_SKEW) (\<lambda>latest.
     refuse_if (unat latest < unat dl) DeadlineTooFar))"

definition check_policy_live :: "tx_ctx \<Rightarrow> FullPolicy \<Rightarrow> ('x, unit) sol" where
  "check_policy_live ctx p =
     bindM (refuse_if (\<not> active p) AgentNotAuthorized) (\<lambda>_.
     refuse_if (unat (validUntil p) < unat (block_timestamp ctx)) AgentPolicyExpired)"

definition reserve_payment :: "b256 \<Rightarrow> ('x, unit) sol" where
  "reserve_payment paymentId = modifyM (\<lambda>s. s\<lparr>gw_usedPaymentIds := (gw_usedPaymentIds s)(paymentId := True)\<rparr>)"

definition check_unused :: "b256 \<Rightarrow> ('x, unit) sol" where
  "check_unused paymentId =
     bindM (getM (\<lambda>s. gw_usedPaymentIds s paymentId)) (\<lambda>used. refuse_if used PaymentIdAlreadyUsed)"

definition check_no_custody :: "'x externals \<Rightarrow> gateway_code \<Rightarrow> address \<Rightarrow> ('x, unit) sol" where
  "check_no_custody X I token =
     bindM (balance_of X token (gw_this I)) (\<lambda>b. refuse_if (b \<noteq> 0) ShareCustodyInvariantViolated)"

text \<open>Pull USDC from the agent and verify the balance delta; the balance before is returned.\<close>

definition pull_usdc :: "'x externals \<Rightarrow> gateway_code \<Rightarrow> tx_ctx \<Rightarrow> u256 \<Rightarrow> ('x, u256) sol" where
  "pull_usdc X I ctx amt =
     bindM (balance_of X (usdcToken I) (gw_this I)) (\<lambda>balBefore.
     bindM (external_call (xs_transfer_from X (usdcToken I) (gw_this I) (msg_sender ctx) (gw_this I) amt)) (\<lambda>_.
     bindM (balance_of X (usdcToken I) (gw_this I)) (\<lambda>balAfter.
     bindM (checked_sub Panic balAfter balBefore) (\<lambda>delta.
     bindM (refuse_if (delta \<noteq> amt) FeeOnTransferDetected) (\<lambda>_.
     retM balBefore)))))"

definition vault_leg :: "'x externals \<Rightarrow> gateway_code \<Rightarrow> address \<Rightarrow> u256 \<Rightarrow> address \<Rightarrow> u256 \<Rightarrow> ('x, u256) sol" where
  "vault_leg X I destination amt receiver balBefore =
     bindM (external_call (xs_force_approve X (usdcToken I) (gw_this I) destination amt)) (\<lambda>_.
     bindM (external_call (xs_vault_deposit X destination (gw_this I) amt receiver)) (\<lambda>sharesMinted.
     bindM (external_call (xs_force_approve X (usdcToken I) (gw_this I) destination 0)) (\<lambda>_.
     bindM (check_no_custody X I destination) (\<lambda>_.
     bindM (balance_of X (usdcToken I) (gw_this I)) (\<lambda>b.
     bindM (refuse_if (b \<noteq> balBefore) ShareCustodyInvariantViolated) (\<lambda>_.
     retM sharesMinted))))))"

definition gw_deposit ::
    "env \<Rightarrow> 'x externals \<Rightarrow> gateway_code \<Rightarrow> tx_ctx \<Rightarrow> b256 \<Rightarrow> u256 \<Rightarrow> u64 \<Rightarrow> b256 \<Rightarrow> ('x, b256 \<times> u256) sol" where
  "gw_deposit E X I ctx orderId amt dl idempotencyKey =
     bindM (only_role X ctx AGENT_ROLE) (\<lambda>_.
     bindM (getM gw_paused) (\<lambda>pd.
     bindM (refuse_if pd PausedError) (\<lambda>_.
     bindM (getM (\<lambda>s. gw_agents s (msg_sender ctx))) (\<lambda>p.
     bindM (refuse_if (amt = 0) InvalidAmount) (\<lambda>_.
     bindM (refuse_if (maxPerPayment p < amt) AmountExceedsPerPaymentCap) (\<lambda>_.
     bindM (check_deadline ctx dl) (\<lambda>_.
     bindM (check_policy_live ctx p) (\<lambda>_.
     let paymentId = payment_hash E I ctx orderId amt idempotencyKey in
     bindM (check_unused paymentId) (\<lambda>_.
     bindM (check_no_custody X I (vaultContract I)) (\<lambda>_.
     bindM (accrueRollingDeposit ctx (msg_sender ctx) amt (maxPerWindow p)) (\<lambda>_.
     bindM (reserve_payment paymentId) (\<lambda>_.
     bindM (pull_usdc X I ctx amt) (\<lambda>balBefore.
     bindM (vault_leg X I (vaultContract I) amt (shareReceiver p) balBefore) (\<lambda>sharesMinted.
     bindM (emit_event (AgentDepositEvent paymentId orderId (msg_sender ctx) (shareReceiver p) amt sharesMinted (window_id ctx))) (\<lambda>_.
     retM (paymentId, sharesMinted))))))))))))))))"

definition validateDestination :: "gateway_code \<Rightarrow> address \<Rightarrow> address list \<Rightarrow> ('x, bool) sol" where
  "validateDestination I destination allowed =
     (let isVault = (destination = vaultContract I);
          isRouter = (routerContract I \<noteq> 0 \<and> destination = routerContract I) in
      bindM (refuse_if (\<not> isVault \<and> \<not> isRouter) InvalidDestination) (\<lambda>_.
      bindM (refuse_if (allowed \<noteq> [] \<and> destination \<notin> set allowed) InvalidDestination) (\<lambda>_.
      retM isRouter)))"

definition executeRouterDeposit ::
    "'x externals \<Rightarrow> gateway_code \<Rightarrow> tx_ctx \<Rightarrow> b256 \<Rightarrow> b256 \<Rightarrow> address \<Rightarrow> u256 \<Rightarrow> u256 \<Rightarrow> u256 list \<Rightarrow> ('x, unit) sol" where
  "executeRouterDeposit X I ctx paymentId orderId receiver amt balBefore minSharesPerLeg =
     bindM (external_call (xs_force_approve X (usdcToken I) (gw_this I) (routerContract I) amt)) (\<lambda>_.
     bindM (external_call (xs_router_deposit_for X (routerContract I) (gw_this I) receiver amt minSharesPerLeg)) (\<lambda>sharesPerLeg.
     bindM (external_call (xs_force_approve X (usdcToken I) (gw_this I) (routerContract I) 0)) (\<lambda>_.
     bindM (balance_of X (usdcToken I) (gw_this I)) (\<lambda>b.
     bindM (refuse_if (b \<noteq> balBefore) ShareCustodyInvariantViolated) (\<lambda>_.
     emit_event (AgentDepositRoutedEvent paymentId orderId (msg_sender ctx) receiver (routerContract I) amt
       sharesPerLeg (window_id ctx)))))))"

definition executeVaultDeposit ::
    "'x externals \<Rightarrow> gateway_code \<Rightarrow> tx_ctx \<Rightarrow> b256 \<Rightarrow> b256 \<Rightarrow> address \<Rightarrow> u256 \<Rightarrow> address \<Rightarrow> u256 \<Rightarrow> ('x, unit) sol" where
  "executeVaultDeposit X I ctx paymentId orderId receiver amt destination balBefore =
     bindM (check_no_custody X I destination) (\<lambda>_.
     bindM (vault_leg X I destination amt receiver balBefore) (\<lambda>sharesMinted.
     emit_event (AgentDepositEvent paymentId orderId (msg_sender ctx) receiver amt sharesMinted (window_id ctx))))"

definition executeDeposit ::
    "'x externals \<Rightarrow> gateway_code \<Rightarrow> tx_ctx \<Rightarrow> bool \<Rightarrow> b256 \<Rightarrow> b256 \<Rightarrow> address \<Rightarrow> u256 \<Rightarrow> address \<Rightarrow> u256 \<Rightarrow> u256 list \<Rightarrow>
     ('x, unit) sol" where
  "executeDeposit X I ctx isRouter paymentId orderId receiver amt destination balBefore minSharesPerLeg =
     (if isRouter then executeRouterDeposit X I ctx paymentId orderId receiver amt balBefore minSharesPerLeg
      else executeVaultDeposit X I ctx paymentId orderId receiver amt destination balBefore)"

definition depositTo ::
    "env \<Rightarrow> 'x externals \<Rightarrow> gateway_code \<Rightarrow> tx_ctx \<Rightarrow> b256 \<Rightarrow> u256 \<Rightarrow> u64 \<Rightarrow> b256 \<Rightarrow> address \<Rightarrow> u256 list \<Rightarrow> ('x, b256) sol" where
  "depositTo E X I ctx orderId amt dl idempotencyKey destination minSharesPerLeg =
     bindM (only_role X ctx AGENT_ROLE) (\<lambda>_.
     bindM (getM gw_paused) (\<lambda>pd.
     bindM (refuse_if pd PausedError) (\<lambda>_.
     bindM (getM (\<lambda>s. gw_agents s (msg_sender ctx))) (\<lambda>p.
     bindM (refuse_if (amt = 0) InvalidAmount) (\<lambda>_.
     bindM (refuse_if (maxPerPayment p < amt) AmountExceedsPerPaymentCap) (\<lambda>_.
     bindM (check_deadline ctx dl) (\<lambda>_.
     bindM (check_policy_live ctx p) (\<lambda>_.
     bindM (validateDestination I destination (allowedDestinations p)) (\<lambda>isRouter.
     let paymentId = payment_hash E I ctx orderId amt idempotencyKey in
     bindM (check_unused paymentId) (\<lambda>_.
     bindM (accrueRollingDeposit ctx (msg_sender ctx) amt (maxPerWindow p)) (\<lambda>_.
     bindM (reserve_payment paymentId) (\<lambda>_.
     bindM (pull_usdc X I ctx amt) (\<lambda>balBefore.
     bindM (executeDeposit X I ctx isRouter paymentId orderId (shareReceiver p) amt destination balBefore minSharesPerLeg) (\<lambda>_.
     retM paymentId))))))))))))))"

definition gw_withdraw ::
    "env \<Rightarrow> 'x externals \<Rightarrow> gateway_code \<Rightarrow> tx_ctx \<Rightarrow> b256 \<Rightarrow> u256 \<Rightarrow> address \<Rightarrow> u64 \<Rightarrow> b256 \<Rightarrow> ('x, b256 \<times> u256) sol" where
  "gw_withdraw E X I ctx orderId shares sourceVault dl idempotencyKey =
     bindM (only_role X ctx AGENT_ROLE) (\<lambda>_.
     bindM (getM gw_paused) (\<lambda>pd.
     bindM (refuse_if pd PausedError) (\<lambda>_.
     bindM (getM (\<lambda>s. gw_agents s (msg_sender ctx))) (\<lambda>p.
     bindM (refuse_if (maxWithdrawPerPayment p = 0) WithdrawalNotEnabled) (\<lambda>_.
     bindM (refuse_if (shares = 0) InvalidAmount) (\<lambda>_.
     bindM (refuse_if (maxWithdrawPerPayment p < shares) SharesExceedWithdrawPerPaymentCap) (\<lambda>_.
     bindM (check_deadline ctx dl) (\<lambda>_.
     bindM (check_policy_live ctx p) (\<lambda>_.
     bindM (refuse_if (sourceVault \<noteq> vaultContract I) InvalidSourceVault) (\<lambda>_.
     bindM (refuse_if (allowedSourceVaults p \<noteq> [] \<and> sourceVault \<notin> set (allowedSourceVaults p)) InvalidSourceVault) (\<lambda>_.
     bindM (accrueRollingWithdraw ctx (msg_sender ctx) shares (maxWithdrawPerWindow p)) (\<lambda>_.
     let paymentId = payment_hash E I ctx orderId shares idempotencyKey in
     bindM (check_unused paymentId) (\<lambda>_.
     bindM (reserve_payment paymentId) (\<lambda>_.
     bindM (external_call (xs_transfer_from X sourceVault (gw_this I) (msg_sender ctx) (gw_this I) shares)) (\<lambda>_.
     bindM (balance_of X (usdcToken I) (gw_this I)) (\<lambda>usdcBefore.
     bindM (external_call (xs_vault_redeem X sourceVault (gw_this I) shares (assetRecipient p) (gw_this I))) (\<lambda>assetsOut.
     bindM (balance_of X (usdcToken I) (gw_this I)) (\<lambda>b.
     bindM (refuse_if (b \<noteq> usdcBefore) UnexpectedAssetsReceived) (\<lambda>_.
     bindM (check_no_custody X I sourceVault) (\<lambda>_.
     bindM (emit_event (AgentWithdrawalEvent paymentId orderId (msg_sender ctx) sourceVault shares assetsOut
       (assetRecipient p) (window_id ctx))) (\<lambda>_.
     retM (paymentId, assetsOut))))))))))))))))))))))"

section \<open>Constructor and transactions\<close>

definition gateway_new :: "'x externals \<Rightarrow> gateway_code \<Rightarrow> address \<Rightarrow> address \<Rightarrow> ('x, unit) sol" where
  "gateway_new X I admin pauser =
     bindM (refuse_if (usdcToken I = 0) ZeroAddress) (\<lambda>_.
     bindM (refuse_if (vaultContract I = 0) ZeroAddress) (\<lambda>_.
     bindM (refuse_if (admin = 0) ZeroAddress) (\<lambda>_.
     bindM (refuse_if (pauser = 0) ZeroAddress) (\<lambda>_.
     bindM (getM (\<lambda>s. xs_vault_asset X (vaultContract I) (gw_outside s))) (\<lambda>asset.
     bindM (refuse_if (asset \<noteq> usdcToken I) AssetMismatch) (\<lambda>_.
     bindM (grant_role X DEFAULT_ADMIN_ROLE admin) (\<lambda>_.
     bindM (grant_role X ADMIN_ROLE admin) (\<lambda>_.
     grant_role X PAUSER_ROLE pauser))))))))"

text \<open>The storage before the constructor runs.\<close>

definition blank_gateway :: "'x \<Rightarrow> 'x gateway" where
  "blank_gateway x =
     \<lparr>gw_commitments = (\<lambda>_. no_commitment), gw_agents = (\<lambda>_. no_policy), gw_agentOwner = (\<lambda>_. 0),
      gw_agentDepositWindow = (\<lambda>_. \<lparr>dw_windowStart = 0, dw_gross = 0\<rparr>),
      gw_agentWithdrawWindow = (\<lambda>_. \<lparr>ww_windowStart = 0, ww_gross = 0\<rparr>),
      gw_usedPaymentIds = (\<lambda>_. False), gw_paused = False, gw_events = [], gw_outside = x\<rparr>"

datatype gw_call =
    CommitAuthorization b256
  | RevealAuthorization address b256 FullPolicy
  | AuthorizeAgent address FullPolicy
  | SetPolicy address FullPolicy
  | RevokeAgent address
  | Pause
  | Unpause
  | CallDeposit b256 u256 u64 b256
  | DepositTo b256 u256 u64 b256 address "u256 list"
  | CallWithdraw b256 u256 address u64 b256

definition no_result :: "('x, 'a) sol \<Rightarrow> ('x, unit) sol" where
  "no_result m = bindM m (\<lambda>_. retM ())"

fun gw_entry :: "env \<Rightarrow> 'x externals \<Rightarrow> gateway_code \<Rightarrow> tx_ctx \<Rightarrow> gw_call \<Rightarrow> ('x, unit) sol" where
  "gw_entry E X I ctx (CommitAuthorization h) = commitAuthorization ctx h"
| "gw_entry E X I ctx (RevealAuthorization a salt p) = revealAuthorization X ctx a salt p"
| "gw_entry E X I ctx (AuthorizeAgent a p) = authorizeAgent X ctx a p"
| "gw_entry E X I ctx (SetPolicy a p) = setPolicy ctx a p"
| "gw_entry E X I ctx (RevokeAgent a) = revokeAgent X ctx a"
| "gw_entry E X I ctx Pause = pause X ctx"
| "gw_entry E X I ctx Unpause = unpause X ctx"
| "gw_entry E X I ctx (CallDeposit order amt dl idem) = no_result (gw_deposit E X I ctx order amt dl idem)"
| "gw_entry E X I ctx (DepositTo order amt dl idem dest mins) = no_result (depositTo E X I ctx order amt dl idem dest mins)"
| "gw_entry E X I ctx (CallWithdraw order shares v dl idem) = no_result (gw_withdraw E X I ctx order shares v dl idem)"

definition gw_exec :: "env \<Rightarrow> 'x externals \<Rightarrow> gateway_code \<Rightarrow> tx_ctx \<Rightarrow> gw_call \<Rightarrow> ('x, unit) sol" where
  "gw_exec E X I ctx call = transact (gw_entry E X I ctx call)"

end
