(* ===== verification/Gateway_Correct.thy ===== *)
theory Gateway_Correct
  imports Gateway_Contract Demo_Env
begin

text \<open>
  Correctness of the gateway over runs: the calls of any senders in any order, the role changes that OpenZeppelin's
  \<open>AccessControl\<close> offers its administrator and holders, and whatever the tokens and vaults do in between.
\<close>

section \<open>Runs\<close>

text \<open>
  What is relied on of the outside: the role table grants and revokes one pair at a time, and the token, vault and
  router calls change no role.
\<close>

definition same_roles :: "'x externals \<Rightarrow> 'x \<Rightarrow> 'x \<Rightarrow> bool" where
  "same_roles X x y \<longleftrightarrow> xs_has_role X y = xs_has_role X x"

definition keeps_roles :: "'x externals \<Rightarrow> ('x \<Rightarrow> string + 'a \<times> 'x) \<Rightarrow> bool" where
  "keeps_roles X f \<longleftrightarrow> (\<forall>x v y. f x = Inr (v, y) \<longrightarrow> same_roles X x y)"

definition outside_ok :: "'x externals \<Rightarrow> bool" where
  "outside_ok X \<longleftrightarrow>
     (\<forall>r a x q b. xs_has_role X (xs_grant_role X r a x) q b \<longleftrightarrow> (q = r \<and> b = a) \<or> xs_has_role X x q b) \<and>
     (\<forall>r a x q b. xs_has_role X (xs_revoke_role X r a x) q b \<longleftrightarrow> \<not> (q = r \<and> b = a) \<and> xs_has_role X x q b) \<and>
     (\<forall>t c a b n. keeps_roles X (xs_transfer_from X t c a b n)) \<and>
     (\<forall>t c a n. keeps_roles X (xs_force_approve X t c a n)) \<and>
     (\<forall>v c n a. keeps_roles X (xs_vault_deposit X v c n a)) \<and>
     (\<forall>v c n a b. keeps_roles X (xs_vault_redeem X v c n a b)) \<and>
     (\<forall>v c a n ms. keeps_roles X (xs_router_deposit_for X v c a n ms))"

datatype payment_kind = DepositPayment | WithdrawPayment

record payment =
  pay_kind :: payment_kind
  pay_agent :: address
  pay_id :: b256
  pay_time :: nat
  pay_amount :: nat
  pay_cap :: nat

fun payment_of :: "env \<Rightarrow> gateway_code \<Rightarrow> tx_ctx \<Rightarrow> 'x gateway \<Rightarrow> gw_call \<Rightarrow> payment list" where
  "payment_of E I ctx s (CallDeposit order amt dl idem) =
     [\<lparr>pay_kind = DepositPayment, pay_agent = msg_sender ctx, pay_id = payment_hash E I ctx order amt idem,
       pay_time = unat (block_timestamp ctx), pay_amount = unat amt,
       pay_cap = unat (maxPerWindow (gw_agents s (msg_sender ctx)))\<rparr>]"
| "payment_of E I ctx s (DepositTo order amt dl idem dest mins) =
     [\<lparr>pay_kind = DepositPayment, pay_agent = msg_sender ctx, pay_id = payment_hash E I ctx order amt idem,
       pay_time = unat (block_timestamp ctx), pay_amount = unat amt,
       pay_cap = unat (maxPerWindow (gw_agents s (msg_sender ctx)))\<rparr>]"
| "payment_of E I ctx s (CallWithdraw order shares v dl idem) =
     [\<lparr>pay_kind = WithdrawPayment, pay_agent = msg_sender ctx, pay_id = payment_hash E I ctx order shares idem,
       pay_time = unat (block_timestamp ctx), pay_amount = unat shares,
       pay_cap = unat (maxWithdrawPerWindow (gw_agents s (msg_sender ctx)))\<rparr>]"
| "payment_of E I ctx s _ = []"

inductive gw_step :: "env \<Rightarrow> 'x externals \<Rightarrow> gateway_code \<Rightarrow> 'x gateway \<Rightarrow> payment list \<Rightarrow> 'x gateway \<Rightarrow> bool"
  for E X I where
  step_paid: "msg_sender ctx \<noteq> 0 \<Longrightarrow> gw_exec E X I ctx c s = (Inr (), s') \<Longrightarrow>
    gw_step E X I s (payment_of E I ctx s c) s'"
| step_reverted: "gw_exec E X I ctx c s = (Inl e, s') \<Longrightarrow> gw_step E X I s [] s'"
| step_grant: "has_role X s DEFAULT_ADMIN_ROLE admin \<Longrightarrow> transact (grant_role X r a) s = (res, s') \<Longrightarrow>
    gw_step E X I s [] s'"
| step_revoke: "has_role X s DEFAULT_ADMIN_ROLE admin \<Longrightarrow> transact (revoke_role X r a) s = (res, s') \<Longrightarrow>
    gw_step E X I s [] s'"
| step_renounce: "transact (revoke_role X r a) s = (res, s') \<Longrightarrow> gw_step E X I s [] s'"
| step_outside: "same_roles X (gw_outside s) x \<Longrightarrow> gw_step E X I s [] (s\<lparr>gw_outside := x\<rparr>)"

inductive gw_run :: "env \<Rightarrow> 'x externals \<Rightarrow> gateway_code \<Rightarrow> 'x gateway \<Rightarrow> payment list \<Rightarrow> 'x gateway \<Rightarrow> bool"
  for E X I where
  run_start: "gw_run E X I s [] s"
| run_step: "gw_run E X I s ps t \<Longrightarrow> gw_step E X I t ls u \<Longrightarrow> gw_run E X I s (ps @ ls) u"

inductive_cases gw_stepE: "gw_step E X I s ls s'"

definition deployed :: "'x externals \<Rightarrow> gateway_code \<Rightarrow> 'x gateway \<Rightarrow> bool" where
  "deployed X I s \<longleftrightarrow>
     (\<exists>x admin pauser. (\<forall>r a. \<not> xs_has_role X x r a) \<and> gateway_new X I admin pauser (blank_gateway x) = (Inr (), s))"

definition gw_reachable :: "env \<Rightarrow> 'x externals \<Rightarrow> gateway_code \<Rightarrow> 'x gateway \<Rightarrow> bool" where
  "gw_reachable E X I s \<longleftrightarrow> (\<exists>s0 ps. deployed X I s0 \<and> gw_run E X I s0 ps s)"

section \<open>What the primitive effects keep\<close>

text \<open>The books of the gateway are everything it stores but the role table and the log.\<close>

definition same_books :: "'x gateway \<Rightarrow> 'x gateway \<Rightarrow> bool" where
  "same_books s t \<longleftrightarrow>
     gw_commitments t = gw_commitments s \<and> gw_agents t = gw_agents s \<and> gw_agentOwner t = gw_agentOwner s \<and>
     gw_agentDepositWindow t = gw_agentDepositWindow s \<and> gw_agentWithdrawWindow t = gw_agentWithdrawWindow s \<and>
     gw_usedPaymentIds t = gw_usedPaymentIds s \<and> gw_paused t = gw_paused s"

definition interaction :: "'x externals \<Rightarrow> 'x gateway \<Rightarrow> 'x gateway \<Rightarrow> bool" where
  "interaction X s t \<longleftrightarrow> same_books s t \<and> same_roles X (gw_outside s) (gw_outside t)"

interpretation bk: effect_discipline same_books
  by unfold_locales (auto simp: same_books_def)

interpretation ia: effect_discipline "interaction X" for X
  by unfold_locales (auto simp: interaction_def same_roles_def same_books_def)

lemma external_call_books [simp]: "obeys same_books (external_call f)"
  by (auto simp: obeys_def external_call_def call_outside_def same_books_def split: sum.splits)

lemma emit_books [simp]: "obeys same_books (emit_event e)"
  by (auto simp: emit_event_def same_books_def intro!: bk.obeys_modifyM)

lemma external_call_interaction: "keeps_roles X f \<Longrightarrow> obeys (interaction X) (external_call f)"
  by (auto simp: obeys_def external_call_def call_outside_def interaction_def same_books_def keeps_roles_def same_roles_def split: sum.splits)

lemma emit_interaction [simp]: "obeys (interaction X) (emit_event e)"
  by (auto simp: emit_event_def interaction_def same_books_def same_roles_def intro!: ia.obeys_modifyM)

lemmas leg_defs = balance_of_def check_no_custody_def pull_usdc_def vault_leg_def executeRouterDeposit_def executeVaultDeposit_def
  executeDeposit_def

lemma legs_keep_books [simp]:
  "obeys same_books (pull_usdc X I ctx amt)"
  "obeys same_books (vault_leg X I d amt rcv bal)"
  "obeys same_books (executeRouterDeposit X I ctx pid ord rcv amt bal mins)"
  "obeys same_books (executeVaultDeposit X I ctx pid ord rcv amt d bal)"
  "obeys same_books (executeDeposit X I ctx b pid ord rcv amt d bal mins)"
  by (auto simp: leg_defs intro!: bk.obeys_intros)

lemma legs_keep_roles [simp]:
  assumes "outside_ok X"
  shows "obeys (interaction X) (pull_usdc X I ctx amt)"
    "obeys (interaction X) (vault_leg X I d amt rcv bal)"
    "obeys (interaction X) (executeRouterDeposit X I ctx pid ord rcv amt bal mins)"
    "obeys (interaction X) (executeVaultDeposit X I ctx pid ord rcv amt d bal)"
    "obeys (interaction X) (executeDeposit X I ctx b pid ord rcv amt d bal mins)"
  using assms by (auto simp: leg_defs outside_ok_def intro!: ia.obeys_intros external_call_interaction)

section \<open>Payments\<close>

text \<open>A payment keeps the policies, the owners and the roles, whether it succeeds or reverts.\<close>

definition keeps_policies :: "'x externals \<Rightarrow> 'x gateway \<Rightarrow> 'x gateway \<Rightarrow> bool" where
  "keeps_policies X s t \<longleftrightarrow>
     gw_agents t = gw_agents s \<and> gw_agentOwner t = gw_agentOwner s \<and> same_roles X (gw_outside s) (gw_outside t)"

interpretation kp: effect_discipline "keeps_policies X" for X
  by unfold_locales (auto simp: keeps_policies_def same_roles_def)

lemma interaction_keeps_policies: "obeys (interaction X) m \<Longrightarrow> obeys (keeps_policies X) m"
  by (simp add: obeys_def interaction_def same_books_def keeps_policies_def)

lemma accrue_keeps_policies [simp]:
  "obeys (keeps_policies X) (accrueRollingDeposit ctx a n cap)"
  "obeys (keeps_policies X) (accrueRollingWithdraw ctx a n cap)"
  "obeys (keeps_policies X) (reserve_payment pid)"
  by (auto simp: accrueRollingDeposit_def accrueRollingWithdraw_def reserve_payment_def Let_def keeps_policies_def
      same_roles_def intro!: kp.obeys_intros kp.obeys_modifyM)

lemmas check_defs = only_role_def check_deadline_def check_policy_live_def check_unused_def check_no_custody_def
  balance_of_def validateDestination_def

lemma payments_keep_policies:
  assumes "outside_ok X"
  shows "obeys (keeps_policies X) (gw_deposit E X I ctx ord amt dl idem)"
    "obeys (keeps_policies X) (depositTo E X I ctx ord amt dl idem dest mins)"
    "obeys (keeps_policies X) (gw_withdraw E X I ctx ord shares v dl idem)"
  unfolding gw_deposit_def depositTo_def gw_withdraw_def check_defs Let_def
  using assms
  by (intro kp.obeys_intros; auto simp: outside_ok_def intro!: interaction_keeps_policies external_call_interaction)+

text \<open>What a payment that succeeds wrote.\<close>

definition accrued :: "nat \<Rightarrow> nat \<Rightarrow> nat \<times> nat \<Rightarrow> nat \<times> nat" where
  "accrued now n w =
     (if fst w = 0 \<or> fst w + GW_WINDOW_SECONDS \<le> now then (now, n) else (fst w, snd w + n))"

definition deposit_window :: "'x gateway \<Rightarrow> address \<Rightarrow> nat \<times> nat" where
  "deposit_window s a = (unat (dw_windowStart (gw_agentDepositWindow s a)), unat (dw_gross (gw_agentDepositWindow s a)))"

definition withdraw_window :: "'x gateway \<Rightarrow> address \<Rightarrow> nat \<times> nat" where
  "withdraw_window s a = (unat (ww_windowStart (gw_agentWithdrawWindow s a)), unat (ww_gross (gw_agentWithdrawWindow s a)))"

lemma unat_ucast_time: "unat (t :: u256) < 2 ^ 64 \<Longrightarrow> unat (ucast t :: u64) = unat t"
  by (simp add: unsigned_ucast_eq take_bit_nat_eq_self)

lemma accrue_deposit_D:
  assumes "accrueRollingDeposit ctx a n cap s = (Inr u, s')"
  shows "gw_usedPaymentIds s' = gw_usedPaymentIds s \<and> gw_agentWithdrawWindow s' = gw_agentWithdrawWindow s \<and>
    (\<forall>b. b \<noteq> a \<longrightarrow> deposit_window s' b = deposit_window s b) \<and> snd (deposit_window s' a) \<le> unat cap \<and>
    (unat (block_timestamp ctx) < 2 ^ 64 \<longrightarrow>
       deposit_window s' a = accrued (unat (block_timestamp ctx)) (unat n) (deposit_window s a))"
proof -
  define over where "over = window_over (dw_windowStart (gw_agentDepositWindow s a)) (block_timestamp ctx)"
  show ?thesis
    using assms
    by (cases over)
      (auto simp: accrueRollingDeposit_def io_simps Let_def deposit_window_def accrued_def unat_checked unat_ucast_time
         not_less word_le_nat_alt window_over_def unat_eq_zero over_def [symmetric])
qed

lemma accrue_withdraw_D:
  assumes "accrueRollingWithdraw ctx a n cap s = (Inr u, s')"
  shows "gw_usedPaymentIds s' = gw_usedPaymentIds s \<and> gw_agentDepositWindow s' = gw_agentDepositWindow s \<and>
    (\<forall>b. b \<noteq> a \<longrightarrow> withdraw_window s' b = withdraw_window s b) \<and> snd (withdraw_window s' a) \<le> unat cap \<and>
    (unat (block_timestamp ctx) < 2 ^ 64 \<longrightarrow>
       withdraw_window s' a = accrued (unat (block_timestamp ctx)) (unat n) (withdraw_window s a))"
proof -
  define over where "over = window_over (ww_windowStart (gw_agentWithdrawWindow s a)) (block_timestamp ctx)"
  show ?thesis
    using assms
    by (cases over)
      (auto simp: accrueRollingWithdraw_def io_simps Let_def withdraw_window_def accrued_def unat_checked unat_ucast_time
         not_less word_le_nat_alt window_over_def unat_eq_zero over_def [symmetric])
qed

text \<open>
  The pair of windows and the used ids as one ledger; the ledger after a payment. A payment kind picks the window it
  moves.
\<close>

definition pay_window :: "payment_kind \<Rightarrow> 'x gateway \<Rightarrow> address \<Rightarrow> nat \<times> nat" where
  "pay_window k s a = (case k of DepositPayment \<Rightarrow> deposit_window s a | WithdrawPayment \<Rightarrow> withdraw_window s a)"

definition ledger_moves :: "payment \<Rightarrow> 'x gateway \<Rightarrow> 'x gateway \<Rightarrow> bool" where
  "ledger_moves p s t \<longleftrightarrow>
     \<not> gw_usedPaymentIds s (pay_id p) \<and> gw_usedPaymentIds t = (gw_usedPaymentIds s)(pay_id p := True) \<and>
     (\<forall>k a. (k, a) \<noteq> (pay_kind p, pay_agent p) \<longrightarrow> pay_window k t a = pay_window k s a) \<and>
     snd (pay_window (pay_kind p) t (pay_agent p)) \<le> pay_cap p \<and>
     (pay_time p < 2 ^ 64 \<longrightarrow>
        pay_window (pay_kind p) t (pay_agent p) = accrued (pay_time p) (pay_amount p) (pay_window (pay_kind p) s (pay_agent p)))"

lemma pay_window_books: "same_books s t \<Longrightarrow> pay_window k t a = pay_window k s a"
  by (auto simp: same_books_def pay_window_def deposit_window_def withdraw_window_def split: payment_kind.splits)

lemma ledger_moves_books:
  "same_books s s1 \<Longrightarrow> ledger_moves p s1 t1 \<Longrightarrow> same_books t1 t \<Longrightarrow> ledger_moves p s t"
  by (simp add: ledger_moves_def pay_window_books) (simp add: same_books_def)

lemma accrue_deposit_ledger:
  assumes "accrueRollingDeposit ctx a n cap s = (Inr u, s1)" "reserve_payment pid s1 = (Inr u', t)"
    "\<not> gw_usedPaymentIds s pid"
  shows "ledger_moves \<lparr>pay_kind = DepositPayment, pay_agent = a, pay_id = pid, pay_time = unat (block_timestamp ctx),
    pay_amount = unat n, pay_cap = unat cap\<rparr> s t"
  using accrue_deposit_D [OF assms(1)] assms(2,3)
  by (auto simp: ledger_moves_def reserve_payment_def io_simps pay_window_def deposit_window_def withdraw_window_def
      split: payment_kind.splits)

lemma accrue_withdraw_ledger:
  assumes "accrueRollingWithdraw ctx a n cap s = (Inr u, s1)" "reserve_payment pid s1 = (Inr u', t)"
    "\<not> gw_usedPaymentIds s1 pid"
  shows "ledger_moves \<lparr>pay_kind = WithdrawPayment, pay_agent = a, pay_id = pid, pay_time = unat (block_timestamp ctx),
    pay_amount = unat n, pay_cap = unat cap\<rparr> s t"
  using accrue_withdraw_D [OF assms(1)] assms(2,3)
  by (auto simp: ledger_moves_def reserve_payment_def io_simps pay_window_def deposit_window_def withdraw_window_def
      split: payment_kind.splits)

lemma after_legs:
  "obeys same_books m \<Longrightarrow> m s = (r, t) \<Longrightarrow> ledger_moves p s0 s \<Longrightarrow> ledger_moves p s0 t"
  using ledger_moves_books bk.obeysD bk.discipline_refl by metis

lemma deposit_ledger:
  assumes "gw_deposit E X I ctx ord amt dl idem s = (Inr v, s')" "p \<in> set (payment_of E I ctx s (CallDeposit ord amt dl idem))"
  shows "ledger_moves p s s'"
proof -
  let ?pid = "payment_hash E I ctx ord amt idem" and ?p = "gw_agents s (msg_sender ctx)"
  obtain s1 s2 s3 s4 b ev where a: "accrueRollingDeposit ctx (msg_sender ctx) amt (maxPerWindow ?p) s = (Inr (), s1)"
    "reserve_payment ?pid s1 = (Inr (), s2)" "\<not> gw_usedPaymentIds s ?pid"
    and legs: "pull_usdc X I ctx amt s2 = (Inr b, s3)"
    "vault_leg X I (vaultContract I) amt (shareReceiver ?p) b s3 = (Inr (snd v), s4)"
    and e: "emit_event ev s4 = (Inr (), s')"
    using assms(1) by (auto simp: gw_deposit_def check_defs io_simps Let_def)
  have "ledger_moves p s s2" using accrue_deposit_ledger [OF a] assms(2) by simp
  then have "ledger_moves p s s4" by (metis after_legs legs legs_keep_books(1,2))
  then show ?thesis using e by (metis after_legs emit_books)
qed

lemma depositTo_ledger:
  assumes "depositTo E X I ctx ord amt dl idem dest mins s = (Inr v, s')"
    "p \<in> set (payment_of E I ctx s (DepositTo ord amt dl idem dest mins))"
  shows "ledger_moves p s s'"
proof -
  let ?pid = "payment_hash E I ctx ord amt idem" and ?p = "gw_agents s (msg_sender ctx)"
  obtain s1 s2 s3 b r where a: "accrueRollingDeposit ctx (msg_sender ctx) amt (maxPerWindow ?p) s = (Inr (), s1)"
    "reserve_payment ?pid s1 = (Inr (), s2)" "\<not> gw_usedPaymentIds s ?pid"
    and legs: "pull_usdc X I ctx amt s2 = (Inr b, s3)"
    "executeDeposit X I ctx r ?pid ord (shareReceiver ?p) amt dest b mins s3 = (Inr (), s')"
    using assms(1) by (auto simp: depositTo_def check_defs io_simps Let_def)
  have "ledger_moves p s s2" using accrue_deposit_ledger [OF a] assms(2) by simp
  then have "ledger_moves p s s3" by (metis after_legs legs(1) legs_keep_books(1))
  then show ?thesis using legs(2) by (metis after_legs legs_keep_books(5))
qed

lemma withdraw_ledger:
  assumes "gw_withdraw E X I ctx ord sh v dl idem s = (Inr r, s')"
    "p \<in> set (payment_of E I ctx s (CallWithdraw ord sh v dl idem))"
  shows "ledger_moves p s s'"
proof -
  let ?pid = "payment_hash E I ctx ord sh idem" and ?p = "gw_agents s (msg_sender ctx)"
  obtain s1 s2 s3 s4 f g ev where a: "accrueRollingWithdraw ctx (msg_sender ctx) sh (maxWithdrawPerWindow ?p) s = (Inr (), s1)"
    "reserve_payment ?pid s1 = (Inr (), s2)" "\<not> gw_usedPaymentIds s1 ?pid"
    and legs: "external_call f s2 = (Inr (), s3)" "external_call g s3 = (Inr (snd r), s4)" "emit_event ev s4 = (Inr (), s')"
    using assms(1) by (auto simp: gw_withdraw_def check_defs io_simps Let_def)
  have "ledger_moves p s s2" using accrue_withdraw_ledger [OF a] assms(2) by simp
  then show ?thesis by (metis after_legs legs external_call_books emit_books)
qed

lemma gw_exec_Inr_iff: "gw_exec E X I ctx c s = (Inr (), s') \<longleftrightarrow> gw_entry E X I ctx c s = (Inr (), s')"
  by (auto simp: gw_exec_def transact_def split: prod.splits sum.splits)

lemma gw_exec_Inl: "gw_exec E X I ctx c s = (Inl e, t) \<Longrightarrow> t = s"
  unfolding gw_exec_def by (rule transact_Inl)

lemma paid_ledger:
  assumes "gw_exec E X I ctx c s = (Inr (), s')" "p \<in> set (payment_of E I ctx s c)"
  shows "ledger_moves p s s'"
  using assms
  by (cases c) (auto simp: gw_exec_Inr_iff no_result_def io_simps deposit_ledger depositTo_ledger withdraw_ledger
      simp del: payment_of.simps(1-3))

section \<open>The ledger over runs\<close>

definition same_ledger :: "'x gateway \<Rightarrow> 'x gateway \<Rightarrow> bool" where
  "same_ledger s t \<longleftrightarrow> gw_usedPaymentIds t = gw_usedPaymentIds s \<and>
     gw_agentDepositWindow t = gw_agentDepositWindow s \<and> gw_agentWithdrawWindow t = gw_agentWithdrawWindow s"

interpretation lg: effect_discipline same_ledger
  by unfold_locales (auto simp: same_ledger_def)

lemma same_ledger_window: "same_ledger s t \<Longrightarrow> pay_window k t a = pay_window k s a"
  by (auto simp: same_ledger_def pay_window_def deposit_window_def withdraw_window_def split: payment_kind.splits)

lemma role_change_ledger [simp]:
  "obeys same_ledger (grant_role X r a)" "obeys same_ledger (revoke_role X r a)"
  "obeys same_ledger (emit_event e)" "obeys same_ledger (validatePolicy ctx p)"
  by (auto simp: grant_role_def revoke_role_def emit_event_def validatePolicy_def same_ledger_def
      intro!: lg.obeys_intros lg.obeys_modifyM)

lemma authorize_ledger [simp]: "obeys same_ledger (authorizeAgentInternal X ctx a p)"
  by (auto simp: authorizeAgentInternal_def assert_role_separation_def emit_authorized_def same_ledger_def
      intro!: lg.obeys_intros lg.obeys_modifyM)

lemma entry_ledger:
  "payment_of E I ctx s c = [] \<Longrightarrow> obeys same_ledger (gw_entry E X I ctx c)"
  by (cases c)
    (auto simp: commitAuthorization_def revealAuthorization_def authorizeAgent_def setPolicy_def revokeAgent_def pause_def
      unpause_def only_role_def emit_authorized_def same_ledger_def Let_def intro!: lg.obeys_intros lg.obeys_modifyM)

lemma step_ledger:
  assumes "gw_step E X I s ls t"
  shows "ls = [] \<and> same_ledger s t \<or> (\<exists>p. ls = [p] \<and> ledger_moves p s t)"
  using assms
proof (cases rule: gw_step.cases)
  case (step_paid ctx c)
  show ?thesis
  proof (cases "payment_of E I ctx s c")
    case Nil
    then show ?thesis using step_paid lg.obeysD [OF entry_ledger] by (simp add: gw_exec_Inr_iff)
  next
    case (Cons p ps)
    moreover have "ps = []" using Cons by (cases c) auto
    ultimately show ?thesis using step_paid paid_ledger by (metis list.set_intros(1))
  qed
qed (auto simp: gw_exec_def dest: transact_Inl lg.obeys_transact [rotated] intro: lg.discipline_refl,
     auto simp: same_ledger_def)

lemma ledger_moves_used:
  "ledger_moves p s t \<Longrightarrow> \<not> gw_usedPaymentIds s (pay_id p) \<and> gw_usedPaymentIds t = (gw_usedPaymentIds s)(pay_id p := True)"
  by (simp add: ledger_moves_def)

lemma run_payments:
  assumes "gw_run E X I s ps t"
  shows "distinct (map pay_id ps) \<and> (\<forall>p \<in> set ps. \<not> gw_usedPaymentIds s (pay_id p)) \<and>
    (\<forall>i. gw_usedPaymentIds t i \<longleftrightarrow> gw_usedPaymentIds s i \<or> i \<in> pay_id ` set ps)"
  using assms
proof induction
  case (run_step s ps t ls u)
  have "p \<in> set ps \<Longrightarrow> gw_usedPaymentIds t (pay_id p)" for p using run_step.IH by auto
  then show ?case using step_ledger [OF run_step.hyps(2)] run_step.IH
    by (auto simp: same_ledger_def dest!: ledger_moves_used)
qed simp

section \<open>The window caps over runs\<close>

text \<open>What an agent was paid, of one kind, at the times that satisfy a predicate.\<close>

definition spent :: "payment_kind \<Rightarrow> address \<Rightarrow> (nat \<Rightarrow> bool) \<Rightarrow> payment list \<Rightarrow> nat" where
  "spent k a P ps =
     sum_list (map pay_amount (filter (\<lambda>p. pay_kind p = k \<and> pay_agent p = a \<and> P (pay_time p)) ps))"

lemma spent_simps [simp]:
  "spent k a P [] = 0"
  "spent k a P (ps @ qs) = spent k a P ps + spent k a P qs"
  "spent k a P [p] = (if pay_kind p = k \<and> pay_agent p = a \<and> P (pay_time p) then pay_amount p else 0)"
  by (simp_all add: spent_def)

lemma spent_mono:
  assumes "\<And>p. p \<in> set ps \<Longrightarrow> pay_kind p = k \<Longrightarrow> pay_agent p = a \<Longrightarrow> P (pay_time p) \<Longrightarrow> Q (pay_time p)"
  shows "spent k a P ps \<le> spent k a Q ps"
  using assms by (induction ps) (auto simp: spent_def intro: trans_le_add2)

lemma spent_split:
  assumes "\<And>t. P t \<Longrightarrow> Q t \<or> R t"
  shows "spent k a P ps \<le> spent k a Q ps + spent k a R ps"
  using assms by (induction ps) (auto simp: spent_def)

text \<open>
  What holds of a window with anchor \<open>st\<close> and gross \<open>g\<close> after the payments \<open>ps\<close>: the gross is what was paid since the
  anchor, within the cap \<open>C\<close>; less than a window before the anchor also lies within it; so any window length holds
  twice the cap at most.
\<close>

definition windowed :: "payment_kind \<Rightarrow> address \<Rightarrow> nat \<Rightarrow> payment list \<Rightarrow> nat \<times> nat \<Rightarrow> bool" where
  "windowed k a C ps w \<longleftrightarrow>
     (fst w = 0 \<longrightarrow> (\<forall>p \<in> set ps. \<not> (pay_kind p = k \<and> pay_agent p = a))) \<and>
     spent k a (\<lambda>t. fst w \<le> t) ps \<le> snd w \<and> (fst w = 0 \<or> snd w \<le> C) \<and>
     (\<forall>p \<in> set ps. pay_kind p = k \<and> pay_agent p = a \<longrightarrow> pay_time p < fst w + GW_WINDOW_SECONDS) \<and>
     (\<forall>s. fst w < s + GW_WINDOW_SECONDS \<longrightarrow> spent k a (\<lambda>t. s \<le> t \<and> t < fst w) ps \<le> C) \<and>
     (\<forall>s. spent k a (\<lambda>t. s \<le> t \<and> t < s + GW_WINDOW_SECONDS) ps \<le> 2 * C)"

lemma windowed_other:
  "pay_kind p \<noteq> k \<or> pay_agent p \<noteq> a \<Longrightarrow> windowed k a C ps w \<Longrightarrow> windowed k a C (ps @ [p]) w"
  by (auto simp: windowed_def)

lemma windowed_first:
  assumes "fst w = 0" "windowed k a C ps w" "pay_kind p = k" "pay_agent p = a" "pay_amount p \<le> C" "0 < pay_time p"
  shows "windowed k a C (ps @ [p]) (pay_time p, pay_amount p)"
proof -
  have none: "spent k a P ps = 0" for P
    using assms(1,2) by (auto simp: windowed_def spent_def)
  show ?thesis using assms by (auto simp: windowed_def none GW_WINDOW_SECONDS_def)
qed

lemma windowed_reset:
  assumes "0 < fst w" "fst w + GW_WINDOW_SECONDS \<le> pay_time p" and w: "windowed k a C ps w"
    and p: "pay_kind p = k" "pay_agent p = a" "pay_amount p \<le> C"
    and old: "\<forall>q \<in> set ps. pay_time q \<le> pay_time p"
  shows "windowed k a C (ps @ [p]) (pay_time p, pay_amount p)"
proof -
  let ?t = "pay_time p"
  have late: "spent k a (\<lambda>t. ?t \<le> t) ps \<le> 0"
    using w assms(2) spent_mono [of ps k a "\<lambda>t. ?t \<le> t" "\<lambda>_. False"] by (fastforce simp: windowed_def spent_def)
  have recent: "spent k a (\<lambda>t. s \<le> t \<and> t < ?t) ps \<le> C" if "?t < s + GW_WINDOW_SECONDS" for s
  proof -
    have "spent k a (\<lambda>t. s \<le> t \<and> t < ?t) ps \<le> spent k a (\<lambda>t. fst w \<le> t) ps"
      using that assms(2) by (intro spent_mono) simp
    then show ?thesis using w assms(1) by (simp add: windowed_def)
  qed
  have all: "spent k a (\<lambda>t. s \<le> t \<and> t < s + GW_WINDOW_SECONDS) (ps @ [p]) \<le> 2 * C" for s
  proof (cases "s \<le> ?t \<and> ?t < s + GW_WINDOW_SECONDS")
    case True
    have "spent k a (\<lambda>t. s \<le> t \<and> t < s + GW_WINDOW_SECONDS) ps \<le>
        spent k a (\<lambda>t. s \<le> t \<and> t < ?t) ps + spent k a (\<lambda>t. ?t \<le> t) ps"
      by (rule spent_split) auto
    then show ?thesis using True recent late p by fastforce
  next
    case False
    then show ?thesis using w p by (auto simp: windowed_def)
  qed
  show ?thesis unfolding windowed_def
    using late recent all p old assms(2) by (auto simp: GW_WINDOW_SECONDS_def)
qed

lemma windowed_within:
  assumes "0 < fst w" "pay_time p < fst w + GW_WINDOW_SECONDS" and w: "windowed k a C ps w"
    and p: "pay_kind p = k" "pay_agent p = a" "snd w + pay_amount p \<le> C" "fst w \<le> pay_time p"
  shows "windowed k a C (ps @ [p]) (fst w, snd w + pay_amount p)"
proof -
  have all: "spent k a (\<lambda>t. s \<le> t \<and> t < s + GW_WINDOW_SECONDS) (ps @ [p]) \<le> 2 * C" for s
  proof (cases "fst w < s + GW_WINDOW_SECONDS")
    case True
    have "spent k a (\<lambda>t. s \<le> t \<and> t < s + GW_WINDOW_SECONDS) (ps @ [p]) \<le>
        spent k a (\<lambda>t. s \<le> t \<and> t < fst w) (ps @ [p]) + spent k a (\<lambda>t. fst w \<le> t) (ps @ [p])"
      by (rule spent_split) auto
    moreover have "spent k a (\<lambda>t. s \<le> t \<and> t < fst w) ps \<le> C" "spent k a (\<lambda>t. fst w \<le> t) ps \<le> snd w"
      using w True by (auto simp: windowed_def)
    ultimately show ?thesis using p by auto
  next
    case False
    then show ?thesis using w p by (auto simp: windowed_def)
  qed
  show ?thesis unfolding windowed_def using w all p assms(1,2) by (auto simp: windowed_def)
qed

lemma windowed_accrued:
  assumes w: "windowed k a C ps w" "fst w = 0 \<or> fst w \<in> pay_time ` set ps"
    and p: "pay_kind p = k" "pay_agent p = a" "0 < pay_time p" "snd (accrued (pay_time p) (pay_amount p) w) \<le> C"
    and old: "\<forall>q \<in> set ps. pay_time q \<le> pay_time p"
  shows "windowed k a C (ps @ [p]) (accrued (pay_time p) (pay_amount p) w) \<and>
    fst (accrued (pay_time p) (pay_amount p) w) \<in> pay_time ` set (ps @ [p])"
proof -
  consider "fst w = 0" | "0 < fst w" "fst w + GW_WINDOW_SECONDS \<le> pay_time p"
    | "0 < fst w" "pay_time p < fst w + GW_WINDOW_SECONDS" by linarith
  then show ?thesis
  proof cases
    case 1
    then show ?thesis using windowed_first [OF 1 w(1) p(1,2)] p by (simp add: accrued_def)
  next
    case 2
    then show ?thesis using windowed_reset [OF 2 w(1) p(1,2) _ old] p by (simp add: accrued_def)
  next
    case 3
    then have "fst w \<le> pay_time p" using w(2) old by auto
    then show ?thesis using windowed_within [OF 3 w(1) p(1,2)] p w(2) 3 by (simp add: accrued_def)
  qed
qed

lemma run_windowed:
  assumes "gw_run E X I s ps t" "pay_window k s a = (0, 0)"
    "sorted (map pay_time ps)" "\<forall>p \<in> set ps. 0 < pay_time p \<and> pay_time p < 2 ^ 64"
    "\<forall>p \<in> set ps. pay_kind p = k \<and> pay_agent p = a \<longrightarrow> pay_cap p \<le> C"
  shows "windowed k a C ps (pay_window k t a) \<and> (fst (pay_window k t a) = 0 \<or> fst (pay_window k t a) \<in> pay_time ` set ps)"
  using assms
proof induction
  case (run_start s)
  then show ?case by (simp add: windowed_def)
next
  case (run_step s ps t ls u)
  have IH: "windowed k a C ps (pay_window k t a)" "fst (pay_window k t a) = 0 \<or> fst (pay_window k t a) \<in> pay_time ` set ps"
    using run_step by (simp_all add: sorted_append)
  consider "ls = []" "same_ledger t u" | p where "ls = [p]" "ledger_moves p t u"
    using step_ledger [OF run_step.hyps(2)] by blast
  then show ?case
  proof cases
    case 1
    then show ?thesis using IH by (simp add: same_ledger_window)
  next
    case (2 p)
    show ?thesis
    proof (cases "pay_kind p = k \<and> pay_agent p = a")
      case True
      then have "pay_window k u a = accrued (pay_time p) (pay_amount p) (pay_window k t a)" "snd (pay_window k u a) \<le> C"
        using 2 run_step.prems by (auto simp: ledger_moves_def)
      then show ?thesis using windowed_accrued [OF IH, of p] True 2 run_step.prems by (simp add: sorted_append)
    next
      case False
      then have "pay_window k u a = pay_window k t a" using 2 by (auto simp: ledger_moves_def)
      then show ?thesis using windowed_other [OF _ IH(1), of p] False IH(2) 2 by auto
    qed
  qed
qed

lemma deployed_fresh:
  assumes "deployed X I s"
  shows "gw_agents s = (\<lambda>_. no_policy)" "gw_agentOwner s = (\<lambda>_. 0)" "pay_window k s a = (0, 0)" "\<not> gw_usedPaymentIds s i"
  using assms
  by (auto simp: deployed_def gateway_new_def grant_role_def io_simps blank_gateway_def pay_window_def deposit_window_def
      withdraw_window_def split: payment_kind.splits)

section \<open>The invariant\<close>

definition role_separated :: "'x externals \<Rightarrow> 'x gateway \<Rightarrow> bool" where
  "role_separated X s \<longleftrightarrow>
     (\<forall>a. \<not> (has_role X s ADMIN_ROLE a \<and> has_role X s PAUSER_ROLE a) \<and>
          \<not> (has_role X s ADMIN_ROLE a \<and> has_role X s AGENT_ROLE a) \<and>
          \<not> (has_role X s PAUSER_ROLE a \<and> has_role X s AGENT_ROLE a))"

definition policy_ok :: "FullPolicy \<Rightarrow> bool" where
  "policy_ok p \<longleftrightarrow>
     active p \<and> shareReceiver p \<noteq> 0 \<and> 0 < maxPerPayment p \<and> maxPerPayment p \<le> maxPerWindow p \<and>
     (0 < maxWithdrawPerPayment p \<longrightarrow> assetRecipient p \<noteq> 0 \<and> maxWithdrawPerPayment p \<le> maxWithdrawPerWindow p)"

definition policies_owned :: "'x gateway \<Rightarrow> bool" where
  "policies_owned s \<longleftrightarrow>
     gw_agentOwner s 0 = 0 \<and>
     (\<forall>a. if gw_agentOwner s a = 0 then gw_agents s a = no_policy else policy_ok (gw_agents s a))"

definition gw_inv :: "'x externals \<Rightarrow> 'x gateway \<Rightarrow> bool" where
  "gw_inv X s \<longleftrightarrow> role_separated X s \<and> policies_owned s"

lemma validatePolicy_Inr: "validatePolicy ctx p s = (Inr u, t) \<Longrightarrow> policy_ok p \<and> t = s"
  by (auto simp: validatePolicy_def policy_ok_def io_simps word_neq_0_conv not_less split: if_splits)

lemma role_separated_same: "same_roles X (gw_outside s) (gw_outside t) \<Longrightarrow> role_separated X t = role_separated X s"
  by (simp add: role_separated_def has_role_def same_roles_def)

lemma gw_inv_policies: "keeps_policies X s t \<Longrightarrow> gw_inv X s \<Longrightarrow> gw_inv X t"
  using role_separated_same [of X s t] by (auto simp: gw_inv_def policies_owned_def keeps_policies_def)

lemma grant_role_separated:
  assumes "outside_ok X" "role_separated X s" "grant_role X r a s = (Inr u, t)"
  shows "role_separated X t"
proof -
  have h: "has_role X t q b \<longleftrightarrow> (q = r \<and> b = a) \<or> has_role X s q b" for q b
    using assms(1,3) by (auto simp: grant_role_def io_simps has_role_def outside_ok_def)
  have "\<not> list_ex (\<lambda>q. has_role X s q a) (conflicting_roles r)"
    using assms(3) by (simp add: grant_role_def io_simps)
  then show ?thesis using assms(2)
    by (cases r) (auto simp: role_separated_def h conflicting_roles_def)
qed

lemma revoke_role_separated:
  "outside_ok X \<Longrightarrow> role_separated X s \<Longrightarrow> revoke_role X r a s = (Inr u, t) \<Longrightarrow> role_separated X t"
  by (auto simp: revoke_role_def io_simps role_separated_def has_role_def outside_ok_def)

lemma role_changes_policies:
  "grant_role X r a s = (res, t) \<Longrightarrow> policies_owned t = policies_owned s"
  "revoke_role X r a s = (res, t) \<Longrightarrow> policies_owned t = policies_owned s"
  by (cases res; auto simp: grant_role_def revoke_role_def io_simps policies_owned_def)+

lemma emit_inv: "emit_event e s = (r, t) \<Longrightarrow> gw_inv X t = gw_inv X s"
  by (auto simp: emit_event_def io_simps gw_inv_def role_separated_def policies_owned_def has_role_def)

lemma authorize_inv:
  assumes "outside_ok X" "gw_inv X s" "msg_sender ctx \<noteq> 0" "authorizeAgentInternal X ctx a p s = (Inr u, t)"
  shows "gw_inv X t"
proof -
  obtain s1 s2 where a: "a \<noteq> 0" "policy_ok p"
    and s1: "s1 = s\<lparr>gw_agentOwner := (gw_agentOwner s)(a := msg_sender ctx), gw_agents := (gw_agents s)(a := p)\<rparr>"
    and g: "grant_role X AGENT_ROLE a s1 = (Inr (), s2)" and e: "emit_authorized ctx a p s2 = (Inr u, t)"
    using assms(4) by (auto simp: authorizeAgentInternal_def assert_role_separation_def io_simps dest!: validatePolicy_Inr)
  have "role_separated X s1" "policies_owned s1"
    using assms(2,3) a by (auto simp: s1 gw_inv_def role_separated_def has_role_def policies_owned_def)
  then have "gw_inv X s2"
    using g assms(1) grant_role_separated role_changes_policies(1) unfolding gw_inv_def by blast
  then show ?thesis using e by (simp add: emit_authorized_def emit_inv)
qed

lemma setPolicy_inv:
  assumes "gw_inv X s" "msg_sender ctx \<noteq> 0" "setPolicy ctx a p s = (Inr u, t)"
  shows "gw_inv X t"
  using assms
  by (auto simp: setPolicy_def emit_authorized_def emit_event_def io_simps gw_inv_def role_separated_def has_role_def
      policies_owned_def dest!: validatePolicy_Inr)

lemma revokeAgent_inv:
  assumes "outside_ok X" "gw_inv X s" "revokeAgent X ctx a s = (Inr u, t)"
  shows "gw_inv X t"
proof -
  obtain s1 s2 where s1: "s1 = s\<lparr>gw_agents := (gw_agents s)(a := no_policy), gw_agentOwner := (gw_agentOwner s)(a := 0)\<rparr>"
    and r: "s2 = s1 \<or> revoke_role X AGENT_ROLE a s1 = (Inr (), s2)" and e: "\<exists>ev. emit_event ev s2 = (Inr u, t)"
    using assms(3) by (auto simp: revokeAgent_def io_simps split: if_splits)
  have i: "role_separated X s1" "policies_owned s1"
    using assms(2) by (auto simp: s1 gw_inv_def role_separated_def has_role_def policies_owned_def)
  have "gw_inv X s2" using r i assms(1) revoke_role_separated role_changes_policies(2) unfolding gw_inv_def by blast
  then show ?thesis using e emit_inv by blast
qed

lemma other_calls_keep_policies:
  "obeys (keeps_policies X) (commitAuthorization ctx h)"
  "obeys (keeps_policies X) (pause X ctx)" "obeys (keeps_policies X) (unpause X ctx)"
  by (auto simp: commitAuthorization_def pause_def unpause_def only_role_def keeps_policies_def same_roles_def emit_event_def
      intro!: kp.obeys_intros kp.obeys_modifyM)

lemma reveal_inv:
  assumes "outside_ok X" "gw_inv X s" "msg_sender ctx \<noteq> 0" "revealAuthorization X ctx a salt p s = (Inr u, t)"
  shows "gw_inv X t"
proof -
  let ?h = "xs_commit_hash X a (msg_sender ctx) salt"
  let ?s1 = "s\<lparr>gw_commitments := (gw_commitments s)(?h := no_commitment),
    gw_events := gw_events s @ [CommitRevealed (msg_sender ctx) ?h a]\<rparr>"
  have "authorizeAgentInternal X ctx a p ?s1 = (Inr u, t)"
    using assms(4) by (simp add: revealAuthorization_def Let_def io_simps emit_event_def)
  moreover have "gw_inv X ?s1" by (rule gw_inv_policies [OF _ assms(2)]) (simp add: keeps_policies_def same_roles_def)
  ultimately show ?thesis using authorize_inv assms(1,3) by blast
qed

lemma payments_obey:
  assumes "outside_ok X"
  shows "obeys (keeps_policies X) (gw_entry E X I ctx (CallDeposit ord amt dl idem))"
    "obeys (keeps_policies X) (gw_entry E X I ctx (DepositTo ord amt dl idem dest mins))"
    "obeys (keeps_policies X) (gw_entry E X I ctx (CallWithdraw ord shares v dl idem))"
  using payments_keep_policies [OF assms] by (auto simp: no_result_def intro!: kp.obeys_intros)

lemma entry_inv:
  assumes "outside_ok X" "gw_inv X s" "msg_sender ctx \<noteq> 0" "gw_entry E X I ctx c s = (Inr (), t)"
  shows "gw_inv X t"
  using assms(4)
  by (cases c)
    (use assms(1-3) in \<open>auto simp: authorizeAgent_def simp del: gw_entry.simps(8-10)
      intro: authorize_inv setPolicy_inv revokeAgent_inv reveal_inv
        gw_inv_policies [OF kp.obeysD] other_calls_keep_policies payments_obey\<close>)

lemma role_change_inv:
  assumes "outside_ok X" "gw_inv X s"
  shows "transact (grant_role X r a) s = (res, t) \<Longrightarrow> gw_inv X t"
    "transact (revoke_role X r a) s = (res, t) \<Longrightarrow> gw_inv X t"
proof -
  show "transact (grant_role X r a) s = (res, t) \<Longrightarrow> gw_inv X t"
  proof (cases res)
    case (Inr u)
    assume "transact (grant_role X r a) s = (res, t)"
    then have "grant_role X r a s = (Inr u, t)" using Inr by (simp add: transact_Inr)
    then show ?thesis using assms grant_role_separated role_changes_policies(1) unfolding gw_inv_def by blast
  qed (use assms in \<open>auto dest: transact_Inl\<close>)
  show "transact (revoke_role X r a) s = (res, t) \<Longrightarrow> gw_inv X t"
  proof (cases res)
    case (Inr u)
    assume "transact (revoke_role X r a) s = (res, t)"
    then have "revoke_role X r a s = (Inr u, t)" using Inr by (simp add: transact_Inr)
    then show ?thesis using assms revoke_role_separated role_changes_policies(2) unfolding gw_inv_def by blast
  qed (use assms in \<open>auto dest: transact_Inl\<close>)
qed

lemma step_inv:
  assumes "outside_ok X" "gw_inv X s" "gw_step E X I s ls t"
  shows "gw_inv X t"
  using assms(3)
proof (cases rule: gw_step.cases)
  case (step_paid ctx c)
  then show ?thesis using entry_inv assms(1,2) by (metis gw_exec_Inr_iff)
next
  case (step_reverted ctx c e)
  then show ?thesis using assms(2) gw_exec_Inl by metis
next
  case (step_grant admin r a res)
  then show ?thesis using role_change_inv(1) assms(1,2) by blast
next
  case (step_revoke admin r a res)
  then show ?thesis using role_change_inv(2) assms(1,2) by blast
next
  case (step_renounce r a res)
  then show ?thesis using role_change_inv(2) assms(1,2) by blast
next
  case (step_outside x)
  then have "keeps_policies X s t" by (simp add: keeps_policies_def)
  then show ?thesis using assms(2) by (rule gw_inv_policies)
qed

lemma deployed_inv:
  assumes "outside_ok X" "deployed X I s"
  shows "gw_inv X s"
proof -
  obtain x admin pauser s1 s2 where x: "\<forall>r a. \<not> xs_has_role X x r a"
    and g: "grant_role X DEFAULT_ADMIN_ROLE admin (blank_gateway x) = (Inr (), s1)"
      "grant_role X ADMIN_ROLE admin s1 = (Inr (), s2)" "grant_role X PAUSER_ROLE pauser s2 = (Inr (), s)"
    using assms(2) by (auto simp: deployed_def gateway_new_def io_simps)
  have "role_separated X (blank_gateway x)" using x by (simp add: role_separated_def has_role_def blank_gateway_def)
  then have "role_separated X s" using g grant_role_separated [OF assms(1)] by metis
  moreover have "policies_owned s" using deployed_fresh [OF assms(2)] by (simp add: policies_owned_def)
  ultimately show ?thesis by (simp add: gw_inv_def)
qed

lemma run_inv: "gw_run E X I s ps t \<Longrightarrow> outside_ok X \<Longrightarrow> gw_inv X s \<Longrightarrow> gw_inv X t"
  by (induction rule: gw_run.induct) (auto intro: step_inv)

lemma reachable_inv: "outside_ok X \<Longrightarrow> gw_reachable E X I s \<Longrightarrow> gw_inv X s"
  using run_inv deployed_inv unfolding gw_reachable_def by blast

lemma call_Inl: "external_call f s = (Inl e, t) \<Longrightarrow> \<exists>m. e = CallFailed m"
  by (auto simp: external_call_def call_outside_def split: sum.splits)

lemma legs_not_unauthorized [simp]:
  "external_call f s \<noteq> (Inl AgentNotAuthorized, t)"
  "emit_event ev s \<noteq> (Inl AgentNotAuthorized, t)"
  "accrueRollingDeposit ctx a n cap s \<noteq> (Inl AgentNotAuthorized, t)"
  "accrueRollingWithdraw ctx a n cap s \<noteq> (Inl AgentNotAuthorized, t)"
  "reserve_payment i s \<noteq> (Inl AgentNotAuthorized, t)"
  "grant_role X r b s \<noteq> (Inl AgentNotAuthorized, t)"
  "revoke_role X r b s \<noteq> (Inl AgentNotAuthorized, t)"
  "validatePolicy ctx p s \<noteq> (Inl AgentNotAuthorized, t)"
  by (auto simp: emit_event_def accrueRollingDeposit_def accrueRollingWithdraw_def reserve_payment_def grant_role_def
      revoke_role_def validatePolicy_def Let_def io_simps dest: call_Inl split: if_splits)

lemma deposits_not_unauthorized [simp]:
  "pull_usdc X I ctx amt s \<noteq> (Inl AgentNotAuthorized, t)"
  "vault_leg X I d amt rcv bal s \<noteq> (Inl AgentNotAuthorized, t)"
  "executeDeposit X I ctx b pid ord rcv amt d bal mins s \<noteq> (Inl AgentNotAuthorized, t)"
  by (auto simp: leg_defs io_simps split: if_splits)

lemma payments_never_unauthorized:
  assumes "gw_inv X s"
  shows "gw_entry E X I ctx c s \<noteq> (Inl AgentNotAuthorized, t)"
proof -
  have p: "active (gw_agents s b) \<or> maxPerPayment (gw_agents s b) = 0 \<and> maxWithdrawPerPayment (gw_agents s b) = 0" for b
    using assms unfolding gw_inv_def policies_owned_def policy_ok_def
    by (cases "gw_agentOwner s b = 0") (auto simp: no_policy_def dest: spec [of _ b])
  show ?thesis
  proof (cases c)
    case (CallDeposit ord amt dl idem)
    then show ?thesis using p [of "msg_sender ctx"]
      by (auto simp: no_result_def gw_deposit_def check_defs Let_def io_simps word_neq_0_conv)
  next
    case (DepositTo ord amt dl idem dest mins)
    then show ?thesis using p [of "msg_sender ctx"]
      by (auto simp: no_result_def depositTo_def check_defs Let_def io_simps word_neq_0_conv)
  next
    case (CallWithdraw ord sh v dl idem)
    then show ?thesis using p [of "msg_sender ctx"]
      by (auto simp: no_result_def gw_withdraw_def check_defs Let_def io_simps)
  qed (auto simp: commitAuthorization_def revealAuthorization_def authorizeAgent_def authorizeAgentInternal_def
      assert_role_separation_def setPolicy_def revokeAgent_def pause_def unpause_def only_role_def emit_authorized_def Let_def
      io_simps split: if_splits)
qed

section \<open>A concrete chain\<close>

text \<open>A token that moves balances, and a vault and a router that mint one share for each unit.\<close>

record chain =
  ch_roles :: "role \<Rightarrow> address \<Rightarrow> bool"
  ch_bal :: "address \<Rightarrow> address \<Rightarrow> u256"

definition chain_credit :: "address \<Rightarrow> address \<Rightarrow> u256 \<Rightarrow> chain \<Rightarrow> chain" where
  "chain_credit t a n x = x\<lparr>ch_bal := (ch_bal x)(t := (ch_bal x t)(a := ch_bal x t a + n))\<rparr>"

definition chain_move :: "address \<Rightarrow> address \<Rightarrow> address \<Rightarrow> u256 \<Rightarrow> chain \<Rightarrow> string + unit \<times> chain" where
  "chain_move t a b n x =
     (if n \<le> ch_bal x t a then Inr ((), chain_credit t b n (chain_credit t a (- n) x)) else Inl ''insufficient balance'')"

definition chain_mint :: "address \<Rightarrow> address \<Rightarrow> address \<Rightarrow> u256 \<Rightarrow> 'a \<Rightarrow> chain \<Rightarrow> string + 'a \<times> chain" where
  "chain_mint v payer receiver n out x =
     (case chain_move 2 payer v n x of Inl e \<Rightarrow> Inl e | Inr (_, y) \<Rightarrow> Inr (out, chain_credit v receiver n y))"

definition demo_externals :: "chain externals" where
  "demo_externals =
     \<lparr>xs_has_role = ch_roles,
      xs_grant_role = (\<lambda>r a x. x\<lparr>ch_roles := (ch_roles x)(r := (ch_roles x r)(a := True))\<rparr>),
      xs_revoke_role = (\<lambda>r a x. x\<lparr>ch_roles := (ch_roles x)(r := (ch_roles x r)(a := False))\<rparr>),
      xs_balance_of = (\<lambda>t a x. ch_bal x t a),
      xs_allowance = (\<lambda>_ _ _ _. 1000),
      xs_transfer_from = (\<lambda>t _ a b n. chain_move t a b n),
      xs_force_approve = (\<lambda>_ _ _ _ x. Inr ((), x)),
      xs_vault_asset = (\<lambda>_ _. 2),
      xs_vault_deposit = (\<lambda>v c n r. chain_mint v c r n n),
      xs_vault_redeem = (\<lambda>v c n r o' x. case chain_move 2 v r n x of Inl e \<Rightarrow> Inl e
        | Inr (_, y) \<Rightarrow> if n \<le> ch_bal y v o' then Inr (n, chain_credit v o' (- n) y) else Inl ''insufficient shares''),
      xs_router_deposit_for = (\<lambda>router c r n _. chain_mint router c r n [n]),
      xs_commit_hash = (\<lambda>agent depositor salt. ucast agent * 65536 + ucast depositor * 256 + salt)\<rparr>"

lemma demo_outside_ok: "outside_ok demo_externals"
  by (auto simp: outside_ok_def demo_externals_def keeps_roles_def same_roles_def chain_move_def chain_mint_def chain_credit_def
      split: sum.splits if_splits)

definition demo_code :: gateway_code where
  "demo_code = \<lparr>gw_this = 1, usdcToken = 2, vaultContract = 3, routerContract = 0\<rparr>"

definition demo_tx :: "address \<Rightarrow> u256 \<Rightarrow> tx_ctx" where
  "demo_tx sender now = \<lparr>msg_sender = sender, block_timestamp = now, block_number = 7, block_chainid = 31337\<rparr>"

definition demo_full_policy :: FullPolicy where
  "demo_full_policy = AgentPolicy.extend demo_policy \<lparr>allowedDestinations = [], allowedSourceVaults = []\<rparr>"

definition demo_chain :: chain where
  "demo_chain = \<lparr>ch_roles = (\<lambda>_ _. False), ch_bal = (\<lambda>t a. if t = 2 \<and> a = 8 then 1000 else 0)\<rparr>"

definition demo_exec :: "chain gateway \<Rightarrow> address \<Rightarrow> u256 \<Rightarrow> gw_call \<Rightarrow> chain gateway" where
  "demo_exec s sender now c = snd (gw_exec demo_env demo_externals demo_code (demo_tx sender now) c s)"

definition demo_gw0 :: "chain gateway" where
  "demo_gw0 = snd (gateway_new demo_externals demo_code 100 101 (blank_gateway demo_chain))"

definition demo_gw1 :: "chain gateway" where
  "demo_gw1 = demo_exec demo_gw0 200 900 (AuthorizeAgent 8 demo_full_policy)"

definition demo_gw2 :: "chain gateway" where
  "demo_gw2 = demo_exec demo_gw1 8 950 (CallDeposit 4 40 1000 6)"

lemmas demo_chain_eval = demo_code_def demo_tx_def demo_full_policy_def demo_policy_def demo_chain_def demo_externals_def
  AgentPolicy.defs blank_gateway_def gateway_new_def grant_role_def revoke_role_def conflicting_roles_def has_role_def
  assert_role_separation_def emit_event_def transact_def no_policy_def no_commitment_def io_eval

lemma demo_gw0_deployed: "deployed demo_externals demo_code demo_gw0"
proof -
  have "gateway_new demo_externals demo_code 100 101 (blank_gateway demo_chain) = (Inr (), demo_gw0)"
    by (simp add: demo_gw0_def demo_chain_eval)
  moreover have "\<not> xs_has_role demo_externals demo_chain r a" for r a by (simp add: demo_chain_def demo_externals_def)
  ultimately show ?thesis unfolding deployed_def by blast
qed

lemma demo_gw1_authorized:
  "gw_exec demo_env demo_externals demo_code (demo_tx 200 900) (AuthorizeAgent 8 demo_full_policy) demo_gw0 = (Inr (), demo_gw1)"
  by (simp add: demo_gw1_def demo_exec_def demo_gw0_def gw_exec_def authorizeAgent_def authorizeAgentInternal_def
      validatePolicy_def emit_authorized_def demo_chain_eval)

lemma demo_gw1_eq:
  "gw_agents demo_gw1 = (\<lambda>_. no_policy)(8 := demo_full_policy)" "gw_agentOwner demo_gw1 = (\<lambda>_. 0)(8 := 200)"
  "\<not> gw_paused demo_gw1" "gw_usedPaymentIds demo_gw1 = (\<lambda>_. False)"
  "gw_agentDepositWindow demo_gw1 = (\<lambda>_. \<lparr>dw_windowStart = 0, dw_gross = 0\<rparr>)"
  "ch_roles (gw_outside demo_gw1) AGENT_ROLE 8" "ch_bal (gw_outside demo_gw1) = ch_bal demo_chain"
  "gw_commitments demo_gw1 = (\<lambda>_. no_commitment)"
  by (simp_all add: demo_gw1_def demo_exec_def demo_gw0_def gw_exec_def authorizeAgent_def authorizeAgentInternal_def
      validatePolicy_def emit_authorized_def demo_chain_eval)

lemma demo_gw2_paid:
  "gw_exec demo_env demo_externals demo_code (demo_tx 8 950) (CallDeposit 4 40 1000 6) demo_gw1 = (Inr (), demo_gw2)"
proof -
  have x: "xs_balance_of demo_externals t b x = ch_bal x t b" "has_role demo_externals g r b = ch_roles (gw_outside g) r b"
    for t b x and g :: "chain gateway" and r
    by (simp_all add: demo_externals_def has_role_def)
  have "fst (gw_exec demo_env demo_externals demo_code (demo_tx 8 950) (CallDeposit 4 40 1000 6) demo_gw1) = Inr ()"
    by (simp add: gw_exec_def no_result_def gw_deposit_def check_defs Let_def reserve_payment_def
      accrueRollingDeposit_def window_over_def pull_usdc_def vault_leg_def external_call_def call_outside_def checked_add_def checked_sub_def
      GW_MAX_DEADLINE_SKEW_def demo_gw1_eq demo_tx_def demo_code_def demo_full_policy_def demo_policy_def AgentPolicy.defs
      x emit_event_def transact_def io_eval demo_chain_def)
     (simp add: demo_externals_def chain_move_def chain_mint_def chain_credit_def demo_gw1_eq demo_chain_def io_eval)
  then show ?thesis by (simp add: demo_gw2_def demo_exec_def prod_eq_iff)
qed

definition demo_payment :: payment where
  "demo_payment = \<lparr>pay_kind = DepositPayment, pay_agent = 8, pay_id = payment_hash demo_env demo_code (demo_tx 8 950) 4 40 6,
     pay_time = 950, pay_amount = 40, pay_cap = 150\<rparr>"

lemma demo_runs:
  "gw_run demo_env demo_externals demo_code demo_gw0 [] demo_gw1"
  "gw_run demo_env demo_externals demo_code demo_gw0 [demo_payment] demo_gw2"
proof -
  have 1: "gw_step demo_env demo_externals demo_code demo_gw0 [] demo_gw1"
    using step_paid [OF _ demo_gw1_authorized] by (simp add: demo_tx_def)
  have 2: "gw_step demo_env demo_externals demo_code demo_gw1 [demo_payment] demo_gw2"
    using step_paid [OF _ demo_gw2_paid]
    by (simp add: demo_tx_def demo_payment_def demo_gw1_eq demo_full_policy_def demo_policy_def AgentPolicy.defs)
  show r: "gw_run demo_env demo_externals demo_code demo_gw0 [] demo_gw1" using run_step [OF run_start 1] by simp
  show "gw_run demo_env demo_externals demo_code demo_gw0 [demo_payment] demo_gw2" using run_step [OF r 2] by simp
qed

section \<open>Properties\<close>

text \<open>
  C9. In every state the gateway reaches, no account holds two of the three privileged roles, a policy is stored exactly for
  the agents that have an owner and is one the validator accepted, and the branch of the payment entry points that raises
  \<open>AgentNotAuthorized\<close> is never taken, also for an account to which the administrator granted the agent role directly.
\<close>
theorem gateway_invariant:
  assumes "outside_ok X" and "gw_reachable E X I s"
  shows "role_separated X s \<and> policies_owned s \<and> fst (gw_exec E X I ctx c s) \<noteq> Inl AgentNotAuthorized"
proof -
  have inv: "gw_inv X s" using reachable_inv [OF assms] .
  have "fst (gw_exec E X I ctx c s) \<noteq> Inl AgentNotAuthorized"
    using payments_never_unauthorized [OF inv, of E I ctx c]
    by (auto simp: gw_exec_def transact_def split: prod.splits sum.splits)
  then show ?thesis using inv by (simp add: gw_inv_def)
qed

theorem gateway_invariant_witness:
  "role_separated demo_externals demo_gw1 \<and> policies_owned demo_gw1 \<and>
   fst (gw_exec demo_env demo_externals demo_code (demo_tx 8 950) (CallDeposit 4 40 1000 6) demo_gw1) \<noteq> Inl AgentNotAuthorized"
proof -
  have "gw_reachable demo_env demo_externals demo_code demo_gw1"
    using demo_gw0_deployed demo_runs(1) unfolding gw_reachable_def by blast
  then show ?thesis by (rule gateway_invariant [OF demo_outside_ok])
qed

text \<open>
  C8. Whatever the token and the vault do, a deposit that succeeds leaves the gateway with the USDC it had and with no vault
  shares; a routed deposit leaves the USDC; a withdrawal leaves no shares.
\<close>
theorem payments_leave_no_custody:
  "(gw_deposit E X I ctx ord amt dl idem s = (Inr (pid, sh), s') \<longrightarrow>
     xs_balance_of X (usdcToken I) (gw_this I) (gw_outside s') = xs_balance_of X (usdcToken I) (gw_this I) (gw_outside s) \<and>
     xs_balance_of X (vaultContract I) (gw_this I) (gw_outside s') = 0) \<and>
   (depositTo E X I ctx ord amt dl idem dest mins s = (Inr pid, s') \<longrightarrow>
     xs_balance_of X (usdcToken I) (gw_this I) (gw_outside s') = xs_balance_of X (usdcToken I) (gw_this I) (gw_outside s)) \<and>
   (gw_withdraw E X I ctx ord amt v dl idem s = (Inr (pid, sh), s') \<longrightarrow>
     xs_balance_of X (vaultContract I) (gw_this I) (gw_outside s') = 0)"
proof (intro conjI impI)
  show "xs_balance_of X (vaultContract I) (gw_this I) (gw_outside s') = 0"
    if "gw_withdraw E X I ctx ord amt v dl idem s = (Inr (pid, sh), s')"
    using that by (auto simp: gw_withdraw_def check_defs io_simps Let_def emit_event_def)
  have pull: "b = xs_balance_of X (usdcToken I) (gw_this I) (gw_outside s0)"
    if "pull_usdc X I ctx amt s0 = (Inr b, s1)" for b s0 s1
    using that by (auto simp: pull_usdc_def balance_of_def io_simps)
  have leg: "xs_balance_of X (usdcToken I) (gw_this I) (gw_outside s1) = b \<and>
      xs_balance_of X d (gw_this I) (gw_outside s1) = 0"
    if "vault_leg X I d amt rcv b s0 = (Inr n, s1)" for b s0 s1 d rcv n
    using that by (auto simp: vault_leg_def check_defs io_simps)
  have accrue: "gw_outside s2 = gw_outside s0"
    if "accrueRollingDeposit ctx a amt cap s0 = (Inr (), s1)" "reserve_payment i s1 = (Inr (), s2)" for a cap i s0 s1 s2
    using that by (auto simp: accrueRollingDeposit_def reserve_payment_def io_simps Let_def)
  have exec: "xs_balance_of X (usdcToken I) (gw_this I) (gw_outside s1) = b"
    if "executeDeposit X I ctx r i ord rcv amt d b mins s0 = (Inr (), s1)" for r i rcv d b s0 s1
    using that
    by (auto simp: executeDeposit_def executeRouterDeposit_def executeVaultDeposit_def check_defs io_simps emit_event_def
        split: if_splits dest!: leg)
  show "xs_balance_of X (usdcToken I) (gw_this I) (gw_outside s') = xs_balance_of X (usdcToken I) (gw_this I) (gw_outside s)"
    if "gw_deposit E X I ctx ord amt dl idem s = (Inr (pid, sh), s')"
    using that by (auto simp: gw_deposit_def check_defs io_simps Let_def emit_event_def dest!: pull leg accrue)
  show "xs_balance_of X (vaultContract I) (gw_this I) (gw_outside s') = 0"
    if "gw_deposit E X I ctx ord amt dl idem s = (Inr (pid, sh), s')"
    using that by (auto simp: gw_deposit_def check_defs io_simps Let_def emit_event_def dest!: leg)
  show "xs_balance_of X (usdcToken I) (gw_this I) (gw_outside s') = xs_balance_of X (usdcToken I) (gw_this I) (gw_outside s)"
    if "depositTo E X I ctx ord amt dl idem dest mins s = (Inr pid, s')"
    using that by (auto simp: depositTo_def check_defs io_simps Let_def dest!: pull exec accrue)
qed

theorem payments_leave_no_custody_witness:
  "\<exists>pid sh. gw_deposit demo_env demo_externals demo_code (demo_tx 8 950) 4 40 1000 6 demo_gw1 = (Inr (pid, sh), demo_gw2) \<and>
     ch_bal (gw_outside demo_gw2) 2 1 = 0 \<and> ch_bal (gw_outside demo_gw2) 3 1 = 0"
proof -
  obtain pid sh where d: "gw_deposit demo_env demo_externals demo_code (demo_tx 8 950) 4 40 1000 6 demo_gw1 = (Inr (pid, sh), demo_gw2)"
    using demo_gw2_paid by (auto simp: gw_exec_Inr_iff no_result_def io_simps)
  then show ?thesis
    using payments_leave_no_custody [of demo_env demo_externals demo_code "demo_tx 8 950" 4 40 1000 6 demo_gw1 pid sh demo_gw2]
    by (auto simp: demo_externals_def demo_code_def demo_gw1_eq demo_chain_def)
qed

text \<open>
  C7. An identifier is paid once: the payments of a run, deposits and withdrawals together, have pairwise different
  identifiers, and a call that would pay one of them again reverts and changes nothing.
\<close>
theorem payments_unique:
  assumes "gw_run E X I s ps t"
  shows "distinct (map pay_id ps) \<and>
    (\<forall>ctx c q. q \<in> set (payment_of E I ctx t c) \<and> pay_id q \<in> pay_id ` set ps \<longrightarrow>
       (\<exists>e. gw_exec E X I ctx c t = (Inl e, t)))"
proof -
  have "\<exists>e. gw_exec E X I ctx c t = (Inl e, t)"
    if "q \<in> set (payment_of E I ctx t c)" "pay_id q \<in> pay_id ` set ps" for ctx c q
  proof (cases "gw_exec E X I ctx c t")
    case (Pair r u)
    have "gw_usedPaymentIds t (pay_id q)" using that(2) run_payments [OF assms] by blast
    then have "r \<noteq> Inr ()" using Pair that(1) paid_ledger ledger_moves_used by metis
    then obtain e where "r = Inl e" by (cases r) auto
    then show ?thesis using Pair gw_exec_Inl by metis
  qed
  then show ?thesis using run_payments [OF assms] by blast
qed

theorem payments_unique_witness:
  "\<exists>e. gw_exec demo_env demo_externals demo_code (demo_tx 8 960) (CallDeposit 4 40 1100 6) demo_gw2 = (Inl e, demo_gw2)"
proof -
  have "pay_id q = pay_id demo_payment" if "q \<in> set (payment_of demo_env demo_code (demo_tx 8 960) demo_gw2 (CallDeposit 4 40 1100 6))" for q
    using that by (simp add: demo_payment_def payment_hash_def demo_tx_def)
  then show ?thesis using payments_unique [OF demo_runs(2)] by fastforce
qed

text \<open>
  C6. In a run from deployment, with block times that never go back, the deposits of an agent within any 86400 seconds sum to
  at most twice the largest window cap its policies had, and so do its withdrawals; revoking and re-authorising the agent
  in between does not help.
\<close>

theorem window_bound:
  assumes "deployed X I s0" and "gw_run E X I s0 ps s"
    and "sorted (map pay_time ps)" and "\<forall>p \<in> set ps. 0 < pay_time p \<and> pay_time p < 2 ^ 64"
    and "\<forall>p \<in> set ps. pay_kind p = k \<and> pay_agent p = a \<longrightarrow> pay_cap p \<le> C"
  shows "spent k a (\<lambda>t. from \<le> t \<and> t < from + GW_WINDOW_SECONDS) ps \<le> 2 * C"
  using run_windowed [OF assms(2) deployed_fresh(3) [OF assms(1)] assms(3-5)] by (simp add: windowed_def)

theorem window_bound_witness:
  "spent DepositPayment 8 (\<lambda>t. 900 \<le> t \<and> t < 900 + GW_WINDOW_SECONDS) [demo_payment] \<le> 2 * 150"
  by (rule window_bound [OF demo_gw0_deployed demo_runs(2)]) (simp_all add: demo_payment_def)

text \<open>
  C10. The policy of an agent that has an owner, and the owner itself, change by calls of that owner only; no call of another
  account and no role change of the administrator touches them.
\<close>
theorem only_owner_changes_policy:
  assumes "outside_ok X" and "gw_agentOwner s a \<noteq> 0" and "msg_sender ctx \<noteq> gw_agentOwner s a"
    and "gw_exec E X I ctx c s = (r, t)"
  shows "gw_agents t a = gw_agents s a \<and> gw_agentOwner t a = gw_agentOwner s a"
proof (cases r)
  case (Inl e)
  then show ?thesis using assms(4) gw_exec_Inl by metis
next
  case (Inr u)
  then have e: "gw_entry E X I ctx c s = (Inr (), t)" using assms(4) by (simp add: gw_exec_Inr_iff)
  show ?thesis
  proof (cases "obeys (keeps_policies X) (gw_entry E X I ctx c)")
    case True
    then show ?thesis using kp.obeysD [OF True e] by (simp add: keeps_policies_def)
  next
    case False
    then show ?thesis
      using e assms(2,3) payments_obey [OF assms(1), of E I ctx] other_calls_keep_policies [of X ctx]
      by (cases c) (auto simp: authorizeAgent_def authorizeAgentInternal_def revealAuthorization_def setPolicy_def revokeAgent_def
          grant_role_def revoke_role_def assert_role_separation_def emit_authorized_def emit_event_def Let_def io_simps
          split: if_splits dest!: validatePolicy_Inr)
  qed
qed

theorem only_owner_changes_policy_witness:
  "gw_agents demo_gw2 8 = demo_full_policy \<and> gw_agentOwner demo_gw2 8 = 200"
  using only_owner_changes_policy [OF demo_outside_ok, of demo_gw1 8 "demo_tx 8 950"] demo_gw2_paid
  by (simp add: demo_gw1_eq demo_tx_def)

text \<open>
  A commitment is not bound to its committer: an account that sends the victim's hash overwrites it, and the victim's
  reveal reverts with \<open>CommitmentOwnerMismatch\<close> in every later block.
\<close>
theorem commitment_overwritten:
  assumes "msg_sender attacker \<noteq> 0" and "msg_sender attacker \<noteq> msg_sender victim"
    and "gw_exec E X I attacker (CommitAuthorization (xs_commit_hash X agent (msg_sender victim) salt)) s = (r, t)"
  shows "gw_exec E X I victim (RevealAuthorization agent salt p) t = (Inl CommitmentOwnerMismatch, t)"
  using assms
  by (auto simp: gw_exec_def transact_def commitAuthorization_def revealAuthorization_def emit_event_def io_eval Let_def)

theorem commitment_overwritten_witness:
  "\<exists>t. gw_exec demo_env demo_externals demo_code (demo_tx 66 950)
       (CommitAuthorization (xs_commit_hash demo_externals 8 200 5)) demo_gw0 = (Inr (), t) \<and>
     gw_exec demo_env demo_externals demo_code (demo_tx 200 960) (RevealAuthorization 8 5 demo_full_policy) t =
       (Inl CommitmentOwnerMismatch, t)"
proof -
  obtain t where t: "gw_exec demo_env demo_externals demo_code (demo_tx 66 950)
      (CommitAuthorization (xs_commit_hash demo_externals 8 200 5)) demo_gw0 = (Inr (), t)"
    by (simp add: gw_exec_def transact_def commitAuthorization_def emit_event_def io_eval)
  then show ?thesis
    using commitment_overwritten [of "demo_tx 66 950" "demo_tx 200 960" demo_env demo_externals demo_code 8 5]
    by (simp add: demo_tx_def)
qed

lemma accrue_deposit_ok:
  fixes s :: "'x gateway" and t :: nat and a :: address
  defines "w \<equiv> gw_agentDepositWindow s a"
  assumes "t < 2 ^ 64" "over \<longleftrightarrow> dw_windowStart w = 0 \<or> unat (dw_windowStart w) + GW_WINDOW_SECONDS \<le> t"
    and "(if over then 0 else unat (dw_gross w)) + unat n \<le> unat cap"
  shows "accrueRollingDeposit (ctx\<lparr>block_timestamp := of_nat t\<rparr>) a n cap s =
    (Inr (), s\<lparr>gw_agentDepositWindow := (gw_agentDepositWindow s)(a :=
       \<lparr>dw_windowStart = (if over then of_nat t else dw_windowStart w), dw_gross = (if over then n else dw_gross w + n)\<rparr>)\<rparr>)"
proof -
  have t: "unat (of_nat t :: u256) = t" "(ucast (of_nat t :: u256) :: u64) = of_nat t"
    using assms(2) by (simp_all add: unsigned_of_nat take_bit_nat_eq_self)
  have over: "window_over (dw_windowStart w) (of_nat t) = over" using assms(3) by (simp add: window_over_def t)
  have n: "(if over then 0 else unat (dw_gross w)) + unat n < 2 ^ 256"
    using assms(4) unsigned_less [of cap, where ?'a = nat] by simp
  show ?thesis using assms(4) n
    by (cases over)
      (simp_all add: accrueRollingDeposit_def checked_add_def io_eval Let_def over t w_def [symmetric] word_less_nat_alt
        unat_checked)
qed

text \<open>
  C20. The cap is not one of every contiguous window: from a fresh window, one unit, then \<open>cap - 1\<close> a second before the window
  ends and \<open>cap\<close> when it ends are all accepted, so almost twice the cap is deposited within one second.
\<close>
theorem rolling_window_admits_double:
  assumes "dw_windowStart (gw_agentDepositWindow s a) = 0" and "1 < cap"
    and "0 < t" and "t + GW_WINDOW_SECONDS < 2 ^ 64"
  shows "\<exists>s'. bindM (accrueRollingDeposit (ctx\<lparr>block_timestamp := of_nat t\<rparr>) a 1 cap) (\<lambda>_.
      bindM (accrueRollingDeposit (ctx\<lparr>block_timestamp := of_nat (t + GW_WINDOW_SECONDS - 1)\<rparr>) a (cap - 1) cap) (\<lambda>_.
      accrueRollingDeposit (ctx\<lparr>block_timestamp := of_nat (t + GW_WINDOW_SECONDS)\<rparr>) a cap cap)) s = (Inr (), s')"
proof -
  have cap: "1 \<le> unat cap" "unat (cap - 1) = unat cap - 1"
    using assms(2) by (simp_all add: word_less_nat_alt unat_sub_if_size)
  have t: "unat (of_nat t :: u64) = t" "(of_nat t :: u64) \<noteq> 0"
    using assms(3,4) by (simp_all add: unsigned_of_nat take_bit_nat_eq_self GW_WINDOW_SECONDS_def flip: unat_eq_zero)
  let ?s1 = "s\<lparr>gw_agentDepositWindow := (gw_agentDepositWindow s)(a := \<lparr>dw_windowStart = of_nat t, dw_gross = 1\<rparr>)\<rparr>"
  have 1: "accrueRollingDeposit (ctx\<lparr>block_timestamp := of_nat t\<rparr>) a 1 cap s = (Inr (), ?s1)"
    using accrue_deposit_ok [of t True s a 1 cap ctx] assms cap by simp
  have 2: "\<exists>s2. accrueRollingDeposit (ctx\<lparr>block_timestamp := of_nat (t + GW_WINDOW_SECONDS - 1)\<rparr>) a (cap - 1) cap ?s1 = (Inr (), s2) \<and>
      dw_windowStart (gw_agentDepositWindow s2 a) = of_nat t"
    using accrue_deposit_ok [of "t + GW_WINDOW_SECONDS - 1" False ?s1 a "cap - 1" cap ctx] assms cap t
    by (simp add: GW_WINDOW_SECONDS_def)
  then obtain s2 where s2: "accrueRollingDeposit (ctx\<lparr>block_timestamp := of_nat (t + GW_WINDOW_SECONDS - 1)\<rparr>) a (cap - 1) cap ?s1 = (Inr (), s2)"
      "dw_windowStart (gw_agentDepositWindow s2 a) = of_nat t" by blast
  have "\<exists>s3. accrueRollingDeposit (ctx\<lparr>block_timestamp := of_nat (t + GW_WINDOW_SECONDS)\<rparr>) a cap cap s2 = (Inr (), s3)"
    using accrue_deposit_ok [of "t + GW_WINDOW_SECONDS" True s2 a cap cap ctx] assms cap t s2(2) by simp
  then show ?thesis using 1 s2(1) by (simp add: bindM_eval)
qed

theorem rolling_window_admits_double_witness:
  "\<exists>s'. bindM (accrueRollingDeposit ((demo_tx 8 0)\<lparr>block_timestamp := of_nat 1000\<rparr>) 8 1 150) (\<lambda>_.
      bindM (accrueRollingDeposit ((demo_tx 8 0)\<lparr>block_timestamp := of_nat (1000 + GW_WINDOW_SECONDS - 1)\<rparr>) 8 (150 - 1) 150) (\<lambda>_.
      accrueRollingDeposit ((demo_tx 8 0)\<lparr>block_timestamp := of_nat (1000 + GW_WINDOW_SECONDS)\<rparr>) 8 150 150)) demo_gw1 = (Inr (), s')"
  by (rule rolling_window_admits_double) (simp_all add: demo_gw1_eq GW_WINDOW_SECONDS_def)

text \<open>
  One share in the gateway stops deposits. Anyone who holds a vault share can send it to the gateway; from then on every call of
  \<open>deposit\<close> reverts, and no entry point moves the share out again.
\<close>
theorem donated_share_blocks_deposits:
  assumes "xs_balance_of X (vaultContract I) (gw_this I) (gw_outside s) \<noteq> 0"
  shows "\<exists>e. gw_exec E X I ctx (CallDeposit ord amt dl idem) s = (Inl e, s)"
proof (cases "gw_exec E X I ctx (CallDeposit ord amt dl idem) s")
  case (Pair r t)
  have "r \<noteq> Inr ()"
    using assms Pair by (auto simp: gw_exec_Inr_iff no_result_def gw_deposit_def check_defs io_simps Let_def)
  then obtain e where "r = Inl e" by (cases r) auto
  then show ?thesis using Pair gw_exec_Inl by metis
qed

theorem donated_share_blocks_deposits_witness:
  "\<exists>e. gw_exec demo_env demo_externals demo_code (demo_tx 8 950) (CallDeposit 4 40 1000 6)
     (demo_gw1\<lparr>gw_outside := chain_credit 3 1 1 (gw_outside demo_gw1)\<rparr>) =
     (Inl e, demo_gw1\<lparr>gw_outside := chain_credit 3 1 1 (gw_outside demo_gw1)\<rparr>)"
  by (rule donated_share_blocks_deposits) (simp add: demo_externals_def demo_code_def demo_gw1_eq demo_chain_def chain_credit_def)

end
