(* ===== verification/Gateway_Preflight.thy ===== *)
theory Gateway_Preflight
  imports Gateway_Correct Replay_Cache
begin

text \<open>
  The client's preflight against the contract it asks: when the node answers from the storage of the gateway, what the
  preflight accepted the contract accepts, under the conditions the preflight does not look at, which are spelled out.
\<close>

section \<open>A node that answers from the contract\<close>

definition node_serves :: "env \<Rightarrow> string \<Rightarrow> 'x externals \<Rightarrow> gateway_code \<Rightarrow> tx_ctx \<Rightarrow> address \<Rightarrow> 'x gateway \<Rightarrow> bool" where
  "node_serves E url X I latest a s \<longleftrightarrow>
     (\<forall>i. view_answer E url (gw_this I) GwPaused (dec_bool E) i (gw_paused s) \<and>
          view_answer E url (gw_this I) (GwAgents a) (dec_agents E) i (AgentPolicy.truncate (gw_agents s a)) \<and>
          view_answer E url (gw_this I) (GwEffectiveDepositWindowGross a) (dec_u256 E) i (effectiveDepositWindowGross latest a s) \<and>
          view_answer E url (gw_this I) (GwEffectiveWithdrawWindowGross a) (dec_u256 E) i (effectiveWithdrawWindowGross latest a s) \<and>
          view_answer E url (usdcToken I) (Erc20Allowance a (gw_this I)) (dec_u256 E) i
            (xs_allowance X (usdcToken I) a (gw_this I) (gw_outside s)) \<and>
          view_answer E url (usdcToken I) (Erc20BalanceOf a) (dec_u256 E) i (xs_balance_of X (usdcToken I) a (gw_outside s)))"

text \<open>The pinned addresses are those of the deployed contract.\<close>

definition pins_gateway :: "env \<Rightarrow> Config \<Rightarrow> gateway_code \<Rightarrow> bool" where
  "pins_gateway E cfg I \<longleftrightarrow>
     address_from_str E (gateway_address cfg) = Inr (gw_this I) \<and> address_from_str E (usdc_address cfg) = Inr (usdcToken I) \<and>
     address_from_str E (vault_address cfg) = Inr (vaultContract I)"

text \<open>
  A token without a transfer fee and a vault that is open: with the allowance and the balance, the pull arrives in full, and
  the vault takes it and mints to the receiver.
\<close>

definition settles :: "'x externals \<Rightarrow> gateway_code \<Rightarrow> address \<Rightarrow> u256 \<Rightarrow> address \<Rightarrow> 'x \<Rightarrow> bool" where
  "settles X I agent amt rcv x \<longleftrightarrow>
     amt \<le> xs_allowance X (usdcToken I) agent (gw_this I) x \<and> amt \<le> xs_balance_of X (usdcToken I) agent x \<longrightarrow>
     (\<exists>x1 x2 sh x3 x4.
        xs_transfer_from X (usdcToken I) (gw_this I) agent (gw_this I) amt x = Inr ((), x1) \<and>
        unat (xs_balance_of X (usdcToken I) (gw_this I) x1) = unat (xs_balance_of X (usdcToken I) (gw_this I) x) + unat amt \<and>
        xs_force_approve X (usdcToken I) (gw_this I) (vaultContract I) amt x1 = Inr ((), x2) \<and>
        xs_vault_deposit X (vaultContract I) (gw_this I) amt rcv x2 = Inr (sh, x3) \<and>
        xs_force_approve X (usdcToken I) (gw_this I) (vaultContract I) 0 x3 = Inr ((), x4) \<and>
        xs_balance_of X (vaultContract I) (gw_this I) x4 = 0 \<and>
        xs_balance_of X (usdcToken I) (gw_this I) x4 = xs_balance_of X (usdcToken I) (gw_this I) x)"

text \<open>With the agent's shares and their allowance, the vault redeems them and pays the recipient, not the gateway.\<close>

definition redeems :: "'x externals \<Rightarrow> gateway_code \<Rightarrow> address \<Rightarrow> u256 \<Rightarrow> address \<Rightarrow> 'x \<Rightarrow> bool" where
  "redeems X I agent shares rcv x \<longleftrightarrow>
     (\<exists>x1 out x2.
        xs_transfer_from X (vaultContract I) (gw_this I) agent (gw_this I) shares x = Inr ((), x1) \<and>
        xs_vault_redeem X (vaultContract I) (gw_this I) shares rcv (gw_this I) x1 = Inr (out, x2) \<and>
        xs_balance_of X (usdcToken I) (gw_this I) x2 = xs_balance_of X (usdcToken I) (gw_this I) x1 \<and>
        xs_balance_of X (vaultContract I) (gw_this I) x2 = 0)"

text \<open>What the contract checks and the preflight does not.\<close>

definition tx_admissible ::
    "'x externals \<Rightarrow> gateway_code \<Rightarrow> tx_ctx \<Rightarrow> address \<Rightarrow> u64 \<Rightarrow> b256 \<Rightarrow> 'x gateway \<Rightarrow> bool" where
  "tx_admissible X I ctx agent dl pid s \<longleftrightarrow>
     msg_sender ctx = agent \<and> has_role X s AGENT_ROLE agent \<and>
     unat (block_timestamp ctx) \<le> unat dl \<and> unat dl \<le> unat (block_timestamp ctx) + 600 \<and>
     unat (block_timestamp ctx) \<le> unat (validUntil (gw_agents s agent)) \<and> \<not> gw_usedPaymentIds s pid"

section \<open>Lemmas\<close>

lemma accrue_deposit_iff:
  "(\<exists>s1. accrueRollingDeposit ctx a n cap s = (Inr (), s1)) \<longleftrightarrow>
     unat (effectiveDepositWindowGross ctx a s) + unat n \<le> unat cap"
proof -
  have c: "unat cap < 2 ^ 256" using unsigned_less [of cap, where ?'a = nat] by simp
  show ?thesis using c
    by (auto simp: accrueRollingDeposit_def effectiveDepositWindowGross_def Let_def io_simps not_less word_le_nat_alt unat_checked
        split: if_splits)
qed

lemma effective_deposit_later:
  "unat (block_timestamp ctx) \<le> unat (block_timestamp ctx') \<Longrightarrow>
   unat (effectiveDepositWindowGross ctx' a s) \<le> unat (effectiveDepositWindowGross ctx a s)"
  by (auto simp: effectiveDepositWindowGross_def Let_def window_over_def)

lemma accrue_withdraw_iff:
  "(\<exists>s1. accrueRollingWithdraw ctx a n cap s = (Inr (), s1)) \<longleftrightarrow>
     unat (effectiveWithdrawWindowGross ctx a s) + unat n \<le> unat cap"
proof -
  have c: "unat cap < 2 ^ 256" using unsigned_less [of cap, where ?'a = nat] by simp
  show ?thesis using c
    by (auto simp: accrueRollingWithdraw_def effectiveWithdrawWindowGross_def Let_def io_simps not_less word_le_nat_alt unat_checked
        split: if_splits)
qed

lemma effective_withdraw_later:
  "unat (block_timestamp ctx) \<le> unat (block_timestamp ctx') \<Longrightarrow>
   unat (effectiveWithdrawWindowGross ctx' a s) \<le> unat (effectiveWithdrawWindowGross ctx a s)"
  by (auto simp: effectiveWithdrawWindowGross_def Let_def window_over_def)

lemma check_deadline_ok:
  assumes "unat (block_timestamp ctx) \<le> unat dl" "unat dl \<le> unat (block_timestamp ctx) + 600"
  shows "check_deadline ctx dl s = (Inr (), s)"
proof -
  have "unat dl < 2 ^ 64" using unsigned_less [of dl, where ?'a = nat] by simp
  then have "unat (block_timestamp ctx) + unat GW_MAX_DEADLINE_SKEW < 2 ^ 256" using assms by (simp add: GW_MAX_DEADLINE_SKEW_def)
  then show ?thesis using assms
    by (simp add: check_deadline_def checked_add_def io_eval unat_checked) (simp add: GW_MAX_DEADLINE_SKEW_def)
qed

lemma legs_settle:
  assumes "settles X I (msg_sender ctx) amt rcv (gw_outside s)"
    "amt \<le> xs_allowance X (usdcToken I) (msg_sender ctx) (gw_this I) (gw_outside s)"
    "amt \<le> xs_balance_of X (usdcToken I) (msg_sender ctx) (gw_outside s)"
  shows "\<exists>s1 b sh s2. pull_usdc X I ctx amt s = (Inr b, s1) \<and> vault_leg X I (vaultContract I) amt rcv b s1 = (Inr sh, s2)"
proof -
  let ?u = "usdcToken I" and ?g = "gw_this I" and ?x = "gw_outside s"
  obtain x1 x2 sh x3 x4 where x:
    "xs_transfer_from X ?u ?g (msg_sender ctx) ?g amt ?x = Inr ((), x1)"
    "unat (xs_balance_of X ?u ?g x1) = unat (xs_balance_of X ?u ?g ?x) + unat amt"
    "xs_force_approve X ?u ?g (vaultContract I) amt x1 = Inr ((), x2)"
    "xs_vault_deposit X (vaultContract I) ?g amt rcv x2 = Inr (sh, x3)"
    "xs_force_approve X ?u ?g (vaultContract I) 0 x3 = Inr ((), x4)"
    "xs_balance_of X (vaultContract I) ?g x4 = 0" "xs_balance_of X ?u ?g x4 = xs_balance_of X ?u ?g ?x"
    using assms unfolding settles_def by blast
  have "xs_balance_of X ?u ?g ?x \<le> xs_balance_of X ?u ?g x1" "xs_balance_of X ?u ?g x1 - xs_balance_of X ?u ?g ?x = amt"
    using x(2) by (simp_all add: word_le_nat_alt word_unat_eq_iff unat_sub)
  then have "pull_usdc X I ctx amt s = (Inr (xs_balance_of X ?u ?g ?x), s\<lparr>gw_outside := x1\<rparr>)"
    using x(1) by (simp add: pull_usdc_def balance_of_def external_call_def call_outside_def checked_sub_def io_eval)
  moreover have "vault_leg X I (vaultContract I) amt rcv (xs_balance_of X ?u ?g ?x) (s\<lparr>gw_outside := x1\<rparr>) =
      (Inr sh, s\<lparr>gw_outside := x4\<rparr>)"
    using x(3-7) by (simp add: vault_leg_def check_no_custody_def balance_of_def external_call_def call_outside_def io_eval)
  ultimately show ?thesis by blast
qed

lemma gw_deposit_ok:
  fixes s :: "'x gateway" and ctx :: tx_ctx
  defines "p \<equiv> gw_agents s (msg_sender ctx)"
  assumes adm: "tx_admissible X I ctx (msg_sender ctx) dl (payment_hash E I ctx ord amt idem) s"
    and pol: "\<not> gw_paused s" "active p" "amt \<noteq> 0" "amt \<le> maxPerPayment p"
    and win: "unat (effectiveDepositWindowGross ctx (msg_sender ctx) s) + unat amt \<le> unat (maxPerWindow p)"
    and custody: "xs_balance_of X (vaultContract I) (gw_this I) (gw_outside s) = 0"
    and set: "settles X I (msg_sender ctx) amt (shareReceiver p) (gw_outside s)"
      "amt \<le> xs_allowance X (usdcToken I) (msg_sender ctx) (gw_this I) (gw_outside s)"
      "amt \<le> xs_balance_of X (usdcToken I) (msg_sender ctx) (gw_outside s)"
  shows "\<exists>sh s'. gw_deposit E X I ctx ord amt dl idem s = (Inr (payment_hash E I ctx ord amt idem, sh), s')"
proof -
  let ?pid = "payment_hash E I ctx ord amt idem"
  obtain s1 where s1: "accrueRollingDeposit ctx (msg_sender ctx) amt (maxPerWindow p) s = (Inr (), s1)"
    using win accrue_deposit_iff by blast
  then have o: "gw_outside s1 = gw_outside s" by (auto simp: accrueRollingDeposit_def Let_def io_simps)
  let ?s2 = "s1\<lparr>gw_usedPaymentIds := (gw_usedPaymentIds s1)(?pid := True)\<rparr>"
  obtain s3 b sh s4 where legs: "pull_usdc X I ctx amt ?s2 = (Inr b, s3)"
    "vault_leg X I (vaultContract I) amt (shareReceiver p) b s3 = (Inr sh, s4)"
    using legs_settle [of X I ctx amt "shareReceiver p" ?s2] set o by auto
  have d: "check_deadline ctx dl s = (Inr (), s)" using adm by (simp add: tx_admissible_def check_deadline_ok)
  have checks: "only_role X ctx AGENT_ROLE s = (Inr (), s)" "check_policy_live ctx p s = (Inr (), s)"
    "check_unused ?pid s = (Inr (), s)" "check_no_custody X I (vaultContract I) s = (Inr (), s)"
    "reserve_payment ?pid s1 = (Inr (), ?s2)"
    using adm pol custody
    by (simp_all add: only_role_def check_policy_live_def check_unused_def check_no_custody_def balance_of_def reserve_payment_def
        tx_admissible_def p_def io_eval)
  have "\<not> maxPerPayment p < amt" using pol(4) by simp
  then show ?thesis
    unfolding gw_deposit_def Let_def
    using pol(1,3) d checks s1 legs
    by (simp add: bindM_eval getM_def refuse_if_def retM_def p_def [symmetric] emit_event_def modifyM_def)
qed

lemma gw_withdraw_ok:
  fixes s :: "'x gateway" and ctx :: tx_ctx
  defines "p \<equiv> gw_agents s (msg_sender ctx)"
  assumes adm: "tx_admissible X I ctx (msg_sender ctx) dl (payment_hash E I ctx ord shares idem) s"
    and pol: "\<not> gw_paused s" "active p" "shares \<noteq> 0" "shares \<le> maxWithdrawPerPayment p"
    and src: "allowedSourceVaults p = [] \<or> vaultContract I \<in> set (allowedSourceVaults p)"
    and win: "unat (effectiveWithdrawWindowGross ctx (msg_sender ctx) s) + unat shares \<le> unat (maxWithdrawPerWindow p)"
    and set: "redeems X I (msg_sender ctx) shares (assetRecipient p) (gw_outside s)"
  shows "\<exists>out s'. gw_withdraw E X I ctx ord shares (vaultContract I) dl idem s = (Inr (payment_hash E I ctx ord shares idem, out), s')"
proof -
  let ?pid = "payment_hash E I ctx ord shares idem"
  obtain s1 where s1: "accrueRollingWithdraw ctx (msg_sender ctx) shares (maxWithdrawPerWindow p) s = (Inr (), s1)"
    using win accrue_withdraw_iff by blast
  then have o: "gw_outside s1 = gw_outside s" "gw_usedPaymentIds s1 = gw_usedPaymentIds s"
    by (auto simp: accrueRollingWithdraw_def Let_def io_simps)
  let ?s2 = "s1\<lparr>gw_usedPaymentIds := (gw_usedPaymentIds s1)(?pid := True)\<rparr>"
  obtain x1 out x2 where legs:
    "external_call (xs_transfer_from X (vaultContract I) (gw_this I) (msg_sender ctx) (gw_this I) shares) ?s2 =
      (Inr (), ?s2\<lparr>gw_outside := x1\<rparr>)"
    "external_call (xs_vault_redeem X (vaultContract I) (gw_this I) shares (assetRecipient p) (gw_this I)) (?s2\<lparr>gw_outside := x1\<rparr>) =
      (Inr out, ?s2\<lparr>gw_outside := x2\<rparr>)"
    "xs_balance_of X (usdcToken I) (gw_this I) x2 = xs_balance_of X (usdcToken I) (gw_this I) x1"
    "xs_balance_of X (vaultContract I) (gw_this I) x2 = 0"
    using set o unfolding redeems_def by (auto simp: external_call_def call_outside_def)
  have d: "check_deadline ctx dl s = (Inr (), s)" using adm by (simp add: tx_admissible_def check_deadline_ok)
  have checks: "only_role X ctx AGENT_ROLE s = (Inr (), s)" "check_policy_live ctx p s = (Inr (), s)"
    "check_unused ?pid s1 = (Inr (), s1)" "reserve_payment ?pid s1 = (Inr (), ?s2)"
    using adm pol o
    by (simp_all add: only_role_def check_policy_live_def check_unused_def reserve_payment_def tx_admissible_def p_def io_eval)
  have "\<not> maxWithdrawPerPayment p < shares" "maxWithdrawPerPayment p \<noteq> 0"
    "\<not> (allowedSourceVaults p \<noteq> [] \<and> vaultContract I \<notin> set (allowedSourceVaults p))"
    using pol(3,4) src by auto
  then show ?thesis
    unfolding gw_withdraw_def Let_def
    using pol(1,3) d checks s1 legs
    by (cases "allowedSourceVaults p = []"; simp add: bindM_eval getM_def refuse_if_def retM_def p_def [symmetric]
        emit_event_def modifyM_def balance_of_def check_no_custody_def)
qed

text \<open>A gateway that the node of the concrete environment describes: 40 units deposited by the agent at time 950.\<close>

definition demo_gw_node :: "chain gateway" where
  "demo_gw_node = demo_gw1\<lparr>gw_agentDepositWindow := (gw_agentDepositWindow demo_gw1)(8 := \<lparr>dw_windowStart = 950, dw_gross = 40\<rparr>),
     gw_agentWithdrawWindow := (gw_agentWithdrawWindow demo_gw1)(8 := \<lparr>ww_windowStart = 950, ww_gross = 10\<rparr>)\<rparr>"

text \<open>The same with vault shares held by the agent.\<close>

definition demo_gw_shares :: "chain gateway" where
  "demo_gw_shares = demo_gw_node\<lparr>gw_outside := chain_credit 2 3 90 (chain_credit 3 8 90 (gw_outside demo_gw_node))\<rparr>"

definition demo_request :: PreflightInputs where
  "demo_request = \<lparr>signer_address = 8, amount = 50\<rparr>"

lemmas demo_node_eval = rpc_wrappers rpc_call_eval answer_def decode_reply_def is_success_def request_def demo_body_def demo_env_def
  demo_cfg_def base_cfg_def

lemma demo_node_serves:
  "node_serves demo_env (rpc_url demo_cfg) demo_externals demo_code (demo_tx 8 1000) 8 demo_gw_node"
  "node_serves demo_env (rpc_url demo_cfg) demo_externals demo_code (demo_tx 8 1000) 8 demo_gw_shares"
  by (simp_all add: demo_gw_shares_def chain_credit_def node_serves_def view_answer_def answer_def decode_reply_def is_success_def request_def demo_body_def demo_env_def
      demo_gw_node_def demo_gw1_eq demo_full_policy_def demo_policy_def AgentPolicy.defs effectiveDepositWindowGross_def
      effectiveWithdrawWindowGross_def window_over_def GW_WINDOW_SECONDS_def demo_tx_def demo_externals_def demo_chain_def Let_def
      map_err_def demo_code_def)

lemma demo_preflight_ok: "\<exists>rep w'. preflight_run demo_env demo_cfg demo_request w = (Inr rep, w')"
  by (simp add: io_eval preflight_run_def run_inner_def common_checks_def view_defs view_call_def parse_addr_def parse_b256_hex_def
      strip_prefix_or_self_def demo_policy_def tag_or_latest_def now_unix_def saturating_add_def demo_request_def Let_def demo_node_eval)

lemma demo_withdraw_preflight_ok: "\<exists>rep w'. run_withdraw_gateway demo_env demo_cfg demo_request w = (Inr rep, w')"
  by (simp add: io_eval run_withdraw_gateway_def run_withdraw_inner_def common_checks_def view_defs view_call_def parse_addr_def
      parse_b256_hex_def strip_prefix_or_self_def demo_policy_def tag_or_latest_def now_unix_def saturating_add_def demo_request_def
      Let_def demo_node_eval)

lemma demo_settles: "settles demo_externals demo_code 8 50 9 (gw_outside demo_gw_node)"
  by (simp add: settles_def demo_externals_def demo_code_def demo_gw_node_def demo_gw1_eq demo_chain_def chain_move_def chain_mint_def
      chain_credit_def)

section \<open>The preflight and the contract\<close>

lemma served_reads:
  assumes r: "deposit_reads E cfg inputs p w sn" and n: "node_serves E (rpc_url cfg) X I latest a s"
    and pin: "pin_gateway p = gw_this I" "pin_usdc p = usdcToken I" and a: "a = signer_address inputs"
  shows "sn_paused sn = gw_paused s" "sn_agent sn = AgentPolicy.truncate (gw_agents s a)"
    "sn_gross sn = effectiveDepositWindowGross latest a s"
    "sn_allowance sn = xs_allowance X (usdcToken I) a (gw_this I) (gw_outside s)"
    "sn_balance sn = xs_balance_of X (usdcToken I) a (gw_outside s)"
proof -
  let ?u = "rpc_url cfg" and ?g = "gw_this I" and ?i = "next_id w"
  have v: "view_answer E ?u ?g GwPaused (dec_bool E) (?i + 2) (sn_paused sn)"
    "view_answer E ?u ?g (GwAgents a) (dec_agents E) (?i + 5) (sn_agent sn)"
    "view_answer E ?u ?g (GwEffectiveDepositWindowGross a) (dec_u256 E) (?i + 6) (sn_gross sn)"
    "view_answer E ?u (usdcToken I) (Erc20Allowance a ?g) (dec_u256 E) (?i + 7) (sn_allowance sn)"
    "view_answer E ?u (usdcToken I) (Erc20BalanceOf a) (dec_u256 E) (?i + 8) (sn_balance sn)"
    using r unfolding deposit_reads_def common_reads_def Let_def pin a by blast+
  show "sn_paused sn = gw_paused s" by (rule view_answer_fun [OF v(1)]) (use n in \<open>simp add: node_serves_def\<close>)
  show "sn_agent sn = AgentPolicy.truncate (gw_agents s a)"
    by (rule view_answer_fun [OF v(2)]) (use n in \<open>simp add: node_serves_def\<close>)
  show "sn_gross sn = effectiveDepositWindowGross latest a s"
    by (rule view_answer_fun [OF v(3)]) (use n in \<open>simp add: node_serves_def\<close>)
  show "sn_allowance sn = xs_allowance X (usdcToken I) a (gw_this I) (gw_outside s)"
    by (rule view_answer_fun [OF v(4)]) (use n in \<open>simp add: node_serves_def\<close>)
  show "sn_balance sn = xs_balance_of X (usdcToken I) a (gw_outside s)"
    by (rule view_answer_fun [OF v(5)]) (use n in \<open>simp add: node_serves_def\<close>)
qed

text \<open>
  C11. A deposit the preflight accepted is accepted by the contract, under the identifier that the client computed for it, when
  the transaction is mined on the storage the node answered from, in the same or a later block, and the conditions the
  preflight does not check hold: the sender has the agent role, the deadline is at most 600 seconds ahead of the block, the
  policy has not expired on the clock of the chain, the identifier is unused, the sum does not overflow, and the token and
  the vault settle.
\<close>
theorem preflight_admits_deposit:
  assumes "preflight_run E cfg inputs w = (Inr rep, w')"
    and "node_serves E (rpc_url cfg) X I latest (signer_address inputs) s" and "pins_gateway E cfg I"
    and "tx_admissible X I ctx (signer_address inputs) dl
      (compute_payment_id E (cfg_chain_id cfg) (gw_this I) (signer_address inputs) ord (amount inputs) idem) s"
    and "block_chainid ctx = ucast (cfg_chain_id cfg)" and "unat (block_timestamp latest) \<le> unat (block_timestamp ctx)"
    and "amount inputs \<noteq> 0" and "unat (effectiveDepositWindowGross latest (signer_address inputs) s) + unat (amount inputs) < 2 ^ 256"
    and "xs_balance_of X (vaultContract I) (gw_this I) (gw_outside s) = 0"
    and "settles X I (signer_address inputs) (amount inputs) (shareReceiver (gw_agents s (signer_address inputs))) (gw_outside s)"
  shows "\<exists>sh s'. gw_deposit E X I ctx ord (amount inputs) dl idem s =
    (Inr (compute_payment_id E (cfg_chain_id cfg) (gw_this I) (signer_address inputs) ord (amount inputs) idem, sh), s')"
proof -
  let ?a = "signer_address inputs" and ?amt = "amount inputs"
  obtain p sn where p: "pinned E cfg p" and r: "deposit_reads E cfg inputs p w sn" and ok: "deposit_admissible E p ?amt sn"
    using preflight_run_D [OF assms(1)] by blast
  have pin: "pin_gateway p = gw_this I" "pin_usdc p = usdcToken I"
    using p assms(3) by (auto simp: pinned_def pins_gateway_def parse_addr_def io_simps map_err_def)
  note sn = served_reads [OF r assms(2) pin refl]
  have sender: "msg_sender ctx = ?a" using assms(4) by (simp add: tx_admissible_def)
  have pid: "payment_hash E I ctx ord ?amt idem = compute_payment_id E (cfg_chain_id cfg) (gw_this I) ?a ord ?amt idem"
    using assms(5) sender by (simp add: payment_hash_def compute_payment_id_def)
  have caps: "?amt \<le> maxPerPayment (gw_agents s ?a)" "unat (effectiveDepositWindowGross latest ?a s) + unat ?amt \<le> unat (maxPerWindow (gw_agents s ?a))"
    using ok assms(8) by (simp_all add: deposit_admissible_def within_caps_def sn AgentPolicy.defs)
  have win: "unat (effectiveDepositWindowGross ctx ?a s) + unat ?amt \<le> unat (maxPerWindow (gw_agents s ?a))"
    using effective_deposit_later [OF assms(6), of ?a s] caps(2) by linarith
  show ?thesis
    using gw_deposit_ok [of X I ctx dl E ord ?amt idem s] assms(4,7,9,10) caps(1) win ok sn(1,4,5)
    by (simp add: sender pid deposit_admissible_def gateway_authentic_def agent_authorized_def sn(2) AgentPolicy.defs)
qed

theorem preflight_admits_deposit_witness:
  "\<exists>sh s'. gw_deposit demo_env demo_externals demo_code (demo_tx 8 1010) 4 50 1100 6 demo_gw_node =
     (Inr (compute_payment_id demo_env 31337 1 8 4 50 6, sh), s')"
proof -
  obtain rep w' where pf: "preflight_run demo_env demo_cfg demo_request world0 = (Inr rep, w')" using demo_preflight_ok by blast
  have "\<exists>sh s'. gw_deposit demo_env demo_externals demo_code (demo_tx 8 1010) 4 (amount demo_request) 1100 6 demo_gw_node =
      (Inr (compute_payment_id demo_env (cfg_chain_id demo_cfg) (gw_this demo_code) (signer_address demo_request) 4
        (amount demo_request) 6, sh), s')"
  proof (rule preflight_admits_deposit [OF pf, where latest = "demo_tx 8 1000"])
    show "node_serves demo_env (rpc_url demo_cfg) demo_externals demo_code (demo_tx 8 1000) (signer_address demo_request) demo_gw_node"
      using demo_node_serves by (simp add: demo_request_def)
    show "pins_gateway demo_env demo_cfg demo_code"
      by (simp add: pins_gateway_def demo_env_def demo_code_def demo_cfg_def base_cfg_def)
    show "settles demo_externals demo_code (signer_address demo_request) (amount demo_request)
        (shareReceiver (gw_agents demo_gw_node (signer_address demo_request))) (gw_outside demo_gw_node)"
      using demo_settles by (simp add: demo_request_def demo_gw_node_def demo_gw1_eq demo_full_policy_def demo_policy_def AgentPolicy.defs)
  qed (simp_all add: tx_admissible_def demo_request_def demo_gw_node_def demo_gw1_eq demo_full_policy_def demo_policy_def
      AgentPolicy.defs demo_tx_def demo_code_def demo_cfg_def has_role_def demo_externals_def demo_chain_def effectiveDepositWindowGross_def Let_def
      window_over_def GW_WINDOW_SECONDS_def)
  then show ?thesis by (simp add: demo_request_def demo_code_def demo_cfg_def)
qed

text \<open>
  The same for withdrawals: what the withdrawal preflight accepted the contract accepts from its pinned vault, when that
  vault is one the policy allows and it redeems the shares.
\<close>
theorem preflight_admits_withdrawal:
  assumes "run_withdraw_gateway E cfg inputs w = (Inr rep, w')"
    and "node_serves E (rpc_url cfg) X I latest (signer_address inputs) s" and "pins_gateway E cfg I"
    and "tx_admissible X I ctx (signer_address inputs) dl
      (compute_payment_id E (cfg_chain_id cfg) (gw_this I) (signer_address inputs) ord (amount inputs) idem) s"
    and "block_chainid ctx = ucast (cfg_chain_id cfg)" and "unat (block_timestamp latest) \<le> unat (block_timestamp ctx)"
    and "amount inputs \<noteq> 0" and "unat (effectiveWithdrawWindowGross latest (signer_address inputs) s) + unat (amount inputs) < 2 ^ 256"
    and "allowedSourceVaults (gw_agents s (signer_address inputs)) = [] \<or>
      vaultContract I \<in> set (allowedSourceVaults (gw_agents s (signer_address inputs)))"
    and "redeems X I (signer_address inputs) (amount inputs) (assetRecipient (gw_agents s (signer_address inputs))) (gw_outside s)"
  shows "\<exists>out s'. gw_withdraw E X I ctx ord (amount inputs) (vaultContract I) dl idem s =
    (Inr (compute_payment_id E (cfg_chain_id cfg) (gw_this I) (signer_address inputs) ord (amount inputs) idem, out), s')"
proof -
  let ?a = "signer_address inputs" and ?amt = "amount inputs"
  obtain p sn where p: "pinned E cfg p" and r: "withdraw_reads E cfg inputs p w sn" and ok: "withdraw_admissible E p ?amt sn"
    using run_withdraw_inner_D assms(1) unfolding run_withdraw_gateway_def by blast
  have pin: "pin_gateway p = gw_this I"
    using p assms(3) by (auto simp: pinned_def pins_gateway_def parse_addr_def io_simps map_err_def)
  have v: "view_answer E (rpc_url cfg) (gw_this I) GwPaused (dec_bool E) (next_id w + 2) (sn_paused sn)"
    "view_answer E (rpc_url cfg) (gw_this I) (GwAgents ?a) (dec_agents E) (next_id w + 5) (sn_agent sn)"
    "view_answer E (rpc_url cfg) (gw_this I) (GwEffectiveWithdrawWindowGross ?a) (dec_u256 E) (next_id w + 6) (sn_gross sn)"
    using r unfolding withdraw_reads_def common_reads_def Let_def pin by blast+
  have sn: "sn_paused sn = gw_paused s" "sn_agent sn = AgentPolicy.truncate (gw_agents s ?a)"
    "sn_gross sn = effectiveWithdrawWindowGross latest ?a s"
    by (rule view_answer_fun [OF v(1)] view_answer_fun [OF v(2)] view_answer_fun [OF v(3)],
        use assms(2) in \<open>simp add: node_serves_def\<close>)+
  have sender: "msg_sender ctx = ?a" using assms(4) by (simp add: tx_admissible_def)
  have pid: "payment_hash E I ctx ord ?amt idem = compute_payment_id E (cfg_chain_id cfg) (gw_this I) ?a ord ?amt idem"
    using assms(5) sender by (simp add: payment_hash_def compute_payment_id_def)
  have caps: "?amt \<le> maxWithdrawPerPayment (gw_agents s ?a)"
    "unat (effectiveWithdrawWindowGross latest ?a s) + unat ?amt \<le> unat (maxWithdrawPerWindow (gw_agents s ?a))"
    using ok assms(8) by (simp_all add: withdraw_admissible_def within_caps_def sn AgentPolicy.defs)
  have win: "unat (effectiveWithdrawWindowGross ctx ?a s) + unat ?amt \<le> unat (maxWithdrawPerWindow (gw_agents s ?a))"
    using effective_withdraw_later [OF assms(6), of ?a s] caps(2) by linarith
  show ?thesis
    using gw_withdraw_ok [of X I ctx dl E ord ?amt idem s] assms(4,7,9,10) caps(1) win ok sn(1)
    by (simp add: sender pid withdraw_admissible_def gateway_authentic_def agent_authorized_def sn(2) AgentPolicy.defs)
qed

theorem preflight_admits_withdrawal_witness:
  "\<exists>out s'. gw_withdraw demo_env demo_externals demo_code (demo_tx 8 1010) 4 50 3 1100 6 demo_gw_shares =
     (Inr (compute_payment_id demo_env 31337 1 8 4 50 6, out), s')"
proof -
  obtain rep w' where pf: "run_withdraw_gateway demo_env demo_cfg demo_request world0 = (Inr rep, w')"
    using demo_withdraw_preflight_ok by blast
  have "\<exists>out s'. gw_withdraw demo_env demo_externals demo_code (demo_tx 8 1010) 4 (amount demo_request) (vaultContract demo_code) 1100 6
      demo_gw_shares = (Inr (compute_payment_id demo_env (cfg_chain_id demo_cfg) (gw_this demo_code) (signer_address demo_request) 4
        (amount demo_request) 6, out), s')"
  proof (rule preflight_admits_withdrawal [OF pf, where latest = "demo_tx 8 1000"])
    show "node_serves demo_env (rpc_url demo_cfg) demo_externals demo_code (demo_tx 8 1000) (signer_address demo_request) demo_gw_shares"
      using demo_node_serves by (simp add: demo_request_def)
    show "pins_gateway demo_env demo_cfg demo_code"
      by (simp add: pins_gateway_def demo_env_def demo_code_def demo_cfg_def base_cfg_def)
  qed (simp_all add: tx_admissible_def redeems_def demo_request_def demo_gw_shares_def demo_gw_node_def demo_gw1_eq demo_full_policy_def
      demo_policy_def AgentPolicy.defs demo_tx_def demo_code_def demo_cfg_def has_role_def demo_externals_def demo_chain_def
      effectiveWithdrawWindowGross_def Let_def window_over_def GW_WINDOW_SECONDS_def chain_move_def chain_credit_def)
  then show ?thesis by (simp add: demo_request_def demo_code_def demo_cfg_def)
qed

end
