(* ===== verification/Vault_Registry.thy ===== *)
theory Vault_Registry
  imports Solidity
begin

text \<open>
  The vault registry (\<open>contracts/VaultRegistry.sol\<close>): storage, every entry point and view. The role table of OpenZeppelin's
  \<open>AccessControl\<close> and the contract at the linked router address are outside: the registry asks the first for the admin role
  and the second for the length of its default weight vector. The interface the portfolio router relies on is the locale
  \<open>vault_catalogue\<close>, interpreted on the registry.
\<close>

section \<open>Types\<close>

datatype VaultStatus = VaultActive | VaultPaused | VaultRetired

record VaultMetadata =
  vm_name :: string
  vm_asset :: address
  vm_registeredAt :: u256

datatype registry_error =
    RgZeroAddress | AlreadyRegistered | NotRegistered
  | StaleDefaultWeightsLength u256 u256
  | RouterUnlinkBlocked u256
  | RgUnauthorizedAccount address
  | RgPanic
  | RgCallFailed string

datatype registry_event =
    VaultRegisteredEvent address string address
  | VaultStatusChangedEvent address VaultStatus u256
  | RouterEligibilityChanged address bool bool
  | RouterSet address address

record registry =
  rg_metadata :: "address \<Rightarrow> VaultMetadata"
  rg_status :: "address \<Rightarrow> VaultStatus"
  rg_vaults :: "address list"
  rg_registered :: "address \<Rightarrow> bool"
  rg_routerEligible :: "address \<Rightarrow> bool"
  rg_routerEligibleCount :: u256
  rg_router :: address
  rg_events :: "registry_event list"

record registry_externals =
  rx_is_admin :: "address \<Rightarrow> bool"
  rx_default_length :: "address \<Rightarrow> string + u256"

type_synonym 'a reg = "(registry, registry_error, 'a) io"

definition rg_emit :: "registry_event \<Rightarrow> unit reg" where
  "rg_emit e = modifyM (\<lambda>s. s\<lparr>rg_events := rg_events s @ [e]\<rparr>)"

definition rg_only_admin :: "registry_externals \<Rightarrow> tx_ctx \<Rightarrow> unit reg" where
  "rg_only_admin X ctx = refuse_if (\<not> rx_is_admin X (msg_sender ctx)) (RgUnauthorizedAccount (msg_sender ctx))"

section \<open>Reads\<close>

definition getVault :: "address \<Rightarrow> registry \<Rightarrow> registry_error + VaultMetadata \<times> VaultStatus" where
  "getVault v s = (if rg_registered s v then Inr (rg_metadata s v, rg_status s v) else Inl NotRegistered)"

definition listVaults :: "registry \<Rightarrow> address list" where
  "listVaults s = rg_vaults s"

definition vaultCount :: "registry \<Rightarrow> u256" where
  "vaultCount s = of_nat (length (rg_vaults s))"

definition isRouterEligible :: "address \<Rightarrow> registry \<Rightarrow> bool" where
  "isRouterEligible v s = rg_routerEligible s v"

section \<open>Writes\<close>

definition registerVault :: "registry_externals \<Rightarrow> tx_ctx \<Rightarrow> address \<Rightarrow> VaultMetadata \<Rightarrow> unit reg" where
  "registerVault X ctx vault metadata =
     bindM (rg_only_admin X ctx) (\<lambda>_.
     bindM (refuse_if (vault = 0) RgZeroAddress) (\<lambda>_.
     bindM (getM (\<lambda>s. rg_registered s vault)) (\<lambda>known.
     bindM (refuse_if known AlreadyRegistered) (\<lambda>_.
     bindM (modifyM (\<lambda>s. s\<lparr>rg_registered := (rg_registered s)(vault := True), rg_vaults := rg_vaults s @ [vault],
       rg_metadata := (rg_metadata s)(vault :=
         \<lparr>vm_name = vm_name metadata, vm_asset = vm_asset metadata, vm_registeredAt = block_timestamp ctx\<rparr>),
       rg_status := (rg_status s)(vault := VaultActive)\<rparr>)) (\<lambda>_.
     rg_emit (VaultRegisteredEvent vault (vm_name metadata) (vm_asset metadata)))))))"

definition setVaultStatus :: "registry_externals \<Rightarrow> tx_ctx \<Rightarrow> address \<Rightarrow> VaultStatus \<Rightarrow> unit reg" where
  "setVaultStatus X ctx vault newStatus =
     bindM (rg_only_admin X ctx) (\<lambda>_.
     bindM (getM (\<lambda>s. rg_registered s vault)) (\<lambda>known.
     bindM (refuse_if (\<not> known) NotRegistered) (\<lambda>_.
     bindM (modifyM (\<lambda>s. s\<lparr>rg_status := (rg_status s)(vault := newStatus)\<rparr>)) (\<lambda>_.
     rg_emit (VaultStatusChangedEvent vault newStatus (block_timestamp ctx))))))"

definition default_length :: "registry_externals \<Rightarrow> address \<Rightarrow> u256 reg" where
  "default_length X r = liftR (map_err RgCallFailed (rx_default_length X r))"

definition check_default_length :: "registry_externals \<Rightarrow> u256 \<Rightarrow> unit reg" where
  "check_default_length X newCount =
     bindM (getM rg_router) (\<lambda>r.
     if r \<noteq> 0
     then bindM (default_length X r) (\<lambda>dl. refuse_if (dl \<noteq> 0 \<and> dl \<noteq> newCount) (StaleDefaultWeightsLength newCount dl))
     else retM ())"

definition setRouterEligible :: "registry_externals \<Rightarrow> tx_ctx \<Rightarrow> address \<Rightarrow> bool \<Rightarrow> unit reg" where
  "setRouterEligible X ctx vault eligible =
     bindM (rg_only_admin X ctx) (\<lambda>_.
     bindM (getM (\<lambda>s. rg_registered s vault)) (\<lambda>known.
     bindM (refuse_if (\<not> known) NotRegistered) (\<lambda>_.
     bindM (getM (\<lambda>s. rg_routerEligible s vault)) (\<lambda>old.
     if old = eligible then rg_emit (RouterEligibilityChanged vault old eligible)
     else
       bindM (getM rg_routerEligibleCount) (\<lambda>n.
       bindM (if eligible then checked_add RgPanic n 1 else checked_sub RgPanic n 1) (\<lambda>newCount.
       bindM (check_default_length X newCount) (\<lambda>_.
       bindM (modifyM (\<lambda>s. s\<lparr>rg_routerEligibleCount := newCount\<rparr>)) (\<lambda>_.
       bindM (rg_emit (RouterEligibilityChanged vault old eligible)) (\<lambda>_.
       modifyM (\<lambda>s. s\<lparr>rg_routerEligible := (rg_routerEligible s)(vault := eligible)\<rparr>))))))))))"

definition setRouter :: "registry_externals \<Rightarrow> tx_ctx \<Rightarrow> address \<Rightarrow> unit reg" where
  "setRouter X ctx newRouter =
     bindM (rg_only_admin X ctx) (\<lambda>_.
     bindM (getM rg_router) (\<lambda>r.
     bindM (if newRouter = 0 \<and> r \<noteq> 0
            then bindM (default_length X r) (\<lambda>dl. refuse_if (dl \<noteq> 0) (RouterUnlinkBlocked dl))
            else retM ()) (\<lambda>_.
     bindM (rg_emit (RouterSet r newRouter)) (\<lambda>_.
     modifyM (\<lambda>s. s\<lparr>rg_router := newRouter\<rparr>)))))"

text \<open>The storage after the constructor, which grants the admin role outside.\<close>

definition blank_registry :: registry where
  "blank_registry =
     \<lparr>rg_metadata = (\<lambda>_. \<lparr>vm_name = [], vm_asset = 0, vm_registeredAt = 0\<rparr>), rg_status = (\<lambda>_. VaultActive), rg_vaults = [],
      rg_registered = (\<lambda>_. False), rg_routerEligible = (\<lambda>_. False), rg_routerEligibleCount = 0, rg_router = 0, rg_events = []\<rparr>"

definition registry_new :: "address \<Rightarrow> registry_error + registry" where
  "registry_new admin = (if admin = 0 then Inl RgZeroAddress else Inr blank_registry)"

datatype rg_call =
    RegisterVault address VaultMetadata
  | SetVaultStatus address VaultStatus
  | SetRouterEligible address bool
  | SetRouter address

fun rg_entry :: "registry_externals \<Rightarrow> tx_ctx \<Rightarrow> rg_call \<Rightarrow> unit reg" where
  "rg_entry X ctx (RegisterVault v m) = registerVault X ctx v m"
| "rg_entry X ctx (SetVaultStatus v st) = setVaultStatus X ctx v st"
| "rg_entry X ctx (SetRouterEligible v b) = setRouterEligible X ctx v b"
| "rg_entry X ctx (SetRouter r) = setRouter X ctx r"

definition rg_exec :: "registry_externals \<Rightarrow> tx_ctx \<Rightarrow> rg_call \<Rightarrow> unit reg" where
  "rg_exec X ctx c = transact (rg_entry X ctx c)"

section \<open>The catalogue a router reads\<close>

locale vault_catalogue =
  fixes registered :: "'r \<Rightarrow> address \<Rightarrow> bool"
    and eligible :: "'r \<Rightarrow> address \<Rightarrow> bool"
    and eligible_count :: "'r \<Rightarrow> u256"
    and sound :: "'r \<Rightarrow> bool"
  assumes eligible_registered: "sound r \<Longrightarrow> eligible r v \<Longrightarrow> registered r v"
    and eligible_counted: "sound r \<Longrightarrow> unat (eligible_count r) = card {v. eligible r v}"
begin

text \<open>A list of eligible vaults as long as the count names every eligible vault, if it names none twice.\<close>

lemma spans_eligible:
  assumes "sound r" "distinct vs" "\<forall>v \<in> set vs. eligible r v" "length vs = unat (eligible_count r)"
  shows "set vs = {v. eligible r v}"
proof (rule card_subset_eq)
  show "finite {v. eligible r v}" by (rule finite_subset [OF subset_UNIV]) simp
  show "card (set vs) = card {v. eligible r v}"
    using assms by (simp add: distinct_card eligible_counted)
qed (use assms(3) in auto)

lemma none_eligible: "sound r \<Longrightarrow> eligible_count r = 0 \<Longrightarrow> \<not> eligible r v"
  using eligible_counted [of r] finite_subset [OF subset_UNIV, of "{v. eligible r v}"] by auto

end

section \<open>The invariant\<close>

definition registry_ok :: "registry \<Rightarrow> bool" where
  "registry_ok s \<longleftrightarrow>
     distinct (rg_vaults s) \<and> 0 \<notin> set (rg_vaults s) \<and> (\<forall>v. rg_registered s v \<longleftrightarrow> v \<in> set (rg_vaults s)) \<and>
     (\<forall>v. rg_routerEligible s v \<longrightarrow> rg_registered s v) \<and>
     unat (rg_routerEligibleCount s) = card {v. rg_routerEligible s v}"

interpretation catalogue: vault_catalogue rg_registered "\<lambda>r v. isRouterEligible v r" rg_routerEligibleCount registry_ok
  by unfold_locales (auto simp: registry_ok_def isRouterEligible_def)

lemma card_fun_upd:
  fixes P :: "'a::finite \<Rightarrow> bool"
  shows "\<not> P a \<Longrightarrow> card {v. (P(a := True)) v} = Suc (card {v. P v})"
    and "P a \<Longrightarrow> Suc (card {v. (P(a := False)) v}) = card {v. P v}"
proof -
  have "{v. (P(a := True)) v} = insert a {v. P v}" by auto
  then show "\<not> P a \<Longrightarrow> card {v. (P(a := True)) v} = Suc (card {v. P v})" by (simp add: card_insert_if)
  have "{v. (P(a := False)) v} = {v. P v} - {a}" by auto
  then show "P a \<Longrightarrow> Suc (card {v. (P(a := False)) v}) = card {v. P v}" 
    using card_Suc_Diff1 [of "{v. P v}" a] by simp
qed

lemma setRouterEligible_ok:
  assumes "registry_ok s" "setRouterEligible X ctx v b s = (Inr u, t)"
  shows "registry_ok t"
proof (cases "rg_routerEligible s v = b")
  case True
  then show ?thesis
    using assms by (auto simp: setRouterEligible_def rg_only_admin_def rg_emit_def io_simps registry_ok_def)
next
  case False
  let ?n = "rg_routerEligibleCount s" and ?m = "rg_routerEligibleCount t"
  have m: "if b then unat ?m = unat ?n + 1 else unat ?m + 1 = unat ?n"
    and t: "t = s\<lparr>rg_routerEligibleCount := ?m, rg_events := rg_events s @ [RouterEligibilityChanged v (\<not> b) b],
      rg_routerEligible := (rg_routerEligible s)(v := b)\<rparr>" and v: "rg_registered s v"
    using False assms(2)
    by (auto simp: setRouterEligible_def rg_only_admin_def rg_emit_def check_default_length_def default_length_def io_simps
        unat_checked unat_sub word_le_nat_alt split: if_splits)
  have "unat ?m = card {w. ((rg_routerEligible s)(v := b)) w}"
    using m False assms(1) card_fun_upd [of "rg_routerEligible s" v] by (cases b) (auto simp: registry_ok_def)
  then show ?thesis using assms(1) v by (subst t) (auto simp: registry_ok_def)
qed

text \<open>What the other calls change.\<close>

lemma registerVault_Inr:
  "registerVault X ctx v m s = (Inr u, t) \<Longrightarrow> v \<noteq> 0 \<and> \<not> rg_registered s v \<and>
     rg_registered t = (rg_registered s)(v := True) \<and> rg_vaults t = rg_vaults s @ [v] \<and>
     rg_routerEligible t = rg_routerEligible s \<and> rg_routerEligibleCount t = rg_routerEligibleCount s \<and>
     (\<forall>w. w \<noteq> v \<longrightarrow> rg_metadata t w = rg_metadata s w) \<and> rg_router t = rg_router s"
  by (auto simp: registerVault_def rg_only_admin_def rg_emit_def io_simps)

definition same_catalogue :: "registry \<Rightarrow> registry \<Rightarrow> bool" where
  "same_catalogue s t \<longleftrightarrow>
     rg_registered t = rg_registered s \<and> rg_vaults t = rg_vaults s \<and> rg_metadata t = rg_metadata s \<and>
     rg_routerEligible t = rg_routerEligible s \<and> rg_routerEligibleCount t = rg_routerEligibleCount s"

lemma other_calls_catalogue:
  "setVaultStatus X ctx v st s = (Inr u, t) \<Longrightarrow> same_catalogue s t \<and> rg_router t = rg_router s"
  "setRouter X ctx r s = (Inr u, t) \<Longrightarrow> same_catalogue s t"
  by (auto simp: setVaultStatus_def setRouter_def rg_only_admin_def rg_emit_def default_length_def io_simps same_catalogue_def
      split: if_splits)

lemma setRouterEligible_keeps:
  "setRouterEligible X ctx v b s = (Inr u, t) \<Longrightarrow>
     rg_registered t = rg_registered s \<and> rg_metadata t = rg_metadata s \<and> rg_router t = rg_router s"
  by (auto simp: setRouterEligible_def check_default_length_def rg_only_admin_def rg_emit_def default_length_def io_simps
      split: if_splits)

lemma rg_entry_ok:
  assumes "registry_ok s" "rg_entry X ctx c s = (Inr (), t)"
  shows "registry_ok t"
proof (cases c)
  case (RegisterVault v m)
  then have "registerVault X ctx v m s = (Inr (), t)" using assms(2) by simp
  from registerVault_Inr [OF this] assms(1) show ?thesis by (auto simp: registry_ok_def)
next
  case (SetRouterEligible v b)
  then show ?thesis using assms setRouterEligible_ok by simp
next
  case (SetVaultStatus v st)
  then have "same_catalogue s t" using assms(2) other_calls_catalogue(1) by auto
  then show ?thesis using assms(1) by (auto simp: registry_ok_def same_catalogue_def)
next
  case (SetRouter r)
  then have "same_catalogue s t" using assms(2) other_calls_catalogue(2) by auto
  then show ?thesis using assms(1) by (auto simp: registry_ok_def same_catalogue_def)
qed

lemma rg_exec_ok: "registry_ok s \<Longrightarrow> rg_exec X ctx c s = (r, t) \<Longrightarrow> registry_ok t"
  by (cases r) (auto simp: rg_exec_def transact_Inr dest: transact_Inl rg_entry_ok)

lemma blank_registry_ok: "registry_ok blank_registry"
  by (simp add: registry_ok_def blank_registry_def)

text \<open>A registered vault stays registered, with its metadata.\<close>

lemma rg_exec_registered:
  assumes "rg_exec X ctx c s = (r, t)" "rg_registered s v"
  shows "rg_registered t v \<and> rg_metadata t v = rg_metadata s v"
proof (cases r)
  case (Inl e)
  then show ?thesis using assms transact_Inl unfolding rg_exec_def by metis
next
  case (Inr u)
  then have e: "rg_entry X ctx c s = (Inr (), t)" using assms(1) by (simp add: rg_exec_def transact_Inr)
  show ?thesis
  proof (cases c)
    case (RegisterVault w m)
    then show ?thesis using e assms(2) registerVault_Inr [of X ctx w m s "()" t] by auto
  next
    case (SetRouterEligible w b)
    then show ?thesis using e assms(2) setRouterEligible_keeps [of X ctx w b s "()" t] by auto
  next
    case (SetVaultStatus w st)
    then show ?thesis using e assms(2) other_calls_catalogue(1) [of X ctx w st s "()" t] by (auto simp: same_catalogue_def)
  next
    case (SetRouter a)
    then show ?thesis using e assms(2) other_calls_catalogue(2) [of X ctx a s "()" t] by (auto simp: same_catalogue_def)
  qed
qed

end
