(* ===== verification/Portfolio_Router.thy ===== *)
theory Portfolio_Router
  imports Vault_Registry
begin

text \<open>
  The portfolio router (\<open>contracts/PortfolioRouter.sol\<close>): storage, every entry point and view. It reads the registry, which does
  not change while a call of the router runs, so the registry's storage is an argument. The token, the vaults and the role
  table are outside; a call to them returns without entering the router again (\<open>nonReentrant\<close> for the deposits). The last
  two fields of the outside answer the registry: its admin role, and the default length of a contract other than this router.
\<close>

section \<open>Types\<close>

datatype router_error =
    RtZeroAddress | RtInvalidWeightSum | RtLengthMismatch | MinSharesLengthMismatch | SlippageExceeded | RouterCapExceeded
  | VaultCapExceeded | NoWeightsSet
  | VaultNotActive address VaultStatus
  | VaultAssetMismatch address address
  | VaultAssetUnreadable address
  | UsdcCustodyInvariantViolated
  | VaultNotRouterEligible address
  | RegistryReverted registry_error
  | RtUnauthorizedAccount address
  | RtPanic
  | RtCallFailed string

datatype router_event =
    RouterDepositEvent address address u256 u256 u256
  | WeightsSet "address list" "u256 list"
  | DefaultWeightsSet "address list" "u256 list"
  | VotedWeightsCleared
  | RouterCapSet u256 u256
  | VaultCapSet address u256 u256
  | RescuedUsdc address u256

record router_code =
  rt_this :: address
  rt_usdc :: address

record 'x router_externals =
  px_is_admin :: "'x \<Rightarrow> address \<Rightarrow> bool"
  px_has_code :: "address \<Rightarrow> 'x \<Rightarrow> bool"
  px_asset :: "address \<Rightarrow> 'x \<Rightarrow> string + address"
  px_balance_of :: "address \<Rightarrow> address \<Rightarrow> 'x \<Rightarrow> u256"
  px_transfer :: "address \<Rightarrow> address \<Rightarrow> address \<Rightarrow> u256 \<Rightarrow> 'x \<Rightarrow> string + unit \<times> 'x"
  px_transfer_from :: "address \<Rightarrow> address \<Rightarrow> address \<Rightarrow> address \<Rightarrow> u256 \<Rightarrow> 'x \<Rightarrow> string + unit \<times> 'x"
  px_force_approve :: "address \<Rightarrow> address \<Rightarrow> address \<Rightarrow> u256 \<Rightarrow> 'x \<Rightarrow> string + unit \<times> 'x"
  px_preview_deposit :: "address \<Rightarrow> u256 \<Rightarrow> 'x \<Rightarrow> string + u256"
  px_vault_deposit :: "address \<Rightarrow> address \<Rightarrow> u256 \<Rightarrow> address \<Rightarrow> 'x \<Rightarrow> string + u256 \<times> 'x"
  px_registry_admin :: "'x \<Rightarrow> address \<Rightarrow> bool"
  px_other_default_length :: "address \<Rightarrow> 'x \<Rightarrow> string + u256"

record 'x portfolio_router =
  rt_routerCap :: u256
  rt_vaultCap :: "address \<Rightarrow> u256"
  rt_weightVaultList :: "address list"
  rt_weightBps :: "u256 list"
  rt_votedWeightsActive :: bool
  rt_defaultWeightVaultList :: "address list"
  rt_defaultWeightBps :: "u256 list"
  rt_events :: "router_event list"
  rt_outside :: 'x

record LegPreview =
  lp_vault :: address
  lp_weightBps :: u256
  lp_legAmount :: u256
  lp_estShares :: u256
  lp_unavailable :: bool

type_synonym ('x, 'a) rt = "('x portfolio_router, router_error, 'a) io"

definition RT_BPS_DENOMINATOR :: u256 where "RT_BPS_DENOMINATOR = 10000"

definition rt_emit :: "router_event \<Rightarrow> ('x, unit) rt" where
  "rt_emit e = modifyM (\<lambda>s. s\<lparr>rt_events := rt_events s @ [e]\<rparr>)"

definition rt_call :: "('x \<Rightarrow> string + 'a \<times> 'x) \<Rightarrow> ('x, 'a) rt" where
  "rt_call f = call_outside rt_outside (\<lambda>x s. s\<lparr>rt_outside := x\<rparr>) RtCallFailed f"

definition rt_only_admin :: "'x router_externals \<Rightarrow> tx_ctx \<Rightarrow> ('x, unit) rt" where
  "rt_only_admin X ctx =
     bindM (getM (\<lambda>s. px_is_admin X (rt_outside s) (msg_sender ctx))) (\<lambda>ok.
     refuse_if (\<not> ok) (RtUnauthorizedAccount (msg_sender ctx)))"

definition registered_vault :: "registry \<Rightarrow> address \<Rightarrow> ('x, VaultMetadata \<times> VaultStatus) rt" where
  "registered_vault R v = liftR (map_err RegistryReverted (getVault v R))"

section \<open>Eligibility\<close>

definition rt_isRouterEligible :: "'x router_externals \<Rightarrow> router_code \<Rightarrow> registry \<Rightarrow> address \<Rightarrow> 'x \<Rightarrow> bool" where
  "rt_isRouterEligible X C R v x =
     (if v = 0 then False
      else if \<not> px_has_code X v x then False
      else case px_asset X v x of
             Inl _ \<Rightarrow> False
           | Inr vaultAsset \<Rightarrow> if vaultAsset \<noteq> rt_usdc C then False else isRouterEligible v R)"

definition requireRouterEligible :: "'x router_externals \<Rightarrow> router_code \<Rightarrow> registry \<Rightarrow> address \<Rightarrow> ('x, unit) rt" where
  "requireRouterEligible X C R v =
     bindM (getM rt_outside) (\<lambda>x.
     bindM (refuse_if (\<not> px_has_code X v x) (VaultAssetUnreadable v)) (\<lambda>_.
     bindM (case px_asset X v x of
              Inl _ \<Rightarrow> failM (VaultAssetUnreadable v)
            | Inr vaultAsset \<Rightarrow> refuse_if (vaultAsset \<noteq> rt_usdc C) (VaultAssetMismatch v vaultAsset)) (\<lambda>_.
     refuse_if (\<not> isRouterEligible v R) (VaultNotRouterEligible v))))"

section \<open>Weights and caps\<close>

fun weigh_vaults ::
    "'x router_externals \<Rightarrow> router_code \<Rightarrow> registry \<Rightarrow> (address \<times> u256) list \<Rightarrow> u256 \<Rightarrow> ('x, u256) rt" where
  "weigh_vaults X C R [] tot = retM tot"
| "weigh_vaults X C R ((v, b) # ws) tot =
     bindM (refuse_if (v = 0) RtZeroAddress) (\<lambda>_.
     bindM (registered_vault R v) (\<lambda>_.
     bindM (requireRouterEligible X C R v) (\<lambda>_.
     bindM (checked_add RtPanic tot b) (\<lambda>tot'.
     weigh_vaults X C R ws tot'))))"

definition setWeights ::
    "'x router_externals \<Rightarrow> router_code \<Rightarrow> registry \<Rightarrow> tx_ctx \<Rightarrow> address list \<Rightarrow> u256 list \<Rightarrow> ('x, unit) rt" where
  "setWeights X C R ctx vaults bps =
     bindM (rt_only_admin X ctx) (\<lambda>_.
     bindM (refuse_if (length vaults \<noteq> length bps) RtLengthMismatch) (\<lambda>_.
     bindM (weigh_vaults X C R (zip vaults bps) 0) (\<lambda>tot.
     bindM (refuse_if (tot \<noteq> RT_BPS_DENOMINATOR) RtInvalidWeightSum) (\<lambda>_.
     bindM (modifyM (\<lambda>s. s\<lparr>rt_weightVaultList := vaults, rt_weightBps := bps, rt_votedWeightsActive := True\<rparr>)) (\<lambda>_.
     rt_emit (WeightsSet vaults bps))))))"

definition rt_setDefaultWeights ::
    "'x router_externals \<Rightarrow> router_code \<Rightarrow> registry \<Rightarrow> tx_ctx \<Rightarrow> address list \<Rightarrow> u256 list \<Rightarrow> ('x, unit) rt" where
  "rt_setDefaultWeights X C R ctx vaults bps =
     bindM (rt_only_admin X ctx) (\<lambda>_.
     bindM (refuse_if (length vaults \<noteq> length bps) RtLengthMismatch) (\<lambda>_.
     bindM (refuse_if (length vaults \<noteq> unat (rg_routerEligibleCount R)) RtLengthMismatch) (\<lambda>_.
     bindM (weigh_vaults X C R (zip vaults bps) 0) (\<lambda>tot.
     bindM (refuse_if (tot \<noteq> RT_BPS_DENOMINATOR) RtInvalidWeightSum) (\<lambda>_.
     bindM (modifyM (\<lambda>s. s\<lparr>rt_defaultWeightVaultList := vaults, rt_defaultWeightBps := bps\<rparr>)) (\<lambda>_.
     rt_emit (DefaultWeightsSet vaults bps)))))))"

definition rt_clearVotedWeights :: "'x router_externals \<Rightarrow> tx_ctx \<Rightarrow> ('x, unit) rt" where
  "rt_clearVotedWeights X ctx =
     bindM (rt_only_admin X ctx) (\<lambda>_.
     bindM (modifyM (\<lambda>s. s\<lparr>rt_weightVaultList := [], rt_weightBps := [], rt_votedWeightsActive := False\<rparr>)) (\<lambda>_.
     rt_emit VotedWeightsCleared))"

definition setRouterCap :: "'x router_externals \<Rightarrow> tx_ctx \<Rightarrow> u256 \<Rightarrow> ('x, unit) rt" where
  "setRouterCap X ctx cap =
     bindM (rt_only_admin X ctx) (\<lambda>_.
     bindM (getM rt_routerCap) (\<lambda>old.
     bindM (rt_emit (RouterCapSet old cap)) (\<lambda>_.
     modifyM (\<lambda>s. s\<lparr>rt_routerCap := cap\<rparr>))))"

definition setVaultCap :: "'x router_externals \<Rightarrow> tx_ctx \<Rightarrow> address \<Rightarrow> u256 \<Rightarrow> ('x, unit) rt" where
  "setVaultCap X ctx vault cap =
     bindM (rt_only_admin X ctx) (\<lambda>_.
     bindM (refuse_if (vault = 0) RtZeroAddress) (\<lambda>_.
     bindM (getM (\<lambda>s. rt_vaultCap s vault)) (\<lambda>old.
     bindM (rt_emit (VaultCapSet vault old cap)) (\<lambda>_.
     modifyM (\<lambda>s. s\<lparr>rt_vaultCap := (rt_vaultCap s)(vault := cap)\<rparr>)))))"

definition rescueUsdc :: "'x router_externals \<Rightarrow> router_code \<Rightarrow> tx_ctx \<Rightarrow> address \<Rightarrow> ('x, unit) rt" where
  "rescueUsdc X C ctx to =
     bindM (rt_only_admin X ctx) (\<lambda>_.
     bindM (refuse_if (to = 0) RtZeroAddress) (\<lambda>_.
     bindM (getM (\<lambda>s. px_balance_of X (rt_usdc C) (rt_this C) (rt_outside s))) (\<lambda>amt.
     if amt = 0 then retM ()
     else bindM (rt_call (px_transfer X (rt_usdc C) (rt_this C) to amt)) (\<lambda>_. rt_emit (RescuedUsdc to amt)))))"

section \<open>Reads\<close>

definition getWeights :: "'x portfolio_router \<Rightarrow> address list \<times> u256 list" where
  "getWeights s = (rt_weightVaultList s, rt_weightBps s)"

definition getDefaultWeights :: "'x portfolio_router \<Rightarrow> address list \<times> u256 list" where
  "getDefaultWeights s = (rt_defaultWeightVaultList s, rt_defaultWeightBps s)"

definition getEffectiveWeights :: "'x portfolio_router \<Rightarrow> address list \<times> u256 list" where
  "getEffectiveWeights s = (if rt_votedWeightsActive s then getWeights s else getDefaultWeights s)"

definition defaultWeightsLength :: "'x portfolio_router \<Rightarrow> u256" where
  "defaultWeightsLength s = of_nat (length (rt_defaultWeightVaultList s))"

definition preview_leg :: "'x router_externals \<Rightarrow> registry \<Rightarrow> address \<Rightarrow> u256 \<Rightarrow> u256 \<Rightarrow> 'x \<Rightarrow> LegPreview" where
  "preview_leg X R v b leg x =
     (let entry = \<lparr>lp_vault = v, lp_weightBps = b, lp_legAmount = leg, lp_estShares = 0, lp_unavailable = False\<rparr> in
      case getVault v R of
        Inl _ \<Rightarrow> entry\<lparr>lp_unavailable := True\<rparr>
      | Inr (_, status) \<Rightarrow>
          if status \<noteq> VaultActive then entry\<lparr>lp_unavailable := True\<rparr>
          else case px_preview_deposit X v leg x of
                 Inr estShares \<Rightarrow> entry\<lparr>lp_estShares := estShares\<rparr>
               | Inl _ \<Rightarrow> entry\<lparr>lp_unavailable := True\<rparr>)"

fun preview_legs :: "'x router_externals \<Rightarrow> registry \<Rightarrow> u256 \<Rightarrow> (address \<times> u256) list \<Rightarrow> ('x, LegPreview list) rt" where
  "preview_legs X R amt [] = retM []"
| "preview_legs X R amt ((v, b) # ws) =
     bindM (checked_mul RtPanic amt b) (\<lambda>m.
     bindM (getM rt_outside) (\<lambda>x.
     bindM (preview_legs X R amt ws) (\<lambda>ls.
     retM (preview_leg X R v b (m div RT_BPS_DENOMINATOR) x # ls))))"

definition previewDeposit :: "'x router_externals \<Rightarrow> registry \<Rightarrow> u256 \<Rightarrow> ('x, LegPreview list) rt" where
  "previewDeposit X R amt =
     bindM (getM getEffectiveWeights) (\<lambda>(vaultList, bpsList). preview_legs X R amt (zip vaultList bpsList))"

section \<open>Deposits\<close>

fun leg_amounts :: "u256 \<Rightarrow> u256 list \<Rightarrow> u256 \<Rightarrow> ('x, u256 list \<times> u256) rt" where
  "leg_amounts amt [] allocated = retM ([], allocated)"
| "leg_amounts amt (b # bs) allocated =
     bindM (checked_mul RtPanic amt b) (\<lambda>m.
     bindM (checked_add RtPanic allocated (m div RT_BPS_DENOMINATOR)) (\<lambda>allocated'.
     bindM (leg_amounts amt bs allocated') (\<lambda>(legs, tot).
     retM (m div RT_BPS_DENOMINATOR # legs, tot))))"

definition add_remainder :: "u256 \<Rightarrow> u256 list \<Rightarrow> u256 \<Rightarrow> ('x, u256 list) rt" where
  "add_remainder amt legs allocated =
     (if allocated < amt
      then bindM (checked_sub RtPanic amt allocated) (\<lambda>rest.
           bindM (checked_add RtPanic (legs ! (length legs - 1)) rest) (\<lambda>final.
           retM (legs[length legs - 1 := final])))
      else retM legs)"

definition execute_leg ::
    "'x router_externals \<Rightarrow> router_code \<Rightarrow> registry \<Rightarrow> address \<Rightarrow> address \<Rightarrow> u256 \<Rightarrow> u256 \<Rightarrow> u256 list \<Rightarrow> ('x, u256) rt" where
  "execute_leg X C R receiver v b leg mins =
     bindM (registered_vault R v) (\<lambda>(_, vaultStatus).
     bindM (refuse_if (vaultStatus \<noteq> VaultActive) (VaultNotActive v vaultStatus)) (\<lambda>_.
     bindM (getM (\<lambda>s. rt_vaultCap s v)) (\<lambda>cap.
     bindM (refuse_if (cap \<noteq> 0 \<and> cap < leg) VaultCapExceeded) (\<lambda>_.
     bindM (requireRouterEligible X C R v) (\<lambda>_.
     bindM (rt_call (px_force_approve X (rt_usdc C) (rt_this C) v leg)) (\<lambda>_.
     bindM (rt_call (px_vault_deposit X v (rt_this C) leg receiver)) (\<lambda>sharesReceived.
     bindM (refuse_if (mins \<noteq> [] \<and> sharesReceived < hd mins) SlippageExceeded) (\<lambda>_.
     bindM (rt_emit (RouterDepositEvent receiver v leg sharesReceived b)) (\<lambda>_.
     retM sharesReceived)))))))))"

text \<open>The minima are either none or one per leg; the head of the list is the one of the next leg.\<close>

fun execute_legs ::
    "'x router_externals \<Rightarrow> router_code \<Rightarrow> registry \<Rightarrow> address \<Rightarrow> (address \<times> u256 \<times> u256) list \<Rightarrow> u256 list \<Rightarrow> ('x, u256 list) rt" where
  "execute_legs X C R receiver [] mins = retM []"
| "execute_legs X C R receiver ((v, b, leg) # ls) mins =
     bindM (execute_leg X C R receiver v b leg mins) (\<lambda>sh.
     bindM (execute_legs X C R receiver ls (tl mins)) (\<lambda>shs.
     retM (sh # shs)))"

definition executeLegs ::
    "'x router_externals \<Rightarrow> router_code \<Rightarrow> registry \<Rightarrow> address \<Rightarrow> (address \<times> u256 \<times> u256) list \<Rightarrow> u256 list \<Rightarrow> ('x, u256 list) rt" where
  "executeLegs X C R receiver legs mins =
     bindM (execute_legs X C R receiver legs mins) (\<lambda>shs.
     bindM (getM (\<lambda>s. px_balance_of X (rt_usdc C) (rt_this C) (rt_outside s))) (\<lambda>held.
     bindM (refuse_if (held \<noteq> 0) UsdcCustodyInvariantViolated) (\<lambda>_.
     retM shs)))"

definition rt_depositTo ::
    "'x router_externals \<Rightarrow> router_code \<Rightarrow> registry \<Rightarrow> tx_ctx \<Rightarrow> address \<Rightarrow> u256 \<Rightarrow> u256 list \<Rightarrow> ('x, u256 list) rt" where
  "rt_depositTo X C R ctx receiver amt mins =
     bindM (getM getEffectiveWeights) (\<lambda>(vaultList, bpsList).
     bindM (refuse_if (vaultList = []) NoWeightsSet) (\<lambda>_.
     bindM (getM rt_routerCap) (\<lambda>cap.
     bindM (refuse_if (cap \<noteq> 0 \<and> cap < amt) RouterCapExceeded) (\<lambda>_.
     bindM (rt_call (px_transfer_from X (rt_usdc C) (rt_this C) (msg_sender ctx) (rt_this C) amt)) (\<lambda>_.
     bindM (refuse_if (mins \<noteq> [] \<and> length mins \<noteq> length vaultList) MinSharesLengthMismatch) (\<lambda>_.
     bindM (leg_amounts amt bpsList 0) (\<lambda>(legs, allocated).
     bindM (add_remainder amt legs allocated) (\<lambda>legAmounts.
     executeLegs X C R receiver (zip vaultList (zip bpsList legAmounts)) mins))))))))"

definition rt_deposit ::
    "'x router_externals \<Rightarrow> router_code \<Rightarrow> registry \<Rightarrow> tx_ctx \<Rightarrow> u256 \<Rightarrow> u256 list \<Rightarrow> ('x, u256 list) rt" where
  "rt_deposit X C R ctx amt mins = rt_depositTo X C R ctx (msg_sender ctx) amt mins"

definition depositFor ::
    "'x router_externals \<Rightarrow> router_code \<Rightarrow> registry \<Rightarrow> tx_ctx \<Rightarrow> address \<Rightarrow> u256 \<Rightarrow> u256 list \<Rightarrow> ('x, u256 list) rt" where
  "depositFor X C R ctx receiver amt mins =
     bindM (refuse_if (receiver = 0) RtZeroAddress) (\<lambda>_. rt_depositTo X C R ctx receiver amt mins)"

section \<open>Transactions\<close>

text \<open>The storage after the constructor, which grants the admin role outside.\<close>

definition blank_router :: "'x \<Rightarrow> 'x portfolio_router" where
  "blank_router x =
     \<lparr>rt_routerCap = 0, rt_vaultCap = (\<lambda>_. 0), rt_weightVaultList = [], rt_weightBps = [], rt_votedWeightsActive = False,
      rt_defaultWeightVaultList = [], rt_defaultWeightBps = [], rt_events = [], rt_outside = x\<rparr>"

definition router_new :: "address \<Rightarrow> address \<Rightarrow> address \<Rightarrow> 'x \<Rightarrow> router_error + 'x portfolio_router" where
  "router_new usdc registry_addr admin x =
     (if usdc = 0 \<or> registry_addr = 0 \<or> admin = 0 then Inl RtZeroAddress else Inr (blank_router x))"

datatype rt_entry_call =
    CallSetWeights "address list" "u256 list"
  | CallSetDefaultWeights "address list" "u256 list"
  | CallClearVotedWeights
  | CallSetRouterCap u256
  | CallSetVaultCap address u256
  | CallRescueUsdc address
  | CallRouterDeposit u256 "u256 list"
  | CallDepositFor address u256 "u256 list"

fun rt_entry :: "'x router_externals \<Rightarrow> router_code \<Rightarrow> registry \<Rightarrow> tx_ctx \<Rightarrow> rt_entry_call \<Rightarrow> ('x, unit) rt" where
  "rt_entry X C R ctx (CallSetWeights vs bs) = setWeights X C R ctx vs bs"
| "rt_entry X C R ctx (CallSetDefaultWeights vs bs) = rt_setDefaultWeights X C R ctx vs bs"
| "rt_entry X C R ctx CallClearVotedWeights = rt_clearVotedWeights X ctx"
| "rt_entry X C R ctx (CallSetRouterCap n) = setRouterCap X ctx n"
| "rt_entry X C R ctx (CallSetVaultCap v n) = setVaultCap X ctx v n"
| "rt_entry X C R ctx (CallRescueUsdc a) = rescueUsdc X C ctx a"
| "rt_entry X C R ctx (CallRouterDeposit n ms) = bindM (rt_deposit X C R ctx n ms) (\<lambda>_. retM ())"
| "rt_entry X C R ctx (CallDepositFor a n ms) = bindM (depositFor X C R ctx a n ms) (\<lambda>_. retM ())"

definition rt_exec :: "'x router_externals \<Rightarrow> router_code \<Rightarrow> registry \<Rightarrow> tx_ctx \<Rightarrow> rt_entry_call \<Rightarrow> ('x, unit) rt" where
  "rt_exec X C R ctx c = transact (rt_entry X C R ctx c)"

end
