(* ===== verification/Portfolio_Correct.thy ===== *)
theory Portfolio_Correct
  imports Portfolio_Router
begin

text \<open>
  Correctness of the registry and the router together: the weight vectors a router can hold, how a deposit is split, and what
  the rule that ties the default vector to the number of eligible vaults does to the two contracts.
\<close>

section \<open>Weights\<close>

lemma requireRouterEligible_Inr_iff [io_simps]:
  "requireRouterEligible X C R v s = (Inr u, t) \<longleftrightarrow>
     t = s \<and> px_has_code X v (rt_outside s) \<and> px_asset X v (rt_outside s) = Inr (rt_usdc C) \<and> isRouterEligible v R"
  by (auto simp: requireRouterEligible_def io_simps split: sum.splits)

lemma registered_vault_Inr_iff [io_simps]:
  "registered_vault R v s = (Inr (m, st), t) \<longleftrightarrow> t = s \<and> rg_registered R v \<and> m = rg_metadata R v \<and> st = rg_status R v"
  by (auto simp: registered_vault_def getVault_def io_simps map_err_def)

lemma rt_isRouterEligible_iff:
  "rt_isRouterEligible X C R v x \<longleftrightarrow>
     v \<noteq> 0 \<and> px_has_code X v x \<and> px_asset X v x = Inr (rt_usdc C) \<and> isRouterEligible v R"
  by (auto simp: rt_isRouterEligible_def split: sum.splits)

definition admitted :: "'x router_externals \<Rightarrow> router_code \<Rightarrow> registry \<Rightarrow> 'x \<Rightarrow> address \<Rightarrow> bool" where
  "admitted X C R x v \<longleftrightarrow> rg_registered R v \<and> rt_isRouterEligible X C R v x"

lemma weigh_vaults_Inr:
  "weigh_vaults X C R ws tot s = (Inr r, t) \<Longrightarrow>
     t = s \<and> unat r = unat tot + sum_list (map (\<lambda>w. unat (snd w)) ws) \<and> (\<forall>w \<in> set ws. admitted X C R (rt_outside s) (fst w))"
proof (induction ws arbitrary: tot)
  case (Cons w ws)
  obtain v b where w: "w = (v, b)" by fastforce
  have rest: "weigh_vaults X C R ws (tot + b) s = (Inr r, t)" and v: "admitted X C R (rt_outside s) v"
    and "unat tot + unat b < 2 ^ 256"
    using Cons.prems by (auto simp: w io_simps admitted_def rt_isRouterEligible_iff)
  then show ?case using Cons.IH [OF rest] v by (simp add: w unat_checked)
qed (simp add: io_simps)

lemma weigh_vaults_ok:
  assumes "\<forall>w \<in> set ws. admitted X C R (rt_outside s) (fst w)"
    and "unat tot + sum_list (map (\<lambda>w. unat (snd w)) ws) < 2 ^ 256"
  shows "\<exists>r. weigh_vaults X C R ws tot s = (Inr r, s) \<and> unat r = unat tot + sum_list (map (\<lambda>w. unat (snd w)) ws)"
  using assms
proof (induction ws arbitrary: tot)
  case (Cons w ws)
  obtain v b where w: "w = (v, b)" by fastforce
  have b: "unat tot + unat b < 2 ^ 256" and v: "admitted X C R (rt_outside s) v" using Cons.prems by (simp_all add: w)
  have "unat (tot + b) + sum_list (map (\<lambda>w. unat (snd w)) ws) < 2 ^ 256" using Cons.prems(2) b by (simp add: w unat_checked add.assoc)
  then obtain r where "weigh_vaults X C R ws (tot + b) s = (Inr r, s)" "unat r = unat (tot + b) + sum_list (map (\<lambda>w. unat (snd w)) ws)"
    using Cons.IH [of "tot + b"] Cons.prems(1) by auto
  then show ?case using v b by (auto simp: w io_simps admitted_def rt_isRouterEligible_iff unat_checked)
qed (simp add: io_simps)

lemma bps_total: "unat (r :: u256) = 10000 \<longleftrightarrow> r = RT_BPS_DENOMINATOR"
  by (simp add: RT_BPS_DENOMINATOR_def word_unat_eq_iff)

lemma weigh_zip_iff:
  assumes "length vs = length bs"
  shows "weigh_vaults X C R (zip vs bs) 0 s = (Inr RT_BPS_DENOMINATOR, t) \<longleftrightarrow>
    t = s \<and> (\<forall>v \<in> set vs. admitted X C R (rt_outside s) v) \<and> sum_list (map unat bs) = 10000"
proof -
  have z: "(\<forall>w \<in> set (zip vs bs). P (fst w)) \<longleftrightarrow> (\<forall>v \<in> set vs. P v)" "map (\<lambda>w. unat (snd w)) (zip vs bs) = map unat bs" for P
    using assms by (induction vs bs rule: list_induct2) simp_all
  show ?thesis
  proof
    assume "weigh_vaults X C R (zip vs bs) 0 s = (Inr RT_BPS_DENOMINATOR, t)"
    from weigh_vaults_Inr [OF this, unfolded z]
    show "t = s \<and> (\<forall>v \<in> set vs. admitted X C R (rt_outside s) v) \<and> sum_list (map unat bs) = 10000"
      by (simp add: RT_BPS_DENOMINATOR_def)
  next
    assume "t = s \<and> (\<forall>v \<in> set vs. admitted X C R (rt_outside s) v) \<and> sum_list (map unat bs) = 10000"
    then show "weigh_vaults X C R (zip vs bs) 0 s = (Inr RT_BPS_DENOMINATOR, t)"
      using weigh_vaults_ok [of "zip vs bs" X C R s 0, unfolded z] bps_total by auto
  qed
qed

text \<open>Exactly when a vector is accepted, and what it does.\<close>

lemma setWeights_iff:
  "setWeights X C R ctx vs bs s = (Inr u, t) \<longleftrightarrow>
     px_is_admin X (rt_outside s) (msg_sender ctx) \<and> length vs = length bs \<and> sum_list (map unat bs) = 10000 \<and>
     (\<forall>v \<in> set vs. admitted X C R (rt_outside s) v) \<and>
     t = s\<lparr>rt_weightVaultList := vs, rt_weightBps := bs, rt_votedWeightsActive := True, rt_events := rt_events s @ [WeightsSet vs bs]\<rparr>"
  by (auto simp: setWeights_def rt_only_admin_def rt_emit_def io_simps weigh_zip_iff)

lemma setDefaultWeights_iff:
  "rt_setDefaultWeights X C R ctx vs bs s = (Inr u, t) \<longleftrightarrow>
     px_is_admin X (rt_outside s) (msg_sender ctx) \<and> length vs = length bs \<and> sum_list (map unat bs) = 10000 \<and>
     length vs = unat (rg_routerEligibleCount R) \<and>
     (\<forall>v \<in> set vs. admitted X C R (rt_outside s) v) \<and>
     t = s\<lparr>rt_defaultWeightVaultList := vs, rt_defaultWeightBps := bs, rt_events := rt_events s @ [DefaultWeightsSet vs bs]\<rparr>"
  by (auto simp: rt_setDefaultWeights_def rt_only_admin_def rt_emit_def io_simps weigh_zip_iff)

definition vector_ok :: "registry \<Rightarrow> address list \<Rightarrow> u256 list \<Rightarrow> bool" where
  "vector_ok R vs bs \<longleftrightarrow> length vs = length bs \<and> (\<forall>v \<in> set vs. v \<noteq> 0 \<and> rg_registered R v) \<and>
     (vs \<noteq> [] \<longrightarrow> sum_list (map unat bs) = 10000)"

definition vectors_ok :: "registry \<Rightarrow> 'x portfolio_router \<Rightarrow> bool" where
  "vectors_ok R s \<longleftrightarrow> vector_ok R (rt_weightVaultList s) (rt_weightBps s) \<and>
     vector_ok R (rt_defaultWeightVaultList s) (rt_defaultWeightBps s) \<and>
     (rt_votedWeightsActive s \<longleftrightarrow> rt_weightVaultList s \<noteq> [])"

lemma effective_vector_ok: "vectors_ok R s \<Longrightarrow> getEffectiveWeights s = (vs, bs) \<Longrightarrow> vector_ok R vs bs"
  by (auto simp: vectors_ok_def getEffectiveWeights_def getWeights_def getDefaultWeights_def split: if_splits)

text \<open>The weight vectors, and what the other calls leave of them.\<close>

definition same_vectors :: "'x portfolio_router \<Rightarrow> 'x portfolio_router \<Rightarrow> bool" where
  "same_vectors s t \<longleftrightarrow> getWeights t = getWeights s \<and> getDefaultWeights t = getDefaultWeights s \<and>
     rt_votedWeightsActive t = rt_votedWeightsActive s \<and> rt_vaultCap t = rt_vaultCap s"

interpretation sw: effect_discipline same_vectors
  by unfold_locales (auto simp: same_vectors_def)

lemma rt_call_vectors [simp]: "obeys same_vectors (rt_call f)"
  unfolding rt_call_def by (rule sw.obeys_call_outside) (simp add: same_vectors_def getWeights_def getDefaultWeights_def)

lemma rt_emit_vectors [simp]: "obeys same_vectors (rt_emit e)"
  by (auto simp: obeys_def rt_emit_def modifyM_def same_vectors_def getWeights_def getDefaultWeights_def)

lemma requireRouterEligible_vectors [simp]: "obeys same_vectors (requireRouterEligible X C R v)"
  unfolding requireRouterEligible_def by (intro sw.obeys_bindM) (auto split: sum.splits)

section \<open>Deposits\<close>

lemma rt_call_Inr_iff [io_simps]:
  "rt_call f s = (Inr r, t) \<longleftrightarrow> (\<exists>x. f (rt_outside s) = Inr (r, x) \<and> t = s\<lparr>rt_outside := x\<rparr>)"
  by (auto simp: rt_call_def call_outside_def split: sum.splits)

text \<open>
  What the outside sees of the legs: for each vault in turn, an approval of exactly the leg and the deposit of exactly the
  leg, from the router and for the receiver, which answers the shares.
\<close>

fun leg_calls ::
    "'x router_externals \<Rightarrow> router_code \<Rightarrow> address \<Rightarrow> (address \<times> u256) list \<Rightarrow> u256 list \<Rightarrow> 'x \<Rightarrow> 'x \<Rightarrow> bool" where
  "leg_calls X C rc [] [] x y \<longleftrightarrow> y = x"
| "leg_calls X C rc ((v, leg) # ls) (sh # shs) x y \<longleftrightarrow>
     (\<exists>x1 x2. px_force_approve X (rt_usdc C) (rt_this C) v leg x = Inr ((), x1) \<and>
        px_vault_deposit X v (rt_this C) leg rc x1 = Inr (sh, x2) \<and> leg_calls X C rc ls shs x2 y)"
| "leg_calls X C rc _ _ x y \<longleftrightarrow> False"

lemma execute_leg_Inr:
  assumes "execute_leg X C R rc v b leg mins s = (Inr sh, t)"
  shows "rg_registered R v \<and> rg_status R v = VaultActive \<and> isRouterEligible v R \<and> (rt_vaultCap s v = 0 \<or> leg \<le> rt_vaultCap s v) \<and>
    (mins \<noteq> [] \<longrightarrow> hd mins \<le> sh) \<and> rt_events t = rt_events s @ [RouterDepositEvent rc v leg sh b] \<and> same_vectors s t \<and>
    (\<exists>x. px_force_approve X (rt_usdc C) (rt_this C) v leg (rt_outside s) = Inr ((), x) \<and>
       px_vault_deposit X v (rt_this C) leg rc x = Inr (sh, rt_outside t))"
proof -
  have "obeys same_vectors (execute_leg X C R rc v b leg mins)"
    unfolding execute_leg_def registered_vault_def
    by (intro sw.obeys_bindM sw.obeys_intros rt_call_vectors rt_emit_vectors requireRouterEligible_vectors)
      (auto simp: split_beta intro!: sw.obeys_bindM)
  from sw.obeysD [OF this assms] show ?thesis
    using assms
    by (auto simp: execute_leg_def rt_emit_def io_simps not_less)
qed

lemma zip_drop_middle:
  "length vs = length bs \<Longrightarrow> length bs = length ls \<Longrightarrow> map (\<lambda>(v, b, leg). (v, leg)) (zip vs (zip bs ls)) = zip vs ls"
  by (induction vs bs ls rule: list_induct3) simp_all

lemma execute_legs_Inr:
  "execute_legs X C R rc ls mins s = (Inr shs, t) \<Longrightarrow> mins = [] \<or> length mins = length ls \<Longrightarrow>
     length shs = length ls \<and> same_vectors s t \<and>
     rt_events t = rt_events s @ map (\<lambda>((v, b, leg), sh). RouterDepositEvent rc v leg sh b) (zip ls shs) \<and>
     leg_calls X C rc (map (\<lambda>(v, b, leg). (v, leg)) ls) shs (rt_outside s) (rt_outside t) \<and>
     (mins \<noteq> [] \<longrightarrow> list_all2 (\<le>) mins shs) \<and>
     (\<forall>(v, b, leg) \<in> set ls. rg_registered R v \<and> rg_status R v = VaultActive \<and> isRouterEligible v R \<and>
        (rt_vaultCap s v = 0 \<or> leg \<le> rt_vaultCap s v))"
proof (induction ls arbitrary: mins s shs)
  case Nil
  then show ?case by (auto simp: io_simps sw.discipline_refl)
next
  case (Cons l ls)
  obtain v b leg where l: "l = (v, b, leg)" by (cases l) auto
  obtain sh s1 shs' where 1: "execute_leg X C R rc v b leg mins s = (Inr sh, s1)"
    and 2: "execute_legs X C R rc ls (tl mins) s1 = (Inr shs', t)" and shs: "shs = sh # shs'"
    using Cons.prems(1) by (auto simp: l io_simps)
  have "tl mins = [] \<or> length (tl mins) = length ls" using Cons.prems(2) by auto
  note ih = Cons.IH [OF 2 this] and e = execute_leg_Inr [OF 1]
  have "same_vectors s t" using e ih sw.discipline_trans by blast
  moreover have "list_all2 (\<le>) mins shs" if "mins \<noteq> []"
  proof -
    obtain m ms where m: "mins = m # ms" using \<open>mins \<noteq> []\<close> by (cases mins) auto
    then have "ms = [] \<longrightarrow> ls = []" using Cons.prems(2) l by auto
    then show ?thesis using e ih by (cases "ms = []") (auto simp: m shs)
  qed
  moreover have "rt_vaultCap s1 = rt_vaultCap s" using e by (simp add: same_vectors_def)
  ultimately show ?case using e ih by (auto simp: l shs)
qed

lemma leg_amounts_Inr:
  "leg_amounts amt bs acc s = (Inr (legs, tot), t) \<Longrightarrow>
     t = s \<and> map unat legs = map (\<lambda>b. unat amt * unat b div 10000) bs \<and> unat tot = unat acc + sum_list (map unat legs)"
proof (induction bs arbitrary: acc legs)
  case (Cons b bs)
  let ?f = "(amt * b) div RT_BPS_DENOMINATOR"
  obtain ls where m: "unat amt * unat b < 2 ^ 256" and a: "unat acc + unat ?f < 2 ^ 256"
    and rest: "leg_amounts amt bs (acc + ?f) s = (Inr (ls, tot), t)" and legs: "legs = ?f # ls"
    using Cons.prems by (auto simp: io_simps)
  have "unat ?f = unat amt * unat b div 10000" using m by (simp add: unat_div unat_checked_mul RT_BPS_DENOMINATOR_def)
  then show ?case using Cons.IH [OF rest] a by (simp add: legs unat_checked)
qed (simp add: io_simps)

text \<open>The parts of an amount, rounded down, leave less than one unit per leg.\<close>

lemma floors_bounds:
  assumes "sum_list bs = 10000"
  shows "sum_list (map (\<lambda>b. a * b div 10000) bs) \<le> a \<and> a < sum_list (map (\<lambda>b. a * b div 10000) bs) + length bs"
proof -
  have "10000 * sum_list (map (\<lambda>b. a * b div 10000) cs) \<le> a * sum_list cs \<and>
      a * sum_list cs \<le> 10000 * sum_list (map (\<lambda>b. a * b div 10000) cs) + 9999 * length cs" for cs :: "nat list"
  proof (induction cs)
    case (Cons c cs)
    have "10000 * (a * c div 10000) \<le> a * c" "a * c \<le> 10000 * (a * c div 10000) + 9999"
      using mod_less_divisor [of 10000 "a * c"] by (simp_all add: minus_mod_eq_mult_div [symmetric])
    then show ?case
      using Cons.IH unfolding list.map sum_list_simps distrib_left list.size by linarith
  qed simp
  from this [of bs] have "10000 * sum_list (map (\<lambda>b. a * b div 10000) bs) \<le> a * 10000"
    "a * 10000 \<le> 10000 * sum_list (map (\<lambda>b. a * b div 10000) bs) + 9999 * length bs" by (simp_all add: assms)
  moreover have "bs \<noteq> []" using assms by auto
  then have "0 < length bs" by simp
  ultimately show ?thesis by linarith
qed

lemma add_remainder_Inr:
  assumes "add_remainder amt legs allocated s = (Inr ls, t)" "unat allocated = sum_list (map unat legs)" "allocated \<le> amt" "legs \<noteq> []"
  shows "t = s \<and> map unat ls = (map unat legs)[length legs - 1 := unat (legs ! (length legs - 1)) + (unat amt - unat allocated)] \<and>
    sum_list (map unat ls) = unat amt"
proof -
  let ?n = "length legs - 1"
  have n: "?n < length legs" using assms(4) by (cases legs) auto
  have upd: "map unat ls = (map unat legs)[?n := unat (legs ! ?n) + (unat amt - unat allocated)]" and t: "t = s"
    using assms(1,3) n
    by (auto simp: add_remainder_def io_simps unat_checked map_update unat_sub word_less_nat_alt word_le_nat_alt list_update_id
        split: if_splits) (metis list_update_id length_map nth_map)
  moreover have "sum_list (map unat ls) + unat (legs ! ?n) = sum_list (map unat legs) + (unat (legs ! ?n) + (unat amt - unat allocated))"
    using n unfolding upd by (simp add: sum_list_update)
  ultimately show ?thesis using assms(2,3) by (simp add: word_le_nat_alt)
qed

lemma rt_depositTo_Inr:
  assumes "rt_depositTo X C R ctx rc amt mins s = (Inr shs, t)" "getEffectiveWeights s = (vs, bs)"
  shows "\<exists>legs allocated ls x s2. vs \<noteq> [] \<and> (rt_routerCap s = 0 \<or> amt \<le> rt_routerCap s) \<and> (mins = [] \<or> length mins = length vs) \<and>
    px_transfer_from X (rt_usdc C) (rt_this C) (msg_sender ctx) (rt_this C) amt (rt_outside s) = Inr ((), x) \<and>
    leg_amounts amt bs 0 (s\<lparr>rt_outside := x\<rparr>) = (Inr (legs, allocated), s\<lparr>rt_outside := x\<rparr>) \<and>
    add_remainder amt legs allocated (s\<lparr>rt_outside := x\<rparr>) = (Inr ls, s2) \<and>
    execute_legs X C R rc (zip vs (zip bs ls)) mins s2 = (Inr shs, t) \<and> px_balance_of X (rt_usdc C) (rt_this C) (rt_outside t) = 0"
proof -
  obtain x legs allocated s1 ls s2 where 1: "vs \<noteq> []" "rt_routerCap s = 0 \<or> amt \<le> rt_routerCap s" "mins = [] \<or> length mins = length vs"
      "px_transfer_from X (rt_usdc C) (rt_this C) (msg_sender ctx) (rt_this C) amt (rt_outside s) = Inr ((), x)"
    and 2: "leg_amounts amt bs 0 (s\<lparr>rt_outside := x\<rparr>) = (Inr (legs, allocated), s1)"
    and 3: "add_remainder amt legs allocated s1 = (Inr ls, s2)"
      "execute_legs X C R rc (zip vs (zip bs ls)) mins s2 = (Inr shs, t)" "px_balance_of X (rt_usdc C) (rt_this C) (rt_outside t) = 0"
    using assms by (auto simp: rt_depositTo_def executeLegs_def io_simps not_less)
  from leg_amounts_Inr [OF 2] have "s1 = s\<lparr>rt_outside := x\<rparr>" by simp
  then show ?thesis using 1 2 3 by blast
qed

lemma routed_legs:
  assumes v: "vectors_ok R s" and w: "getEffectiveWeights s = (vs, bs)"
    and d: "rt_depositTo X C R ctx rc amt mins s = (Inr shs, t)"
  obtains ls rest s2 where "vs \<noteq> []" "rest < length vs" "length ls = length vs"
    "map unat ls = (map (\<lambda>b. unat amt * unat b div 10000) bs)[length vs - 1 := unat amt * unat (last bs) div 10000 + rest]"
    "sum_list (map unat ls) = unat amt" "rt_events s2 = rt_events s" "same_vectors s s2"
    "execute_legs X C R rc (zip vs (zip bs ls)) mins s2 = (Inr shs, t)" "mins = [] \<or> length mins = length vs"
    "rt_routerCap s = 0 \<or> amt \<le> rt_routerCap s"
    "px_transfer_from X (rt_usdc C) (rt_this C) (msg_sender ctx) (rt_this C) amt (rt_outside s) = Inr ((), rt_outside s2)"
    "px_balance_of X (rt_usdc C) (rt_this C) (rt_outside t) = 0"
proof -
  obtain legs allocated ls x s2 where ne: "vs \<noteq> []" and m: "mins = [] \<or> length mins = length vs"
    "rt_routerCap s = 0 \<or> amt \<le> rt_routerCap s"
    "px_transfer_from X (rt_usdc C) (rt_this C) (msg_sender ctx) (rt_this C) amt (rt_outside s) = Inr ((), x)"
    and l: "leg_amounts amt bs 0 (s\<lparr>rt_outside := x\<rparr>) = (Inr (legs, allocated), s\<lparr>rt_outside := x\<rparr>)"
    and r: "add_remainder amt legs allocated (s\<lparr>rt_outside := x\<rparr>) = (Inr ls, s2)"
    and e: "execute_legs X C R rc (zip vs (zip bs ls)) mins s2 = (Inr shs, t)"
      "px_balance_of X (rt_usdc C) (rt_this C) (rt_outside t) = 0"
    using rt_depositTo_Inr [OF d w] by blast
  have len: "length vs = length bs" and sum: "sum_list (map unat bs) = 10000"
    using effective_vector_ok [OF v w] ne by (simp_all add: vector_ok_def)
  let ?fl = "map (\<lambda>b. unat amt * unat b div 10000) bs"
  have fl: "map unat legs = ?fl" and al: "unat allocated = sum_list ?fl" using leg_amounts_Inr [OF l] by simp_all
  have b: "sum_list ?fl \<le> unat amt" "unat amt < sum_list ?fl + length bs"
    using floors_bounds [OF sum, of "unat amt"] by (simp_all add: comp_def)
  have ll: "length legs = length bs" using arg_cong [OF fl, of length] by simp
  have bne: "bs \<noteq> []" "legs \<noteq> []" using ne len ll by auto
  have "unat (legs ! (length legs - 1)) = ?fl ! (length bs - 1)" using fl bne ll by (metis diff_less length_greater_0_conv nth_map zero_less_one)
  also have "\<dots> = unat amt * unat (last bs) div 10000" using bne by (simp add: last_conv_nth)
  finally have last: "unat (legs ! (length legs - 1)) = unat amt * unat (last bs) div 10000" .
  have "allocated \<le> amt" using al b by (simp add: word_le_nat_alt)
  moreover have "unat allocated = sum_list (map unat legs)" using al fl by simp
  ultimately have ar: "s2 = s\<lparr>rt_outside := x\<rparr> \<and>
      map unat ls = (map unat legs)[length legs - 1 := unat (legs ! (length legs - 1)) + (unat amt - unat allocated)] \<and>
      sum_list (map unat ls) = unat amt" using add_remainder_Inr [OF r] bne(2) by blast
  then have s2: "s2 = s\<lparr>rt_outside := x\<rparr>" and tot: "sum_list (map unat ls) = unat amt" by blast+
  have ls: "map unat ls = ?fl[length vs - 1 := unat amt * unat (last bs) div 10000 + (unat amt - unat allocated)]"
    using ar fl last ll len by simp
  have "unat amt - unat allocated < length vs" "length ls = length vs"
    using al b len arg_cong [OF ls, of length] by simp_all
  moreover have "rt_events s2 = rt_events s" "same_vectors s s2"
    by (simp_all add: s2 same_vectors_def getWeights_def getDefaultWeights_def)
  moreover have "px_transfer_from X (rt_usdc C) (rt_this C) (msg_sender ctx) (rt_this C) amt (rt_outside s) = Inr ((), rt_outside s2)"
    using m(3) by (simp add: s2)
  ultimately show ?thesis using that ne ls tot e m(1,2) by blast
qed

section \<open>Both contracts\<close>

record 'x portfolio =
  pf_registry :: registry
  pf_router :: "'x portfolio_router"

text \<open>What the registry sees of the outside: its role table, and the router modelled here at its own address.\<close>

definition registry_view :: "'x router_externals \<Rightarrow> router_code \<Rightarrow> 'x portfolio_router \<Rightarrow> registry_externals" where
  "registry_view X C s =
     \<lparr>rx_is_admin = px_registry_admin X (rt_outside s),
      rx_default_length = (\<lambda>a. if a = rt_this C then Inr (defaultWeightsLength s) else px_other_default_length X a (rt_outside s))\<rparr>"

datatype 'x pf_label =
    RegistryCall tx_ctx rg_call
  | RouterCall tx_ctx rt_entry_call
  | OutsideMoves 'x

fun pf_next :: "'x router_externals \<Rightarrow> router_code \<Rightarrow> 'x pf_label \<Rightarrow> 'x portfolio \<Rightarrow> 'x portfolio" where
  "pf_next X C (RegistryCall ctx c) s =
     s\<lparr>pf_registry := snd (rg_exec (registry_view X C (pf_router s)) ctx c (pf_registry s))\<rparr>"
| "pf_next X C (RouterCall ctx c) s = s\<lparr>pf_router := snd (rt_exec X C (pf_registry s) ctx c (pf_router s))\<rparr>"
| "pf_next X C (OutsideMoves x) s = s\<lparr>pf_router := (pf_router s)\<lparr>rt_outside := x\<rparr>\<rparr>"

abbreviation pf_run :: "'x router_externals \<Rightarrow> router_code \<Rightarrow> 'x pf_label list \<Rightarrow> 'x portfolio \<Rightarrow> 'x portfolio" where
  "pf_run X C \<equiv> fold (pf_next X C)"

definition blank_portfolio :: "'x \<Rightarrow> 'x portfolio" where
  "blank_portfolio x = \<lparr>pf_registry = blank_registry, pf_router = blank_router x\<rparr>"

lemma deposit_keeps_vectors [simp]: "obeys same_vectors (rt_depositTo X C R ctx rc amt mins)"
proof -
  have legs: "obeys same_vectors (execute_legs X C R rc ls ms)" for ls ms
    by (induction X C R rc ls ms rule: execute_legs.induct)
      (auto simp: execute_leg_def registered_vault_def split_beta intro!: sw.obeys_bindM)
  have am: "obeys same_vectors (leg_amounts amt bs acc)" for bs acc
    by (induction bs arbitrary: acc) (auto simp: split_beta intro!: sw.obeys_bindM)
  show ?thesis
    unfolding rt_depositTo_def executeLegs_def add_remainder_def
    by (auto simp: split_beta intro!: sw.obeys_bindM legs am)
qed

lemma other_entries_vectors:
  "obeys same_vectors (setRouterCap X ctx n)" "obeys same_vectors (rescueUsdc X C ctx a)"
  "obeys same_vectors (bindM (rt_deposit X C R ctx amt mins) (\<lambda>_. retM ()))"
  "obeys same_vectors (bindM (depositFor X C R ctx rc amt mins) (\<lambda>_. retM ()))"
  unfolding setRouterCap_def rescueUsdc_def rt_deposit_def depositFor_def rt_only_admin_def
  by (auto intro!: sw.obeys_bindM sw.obeys_modifyM simp: same_vectors_def getWeights_def getDefaultWeights_def)

text \<open>A call of the router that changes the vectors is one of the three that set or clear them.\<close>

lemma rt_entry_vectors:
  assumes "rt_entry X C R ctx c s = (Inr (), t)"
  shows "(getWeights t = getWeights s \<and> getDefaultWeights t = getDefaultWeights s \<and> rt_votedWeightsActive t = rt_votedWeightsActive s) \<or>
    (\<exists>vs bs. c = CallSetWeights vs bs) \<or> (\<exists>vs bs. c = CallSetDefaultWeights vs bs) \<or> c = CallClearVotedWeights"
proof (cases "obeys same_vectors (rt_entry X C R ctx c)")
  case True
  then show ?thesis using sw.obeysD [OF True assms] by (simp add: same_vectors_def)
next
  case False
  show ?thesis
  proof (cases c)
    case (CallSetVaultCap v n)
    then show ?thesis
      using assms by (auto simp: setVaultCap_def rt_only_admin_def rt_emit_def io_simps getWeights_def getDefaultWeights_def)
  qed (use False in \<open>simp_all add: other_entries_vectors\<close>)
qed

lemma rt_entry_vectors_ok:
  assumes "vectors_ok R s" "rt_entry X C R ctx c s = (Inr (), t)"
  shows "vectors_ok R t"
proof -
  have v: "vector_ok R vs bs" if "length vs = length bs" "sum_list (map unat bs) = 10000" "\<forall>v \<in> set vs. admitted X C R (rt_outside s) v" for vs bs
    using that by (auto simp: vector_ok_def admitted_def rt_isRouterEligible_iff)
  consider "getWeights t = getWeights s \<and> getDefaultWeights t = getDefaultWeights s \<and> rt_votedWeightsActive t = rt_votedWeightsActive s"
    | vs bs where "c = CallSetWeights vs bs" | vs bs where "c = CallSetDefaultWeights vs bs" | "c = CallClearVotedWeights"
    using rt_entry_vectors [OF assms(2)] by blast
  then show ?thesis
  proof cases
    case 1
    then show ?thesis using assms(1) by (simp add: vectors_ok_def getWeights_def getDefaultWeights_def)
  next
    case (2 vs bs)
    then have "setWeights X C R ctx vs bs s = (Inr (), t)" using assms(2) by simp
    then show ?thesis using assms(1) v [of vs bs] unfolding setWeights_iff by (auto simp: vectors_ok_def)
  next
    case (3 vs bs)
    then have "rt_setDefaultWeights X C R ctx vs bs s = (Inr (), t)" using assms(2) by simp
    then show ?thesis using assms(1) v [of vs bs] unfolding setDefaultWeights_iff by (auto simp: vectors_ok_def)
  next
    case 4
    then show ?thesis
      using assms by (auto simp: vectors_ok_def vector_ok_def rt_clearVotedWeights_def rt_only_admin_def rt_emit_def io_simps)
  qed
qed

lemma rt_exec_cases:
  assumes "rt_exec X C R ctx c s = (r, t)"
  obtains "t = s" "\<And>u. r \<noteq> Inr u" | "r = Inr ()" "rt_entry X C R ctx c s = (Inr (), t)"
proof (cases r)
  case (Inl e)
  then have "t = s" using assms transact_Inl unfolding rt_exec_def by metis
  then show ?thesis using that(1) Inl by simp
next
  case (Inr u)
  then show ?thesis using that(2) assms by (simp add: rt_exec_def transact_Inr)
qed

lemma vectors_ok_registered:
  "vectors_ok R s \<Longrightarrow> (\<And>v. rg_registered R v \<Longrightarrow> rg_registered R' v) \<Longrightarrow> vectors_ok R' s"
  by (auto simp: vectors_ok_def vector_ok_def)

definition portfolio_ok :: "'x portfolio \<Rightarrow> bool" where
  "portfolio_ok s \<longleftrightarrow> registry_ok (pf_registry s) \<and> vectors_ok (pf_registry s) (pf_router s)"

lemma pf_next_ok:
  assumes "portfolio_ok s"
  shows "portfolio_ok (pf_next X C l s)"
proof (cases l)
  case (RegistryCall ctx c)
  let ?X = "registry_view X C (pf_router s)"
  obtain r g where g: "rg_exec ?X ctx c (pf_registry s) = (r, g)" by fastforce
  have "vectors_ok g (pf_router s)"
    using assms rg_exec_registered [OF g] by (auto simp: portfolio_ok_def intro: vectors_ok_registered)
  then show ?thesis using assms rg_exec_ok [OF _ g] by (simp add: portfolio_ok_def RegistryCall g)
next
  case (RouterCall ctx c)
  obtain r t where t: "rt_exec X C (pf_registry s) ctx c (pf_router s) = (r, t)" by fastforce
  from t have "vectors_ok (pf_registry s) t"
    by (rule rt_exec_cases) (use assms rt_entry_vectors_ok in \<open>auto simp: portfolio_ok_def\<close>)
  then show ?thesis using assms by (simp add: portfolio_ok_def RouterCall t)
next
  case (OutsideMoves x)
  then show ?thesis using assms by (simp add: portfolio_ok_def vectors_ok_def)
qed

lemma pf_run_ok: "portfolio_ok s \<Longrightarrow> portfolio_ok (pf_run X C ls s)"
  by (induction ls arbitrary: s) (simp_all add: pf_next_ok)

text \<open>Both constructors, when they succeed, leave the empty storage.\<close>

lemma deployed_portfolio_ok:
  assumes "registry_new a = Inr g" "router_new u r b x = Inr t"
  shows "portfolio_ok \<lparr>pf_registry = g, pf_router = t\<rparr>"
proof -
  have "g = blank_registry" "t = blank_router x" using assms by (auto simp: registry_new_def router_new_def split: if_splits)
  then show ?thesis by (simp add: portfolio_ok_def blank_registry_ok vectors_ok_def vector_ok_def blank_router_def)
qed

lemma blank_portfolio_ok: "portfolio_ok (blank_portfolio x)"
  using deployed_portfolio_ok [of 1 blank_registry 1 1 1 x "blank_router x"]
  by (simp add: blank_portfolio_def registry_new_def router_new_def)

section \<open>A default vector freezes eligibility\<close>

definition pinned_default :: "router_code \<Rightarrow> 'x portfolio \<Rightarrow> bool" where
  "pinned_default C s \<longleftrightarrow>
     rg_router (pf_registry s) = rt_this C \<and> rt_this C \<noteq> 0 \<and> rt_defaultWeightVaultList (pf_router s) \<noteq> [] \<and>
     length (rt_defaultWeightVaultList (pf_router s)) = unat (rg_routerEligibleCount (pf_registry s))"

lemma pinned_length:
  assumes "pinned_default C s"
  shows "rx_default_length (registry_view X C (pf_router s)) (rg_router (pf_registry s)) = Inr (rg_routerEligibleCount (pf_registry s))"
    "rg_routerEligibleCount (pf_registry s) \<noteq> 0"
  using assms by (auto simp: pinned_default_def registry_view_def defaultWeightsLength_def)

lemma setRouterEligible_pinned:
  assumes "pinned_default C s" and "portfolio_ok s" and "rg_registered (pf_registry s) v" and "rg_routerEligible (pf_registry s) v \<noteq> b"
    and "px_registry_admin X (rt_outside (pf_router s)) (msg_sender ctx)"
  shows "\<exists>n. rg_exec (registry_view X C (pf_router s)) ctx (SetRouterEligible v b) (pf_registry s) =
    (Inl (StaleDefaultWeightsLength n (rg_routerEligibleCount (pf_registry s))), pf_registry s)"
proof -
  let ?R = "pf_registry s" and ?n = "rg_routerEligibleCount (pf_registry s)"
  note n = pinned_length(1) [OF assms(1), of X] pinned_length(2) [OF assms(1)]
  have r: "rg_router ?R \<noteq> 0" using assms(1) by (simp add: pinned_default_def)
  have "unat ?n \<le> card (UNIV :: address set)"
    using assms(2) by (auto simp: portfolio_ok_def registry_ok_def intro: card_mono)
  also have "\<dots> < 2 ^ 256 - 1" by (simp add: card_word)
  finally have small: "unat ?n + 1 < 2 ^ 256" by simp
  have "\<exists>m. (if b then checked_add RgPanic ?n 1 else checked_sub RgPanic ?n 1) ?R = (Inr m, ?R) \<and> m \<noteq> ?n"
  proof -
    have "1 \<le> ?n" using n(2) by (simp add: word_le_nat_alt Suc_le_eq unat_gt_0)
    then show ?thesis using small by (simp add: checked_add_def checked_sub_def io_eval)
  qed
  then obtain m where m: "(if b then checked_add RgPanic ?n 1 else checked_sub RgPanic ?n 1) ?R = (Inr m, ?R)" "m \<noteq> ?n" by blast
  have "setRouterEligible (registry_view X C (pf_router s)) ctx v b ?R = (Inl (StaleDefaultWeightsLength m ?n), ?R)"
    using assms(3-5) m n r
    by (simp add: setRouterEligible_def rg_only_admin_def registry_view_def check_default_length_def default_length_def io_eval
        getM_def refuse_if_def map_err_def split del: if_split)
  then show ?thesis by (auto simp: rg_exec_def transact_def)
qed

text \<open>Calls that do not link the registry to another router.\<close>

fun keeps_link :: "router_code \<Rightarrow> 'x pf_label \<Rightarrow> bool" where
  "keeps_link C (RegistryCall _ (SetRouter r)) \<longleftrightarrow> r = 0 \<or> r = rt_this C"
| "keeps_link C _ \<longleftrightarrow> True"

definition same_eligibility :: "registry \<Rightarrow> registry \<Rightarrow> bool" where
  "same_eligibility R R' \<longleftrightarrow>
     rg_routerEligible R' = rg_routerEligible R \<and> rg_routerEligibleCount R' = rg_routerEligibleCount R \<and> rg_router R' = rg_router R"

lemma setRouter_pinned:
  assumes "pinned_default C s" "r = 0 \<or> r = rt_this C"
    and "setRouter (registry_view X C (pf_router s)) ctx r (pf_registry s) = (Inr u, g)"
  shows "same_eligibility (pf_registry s) g"
proof -
  have "r \<noteq> 0"
    using assms(1,3) pinned_length(1) [OF assms(1), of X] pinned_length(2) [OF assms(1)]
    by (auto simp: setRouter_def rg_only_admin_def default_length_def io_simps map_err_def pinned_default_def)
  then show ?thesis
    using assms by (auto simp: setRouter_def rg_only_admin_def rg_emit_def io_simps same_eligibility_def pinned_default_def)
qed

lemma registry_pinned:
  assumes "pinned_default C s" "portfolio_ok s" "keeps_link C (RegistryCall ctx c)"
    and "rg_exec (registry_view X C (pf_router s)) ctx c (pf_registry s) = (r, g)"
  shows "same_eligibility (pf_registry s) g"
proof (cases r)
  case (Inl e)
  then have "g = pf_registry s" using assms(4) transact_Inl unfolding rg_exec_def by metis
  then show ?thesis by (simp add: same_eligibility_def)
next
  case (Inr u)
  let ?V = "registry_view X C (pf_router s)"
  have e: "rg_entry ?V ctx c (pf_registry s) = (Inr (), g)" using assms(4) Inr by (simp add: rg_exec_def transact_Inr)
  show ?thesis
  proof (cases c)
    case (RegisterVault w m)
    then show ?thesis using e registerVault_Inr [of ?V ctx w m "pf_registry s" "()" g] by (simp add: same_eligibility_def)
  next
    case (SetVaultStatus w st)
    then show ?thesis
      using e other_calls_catalogue(1) [of ?V ctx w st "pf_registry s" "()" g] by (simp add: same_eligibility_def same_catalogue_def)
  next
    case (SetRouterEligible v b)
    have "rg_routerEligible (pf_registry s) v = b"
    proof (rule ccontr)
      assume new: "rg_routerEligible (pf_registry s) v \<noteq> b"
      have "rg_registered (pf_registry s) v" "px_registry_admin X (rt_outside (pf_router s)) (msg_sender ctx)"
        using e SetRouterEligible by (auto simp: setRouterEligible_def rg_only_admin_def registry_view_def io_simps)
      from setRouterEligible_pinned [OF assms(1,2) this(1) new this(2)] show False using assms(4) Inr SetRouterEligible by auto
    qed
    then show ?thesis
      using e SetRouterEligible by (auto simp: setRouterEligible_def rg_only_admin_def rg_emit_def io_simps same_eligibility_def)
  next
    case (SetRouter a)
    then show ?thesis using e assms(3) setRouter_pinned [OF assms(1), of a X ctx "()" g] by simp
  qed
qed

lemma router_pinned:
  assumes "pinned_default C s" "rt_exec X C (pf_registry s) ctx c (pf_router s) = (r, t)"
  shows "pinned_default C (s\<lparr>pf_router := t\<rparr>)"
  using assms(2)
proof (rule rt_exec_cases)
  assume "t = pf_router s"
  then show ?thesis using assms(1) by simp
next
  assume e: "rt_entry X C (pf_registry s) ctx c (pf_router s) = (Inr (), t)"
  consider "getDefaultWeights t = getDefaultWeights (pf_router s)" | vs bs where "c = CallSetWeights vs bs"
    | vs bs where "c = CallSetDefaultWeights vs bs" | "c = CallClearVotedWeights"
    using rt_entry_vectors [OF e] by blast
  then show ?thesis
  proof cases
    case 1
    then show ?thesis using assms(1) by (simp add: pinned_default_def getDefaultWeights_def)
  next
    case (2 vs bs)
    then show ?thesis using assms(1) e by (simp add: setWeights_iff pinned_default_def)
  next
    case (3 vs bs)
    then show ?thesis using assms(1) e by (auto simp: setDefaultWeights_iff pinned_default_def)
  next
    case 4
    then show ?thesis
      using assms(1) e by (auto simp: pinned_default_def rt_clearVotedWeights_def rt_only_admin_def rt_emit_def io_simps)
  qed
qed

lemma pf_next_pinned:
  assumes "pinned_default C s" "portfolio_ok s" "keeps_link C l"
  shows "pinned_default C (pf_next X C l s) \<and> same_eligibility (pf_registry s) (pf_registry (pf_next X C l s))"
proof (cases l)
  case (RegistryCall ctx c)
  obtain r g where g: "rg_exec (registry_view X C (pf_router s)) ctx c (pf_registry s) = (r, g)" by fastforce
  from registry_pinned [OF assms(1,2) assms(3) [unfolded RegistryCall] g] show ?thesis
    using assms(1) by (simp add: RegistryCall g pinned_default_def same_eligibility_def)
next
  case (RouterCall ctx c)
  obtain r t where t: "rt_exec X C (pf_registry s) ctx c (pf_router s) = (r, t)" by fastforce
  then show ?thesis using router_pinned [OF assms(1) t] by (simp add: RouterCall same_eligibility_def)
next
  case (OutsideMoves x)
  then show ?thesis using assms(1) by (simp add: pinned_default_def same_eligibility_def)
qed

lemma pf_run_pinned:
  assumes "pinned_default C s" "portfolio_ok s" "\<forall>l \<in> set ls. keeps_link C l"
  shows "pinned_default C (pf_run X C ls s) \<and> same_eligibility (pf_registry s) (pf_registry (pf_run X C ls s))"
  using assms
proof (induction ls arbitrary: s)
  case (Cons l ls)
  let ?t = "pf_next X C l s"
  have "pinned_default C ?t" "same_eligibility (pf_registry s) (pf_registry ?t)" "portfolio_ok ?t"
    using pf_next_pinned [OF Cons.prems(1,2)] Cons.prems(2,3) pf_next_ok by auto
  then show ?case using Cons.IH [of ?t] Cons.prems(3) by (simp add: same_eligibility_def)
qed (simp add: same_eligibility_def)

section \<open>A demonstration\<close>

text \<open>
  The outside is the router's own USDC balance: the token credits it, a vault that gets a deposit takes the amount from it and
  mints as many shares. Every account is an administrator; the contracts 3 and 13 are vaults of token 50.
\<close>

definition demo_px :: "u256 router_externals" where
  "demo_px =
     \<lparr>px_is_admin = (\<lambda>_ _. True), px_has_code = (\<lambda>v _. v \<in> {3, 13}), px_asset = (\<lambda>_ _. Inr 50), px_balance_of = (\<lambda>_ _ x. x),
      px_transfer = (\<lambda>_ _ _ n x. Inr ((), x - n)), px_transfer_from = (\<lambda>_ _ _ _ n x. Inr ((), x + n)),
      px_force_approve = (\<lambda>_ _ _ _ x. Inr ((), x)), px_preview_deposit = (\<lambda>_ n _. Inr n),
      px_vault_deposit = (\<lambda>_ _ n _ x. Inr (n, x - n)), px_registry_admin = (\<lambda>_ _. True),
      px_other_default_length = (\<lambda>_ _. Inl ''no code'')\<rparr>"

definition demo_rt_code :: router_code where "demo_rt_code = \<lparr>rt_this = 70, rt_usdc = 50\<rparr>"

definition demo_rt_tx :: tx_ctx where
  "demo_rt_tx = \<lparr>msg_sender = 100, block_timestamp = 1000, block_number = 1, block_chainid = 31337\<rparr>"

definition demo_meta :: VaultMetadata where "demo_meta = \<lparr>vm_name = ''USDC'', vm_asset = 50, vm_registeredAt = 0\<rparr>"

definition demo_listing :: "u256 pf_label list" where
  "demo_listing = map (RegistryCall demo_rt_tx)
     [RegisterVault 3 demo_meta, RegisterVault 13 demo_meta, SetRouterEligible 3 True, SetRouterEligible 13 True, SetRouter 70]"

definition demo_pf0 :: "u256 portfolio" where
  "demo_pf0 = pf_run demo_px demo_rt_code demo_listing (blank_portfolio 0)"

lemma demo_pf0_ok: "portfolio_ok demo_pf0"
  unfolding demo_pf0_def by (rule pf_run_ok [OF blank_portfolio_ok])

lemma demo_pf0_eval:
  "rg_registered (pf_registry demo_pf0) v \<longleftrightarrow> v \<in> {3, 13}" "rg_routerEligible (pf_registry demo_pf0) v \<longleftrightarrow> v \<in> {3, 13}"
  "rg_routerEligibleCount (pf_registry demo_pf0) = 2" "rg_router (pf_registry demo_pf0) = 70"
  "rg_status (pf_registry demo_pf0) v = VaultActive" "pf_router demo_pf0 = blank_router 0"
  by (auto simp: demo_pf0_def demo_listing_def blank_portfolio_def blank_registry_def rg_exec_def transact_def registerVault_def
      setRouterEligible_def setRouter_def check_default_length_def rg_only_admin_def rg_emit_def registry_view_def demo_px_def
      checked_add_def io_eval)

definition demo_weighted :: "address list \<Rightarrow> u256 list \<Rightarrow> u256 portfolio_router" where
  "demo_weighted vs bs = (blank_router 0)\<lparr>rt_defaultWeightVaultList := vs, rt_defaultWeightBps := bs,
     rt_events := [DefaultWeightsSet vs bs]\<rparr>"

lemma demo_default_set:
  assumes "set vs \<subseteq> {3, 13}" "length vs = 2" "length bs = 2" "sum_list (map unat bs) = 10000"
  shows "rt_exec demo_px demo_rt_code (pf_registry demo_pf0) demo_rt_tx (CallSetDefaultWeights vs bs) (pf_router demo_pf0) =
    (Inr (), demo_weighted vs bs)"
proof -
  have "admitted demo_px demo_rt_code (pf_registry demo_pf0) 0 v" if "v \<in> set vs" for v
    using assms(1) that
    by (auto simp: admitted_def rt_isRouterEligible_iff isRouterEligible_def demo_pf0_eval demo_px_def demo_rt_code_def)
  then have "rt_setDefaultWeights demo_px demo_rt_code (pf_registry demo_pf0) demo_rt_tx vs bs (pf_router demo_pf0) =
      (Inr (), demo_weighted vs bs)"
    using assms by (simp add: setDefaultWeights_iff demo_pf0_eval demo_weighted_def) (simp add: blank_router_def demo_px_def)
  then show ?thesis by (simp add: rt_exec_def transact_def)
qed

section \<open>Properties\<close>

text \<open>
  C18. After any calls of the two contracts and any moves of the outside, in any order: the registered vaults are listed once and
  never zero, only registered vaults are eligible and the counter counts them; both weight vectors name registered vaults
  and, unless empty, sum to 10000 basis points, and the voted vector is in force exactly when it is not empty.
\<close>
theorem portfolio_invariant:
  assumes "registry_new a = Inr g" and "router_new u r b x = Inr t"
  shows "let p = pf_run X C ls \<lparr>pf_registry = g, pf_router = t\<rparr> in
    registry_ok (pf_registry p) \<and> vectors_ok (pf_registry p) (pf_router p)"
  using pf_run_ok [OF deployed_portfolio_ok [OF assms]] unfolding portfolio_ok_def Let_def .

theorem portfolio_invariant_witness:
  "registry_ok (pf_registry demo_pf0) \<and> vectors_ok (pf_registry demo_pf0) (pf_router demo_pf0)"
  using portfolio_invariant [of 100 blank_registry 50 60 100 0 "blank_router 0" demo_px demo_rt_code demo_listing]
  by (simp add: registry_new_def router_new_def demo_pf0_def blank_portfolio_def Let_def)

text \<open>
  C15. A deposit through the router that succeeds is split over the vector in force without loss: every leg is its share rounded
  down, except that the last also gets the remainder, which is less than the number of legs; the legs sum to the amount; one
  event per leg, in order, names the vault, the leg and the shares minted; each vault is active and eligible, its leg within
  its cap and its shares above the minimum asked for, and the amount within the cap of the router; the calls made on the token
  and the vaults are exactly the transfer of the amount from the sender and then, vault by vault, the approval and the deposit
  of the leg for the receiver; and the router holds no USDC afterwards.
\<close>
theorem routed_deposit_exact:
  assumes "vectors_ok R s" and "getEffectiveWeights s = (vs, bs)" and "rt_depositTo X C R ctx receiver amt mins s = (Inr shs, t)"
  shows "\<exists>legs rest. rest < length vs \<and>
    map unat legs = (map (\<lambda>b. unat amt * unat b div 10000) bs)[length vs - 1 := unat amt * unat (last bs) div 10000 + rest] \<and>
    sum_list (map unat legs) = unat amt \<and>
    rt_events t = rt_events s @ map (\<lambda>((v, b, leg), sh). RouterDepositEvent receiver v leg sh b) (zip (zip vs (zip bs legs)) shs) \<and>
    length shs = length vs \<and> (mins \<noteq> [] \<longrightarrow> list_all2 (\<le>) mins shs) \<and>
    (\<forall>(v, b, leg) \<in> set (zip vs (zip bs legs)). rg_status R v = VaultActive \<and> isRouterEligible v R \<and>
       (rt_vaultCap s v = 0 \<or> leg \<le> rt_vaultCap s v)) \<and>
    (rt_routerCap s = 0 \<or> amt \<le> rt_routerCap s) \<and>
    (\<exists>x. px_transfer_from X (rt_usdc C) (rt_this C) (msg_sender ctx) (rt_this C) amt (rt_outside s) = Inr ((), x) \<and>
       leg_calls X C receiver (zip vs legs) shs x (rt_outside t)) \<and>
    px_balance_of X (rt_usdc C) (rt_this C) (rt_outside t) = 0"
proof (rule routed_legs [OF assms])
  fix ls rest s2
  assume l: "vs \<noteq> []" "rest < length vs" "length ls = length vs"
    "map unat ls = (map (\<lambda>b. unat amt * unat b div 10000) bs)[length vs - 1 := unat amt * unat (last bs) div 10000 + rest]"
    "sum_list (map unat ls) = unat amt" "rt_events s2 = rt_events s" "same_vectors s s2"
    and e: "execute_legs X C R receiver (zip vs (zip bs ls)) mins s2 = (Inr shs, t)" and m: "mins = [] \<or> length mins = length vs"
    and b: "rt_routerCap s = 0 \<or> amt \<le> rt_routerCap s"
      "px_transfer_from X (rt_usdc C) (rt_this C) (msg_sender ctx) (rt_this C) amt (rt_outside s) = Inr ((), rt_outside s2)"
      "px_balance_of X (rt_usdc C) (rt_this C) (rt_outside t) = 0"
  have len: "length vs = length bs" "length bs = length ls"
    using effective_vector_ok [OF assms(1,2)] l(3) by (simp_all add: vector_ok_def)
  note legs = zip_drop_middle [OF len]
  have n: "length (zip vs (zip bs ls)) = length vs" using len by simp
  have cap: "rt_vaultCap s2 = rt_vaultCap s" using l(7) by (simp add: same_vectors_def)
  note x = execute_legs_Inr [OF e, unfolded legs n cap l(6), OF m]
  show ?thesis
  proof (intro exI [of _ ls] exI [of _ rest] conjI)
    show "\<exists>x. px_transfer_from X (rt_usdc C) (rt_this C) (msg_sender ctx) (rt_this C) amt (rt_outside s) = Inr ((), x) \<and>
        leg_calls X C receiver (zip vs ls) shs x (rt_outside t)"
      by (intro exI [of _ "rt_outside s2"] conjI b(2)) (insert x, elim conjE, assumption)
    show "\<forall>(v, b, leg) \<in> set (zip vs (zip bs ls)). rg_status R v = VaultActive \<and> isRouterEligible v R \<and>
        (rt_vaultCap s v = 0 \<or> leg \<le> rt_vaultCap s v)"
      using x by fastforce
  qed (insert x l(2,4,5) b(1,3), (elim conjE, assumption)+)
qed

theorem routed_deposit_exact_witness:
  "\<exists>t. rt_depositTo demo_px demo_rt_code (pf_registry demo_pf0) demo_rt_tx 9 11 [] (demo_weighted [3, 13] [3333, 6667]) = (Inr [3, 8], t) \<and>
     (\<exists>a b. rt_events t = [DefaultWeightsSet [3, 13] [3333, 6667], RouterDepositEvent 9 3 a 3 3333, RouterDepositEvent 9 13 b 8 6667] \<and>
        unat a + unat b = 11)"
proof -
  let ?s = "demo_weighted [3, 13] [3333, 6667]" and ?R = "pf_registry demo_pf0"
  have ok: "vectors_ok ?R ?s"
    by (simp add: vectors_ok_def vector_ok_def demo_weighted_def blank_router_def demo_pf0_eval)
  have w: "getEffectiveWeights ?s = ([3, 13], [3333, 6667])"
    by (simp add: getEffectiveWeights_def getDefaultWeights_def demo_weighted_def blank_router_def)
  obtain t where t: "rt_depositTo demo_px demo_rt_code ?R demo_rt_tx 9 11 [] ?s = (Inr [3, 8], t)"
    by (simp add: rt_depositTo_def getEffectiveWeights_def getDefaultWeights_def executeLegs_def execute_leg_def registered_vault_def getVault_def requireRouterEligible_def
        isRouterEligible_def add_remainder_def demo_pf0_eval demo_px_def demo_rt_code_def demo_weighted_def blank_router_def rt_call_def
        call_outside_def rt_emit_def checked_mul_def checked_add_def checked_sub_def RT_BPS_DENOMINATOR_def map_err_def io_eval)
  have "\<exists>a b. rt_events t = rt_events ?s @ [RouterDepositEvent 9 3 a 3 3333, RouterDepositEvent 9 13 b 8 6667] \<and> unat a + unat b = 11"
    using routed_deposit_exact [OF ok w t] by auto
  then have "\<exists>a b. rt_events t = [DefaultWeightsSet [3, 13] [3333, 6667], RouterDepositEvent 9 3 a 3 3333,
      RouterDepositEvent 9 13 b 8 6667] \<and> unat a + unat b = 11" by (simp add: demo_weighted_def)
  then show ?thesis using t by blast
qed

text \<open>
  C19. Once a default vector is set on a router the registry is linked to, the eligible vaults stay as they are: whatever is
  called afterwards, short of linking the registry to another contract, every attempt of an administrator to change the
  eligibility of a vault reverts with \<open>StaleDefaultWeightsLength\<close>. The vector has to have the length of the eligible set
  before and after the change, and neither contract offers a way to shorten, lengthen or clear it.
\<close>
theorem eligibility_frozen:
  assumes "portfolio_ok s" and "rg_router (pf_registry s) = rt_this C" and "rt_this C \<noteq> 0"
    and "rt_exec X C (pf_registry s) ctx (CallSetDefaultWeights vs bs) (pf_router s) = (Inr (), t)"
    and "\<forall>l \<in> set ls. keeps_link C l"
  defines "s' \<equiv> pf_run X C ls (s\<lparr>pf_router := t\<rparr>)"
  shows "rg_routerEligible (pf_registry s') = rg_routerEligible (pf_registry s) \<and>
    (\<forall>ctx v b. px_registry_admin X (rt_outside (pf_router s')) (msg_sender ctx) \<and> rg_registered (pf_registry s') v \<and>
       rg_routerEligible (pf_registry s') v \<noteq> b \<longrightarrow>
       (\<exists>n. rg_exec (registry_view X C (pf_router s')) ctx (SetRouterEligible v b) (pf_registry s') =
          (Inl (StaleDefaultWeightsLength n (rg_routerEligibleCount (pf_registry s'))), pf_registry s')))"
proof -
  let ?s1 = "s\<lparr>pf_router := t\<rparr>"
  have "rt_setDefaultWeights X C (pf_registry s) ctx vs bs (pf_router s) = (Inr (), t)"
    using assms(4) by (simp add: rt_exec_def transact_Inr)
  then have "pinned_default C ?s1" using assms(2,3) by (auto simp: setDefaultWeights_iff pinned_default_def)
  moreover have ok: "portfolio_ok ?s1" using pf_next_ok [OF assms(1), of X C "RouterCall ctx (CallSetDefaultWeights vs bs)"] assms(4) by simp
  ultimately have run: "pinned_default C s' \<and> same_eligibility (pf_registry ?s1) (pf_registry s')"
    unfolding s'_def using assms(5) by (rule pf_run_pinned)
  have "portfolio_ok s'" unfolding s'_def by (rule pf_run_ok [OF ok])
  then show ?thesis using run setRouterEligible_pinned [of C s'] by (auto simp: same_eligibility_def)
qed

theorem eligibility_frozen_witness:
  "\<exists>n. rg_exec (registry_view demo_px demo_rt_code (demo_weighted [3, 13] [4000, 6000])) demo_rt_tx (SetRouterEligible 13 False)
     (pf_registry demo_pf0) = (Inl (StaleDefaultWeightsLength n 2), pf_registry demo_pf0)"
proof -
  have "rt_exec demo_px demo_rt_code (pf_registry demo_pf0) demo_rt_tx (CallSetDefaultWeights [3, 13] [4000, 6000]) (pf_router demo_pf0) =
      (Inr (), demo_weighted [3, 13] [4000, 6000])" by (rule demo_default_set) simp_all
  note f = eligibility_frozen [OF demo_pf0_ok _ _ this, of "[]"]
  have "rg_router (pf_registry demo_pf0) = rt_this demo_rt_code" "rt_this demo_rt_code \<noteq> 0"
    by (simp_all add: demo_pf0_eval demo_rt_code_def)
  from conjunct2 [OF f [OF this], rule_format, of demo_rt_tx 13 False] show ?thesis
    by (simp add: demo_pf0_eval) (simp add: demo_px_def)
qed

text \<open>
  The length rule does not make the default vector span the eligible vaults: a vector that names one vault twice passes, and
  the other eligible vault gets nothing. A vector without repetition of the required length does span them
  (\<open>catalogue.spans_eligible\<close>).
\<close>
theorem default_may_miss_vault:
  "rt_exec demo_px demo_rt_code (pf_registry demo_pf0) demo_rt_tx (CallSetDefaultWeights [3, 3] [4000, 6000]) (pf_router demo_pf0) =
     (Inr (), demo_weighted [3, 3] [4000, 6000]) \<and> isRouterEligible 13 (pf_registry demo_pf0)"
  using demo_default_set [of "[3, 3]" "[4000, 6000]"] by (simp add: demo_pf0_eval isRouterEligible_def)

text \<open>A default vector without repetition names exactly the eligible vaults at the time it is set.\<close>

theorem distinct_default_spans:
  assumes "registry_ok R" and "rt_setDefaultWeights X C R ctx vs bs s = (Inr (), t)" and "distinct vs"
  shows "set (fst (getDefaultWeights t)) = {v. isRouterEligible v R}"
proof -
  have "\<forall>v \<in> set vs. isRouterEligible v R" "length vs = unat (rg_routerEligibleCount R)" "fst (getDefaultWeights t) = vs"
    using assms(2) by (auto simp: setDefaultWeights_iff admitted_def rt_isRouterEligible_iff getDefaultWeights_def)
  then show ?thesis using catalogue.spans_eligible [OF assms(1,3)] by simp
qed

theorem distinct_default_spans_witness:
  "set (fst (getDefaultWeights (demo_weighted [3, 13] [4000, 6000]))) = {v. isRouterEligible v (pf_registry demo_pf0)}"
proof -
  have "rt_setDefaultWeights demo_px demo_rt_code (pf_registry demo_pf0) demo_rt_tx [3, 13] [4000, 6000] (pf_router demo_pf0) =
      (Inr (), demo_weighted [3, 13] [4000, 6000])"
    using demo_default_set [of "[3, 13]" "[4000, 6000]"] by (simp add: rt_exec_def transact_Inr)
  from distinct_default_spans [OF _ this] show ?thesis using demo_pf0_ok by (simp add: portfolio_ok_def)
qed

end
