(* ===== verification/Gateway_Router.thy ===== *)
theory Gateway_Router
  imports Gateway_Correct Portfolio_Correct
begin

text \<open>
  The gateway on top of the router: an agent payment with the router as its destination. What the gateway relies on is the
  locale \<open>split_target\<close>; the interpretation puts the router and registry of this repository behind it.
\<close>

section \<open>The interface\<close>

lemma external_call_Inr_iff [io_simps]:
  "external_call f s = (Inr r, t) \<longleftrightarrow> (\<exists>x. f (gw_outside s) = Inr (r, x) \<and> t = s\<lparr>gw_outside := x\<rparr>)"
  by (auto simp: external_call_def call_outside_def split: sum.splits)

text \<open>
  A target that splits a deposit over the vaults it routes by. For each leg it reports one payment, and the vault books one
  deposit with the same receiver and amount; token calls do not disturb either list.
\<close>

locale split_target =
  fixes Y :: "'p externals"
    and target :: address
    and sound :: "'p \<Rightarrow> bool"
    and routed_vaults :: "'p \<Rightarrow> address list"
    and reported :: "'p \<Rightarrow> (address \<times> address \<times> nat) list"
    and booked :: "'p \<Rightarrow> (address \<times> address \<times> nat) list"
  assumes splits: "sound p \<Longrightarrow> xs_router_deposit_for Y target caller receiver amt mins p = Inr (shs, p') \<Longrightarrow>
      \<exists>legs. length legs = length (routed_vaults p) \<and> sum_list legs = unat amt \<and>
        sound p' \<and>
        reported p' = reported p @ map (\<lambda>(v, n). (receiver, v, n)) (zip (routed_vaults p) legs) \<and>
        booked p' = booked p @ map (\<lambda>(v, n). (receiver, v, n)) (zip (routed_vaults p) legs)"
    and transfer_quiet: "sound p \<Longrightarrow> xs_transfer_from Y tok caller a b n p = Inr (u, p') \<Longrightarrow>
      sound p' \<and> routed_vaults p' = routed_vaults p \<and> reported p' = reported p \<and> booked p' = booked p"
    and approve_quiet: "sound p \<Longrightarrow> xs_force_approve Y tok caller a n p = Inr (u, p') \<Longrightarrow>
      sound p' \<and> routed_vaults p' = routed_vaults p \<and> reported p' = reported p \<and> booked p' = booked p"
begin

lemma payment_is_split:
  assumes "depositTo E Y I ctx ord amt dl idem target mins s = (Inr pid, s')" "routerContract I = target" "target \<noteq> 0"
    and "sound (gw_outside s)"
  shows "\<exists>legs. length legs = length (routed_vaults (gw_outside s)) \<and> sum_list legs = unat amt \<and>
    reported (gw_outside s') = reported (gw_outside s) @
      map (\<lambda>(v, n). (shareReceiver (gw_agents s (msg_sender ctx)), v, n)) (zip (routed_vaults (gw_outside s)) legs) \<and>
    booked (gw_outside s') = booked (gw_outside s) @
      map (\<lambda>(v, n). (shareReceiver (gw_agents s (msg_sender ctx)), v, n)) (zip (routed_vaults (gw_outside s)) legs)"
proof -
  let ?pid = "payment_hash E I ctx ord amt idem" and ?p = "gw_agents s (msg_sender ctx)"
  obtain s1 s2 s3 b where a: "accrueRollingDeposit ctx (msg_sender ctx) amt (maxPerWindow ?p) s = (Inr (), s1)"
    "reserve_payment ?pid s1 = (Inr (), s2)"
    and pull: "pull_usdc Y I ctx amt s2 = (Inr b, s3)"
    and ex: "executeRouterDeposit Y I ctx ?pid ord (shareReceiver ?p) amt b mins s3 = (Inr (), s')"
    using assms(1-3) by (auto simp: depositTo_def validateDestination_def executeDeposit_def check_defs io_simps Let_def)
  have s2: "gw_outside s2 = gw_outside s"
    using a by (auto simp: accrueRollingDeposit_def reserve_payment_def io_simps Let_def)
  obtain u where "xs_transfer_from Y (usdcToken I) (gw_this I) (msg_sender ctx) (gw_this I) amt (gw_outside s2) = Inr (u, gw_outside s3)"
    using pull by (auto simp: pull_usdc_def balance_of_def io_simps)
  note t = transfer_quiet [OF _ this, unfolded s2, OF assms(4)]
  obtain u1 x1 shs x2 u3 where c: "xs_force_approve Y (usdcToken I) (gw_this I) target amt (gw_outside s3) = Inr (u1, x1)"
    "xs_router_deposit_for Y target (gw_this I) (shareReceiver ?p) amt mins x1 = Inr (shs, x2)"
    "xs_force_approve Y (usdcToken I) (gw_this I) target 0 x2 = Inr (u3, gw_outside s')"
    using ex assms(2)
    by (auto simp: executeRouterDeposit_def balance_of_def emit_event_def io_simps)
  have 1: "sound x1" "routed_vaults x1 = routed_vaults (gw_outside s)" "reported x1 = reported (gw_outside s)"
      "booked x1 = booked (gw_outside s)"
    using approve_quiet [OF _ c(1)] t by auto
  from splits [OF 1(1) c(2)] show ?thesis using 1 approve_quiet [OF _ c(3)] by auto
qed

end

section \<open>The router behind the gateway\<close>

definition on_outside :: "('x \<Rightarrow> string + 'a \<times> 'x) \<Rightarrow> 'x portfolio \<Rightarrow> string + 'a \<times> 'x portfolio" where
  "on_outside f p =
     (case f (rt_outside (pf_router p)) of
        Inl e \<Rightarrow> Inl e
      | Inr (v, x) \<Rightarrow> Inr (v, p\<lparr>pf_router := (pf_router p)\<lparr>rt_outside := x\<rparr>\<rparr>))"

text \<open>A call of the gateway to \<open>depositFor\<close>, which reads nothing of the transaction but the sender.\<close>

definition from_gateway ::
    "'x router_externals \<Rightarrow> router_code \<Rightarrow> address \<Rightarrow> address \<Rightarrow> u256 \<Rightarrow> u256 list \<Rightarrow> 'x portfolio \<Rightarrow> string + u256 list \<times> 'x portfolio" where
  "from_gateway X C caller receiver amt mins p =
     (case depositFor X C (pf_registry p) \<lparr>msg_sender = caller, block_timestamp = 0, block_number = 0, block_chainid = 0\<rparr>
             receiver amt mins (pf_router p) of
        (Inr shs, t) \<Rightarrow> Inr (shs, p\<lparr>pf_router := t\<rparr>)
      | (Inl _, _) \<Rightarrow> Inl ''PortfolioRouter reverted'')"

text \<open>The outside of a gateway, with the modelled router at its address.\<close>

definition routed_by :: "'x externals \<Rightarrow> 'x router_externals \<Rightarrow> router_code \<Rightarrow> 'x portfolio externals" where
  "routed_by Z X C =
     \<lparr>xs_has_role = (\<lambda>p. xs_has_role Z (rt_outside (pf_router p))),
      xs_grant_role = (\<lambda>r a p. p\<lparr>pf_router := (pf_router p)\<lparr>rt_outside := xs_grant_role Z r a (rt_outside (pf_router p))\<rparr>\<rparr>),
      xs_revoke_role = (\<lambda>r a p. p\<lparr>pf_router := (pf_router p)\<lparr>rt_outside := xs_revoke_role Z r a (rt_outside (pf_router p))\<rparr>\<rparr>),
      xs_balance_of = (\<lambda>t a p. xs_balance_of Z t a (rt_outside (pf_router p))),
      xs_allowance = (\<lambda>t a b p. xs_allowance Z t a b (rt_outside (pf_router p))),
      xs_transfer_from = (\<lambda>t c a b n. on_outside (xs_transfer_from Z t c a b n)),
      xs_force_approve = (\<lambda>t c a n. on_outside (xs_force_approve Z t c a n)),
      xs_vault_asset = (\<lambda>v p. xs_vault_asset Z v (rt_outside (pf_router p))),
      xs_vault_deposit = (\<lambda>v c n r. on_outside (xs_vault_deposit Z v c n r)),
      xs_vault_redeem = (\<lambda>v c n r a. on_outside (xs_vault_redeem Z v c n r a)),
      xs_router_deposit_for = (\<lambda>r c a n ms p.
        if r = rt_this C then from_gateway X C c a n ms p else on_outside (xs_router_deposit_for Z r c a n ms) p),
      xs_commit_hash = xs_commit_hash Z\<rparr>"

definition leg_of :: "router_event \<Rightarrow> (address \<times> address \<times> nat) list" where
  "leg_of e = (case e of RouterDepositEvent receiver v leg _ _ \<Rightarrow> [(receiver, v, unat leg)] | _ \<Rightarrow> [])"

definition legs_paid :: "'x portfolio \<Rightarrow> (address \<times> address \<times> nat) list" where
  "legs_paid p = concat (map leg_of (rt_events (pf_router p)))"

text \<open>
  The deposits the vaults book are read off the outside by a function \<open>L\<close> (receiver, vault, amount). What it relies on is
  what ERC-4626 and ERC-20 document: a deposit the router makes in a vault books one entry with the owner and the amount
  passed to it, transfers and approvals of a token book none.
\<close>

definition vaults_book ::
    "'x externals \<Rightarrow> 'x router_externals \<Rightarrow> router_code \<Rightarrow> ('x \<Rightarrow> (address \<times> address \<times> nat) list) \<Rightarrow> bool" where
  "vaults_book Z X C L \<longleftrightarrow>
     (\<forall>v n receiver x sh y. px_vault_deposit X v (rt_this C) n receiver x = Inr (sh, y) \<longrightarrow> L y = L x @ [(receiver, v, unat n)]) \<and>
     (\<forall>t c a n x y. px_force_approve X t c a n x = Inr ((), y) \<longrightarrow> L y = L x) \<and>
     (\<forall>t c a b n x y. px_transfer_from X t c a b n x = Inr ((), y) \<longrightarrow> L y = L x) \<and>
     (\<forall>t c a n x y. xs_force_approve Z t c a n x = Inr ((), y) \<longrightarrow> L y = L x) \<and>
     (\<forall>t c a b n x y. xs_transfer_from Z t c a b n x = Inr ((), y) \<longrightarrow> L y = L x)"

definition legs_booked :: "('x \<Rightarrow> (address \<times> address \<times> nat) list) \<Rightarrow> 'x portfolio \<Rightarrow> (address \<times> address \<times> nat) list" where
  "legs_booked L p = L (rt_outside (pf_router p))"

definition effective_vaults :: "'x portfolio \<Rightarrow> address list" where
  "effective_vaults p = fst (getEffectiveWeights (pf_router p))"

lemma on_outside_quiet:
  assumes "on_outside f p = Inr (u, p')"
  shows "(portfolio_ok p \<longrightarrow> portfolio_ok p') \<and> effective_vaults p' = effective_vaults p \<and> legs_paid p' = legs_paid p"
  using assms
  by (auto simp: on_outside_def portfolio_ok_def vectors_ok_def effective_vaults_def legs_paid_def getEffectiveWeights_def
      getWeights_def getDefaultWeights_def split: sum.splits)

lemma on_outside_books:
  assumes "\<And>x y. f x = Inr ((), y) \<Longrightarrow> L y = L x" and "on_outside f p = Inr (u, p')"
  shows "legs_booked L p' = legs_booked L p"
  using assms by (auto simp: on_outside_def legs_booked_def split: sum.splits)

lemma leg_calls_books:
  shows "vaults_book Z X C L \<Longrightarrow> leg_calls X C rc ls shs x y \<Longrightarrow> L y = L x @ map (\<lambda>(v, leg). (rc, v, unat leg)) ls"
proof (induction X C rc ls shs x y rule: leg_calls.induct)
  case (2 X C rc v leg ls sh shs x y)
  then show ?case unfolding vaults_book_def by fastforce
qed simp_all

lemma leg_events:
  "length vs = length bs \<Longrightarrow> length bs = length ls \<Longrightarrow> length ls = length shs \<Longrightarrow>
   concat (map leg_of (map (\<lambda>((v, b, leg), sh). RouterDepositEvent rc v leg sh b) (zip (zip vs (zip bs ls)) shs))) =
     map (\<lambda>(v, n). (rc, v, n)) (zip vs (map unat ls))"
  by (induction vs bs ls shs rule: list_induct4) (simp_all add: leg_of_def)

lemma from_gateway_splits:
  assumes "portfolio_ok p" "vaults_book Z X C L" "from_gateway X C caller receiver amt mins p = Inr (shs, p')"
  shows "\<exists>legs. length legs = length (effective_vaults p) \<and> sum_list legs = unat amt \<and> portfolio_ok p' \<and>
    legs_paid p' = legs_paid p @ map (\<lambda>(v, n). (receiver, v, n)) (zip (effective_vaults p) legs) \<and>
    legs_booked L p' = legs_booked L p @ map (\<lambda>(v, n). (receiver, v, n)) (zip (effective_vaults p) legs)"
proof -
  obtain vs bs where w: "getEffectiveWeights (pf_router p) = (vs, bs)" by fastforce
  let ?tx = "\<lparr>msg_sender = caller, block_timestamp = 0, block_number = 0, block_chainid = 0\<rparr>"
  obtain t where "depositFor X C (pf_registry p) ?tx receiver amt mins (pf_router p) = (Inr shs, t)" and p': "p' = p\<lparr>pf_router := t\<rparr>"
    using assms(3) unfolding from_gateway_def by (auto split: prod.splits sum.splits)
  then have d: "rt_depositTo X C (pf_registry p) ?tx receiver amt mins (pf_router p) = (Inr shs, t)"
    by (auto simp: depositFor_def io_simps)
  have ok: "vectors_ok (pf_registry p) (pf_router p)" using assms(1) by (simp add: portfolio_ok_def)
  have ok': "portfolio_ok p'"
    using assms(1) sw.obeysD [OF deposit_keeps_vectors d] 
    by (simp add: portfolio_ok_def p' vectors_ok_def same_vectors_def getWeights_def getDefaultWeights_def)
  show ?thesis
  proof (rule routed_legs [OF ok w d])
    fix ls rest s2
    assume l: "length ls = length vs" "sum_list (map unat ls) = unat amt" "rt_events s2 = rt_events (pf_router p)"
      and e: "execute_legs X C (pf_registry p) receiver (zip vs (zip bs ls)) mins s2 = (Inr shs, t)"
      and m: "mins = [] \<or> length mins = length vs"
      and pull: "px_transfer_from X (rt_usdc C) (rt_this C) (msg_sender ?tx) (rt_this C) amt (rt_outside (pf_router p)) = Inr ((), rt_outside s2)"
    have n: "length vs = length bs" using effective_vector_ok [OF ok w] by (simp add: vector_ok_def)
    then have len: "length (zip vs (zip bs ls)) = length vs" "length bs = length ls" using l(1) by simp_all
    note x = execute_legs_Inr [OF e, unfolded len(1) zip_drop_middle [OF n len(2)], OF m]
    have ev: "length shs = length vs" "rt_events t = rt_events (pf_router p) @
        map (\<lambda>((v, b, leg), sh). RouterDepositEvent receiver v leg sh b) (zip (zip vs (zip bs ls)) shs)"
      using x by (simp_all only: l(3))
    have calls: "leg_calls X C receiver (zip vs ls) shs (rt_outside s2) (rt_outside t)" using x by blast
    have zips: "map (\<lambda>(v, leg). (receiver, v, unat leg)) (zip vs ls) = map (\<lambda>(v, n). (receiver, v, n)) (zip vs (map unat ls))"
      by (simp add: zip_map2 split_beta)
    have "legs_paid p' = concat (map leg_of (rt_events t))" by (simp add: legs_paid_def p')
    also have "\<dots> = legs_paid p @ map (\<lambda>(v, n). (receiver, v, n)) (zip vs (map unat ls))"
      unfolding ev(2) map_append concat_append legs_paid_def using n l(1) ev(1) by (subst leg_events) simp_all
    finally have paid: "legs_paid p' = legs_paid p @ map (\<lambda>(v, n). (receiver, v, n)) (zip vs (map unat ls))" .
    have "L (rt_outside s2) = L (rt_outside (pf_router p))" using pull assms(2) unfolding vaults_book_def by blast
    then have "legs_booked L p' = legs_booked L p @ map (\<lambda>(v, n). (receiver, v, n)) (zip vs (map unat ls))"
      using leg_calls_books [OF assms(2) calls] unfolding zips by (simp add: legs_booked_def p')
    then show ?thesis using l w paid ok' by (intro exI [of _ "map unat ls"]) (simp add: effective_vaults_def)
  qed
qed

interpretation rb: split_target "routed_by Z X C" "rt_this C" "\<lambda>p. portfolio_ok p \<and> vaults_book Z X C L" effective_vaults
    legs_paid "legs_booked L"
  for Z :: "'x externals" and X C L
proof unfold_locales
  fix p caller receiver amt mins shs p'
  assume "portfolio_ok p \<and> vaults_book Z X C L"
    "xs_router_deposit_for (routed_by Z X C) (rt_this C) caller receiver amt mins p = Inr (shs, p')"
  then show "\<exists>legs. length legs = length (effective_vaults p) \<and> sum_list legs = unat amt \<and>
      (portfolio_ok p' \<and> vaults_book Z X C L) \<and>
      legs_paid p' = legs_paid p @ map (\<lambda>(v, n). (receiver, v, n)) (zip (effective_vaults p) legs) \<and>
      legs_booked L p' = legs_booked L p @ map (\<lambda>(v, n). (receiver, v, n)) (zip (effective_vaults p) legs)"
    using from_gateway_splits [of p Z X C L] by (auto simp: routed_by_def)
next
  fix p tok caller a b n u p'
  assume k: "portfolio_ok p \<and> vaults_book Z X C L" and "xs_transfer_from (routed_by Z X C) tok caller a b n p = Inr (u, p')"
  then have t: "on_outside (xs_transfer_from Z tok caller a b n) p = Inr (u, p')" by (simp add: routed_by_def)
  have "L y = L x" if "xs_transfer_from Z tok caller a b n x = Inr ((), y)" for x y
    using k that unfolding vaults_book_def by blast
  then have "legs_booked L p' = legs_booked L p" by (rule on_outside_books [OF _ t])
  then show "(portfolio_ok p' \<and> vaults_book Z X C L) \<and> effective_vaults p' = effective_vaults p \<and> legs_paid p' = legs_paid p \<and>
      legs_booked L p' = legs_booked L p"
    using on_outside_quiet [OF t] k by blast
next
  fix p tok caller a n u p'
  assume k: "portfolio_ok p \<and> vaults_book Z X C L" and "xs_force_approve (routed_by Z X C) tok caller a n p = Inr (u, p')"
  then have t: "on_outside (xs_force_approve Z tok caller a n) p = Inr (u, p')" by (simp add: routed_by_def)
  have "L y = L x" if "xs_force_approve Z tok caller a n x = Inr ((), y)" for x y
    using k that unfolding vaults_book_def by blast
  then have "legs_booked L p' = legs_booked L p" by (rule on_outside_books [OF _ t])
  then show "(portfolio_ok p' \<and> vaults_book Z X C L) \<and> effective_vaults p' = effective_vaults p \<and> legs_paid p' = legs_paid p \<and>
      legs_booked L p' = legs_booked L p"
    using on_outside_quiet [OF t] k by blast
qed

section \<open>Properties\<close>

text \<open>
  C16. An agent payment to the router reaches the vaults in full. When the gateway accepts it, each vault the router routes
  by has, in order, booked one deposit for the receiver of the agent's policy, the amounts booked sum to the amount paid, and the events
  of the router name the same receiver, vaults and amounts. The book is that of the vaults, not of the router: the router
  decides only with which arguments it calls their \<open>deposit\<close>.
\<close>
theorem routed_payment_split:
  assumes "depositTo E (routed_by Z X C) I ctx ord amt dl idem (rt_this C) mins s = (Inr pid, s')"
    and "routerContract I = rt_this C" and "rt_this C \<noteq> 0" and "portfolio_ok (gw_outside s)"
    and "vaults_book Z X C L"
  shows "\<exists>legs. length legs = length (effective_vaults (gw_outside s)) \<and> sum_list legs = unat amt \<and>
    legs_booked L (gw_outside s') = legs_booked L (gw_outside s) @
      map (\<lambda>(v, n). (shareReceiver (gw_agents s (msg_sender ctx)), v, n)) (zip (effective_vaults (gw_outside s)) legs) \<and>
    legs_paid (gw_outside s') = legs_paid (gw_outside s) @
      map (\<lambda>(v, n). (shareReceiver (gw_agents s (msg_sender ctx)), v, n)) (zip (effective_vaults (gw_outside s)) legs)"
  using rb.payment_is_split [OF assms(1-3), of L] assms(4,5) by blast

text \<open>
  Witness: USDC balances and the book of the vaults as the outside, the two vaults of the demonstration registry and a default vector; account 8 is an
  agent with 100 units and pays 11 of them.
\<close>

type_synonym demo_bank = "(address \<Rightarrow> u256) \<times> (address \<times> address \<times> nat) list"

definition move_usdc :: "address \<Rightarrow> address \<Rightarrow> u256 \<Rightarrow> demo_bank \<Rightarrow> string + unit \<times> demo_bank" where
  "move_usdc a b n x =
     (if n \<le> fst x a then Inr ((), (let y = (fst x)(a := fst x a - n) in y(b := y b + n)), snd x) else Inl ''insufficient balance'')"

definition demo_bal_px :: "demo_bank router_externals" where
  "demo_bal_px =
     \<lparr>px_is_admin = (\<lambda>_ _. True), px_has_code = (\<lambda>v _. v \<in> {3, 13}), px_asset = (\<lambda>_ _. Inr 50), px_balance_of = (\<lambda>_ h x. fst x h),
      px_transfer = (\<lambda>_ a b n. move_usdc a b n), px_transfer_from = (\<lambda>_ _ a b n. move_usdc a b n),
      px_force_approve = (\<lambda>_ _ _ _ x. Inr ((), x)), px_preview_deposit = (\<lambda>_ n _. Inr n),
      px_vault_deposit = (\<lambda>v c n r x. map_sum id (\<lambda>q. (n, fst (snd q), snd (snd q) @ [(r, v, unat n)])) (move_usdc c v n x)), px_registry_admin = (\<lambda>_ _. True),
      px_other_default_length = (\<lambda>_ _. Inl ''no code'')\<rparr>"

definition demo_bal_xs :: "demo_bank externals" where
  "demo_bal_xs =
     \<lparr>xs_has_role = (\<lambda>_ r a. r = AGENT_ROLE \<and> a = 8), xs_grant_role = (\<lambda>_ _ x. x), xs_revoke_role = (\<lambda>_ _ x. x),
      xs_balance_of = (\<lambda>t a x. if t = 50 then fst x a else 0), xs_allowance = (\<lambda>_ _ _ _. 1000),
      xs_transfer_from = (\<lambda>_ _ a b n. move_usdc a b n), xs_force_approve = (\<lambda>_ _ _ _ x. Inr ((), x)),
      xs_vault_asset = (\<lambda>_ _. 50), xs_vault_deposit = (\<lambda>_ _ _ _ _. Inl ''no vault''),
      xs_vault_redeem = (\<lambda>_ _ _ _ _ _. Inl ''no vault''), xs_router_deposit_for = (\<lambda>_ _ _ _ _ _. Inl ''no router''),
      xs_commit_hash = (\<lambda>_ _ _. 0)\<rparr>"

definition demo_bal_pf :: "demo_bank portfolio" where
  "demo_bal_pf = \<lparr>pf_registry = pf_registry demo_pf0,
     pf_router = (blank_router ((\<lambda>_. 0)(8 := 100), []))\<lparr>rt_defaultWeightVaultList := [3, 13], rt_defaultWeightBps := [3333, 6667]\<rparr>\<rparr>"

definition demo_routed_code :: gateway_code where
  "demo_routed_code = \<lparr>gw_this = 1, usdcToken = 50, vaultContract = 4, routerContract = 70\<rparr>"

definition demo_routed_gw :: "demo_bank portfolio gateway" where
  "demo_routed_gw = (blank_gateway demo_bal_pf)\<lparr>gw_agents := (\<lambda>_. no_policy)(8 := demo_full_policy)\<rparr>"

lemma demo_bal_pf_ok: "portfolio_ok demo_bal_pf"
  using demo_pf0_ok
  by (simp add: portfolio_ok_def demo_bal_pf_def vectors_ok_def vector_ok_def blank_router_def demo_pf0_eval)

abbreviation demo_routed_xs :: "demo_bank portfolio externals" where
  "demo_routed_xs \<equiv> routed_by demo_bal_xs demo_bal_px demo_rt_code"

lemma demo_from_gateway:
  assumes "pf_registry p = pf_registry demo_pf0" "pf_router p = (pf_router demo_bal_pf)\<lparr>rt_outside := x\<rparr>" "fst x 1 = 11" "fst x 70 = 0" "fst x 3 = 0" "fst x 13 = 0" "snd x = []"
  shows "from_gateway demo_bal_px demo_rt_code 1 9 11 [] p = Inr ([3, 8], p\<lparr>pf_router := (pf_router demo_bal_pf)
    \<lparr>rt_events := [RouterDepositEvent 9 3 3 3 3333, RouterDepositEvent 9 13 8 8 6667], 
     rt_outside := ((fst x)(1 := 0, 3 := 3, 70 := 0, 13 := 8), [(9, 3, 3), (9, 13, 8)])\<rparr>\<rparr>)"
  using assms
  by (simp add: from_gateway_def depositFor_def rt_depositTo_def getEffectiveWeights_def getDefaultWeights_def executeLegs_def
      execute_leg_def registered_vault_def getVault_def requireRouterEligible_def isRouterEligible_def add_remainder_def demo_pf0_eval
      demo_bal_px_def demo_bal_pf_def demo_rt_code_def blank_router_def rt_call_def call_outside_def rt_emit_def checked_mul_def
      checked_add_def checked_sub_def RT_BPS_DENOMINATOR_def map_err_def move_usdc_def io_eval)

definition demo_pulled :: "demo_bank portfolio" where
  "demo_pulled = demo_bal_pf\<lparr>pf_router := (pf_router demo_bal_pf)\<lparr>rt_outside := ((\<lambda>_. 0)(8 := 89, 1 := 11), [])\<rparr>\<rparr>"

definition demo_routed :: "demo_bank portfolio" where
  "demo_routed = demo_pulled\<lparr>pf_router := (pf_router demo_bal_pf)
     \<lparr>rt_events := [RouterDepositEvent 9 3 3 3 3333, RouterDepositEvent 9 13 8 8 6667],
      rt_outside := (((\<lambda>_. 0)(8 := 89, 1 := 11))(1 := 0, 3 := 3, 70 := 0, 13 := 8), [(9, 3, 3), (9, 13, 8)])\<rparr>\<rparr>"

lemma demo_routed_outside:
  "xs_has_role demo_routed_xs p AGENT_ROLE 8" "xs_force_approve demo_routed_xs t c a n p = Inr ((), p)"
  "xs_transfer_from demo_routed_xs 50 1 8 1 11 demo_bal_pf = Inr ((), demo_pulled)"
  "xs_balance_of demo_routed_xs 50 1 demo_bal_pf = 0" "xs_balance_of demo_routed_xs 50 1 demo_pulled = 11"
  "xs_router_deposit_for demo_routed_xs 70 1 9 11 [] demo_pulled = Inr ([3, 8], demo_routed)"
  "xs_balance_of demo_routed_xs 50 1 demo_routed = 0"
proof -
  show "xs_router_deposit_for demo_routed_xs 70 1 9 11 [] demo_pulled = Inr ([3, 8], demo_routed)"
    using demo_from_gateway [of demo_pulled "((\<lambda>_. 0)(8 := 89, 1 := 11), [])"]
    by (simp add: routed_by_def demo_rt_code_def demo_routed_def) (simp add: demo_pulled_def demo_bal_pf_def)
qed (auto simp: routed_by_def demo_bal_xs_def on_outside_def move_usdc_def demo_pulled_def demo_routed_def demo_bal_pf_def blank_router_def
    fun_eq_iff)

lemma demo_routed_payment:
  "\<exists>s'. depositTo demo_env demo_routed_xs demo_routed_code (demo_tx 8 950) 4 11 1000 6 70 [] demo_routed_gw =
     (Inr (payment_hash demo_env demo_routed_code (demo_tx 8 950) 4 11 6), s') \<and> gw_outside s' = demo_routed"
  by (simp add: depositTo_def executeDeposit_def executeRouterDeposit_def check_defs accrueRollingDeposit_def
      window_over_def reserve_payment_def pull_usdc_def has_role_def external_call_def call_outside_def
      emit_event_def demo_routed_gw_def blank_gateway_def demo_routed_code_def demo_full_policy_def demo_policy_def demo_tx_def
      AgentPolicy.defs checked_add_def checked_sub_def GW_MAX_DEADLINE_SKEW_def Let_def demo_routed_outside io_eval)

lemma demo_vaults_book: "vaults_book demo_bal_xs demo_bal_px demo_rt_code snd"
  by (auto simp: vaults_book_def demo_bal_xs_def demo_bal_px_def move_usdc_def split: if_splits)

theorem routed_payment_split_witness:
  "\<exists>s' legs. depositTo demo_env demo_routed_xs demo_routed_code (demo_tx 8 950) 4 11 1000 6 70 [] demo_routed_gw =
       (Inr (payment_hash demo_env demo_routed_code (demo_tx 8 950) 4 11 6), s') \<and>
     sum_list legs = 11 \<and> snd (rt_outside (pf_router (gw_outside s'))) = map (\<lambda>(v, n). (9, v, n)) (zip [3, 13] legs)"
proof -
  obtain s' where d: "depositTo demo_env demo_routed_xs demo_routed_code (demo_tx 8 950) 4 11 1000 6 70 [] demo_routed_gw =
      (Inr (payment_hash demo_env demo_routed_code (demo_tx 8 950) 4 11 6), s')" using demo_routed_payment by blast
  have c: "rt_this demo_rt_code = 70" "routerContract demo_routed_code = 70" "gw_outside demo_routed_gw = demo_bal_pf"
    "legs_booked snd demo_bal_pf = []" "effective_vaults demo_bal_pf = [3, 13]" "shareReceiver (gw_agents demo_routed_gw 8) = 9"
    "msg_sender (demo_tx 8 950) = 8"
    by (simp_all add: demo_rt_code_def demo_routed_code_def demo_routed_gw_def blank_gateway_def legs_booked_def demo_bal_pf_def blank_router_def
        effective_vaults_def getEffectiveWeights_def getDefaultWeights_def demo_full_policy_def demo_policy_def AgentPolicy.defs demo_tx_def)
  have ok: "portfolio_ok (gw_outside demo_routed_gw)" using demo_bal_pf_ok by (simp add: c)
  obtain legs where "sum_list legs = unat (11 :: u256)"
      "legs_booked snd (gw_outside s') = [] @ map (\<lambda>(v, n). (9, v, n)) (zip [3, 13] legs)"
    using routed_payment_split [of demo_env demo_bal_xs demo_bal_px demo_rt_code, unfolded c(1), OF d c(2) _ ok demo_vaults_book, unfolded c]
    by auto
  then show ?thesis using d by (auto simp: legs_booked_def)
qed

end
