(* ===== verification/Router_Governance.thy ===== *)
theory Router_Governance
  imports Solidity
begin

text \<open>
  The governance contract of the router weights (\<open>contracts/RouterGovernance.sol\<close>): storage, every entry point, the state of a
  proposal as a function of storage and time. The portfolio router and the role table of OpenZeppelin's \<open>AccessControl\<close> are
  outside; a call to them returns without entering this contract again.
\<close>

section \<open>Types\<close>

datatype ProposalState = Active | Defeated | Queued | Executed | Cancelled

record Proposal =
  pr_id :: u256
  pr_proposer :: address
  pr_vaults :: "address list"
  pr_bps :: "u256 list"
  pr_votingDeadline :: u64
  pr_executableAfter :: u64
  pr_votesFor :: u256
  pr_snapshotQuorum :: u256
  pr_executed :: bool
  pr_cancelled :: bool

datatype gov_error =
    GovZeroAddress | InvalidWeightSum | LengthMismatch | NoActiveProposal | ProposalNotActive | AlreadyVoted | NoVotingPower
  | VotingStillOpen | QuorumNotReached | ExecutionDelayNotElapsed | AlreadyExecuted | ActiveProposalExists
  | ProposalAlreadyExecuted | ProposalAlreadyCancelled | ProposalIsCancelled | QuorumBelowMinimum | VotingPeriodBelowMinimum
  | VaultNotEligible address
  | GovUnauthorizedAccount address
  | GovPanic
  | GovCallFailed string

datatype gov_event =
    ProposalCreatedEvent u256 address "address list" "u256 list" u64
  | VoteCastEvent u256 address u256 u256
  | ProposalExecutedEvent u256 address
  | WeightsAppliedEvent u256 "address list" "u256 list"
  | ProposalCancelledEvent u256 address
  | QuorumThresholdSet u256 u256
  | VotingPeriodSet u64 u64
  | ExecutionDelaySet u64 u64
  | VotingPowerSet address u256 u256

record 'x gov_externals =
  gx_is_admin :: "'x \<Rightarrow> address \<Rightarrow> bool"
  gx_grant_admin :: "address \<Rightarrow> 'x \<Rightarrow> 'x"
  gx_eligible :: "address \<Rightarrow> 'x \<Rightarrow> bool"
  gx_set_weights :: "address list \<Rightarrow> u256 list \<Rightarrow> 'x \<Rightarrow> string + unit \<times> 'x"
  gx_set_default_weights :: "address list \<Rightarrow> u256 list \<Rightarrow> 'x \<Rightarrow> string + unit \<times> 'x"
  gx_clear_voted_weights :: "'x \<Rightarrow> string + unit \<times> 'x"
  gx_get_weights :: "'x \<Rightarrow> address list \<times> u256 list"

record 'x governance =
  gv_votingPeriod :: u64
  gv_executionDelay :: u64
  gv_quorumThreshold :: u256
  gv_votingPower :: "address \<Rightarrow> u256"
  gv_totalVotingPower :: u256
  gv_proposals :: "u256 \<Rightarrow> Proposal"
  gv_currentProposalId :: u256
  gv_hasVoted :: "u256 \<Rightarrow> address \<Rightarrow> bool"
  gv_events :: "gov_event list"
  gv_outside :: 'x

type_synonym ('x, 'a) gov = "('x governance, gov_error, 'a) io"

definition BPS_DENOMINATOR :: u256 where "BPS_DENOMINATOR = 10000"
definition MIN_QUORUM_THRESHOLD :: u256 where "MIN_QUORUM_THRESHOLD = 1"
definition MIN_VOTING_PERIOD :: u64 where "MIN_VOTING_PERIOD = 3600"

definition gov_emit :: "gov_event \<Rightarrow> ('x, unit) gov" where
  "gov_emit e = modifyM (\<lambda>s. s\<lparr>gv_events := gv_events s @ [e]\<rparr>)"

definition router_call :: "('x \<Rightarrow> string + unit \<times> 'x) \<Rightarrow> ('x, unit) gov" where
  "router_call f = call_outside gv_outside (\<lambda>x s. s\<lparr>gv_outside := x\<rparr>) GovCallFailed f"

definition only_admin :: "'x gov_externals \<Rightarrow> tx_ctx \<Rightarrow> ('x, unit) gov" where
  "only_admin X ctx =
     bindM (getM (\<lambda>s. gx_is_admin X (gv_outside s) (msg_sender ctx))) (\<lambda>ok.
     refuse_if (\<not> ok) (GovUnauthorizedAccount (msg_sender ctx)))"

section \<open>The state of a proposal\<close>

definition proposal_state :: "tx_ctx \<Rightarrow> Proposal \<Rightarrow> ProposalState" where
  "proposal_state ctx p =
     (if pr_cancelled p then Cancelled
      else if pr_executed p then Executed
      else if unat (block_timestamp ctx) \<le> unat (pr_votingDeadline p) then Active
      else if pr_votesFor p < pr_snapshotQuorum p then Defeated
      else Queued)"

definition proposalState :: "tx_ctx \<Rightarrow> u256 \<Rightarrow> ('x, ProposalState) gov" where
  "proposalState ctx i =
     bindM (getM (\<lambda>s. gv_proposals s i)) (\<lambda>p.
     bindM (refuse_if (pr_id p = 0) NoActiveProposal) (\<lambda>_.
     retM (proposal_state ctx p)))"

definition activeProposal :: "('x, Proposal) gov" where
  "activeProposal =
     bindM (getM gv_currentProposalId) (\<lambda>pid.
     bindM (refuse_if (pid = 0) NoActiveProposal) (\<lambda>_.
     getM (\<lambda>s. gv_proposals s pid)))"

definition cadenceParams :: "'x governance \<Rightarrow> u64 \<times> u64 \<times> u256 \<times> u256" where
  "cadenceParams s = (gv_votingPeriod s, gv_executionDelay s, gv_quorumThreshold s, gv_totalVotingPower s)"

definition currentWeights :: "'x gov_externals \<Rightarrow> 'x governance \<Rightarrow> address list \<times> u256 list" where
  "currentWeights X s = gx_get_weights X (gv_outside s)"

definition hasVoted :: "u256 \<Rightarrow> address \<Rightarrow> 'x governance \<Rightarrow> bool" where
  "hasVoted i voter s = gv_hasVoted s i voter"

section \<open>Parameters\<close>

definition setQuorumThreshold :: "'x gov_externals \<Rightarrow> tx_ctx \<Rightarrow> u256 \<Rightarrow> ('x, unit) gov" where
  "setQuorumThreshold X ctx threshold =
     bindM (only_admin X ctx) (\<lambda>_.
     bindM (refuse_if (threshold < MIN_QUORUM_THRESHOLD) QuorumBelowMinimum) (\<lambda>_.
     bindM (getM gv_quorumThreshold) (\<lambda>old.
     bindM (gov_emit (QuorumThresholdSet old threshold)) (\<lambda>_.
     modifyM (\<lambda>s. s\<lparr>gv_quorumThreshold := threshold\<rparr>)))))"

definition setVotingPeriod :: "'x gov_externals \<Rightarrow> tx_ctx \<Rightarrow> u64 \<Rightarrow> ('x, unit) gov" where
  "setVotingPeriod X ctx period =
     bindM (only_admin X ctx) (\<lambda>_.
     bindM (refuse_if (period < MIN_VOTING_PERIOD) VotingPeriodBelowMinimum) (\<lambda>_.
     bindM (getM gv_votingPeriod) (\<lambda>old.
     bindM (gov_emit (VotingPeriodSet old period)) (\<lambda>_.
     modifyM (\<lambda>s. s\<lparr>gv_votingPeriod := period\<rparr>)))))"

definition setExecutionDelay :: "'x gov_externals \<Rightarrow> tx_ctx \<Rightarrow> u64 \<Rightarrow> ('x, unit) gov" where
  "setExecutionDelay X ctx delay =
     bindM (only_admin X ctx) (\<lambda>_.
     bindM (getM gv_executionDelay) (\<lambda>old.
     bindM (gov_emit (ExecutionDelaySet old delay)) (\<lambda>_.
     modifyM (\<lambda>s. s\<lparr>gv_executionDelay := delay\<rparr>))))"

definition setVotingPower :: "'x gov_externals \<Rightarrow> tx_ctx \<Rightarrow> address \<Rightarrow> u256 \<Rightarrow> ('x, unit) gov" where
  "setVotingPower X ctx voter pow =
     bindM (only_admin X ctx) (\<lambda>_.
     bindM (refuse_if (voter = 0) GovZeroAddress) (\<lambda>_.
     bindM (getM (\<lambda>s. gv_votingPower s voter)) (\<lambda>old.
     bindM (getM gv_totalVotingPower) (\<lambda>tot.
     bindM (checked_sub GovPanic tot old) (\<lambda>rest.
     bindM (checked_add GovPanic rest pow) (\<lambda>tot'.
     bindM (modifyM (\<lambda>s. s\<lparr>gv_totalVotingPower := tot', gv_votingPower := (gv_votingPower s)(voter := pow)\<rparr>)) (\<lambda>_.
     gov_emit (VotingPowerSet voter old pow))))))))"

definition setDefaultWeights :: "'x gov_externals \<Rightarrow> tx_ctx \<Rightarrow> address list \<Rightarrow> u256 list \<Rightarrow> ('x, unit) gov" where
  "setDefaultWeights X ctx vaults bps =
     bindM (only_admin X ctx) (\<lambda>_. router_call (gx_set_default_weights X vaults bps))"

definition clearVotedWeights :: "'x gov_externals \<Rightarrow> tx_ctx \<Rightarrow> ('x, unit) gov" where
  "clearVotedWeights X ctx = bindM (only_admin X ctx) (\<lambda>_. router_call (gx_clear_voted_weights X))"

section \<open>Proposals\<close>

fun sum_bps :: "u256 list \<Rightarrow> u256 \<Rightarrow> ('x, u256) gov" where
  "sum_bps [] tot = retM tot"
| "sum_bps (b # bs) tot = bindM (checked_add GovPanic tot b) (sum_bps bs)"

fun check_eligible :: "'x gov_externals \<Rightarrow> address list \<Rightarrow> ('x, unit) gov" where
  "check_eligible X [] = retM ()"
| "check_eligible X (v # vs) =
     bindM (getM (\<lambda>s. gx_eligible X v (gv_outside s))) (\<lambda>ok.
     bindM (refuse_if (\<not> ok) (VaultNotEligible v)) (\<lambda>_.
     check_eligible X vs))"

definition propose :: "'x gov_externals \<Rightarrow> tx_ctx \<Rightarrow> address list \<Rightarrow> u256 list \<Rightarrow> ('x, u256) gov" where
  "propose X ctx vaults bps =
     bindM (only_admin X ctx) (\<lambda>_.
     bindM (refuse_if (length vaults \<noteq> length bps) LengthMismatch) (\<lambda>_.
     bindM (sum_bps bps 0) (\<lambda>tot.
     bindM (refuse_if (tot \<noteq> BPS_DENOMINATOR) InvalidWeightSum) (\<lambda>_.
     bindM (check_eligible X vaults) (\<lambda>_.
     bindM (getM gv_currentProposalId) (\<lambda>current.
     bindM (getM (\<lambda>s. proposal_state ctx (gv_proposals s current))) (\<lambda>st.
     bindM (refuse_if (current \<noteq> 0 \<and> (st = Active \<or> st = Queued)) ActiveProposalExists) (\<lambda>_.
     bindM (checked_add GovPanic current 1) (\<lambda>proposalId.
     bindM (getM (\<lambda>s. (gv_votingPeriod s, gv_executionDelay s, gv_quorumThreshold s))) (\<lambda>(period, delay, quorum).
     bindM (checked_add GovPanic (ucast (block_timestamp ctx)) period) (\<lambda>deadline.
     bindM (checked_add GovPanic deadline delay) (\<lambda>execAfter.
     bindM (modifyM (\<lambda>s. s\<lparr>gv_currentProposalId := proposalId,
         gv_proposals := (gv_proposals s)(proposalId := (gv_proposals s proposalId)
           \<lparr>pr_id := proposalId, pr_proposer := msg_sender ctx,
            pr_vaults := pr_vaults (gv_proposals s proposalId) @ vaults, pr_bps := pr_bps (gv_proposals s proposalId) @ bps,
            pr_votingDeadline := deadline, pr_executableAfter := execAfter, pr_snapshotQuorum := quorum\<rparr>)\<rparr>)) (\<lambda>_.
     bindM (gov_emit (ProposalCreatedEvent proposalId (msg_sender ctx) vaults bps deadline)) (\<lambda>_.
     retM proposalId))))))))))))))"

definition update_proposal :: "u256 \<Rightarrow> (Proposal \<Rightarrow> Proposal) \<Rightarrow> ('x, unit) gov" where
  "update_proposal i f = modifyM (\<lambda>s. s\<lparr>gv_proposals := (gv_proposals s)(i := f (gv_proposals s i))\<rparr>)"

definition cancel :: "'x gov_externals \<Rightarrow> tx_ctx \<Rightarrow> u256 \<Rightarrow> ('x, unit) gov" where
  "cancel X ctx i =
     bindM (only_admin X ctx) (\<lambda>_.
     bindM (getM (\<lambda>s. gv_proposals s i)) (\<lambda>p.
     bindM (refuse_if (pr_id p = 0) NoActiveProposal) (\<lambda>_.
     bindM (refuse_if (pr_executed p) ProposalAlreadyExecuted) (\<lambda>_.
     bindM (refuse_if (pr_cancelled p) ProposalAlreadyCancelled) (\<lambda>_.
     bindM (update_proposal i (\<lambda>p. p\<lparr>pr_cancelled := True\<rparr>)) (\<lambda>_.
     gov_emit (ProposalCancelledEvent i (msg_sender ctx))))))))"

definition vote :: "tx_ctx \<Rightarrow> u256 \<Rightarrow> ('x, unit) gov" where
  "vote ctx i =
     bindM (getM (\<lambda>s. gv_proposals s i)) (\<lambda>p.
     bindM (refuse_if (pr_id p = 0) NoActiveProposal) (\<lambda>_.
     bindM (refuse_if (proposal_state ctx p \<noteq> Active) ProposalNotActive) (\<lambda>_.
     bindM (getM (\<lambda>s. gv_hasVoted s i (msg_sender ctx))) (\<lambda>voted.
     bindM (refuse_if voted AlreadyVoted) (\<lambda>_.
     bindM (getM (\<lambda>s. gv_votingPower s (msg_sender ctx))) (\<lambda>pow.
     bindM (refuse_if (pow = 0) NoVotingPower) (\<lambda>_.
     bindM (modifyM (\<lambda>s. s\<lparr>gv_hasVoted := (gv_hasVoted s)(i := (gv_hasVoted s i)(msg_sender ctx := True))\<rparr>)) (\<lambda>_.
     bindM (checked_add GovPanic (pr_votesFor p) pow) (\<lambda>votes.
     bindM (update_proposal i (\<lambda>p. p\<lparr>pr_votesFor := votes\<rparr>)) (\<lambda>_.
     gov_emit (VoteCastEvent i (msg_sender ctx) pow votes)))))))))))"

definition execute :: "'x gov_externals \<Rightarrow> tx_ctx \<Rightarrow> u256 \<Rightarrow> ('x, unit) gov" where
  "execute X ctx i =
     bindM (getM (\<lambda>s. gv_proposals s i)) (\<lambda>p.
     bindM (refuse_if (pr_id p = 0) NoActiveProposal) (\<lambda>_.
     bindM (refuse_if (pr_executed p) AlreadyExecuted) (\<lambda>_.
     bindM (case proposal_state ctx p of
              Cancelled \<Rightarrow> failM ProposalIsCancelled
            | Active \<Rightarrow> if unat (block_timestamp ctx) \<le> unat (pr_votingDeadline p) then failM VotingStillOpen else failM QuorumNotReached
            | Defeated \<Rightarrow> failM QuorumNotReached
            | Queued \<Rightarrow> refuse_if (unat (block_timestamp ctx) < unat (pr_executableAfter p)) ExecutionDelayNotElapsed
            | Executed \<Rightarrow> failM AlreadyExecuted) (\<lambda>_.
     bindM (update_proposal i (\<lambda>p. p\<lparr>pr_executed := True\<rparr>)) (\<lambda>_.
     bindM (router_call (gx_set_weights X (pr_vaults p) (pr_bps p))) (\<lambda>_.
     bindM (gov_emit (ProposalExecutedEvent i (msg_sender ctx))) (\<lambda>_.
     gov_emit (WeightsAppliedEvent i (pr_vaults p) (pr_bps p)))))))))"

section \<open>Constructor and transactions\<close>

definition no_proposal :: Proposal where
  "no_proposal = \<lparr>pr_id = 0, pr_proposer = 0, pr_vaults = [], pr_bps = [], pr_votingDeadline = 0, pr_executableAfter = 0,
     pr_votesFor = 0, pr_snapshotQuorum = 0, pr_executed = False, pr_cancelled = False\<rparr>"

definition blank_governance :: "'x \<Rightarrow> 'x governance" where
  "blank_governance x =
     \<lparr>gv_votingPeriod = 0, gv_executionDelay = 0, gv_quorumThreshold = 0, gv_votingPower = (\<lambda>_. 0), gv_totalVotingPower = 0,
      gv_proposals = (\<lambda>_. no_proposal), gv_currentProposalId = 0, gv_hasVoted = (\<lambda>_ _. False), gv_events = [], gv_outside = x\<rparr>"

definition governance_new ::
    "'x gov_externals \<Rightarrow> address \<Rightarrow> address \<Rightarrow> u64 \<Rightarrow> u64 \<Rightarrow> u256 \<Rightarrow> ('x, unit) gov" where
  "governance_new X router_addr admin period delay quorum =
     bindM (refuse_if (router_addr = 0 \<or> admin = 0) GovZeroAddress) (\<lambda>_.
     bindM (refuse_if (quorum < MIN_QUORUM_THRESHOLD) QuorumBelowMinimum) (\<lambda>_.
     bindM (refuse_if (period < MIN_VOTING_PERIOD) VotingPeriodBelowMinimum) (\<lambda>_.
     modifyM (\<lambda>s. s\<lparr>gv_votingPeriod := period, gv_executionDelay := delay, gv_quorumThreshold := quorum,
       gv_outside := gx_grant_admin X admin (gv_outside s)\<rparr>))))"

datatype gov_call =
    SetQuorumThreshold u256
  | SetVotingPeriod u64
  | SetExecutionDelay u64
  | SetVotingPower address u256
  | SetDefaultWeights "address list" "u256 list"
  | ClearVotedWeights
  | Propose "address list" "u256 list"
  | Cancel u256
  | Vote u256
  | Execute u256

fun gov_entry :: "'x gov_externals \<Rightarrow> tx_ctx \<Rightarrow> gov_call \<Rightarrow> ('x, unit) gov" where
  "gov_entry X ctx (SetQuorumThreshold n) = setQuorumThreshold X ctx n"
| "gov_entry X ctx (SetVotingPeriod n) = setVotingPeriod X ctx n"
| "gov_entry X ctx (SetExecutionDelay n) = setExecutionDelay X ctx n"
| "gov_entry X ctx (SetVotingPower a n) = setVotingPower X ctx a n"
| "gov_entry X ctx (SetDefaultWeights vs bs) = setDefaultWeights X ctx vs bs"
| "gov_entry X ctx ClearVotedWeights = clearVotedWeights X ctx"
| "gov_entry X ctx (Propose vs bs) = bindM (propose X ctx vs bs) (\<lambda>_. retM ())"
| "gov_entry X ctx (Cancel i) = cancel X ctx i"
| "gov_entry X ctx (Vote i) = vote ctx i"
| "gov_entry X ctx (Execute i) = execute X ctx i"

definition gov_exec :: "'x gov_externals \<Rightarrow> tx_ctx \<Rightarrow> gov_call \<Rightarrow> ('x, unit) gov" where
  "gov_exec X ctx c = transact (gov_entry X ctx c)"

end
