(* ===== verification/Governance_Correct.thy ===== *)
theory Governance_Correct
  imports Router_Governance
begin

text \<open>
  Correctness of the governance contract over runs in which time does not go back: its invariant, when weights are applied,
  and what a vote counts.
\<close>

section \<open>Runs\<close>

inductive gov_reach :: "'x gov_externals \<Rightarrow> nat \<Rightarrow> 'x governance \<Rightarrow> bool" for X where
  reach_new: "governance_new X r admin period delay quorum (blank_governance x) = (Inr (), s) \<Longrightarrow> gov_reach X now s"
| reach_call: "gov_reach X now s \<Longrightarrow> now \<le> unat (block_timestamp ctx) \<Longrightarrow> gov_exec X ctx c s = (r, s') \<Longrightarrow>
    gov_reach X (unat (block_timestamp ctx)) s'"
| reach_outside: "gov_reach X now s \<Longrightarrow> gov_reach X now (s\<lparr>gv_outside := x\<rparr>)"

section \<open>The invariant\<close>

text \<open>A live proposal is active or queued.\<close>

definition live :: "nat \<Rightarrow> Proposal \<Rightarrow> bool" where
  "live now p \<longleftrightarrow> pr_id p \<noteq> 0 \<and> \<not> pr_cancelled p \<and> \<not> pr_executed p \<and>
     (now \<le> unat (pr_votingDeadline p) \<or> pr_snapshotQuorum p \<le> pr_votesFor p)"

definition proposal_ok :: "nat \<Rightarrow> Proposal \<Rightarrow> bool" where
  "proposal_ok now p \<longleftrightarrow>
     0 < pr_snapshotQuorum p \<and> length (pr_vaults p) = length (pr_bps p) \<and> sum_list (map unat (pr_bps p)) = 10000 \<and>
     unat (pr_votingDeadline p) \<le> unat (pr_executableAfter p) \<and> \<not> (pr_executed p \<and> pr_cancelled p) \<and>
     (pr_executed p \<longrightarrow> pr_snapshotQuorum p \<le> pr_votesFor p \<and> unat (pr_votingDeadline p) < now \<and> unat (pr_executableAfter p) \<le> now)"

definition votes_of :: "u256 \<Rightarrow> gov_event list \<Rightarrow> (address \<times> nat) list" where
  "votes_of i evs = concat (map (\<lambda>e. case e of VoteCastEvent j a n _ \<Rightarrow> if j = i then [(a, unat n)] else [] | _ \<Rightarrow> []) evs)"

definition params_ok :: "'x governance \<Rightarrow> bool" where
  "params_ok s \<longleftrightarrow> 0 < gv_quorumThreshold s \<and> MIN_VOTING_PERIOD \<le> gv_votingPeriod s"

definition ids_ok :: "nat \<Rightarrow> 'x governance \<Rightarrow> bool" where
  "ids_ok now s \<longleftrightarrow>
     (\<forall>i. if i = 0 \<or> gv_currentProposalId s < i then gv_proposals s i = no_proposal
          else pr_id (gv_proposals s i) = i \<and> proposal_ok now (gv_proposals s i))"

definition one_live :: "nat \<Rightarrow> 'x governance \<Rightarrow> bool" where
  "one_live now s \<longleftrightarrow> (\<forall>i. live now (gv_proposals s i) \<longrightarrow> i = gv_currentProposalId s)"

definition tallies_ok :: "'x governance \<Rightarrow> bool" where
  "tallies_ok s \<longleftrightarrow>
     (\<forall>i. distinct (map fst (votes_of i (gv_events s))) \<and>
          (\<forall>a. gv_hasVoted s i a \<longleftrightarrow> a \<in> set (map fst (votes_of i (gv_events s)))) \<and>
          unat (pr_votesFor (gv_proposals s i)) = sum_list (map snd (votes_of i (gv_events s))))"

definition power_ok :: "'x governance \<Rightarrow> bool" where
  "power_ok s \<longleftrightarrow> unat (gv_totalVotingPower s) = (\<Sum>a \<in> UNIV. unat (gv_votingPower s a))"

definition gov_inv :: "nat \<Rightarrow> 'x governance \<Rightarrow> bool" where
  "gov_inv now s \<longleftrightarrow> params_ok s \<and> ids_ok now s \<and> one_live now s \<and> tallies_ok s \<and> power_ok s"

lemmas gov_inv_defs = gov_inv_def params_ok_def ids_ok_def one_live_def tallies_ok_def power_ok_def

lemma votes_of_simps [simp]:
  "votes_of i [] = []"
  "votes_of i (evs @ [e]) = votes_of i evs @ (case e of VoteCastEvent j a n _ \<Rightarrow> if j = i then [(a, unat n)] else [] | _ \<Rightarrow> [])"
  by (simp_all add: votes_of_def)

lemma gov_inv_later:
  assumes "gov_inv now s" "now \<le> now'"
  shows "gov_inv now' s"
proof -
  have "live now' p \<Longrightarrow> live now p" for p using assms(2) by (auto simp: live_def)
  moreover have "proposal_ok now p \<Longrightarrow> proposal_ok now' p" for p using assms(2) by (auto simp: proposal_ok_def)
  ultimately show ?thesis using assms(1) unfolding gov_inv_def ids_ok_def one_live_def by metis
qed

text \<open>The part of the storage the invariant speaks of, apart from the parameters and the power table.\<close>

definition same_ballots :: "'x governance \<Rightarrow> 'x governance \<Rightarrow> bool" where
  "same_ballots s t \<longleftrightarrow>
     gv_proposals t = gv_proposals s \<and> gv_currentProposalId t = gv_currentProposalId s \<and> gv_hasVoted t = gv_hasVoted s \<and>
     (\<forall>i. votes_of i (gv_events t) = votes_of i (gv_events s))"

lemma gov_inv_ballots:
  "same_ballots s t \<Longrightarrow> params_ok t \<Longrightarrow> power_ok t \<Longrightarrow> gov_inv now s \<Longrightarrow> gov_inv now t"
  by (simp add: gov_inv_def ids_ok_def one_live_def tallies_ok_def same_ballots_def)

lemma sum_fun_upd:
  fixes f :: "'a::finite \<Rightarrow> nat"
  shows "(\<Sum>a \<in> UNIV. (f(b := n)) a) + f b = (\<Sum>a \<in> UNIV. f a) + n"
  by (simp add: sum.remove [of UNIV b])

lemma setVotingPower_inv:
  assumes "gov_inv now s" "setVotingPower X ctx voter pow s = (Inr u, t)"
  shows "gov_inv now t"
proof -
  let ?old = "gv_votingPower s voter" and ?tot = "gv_totalVotingPower s"
  have le: "?old \<le> ?tot" and lt: "unat (?tot - ?old) + unat pow < 2 ^ 256"
    and t: "t = s\<lparr>gv_totalVotingPower := ?tot - ?old + pow, gv_votingPower := (gv_votingPower s)(voter := pow),
      gv_events := gv_events s @ [VotingPowerSet voter ?old pow]\<rparr>"
    using assms(2) by (auto simp: setVotingPower_def only_admin_def gov_emit_def io_simps)
  have f: "(\<Sum>a \<in> UNIV. unat (((gv_votingPower s)(voter := pow)) a)) =
      (\<Sum>a \<in> UNIV. ((\<lambda>a. unat (gv_votingPower s a))(voter := unat pow)) a)" by (rule sum.cong) auto
  have "unat (?tot - ?old + pow) = unat ?tot - unat ?old + unat pow" using le lt by (simp add: unat_checked unat_sub)
  moreover have "unat ?old \<le> unat ?tot" using le by (simp add: word_le_nat_alt)
  ultimately have "power_ok t"
    using assms(1) sum_fun_upd [of "\<lambda>a. unat (gv_votingPower s a)" voter "unat pow"]
    by (simp add: t gov_inv_def power_ok_def f del: fun_upd_apply)
  moreover have "params_ok t" using assms(1) by (simp add: t gov_inv_def params_ok_def)
  ultimately show ?thesis by (intro gov_inv_ballots [OF _ _ _ assms(1)]) (simp_all add: same_ballots_def t)
qed

lemma params_inv:
  assumes "gov_inv now s"
  shows "setQuorumThreshold X ctx n s = (Inr u, t) \<Longrightarrow> gov_inv now t"
    "setVotingPeriod X ctx m s = (Inr u, t) \<Longrightarrow> gov_inv now t"
    "setExecutionDelay X ctx m s = (Inr u, t) \<Longrightarrow> gov_inv now t"
    "setDefaultWeights X ctx vs bs s = (Inr u, t) \<Longrightarrow> gov_inv now t"
    "clearVotedWeights X ctx s = (Inr u, t) \<Longrightarrow> gov_inv now t"
proof -
  have i: "params_ok s" "power_ok s" using assms by (simp_all add: gov_inv_def)
  note defs = setQuorumThreshold_def setVotingPeriod_def setExecutionDelay_def setDefaultWeights_def clearVotedWeights_def
    only_admin_def gov_emit_def router_call_def call_outside_def io_simps same_ballots_def params_ok_def power_ok_def
    MIN_QUORUM_THRESHOLD_def not_less word_less_1 word_neq_0_conv
  show "setQuorumThreshold X ctx n s = (Inr u, t) \<Longrightarrow> gov_inv now t" "setVotingPeriod X ctx m s = (Inr u, t) \<Longrightarrow> gov_inv now t"
    "setExecutionDelay X ctx m s = (Inr u, t) \<Longrightarrow> gov_inv now t" "setDefaultWeights X ctx vs bs s = (Inr u, t) \<Longrightarrow> gov_inv now t"
    "clearVotedWeights X ctx s = (Inr u, t) \<Longrightarrow> gov_inv now t"
    using i by (auto simp: defs split: sum.splits intro!: gov_inv_ballots [OF _ _ _ assms])
qed

lemma inv_slot:
  assumes "gov_inv now s" "pr_id (gv_proposals s i) \<noteq> 0"
  shows "i \<noteq> 0" "\<not> gv_currentProposalId s < i" "pr_id (gv_proposals s i) = i" "proposal_ok now (gv_proposals s i)"
  using assms by (auto simp: gov_inv_def ids_ok_def no_proposal_def split: if_splits dest!: spec [of _ i])

text \<open>Rewriting one proposal keeps the invariant when the new version is sound, is not revived and agrees with the votes.\<close>

lemma gov_inv_update:
  assumes "gov_inv now s" "pr_id (gv_proposals s i) \<noteq> 0"
    and t: "gv_proposals t = (gv_proposals s)(i := p)" "gv_currentProposalId t = gv_currentProposalId s" "params_ok t" "power_ok t"
    and p: "pr_id p = i" "proposal_ok now p" "live now p \<Longrightarrow> live now (gv_proposals s i)"
    and tally: "tallies_ok t"
  shows "gov_inv now t"
proof -
  note slot = inv_slot [OF assms(1,2)]
  have "ids_ok now t" using assms(1) slot p(1,2) by (simp add: gov_inv_def ids_ok_def t)
  moreover have "one_live now t" using assms(1) p(3) by (simp add: gov_inv_def one_live_def t)
  ultimately show ?thesis using t tally by (simp add: gov_inv_def)
qed

lemma cancel_inv:
  assumes "gov_inv now s" "cancel X ctx i s = (Inr u, t)"
  shows "gov_inv now t"
proof -
  let ?p = "gv_proposals s i"
  have p: "pr_id ?p \<noteq> 0" "\<not> pr_executed ?p"
    and t: "t = s\<lparr>gv_proposals := (gv_proposals s)(i := ?p\<lparr>pr_cancelled := True\<rparr>),
      gv_events := gv_events s @ [ProposalCancelledEvent i (msg_sender ctx)]\<rparr>"
    using assms(2) by (auto simp: cancel_def only_admin_def update_proposal_def gov_emit_def io_simps)
  show ?thesis
    by (rule gov_inv_update [OF assms(1) p(1), where p = "?p\<lparr>pr_cancelled := True\<rparr>"])
      (use assms(1) p inv_slot [OF assms(1) p(1)] in
        \<open>auto simp: t gov_inv_def params_ok_def power_ok_def tallies_ok_def proposal_ok_def live_def\<close>)
qed

lemma vote_inv:
  assumes "gov_inv (unat (block_timestamp ctx)) s" "vote ctx i s = (Inr u, t)"
  shows "gov_inv (unat (block_timestamp ctx)) t"
proof -
  let ?p = "gv_proposals s i" and ?v = "msg_sender ctx" and ?now = "unat (block_timestamp ctx)"
  let ?n = "gv_votingPower s ?v"
  have p: "pr_id ?p \<noteq> 0" "proposal_state ctx ?p = Active" "\<not> gv_hasVoted s i ?v" "unat (pr_votesFor ?p) + unat ?n < 2 ^ 256"
    and t: "t = s\<lparr>gv_hasVoted := (gv_hasVoted s)(i := (gv_hasVoted s i)(?v := True)),
      gv_proposals := (gv_proposals s)(i := ?p\<lparr>pr_votesFor := pr_votesFor ?p + ?n\<rparr>),
      gv_events := gv_events s @ [VoteCastEvent i ?v ?n (pr_votesFor ?p + ?n)]\<rparr>"
    using assms(2) by (auto simp: vote_def update_proposal_def gov_emit_def io_simps)
  have act: "\<not> pr_cancelled ?p" "\<not> pr_executed ?p" "?now \<le> unat (pr_votingDeadline ?p)"
    using p(2) by (auto simp: proposal_state_def split: if_splits)
  have tal: "tallies_ok s" using assms(1) by (simp add: gov_inv_def)
  then have "?v \<notin> set (map fst (votes_of i (gv_events s)))" using p(3) unfolding tallies_ok_def by blast
  then have "tallies_ok t" using tal p(4) by (auto simp: tallies_ok_def t unat_checked)
  then show ?thesis
    by (rule gov_inv_update [OF assms(1) p(1), where p = "?p\<lparr>pr_votesFor := pr_votesFor ?p + ?n\<rparr>", rotated -1])
      (use assms(1) p act inv_slot [OF assms(1) p(1)] in
        \<open>auto simp: t gov_inv_def params_ok_def power_ok_def proposal_ok_def live_def\<close>)
qed

lemma execute_Inr:
  assumes "execute X ctx i s = (Inr u, t)"
  defines "p \<equiv> gv_proposals s i"
  shows "pr_id p \<noteq> 0 \<and> \<not> pr_executed p \<and> \<not> pr_cancelled p \<and> unat (pr_votingDeadline p) < unat (block_timestamp ctx) \<and>
    pr_snapshotQuorum p \<le> pr_votesFor p \<and> unat (pr_executableAfter p) \<le> unat (block_timestamp ctx) \<and>
    (\<exists>x. gx_set_weights X (pr_vaults p) (pr_bps p) (gv_outside s) = Inr ((), x) \<and>
       t = s\<lparr>gv_proposals := (gv_proposals s)(i := p\<lparr>pr_executed := True\<rparr>), gv_outside := x,
         gv_events := gv_events s @ [ProposalExecutedEvent i (msg_sender ctx), WeightsAppliedEvent i (pr_vaults p) (pr_bps p)]\<rparr>)"
  using assms(1) unfolding p_def
  by (auto simp: execute_def update_proposal_def gov_emit_def router_call_def call_outside_def io_simps proposal_state_def not_less
      split: if_splits sum.splits)

lemma execute_inv:
  assumes "gov_inv (unat (block_timestamp ctx)) s" "execute X ctx i s = (Inr u, t)"
  shows "gov_inv (unat (block_timestamp ctx)) t"
proof -
  let ?p = "gv_proposals s i"
  note e = execute_Inr [OF assms(2)]
  then obtain x where t: "t = s\<lparr>gv_proposals := (gv_proposals s)(i := ?p\<lparr>pr_executed := True\<rparr>), gv_outside := x,
      gv_events := (gv_events s @ [ProposalExecutedEvent i (msg_sender ctx)]) @ [WeightsAppliedEvent i (pr_vaults ?p) (pr_bps ?p)]\<rparr>"
    by auto
  have id: "pr_id ?p \<noteq> 0" using e by simp
  show ?thesis
    by (rule gov_inv_update [OF assms(1) id, where p = "?p\<lparr>pr_executed := True\<rparr>"])
      (use assms(1) e inv_slot [OF assms(1) id] in
        \<open>auto simp: t gov_inv_def params_ok_def power_ok_def tallies_ok_def proposal_ok_def live_def simp del: append_assoc\<close>)
qed

lemma sum_bps_Inr:
  "sum_bps bs acc s = (Inr r, t) \<Longrightarrow> unat r = unat acc + sum_list (map unat bs) \<and> t = s"
  by (induction bs arbitrary: acc) (auto simp: io_simps unat_checked)

lemma check_eligible_Inr: "check_eligible X vs s = (Inr u, t) \<Longrightarrow> t = s"
  by (induction vs) (auto simp: io_simps)

lemma propose_Inr:
  assumes "propose X ctx vs bs s = (Inr i, t)"
  defines "d \<equiv> ucast (block_timestamp ctx) + gv_votingPeriod s"
  shows "gx_is_admin X (gv_outside s) (msg_sender ctx) \<and> length vs = length bs \<and> sum_list (map unat bs) = 10000 \<and>
    (gv_currentProposalId s \<noteq> 0 \<longrightarrow> proposal_state ctx (gv_proposals s (gv_currentProposalId s)) \<notin> {Active, Queued}) \<and>
    unat i = unat (gv_currentProposalId s) + 1 \<and> unat d \<le> unat (d + gv_executionDelay s) \<and>
    t = s\<lparr>gv_currentProposalId := i,
      gv_proposals := (gv_proposals s)(i := (gv_proposals s i)\<lparr>pr_id := i, pr_proposer := msg_sender ctx,
        pr_vaults := pr_vaults (gv_proposals s i) @ vs, pr_bps := pr_bps (gv_proposals s i) @ bs, pr_votingDeadline := d,
        pr_executableAfter := d + gv_executionDelay s, pr_snapshotQuorum := gv_quorumThreshold s\<rparr>),
      gv_events := gv_events s @ [ProposalCreatedEvent i (msg_sender ctx) vs bs d]\<rparr>"
  using assms(1)
  by (auto simp: propose_def only_admin_def gov_emit_def io_simps unat_checked BPS_DENOMINATOR_def d_def [symmetric]
      dest!: sum_bps_Inr check_eligible_Inr)

lemma propose_inv:
  assumes "gov_inv (unat (block_timestamp ctx)) s" "propose X ctx vs bs s = (Inr i, t)"
  shows "gov_inv (unat (block_timestamp ctx)) t"
proof -
  let ?now = "unat (block_timestamp ctx)" and ?c = "gv_currentProposalId s"
  note p = propose_Inr [OF assms(2)]
  have inv: "params_ok s" "ids_ok ?now s" "one_live ?now s" "tallies_ok s" "power_ok s"
    using assms(1) by (simp_all add: gov_inv_def)
  have u: "unat i = unat ?c + 1" using p by simp
  have i: "?c < i" using u by (simp add: word_less_nat_alt)
  have i0: "i \<noteq> 0" using u by auto
  have upto: "i < j \<longleftrightarrow> ?c < j" if "j \<noteq> i" for j
    using u that by (simp add: word_less_nat_alt word_unat_eq_iff) linarith
  have fresh: "gv_proposals s i = no_proposal" using inv(2) i unfolding ids_ok_def by simp
  define q where "q = gv_proposals t i"
  have q: "pr_id q = i" "pr_bps q = bs" "pr_vaults q = vs" "pr_snapshotQuorum q = gv_quorumThreshold s" "\<not> pr_executed q"
    "unat (pr_votingDeadline q) \<le> unat (pr_executableAfter q)" "pr_votesFor q = 0"
    using p fresh by (auto simp: q_def no_proposal_def)
  have t: "gv_proposals t = (gv_proposals s)(i := q)" "gv_currentProposalId t = i" using p by (auto simp: q_def)
  have "proposal_ok ?now q" using q p inv(1) by (simp add: proposal_ok_def params_ok_def)
  then have "ids_ok ?now t" using inv(2) i i0 upto q(1) unfolding ids_ok_def t by simp
  moreover have "\<not> live ?now (gv_proposals s ?c)"
  proof (cases "?c = 0")
    case True
    then have "gv_proposals s ?c = no_proposal" using inv(2) unfolding ids_ok_def by simp
    then show ?thesis by (simp add: live_def no_proposal_def)
  next
    case False
    then have "proposal_state ctx (gv_proposals s ?c) \<notin> {Active, Queued}" using p by simp
    then show ?thesis by (auto simp: live_def proposal_state_def split: if_splits)
  qed
  then have "\<not> live ?now (gv_proposals s j)" for j using inv(3) unfolding one_live_def by metis
  then have "one_live ?now t" by (auto simp: one_live_def t)
  moreover have v: "votes_of j (gv_events t) = votes_of j (gv_events s)" "gv_hasVoted t = gv_hasVoted s" for j using p by simp_all
  have "pr_votesFor (gv_proposals t j) = pr_votesFor (gv_proposals s j)" for j by (simp add: t q(7) fresh no_proposal_def)
  then have "tallies_ok t" using inv(4) unfolding tallies_ok_def v by simp
  moreover have "params_ok t" "power_ok t" using inv(1,5) p by (simp_all add: params_ok_def power_ok_def)
  ultimately show ?thesis by (simp add: gov_inv_def)
qed

lemma entry_gov_inv:
  assumes "gov_inv (unat (block_timestamp ctx)) s" "gov_entry X ctx c s = (Inr (), t)"
  shows "gov_inv (unat (block_timestamp ctx)) t"
  using assms
  by (cases c) (auto simp: io_simps intro: params_inv setVotingPower_inv propose_inv cancel_inv vote_inv execute_inv)

lemma new_gov_inv:
  assumes "governance_new X r admin period delay quorum (blank_governance x) = (Inr (), s)"
  shows "gov_inv now s"
  using assms
  by (auto simp: governance_new_def blank_governance_def io_simps gov_inv_defs live_def no_proposal_def MIN_QUORUM_THRESHOLD_def
      not_less word_less_1 word_neq_0_conv)

lemma reach_gov_inv: "gov_reach X now s \<Longrightarrow> gov_inv now s"
proof (induction rule: gov_reach.induct)
  case (reach_call now s ctx c r s')
  then have i: "gov_inv (unat (block_timestamp ctx)) s" using gov_inv_later by blast
  show ?case
  proof (cases r)
    case (Inl e)
    then show ?thesis using i reach_call(3) transact_Inl unfolding gov_exec_def by metis
  next
    case (Inr u)
    then show ?thesis using i reach_call(3) entry_gov_inv by (simp add: gov_exec_def transact_Inr)
  qed
next
  case (reach_outside now s x)
  then show ?case by (simp add: gov_inv_defs)
qed (rule new_gov_inv)

section \<open>Single calls\<close>

lemma admin_router_calls:
  "setDefaultWeights X ctx vs bs s = (Inr (), t) \<Longrightarrow>
     gx_is_admin X (gv_outside s) (msg_sender ctx) \<and> gx_set_default_weights X vs bs (gv_outside s) = Inr ((), gv_outside t)"
  "clearVotedWeights X ctx s = (Inr (), t) \<Longrightarrow>
     gx_is_admin X (gv_outside s) (msg_sender ctx) \<and> gx_clear_voted_weights X (gv_outside s) = Inr ((), gv_outside t)"
  by (auto simp: setDefaultWeights_def clearVotedWeights_def only_admin_def router_call_def call_outside_def io_simps
      split: sum.splits)

lemma entry_keeps_outside:
  assumes "gov_entry X ctx c s = (Inr (), t)" "gv_outside t \<noteq> gv_outside s"
  shows "(\<exists>i. c = Execute i) \<or> (\<exists>vs bs. c = SetDefaultWeights vs bs) \<or> c = ClearVotedWeights"
  using assms
  by (cases c) (auto simp: setQuorumThreshold_def setVotingPeriod_def setExecutionDelay_def setVotingPower_def cancel_def vote_def
      only_admin_def update_proposal_def gov_emit_def io_simps dest!: propose_Inr)

text \<open>A proposal never loses its content, and what is executed or cancelled stays so.\<close>

definition settles_forward :: "Proposal \<Rightarrow> Proposal \<Rightarrow> bool" where
  "settles_forward p q \<longleftrightarrow>
     pr_id q = pr_id p \<and> pr_proposer q = pr_proposer p \<and> pr_vaults q = pr_vaults p \<and> pr_bps q = pr_bps p \<and>
     pr_votingDeadline q = pr_votingDeadline p \<and> pr_executableAfter q = pr_executableAfter p \<and>
     pr_snapshotQuorum q = pr_snapshotQuorum p \<and> pr_votesFor p \<le> pr_votesFor q \<and>
     (pr_executed p \<longrightarrow> pr_executed q) \<and> (pr_cancelled p \<longrightarrow> pr_cancelled q)"

lemma entry_settles_forward:
  assumes "gov_inv now s" "pr_id (gv_proposals s i) \<noteq> 0" "gov_entry X ctx c s = (Inr (), t)"
  shows "settles_forward (gv_proposals s i) (gv_proposals t i)"
proof -
  have le: "(a :: u256) \<le> a + b" if "unat a + unat b < 2 ^ 256" for a b
    using that by (simp add: word_le_nat_alt unat_checked)
  show ?thesis
  proof (cases c)
    case (Propose vs bs)
    then obtain j where p: "propose X ctx vs bs s = (Inr j, t)" using assms(3) by (auto simp: io_simps)
    have "unat j = unat (gv_currentProposalId s) + 1" using propose_Inr [OF p] by simp
    then have "j \<noteq> i" using inv_slot(2) [OF assms(1,2)] by (auto simp: word_less_nat_alt)
    then have "gv_proposals t i = gv_proposals s i" using propose_Inr [OF p] by simp
    then show ?thesis by (simp add: settles_forward_def)
  next
    case (Execute j)
    then have "execute X ctx j s = (Inr (), t)" using assms(3) by simp
    from execute_Inr [OF this] show ?thesis by (auto simp: settles_forward_def)
  qed (use assms(3) le in \<open>auto simp: settles_forward_def setQuorumThreshold_def setVotingPeriod_def setExecutionDelay_def
      setVotingPower_def setDefaultWeights_def clearVotedWeights_def cancel_def vote_def only_admin_def update_proposal_def
      gov_emit_def router_call_def call_outside_def io_simps split: sum.splits\<close>)
qed

lemma sum_bps_ok:
  "unat acc + sum_list (map unat bs) < 2 ^ 256 \<Longrightarrow>
   \<exists>r. sum_bps bs acc s = (Inr r, s) \<and> unat r = unat acc + sum_list (map unat bs)"
proof (induction bs arbitrary: acc)
  case (Cons b bs)
  then have "unat acc + unat b < 2 ^ 256" "unat (acc + b) = unat acc + unat b" by (simp_all add: unat_checked)
  then show ?case using Cons.IH [of "acc + b"] Cons.prems by (simp add: checked_add_def io_eval add.assoc)
qed (simp add: io_eval)

lemma check_eligible_ok:
  "\<forall>v \<in> set vs. gx_eligible X v (gv_outside s) \<Longrightarrow> check_eligible X vs s = (Inr (), s)"
  by (induction vs) (simp_all add: io_eval)

lemma propose_ok:
  assumes "gx_is_admin X (gv_outside s) (msg_sender ctx)" "length vs = length bs" "sum_list (map unat bs) = 10000"
    "\<forall>v \<in> set vs. gx_eligible X v (gv_outside s)"
    "gv_currentProposalId s = 0 \<or> proposal_state ctx (gv_proposals s (gv_currentProposalId s)) \<notin> {Active, Queued}"
    "unat (gv_currentProposalId s) + 1 < 2 ^ 256"
    "unat (block_timestamp ctx) + unat (gv_votingPeriod s) + unat (gv_executionDelay s) < 2 ^ 64"
  shows "\<exists>t. gov_exec X ctx (Propose vs bs) s = (Inr (), t)"
proof -
  obtain r where r: "sum_bps bs 0 s = (Inr r, s)" "unat r = 10000" using sum_bps_ok [of 0 bs s] assms(3) by auto
  then have tot: "r = BPS_DENOMINATOR" by (simp add: BPS_DENOMINATOR_def word_unat_eq_iff)
  have ts: "unat (ucast (block_timestamp ctx) :: u64) = unat (block_timestamp ctx)"
    using assms(7) by (simp add: unsigned_ucast_eq take_bit_nat_eq_self)
  have live: "\<not> (gv_currentProposalId s \<noteq> 0 \<and>
      (proposal_state ctx (gv_proposals s (gv_currentProposalId s)) = Active \<or>
       proposal_state ctx (gv_proposals s (gv_currentProposalId s)) = Queued))" using assms(5) by auto
  have "\<exists>i t. propose X ctx vs bs s = (Inr i, t)"
    unfolding propose_def
    using assms(1,2,6,7) r(1) tot ts check_eligible_ok [OF assms(4)]
    by (simp add: bindM_eval getM_def refuse_if_def retM_def only_admin_def live checked_add_def unat_checked gov_emit_def modifyM_def)
  then show ?thesis by (auto simp: gov_exec_def transact_def io_eval)
qed

section \<open>A concrete contract\<close>

text \<open>A router that stores the vector it is given; account 100 administers, accounts 5 and 6 vote.\<close>

type_synonym demo_router = "address set \<times> (address list \<times> u256 list)"

definition demo_gov_externals :: "demo_router gov_externals" where
  "demo_gov_externals =
     \<lparr>gx_is_admin = (\<lambda>x a. a \<in> fst x), gx_grant_admin = (\<lambda>a x. (insert a (fst x), snd x)), gx_eligible = (\<lambda>v _. v \<noteq> 0),
      gx_set_weights = (\<lambda>vs bs x. Inr ((), (fst x, (vs, bs)))), gx_set_default_weights = (\<lambda>_ _ x. Inr ((), x)),
      gx_clear_voted_weights = (\<lambda>x. Inr ((), (fst x, ([], [])))), gx_get_weights = snd\<rparr>"

definition demo_gov_tx :: "address \<Rightarrow> u256 \<Rightarrow> tx_ctx" where
  "demo_gov_tx sender now = \<lparr>msg_sender = sender, block_timestamp = now, block_number = 1, block_chainid = 31337\<rparr>"

fun gov_calls :: "'x gov_externals \<Rightarrow> (address \<times> u256 \<times> gov_call) list \<Rightarrow> 'x governance \<Rightarrow> 'x governance" where
  "gov_calls X [] s = s"
| "gov_calls X ((a, now, c) # cs) s = gov_calls X cs (snd (gov_exec X (demo_gov_tx a now) c s))"

definition demo_gov0 :: "demo_router governance" where
  "demo_gov0 = snd (governance_new demo_gov_externals 1 100 3600 60 2 (blank_governance ({}, ([], []))))"

definition demo_gov1 :: "demo_router governance" where
  "demo_gov1 = gov_calls demo_gov_externals [(100, 1000, SetVotingPower 5 2), (100, 1000, Propose [3, 13] [6000, 4000]), (5, 2000, Vote 1)] demo_gov0"

lemma gov_calls_reach:
  "gov_reach X now s \<Longrightarrow> sorted (now # map (\<lambda>(a, t, c). unat t) cs) \<Longrightarrow>
   gov_reach X (last (now # map (\<lambda>(a, t, c). unat t) cs)) (gov_calls X cs s)"
proof (induction cs arbitrary: now s)
  case (Cons k cs)
  obtain a t c where k: "k = (a, t, c)" by (cases k)
  have "gov_reach X (unat t) (snd (gov_exec X (demo_gov_tx a t) c s))"
    using reach_call [OF Cons.prems(1), of "demo_gov_tx a t" c, OF _ surjective_pairing] Cons.prems(2)
    by (simp add: k demo_gov_tx_def)
  from Cons.IH [OF this] show ?case using Cons.prems(2) by (simp add: k)
qed simp

lemma demo_gov0_reach: "gov_reach demo_gov_externals 0 demo_gov0"
proof -
  have "governance_new demo_gov_externals 1 100 3600 60 2 (blank_governance ({}, ([], []))) = (Inr (), demo_gov0)"
    by (simp add: demo_gov0_def governance_new_def io_eval MIN_QUORUM_THRESHOLD_def MIN_VOTING_PERIOD_def)
  then show ?thesis by (rule reach_new)
qed

lemma demo_gov1_reach: "gov_reach demo_gov_externals 2000 demo_gov1"
  using gov_calls_reach [OF demo_gov0_reach, of "[(100, 1000, SetVotingPower 5 2), (100, 1000, Propose [3, 13] [6000, 4000]), (5, 2000, Vote 1)]"]
  by (simp add: demo_gov1_def)

lemma demo_gov1_eval:
  "gv_proposals demo_gov1 1 = \<lparr>pr_id = 1, pr_proposer = 100, pr_vaults = [3, 13], pr_bps = [6000, 4000], pr_votingDeadline = 4600,
     pr_executableAfter = 4660, pr_votesFor = 2, pr_snapshotQuorum = 2, pr_executed = False, pr_cancelled = False\<rparr>"
  "gv_currentProposalId demo_gov1 = 1" "gv_outside demo_gov1 = ({100}, ([], []))" "gv_votingPeriod demo_gov1 = 3600"
  "gv_executionDelay demo_gov1 = 60"
  by (simp_all add: demo_gov1_def demo_gov0_def governance_new_def blank_governance_def no_proposal_def gov_exec_def transact_def
      setVotingPower_def propose_def vote_def only_admin_def update_proposal_def gov_emit_def proposal_state_def checked_add_def
      checked_sub_def BPS_DENOMINATOR_def demo_gov_externals_def demo_gov_tx_def io_eval MIN_QUORUM_THRESHOLD_def MIN_VOTING_PERIOD_def)

section \<open>Properties\<close>

text \<open>
  C12. In every state the contract reaches while time does not go back: quorum and voting period are above their minima; the
  proposals 1 to the current one, and no other, exist, with weights that sum to 10000 basis points, and one that was executed
  had its quorum and its delays behind it; at most one proposal is active or queued, the current one; the votes of a proposal
  are those of different accounts and add up to its tally; the total voting power is the sum of what was assigned.
\<close>
theorem governance_invariant:
  assumes "gov_reach X now s"
  shows "params_ok s \<and> ids_ok now s \<and> one_live now s \<and> tallies_ok s \<and> power_ok s"
  using reach_gov_inv [OF assms] by (simp add: gov_inv_def)

theorem governance_invariant_witness:
  "params_ok demo_gov1 \<and> ids_ok 2000 demo_gov1 \<and> one_live 2000 demo_gov1 \<and> tallies_ok demo_gov1 \<and> power_ok demo_gov1"
  by (rule governance_invariant [OF demo_gov1_reach])

text \<open>
  C13. The router changes in exactly two ways, whatever transaction is sent and by whom: by the execution of a proposal that
  is neither executed nor cancelled, after its deadline and its delay, with votes of different accounts that reach the quorum
  taken when it was proposed, which sets the proposed vector and marks the proposal executed; or by an administrator who
  sets the default vector or clears the voted one. So a sender who is no administrator changes the router only by executing a
  passed proposal.
\<close>
theorem weights_only_by_passed_vote:
  assumes "gov_reach X now s" and "now \<le> unat (block_timestamp ctx)" and "gov_exec X ctx c s = (r, t)"
    and "gv_outside t \<noteq> gv_outside s"
  shows "(\<exists>i. c = Execute i \<and>
      (let p = gv_proposals s i; votes = votes_of i (gv_events s) in
       \<not> pr_executed p \<and> \<not> pr_cancelled p \<and> unat (pr_votingDeadline p) < unat (block_timestamp ctx) \<and>
       unat (pr_executableAfter p) \<le> unat (block_timestamp ctx) \<and> distinct (map fst votes) \<and>
       unat (pr_snapshotQuorum p) \<le> sum_list (map snd votes) \<and> sum_list (map unat (pr_bps p)) = 10000 \<and>
       gx_set_weights X (pr_vaults p) (pr_bps p) (gv_outside s) = Inr ((), gv_outside t) \<and> pr_executed (gv_proposals t i))) \<or>
    gx_is_admin X (gv_outside s) (msg_sender ctx) \<and>
      ((\<exists>vs bs. c = SetDefaultWeights vs bs \<and> gx_set_default_weights X vs bs (gv_outside s) = Inr ((), gv_outside t)) \<or>
       c = ClearVotedWeights \<and> gx_clear_voted_weights X (gv_outside s) = Inr ((), gv_outside t))"
proof -
  have "r = Inr ()"
  proof (cases r)
    case (Inl e)
    then show ?thesis using assms(3,4) transact_Inl unfolding gov_exec_def by metis
  qed simp
  then have e: "gov_entry X ctx c s = (Inr (), t)" using assms(3) by (simp add: gov_exec_def transact_Inr)
  consider (voted) i where "c = Execute i" | (default) vs bs where "c = SetDefaultWeights vs bs" | (cleared) "c = ClearVotedWeights"
    using entry_keeps_outside [OF e assms(4)] by blast
  then show ?thesis
  proof cases
    case (voted i)
    then have ex: "execute X ctx i s = (Inr (), t)" using e by simp
    note x = execute_Inr [OF ex]
    have inv: "gov_inv now s" using reach_gov_inv [OF assms(1)] .
    have "proposal_ok now (gv_proposals s i)" using inv_slot(4) [OF inv] x by blast
    moreover have "tallies_ok s" using inv by (simp add: gov_inv_def)
    ultimately show ?thesis using voted x by (auto simp: Let_def proposal_ok_def tallies_ok_def word_le_nat_alt)
  next
    case default
    then show ?thesis using e admin_router_calls(1) by fastforce
  next
    case cleared
    then show ?thesis using e admin_router_calls(2) by fastforce
  qed
qed

theorem weights_only_by_passed_vote_witness:
  "\<not> gx_is_admin demo_gov_externals (gv_outside demo_gov1) 7 \<and> 2 \<le> sum_list (map snd (votes_of 1 (gv_events demo_gov1)))"
proof -
  obtain r t where e: "gov_exec demo_gov_externals (demo_gov_tx 7 5000) (Execute 1) demo_gov1 = (r, t)" by fastforce
  then have "gv_outside t = ({100}, ([3, 13], [6000, 4000]))"
    by (auto simp: gov_exec_def transact_def execute_def update_proposal_def gov_emit_def router_call_def call_outside_def
        proposal_state_def demo_gov1_eval demo_gov_externals_def demo_gov_tx_def io_eval)
  then have "gv_outside t \<noteq> gv_outside demo_gov1" by (simp add: demo_gov1_eval)
  moreover have "\<not> gx_is_admin demo_gov_externals (gv_outside demo_gov1) 7" by (simp add: demo_gov_externals_def demo_gov1_eval)
  ultimately show ?thesis
    using weights_only_by_passed_vote [OF demo_gov1_reach _ e] by (auto simp: demo_gov_tx_def demo_gov1_eval Let_def)
qed

text \<open>
  A call changes no proposal's weights, deadlines or quorum, takes no vote back, and leaves executed and cancelled proposals
  as they are: a later change of the quorum or of voting power neither defeats nor passes it.
\<close>
theorem proposals_settle_forward:
  assumes "gov_reach X now s" and "pr_id (gv_proposals s i) \<noteq> 0" and "gov_exec X ctx c s = (r, t)"
  shows "settles_forward (gv_proposals s i) (gv_proposals t i)"
proof (cases r)
  case (Inl e)
  then have "t = s" using assms(3) transact_Inl unfolding gov_exec_def by metis
  then show ?thesis by (simp add: settles_forward_def)
next
  case (Inr u)
  then show ?thesis
    using entry_settles_forward [OF reach_gov_inv [OF assms(1)] assms(2)] assms(3) by (simp add: gov_exec_def transact_Inr)
qed

theorem proposals_settle_forward_witness:
  "\<exists>t. gov_exec demo_gov_externals (demo_gov_tx 100 2500) (SetQuorumThreshold 9) demo_gov1 = (Inr (), t) \<and>
     settles_forward (gv_proposals demo_gov1 1) (gv_proposals t 1)"
proof -
  obtain t where "gov_exec demo_gov_externals (demo_gov_tx 100 2500) (SetQuorumThreshold 9) demo_gov1 = (Inr (), t)"
    by (simp add: gov_exec_def transact_def setQuorumThreshold_def only_admin_def gov_emit_def demo_gov1_eval demo_gov_externals_def
        demo_gov_tx_def io_eval MIN_QUORUM_THRESHOLD_def)
  then show ?thesis using proposals_settle_forward [OF demo_gov1_reach, of 1] by (auto simp: demo_gov1_eval)
qed

text \<open>
  Governance is never stuck: in every reachable state an administrator can propose any vector of eligible vaults that sums to
  10000, at once or after cancelling the proposal that is active or queued, while identifiers and times fit their types.
\<close>
theorem governance_not_stuck:
  assumes "gov_reach X now s" and "gx_is_admin X (gv_outside s) (msg_sender ctx)"
    and "length vs = length bs" and "sum_list (map unat bs) = 10000" and "\<forall>v \<in> set vs. gx_eligible X v (gv_outside s)"
    and "unat (gv_currentProposalId s) + 1 < 2 ^ 256"
    and "unat (block_timestamp ctx) + unat (gv_votingPeriod s) + unat (gv_executionDelay s) < 2 ^ 64"
  shows "(\<exists>t. gov_exec X ctx (Propose vs bs) s = (Inr (), t)) \<or>
    (\<exists>t u. gov_exec X ctx (Cancel (gv_currentProposalId s)) s = (Inr (), t) \<and> gov_exec X ctx (Propose vs bs) t = (Inr (), u))"
proof -
  let ?c = "gv_currentProposalId s"
  let ?p = "gv_proposals s ?c"
  show ?thesis
  proof (cases "?c = 0 \<or> proposal_state ctx ?p \<notin> {Active, Queued}")
    case True
    then show ?thesis using propose_ok [OF assms(2-5) _ assms(6,7)] by blast
  next
    case False
    then have st: "\<not> pr_cancelled ?p" "\<not> pr_executed ?p" by (auto simp: proposal_state_def split: if_splits)
    have "pr_id ?p = ?c" using reach_gov_inv [OF assms(1)] False unfolding gov_inv_def ids_ok_def by auto
    then have id: "pr_id ?p \<noteq> 0" using False by simp
    let ?t = "s\<lparr>gv_proposals := (gv_proposals s)(?c := ?p\<lparr>pr_cancelled := True\<rparr>),
      gv_events := gv_events s @ [ProposalCancelledEvent ?c (msg_sender ctx)]\<rparr>"
    have t: "gov_exec X ctx (Cancel ?c) s = (Inr (), ?t)"
      using assms(2) st id by (simp add: gov_exec_def transact_def cancel_def only_admin_def update_proposal_def gov_emit_def io_eval)
    have "\<exists>u. gov_exec X ctx (Propose vs bs) ?t = (Inr (), u)"
      by (rule propose_ok) (use assms in \<open>simp_all add: proposal_state_def\<close>)
    then show ?thesis using t by blast
  qed
qed

theorem governance_not_stuck_witness:
  "(\<exists>t. gov_exec demo_gov_externals (demo_gov_tx 100 2500) (Propose [3] [10000]) demo_gov1 = (Inr (), t)) \<or>
   (\<exists>t u. gov_exec demo_gov_externals (demo_gov_tx 100 2500) (Cancel 1) demo_gov1 = (Inr (), t) \<and>
      gov_exec demo_gov_externals (demo_gov_tx 100 2500) (Propose [3] [10000]) t = (Inr (), u))"
  using governance_not_stuck [OF demo_gov1_reach, of "demo_gov_tx 100 2500" "[3]" "[10000]"]
  by (simp add: demo_gov1_eval demo_gov_externals_def demo_gov_tx_def)

end
