(* ===== verification/Governance_Explorer.thy ===== *)
theory Governance_Explorer
  imports Governance_Correct Explorer_Ingest
begin

text \<open>
  The governance contract and the indexer that follows it: what is stored after the indexer handled the logs of the events the
  contract emitted. The event decoders are parameters of the indexer; a log carries an event when they give the event back.
\<close>

section \<open>Logs of the contract\<close>

definition carries :: "ienv \<Rightarrow> Topics \<Rightarrow> gov_event \<Rightarrow> LogEntry \<Rightarrow> bool" where
  "carries E ts e lg \<longleftrightarrow>
     (case e of
        VoteCastEvent i a n tot \<Rightarrow>
          (\<exists>rest. le_topics lg = t_vote_cast ts # rest) \<and>
          ix_vote_cast E (le_address lg) (le_topics lg) (le_data lg) =
            Inr \<lparr>vc_proposalId = i, vc_voter = a, vc_power = n, vc_totalFor = tot\<rparr>
      | _ \<Rightarrow> \<forall>t rest. le_topics lg = t # rest \<longrightarrow> t \<noteq> t_vote_cast ts)"

definition vote_topic_own :: "Topics \<Rightarrow> bool" where
  "vote_topic_own ts \<longleftrightarrow>
     t_vote_cast ts \<notin> {t_agent_deposit ts, t_agent_deposit_routed ts, t_agent_authorized ts, t_agent_revoked ts, t_router_deposit ts,
       t_vault_allocated ts, t_vault_pulled ts, t_vault_rebalanced ts, t_vault_exit_fee_charged ts, t_paused ts, t_unpaused ts,
       t_vault_registered ts, t_vault_status_changed ts, t_proposal_created ts}"

text \<open>The votes stored for a proposal of a chain, in the order they were stored.\<close>

definition stored_votes :: "explorer_db \<Rightarrow> int \<Rightarrow> int \<Rightarrow> (address \<times> nat) list" where
  "stored_votes d c i =
     map (\<lambda>v. (vo_voter v, unat (vo_weight v))) (filter (\<lambda>v. vo_chain_id v = c \<and> vo_proposal_id v = i) (governance_votes d))"

section \<open>One log\<close>

definition same_votes :: "explorer_db \<Rightarrow> explorer_db \<Rightarrow> bool" where
  "same_votes d d' \<longleftrightarrow> governance_votes d' = governance_votes d"

interpretation sv: db_discipline same_votes
  by unfold_locales (auto simp: same_votes_def)

lemma same_votes_ops:
  "obeys (on_db same_votes) (upsert_contract E c a kd dep)"
  "obeys (on_db same_votes) (insert_agent_deposit E dr)"
  "obeys (on_db same_votes) (insert_router_deposit_leg E lr)"
  "obeys (on_db same_votes) (insert_agent_policy E pr)"
  "obeys (on_db same_votes) (upsert_vault E c a nam label cap st t n h)"
  "obeys (on_db same_votes) (insert_router_weight_snapshot E er)"
  "obeys (on_db same_votes) (update_vault_status E c a st t)"
  "obeys (on_db same_votes) (insert_proposal E c q n i h a descr t dl)"
  "obeys (on_db same_votes) (execute_proposal E c q n)"
  unfolding db_op_defs insert_proposal_def execute_proposal_def
  by (rule sv.put_obeys sv.update_obeys, simp add: same_votes_def)+

lemma other_log_keeps_votes:
  assumes "\<And>t rest. le_topics lg = t # rest \<Longrightarrow> t \<noteq> t_vote_cast ts"
  shows "obeys (on_db same_votes) (handle_log E cfg ts lg)"
proof (cases "le_topics lg")
  case Nil
  then show ?thesis by (simp add: handle_log_def)
next
  case (Cons t0 rest)
  have dec: "obeys (on_db same_votes) (decoded nam d lg k)" if "\<And>x. obeys (on_db same_votes) (k x)" for nam d k
    unfolding decoded_def using that by (intro sv.obeys_bindM sv.obeys_liftR)
  have run: "obeys (on_db same_votes) (dbM m)" if "obeys (on_db same_votes) m" for m :: "(dworld, DbError, nat) io"
    using that unfolding dbM_def by (rule sv.obeys_handleM) auto
  show ?thesis
    unfolding handle_log_def Cons list.case Eq_FalseI [OF assms [OF Cons]] if_False
    by (intro sv.obeys_if dec sv.obeys_bindM sv.obeys_retM run same_votes_ops)
qed

text \<open>A vote is stored unless one of the same voter on the same proposal is.\<close>

lemma vote_log_stores:
  assumes "carries E ts (VoteCastEvent i a n tot) lg" "vote_topic_own ts" "handle_log E cfg ts lg w = (Inr m, w')"
    and "\<And>v. v \<in> set (governance_votes (db w)) \<Longrightarrow> vo_chain_id v = ic_chain_id cfg \<Longrightarrow>
      vo_proposal_id v = u256_to_i64_or I64_MAX i \<Longrightarrow> vo_voter v \<noteq> a"
  shows "governance_votes (db w') = governance_votes (db w) @ [vote_of_log cfg lg
    \<lparr>vc_proposalId = i, vc_voter = a, vc_power = n, vc_totalFor = tot\<rparr>]"
proof -
  let ?r = "vote_of_log cfg lg \<lparr>vc_proposalId = i, vc_voter = a, vc_power = n, vc_totalFor = tot\<rparr>"
  obtain rest where lg: "le_topics lg = t_vote_cast ts # rest"
    "ix_vote_cast E (le_address lg) (t_vote_cast ts # rest) (le_data lg) =
      Inr \<lparr>vc_proposalId = i, vc_voter = a, vc_power = n, vc_totalFor = tot\<rparr>"
    using assms(1) by (auto simp: carries_def)
  have "handle_log E cfg ts lg w = dbM (insert_vote E ?r) w"
    using assms(2) lg by (simp add: handle_log_def vote_topic_own_def decoded_def io_eval)
  then have "dbM (insert_vote E ?r) w = (Inr m, w')" using assms(3) by simp
  then have "insert_vote E ?r w = (Inr m, w')" by (simp add: dbM_def io_simps)
  from insert_vote_Inr [OF this] show ?thesis
    using assms(4) by (force simp: cast_vote_def vote_key_def vote_of_log_def)
qed

section \<open>All logs\<close>

lemma stored_votes_append:
  "governance_votes d' = governance_votes d @ [v] \<Longrightarrow>
   stored_votes d' c i = stored_votes d c i @ (if vo_chain_id v = c \<and> vo_proposal_id v = i then [(vo_voter v, unat (vo_weight v))] else [])"
  by (simp add: stored_votes_def)

lemma votes_of_Cons:
  "votes_of i (e # evs) = (case e of VoteCastEvent j a n _ \<Rightarrow> if j = i then [(a, unat n)] else [] | _ \<Rightarrow> []) @ votes_of i evs"
  by (simp add: votes_of_def)

lemma small_i64: "unat i < 2 ^ 63 \<Longrightarrow> u256_to_i64_or d i = uint i"
  by (simp add: u256_to_i64_or_def)

text \<open>One event and its log move the stored votes of every proposal as the event says.\<close>

lemma log_stores_votes:
  assumes c: "carries E ts e lg" "vote_topic_own ts" and run: "handle_log E cfg ts lg w = (Inr m, w')"
    and small: "\<And>j a n t. e = VoteCastEvent j a n t \<Longrightarrow> unat j < 2 ^ 63"
    and new: "\<And>j a n t. e = VoteCastEvent j a n t \<Longrightarrow> a \<notin> set (map fst (stored_votes (db w) (ic_chain_id cfg) (uint j)))"
    and i: "unat i < 2 ^ 63"
  shows "stored_votes (db w') (ic_chain_id cfg) (uint i) =
    stored_votes (db w) (ic_chain_id cfg) (uint i) @ votes_of i [e]"
proof (cases "\<exists>j a n t. e = VoteCastEvent j a n t")
  case True
  then obtain j a n t where e: "e = VoteCastEvent j a n t" by blast
  have "vo_voter v \<noteq> a" if "v \<in> set (governance_votes (db w))" "vo_chain_id v = ic_chain_id cfg"
      "vo_proposal_id v = u256_to_i64_or I64_MAX j" for v
    using new [OF e] that small [OF e] by (force simp: stored_votes_def small_i64)
  from vote_log_stores [OF c(1) [unfolded e] c(2) run this]
  have "governance_votes (db w') = governance_votes (db w) @ [vote_of_log cfg lg
      \<lparr>vc_proposalId = j, vc_voter = a, vc_power = n, vc_totalFor = t\<rparr>]" .
  moreover have "uint j = uint i \<longleftrightarrow> j = i" by (simp add: word_uint_eq_iff)
  ultimately show ?thesis
    using stored_votes_append small [OF e] by (simp add: e votes_of_Cons vote_of_log_def small_i64 votes_of_def)
next
  case False
  then have "carries E ts e lg \<Longrightarrow> le_topics lg = t # rest \<Longrightarrow> t \<noteq> t_vote_cast ts" for t rest
    by (cases e) (auto simp: carries_def)
  from sv.obeysD [OF other_log_keeps_votes [OF this [OF c(1)]] run]
  have "governance_votes (db w') = governance_votes (db w)" by (simp add: on_db_def same_votes_def)
  moreover have "votes_of i [e] = []" using False by (cases e) (auto simp: votes_of_def)
  ultimately show ?thesis by (simp add: stored_votes_def)
qed

lemma logs_store_votes:
  assumes "list_all2 (carries E ts) evs logs" "vote_topic_own ts" "sumM (handle_log E cfg ts) logs acc w = (Inr m, w')"
    and "\<And>j a n t. VoteCastEvent j a n t \<in> set evs \<Longrightarrow> unat j < 2 ^ 63"
    and "\<And>j. unat j < 2 ^ 63 \<Longrightarrow> distinct (map fst (stored_votes (db w) (ic_chain_id cfg) (uint j) @ votes_of j evs))"
    and "unat i < 2 ^ 63"
  shows "stored_votes (db w') (ic_chain_id cfg) (uint i) =
    stored_votes (db w) (ic_chain_id cfg) (uint i) @ votes_of i evs"
  using assms
proof (induction evs logs arbitrary: acc w rule: list_all2_induct)
  case Nil
  then show ?case by (simp add: io_simps)
next
  case (Cons e evs lg logs)
  obtain k w1 where 1: "handle_log E cfg ts lg w = (Inr k, w1)" and 2: "sumM (handle_log E cfg ts) logs (acc + k) w1 = (Inr m, w')"
    using Cons.prems(2) by (auto simp: io_simps)
  have step: "stored_votes (db w1) (ic_chain_id cfg) (uint j) =
      stored_votes (db w) (ic_chain_id cfg) (uint j) @ votes_of j [e]" if "unat j < 2 ^ 63" for j
  proof (rule log_stores_votes [OF Cons.hyps(1) Cons.prems(1) 1 _ _ that])
    fix l a n t
    assume e: "e = VoteCastEvent l a n t"
    show "unat l < 2 ^ 63" using Cons.prems(3) e by auto
    then show "a \<notin> set (map fst (stored_votes (db w) (ic_chain_id cfg) (uint l)))"
      using Cons.prems(4) [of l] by (simp add: e votes_of_Cons)
  qed
  have split: "votes_of j (e # evs) = votes_of j [e] @ votes_of j evs" for j by (simp add: votes_of_def)
  have "stored_votes (db w') (ic_chain_id cfg) (uint i) =
      stored_votes (db w1) (ic_chain_id cfg) (uint i) @ votes_of i evs"
  proof (rule Cons.IH [OF Cons.prems(1) 2 _ _ Cons.prems(5)])
    show "unat j < 2 ^ 63" if "VoteCastEvent j a n t \<in> set evs" for j a n t using Cons.prems(3) that by auto
    show "distinct (map fst (stored_votes (db w1) (ic_chain_id cfg) (uint j) @ votes_of j evs))" if "unat j < 2 ^ 63" for j
      using Cons.prems(4) [OF that] by (simp add: step [OF that] split [of j])
  qed
  then show ?case using step [OF Cons.prems(5)] by (simp add: split [of i])
qed

lemma votes_on_stored: "votes_on d (c, i) True + votes_on d (c, i) False = length (stored_votes d c i)"
proof -
  have "length (filter (\<lambda>v. P v \<and> vo_support v) vs) + length (filter (\<lambda>v. P v \<and> \<not> vo_support v) vs) = length (filter P vs)"
    for P and vs :: "vote_row list" by (induction vs) auto
  from this [of "\<lambda>v. vo_chain_id v = c \<and> vo_proposal_id v = i" "governance_votes d"]
  show ?thesis by (simp add: votes_on_def stored_votes_def)
qed

section \<open>The contract and the database\<close>

text \<open>
  C14. What the explorer shows of a vote. When the indexer has handled the logs of everything the contract emitted, the votes
  stored for a proposal are exactly the votes cast on it: the contract's one vote per account is what the primary key of
  the table needs, so no vote is dropped as a duplicate. Their weights add up to the tally on chain. The running total of
  the proposal row, however, counts accounts: it is the number of votes, not their power.
\<close>
theorem indexed_votes_agree_with_contract:
  assumes "gov_reach X now s" and "list_all2 (carries E ts) (gv_events s) logs" and "vote_topic_own ts"
    and "sumM (handle_log E cfg ts) logs 0 w = (Inr m, w')"
    and "\<forall>v \<in> set (governance_votes (db w)). vo_chain_id v \<noteq> ic_chain_id cfg" and "refs_ok (db w)" and "tally_ok (db w)"
    and "\<forall>j a n t. VoteCastEvent j a n t \<in> set (gv_events s) \<longrightarrow> unat j < 2 ^ 63" and "unat i < 2 ^ 63"
  shows "stored_votes (db w') (ic_chain_id cfg) (uint i) = votes_of i (gv_events s) \<and>
    sum_list (map snd (stored_votes (db w') (ic_chain_id cfg) (uint i))) = unat (pr_votesFor (gv_proposals s i)) \<and>
    (\<forall>p \<in> set (governance_proposals (db w')). proposal_key p = (ic_chain_id cfg, uint i) \<longrightarrow>
       pr_votes_for p + pr_votes_against p = int (length (votes_of i (gv_events s))))"
proof -
  let ?c = "ic_chain_id cfg"
  have tal: "distinct (map fst (votes_of j (gv_events s)))"
    "unat (pr_votesFor (gv_proposals s j)) = sum_list (map snd (votes_of j (gv_events s)))" for j
    using reach_gov_inv [OF assms(1)] unfolding gov_inv_def tallies_ok_def by blast+
  have none: "stored_votes (db w) ?c j = []" for j using assms(5) by (simp add: stored_votes_def filter_empty_conv)
  have votes: "stored_votes (db w') ?c (uint i) = votes_of i (gv_events s)"
  proof -
    have "unat j < 2 ^ 63" if "VoteCastEvent j a n t \<in> set (gv_events s)" for j a n t using assms(8) that by blast
    moreover have "distinct (map fst (stored_votes (db w) ?c (uint j) @ votes_of j (gv_events s)))" for j
      using tal(1) [of j] by (simp add: none)
    ultimately show ?thesis using logs_store_votes [OF assms(2,3,4) _ _ assms(9)] by (simp add: none)
  qed
  have "obeys (on_db (keeps counted)) (sumM (handle_log E cfg ts) logs 0)"
    by (rule ct.sumM_obeys, rule ct.handle_log_obeys [OF refl UNIV_I])
  from ct.obeysD [OF this assms(4)] have "tally_ok (db w')"
    using assms(6,7) by (simp add: on_db_def keeps_def counted_def)
  moreover have "votes_on (db w') (?c, uint i) True + votes_on (db w') (?c, uint i) False =
      length (stored_votes (db w') ?c (uint i))"
    by (rule votes_on_stored)
  ultimately have "pr_votes_for p + pr_votes_against p = int (length (votes_of i (gv_events s)))"
    if "p \<in> set (governance_proposals (db w'))" "proposal_key p = (?c, uint i)" for p
    using that by (simp add: tally_ok_def votes)
  then show ?thesis using votes tal(2) [of i] by simp
qed

text \<open>Witness: the demonstration contract with one vote of power two, its logs and an empty database.\<close>

definition demo_gov_ienv :: ienv where
  "demo_gov_ienv = demo_ienv\<lparr>
     ix_proposal_created := (\<lambda>_ _ _. Inr \<lparr>pc_proposalId = 1, pc_proposer = 100, pc_vaults = [3, 13], pc_bps = [6000, 4000],
       pc_votingDeadline = 4600\<rparr>),
     ix_vote_cast := (\<lambda>_ _ _. Inr \<lparr>vc_proposalId = 1, vc_voter = 5, vc_power = 2, vc_totalFor = 2\<rparr>)\<rparr>"

lemma demo_gov_ienv_sel [simp]:
  "ix_proposal_created demo_gov_ienv = (\<lambda>_ _ _. Inr \<lparr>pc_proposalId = 1, pc_proposer = 100, pc_vaults = [3, 13],
     pc_bps = [6000, 4000], pc_votingDeadline = 4600\<rparr>)"
  "ix_vote_cast demo_gov_ienv = (\<lambda>_ _ _. Inr \<lparr>vc_proposalId = 1, vc_voter = 5, vc_power = 2, vc_totalFor = 2\<rparr>)"
  "ix_keccak demo_gov_ienv = demo_topic" "ix_db_fault demo_gov_ienv k = None"
  by (simp_all add: demo_gov_ienv_def)

definition demo_gov_logs :: "LogEntry list" where
  "demo_gov_logs = [demo_log\<lparr>le_topics := []\<rparr>, demo_proposed, demo_voted]"

lemma demo_gov1_events:
  "gv_events demo_gov1 = [VotingPowerSet 5 0 2, ProposalCreatedEvent 1 100 [3, 13] [6000, 4000] 4600, VoteCastEvent 1 5 2 2]"
  by (simp add: demo_gov1_def demo_gov0_def governance_new_def blank_governance_def no_proposal_def gov_exec_def transact_def
      setVotingPower_def propose_def vote_def only_admin_def update_proposal_def gov_emit_def proposal_state_def checked_add_def
      checked_sub_def BPS_DENOMINATOR_def demo_gov_externals_def demo_gov_tx_def io_eval MIN_QUORUM_THRESHOLD_def MIN_VOTING_PERIOD_def)

lemma demo_gov_carries: "list_all2 (carries demo_gov_ienv (topics_new demo_gov_ienv)) (gv_events demo_gov1) demo_gov_logs"
  by (simp add: demo_gov1_events demo_gov_logs_def carries_def topics_new_def demo_topic_def demo_log_def demo_proposed_def demo_voted_def)

abbreviation demo_gov_handle :: "LogEntry \<Rightarrow> (dworld, IndexerError, nat) io" where
  "demo_gov_handle \<equiv> handle_log demo_gov_ienv demo_icfg (topics_new demo_gov_ienv)"

definition demo_gov_vote :: vote_row where
  "demo_gov_vote = demo_vote\<lparr>vo_proposal_id := 1, vo_voter := 5, vo_weight := 2\<rparr>"

lemma demo_gov_handle_proposed:
  "demo_gov_handle demo_proposed w = dbM (insert_proposal demo_gov_ienv 8453 1 1 0 84 100 '''' 1 4600) w"
  by (simp add: handle_log_def demo_proposed_def demo_log_def topics_new_def demo_topic_def decoded_def io_eval
      u256_to_i64_or_def log_block_def as_i64_def as_i32_def)

lemma demo_gov_handle_voted: "demo_gov_handle demo_voted w = dbM (insert_vote demo_gov_ienv demo_gov_vote) w"
  by (simp add: handle_log_def demo_voted_def demo_log_def topics_new_def demo_topic_def decoded_def io_eval
      u256_to_i64_or_def log_block_def as_i64_def as_i32_def vote_of_log_def demo_vote_def demo_gov_vote_def)

definition demo_gov_poll :: "int \<Rightarrow> vote_row list \<Rightarrow> explorer_db" where
  "demo_gov_poll yes vs = (db demo_known)\<lparr>governance_proposals :=
     [(demo_poll yes 0)\<lparr>pr_proposal_id := 1, pr_proposer := 100, pr_deadline_block := 4600\<rparr>], governance_votes := vs\<rparr>"

lemma demo_gov_propose:
  "\<exists>w. dbM (insert_proposal demo_gov_ienv 8453 1 1 0 84 100 '''' 1 4600) demo_known = (Inr 1, w) \<and> db w = demo_gov_poll 0 []"
  by (simp add: insert_proposal_def dbM_def io_eval stmt_def put_def known_chain_def demo_gov_poll_def demo_poll_def
      demo_known_def empty_db_def iworld0_def)

lemma demo_gov_count:
  assumes "db w = demo_gov_poll n []"
  shows "\<exists>w'. dbM (insert_vote demo_gov_ienv demo_gov_vote) w = (Inr 1, w') \<and> db w' = demo_gov_poll (n + 1) [demo_gov_vote]"
  using assms
  by (simp add: insert_vote_def in_tx_def dbM_def io_eval stmt_def put_def known_chain_def known_proposal_def
      demo_gov_poll_def demo_poll_def demo_known_def empty_db_def iworld0_def demo_vote_def demo_gov_vote_def update_where_def
      proposal_key_def tally_def)

lemma demo_gov_handled:
  "\<exists>w'. sumM demo_gov_handle demo_gov_logs 0 demo_known = (Inr 2, w') \<and> db w' = demo_gov_poll 1 [demo_gov_vote]"
proof -
  obtain w1 where 1: "dbM (insert_proposal demo_gov_ienv 8453 1 1 0 84 100 '''' 1 4600) demo_known = (Inr 1, w1)"
      "db w1 = demo_gov_poll 0 []"
    using demo_gov_propose by blast
  obtain w2 where 2: "dbM (insert_vote demo_gov_ienv demo_gov_vote) w1 = (Inr 1, w2)" "db w2 = demo_gov_poll 1 [demo_gov_vote]"
    using demo_gov_count [OF 1(2)] by auto
  have "demo_gov_handle (demo_log\<lparr>le_topics := []\<rparr>) w = (Inr 0, w)" for w by (simp add: handle_log_def io_eval)
  then show ?thesis using 2(2) by (simp add: demo_gov_logs_def demo_gov_handle_proposed demo_gov_handle_voted 1 2 io_eval)
qed

theorem indexed_votes_agree_with_contract_witness:
  "\<exists>w'. sumM demo_gov_handle demo_gov_logs 0 demo_known = (Inr 2, w') \<and>
     map pr_votes_for (governance_proposals (db w')) = [1] \<and>
     stored_votes (db w') 8453 1 = [(5, 2)] \<and> unat (pr_votesFor (gv_proposals demo_gov1 1)) = 2"
proof -
  obtain w' where w': "sumM demo_gov_handle demo_gov_logs 0 demo_known = (Inr 2, w')"
    "map pr_votes_for (governance_proposals (db w')) = [1]"
    using demo_gov_handled by (auto simp: demo_gov_poll_def demo_poll_def)
  have own: "vote_topic_own (topics_new demo_gov_ienv)" by (simp add: vote_topic_own_def topics_new_def demo_topic_def)
  have "refs_ok (db demo_known)" "tally_ok (db demo_known)" "\<forall>v \<in> set (governance_votes (db demo_known)). vo_chain_id v \<noteq> 8453"
    by (simp_all add: demo_known_def empty_db_def refs_ok_def tally_ok_def)
  then show ?thesis
    using indexed_votes_agree_with_contract [OF demo_gov1_reach demo_gov_carries own w'(1), of 1] w'
    by (simp add: demo_gov1_events demo_gov1_eval votes_of_def)
qed

end
