(* ===== verification/Portfolio_Governance.thy ===== *)
theory Portfolio_Governance
  imports Portfolio_Correct Governance_Correct
begin

text \<open>
  The governance contract on top of the router it controls. What governance relies on is the locale \<open>weight_target\<close>: a vector of
  eligible vaults that sums to 10000 basis points is applied. The interpretation shows that the portfolio router of this
  repository, with a sound registry and governance as its administrator, is such a target.
\<close>

section \<open>The interface\<close>

locale weight_target =
  fixes X :: "'x gov_externals"
    and routes :: "'x \<Rightarrow> address list \<times> u256 list"
    and ready :: "'x \<Rightarrow> bool"
  assumes applies: "ready x \<Longrightarrow> length vs = length bs \<Longrightarrow> sum_list (map unat bs) = 10000 \<Longrightarrow> \<forall>v \<in> set vs. gx_eligible X v x \<Longrightarrow>
      \<exists>x'. gx_set_weights X vs bs x = Inr ((), x') \<and> routes x' = (vs, bs)"
    and only_eligible: "gx_set_weights X vs bs x = Inr ((), x') \<Longrightarrow> v \<in> set vs \<Longrightarrow> gx_eligible X v x"
begin

text \<open>A proposal that passed is executed, and then routed by, exactly while its vaults are eligible.\<close>

lemma passed_executes_iff:
  fixes i :: u256
  assumes "gov_reach X now s" "now \<le> unat (block_timestamp ctx)" "ready (gv_outside s)"
  defines "p \<equiv> gv_proposals s i"
  assumes p: "pr_id p \<noteq> 0" "proposal_state ctx p = Queued" "unat (pr_executableAfter p) \<le> unat (block_timestamp ctx)"
  shows "(\<exists>t. gov_exec X ctx (Execute i) s = (Inr (), t) \<and> routes (gv_outside t) = (pr_vaults p, pr_bps p)) \<longleftrightarrow>
    (\<forall>v \<in> set (pr_vaults p). gx_eligible X v (gv_outside s))"
proof
  assume "\<exists>t. gov_exec X ctx (Execute i) s = (Inr (), t) \<and> routes (gv_outside t) = (pr_vaults p, pr_bps p)"
  then obtain t where "execute X ctx i s = (Inr (), t)" by (auto simp: gov_exec_def transact_Inr)
  from execute_Inr [OF this] show "\<forall>v \<in> set (pr_vaults p). gx_eligible X v (gv_outside s)"
    using only_eligible unfolding p_def by blast
next
  assume "\<forall>v \<in> set (pr_vaults p). gx_eligible X v (gv_outside s)"
  moreover have "gov_inv now s" using reach_gov_inv [OF assms(1)] .
  then have "proposal_ok now p" using inv_slot(4) p(1) unfolding p_def by blast
  ultimately obtain x' where x': "gx_set_weights X (pr_vaults p) (pr_bps p) (gv_outside s) = Inr ((), x')"
      "routes x' = (pr_vaults p, pr_bps p)"
    using applies [OF assms(3), of "pr_vaults p" "pr_bps p"] by (auto simp: proposal_ok_def)
  have ex: "\<not> pr_executed p" using p(2) by (auto simp: proposal_state_def split: if_splits)
  have "\<exists>t. execute X ctx i s = (Inr (), t) \<and> gv_outside t = x'"
    using p ex x'(1) unfolding p_def
    by (simp add: execute_def update_proposal_def gov_emit_def router_call_def call_outside_def io_eval not_less)
  then show "\<exists>t. gov_exec X ctx (Execute i) s = (Inr (), t) \<and> routes (gv_outside t) = (pr_vaults p, pr_bps p)"
    using x'(2) by (auto simp: gov_exec_def transact_Inr)
qed

end

section \<open>The router under governance\<close>

text \<open>
  Governance at the address \<open>gov\<close>, with its own role table, calls the router; what the router does on these calls depends on
  nothing of the transaction but the sender.
\<close>

definition from_governance :: "'x router_externals \<Rightarrow> router_code \<Rightarrow> address \<Rightarrow> rt_entry_call \<Rightarrow> 'x portfolio \<Rightarrow> string + unit \<times> 'x portfolio" where
  "from_governance X C gov c p =
     (case rt_exec X C (pf_registry p) \<lparr>msg_sender = gov, block_timestamp = 0, block_number = 0, block_chainid = 0\<rparr> c (pf_router p) of
        (Inr _, t) \<Rightarrow> Inr ((), p\<lparr>pf_router := t\<rparr>)
      | (Inl _, _) \<Rightarrow> Inl ''PortfolioRouter reverted'')"

definition governed ::
    "'x router_externals \<Rightarrow> router_code \<Rightarrow> ('x \<Rightarrow> address \<Rightarrow> bool) \<Rightarrow> (address \<Rightarrow> 'x \<Rightarrow> 'x) \<Rightarrow> address \<Rightarrow> 'x portfolio gov_externals" where
  "governed X C is_admin grant gov =
     \<lparr>gx_is_admin = (\<lambda>p. is_admin (rt_outside (pf_router p))),
      gx_grant_admin = (\<lambda>a p. p\<lparr>pf_router := (pf_router p)\<lparr>rt_outside := grant a (rt_outside (pf_router p))\<rparr>\<rparr>),
      gx_eligible = (\<lambda>v p. rt_isRouterEligible X C (pf_registry p) v (rt_outside (pf_router p))),
      gx_set_weights = (\<lambda>vs bs. from_governance X C gov (CallSetWeights vs bs)),
      gx_set_default_weights = (\<lambda>vs bs. from_governance X C gov (CallSetDefaultWeights vs bs)),
      gx_clear_voted_weights = from_governance X C gov CallClearVotedWeights,
      gx_get_weights = (\<lambda>p. getWeights (pf_router p))\<rparr>"

definition router_ready :: "'x router_externals \<Rightarrow> address \<Rightarrow> 'x portfolio \<Rightarrow> bool" where
  "router_ready X gov p \<longleftrightarrow> registry_ok (pf_registry p) \<and> px_is_admin X (rt_outside (pf_router p)) gov"

lemma from_governance_weights:
  "from_governance X C gov (CallSetWeights vs bs) p = Inr ((), p') \<longleftrightarrow>
     px_is_admin X (rt_outside (pf_router p)) gov \<and> length vs = length bs \<and> sum_list (map unat bs) = 10000 \<and>
     (\<forall>v \<in> set vs. admitted X C (pf_registry p) (rt_outside (pf_router p)) v) \<and>
     p' = p\<lparr>pf_router := (pf_router p)\<lparr>rt_weightVaultList := vs, rt_weightBps := bs, rt_votedWeightsActive := True,
       rt_events := rt_events (pf_router p) @ [WeightsSet vs bs]\<rparr>\<rparr>"
proof -
  let ?tx = "\<lparr>msg_sender = gov, block_timestamp = 0, block_number = 0, block_chainid = 0\<rparr>"
  have "from_governance X C gov (CallSetWeights vs bs) p = Inr ((), p') \<longleftrightarrow>
      (\<exists>t. setWeights X C (pf_registry p) ?tx vs bs (pf_router p) = (Inr (), t) \<and> p' = p\<lparr>pf_router := t\<rparr>)"
    by (auto simp: from_governance_def rt_exec_def transact_def split: prod.splits sum.splits)
  then show ?thesis unfolding setWeights_iff by auto
qed

interpretation rg: weight_target "governed X C is_admin grant gov" "\<lambda>p. getEffectiveWeights (pf_router p)" "router_ready X gov"
  for X :: "'x router_externals" and C is_admin grant gov
proof unfold_locales
  fix x :: "'x portfolio" and vs :: "address list" and bs :: "u256 list"
  assume a: "router_ready X gov x" "length vs = length bs" "sum_list (map unat bs) = 10000"
    "\<forall>v \<in> set vs. gx_eligible (governed X C is_admin grant gov) v x"
  then have "\<forall>v \<in> set vs. admitted X C (pf_registry x) (rt_outside (pf_router x)) v"
    using catalogue.eligible_registered [of "pf_registry x"]
    by (simp add: admitted_def governed_def router_ready_def rt_isRouterEligible_iff)
  then have "from_governance X C gov (CallSetWeights vs bs) x = Inr ((), x\<lparr>pf_router := (pf_router x)\<lparr>rt_weightVaultList := vs,
      rt_weightBps := bs, rt_votedWeightsActive := True, rt_events := rt_events (pf_router x) @ [WeightsSet vs bs]\<rparr>\<rparr>)"
    using a by (simp add: from_governance_weights router_ready_def)
  then show "\<exists>x'. gx_set_weights (governed X C is_admin grant gov) vs bs x = Inr ((), x') \<and> getEffectiveWeights (pf_router x') = (vs, bs)"
    by (auto simp: governed_def getEffectiveWeights_def getWeights_def)
next
  fix vs bs x x' v
  assume "gx_set_weights (governed X C is_admin grant gov) vs bs x = Inr ((), x')" "v \<in> set vs"
  then show "gx_eligible (governed X C is_admin grant gov) v x"
    by (auto simp: governed_def from_governance_weights admitted_def)
qed

section \<open>Properties\<close>

text \<open>
  C17. From vote to route. When a proposal that reached its quorum is past its deadline and delay, the registry is sound and
  governance administers the router, executing it succeeds and makes the router split by its vector if and only if every
  vault of the vector is router-eligible at that moment: what \<open>propose\<close> checked is what execution needs, and nothing else
  stands in the way.
\<close>
theorem passed_vote_is_routed:
  assumes "gov_reach (governed X C is_admin grant gov) now s" and "now \<le> unat (block_timestamp ctx)"
    and "registry_ok (pf_registry (gv_outside s))" and "px_is_admin X (rt_outside (pf_router (gv_outside s))) gov"
    and "pr_id (gv_proposals s i) \<noteq> 0" and "proposal_state ctx (gv_proposals s i) = Queued"
    and "unat (pr_executableAfter (gv_proposals s i)) \<le> unat (block_timestamp ctx)"
  shows "(\<exists>t. gov_exec (governed X C is_admin grant gov) ctx (Execute i) s = (Inr (), t) \<and>
      getEffectiveWeights (pf_router (gv_outside t)) = (pr_vaults (gv_proposals s i), pr_bps (gv_proposals s i))) \<longleftrightarrow>
    (\<forall>v \<in> set (pr_vaults (gv_proposals s i)).
       rt_isRouterEligible X C (pf_registry (gv_outside s)) v (rt_outside (pf_router (gv_outside s))))"
  using rg.passed_executes_iff [OF assms(1,2) _ assms(5-7)] assms(3,4) by (simp add: router_ready_def governed_def)

text \<open>Witness: the demonstration router, under governance at address 200 that account 100 administers.\<close>

abbreviation demo_governed :: "u256 portfolio gov_externals" where
  "demo_governed \<equiv> governed demo_px demo_rt_code (\<lambda>_ a. a = 100) (\<lambda>_ x. x) 200"

definition demo_pg0 :: "u256 portfolio governance" where
  "demo_pg0 = snd (governance_new demo_governed 70 100 3600 60 2 (blank_governance demo_pf0))"

definition demo_pg1 :: "u256 portfolio governance" where
  "demo_pg1 = gov_calls demo_governed [(100, 1000, SetVotingPower 5 2), (100, 1000, Propose [3, 13] [6000, 4000]), (5, 2000, Vote 1)] demo_pg0"

lemma demo_pg1_reach: "gov_reach demo_governed 2000 demo_pg1"
proof -
  have "governance_new demo_governed 70 100 3600 60 2 (blank_governance demo_pf0) = (Inr (), demo_pg0)"
    by (simp add: demo_pg0_def governance_new_def io_eval MIN_QUORUM_THRESHOLD_def MIN_VOTING_PERIOD_def)
  then have "gov_reach demo_governed 0 demo_pg0" by (rule reach_new)
  from gov_calls_reach [OF this, of "[(100, 1000, SetVotingPower 5 2), (100, 1000, Propose [3, 13] [6000, 4000]), (5, 2000, Vote 1)]"]
  show ?thesis by (simp add: demo_pg1_def)
qed

lemma demo_eligible: "rt_isRouterEligible demo_px demo_rt_code (pf_registry demo_pf0) v x \<longleftrightarrow> v \<in> {3, 13}"
  by (auto simp: rt_isRouterEligible_iff isRouterEligible_def demo_pf0_eval demo_px_def demo_rt_code_def)

lemma demo_pg1_eval:
  "gv_proposals demo_pg1 1 = \<lparr>pr_id = 1, pr_proposer = 100, pr_vaults = [3, 13], pr_bps = [6000, 4000], pr_votingDeadline = 4600,
     pr_executableAfter = 4660, pr_votesFor = 2, pr_snapshotQuorum = 2, pr_executed = False, pr_cancelled = False\<rparr>"
  "gv_outside demo_pg1 = demo_pf0"
  by (simp_all add: demo_pg1_def demo_pg0_def governance_new_def blank_governance_def no_proposal_def gov_exec_def transact_def
      setVotingPower_def propose_def vote_def only_admin_def update_proposal_def gov_emit_def proposal_state_def checked_add_def
      checked_sub_def BPS_DENOMINATOR_def governed_def demo_eligible demo_gov_tx_def io_eval MIN_QUORUM_THRESHOLD_def
      MIN_VOTING_PERIOD_def)

theorem passed_vote_is_routed_witness:
  "\<exists>t. gov_exec demo_governed (demo_gov_tx 7 5000) (Execute 1) demo_pg1 = (Inr (), t) \<and>
     getEffectiveWeights (pf_router (gv_outside t)) = ([3, 13], [6000, 4000])"
proof -
  have "registry_ok (pf_registry demo_pf0)" using demo_pf0_ok by (simp add: portfolio_ok_def)
  then show ?thesis
    using passed_vote_is_routed [OF demo_pg1_reach, of "demo_gov_tx 7 5000" 1]
    by (simp add: demo_pg1_eval demo_eligible demo_gov_tx_def proposal_state_def) (simp add: demo_px_def)
qed

end
