(* ===== verification/Spec2Isabelle.thy ===== *)
theory Spec2Isabelle
  imports Client_Main Deposit_Retry Keystore_Import Explorer_Gap Indexer_Main Api_Correct Api_Main Gateway_Preflight
    Gateway_Router Governance_Explorer Portfolio_Governance
begin

text \<open>
  A verification library for Robot Money: the command-line payment client \<open>rmpc\<close>
  (\<open>clients/rust-payment-client\<close>), with which an agent moves USDC into and out of a vault through
  an on-chain gateway, the explorer indexer (\<open>services/explorer-indexer\<close>), which follows the chain and
  writes what the gateway, the vaults and the governance contract emit into a relational database, the
  explorer API (\<open>clients/explorer-api\<close>), which serves that database over HTTP, and the contracts these programs
  talk to (\<open>contracts/\<close>): the gateway, the vault registry, the portfolio router and its governance.

  \<^bold>\<open>The program.\<close> \<open>rmpc deposit\<close> and \<open>rmpc withdraw\<close> read a pinned configuration, unlock a
  software keystore, take a per-agent file lock, look the request up in a replay cache (deposit
  only), replay the gateway's policy against the node (preflight), bid a fee under two caps, sign an
  EIP-1559 envelope, send it once, record it in the replay cache, wait for the receipt and decode
  the gateway's event. Every decision prints one JSON document and appends an audit record, which a
  sink beside the command writes to a rotated file. \<open>rmpc self-check\<close> runs the same preflight and prints its
  findings. The twelve \<open>get-*\<close> commands and \<open>status\<close> ask the node and print one envelope of a fixed shape, in
  which a failed part of a larger read becomes an entry of an error list. The indexer works in ticks: it
  registers the chain and the watched contracts, reads the cursor from its run table, compares the
  stored hash of the cursor block with the node's (and, when they differ, walks back to the highest block
  the node still confirms and deletes everything above), picks a range that ends at the
  head less five, or at block 0 while the head is lower, fetches blocks and logs, stores one row per event, snapshots vault state and closes the run record.
  The API answers GET requests: each handler sends one or more statements, outside a transaction, and
  formats the rows; it may run while a tick writes. On chain, the gateway keeps per agent a policy set by its owner (caps
  per payment and per rolling window, an expiry, a receiver of shares), pulls USDC from the agent and deposits it in the
  vault or through the router, which splits it over the vaults of a weight vector; the vector is a default or the last
  one that governance executed after a vote; the registry says which vaults may be weighted.

  \<^bold>\<open>Conventions.\<close> An effectful Rust function is a function of the monad \<open>io\<close> (\<open>Rmpc_Prelude\<close>): from
  a world to a result (\<open>Inl\<close> the error or the exit code) and the new world. Third-party crates,
  the node, the clock and the operating system are fields of the record \<open>env\<close> (\<open>External\<close>), an
  argument of every definition that uses them; a request has a fresh number, a clock reading and a
  file operation are counted, so two calls of one run may be answered differently. Integers keep
  the width of the source (\<open>64 word\<close>, \<open>128 word\<close>, \<open>256 word\<close>); saturating operations are written out.

  \<^bold>\<open>Theories and sources.\<close>
  \<^item> \<open>Rmpc_Prelude\<close>: the monad, saturating arithmetic, printing, hexadecimal parsing; the locale
    \<open>effect_discipline\<close>, which lifts a preorder on worlds through every operator.
  \<^item> \<open>Rmpc_Errors\<close> (\<open>errors.rs\<close>, the \<open>error_name\<close> tables of the commands); \<open>Network_Env\<close>
    (\<open>network_env.rs\<close>, \<open>signer/mod.rs\<close>); \<open>Fees\<close> (\<open>fees/mod.rs\<close>); \<open>Config\<close> (\<open>config.rs\<close>).
  \<^item> \<open>External\<close>: the environment, the world and the disciplines \<open>no_broadcast\<close>, \<open>quiet\<close>,
    \<open>same_files\<close>, \<open>same_locks\<close>, \<open>audit_grows\<close>. \<open>Rpc\<close> (\<open>rpc/mod.rs\<close>): numbering, reply
    classification, typed wrappers.
  \<^item> \<open>Preflight\<close> (\<open>policy/mod.rs\<close>): the checks in order and the abstract policy they decide.
  \<^item> \<open>Demo_Env\<close>: one concrete environment with a working JSON codec and a node, on which the
    witnesses run.
  \<^item> \<open>Replay_Cache\<close> (\<open>replay_cache.rs\<close>) with the locale \<open>submission_log\<close>; \<open>Agent_Lock\<close>
    (\<open>nonce/mod.rs\<close>) with the step relation of many processes sharing the lock files. The lock of the kernel is the
    parameter \<open>flock_try\<close> of the environment, on inodes; \<open>flock_excludes\<close> states what its manual documents.
  \<^item> \<open>Tx\<close> (\<open>tx/mod.rs\<close>), \<open>Keystore\<close> (\<open>signer/software.rs\<close>), \<open>Keystore_Import\<close> (\<open>bin/rmpc_keystore_import.rs\<close>), \<open>Command\<close> (what the commands share:
    exit codes, output, audit records of \<open>logging.rs\<close>).
  \<^item> \<open>Self_Check\<close>, \<open>Deposit\<close>, \<open>Withdraw\<close> (\<open>commands/\<close>): each command phase by phase, in the order
    of its \<open>run\<close> function. \<open>Deposit_Retry\<close>: runs of the client after one that sent a deposit.
  \<^item> \<open>Read_Output\<close> (\<open>read_output.rs\<close> and what the read commands share): the envelope, its builder and
    serialisation; the contract every read command obeys and the one of reads pinned to a block.
    \<open>Read_Single\<close> (\<open>get-balance\<close>, \<open>get-allowance\<close>, \<open>get-deposit\<close>, \<open>get-tx\<close>, \<open>status\<close>), \<open>Read_Gateway\<close>
    (\<open>get-gateway\<close>, \<open>get-agent\<close>, \<open>get-roles\<close>, \<open>get-router\<close>, \<open>get-governance\<close>), \<open>Read_Vault\<close> (\<open>get-vault\<close>,
    \<open>get-vaults\<close>), \<open>Read_Timelock\<close> (\<open>get-timelock\<close>).
  \<^item> \<open>Audit_Sink\<close> (\<open>logging.rs\<close>): the audit file with its rotation on a small file system, the start of
    logging; the bounded log it implements. \<open>Client_Main\<close> (\<open>cli.rs\<close>, \<open>main.rs\<close>): the subcommands, dispatch, and the
    program as a whole.
  \<^item> \<open>Explorer_Rpc\<close> (\<open>rpc.rs\<close>, \<open>abi.rs\<close>): requests, replies, parsers, event topics; the record \<open>ienv\<close>
    holds the node, the codecs, the event decoders the \<open>sol!\<close> macro generates and the fault of each statement.
  \<^item> \<open>Explorer_Db\<close> (\<open>db.rs\<close>, \<open>migrations/\<close>): the fourteen tables as lists of records, statements that count
    the rows they affect, keys, foreign keys, transactions; the locale \<open>keyed_table\<close>, interpreted on every
    table, and the locale \<open>db_discipline\<close>, a preorder on databases lifted through statements and transactions.
  \<^item> \<open>Explorer_Integrity\<close>: unique keys and valid references are kept by every operation.
  \<^item> \<open>Explorer_Indexer\<close> (\<open>indexer.rs\<close>, \<open>feature_flags.rs\<close>): the tick and the decision after it; the locales
    \<open>ingest_discipline\<close>, \<open>tick_discipline\<close> and \<open>run_discipline\<close> carry a discipline of the statements to the tick.
  \<^item> \<open>Explorer_Demo\<close>: a node with a reorganisation, on which the explorer witnesses run.
  \<^item> \<open>Explorer_Recovery\<close>, \<open>Explorer_Ingest\<close>: the properties of reorg recovery, of the tick and of ingestion. \<open>Explorer_Gap\<close>: what two ticks do with
    the blocks between the end of a recovery and the old cursor.
    \<open>Indexer_Main\<close> (\<open>main.rs\<close>): start-up and the poll loop.
  \<^item> \<open>Api_Query\<close> (\<open>error.rs\<close>, \<open>state.rs\<close>, \<open>model.rs\<close>, the helpers of \<open>routes.rs\<close>): statements over the tables as they
    are at that moment, the order of rows a plan of the database leaves open, wire types. \<open>Api_Routes\<close> (\<open>routes.rs\<close>):
    the handlers and the route table. \<open>Api_Scope\<close>: the locale \<open>request_pair\<close> relates one request against two
    environments, interpreted on the environment cut down to one chain and on the one with silenced errors.
    \<open>Api_Correct\<close>: what single endpoints answer, from the log the indexer stored to the response. \<open>Api_Main\<close>
    (\<open>main.rs\<close>): start-up and the allowed origins.
  \<^item> \<open>Solidity\<close>: the transaction context, checked arithmetic, calls to other contracts, transactions that leave no trace
    when they revert. \<open>Gateway_Contract\<close> (\<open>gateway/RobotMoneyGateway.sol\<close>, \<open>AccessRoles.sol\<close>, \<open>IGateway.sol\<close>): storage, roles,
    every entry point. \<open>Gateway_Correct\<close>: runs of the contract, its invariant, the ledger of payments.
    \<open>Gateway_Preflight\<close>: the client's preflight against the contract it replays.
  \<^item> \<open>Router_Governance\<close> (\<open>RouterGovernance.sol\<close>) and \<open>Governance_Correct\<close>: proposals as a function of storage and time, votes,
    execution. \<open>Governance_Explorer\<close>: what the indexer stores of the votes the contract counted.
  \<^item> \<open>Vault_Registry\<close> (\<open>VaultRegistry.sol\<close>), \<open>Portfolio_Router\<close> (\<open>PortfolioRouter.sol\<close>), \<open>Portfolio_Correct\<close>: both contracts and
    their interleavings; the locale \<open>vault_catalogue\<close> is what a router reads of a registry. \<open>Portfolio_Governance\<close> and
    \<open>Gateway_Router\<close> put the router behind governance and behind the gateway, through the locales \<open>weight_target\<close> and
    \<open>split_target\<close>.

  \<^bold>\<open>What is shown.\<close> A transaction is sent at most once per run, and only when the inputs, the lock,
  the replay cache, the policy and the fee caps were cleared in that run; a deposit that was sent and acknowledged is
  not sent again for the same payment, as long as the cache file works and only the client writes it (and a theorem shows that a
  run whose record failed exits with 0 all the same, so that its retry is sent); the preflight succeeds exactly when the
  abstract policy holds; two processes never hold one agent's lock, given the kernel's exclusion and a lock file that stays in
  place; a run gives back every guard it took; exit code,
  audit record and printed document agree; the replay cache answers the last insert for a payment;
  the keystore round trips and unlocks exactly on authentic documents; signatures are low-s; the
  receipt wait ends within its budget. A read command changes nothing and prints one envelope without a
  number wider than 64 bits, or nothing; the reads of one answer are pinned to the block it reports;
  \<open>get-deposit\<close> and \<open>status\<close> agree; the audit files hold a suffix of what was written, and a payment that
  succeeds is on file. Some theorems record behaviour that departs from the
  documented intent: a torn write of the replay cache forgets it, a self-check against an
  unreachable node claims matching identities, the default fee cap on Base refuses every
  positive base fee, \<open>get-timelock\<close> misses members whose role was granted again and drops operations it
  cannot read, the scale of the share price wraps around from 78 decimals on, and a log level that does
  not parse loses the audit trail. Of the indexer: no row comes from a block with fewer than five confirmations, except block 0, which is
  taken under any head, contrary to the documentation; reorg
  deletion removes exactly the rows above the root or nothing; the walk back ends at the highest confirmed
  block; handling the same logs again changes nothing; every tick leaves one run record, and the cursor becomes the larger of
  the old one and the block the tick reached (the documents set it to the root of a reorganisation); keys and references stay sound; chains do not interfere; vote counters agree
  with the stored votes while no reorganisation happens; the poll loop reaches its end block when ticks succeed
  now and then. Two theorems show where recovery falls short:
  the cursor is never lowered, so a tick that recovers and ends below it leaves a gap the next one does not fill, and votes ingested again are counted again. Of the
  API: the endpoints scoped to a chain see no other; no error text of the database is answered; a deposit
  stored by the indexer is found under its payment id; the policy of an agent is that of its newest event; the
  total value locked is the sum of the newest snapshots. Three theorems show answers that depart from
  their documentation: two endpoints answer other chains, the freshness is block 0 while a tick runs, and
  the current weights stop moving after five hundred changes. Of the contracts: the gateway keeps roles apart and policies
  owned, pays an identifier once, keeps no funds, and lets only the owner change a policy; a deposit the client's
  preflight admits is accepted by the gateway under stated conditions; within any window an agent moves at most
  twice its cap (and a theorem shows that twice is reached, contrary to the documentation); a routed payment is booked by the vaults
  in full and for the receiver of the policy; a vote is counted once and with its power, the explorer stores exactly these votes; the router changes through
  an executed proposal that met its quorum or by an administrator, and a passed proposal can be executed exactly while its vaults are eligible.
  Four theorems record defects: a commitment can be overwritten by anyone, a share sent to the gateway stops deposits,
  a default vector freezes the set of eligible vaults, and it may miss one of them.

  \<^bold>\<open>Bounds.\<close> The receipt wait recurses on the attempts left, at most the number of seconds asked for
  and at least one. The rotation of the audit file recurses on the number of kept files. The walk back of the indexer recurses on the block number. The indexer's poll loop is a
  \<open>partial_function\<close> in the option monad, \<open>None\<close> when it does not end. No fuel is used.

  \<^bold>\<open>Assumptions on the database.\<close> A statement fails as a whole or not at all; a transaction whose commit
  fails is rolled back; columns filled by the database clock are left out; arithmetic wraps around as in
  a release build.

  \<^bold>\<open>Not modelled.\<close> The diagnostic log stream (its start may fail, which is modelled; its lines decide nothing);
  the tokio runtime and sleeping between polls (time passes only through clock readings); zeroisation of
  secrets; clap's argument parsing; the web application; connecting to the database
  and applying migrations, beyond that they may fail. Of the contracts: the vaults, their adapters and the
  protocol token, which the modelled contracts reach through ERC-20 and ERC-4626 calls that are parameters; OpenZeppelin's
  access control, a role table with grants and revocations outside; gas; and calls back into a contract while it calls
  another (deposits and withdrawals are \<open>nonReentrant\<close>).
\<close>

end
